(* ===== verification/Cv_Prelude.thy ===== *)
theory Cv_Prelude
  imports Main "HOL-Library.List_Lexorder" "HOL-Library.Char_ord"
begin

text \<open>
  Shared vocabulary of the development: the result type of fallible catalog code, its
  sequencing combinators with their inversion rules, and the JavaScript string operations
  the code uses, on strings that hold the UTF-8 encoding of the JavaScript string.

  A transaction of the code is a function from the catalog to a failure or a pair of a
  result and the next catalog. A thrown exception is \<open>Inl\<close>: no next catalog, as
  SQLite rolls the transaction back.
\<close>

section \<open>Sequencing of fallible code\<close>

type_synonym id = string
type_synonym timestamp = string

text \<open>\<open>sbind m f\<close> runs \<open>m\<close> and stops at its exception, \<open>require b e\<close> is the code's
  \<open>if (!b) fail(...)\<close>.\<close>

definition sbind :: "'e + 'a \<Rightarrow> ('a \<Rightarrow> 'e + 'b) \<Rightarrow> 'e + 'b" where
  "sbind m f = (case m of Inl e \<Rightarrow> Inl e | Inr a \<Rightarrow> f a)"

definition require :: "bool \<Rightarrow> 'e \<Rightarrow> 'e + unit" where
  "require b e = (if b then Inr () else Inl e)"

definition found :: "'a option \<Rightarrow> 'e \<Rightarrow> 'e + 'a" where
  "found x e = (case x of None \<Rightarrow> Inl e | Some a \<Rightarrow> Inr a)"

fun each :: "('a \<Rightarrow> 's \<Rightarrow> 'e + 's) \<Rightarrow> 'a list \<Rightarrow> 's \<Rightarrow> 'e + 's" where
  "each f [] s = Inr s"
| "each f (x # xs) s = sbind (f x s) (each f xs)"

named_theorems txn_simps "inversion rules for successful and failing catalog code"

lemma sbind_Inl [simp]: "sbind (Inl e) f = Inl e"
  by (simp add: sbind_def)

lemma sbind_Inr [simp]: "sbind (Inr a) f = f a"
  by (simp add: sbind_def)

lemma sbind_eq_Inr [txn_simps]: "sbind m f = Inr r \<longleftrightarrow> (\<exists>a. m = Inr a \<and> f a = Inr r)"
  by (cases m) simp_all

lemma sbind_eq_Inl: "sbind m f = Inl e \<longleftrightarrow> m = Inl e \<or> (\<exists>a. m = Inr a \<and> f a = Inl e)"
  by (cases m) simp_all

lemma sbind_assoc: "sbind (sbind m f) g = sbind m (\<lambda>a. sbind (f a) g)"
  by (cases m) simp_all

lemma require_eq_Inr [txn_simps]: "require b e = Inr u \<longleftrightarrow> b"
  by (simp add: require_def)

lemma require_eq_Inl [txn_simps]: "require b e = Inl x \<longleftrightarrow> \<not> b \<and> x = e"
  by (auto simp add: require_def)

lemma require_True [simp]: "b \<Longrightarrow> require b e = Inr ()"
  by (simp add: require_def)

lemma require_False [simp]: "\<not> b \<Longrightarrow> require b e = Inl e"
  by (simp add: require_def)

lemma found_eq_Inr [txn_simps]: "found x e = Inr a \<longleftrightarrow> x = Some a"
  by (cases x) (simp_all add: found_def)

lemma found_Some [simp]: "found (Some a) e = Inr a"
  by (simp add: found_def)

lemma found_None [simp]: "found None e = Inl e"
  by (simp add: found_def)

lemma sbind_cong [fundef_cong]:
  "m = m' \<Longrightarrow> (\<And>a. m' = Inr a \<Longrightarrow> f a = g a) \<Longrightarrow> sbind m f = sbind m' g"
  by (cases m') simp_all

lemma each_invariant:
  assumes "each f xs s = Inr s'" and "P s"
    and "\<And>x s s'. x \<in> set xs \<Longrightarrow> P s \<Longrightarrow> f x s = Inr s' \<Longrightarrow> P s'"
  shows "P s'"
  using assms
proof (induction xs arbitrary: s)
  case (Cons x xs)
  from Cons.prems(1) obtain t where t: "f x s = Inr t" and rest: "each f xs t = Inr s'"
    by (auto simp: txn_simps)
  from Cons.prems(2,3) t have "P t" by (meson list.set_intros(1))
  with rest Cons.prems(3) show ?case
    by (intro Cons.IH) (auto intro: list.set_intros(2))
qed simp

section \<open>Postconditions\<close>

text \<open>\<open>post m Q\<close>: whenever the transaction \<open>m\<close> succeeds, \<open>Q\<close> holds of its result. The rules of
  \<open>post_simps\<close> push it through the code, one rule per operation, so that a property of an operation
  is proved by simplification along its control flow.\<close>

definition post :: "'e + 'a \<Rightarrow> ('a \<Rightarrow> bool) \<Rightarrow> bool" where
  "post m Q \<longleftrightarrow> (\<forall>a. m = Inr a \<longrightarrow> Q a)"

named_theorems post_simps "postconditions of catalog code"

lemma postI: "(\<And>a. m = Inr a \<Longrightarrow> Q a) \<Longrightarrow> post m Q"
  by (simp add: post_def)

lemma postD: "post m Q \<Longrightarrow> m = Inr a \<Longrightarrow> Q a"
  by (simp add: post_def)

lemma post_mono: "post m Q \<Longrightarrow> (\<And>a. Q a \<Longrightarrow> R a) \<Longrightarrow> post m R"
  by (simp add: post_def)

lemma post_True [simp]: "post m (\<lambda>_. True)"
  by (simp add: post_def)

lemma post_sbind [post_simps]: "post (sbind m f) Q \<longleftrightarrow> post m (\<lambda>a. post (f a) Q)"
  by (cases m) (simp_all add: post_def)

lemma post_Inr [post_simps]: "post (Inr a) Q \<longleftrightarrow> Q a"
  by (simp add: post_def)

lemma post_Inl [post_simps]: "post (Inl e) Q"
  by (simp add: post_def)

lemma post_require [post_simps]: "post (require b e) Q \<longleftrightarrow> (b \<longrightarrow> Q ())"
  by (auto simp: post_def require_def)

lemma post_found [post_simps]: "post (found x e) Q \<longleftrightarrow> (\<forall>a. x = Some a \<longrightarrow> Q a)"
  by (cases x) (simp_all add: post_def)

lemma post_if [post_simps]: "post (if b then m else n) Q \<longleftrightarrow> (b \<longrightarrow> post m Q) \<and> (\<not> b \<longrightarrow> post n Q)"
  by simp

lemma post_option [post_simps]:
  "post (case x of None \<Rightarrow> m | Some y \<Rightarrow> f y) Q \<longleftrightarrow> (x = None \<longrightarrow> post m Q) \<and> (\<forall>y. x = Some y \<longrightarrow> post (f y) Q)"
  by (cases x) simp_all

lemma post_list [post_simps]:
  "post (case xs of [] \<Rightarrow> m | y # ys \<Rightarrow> f y ys) Q \<longleftrightarrow> (xs = [] \<longrightarrow> post m Q) \<and> (\<forall>y ys. xs = y # ys \<longrightarrow> post (f y ys) Q)"
  by (cases xs) simp_all

lemma post_each:
  assumes "I s" and "\<And>x s. x \<in> set xs \<Longrightarrow> I s \<Longrightarrow> post (f x s) I"
  shows "post (each f xs s) I"
proof (rule postI)
  fix s' assume "each f xs s = Inr s'"
  then show "I s'" using assms(1)
    by (rule each_invariant) (rule postD [OF assms(2)])
qed

section \<open>JavaScript strings\<close>

text \<open>Byte ranges of UTF-8: a string's JavaScript length counts UTF-16 units.\<close>

definition code_units :: "char \<Rightarrow> nat" where
  "code_units c = (let n = (of_char c :: nat) in
     if n < 128 then 1 else if n < 192 then 0 else if n < 240 then 1 else 2)"

definition js_length :: "string \<Rightarrow> nat" where
  "js_length s = sum_list (map code_units s)"

definition byte_at :: "nat \<Rightarrow> char" where
  "byte_at n = char_of n"

text \<open>\<open>String.prototype.trim\<close> leaves nothing exactly when every character is a
  JavaScript white space or line terminator.\<close>

definition ascii_space :: "char \<Rightarrow> bool" where
  "ascii_space c = (let n = (of_char c :: nat) in n = 32 \<or> 9 \<le> n \<and> n \<le> 13)"

definition wide_space :: "nat \<Rightarrow> nat \<Rightarrow> nat \<Rightarrow> bool" where
  "wide_space a b c \<longleftrightarrow>
     (a = 225 \<and> b = 154 \<and> c = 128) \<or>
     (a = 226 \<and> b = 128 \<and> (128 \<le> c \<and> c \<le> 138 \<or> c = 168 \<or> c = 169 \<or> c = 175)) \<or>
     (a = 226 \<and> b = 129 \<and> c = 159) \<or>
     (a = 227 \<and> b = 128 \<and> c = 128) \<or>
     (a = 239 \<and> b = 187 \<and> c = 191)"

fun blank_bytes :: "nat list \<Rightarrow> bool" where
  "blank_bytes [] = True"
| "blank_bytes (a # rest) =
     (if a = 32 \<or> 9 \<le> a \<and> a \<le> 13 then blank_bytes rest
      else case rest of
        [] \<Rightarrow> False
      | b # rest2 \<Rightarrow>
          if a = 194 \<and> b = 160 then blank_bytes rest2
          else case rest2 of
            [] \<Rightarrow> False
          | c # rest3 \<Rightarrow> wide_space a b c \<and> blank_bytes rest3)"

definition blank :: "string \<Rightarrow> bool" where
  "blank s = blank_bytes (map of_char s)"

definition safe_integer :: "int \<Rightarrow> bool" where
  "safe_integer n \<longleftrightarrow> \<bar>n\<bar> \<le> 2 ^ 53 - 1"

definition is_hex :: "char \<Rightarrow> bool" where
  "is_hex c = (c \<in> set ''0123456789abcdef'')"

text \<open>The pattern \<open>^[a-f0-9]{64}$\<close>.\<close>

definition sha256_text :: "string \<Rightarrow> bool" where
  "sha256_text s \<longleftrightarrow> length s = 64 \<and> list_all is_hex s"

text \<open>POSIX \<open>path.isAbsolute\<close>.\<close>

definition is_absolute :: "string \<Rightarrow> bool" where
  "is_absolute p = (case p of [] \<Rightarrow> False | c # _ \<Rightarrow> c = CHR ''/'')"

fun split_on :: "char \<Rightarrow> string \<Rightarrow> string list" where
  "split_on d [] = [[]]"
| "split_on d (c # cs) =
     (if c = d then [] # split_on d cs
      else case split_on d cs of [] \<Rightarrow> [[c]] | w # ws \<Rightarrow> (c # w) # ws)"

fun join_with :: "string \<Rightarrow> string list \<Rightarrow> string" where
  "join_with d [] = []"
| "join_with d [w] = w"
| "join_with d (w # v # ws) = w @ d @ join_with d (v # ws)"

fun digits_of :: "nat \<Rightarrow> string" where
  "digits_of n = (if n < 10 then [char_of (48 + n)] else digits_of (n div 10) @ [char_of (48 + n mod 10)])"

declare digits_of.simps [simp del]

definition int_text :: "int \<Rightarrow> string" where
  "int_text n = (if n < 0 then CHR ''-'' # digits_of (nat (- n)) else digits_of (nat n))"

text \<open>\<open>encodeURIComponent\<close>: every byte outside the unreserved set becomes \<open>%XX\<close>.\<close>

definition unreserved :: "char \<Rightarrow> bool" where
  "unreserved c = (c \<in> set ''ABCDEFGHIJKLMNOPQRSTUVWXYZabcdefghijklmnopqrstuvwxyz0123456789-_.!~*()''
     \<or> c = char_of (39 :: nat))"

definition hex_digit :: "nat \<Rightarrow> char" where
  "hex_digit n = ''0123456789ABCDEF'' ! n"

definition encode_uri_component :: "string \<Rightarrow> string" where
  "encode_uri_component s = concat (map (\<lambda>c. if unreserved c then [c]
     else let n = (of_char c :: nat) in [CHR ''%'', hex_digit (n div 16), hex_digit (n mod 16)]) s)"

section \<open>Lists\<close>

lemma split_on_nonempty [simp]: "split_on d s \<noteq> []"
  by (induction s) (auto split: list.splits)

lemma join_split_on: "join_with [d] (split_on d s) = s"
proof (induction s)
  case (Cons c s)
  obtain w ws where ws: "split_on d s = w # ws"
    using split_on_nonempty [of d s] by (cases "split_on d s") auto
  with Cons show ?case by (cases ws) auto
qed simp

lemma split_on_no_sep: "w \<in> set (split_on d s) \<Longrightarrow> d \<notin> set w"
proof (induction s arbitrary: w)
  case (Cons c s)
  obtain v vs where "split_on d s = v # vs"
    using split_on_nonempty [of d s] by (cases "split_on d s") auto
  with Cons show ?case by (auto split: if_splits)
qed simp

lemma find_Some_in: "find P xs = Some x \<Longrightarrow> x \<in> set xs \<and> P x"
  by (auto simp: find_Some_iff)

end
