(* ===== verification/Cv_Errors.thy ===== *)
theory Cv_Errors
  imports Cv_Prelude
begin

text \<open>
  \<open>src/domain/errors.ts\<close> and \<open>src/domain/lifecycle.ts\<close>: the error codes with their HTTP
  status, the failure a catalog transaction can end in, and the run and cleanup lifecycle
  tables. A failure keeps the code of a \<open>WorkspaceError\<close>; its message text is not modelled.
  Every other thrown value (a plain \<open>Error\<close>, a \<open>TypeError\<close>, an SQLite constraint error) is
  \<open>Crash\<close>.
\<close>

section \<open>Error codes\<close>

datatype error_code =
    INVALID_REQUEST | UNAUTHENTICATED | FORBIDDEN | CREDENTIAL_REVOKED
  | WORKSPACE_NOT_FOUND | RUN_NOT_FOUND | SUBMISSION_NOT_FOUND | OPERATION_NOT_FOUND
  | REVISION_NOT_FOUND | IDEMPOTENCY_KEY_REUSED | REVISION_CONFLICT | VERSION_CONFLICT
  | STALE_FENCE | STORAGE_BINDING_CHANGED | WORKSPACE_INACTIVE | FINALIZATION_IN_PROGRESS
  | INVALID_TRANSITION | SUBMISSION_SEALED | CAPTURE_CHANGED | UNSUPPORTED_CAPABILITY
  | RUN_EXPIRED | QUOTA_EXCEEDED | INVALID_MANIFEST | RECEIPT_MISMATCH
  | PUBLICATION_OUTCOME_UNKNOWN | STORAGE_UNAVAILABLE

primrec error_status :: "error_code \<Rightarrow> nat" where
  "error_status INVALID_REQUEST = 400"
| "error_status UNAUTHENTICATED = 401"
| "error_status FORBIDDEN = 403"
| "error_status CREDENTIAL_REVOKED = 403"
| "error_status WORKSPACE_NOT_FOUND = 404"
| "error_status RUN_NOT_FOUND = 404"
| "error_status SUBMISSION_NOT_FOUND = 404"
| "error_status OPERATION_NOT_FOUND = 404"
| "error_status REVISION_NOT_FOUND = 404"
| "error_status IDEMPOTENCY_KEY_REUSED = 409"
| "error_status REVISION_CONFLICT = 409"
| "error_status VERSION_CONFLICT = 409"
| "error_status STALE_FENCE = 409"
| "error_status STORAGE_BINDING_CHANGED = 409"
| "error_status WORKSPACE_INACTIVE = 409"
| "error_status FINALIZATION_IN_PROGRESS = 409"
| "error_status INVALID_TRANSITION = 409"
| "error_status SUBMISSION_SEALED = 409"
| "error_status CAPTURE_CHANGED = 409"
| "error_status UNSUPPORTED_CAPABILITY = 409"
| "error_status RUN_EXPIRED = 410"
| "error_status QUOTA_EXCEEDED = 413"
| "error_status INVALID_MANIFEST = 422"
| "error_status RECEIPT_MISMATCH = 422"
| "error_status PUBLICATION_OUTCOME_UNKNOWN = 503"
| "error_status STORAGE_UNAVAILABLE = 503"

datatype failure = Fail error_code | Crash

section \<open>Lifecycles\<close>

datatype run_state = Active | Finalizing | Finalized | Aborted | Conflicted | Failed | Expired

datatype cleanup_state = CleanupPending | CleanupRunning | CleanupComplete | CleanupFailed

definition terminal_run_states :: "run_state list" where
  "terminal_run_states = [Finalized, Aborted, Conflicted, Failed, Expired]"

primrec run_transitions :: "run_state \<Rightarrow> run_state list" where
  "run_transitions Active = [Finalizing, Aborted, Failed, Expired]"
| "run_transitions Finalizing = [Finalized, Conflicted, Failed]"
| "run_transitions Finalized = []"
| "run_transitions Aborted = []"
| "run_transitions Conflicted = []"
| "run_transitions Failed = []"
| "run_transitions Expired = []"

primrec cleanup_transitions :: "cleanup_state \<Rightarrow> cleanup_state list" where
  "cleanup_transitions CleanupPending = [CleanupRunning]"
| "cleanup_transitions CleanupRunning = [CleanupComplete, CleanupFailed]"
| "cleanup_transitions CleanupComplete = []"
| "cleanup_transitions CleanupFailed = [CleanupRunning]"

definition can_transition_run :: "run_state \<Rightarrow> run_state \<Rightarrow> bool" where
  "can_transition_run f t = (t \<in> set (run_transitions f))"

definition can_transition_cleanup :: "cleanup_state \<Rightarrow> cleanup_state \<Rightarrow> bool" where
  "can_transition_cleanup f t = (t \<in> set (cleanup_transitions f))"

lemma terminal_iff_no_transition:
  "r \<in> set terminal_run_states \<longleftrightarrow> (\<forall>t. \<not> can_transition_run r t)"
  by (cases r) (auto simp: terminal_run_states_def can_transition_run_def)

lemma not_terminal_iff: "r \<notin> set terminal_run_states \<longleftrightarrow> r = Active \<or> r = Finalizing"
  by (cases r) (simp_all add: terminal_run_states_def)

end
