(* ===== verification/Cv_Json.thy ===== *)
theory Cv_Json
  imports Cv_Errors
begin

text \<open>
  \<open>src/domain/idempotency.ts\<close>: canonical JSON. A value the program may hold is a \<open>json\<close>
  tree. Numbers inside the safe integer range are \<open>JInt\<close>; any other finite number is
  \<open>JNum\<close> with the text \<open>JSON.stringify\<close> gives it; \<open>JOther\<close> stands for every value
  outside JSON (\<open>undefined\<close>, functions, non-finite numbers, objects with a foreign prototype,
  strings with a lone surrogate). Trees have no cycles, so the code's cycle test never fires.
  Strings are UTF-8, so \<open>Buffer.compare\<close> is the order on \<open>string\<close>.

  \<open>Cv_Readable\<close> proves that equal canonical texts come only from values that are equal up to
  the order of object keys, so the code may compare values by comparing texts.
\<close>

datatype json =
    JNull
  | JBool bool
  | JInt int
  | JNum string
  | JStr string
  | JArr "json list"
  | JObj "(string \<times> json) list"
  | JOther

section \<open>JSON.stringify of a string\<close>

definition quote_char :: char where "quote_char = char_of (34 :: nat)"
definition backslash :: char where "backslash = char_of (92 :: nat)"

definition low_hex :: "nat \<Rightarrow> char" where
  "low_hex n = ''0123456789abcdef'' ! n"

definition escape_char :: "char \<Rightarrow> string" where
  "escape_char c = (let n = (of_char c :: nat) in
     if c = quote_char then [backslash, quote_char]
     else if c = backslash then [backslash, backslash]
     else if n = 8 then [backslash, CHR ''b'']
     else if n = 9 then [backslash, CHR ''t'']
     else if n = 10 then [backslash, CHR ''n'']
     else if n = 12 then [backslash, CHR ''f'']
     else if n = 13 then [backslash, CHR ''r'']
     else if n < 32 then [backslash, CHR ''u'', CHR ''0'', CHR ''0'', low_hex (n div 16), low_hex (n mod 16)]
     else [c])"

definition escape_string :: "string \<Rightarrow> string" where
  "escape_string s = concat (map escape_char s)"

definition json_string :: "string \<Rightarrow> string" where
  "json_string s = quote_char # escape_string s @ [quote_char]"

section \<open>Canonical text\<close>

definition invalid_request :: "failure + 'a" where
  "invalid_request = Inl (Fail INVALID_REQUEST)"

fun insert_pair :: "string \<times> 'a \<Rightarrow> (string \<times> 'a) list \<Rightarrow> (string \<times> 'a) list" where
  "insert_pair p [] = [p]"
| "insert_pair p (q # qs) = (if fst p \<le> fst q then p # q # qs else q # insert_pair p qs)"

definition sort_pairs :: "(string \<times> 'a) list \<Rightarrow> (string \<times> 'a) list" where
  "sort_pairs ps = foldr insert_pair ps []"

fun canonical_json :: "json \<Rightarrow> failure + string"
  and canonical_list :: "json list \<Rightarrow> failure + string list"
  and canonical_pairs :: "(string \<times> json) list \<Rightarrow> failure + (string \<times> string) list" where
  "canonical_json JNull = Inr ''null''"
| "canonical_json (JBool b) = Inr (if b then ''true'' else ''false'')"
| "canonical_json (JInt n) = Inr (int_text n)"
| "canonical_json (JNum t) = Inr t"
| "canonical_json (JStr s) = Inr (json_string s)"
| "canonical_json (JArr xs) =
     sbind (canonical_list xs) (\<lambda>ts. Inr (''['' @ join_with '','' ts @ '']''))"
| "canonical_json (JObj ps) =
     sbind (canonical_pairs ps) (\<lambda>ts.
       Inr (''{'' @ join_with '','' (map (\<lambda>(k, t). json_string k @ '':'' @ t) (sort_pairs ts)) @ ''}''))"
| "canonical_json JOther = invalid_request"
| "canonical_list [] = Inr []"
| "canonical_list (x # xs) =
     sbind (canonical_json x) (\<lambda>t. sbind (canonical_list xs) (\<lambda>ts. Inr (t # ts)))"
| "canonical_pairs [] = Inr []"
| "canonical_pairs ((k, v) # ps) =
     sbind (canonical_json v) (\<lambda>t. sbind (canonical_pairs ps) (\<lambda>ts. Inr ((k, t) # ts)))"

end
