(* ===== verification/Cv_Model.thy ===== *)
theory Cv_Model
  imports Cv_Json
begin

text \<open>
  \<open>src/domain/model.ts\<close>, \<open>src/domain/http.ts\<close> and the record types of
  \<open>src/ports/control-store.ts\<close>: the data of the catalog. Mutable catalog objects are
  records, identities and other immutable values are datatypes with the source's field names
  as selectors. A field of type \<open>T | null\<close> (or an optional field) is an option. Versions,
  fences, generations and byte lengths are \<open>int\<close>: the code's guards on them are written out.
  Timestamps are ISO strings, compared as the code compares them, character by character.
\<close>

section \<open>Scopes\<close>

datatype workspace_scope = WorkspaceScope (wsc_customerId: id) (wsc_workspaceId: id)

datatype binding_scope = BindingScope (bsc_customerId: id) (bsc_workspaceId: id)
  (bsc_storageBindingId: id) (bsc_bindingGeneration: int)

datatype run_scope = RunScope (rsc_customerId: id) (rsc_workspaceId: id)
  (rsc_storageBindingId: id) (rsc_bindingGeneration: int) (rsc_runId: id)

text \<open>The union \<open>CustomerScope | WorkspaceScope\<close> the catalog reads and writes under.\<close>

datatype scope = InCustomer id | InWorkspace id id

primrec scope_customer :: "scope \<Rightarrow> id" where
  "scope_customer (InCustomer c) = c"
| "scope_customer (InWorkspace c w) = c"

primrec scope_workspace :: "scope \<Rightarrow> id option" where
  "scope_workspace (InCustomer c) = None"
| "scope_workspace (InWorkspace c w) = Some w"

definition of_ws :: "workspace_scope \<Rightarrow> scope" where
  "of_ws s = InWorkspace (wsc_customerId s) (wsc_workspaceId s)"

definition of_bs :: "binding_scope \<Rightarrow> scope" where
  "of_bs s = InWorkspace (bsc_customerId s) (bsc_workspaceId s)"

definition of_rs :: "run_scope \<Rightarrow> scope" where
  "of_rs s = InWorkspace (rsc_customerId s) (rsc_workspaceId s)"

definition rs_workspace :: "run_scope \<Rightarrow> workspace_scope" where
  "rs_workspace s = WorkspaceScope (rsc_customerId s) (rsc_workspaceId s)"

definition rs_binding :: "run_scope \<Rightarrow> binding_scope" where
  "rs_binding s = BindingScope (rsc_customerId s) (rsc_workspaceId s) (rsc_storageBindingId s) (rsc_bindingGeneration s)"

definition bs_workspace :: "binding_scope \<Rightarrow> workspace_scope" where
  "bs_workspace s = WorkspaceScope (bsc_customerId s) (bsc_workspaceId s)"

section \<open>Identities and permissions\<close>

datatype action =
    WorkspaceCreate | WorkspaceRead | WorkspaceWrite | WorkspaceDelete | WorkspaceRestore
  | WorkspaceExport | WorkspaceAdmin | WorkspaceMigrate | CredentialManage
  | RunOpenRead | RunOpenWrite | RunRead | RunUpload | RunFinalize | RunAbort | RunHeartbeat
  | OperationRead

datatype permission_grant = PermissionGrant (gr_action: action) (gr_customerId: id) (gr_workspaceId: "id option")

datatype credential_kind = ApiKey | ServiceCredential | ExternalCredential

datatype credential_identity = CredentialIdentity (ci_id: id) (ci_kind: credential_kind) (ci_version: int)

datatype principal_kind = Customer id | Service id | Administrator

datatype principal = Principal (pr_kind: principal_kind) (pr_actorId: id) (pr_credential: credential_identity)
  (pr_permissionEpoch: int) (pr_authenticatedAt: timestamp)

definition pr_customerId :: "principal \<Rightarrow> id option" where
  "pr_customerId p = (case pr_kind p of Customer c \<Rightarrow> Some c | Service c \<Rightarrow> Some c | Administrator \<Rightarrow> None)"

datatype authorization = AuthorizationPrecondition (au_principal: principal) (au_scope: scope) (au_action: action)
  (au_policyVersion: int) (au_permissionEpoch: int) (au_credentialVersion: int)

record authority =
  at_credentialId :: id
  at_actorId :: id
  at_customerId :: "id option"
  at_credentialVersion :: int
  at_permissionEpoch :: int
  at_policyVersion :: int
  at_revokedAt :: "timestamp option"
  at_grants :: "permission_grant list"

section \<open>Manifests\<close>

datatype manifest_entry =
    FileEntry (me_path: string) (me_byteLength: int) (me_sha256: string)
  | DirectoryEntry (me_path: string)

datatype manifest = Manifest (mf_entries: "manifest_entry list")

section \<open>Workspaces, revisions, candidates\<close>

datatype private_locator = PrivateLocator (pl_storeId: string) (pl_opaqueKey: string)

datatype backend = GitBackend | S3Backend
datatype binding_status = BindingActive | BindingRetired

record storage_binding =
  sb_id :: id
  sb_scope :: workspace_scope
  sb_backend :: backend
  sb_generation :: int
  sb_location :: private_locator
  sb_configurationRef :: string
  sb_status :: binding_status
  sb_createdAt :: timestamp

datatype workspace_status = WsActive | WsSuspended | WsDeleted

record workspace =
  ws_id :: id
  ws_customerId :: id
  ws_name :: string
  ws_currentRevisionId :: id
  ws_version :: int
  ws_status :: workspace_status
  ws_storageBindingId :: id
  ws_bindingGeneration :: int
  ws_createdAt :: timestamp
  ws_updatedAt :: timestamp

record revision =
  rv_id :: id
  rv_scope :: binding_scope
  rv_parentRevisionId :: "id option"
  rv_manifestDigest :: string
  rv_privateReference :: private_locator
  rv_originatingOperationId :: id
  rv_createdAt :: timestamp

datatype prepared_revision = PreparedRevision (pp_candidateId: id) (pp_revisionId: id) (pp_scope: binding_scope)
  (pp_parentRevisionId: "id option") (pp_operationId: id) (pp_manifestDigest: string)
  (pp_privateReference: private_locator) (pp_preparedAt: timestamp)

datatype candidate_identity = CandidateIdentity (cd_candidateId: id) (cd_revisionId: id) (cd_operationId: id)
  (cd_scope: binding_scope) (cd_parentRevisionId: "id option") (cd_createdAt: timestamp)

section \<open>Runs\<close>

datatype run_mode = ReadOnly | ReadWrite

datatype run_lease = RunLease (rl_version: int) (rl_expiresAt: timestamp) (rl_lastHeartbeatAt: timestamp)

datatype run_outcome = RunOutcome (ro_state: run_state) (ro_revisionId: "id option") (ro_changed: bool)
  (ro_completedAt: timestamp) (ro_errorCode: "error_code option")

record run =
  rn_id :: id
  rn_scope :: binding_scope
  rn_principal :: principal
  rn_agentLabel :: string
  rn_task :: string
  rn_reason :: string
  rn_mode :: run_mode
  rn_baseRevisionId :: id
  rn_workspaceVersionAtOpen :: int
  rn_version :: int
  rn_state :: run_state
  rn_lease :: run_lease
  rn_operationId :: "id option"
  rn_outcome :: "run_outcome option"
  rn_cleanupId :: id
  rn_createdAt :: timestamp
  rn_updatedAt :: timestamp

section \<open>Submissions\<close>

datatype upload_receipt = UploadReceipt (ur_id: id) (ur_scope: run_scope) (ur_submissionId: id) (ur_path: string)
  (ur_byteLength: int) (ur_sha256: string) (ur_privateReference: private_locator) (ur_completedAt: timestamp)

datatype receipt_selection = ReceiptSelection (rs_path: string) (rs_receiptId: id)

datatype submission_state = Uploading | Sealed | SubmissionExpired

record submission =
  sm_id :: id
  sm_scope :: run_scope
  sm_state :: submission_state
  sm_version :: int
  sm_expiresAt :: timestamp
  sm_manifest :: "manifest option"
  sm_manifestDigest :: "string option"
  sm_receipts :: "receipt_selection list"
  sm_createdAt :: timestamp
  sm_sealedAt :: "timestamp option"

section \<open>Commands, claims and intents\<close>

datatype operation_kind =
    KWorkspaceCreate | KWorkspaceStatus | KStorageMigrate | KRevisionAlias | KRunOpen
  | KSubmissionCreate | KSubmissionFile | KSubmissionSeal | KRunHeartbeat | KFinalize | KAbort | KRestore

datatype idempotency_scope = IdempotencyScope (is_customerId: id) (is_actorId: id) (is_kind: operation_kind)
  (is_workspaceId: "id option") (is_runId: "id option")

datatype command_identity = CommandIdentity (cm_scope: idempotency_scope) (cm_key: string)
  (cm_requestDigest: string) (cm_operationId: id) (cm_requestedAt: timestamp)

datatype processing_claim = ProcessingClaim (pc_ownerId: string) (pc_fence: int) (pc_expiresAt: timestamp)

datatype 'b json_request = JsonRequest (rq_method: string) (rq_path: string) (rq_body: 'b)

datatype create_body = CreateBody (cb_customerId: id) (cb_name: string)
datatype finalize_body = FinalizeBody (fb_expectedRunVersion: int) (fb_submissionId: "id option")
datatype restore_body = RestoreBody (rb_revisionId: id) (rb_expectedRevisionId: id)
  (rb_expectedWorkspaceVersion: int) (rb_reason: string)

datatype sealed_selection = SealedSelection (ss_submissionId: id) (ss_submissionVersion: int) (ss_manifestDigest: string)

datatype finalization_intent = FinalizationIntent (fi_schemaVersion: int) (fi_kind: operation_kind) (fi_mode: run_mode)
  (fi_request: "finalize_body json_request") (fi_source: "sealed_selection option")
  (fi_candidateIdentity: "candidate_identity option")

datatype creation_intent = CreationIntent (wi_schemaVersion: int) (wi_kind: operation_kind)
  (wi_request: "create_body json_request") (wi_workspace: workspace) (wi_binding: storage_binding)
  (wi_candidateIdentity: candidate_identity) (wi_initialManifest: manifest) (wi_initialManifestDigest: string)

section \<open>Bundles, copy pins, restores\<close>

datatype bundle_file = BundleFile (bf_path: string) (bf_size: int) (bf_hash: string)

datatype bundle_header = BundleHeader (bh_version: string) (bh_workspaceId: id) (bh_revisionId: id)
  (bh_createdAt: timestamp) (bh_schemaVersion: string) (bh_signatureAlgorithm: string) (bh_signedBy: string)
  (bh_keyId: string) (bh_files: "bundle_file list") (bh_snapshot: json) (bh_signature: string)

datatype bundle_kind = ExportBundle | UploadBundle
datatype bundle_state = BundlePreparing | BundleUploading | BundleReady

record bundle_record =
  bu_id :: id
  bu_customerId :: id
  bu_principal :: principal
  bu_kind :: bundle_kind
  bu_idempotencyKey :: string
  bu_requestDigest :: string
  bu_state :: bundle_state
  bu_version :: int
  bu_source :: "revision option"
  bu_header :: "bundle_header option"
  bu_manifestDigest :: "string option"
  bu_createdAt :: timestamp
  bu_updatedAt :: timestamp

datatype revision_source = RevisionSource (so_revision: revision) (so_binding: storage_binding) (so_principal: principal)
datatype restore_source = FromRevision revision_source | FromBundle bundle_record

datatype restore_intent = RestoreIntent (ri_schemaVersion: int) (ri_kind: operation_kind)
  (ri_request: "restore_body json_request") (ri_source: restore_source) (ri_sourceManifestDigest: string)
  (ri_candidateIdentity: candidate_identity) (ri_destinationAction: action)

datatype copy_target = CopyTarget (ct_customerId: id) (ct_workspaceId: id) (ct_name: string) (ct_principal: principal)
  (ct_createIdempotencyKey: string) (ct_restoreIdempotencyKey: string)

datatype pin_state = PinHeld | PinReleased

record copy_pin =
  cp_id :: id
  cp_scope :: workspace_scope
  cp_principal :: principal
  cp_idempotencyKey :: string
  cp_requestDigest :: string
  cp_request :: json
  cp_source :: restore_source
  cp_target :: copy_target
  cp_state :: pin_state
  cp_terminalOperationId :: "id option"
  cp_createdAt :: timestamp
  cp_releasedAt :: "timestamp option"

section \<open>Operations\<close>

datatype revision_alias = RevisionAlias (al_alias: string) (al_revisionId: id)

datatype operation_result =
    ResFinalize run_state "id option" bool
  | ResWorkspaceCreate id id
  | ResWorkspaceStatus id workspace_status
  | ResStorageMigrate id id int
  | ResRevisionAlias id "revision_alias list"
  | ResRunOpen id
  | ResSubmissionCreate id
  | ResSubmissionFile id
  | ResSubmissionSeal id string
  | ResRunHeartbeat id int
  | ResAbort
  | ResRestore id bool

datatype intent =
    FinalizeIntent finalization_intent
  | CreateIntent creation_intent
  | RestoreOpIntent restore_intent
  | CommandIntent "candidate_identity option"

primrec intent_candidateIdentity :: "intent \<Rightarrow> candidate_identity option" where
  "intent_candidateIdentity (FinalizeIntent i) = fi_candidateIdentity i"
| "intent_candidateIdentity (CreateIntent i) = Some (wi_candidateIdentity i)"
| "intent_candidateIdentity (RestoreOpIntent i) = Some (ri_candidateIdentity i)"
| "intent_candidateIdentity (CommandIntent c) = c"

datatype operation_state = OpPending | OpProcessing | OpSucceeded | OpFailed
datatype operation_phase = PhClaimed | PhPreparing | PhPrepared | PhAccepting | PhComplete

datatype operation_error = OperationError (oe_code: error_code) (oe_message: string) (oe_retryable: bool)

record operation =
  op_id :: id
  op_kind :: operation_kind
  op_scope :: workspace_scope
  op_runId :: "id option"
  op_principal :: principal
  op_command :: command_identity
  op_state :: operation_state
  op_phase :: operation_phase
  op_version :: int
  op_claim :: "processing_claim option"
  op_candidate :: "prepared_revision option"
  op_result :: "operation_result option"
  op_error :: "operation_error option"
  op_intent :: intent
  op_createdAt :: timestamp
  op_updatedAt :: timestamp

section \<open>Events, cleanup, collection\<close>

datatype audit_event = AuditEvent (ev_id: id) (ev_scope: workspace_scope) (ev_runId: "id option") (ev_operationId: id)
  (ev_actorId: id) (ev_type: string) (ev_payload: json) (ev_createdAt: timestamp)

datatype delivery_state = DeliveryPending | DeliveryRunning | DeliveryComplete | DeliveryFailed

record outbox_event =
  ox_event :: audit_event
  ox_deliveryState :: delivery_state
  ox_version :: int
  ox_attempts :: int
  ox_nextAttemptAt :: timestamp
  ox_claim :: "processing_claim option"

datatype publication_events = PublicationEvents (pe_audit: audit_event) (pe_outbox: outbox_event)

record cleanup =
  cl_id :: id
  cl_scope :: workspace_scope
  cl_runId :: "id option"
  cl_state :: cleanup_state
  cl_version :: int
  cl_attempts :: int
  cl_claim :: "processing_claim option"
  cl_nextAttemptAt :: timestamp
  cl_lastError :: "string option"
  cl_targetCursor :: "string option option"

datatype permit_target =
    PreparedTarget private_locator
  | PartialTarget candidate_identity string

datatype collection_permit = CollectionPermit (cq_scope: binding_scope) (cq_candidateId: id)
  (cq_collectionFence: int) (cq_expiresAt: timestamp) (cq_target: permit_target)

record candidate_record =
  cr_identity :: candidate_identity
  cr_prepared :: "prepared_revision option"
  cr_collection :: "collection_permit option"
  cr_collectedAt :: "timestamp option"

datatype writer_state = WriterActive | WriterFinished

record submission_writer =
  sw_id :: id
  sw_scope :: run_scope
  sw_submissionId :: id
  sw_attemptKey :: string
  sw_storeId :: string
  sw_state :: writer_state
  sw_startedAt :: timestamp
  sw_finishedAt :: "timestamp option"

record candidate_writer =
  cw_id :: id
  cw_identity :: candidate_identity
  cw_ownerId :: string
  cw_processingFence :: int
  cw_state :: writer_state
  cw_startedAt :: timestamp
  cw_finishedAt :: "timestamp option"

datatype submission_permit = SubmissionPermit (sp_scope: run_scope) (sp_submissionId: id) (sp_submissionVersion: int)
  (sp_collectionFence: int) (sp_expiresAt: timestamp)

record submission_collection =
  sc_permit :: submission_permit
  sc_collectedAt :: "timestamp option"
  sc_cursor :: "string option"

datatype collection_attempt = CollectionAttempt (ca_id: string) (ca_attemptKey: string) (ca_storeId: string)
  (ca_writerId: "id option") (ca_receipt: "upload_receipt option")

datatype candidate_target = CandidateTarget (tg_identity: candidate_identity) (tg_prepared: "prepared_revision option")
  (tg_binding: "storage_binding option") (tg_collection: "collection_permit option")

datatype submission_target = SubmissionTarget (st_submission: submission) (st_binding: "storage_binding option")
  (st_collection: "submission_permit option")

section \<open>Migrations and legacy adoption\<close>

datatype verified_copy = VerifiedCopy (vc_revisionId: id) (vc_sourceManifestDigest: string)
  (vc_target: prepared_revision) (vc_verifiedAt: timestamp)

datatype migration_candidate = MigrationCandidate (mc_revisionId: id) (mc_source: revision) (mc_identity: candidate_identity)

datatype backup_state = BackupPreparing | BackupReady
datatype migration_backup = MigrationBackup (mb_directory: string) (mb_state: backup_state) (mb_receiptDigest: "string option")

datatype migration_request = MigrationRequest (mq_targetConfigurationRef: string) (mq_backupRoot: string) (mq_reason: string)

datatype migration_state = Draining | Copying | Verified | MigComplete | MigFailed

record migration =
  mg_id :: id
  mg_scope :: workspace_scope
  mg_command :: command_identity
  mg_sourceBindingId :: id
  mg_sourceBindingGeneration :: int
  mg_targetBinding :: storage_binding
  mg_expectedHeadRevisionId :: id
  mg_retainedRevisionSetDigest :: string
  mg_state :: migration_state
  mg_version :: int
  mg_claim :: processing_claim
  mg_copies :: "verified_copy list"
  mg_candidates :: "migration_candidate list"
  mg_backup :: "migration_backup option"
  mg_request :: "migration_request option"
  mg_lastError :: "string option"
  mg_createdAt :: timestamp
  mg_updatedAt :: timestamp
  mg_switchedAt :: "timestamp option"

datatype source_reference = SourceReference (sr_scope: binding_scope) (sr_privateReference: private_locator)
datatype migration_guards = MigrationGuards (gd_workspaceVersion: int) (gd_sourceReferences: "source_reference list")

datatype legacy_revision = LegacyRevision (lr_alias: string) (lr_parentAlias: "string option")
  (lr_manifest: json) (lr_manifestDigest: string)

datatype legacy_issue = LegacyIssue (li_code: string) (li_message: string) (li_revision: "string option")
  (li_path: "string option") (li_rule: "string option")

datatype legacy_inventory = LegacyInventory (ln_workspaceId: id) (ln_customerId: "id option") (ln_name: string)
  (ln_status: string) (ln_selectedHead: "string option") (ln_revisions: "legacy_revision list")
  (ln_issues: "legacy_issue list") (ln_eligible: bool)

datatype adoption_candidate = AdoptionCandidate (ac_source: legacy_revision) (ac_identity: candidate_identity)

datatype adoption_state = AdoptionPreparing | AdoptionComplete

record adoption =
  ad_id :: id
  ad_scope :: workspace_scope
  ad_command :: command_identity
  ad_sourceFingerprint :: string
  ad_sourceRoot :: string
  ad_databasePath :: string
  ad_inventory :: legacy_inventory
  ad_workspace :: workspace
  ad_binding :: storage_binding
  ad_candidates :: "adoption_candidate list"
  ad_backup :: migration_backup
  ad_copies :: "prepared_revision list"
  ad_state :: adoption_state
  ad_version :: int
  ad_claim :: processing_claim
  ad_createdAt :: timestamp
  ad_updatedAt :: timestamp

section \<open>Subscriptions and deliveries\<close>

datatype representation = Representation (rp_eventType: string) (rp_payload: json) (rp_subscriptionId: id) (rp_deliveryId: string)

record subscription =
  su_id :: id
  su_customerId :: id
  su_active :: bool
  su_eventTypes :: "string list"
  su_destination :: string
  su_signingSecretRef :: "string option"
  su_representation :: "representation option"

datatype delivery = Delivery (dl_eventId: id) (dl_subscriptionId: id) (dl_delivered: bool) (dl_attempts: int)
  (dl_nextAttemptAt: timestamp) (dl_updatedAt: timestamp)

section \<open>Results of commands\<close>

datatype command_value =
    VNull
  | VWorkspace workspace
  | VRun run
  | VSubmission submission
  | VReceipt upload_receipt
  | VAliases "revision_alias list"
  | VMigration migration
  | VAdoption adoption
  | VResult operation_result

datatype command_result = CommandResult (cx_operation: operation) (cx_value: command_value) (cx_replayed: bool)

end
