(* ===== verification/Cv_Table.thy ===== *)
theory Cv_Table
  imports Cv_Model
begin

text \<open>
  The rows of \<open>catalog_records\<close> of one kind, and the access functions \<open>load\<close>, \<open>all\<close>,
  \<open>page\<close> and \<open>write\<close> of \<open>src/adapters/control/sqlite-control-store.ts\<close>. The primary key is
  \<open>(kind, id)\<close>, so the table is modelled as one association list per kind, ordered by id as
  \<open>ORDER BY id\<close> (BINARY collation) reads it.

  The interface every catalog component relies on is the locale \<open>scoped_store\<close>: what a
  lookup returns after a write, and that a write never reaches another scope's record.
\<close>

section \<open>Rows and lookups\<close>

record 'a row =
  row_customer :: id
  row_workspace :: "id option"
  row_run :: "id option"
  row_data :: 'a

type_synonym 'a table = "(id \<times> 'a row) list"

definition mk_row :: "scope \<Rightarrow> id option \<Rightarrow> 'a \<Rightarrow> 'a row" where
  "mk_row sc rid d = \<lparr>row_customer = scope_customer sc, row_workspace = scope_workspace sc, row_run = rid, row_data = d\<rparr>"

definition in_scope :: "scope option \<Rightarrow> 'a row \<Rightarrow> bool" where
  "in_scope sc r = (case sc of
     None \<Rightarrow> True
   | Some (InCustomer c) \<Rightarrow> row_customer r = c
   | Some (InWorkspace c w) \<Rightarrow> row_customer r = c \<and> row_workspace r = Some w)"

definition tbl_load :: "'a table \<Rightarrow> id \<Rightarrow> scope option \<Rightarrow> 'a option" where
  "tbl_load t i sc = (case map_of t i of
     None \<Rightarrow> None
   | Some r \<Rightarrow> if in_scope sc r then Some (row_data r) else None)"

definition tbl_all :: "'a table \<Rightarrow> scope option \<Rightarrow> 'a list" where
  "tbl_all t sc = map row_data (filter (in_scope sc) (map snd t))"

section \<open>Writing\<close>

fun put_row :: "id \<Rightarrow> 'a row \<Rightarrow> 'a table \<Rightarrow> 'a table" where
  "put_row i r [] = [(i, r)]"
| "put_row i r ((j, q) # t) =
     (if i < j then (i, r) # (j, q) # t
      else if i = j then (i, r) # t
      else (j, q) # put_row i r t)"

definition tbl_write :: "'a table \<Rightarrow> id \<Rightarrow> scope \<Rightarrow> 'a \<Rightarrow> bool \<Rightarrow> id option \<Rightarrow> failure + 'a table" where
  "tbl_write t i sc d ins rid = (case map_of t i of
     Some r \<Rightarrow>
       if row_customer r \<noteq> scope_customer sc \<or> row_workspace r \<noteq> scope_workspace sc then Inl (Fail FORBIDDEN)
       else if ins then Inl (Fail VERSION_CONFLICT)
       else Inr (put_row i (r\<lparr>row_data := d, row_run := rid\<rparr>) t)
   | None \<Rightarrow> Inr (put_row i (mk_row sc rid d) t))"

section \<open>Pages\<close>

definition limit_ok :: "int \<Rightarrow> bool" where
  "limit_ok n \<longleftrightarrow> 1 \<le> n \<and> n \<le> 1000"

definition check_limit :: "int \<Rightarrow> failure + int" where
  "check_limit n = (if limit_ok n then Inr n else Inl (Fail INVALID_REQUEST))"

definition tbl_page :: "'a table \<Rightarrow> ('a \<Rightarrow> id) \<Rightarrow> scope \<Rightarrow> string \<Rightarrow> int \<Rightarrow> failure + ('a list \<times> string option)" where
  "tbl_page t key sc cursor limit = sbind (check_limit limit) (\<lambda>_.
     let rows = take (nat limit + 1) (map (row_data \<circ> snd) (filter (\<lambda>(i, r). in_scope (Some sc) r \<and> cursor < i) t));
         more = length rows > nat limit;
         vals = (if more then butlast rows else rows)
     in Inr (vals, if more then Some (key (last vals)) else None))"

section \<open>Laws of the table\<close>

definition writable :: "'a table \<Rightarrow> id \<Rightarrow> scope \<Rightarrow> bool \<Rightarrow> bool" where
  "writable t i sc ins = (case map_of t i of
     None \<Rightarrow> True
   | Some r \<Rightarrow> \<not> ins \<and> row_customer r = scope_customer sc \<and> row_workspace r = scope_workspace sc)"

definition matches :: "scope option \<Rightarrow> scope \<Rightarrow> bool" where
  "matches q sc = (case q of
     None \<Rightarrow> True
   | Some (InCustomer c) \<Rightarrow> scope_customer sc = c
   | Some (InWorkspace c w) \<Rightarrow> scope_customer sc = c \<and> scope_workspace sc = Some w)"

lemma row_data_mk_row [simp]: "row_data (mk_row sc rid d) = d"
  by (simp add: mk_row_def)

lemma row_run_mk_row [simp]: "row_run (mk_row sc rid d) = rid"
  by (simp add: mk_row_def)

lemma in_scope_mk_row [simp]: "in_scope q (mk_row sc rid d) = matches q sc"
  by (simp add: in_scope_def matches_def mk_row_def split: option.splits scope.splits)

lemma matches_self [simp]: "matches (Some sc) sc"
  by (cases sc) (simp_all add: matches_def)

lemma matches_None [simp]: "matches None sc"
  by (simp add: matches_def)

lemma map_of_put_row [simp]: "map_of (put_row i r t) = (map_of t)(i \<mapsto> r)"
  by (induction t) auto

lemma tbl_write_eq_Inr [txn_simps]:
  "tbl_write t i sc d ins rid = Inr t' \<longleftrightarrow> writable t i sc ins \<and> t' = put_row i (mk_row sc rid d) t"
proof (cases "map_of t i")
  case None
  then show ?thesis by (auto simp: tbl_write_def writable_def)
next
  case (Some r)
  have "row_customer r = scope_customer sc \<Longrightarrow> row_workspace r = scope_workspace sc \<Longrightarrow>
      r\<lparr>row_data := d, row_run := rid\<rparr> = mk_row sc rid d"
    by (cases r) (simp add: mk_row_def)
  with Some show ?thesis by (auto simp: tbl_write_def writable_def)
qed

lemma tbl_write_Inr [simp]:
  "writable t i sc ins \<Longrightarrow> tbl_write t i sc d ins rid = Inr (put_row i (mk_row sc rid d) t)"
  by (simp add: tbl_write_eq_Inr)

lemma tbl_write_fails: "\<not> writable t i sc ins \<Longrightarrow> \<exists>c. tbl_write t i sc d ins rid = Inl (Fail c)"
  by (auto simp: tbl_write_def writable_def split: option.splits)

lemma tbl_load_put [simp]:
  "tbl_load (put_row i (mk_row sc rid d) t) j q =
     (if j = i then if matches q sc then Some d else None else tbl_load t j q)"
  by (simp add: tbl_load_def)

lemma writable_weaken [simp]: "writable t i sc True \<Longrightarrow> writable t i sc False"
  by (simp add: writable_def split: option.splits)

lemma writable_insert: "writable t i sc True \<longleftrightarrow> tbl_load t i None = None"
  by (simp add: writable_def tbl_load_def in_scope_def split: option.splits)

lemma writable_overwrite_scope:
  "writable t i sc False \<Longrightarrow> tbl_load t i (Some q) \<noteq> None \<Longrightarrow> matches (Some q) sc"
  by (auto simp: writable_def tbl_load_def in_scope_def matches_def split: option.splits scope.splits if_splits)

lemma tbl_load_unscoped: "tbl_load t i q = Some d \<Longrightarrow> tbl_load t i None = Some d"
  by (auto simp: tbl_load_def in_scope_def split: option.splits if_splits)

lemma tbl_load_workspace_customer:
  "tbl_load t i (Some (InWorkspace c w)) = Some d \<Longrightarrow> tbl_load t i (Some (InCustomer c)) = Some d"
  by (auto simp: tbl_load_def in_scope_def split: option.splits if_splits)

lemma tbl_load_scopes_agree:
  "tbl_load t i p = Some d \<Longrightarrow> tbl_load t i q = Some e \<Longrightarrow> d = e"
  by (auto simp: tbl_load_def split: option.splits if_splits)

lemma loaded_writable: "tbl_load t i (Some (InWorkspace c w)) = Some d \<Longrightarrow> writable t i (InWorkspace c w) False"
  by (auto simp: tbl_load_def writable_def in_scope_def split: option.splits if_splits)

lemma loaded_writable_scope [simp]:
  "tbl_load t i (Some (of_ws ws)) = Some d \<Longrightarrow> writable t i (of_ws ws) False"
  "tbl_load t i (Some (of_bs bs)) = Some d \<Longrightarrow> writable t i (of_bs bs) False"
  "tbl_load t i (Some (of_rs rs)) = Some d \<Longrightarrow> writable t i (of_rs rs) False"
  by (simp_all add: of_ws_def of_bs_def of_rs_def loaded_writable)

lemma writable_found:
  "writable t i (of_ws w) False \<Longrightarrow> tbl_load t i (Some (of_ws w)) = tbl_load t i None"
  by (auto simp: tbl_load_def writable_def in_scope_def of_ws_def split: option.splits)

section \<open>Order\<close>

definition tbl_wf :: "'a table \<Rightarrow> bool" where
  "tbl_wf t = sorted_wrt (<) (map fst t)"

lemma tbl_wf_Nil [simp]: "tbl_wf []"
  by (simp add: tbl_wf_def)

lemma fst_set_put_row: "fst ` set (put_row i r t) = insert i (fst ` set t)"
proof (induction t)
  case (Cons p t)
  then show ?case by (cases p) (simp add: insert_commute)
qed simp

lemma tbl_wf_put_row [intro, simp]: "tbl_wf t \<Longrightarrow> tbl_wf (put_row i r t)"
proof (induction t)
  case (Cons p t)
  obtain j q where p: "p = (j, q)" by (cases p)
  from Cons.prems p have t: "tbl_wf t" and less: "\<forall>k \<in> fst ` set t. j < k"
    by (auto simp: tbl_wf_def)
  show ?case
  proof (cases "i < j")
    case True
    with Cons.prems p less show ?thesis by (auto simp: tbl_wf_def intro: less_trans)
  next
    case False
    with Cons.IH [OF t] p less Cons.prems show ?thesis
      using fst_set_put_row [of i r t] by (auto simp: tbl_wf_def)
  qed
qed (simp add: tbl_wf_def)

lemma tbl_wf_map_of: "tbl_wf t \<Longrightarrow> (i, r) \<in> set t \<longleftrightarrow> map_of t i = Some r"
proof -
  assume "tbl_wf t"
  then have "distinct (map fst t)"
    by (simp add: tbl_wf_def strict_sorted_iff)
  then show ?thesis by simp
qed

lemma in_tbl_all:
  assumes "tbl_wf t"
  shows "d \<in> set (tbl_all t sc) \<longleftrightarrow> (\<exists>i. tbl_load t i sc = Some d)"
proof
  assume "d \<in> set (tbl_all t sc)"
  then obtain i r where "(i, r) \<in> set t" "in_scope sc r" "d = row_data r"
    by (auto simp: tbl_all_def)
  with assms show "\<exists>i. tbl_load t i sc = Some d"
    by (auto simp: tbl_wf_map_of tbl_load_def intro: exI [of _ i])
next
  assume "\<exists>i. tbl_load t i sc = Some d"
  then obtain i r where "map_of t i = Some r" "in_scope sc r" "d = row_data r"
    by (auto simp: tbl_load_def split: option.splits if_splits)
  then show "d \<in> set (tbl_all t sc)"
    by (force simp: tbl_all_def dest: map_of_SomeD)
qed

lemma map_key_tbl_all:
  assumes "tbl_wf t" and "\<And>i d. tbl_load t i None = Some d \<Longrightarrow> key d = i"
  shows "map key (tbl_all t sc) = map fst (filter (in_scope sc \<circ> snd) t)"
proof -
  have "key (row_data r) = i" if "(i, r) \<in> set t" for i r
    using that assms(1) by (intro assms(2)) (simp add: tbl_wf_map_of tbl_load_def in_scope_def)
  then have "map key (map row_data (filter (in_scope sc) (map snd u))) = map fst (filter (in_scope sc \<circ> snd) u)" if "set u \<subseteq> set t" for u
    using that by (induction u) auto
  then show ?thesis by (simp add: tbl_all_def)
qed

lemma sorted_tbl_all:
  assumes "tbl_wf t" and "\<And>i d. tbl_load t i None = Some d \<Longrightarrow> key d = i"
  shows "sorted_wrt (<) (map key (tbl_all t sc))"
proof -
  have "sorted_wrt (\<lambda>x y. fst x < fst y) (filter (in_scope sc \<circ> snd) t)"
    using assms(1) by (intro sorted_wrt_filter) (simp add: tbl_wf_def sorted_wrt_map)
  then show ?thesis
    by (simp only: map_key_tbl_all [OF assms] sorted_wrt_map)
qed

lemma distinct_tbl_all:
  "tbl_wf t \<Longrightarrow> (\<And>i d. tbl_load t i None = Some d \<Longrightarrow> key d = i) \<Longrightarrow> distinct (map key (tbl_all t sc))"
  using sorted_tbl_all [of t key sc] by (simp only: strict_sorted_iff)

lemma tbl_all_load:
  assumes "tbl_wf t" and "\<And>i d. tbl_load t i None = Some d \<Longrightarrow> key d = i" and "d \<in> set (tbl_all t sc)"
  shows "tbl_load t (key d) sc = Some d"
  using assms by (metis in_tbl_all tbl_load_unscoped)

section \<open>Evolution of a table\<close>

text \<open>Between two catalogs no row of a table is deleted or moved to another scope, and each row is
  unchanged or changed along \<open>R\<close>.\<close>

definition evolves :: "('a \<Rightarrow> 'a \<Rightarrow> bool) \<Rightarrow> 'a table \<Rightarrow> 'a table \<Rightarrow> bool" where
  "evolves R t t' \<longleftrightarrow> (\<forall>i q. map_of t i = Some q \<longrightarrow> (\<exists>q'. map_of t' i = Some q' \<and> row_customer q' = row_customer q \<and>
     row_workspace q' = row_workspace q \<and> (row_data q' = row_data q \<or> R (row_data q) (row_data q'))))"

definition unchanged :: "'a \<Rightarrow> 'a \<Rightarrow> bool" where
  "unchanged a b = (a = b)"

lemma evolves_refl [simp]: "evolves R t t"
  by (simp add: evolves_def)

lemma evolves_insert [simp]: "writable t i sc True \<Longrightarrow> evolves R t (put_row i r t)"
  by (auto simp: evolves_def writable_def)

lemma evolves_overwrite [simp]:
  "writable t i sc ins \<Longrightarrow> evolves R t (put_row i (mk_row sc rid d) t) \<longleftrightarrow>
     (\<forall>e. tbl_load t i None = Some e \<longrightarrow> d = e \<or> R e d)"
  by (cases "map_of t i") (auto simp: evolves_def writable_def tbl_load_def in_scope_def mk_row_def)

lemma evolves_trans:
  assumes "evolves R t u" and "evolves R u v" and "transp R"
  shows "evolves R t v"
  unfolding evolves_def
proof (intro allI impI)
  fix i q assume "map_of t i = Some q"
  with assms(1) obtain q' where q': "map_of u i = Some q'" "row_customer q' = row_customer q"
    "row_workspace q' = row_workspace q" "row_data q' = row_data q \<or> R (row_data q) (row_data q')"
    unfolding evolves_def by blast
  with assms(2) obtain q'' where "map_of v i = Some q''" "row_customer q'' = row_customer q'"
    "row_workspace q'' = row_workspace q'" "row_data q'' = row_data q' \<or> R (row_data q') (row_data q'')"
    unfolding evolves_def by blast
  with q' transpD [OF assms(3)] show "\<exists>q'. map_of v i = Some q' \<and> row_customer q' = row_customer q \<and>
      row_workspace q' = row_workspace q \<and> (row_data q' = row_data q \<or> R (row_data q) (row_data q'))"
    by (intro exI [of _ q'']) auto
qed

lemma evolves_mono: "evolves R t u \<Longrightarrow> (\<And>a b. R a b \<Longrightarrow> S a b) \<Longrightarrow> evolves S t u"
  unfolding evolves_def by fastforce

lemma evolves_load:
  assumes "evolves R t u" and "tbl_load t i q = Some d"
  shows "\<exists>e. tbl_load u i q = Some e \<and> (e = d \<or> R d e)"
proof -
  from assms(2) obtain r where r: "map_of t i = Some r" "in_scope q r" "row_data r = d"
    by (auto simp: tbl_load_def split: option.splits if_splits)
  with assms(1) obtain r' where "map_of u i = Some r'" "row_customer r' = row_customer r"
    "row_workspace r' = row_workspace r" "row_data r' = row_data r \<or> R (row_data r) (row_data r')"
    unfolding evolves_def by blast
  with r show ?thesis
    by (auto simp: tbl_load_def in_scope_def split: option.splits scope.splits)
qed

lemma evolves_load_back:
  assumes "evolves R t u" and "tbl_load u i q = Some e" and "tbl_load t i None \<noteq> None"
  shows "\<exists>d. tbl_load t i q = Some d \<and> (e = d \<or> R d e)"
proof -
  from assms(3) obtain r where r: "map_of t i = Some r" by (auto simp: tbl_load_def split: option.splits)
  with assms(1) obtain r' where r': "map_of u i = Some r'" "row_customer r' = row_customer r"
    "row_workspace r' = row_workspace r" "row_data r' = row_data r \<or> R (row_data r) (row_data r')"
    unfolding evolves_def by blast
  with assms(2) r show ?thesis
    by (auto simp: tbl_load_def in_scope_def split: option.splits scope.splits if_splits)
qed

text \<open>A loaded row written back at its own key.\<close>

lemma reload: "tbl_load t i q = Some d \<Longrightarrow> tbl_load t i None = Some e \<longleftrightarrow> e = d"
  by (auto dest: tbl_load_unscoped)

section \<open>The interface\<close>

locale scoped_store =
  fixes fetch :: "'t \<Rightarrow> id \<Rightarrow> scope option \<Rightarrow> 'a option"
    and store :: "'t \<Rightarrow> id \<Rightarrow> scope \<Rightarrow> 'a \<Rightarrow> bool \<Rightarrow> id option \<Rightarrow> failure + 't"
    and wf :: "'t \<Rightarrow> bool"
  assumes fetch_store: "wf t \<Longrightarrow> store t i sc d ins rid = Inr t' \<Longrightarrow>
      fetch t' j q = (if j = i then if matches q sc then Some d else None else fetch t j q)"
    and store_wf: "wf t \<Longrightarrow> store t i sc d ins rid = Inr t' \<Longrightarrow> wf t'"
    and store_own: "wf t \<Longrightarrow> store t i sc d ins rid = Inr t' \<Longrightarrow> fetch t i (Some p) \<noteq> None \<Longrightarrow> matches (Some p) sc"
    and insert_fresh: "wf t \<Longrightarrow> store t i sc d True rid = Inr t' \<Longrightarrow> fetch t i None = None"
begin

lemma read_own_write: "wf t \<Longrightarrow> store t i sc d ins rid = Inr t' \<Longrightarrow> fetch t' i (Some sc) = Some d"
  by (simp add: fetch_store)

lemma store_frame: "wf t \<Longrightarrow> store t i sc d ins rid = Inr t' \<Longrightarrow> j \<noteq> i \<Longrightarrow> fetch t' j q = fetch t j q"
  by (simp add: fetch_store)

lemma other_customers_unchanged:
  assumes "wf t" and "store t i sc d ins rid = Inr t'" and "scope_customer q \<noteq> scope_customer sc"
  shows "fetch t' j (Some q) = fetch t j (Some q)"
proof (cases "j = i")
  case True
  from assms(3) have no: "\<not> matches (Some q) sc" by (cases q) (auto simp: matches_def)
  then have "fetch t i (Some q) = None" using store_own [OF assms(1,2)] by blast
  with no True assms(1,2) show ?thesis by (simp add: fetch_store)
next
  case False
  with assms(1,2) show ?thesis by (simp add: fetch_store)
qed

lemma insert_once:
  assumes "wf t" and "store t i sc d ins rid = Inr t'" and "store t' i sc' e True rid' = Inr t''"
  shows False
proof -
  from assms(1,2) have "fetch t' i None = Some d" by (simp add: fetch_store)
  moreover from assms store_wf insert_fresh have "fetch t' i None = None" by blast
  ultimately show False by simp
qed

end

interpretation tbl: scoped_store tbl_load tbl_write tbl_wf
proof
  fix t :: "'a table" and i sc d ins rid t' j q
  assume "tbl_wf t" and w: "tbl_write t i sc d ins rid = Inr t'"
  then show "tbl_load t' j q = (if j = i then if matches q sc then Some d else None else tbl_load t j q)"
    by (simp add: tbl_write_eq_Inr)
  from w \<open>tbl_wf t\<close> show "tbl_wf t'" by (simp add: tbl_write_eq_Inr)
next
  fix t :: "'a table" and i sc d ins rid t' q
  assume "tbl_write t i sc d ins rid = Inr t'" and "tbl_load t i (Some q) \<noteq> None"
  then show "matches (Some q) sc"
    by (simp add: tbl_write_eq_Inr writable_def tbl_load_def in_scope_def matches_def
        split: option.splits scope.splits if_splits)
next
  fix t :: "'a table" and i sc d rid t'
  assume "tbl_write t i sc d True rid = Inr t'"
  then show "tbl_load t i None = None" by (simp add: tbl_write_eq_Inr writable_insert)
qed

end
