(* ===== verification/Cv_Manifest.thy ===== *)
theory Cv_Manifest
  imports Cv_Model
begin

text \<open>
  \<open>src/domain/manifest.ts\<close>: workspace limits, portable paths, canonical manifests, their
  byte text and digest, and the verified file stream. SHA-256, Unicode normalisation and
  \<open>Date.parse\<close> belong to the JavaScript platform and are the fields of \<open>platform\<close>.
  The raw input of \<open>canonicalizeManifest\<close> is a \<open>json\<close> value, so every shape test of the code
  is a branch of the model.
\<close>

datatype platform = Platform (pf_sha256: "string \<Rightarrow> string") (pf_nfc: "string \<Rightarrow> string")
  (pf_portableKey: "string \<Rightarrow> string") (pf_dateValid: "string \<Rightarrow> bool")

section \<open>Limits\<close>

datatype limits = WorkspaceLimits (lm_maxEntries: int) (lm_maxPathBytes: int) (lm_maxComponentBytes: int)
  (lm_maxFileBytes: int) (lm_maxTotalBytes: int) (lm_maxConcurrentStreams: int) (lm_maxChunkBytes: int)

datatype limits_override = LimitsOverride "int option" "int option" "int option" "int option" "int option" "int option" "int option"

definition default_limits :: limits where
  "default_limits = WorkspaceLimits 10000 1024 255 (64 * 1024 * 1024) (512 * 1024 * 1024) 4 (64 * 1024)"

definition no_override :: limits_override where
  "no_override = LimitsOverride None None None None None None None"

definition pick :: "int option \<Rightarrow> int \<Rightarrow> int" where
  "pick o' d = (case o' of None \<Rightarrow> d | Some x \<Rightarrow> x)"

fun merge_limits :: "limits_override \<Rightarrow> limits" where
  "merge_limits (LimitsOverride a b c d e f g) = WorkspaceLimits
     (pick a (lm_maxEntries default_limits)) (pick b (lm_maxPathBytes default_limits))
     (pick c (lm_maxComponentBytes default_limits)) (pick d (lm_maxFileBytes default_limits))
     (pick e (lm_maxTotalBytes default_limits)) (pick f (lm_maxConcurrentStreams default_limits))
     (pick g (lm_maxChunkBytes default_limits))"

fun full_override :: "limits \<Rightarrow> limits_override" where
  "full_override (WorkspaceLimits a b c d e f g) = LimitsOverride (Some a) (Some b) (Some c) (Some d) (Some e) (Some f) (Some g)"

fun limit_values :: "limits \<Rightarrow> int list" where
  "limit_values (WorkspaceLimits a b c d e f g) = [a, b, c, d, e, f, g]"

definition workspace_limits :: "limits_override \<Rightarrow> failure + limits" where
  "workspace_limits ov = (let l = merge_limits ov in
     if list_all (\<lambda>v. safe_integer v \<and> 0 < v) (limit_values l) then Inr l else Inl (Fail INVALID_REQUEST))"

section \<open>Portable paths\<close>

definition invalid_manifest :: "failure + 'a" where "invalid_manifest = Inl (Fail INVALID_MANIFEST)"
definition quota_exceeded :: "failure + 'a" where "quota_exceeded = Inl (Fail QUOTA_EXCEEDED)"

definition slash :: char where "slash = CHR ''/''"

definition nonportable_char :: "char \<Rightarrow> bool" where
  "nonportable_char c = (let n = (of_char c :: nat) in
     n < 32 \<or> n \<in> {34, 42, 58, 60, 62, 63, 92, 124, 127})"

text \<open>Case folding of the \<open>/iu\<close> pattern: ASCII letters, and the Kelvin sign for \<open>k\<close>.\<close>

definition lower_byte :: "nat \<Rightarrow> nat" where
  "lower_byte c = (if 65 \<le> c \<and> c \<le> 90 then c + 32 else c)"

fun fold_case :: "nat list \<Rightarrow> nat list" where
  "fold_case (a # b # c # rest) =
     (if a = 226 \<and> b = 132 \<and> c = 170 then 107 # fold_case rest else lower_byte a # fold_case (b # c # rest))"
| "fold_case xs = map lower_byte xs"

definition text_bytes :: "string \<Rightarrow> nat list" where
  "text_bytes s = map of_char s"

definition device_digits :: "nat list list" where
  "device_digits = map (\<lambda>d. [d]) [49, 50, 51, 52, 53, 54, 55, 56, 57] @ [[194, 185], [194, 178], [194, 179]]"

definition device_names :: "nat list list" where
  "device_names = map text_bytes [''con'', ''prn'', ''aux'', ''nul'', ''conin$'', ''conout$'', ''clock$'']
     @ map (\<lambda>d. text_bytes ''com'' @ d) device_digits @ map (\<lambda>d. text_bytes ''lpt'' @ d) device_digits"

definition windows_reserved :: "string \<Rightarrow> bool" where
  "windows_reserved c = (let b = fold_case (text_bytes c) in
     list_ex (\<lambda>n. take (length n) b = n \<and> (case drop (length n) b of [] \<Rightarrow> True | x # _ \<Rightarrow> x = 46)) device_names)"

definition unsafe_component :: "string \<Rightarrow> bool" where
  "unsafe_component c \<longleftrightarrow> c = [] \<or> c = ''.'' \<or> c = ''..'' \<or> last c = CHR ''.'' \<or> last c = CHR '' ''"

definition check_component :: "platform \<Rightarrow> limits \<Rightarrow> string \<Rightarrow> unit \<Rightarrow> failure + unit" where
  "check_component P l c _ =
     (if unsafe_component c then invalid_manifest
      else if int (length c) > lm_maxComponentBytes l then quota_exceeded
      else if pf_portableKey P c \<in> {''.git'', ''.contextvault''} then invalid_manifest
      else if windows_reserved c then invalid_manifest
      else Inr ())"

definition validate_portable_path :: "platform \<Rightarrow> limits_override \<Rightarrow> json \<Rightarrow> failure + string" where
  "validate_portable_path P ov v = sbind (workspace_limits ov) (\<lambda>l.
     case v of
       JStr s \<Rightarrow>
         if s = [] \<or> s \<noteq> pf_nfc P s then invalid_manifest
         else if int (length s) > lm_maxPathBytes l then quota_exceeded
         else if list_ex nonportable_char s then invalid_manifest
         else sbind (each (check_component P l) (split_on slash s) ()) (\<lambda>_. Inr s)
     | _ \<Rightarrow> invalid_manifest)"

section \<open>Canonical manifests\<close>

definition exact_keys :: "(string \<times> json) list \<Rightarrow> string list \<Rightarrow> bool" where
  "exact_keys ps ks \<longleftrightarrow> length ps = length ks \<and> list_all (\<lambda>k. map_of ps k \<noteq> None) ks"

record scan =
  sn_paths :: "(string \<times> manifest_entry) list"
  sn_prefixes :: "(string \<times> string) list"
  sn_total :: int
  sn_entries :: "manifest_entry list"

definition prefix_of :: "string list \<Rightarrow> nat \<Rightarrow> string" where
  "prefix_of comps i = join_with [slash] (take i comps)"

definition claim_prefix :: "platform \<Rightarrow> string list \<Rightarrow> nat \<Rightarrow> (string \<times> string) list \<Rightarrow> failure + (string \<times> string) list" where
  "claim_prefix P comps i m = (let p = prefix_of comps i; k = pf_portableKey P p in
     case map_of m k of
       Some q \<Rightarrow> if q \<noteq> p then invalid_manifest else Inr ((k, p) # m)
     | None \<Rightarrow> Inr ((k, p) # m))"

definition check_file :: "limits \<Rightarrow> int \<Rightarrow> string \<Rightarrow> (string \<times> json) list \<Rightarrow> failure + (manifest_entry \<times> int)" where
  "check_file l tot path ps =
     (case (map_of ps ''byteLength'', map_of ps ''sha256'') of
        (Some (JInt n), Some h) \<Rightarrow>
          if \<not> safe_integer n \<or> n < 0 then invalid_manifest
          else (case h of
            JStr d \<Rightarrow>
              if \<not> sha256_text d then invalid_manifest
              else if n > lm_maxFileBytes l then quota_exceeded
              else if \<not> safe_integer (tot + n) \<or> tot + n > lm_maxTotalBytes l then quota_exceeded
              else Inr (FileEntry path n d, tot + n)
          | _ \<Rightarrow> invalid_manifest)
      | _ \<Rightarrow> invalid_manifest)"

definition check_kind :: "limits \<Rightarrow> int \<Rightarrow> string \<Rightarrow> (string \<times> json) list \<Rightarrow> failure + (manifest_entry \<times> int)" where
  "check_kind l tot path ps =
     (if map_of ps ''kind'' = Some (JStr ''directory'') then
        (if exact_keys ps [''path'', ''kind''] then Inr (DirectoryEntry path, tot) else invalid_manifest)
      else if map_of ps ''kind'' = Some (JStr ''file'') then
        (if exact_keys ps [''path'', ''kind'', ''byteLength'', ''sha256''] then check_file l tot path ps else invalid_manifest)
      else invalid_manifest)"

definition scan_entry :: "platform \<Rightarrow> limits \<Rightarrow> json \<Rightarrow> scan \<Rightarrow> failure + scan" where
  "scan_entry P l raw st = (case raw of
     JObj ps \<Rightarrow>
       sbind (validate_portable_path P (full_override l) (case map_of ps ''path'' of Some v \<Rightarrow> v | None \<Rightarrow> JOther)) (\<lambda>path.
       sbind (require (map_of (sn_paths st) path = None) (Fail INVALID_MANIFEST)) (\<lambda>_.
       let comps = split_on slash path in
       sbind (each (claim_prefix P comps) [1..<length comps + 1] (sn_prefixes st)) (\<lambda>prefixes.
       sbind (check_kind l (sn_total st) path ps) (\<lambda>(entry, tot).
       Inr \<lparr>sn_paths = (path, entry) # sn_paths st, sn_prefixes = prefixes, sn_total = tot,
            sn_entries = sn_entries st @ [entry]\<rparr>))))
   | _ \<Rightarrow> invalid_manifest)"

definition under_file :: "(string \<times> manifest_entry) list \<Rightarrow> manifest_entry \<Rightarrow> bool" where
  "under_file paths e = (let comps = split_on slash (me_path e) in
     list_ex (\<lambda>i. case map_of paths (prefix_of comps i) of Some (FileEntry _ _ _) \<Rightarrow> True | _ \<Rightarrow> False)
       [1..<length comps])"

fun insert_entry :: "manifest_entry \<Rightarrow> manifest_entry list \<Rightarrow> manifest_entry list" where
  "insert_entry e [] = [e]"
| "insert_entry e (f # fs) = (if me_path e \<le> me_path f then e # f # fs else f # insert_entry e fs)"

definition sort_entries :: "manifest_entry list \<Rightarrow> manifest_entry list" where
  "sort_entries es = foldr insert_entry es []"

definition canonicalize_manifest :: "platform \<Rightarrow> limits_override \<Rightarrow> json \<Rightarrow> failure + manifest" where
  "canonicalize_manifest P ov input = sbind (workspace_limits ov) (\<lambda>l.
     case input of
       JObj ps \<Rightarrow>
         (case (map_of ps ''schemaVersion'', map_of ps ''entries'') of
            (Some (JInt v), Some (JArr raws)) \<Rightarrow>
              if v \<noteq> 1 then invalid_manifest
              else if \<not> exact_keys ps [''schemaVersion'', ''entries''] then invalid_manifest
              else if int (length raws) > lm_maxEntries l then quota_exceeded
              else sbind (each (scan_entry P l) raws \<lparr>sn_paths = [], sn_prefixes = [], sn_total = 0, sn_entries = []\<rparr>) (\<lambda>st.
                   if list_ex (under_file (sn_paths st)) (sn_entries st) then invalid_manifest
                   else Inr (Manifest (sort_entries (sn_entries st))))
          | _ \<Rightarrow> invalid_manifest)
     | _ \<Rightarrow> invalid_manifest)"

fun entry_json :: "manifest_entry \<Rightarrow> json" where
  "entry_json (FileEntry p n h) = JObj [(''path'', JStr p), (''kind'', JStr ''file''), (''byteLength'', JInt n), (''sha256'', JStr h)]"
| "entry_json (DirectoryEntry p) = JObj [(''path'', JStr p), (''kind'', JStr ''directory'')]"

definition manifest_json :: "manifest \<Rightarrow> json" where
  "manifest_json m = JObj [(''schemaVersion'', JInt 1), (''entries'', JArr (map entry_json (mf_entries m)))]"

section \<open>Bytes and digest\<close>

definition text_field :: "string \<Rightarrow> string \<Rightarrow> string" where
  "text_field k v = json_string k @ '':'' @ v"

fun entry_text :: "manifest_entry \<Rightarrow> string" where
  "entry_text (FileEntry p n h) = ''{'' @ join_with '','' [text_field ''path'' (json_string p), text_field ''kind'' (json_string ''file''),
     text_field ''byteLength'' (int_text n), text_field ''sha256'' (json_string h)] @ ''}''"
| "entry_text (DirectoryEntry p) = ''{'' @ join_with '','' [text_field ''path'' (json_string p), text_field ''kind'' (json_string ''directory'')] @ ''}''"

definition manifest_text :: "manifest \<Rightarrow> string" where
  "manifest_text m = ''{'' @ text_field ''schemaVersion'' (int_text 1) @ '','' @
     text_field ''entries'' (''['' @ join_with '','' (map entry_text (mf_entries m)) @ '']'') @ ''}''"

definition canonical_manifest_bytes :: "platform \<Rightarrow> limits_override \<Rightarrow> json \<Rightarrow> failure + string" where
  "canonical_manifest_bytes P ov input = sbind (canonicalize_manifest P ov input) (\<lambda>m. Inr (manifest_text m))"

definition manifest_digest :: "platform \<Rightarrow> limits_override \<Rightarrow> json \<Rightarrow> failure + string" where
  "manifest_digest P ov input = sbind (canonical_manifest_bytes P ov input) (\<lambda>b. Inr (pf_sha256 P b))"

section \<open>Verified file streams\<close>

text \<open>
  \<open>verifyFileStream\<close> as a function of the whole source: the pieces yielded so far and how the
  iteration ended. A consumer trusts the pieces only when it ends in \<open>Inr\<close>.
\<close>

fun pieces :: "nat \<Rightarrow> 'a list \<Rightarrow> 'a list list" where
  "pieces n xs = (if xs = [] \<or> n = 0 then [] else take n xs # pieces n (drop n xs))"

declare pieces.simps [simp del]

fun stream_loop :: "platform \<Rightarrow> nat \<Rightarrow> int \<Rightarrow> string \<Rightarrow> string list \<Rightarrow> string \<Rightarrow> string list \<Rightarrow> string list \<times> (failure + unit)" where
  "stream_loop P chunk byte_length digest [] seen out =
     (out, if int (length seen) \<noteq> byte_length \<or> pf_sha256 P seen \<noteq> digest then Inl (Fail RECEIPT_MISMATCH) else Inr ())"
| "stream_loop P chunk byte_length digest (c # cs) seen out =
     (if int (length (seen @ c)) > byte_length then (out, Inl (Fail RECEIPT_MISMATCH))
      else stream_loop P chunk byte_length digest cs (seen @ c) (out @ pieces chunk c))"

definition verify_file_stream :: "platform \<Rightarrow> limits_override \<Rightarrow> manifest_entry \<Rightarrow> string list \<Rightarrow> string list \<times> (failure + unit)" where
  "verify_file_stream P ov e source = (case workspace_limits ov of
     Inl x \<Rightarrow> ([], Inl x)
   | Inr l \<Rightarrow> (case canonicalize_manifest P (full_override l) (manifest_json (Manifest [e])) of
       Inl x \<Rightarrow> ([], Inl x)
     | Inr _ \<Rightarrow> (case e of
         FileEntry _ n h \<Rightarrow> stream_loop P (nat (lm_maxChunkBytes l)) n h source [] []
       | DirectoryEntry _ \<Rightarrow> ([], Inl Crash))))"

end
