(* ===== verification/Cv_Catalog.thy ===== *)
theory Cv_Catalog
  imports Cv_Table Cv_Manifest
begin

text \<open>
  The catalog database (\<open>src/db/catalog-schema.ts\<close>) as one record: a table of rows per kind of
  \<open>catalog_records\<close>, the table \<open>catalog_commands\<close>, and what the catalog reads of the legacy tables
  \<open>api_keys\<close> and \<open>webhooks\<close>. \<open>write_<kind>\<close> is \<open>SqliteControlStore.write\<close> at that kind. The
  primary key of \<open>catalog_commands\<close> is \<open>(canonicalJson scope, key)\<close>; the model keys it by the scope
  itself, as canonicalJson writes different scopes (five texts under fixed keys) differently.
\<close>

section \<open>The catalog\<close>

datatype legacy_push = LegacyPush (lp_kind: string) (lp_runId: id) (lp_requestDigest: string)
datatype bundle_command = BundleCommand (bc_id: id) (bc_digest: string)
datatype scan_state = ScanState (sn_lane: nat) (sn_cursors: "string list")

datatype command_row = CommandRow (cmr_digest: string) (cmr_operation: id) (cmr_value: command_value)
datatype webhook_row = WebhookRow (wh_id: id) (wh_customer: id) (wh_url: string) (wh_events: "string list")
  (wh_secret: bool) (wh_active: bool)
datatype admin_provenance = AdminProvenance (ap_fingerprint: "string option") (ap_epoch: int)
datatype admin_configuration = AdminConfiguration (acf_fingerprint: "string option") (acf_epoch: int) (acf_synchronizedAt: timestamp)

record catalog =
  c_workspace :: "workspace table"
  c_binding :: "storage_binding table"
  c_revision :: "revision table"
  c_run :: "run table"
  c_operation :: "operation table"
  c_candidate :: "candidate_record table"
  c_submission :: "submission table"
  c_receipt :: "upload_receipt table"
  c_submission_writer :: "submission_writer table"
  c_submission_collection :: "submission_collection table"
  c_candidate_writer :: "candidate_writer table"
  c_cleanup :: "cleanup table"
  c_cleanup_owner :: "id table"
  c_audit :: "audit_event table"
  c_outbox :: "outbox_event table"
  c_recipients :: "(subscription list) table"
  c_delivery :: "delivery table"
  c_subscription :: "subscription table"
  c_compatibility :: "legacy_push table"
  c_migration :: "migration table"
  c_guards :: "migration_guards table"
  c_adoption :: "adoption table"
  c_alias :: "revision_alias table"
  c_bundle :: "bundle_record table"
  c_bundle_command :: "bundle_command table"
  c_pin :: "copy_pin table"
  c_maintenance :: "scan_state table"
  c_authority :: "authority table"
  c_credential_source :: "credential_kind table"
  c_commands :: "((idempotency_scope \<times> string) \<times> command_row) list"
  c_api_keys :: "(id \<times> id) list"
  c_webhooks :: "webhook_row list"
  c_admin_configuration :: "admin_configuration option"
  c_admin_provenance :: "(id \<times> admin_provenance) list"

definition empty_catalog :: catalog where
  "empty_catalog = \<lparr>c_workspace = [], c_binding = [], c_revision = [], c_run = [], c_operation = [], c_candidate = [], c_submission = [], c_receipt = [], c_submission_writer = [], c_submission_collection = [], c_candidate_writer = [], c_cleanup = [], c_cleanup_owner = [], c_audit = [], c_outbox = [], c_recipients = [], c_delivery = [], c_subscription = [], c_compatibility = [], c_migration = [], c_guards = [], c_adoption = [], c_alias = [], c_bundle = [], c_bundle_command = [], c_pin = [], c_maintenance = [], c_authority = [], c_credential_source = [],
     c_commands = [], c_api_keys = [], c_webhooks = [], c_admin_configuration = None, c_admin_provenance = []\<rparr>"

section \<open>Writes\<close>

definition write_workspace :: "id \<Rightarrow> scope \<Rightarrow> workspace \<Rightarrow> bool \<Rightarrow> id option \<Rightarrow> catalog \<Rightarrow> failure + catalog" where
  "write_workspace i sc d ins rid s = sbind (tbl_write (c_workspace s) i sc d ins rid) (\<lambda>t. Inr (s\<lparr>c_workspace := t\<rparr>))"

definition write_binding :: "id \<Rightarrow> scope \<Rightarrow> storage_binding \<Rightarrow> bool \<Rightarrow> id option \<Rightarrow> catalog \<Rightarrow> failure + catalog" where
  "write_binding i sc d ins rid s = sbind (tbl_write (c_binding s) i sc d ins rid) (\<lambda>t. Inr (s\<lparr>c_binding := t\<rparr>))"

definition write_revision :: "id \<Rightarrow> scope \<Rightarrow> revision \<Rightarrow> bool \<Rightarrow> id option \<Rightarrow> catalog \<Rightarrow> failure + catalog" where
  "write_revision i sc d ins rid s = sbind (tbl_write (c_revision s) i sc d ins rid) (\<lambda>t. Inr (s\<lparr>c_revision := t\<rparr>))"

definition write_operation :: "id \<Rightarrow> scope \<Rightarrow> operation \<Rightarrow> bool \<Rightarrow> id option \<Rightarrow> catalog \<Rightarrow> failure + catalog" where
  "write_operation i sc d ins rid s = sbind (tbl_write (c_operation s) i sc d ins rid) (\<lambda>t. Inr (s\<lparr>c_operation := t\<rparr>))"

definition write_candidate :: "id \<Rightarrow> scope \<Rightarrow> candidate_record \<Rightarrow> bool \<Rightarrow> id option \<Rightarrow> catalog \<Rightarrow> failure + catalog" where
  "write_candidate i sc d ins rid s = sbind (tbl_write (c_candidate s) i sc d ins rid) (\<lambda>t. Inr (s\<lparr>c_candidate := t\<rparr>))"

definition write_submission :: "id \<Rightarrow> scope \<Rightarrow> submission \<Rightarrow> bool \<Rightarrow> id option \<Rightarrow> catalog \<Rightarrow> failure + catalog" where
  "write_submission i sc d ins rid s = sbind (tbl_write (c_submission s) i sc d ins rid) (\<lambda>t. Inr (s\<lparr>c_submission := t\<rparr>))"

definition write_receipt :: "id \<Rightarrow> scope \<Rightarrow> upload_receipt \<Rightarrow> bool \<Rightarrow> id option \<Rightarrow> catalog \<Rightarrow> failure + catalog" where
  "write_receipt i sc d ins rid s = sbind (tbl_write (c_receipt s) i sc d ins rid) (\<lambda>t. Inr (s\<lparr>c_receipt := t\<rparr>))"

definition write_submission_writer :: "id \<Rightarrow> scope \<Rightarrow> submission_writer \<Rightarrow> bool \<Rightarrow> id option \<Rightarrow> catalog \<Rightarrow> failure + catalog" where
  "write_submission_writer i sc d ins rid s = sbind (tbl_write (c_submission_writer s) i sc d ins rid) (\<lambda>t. Inr (s\<lparr>c_submission_writer := t\<rparr>))"

definition write_submission_collection :: "id \<Rightarrow> scope \<Rightarrow> submission_collection \<Rightarrow> bool \<Rightarrow> id option \<Rightarrow> catalog \<Rightarrow> failure + catalog" where
  "write_submission_collection i sc d ins rid s = sbind (tbl_write (c_submission_collection s) i sc d ins rid) (\<lambda>t. Inr (s\<lparr>c_submission_collection := t\<rparr>))"

definition write_candidate_writer :: "id \<Rightarrow> scope \<Rightarrow> candidate_writer \<Rightarrow> bool \<Rightarrow> id option \<Rightarrow> catalog \<Rightarrow> failure + catalog" where
  "write_candidate_writer i sc d ins rid s = sbind (tbl_write (c_candidate_writer s) i sc d ins rid) (\<lambda>t. Inr (s\<lparr>c_candidate_writer := t\<rparr>))"

definition write_cleanup :: "id \<Rightarrow> scope \<Rightarrow> cleanup \<Rightarrow> bool \<Rightarrow> id option \<Rightarrow> catalog \<Rightarrow> failure + catalog" where
  "write_cleanup i sc d ins rid s = sbind (tbl_write (c_cleanup s) i sc d ins rid) (\<lambda>t. Inr (s\<lparr>c_cleanup := t\<rparr>))"

definition write_cleanup_owner :: "id \<Rightarrow> scope \<Rightarrow> id \<Rightarrow> bool \<Rightarrow> id option \<Rightarrow> catalog \<Rightarrow> failure + catalog" where
  "write_cleanup_owner i sc d ins rid s = sbind (tbl_write (c_cleanup_owner s) i sc d ins rid) (\<lambda>t. Inr (s\<lparr>c_cleanup_owner := t\<rparr>))"

definition write_audit :: "id \<Rightarrow> scope \<Rightarrow> audit_event \<Rightarrow> bool \<Rightarrow> id option \<Rightarrow> catalog \<Rightarrow> failure + catalog" where
  "write_audit i sc d ins rid s = sbind (tbl_write (c_audit s) i sc d ins rid) (\<lambda>t. Inr (s\<lparr>c_audit := t\<rparr>))"

definition write_outbox :: "id \<Rightarrow> scope \<Rightarrow> outbox_event \<Rightarrow> bool \<Rightarrow> id option \<Rightarrow> catalog \<Rightarrow> failure + catalog" where
  "write_outbox i sc d ins rid s = sbind (tbl_write (c_outbox s) i sc d ins rid) (\<lambda>t. Inr (s\<lparr>c_outbox := t\<rparr>))"

definition write_recipients :: "id \<Rightarrow> scope \<Rightarrow> subscription list \<Rightarrow> bool \<Rightarrow> id option \<Rightarrow> catalog \<Rightarrow> failure + catalog" where
  "write_recipients i sc d ins rid s = sbind (tbl_write (c_recipients s) i sc d ins rid) (\<lambda>t. Inr (s\<lparr>c_recipients := t\<rparr>))"

definition write_delivery :: "id \<Rightarrow> scope \<Rightarrow> delivery \<Rightarrow> bool \<Rightarrow> id option \<Rightarrow> catalog \<Rightarrow> failure + catalog" where
  "write_delivery i sc d ins rid s = sbind (tbl_write (c_delivery s) i sc d ins rid) (\<lambda>t. Inr (s\<lparr>c_delivery := t\<rparr>))"

definition write_subscription :: "id \<Rightarrow> scope \<Rightarrow> subscription \<Rightarrow> bool \<Rightarrow> id option \<Rightarrow> catalog \<Rightarrow> failure + catalog" where
  "write_subscription i sc d ins rid s = sbind (tbl_write (c_subscription s) i sc d ins rid) (\<lambda>t. Inr (s\<lparr>c_subscription := t\<rparr>))"

definition write_compatibility :: "id \<Rightarrow> scope \<Rightarrow> legacy_push \<Rightarrow> bool \<Rightarrow> id option \<Rightarrow> catalog \<Rightarrow> failure + catalog" where
  "write_compatibility i sc d ins rid s = sbind (tbl_write (c_compatibility s) i sc d ins rid) (\<lambda>t. Inr (s\<lparr>c_compatibility := t\<rparr>))"

definition write_migration :: "id \<Rightarrow> scope \<Rightarrow> migration \<Rightarrow> bool \<Rightarrow> id option \<Rightarrow> catalog \<Rightarrow> failure + catalog" where
  "write_migration i sc d ins rid s = sbind (tbl_write (c_migration s) i sc d ins rid) (\<lambda>t. Inr (s\<lparr>c_migration := t\<rparr>))"

definition write_guards :: "id \<Rightarrow> scope \<Rightarrow> migration_guards \<Rightarrow> bool \<Rightarrow> id option \<Rightarrow> catalog \<Rightarrow> failure + catalog" where
  "write_guards i sc d ins rid s = sbind (tbl_write (c_guards s) i sc d ins rid) (\<lambda>t. Inr (s\<lparr>c_guards := t\<rparr>))"

definition write_adoption :: "id \<Rightarrow> scope \<Rightarrow> adoption \<Rightarrow> bool \<Rightarrow> id option \<Rightarrow> catalog \<Rightarrow> failure + catalog" where
  "write_adoption i sc d ins rid s = sbind (tbl_write (c_adoption s) i sc d ins rid) (\<lambda>t. Inr (s\<lparr>c_adoption := t\<rparr>))"

definition write_alias :: "id \<Rightarrow> scope \<Rightarrow> revision_alias \<Rightarrow> bool \<Rightarrow> id option \<Rightarrow> catalog \<Rightarrow> failure + catalog" where
  "write_alias i sc d ins rid s = sbind (tbl_write (c_alias s) i sc d ins rid) (\<lambda>t. Inr (s\<lparr>c_alias := t\<rparr>))"

definition write_bundle :: "id \<Rightarrow> scope \<Rightarrow> bundle_record \<Rightarrow> bool \<Rightarrow> id option \<Rightarrow> catalog \<Rightarrow> failure + catalog" where
  "write_bundle i sc d ins rid s = sbind (tbl_write (c_bundle s) i sc d ins rid) (\<lambda>t. Inr (s\<lparr>c_bundle := t\<rparr>))"

definition write_bundle_command :: "id \<Rightarrow> scope \<Rightarrow> bundle_command \<Rightarrow> bool \<Rightarrow> id option \<Rightarrow> catalog \<Rightarrow> failure + catalog" where
  "write_bundle_command i sc d ins rid s = sbind (tbl_write (c_bundle_command s) i sc d ins rid) (\<lambda>t. Inr (s\<lparr>c_bundle_command := t\<rparr>))"

definition write_pin :: "id \<Rightarrow> scope \<Rightarrow> copy_pin \<Rightarrow> bool \<Rightarrow> id option \<Rightarrow> catalog \<Rightarrow> failure + catalog" where
  "write_pin i sc d ins rid s = sbind (tbl_write (c_pin s) i sc d ins rid) (\<lambda>t. Inr (s\<lparr>c_pin := t\<rparr>))"

definition write_maintenance :: "id \<Rightarrow> scope \<Rightarrow> scan_state \<Rightarrow> bool \<Rightarrow> id option \<Rightarrow> catalog \<Rightarrow> failure + catalog" where
  "write_maintenance i sc d ins rid s = sbind (tbl_write (c_maintenance s) i sc d ins rid) (\<lambda>t. Inr (s\<lparr>c_maintenance := t\<rparr>))"

definition write_authority :: "id \<Rightarrow> scope \<Rightarrow> authority \<Rightarrow> bool \<Rightarrow> id option \<Rightarrow> catalog \<Rightarrow> failure + catalog" where
  "write_authority i sc d ins rid s = sbind (tbl_write (c_authority s) i sc d ins rid) (\<lambda>t. Inr (s\<lparr>c_authority := t\<rparr>))"

definition write_credential_source :: "id \<Rightarrow> scope \<Rightarrow> credential_kind \<Rightarrow> bool \<Rightarrow> id option \<Rightarrow> catalog \<Rightarrow> failure + catalog" where
  "write_credential_source i sc d ins rid s = sbind (tbl_write (c_credential_source s) i sc d ins rid) (\<lambda>t. Inr (s\<lparr>c_credential_source := t\<rparr>))"

text \<open>The unique index \<open>catalog_run_cleanup\<close>: no two runs share a cleanup id.\<close>

definition cleanup_taken :: "catalog \<Rightarrow> id \<Rightarrow> id \<Rightarrow> bool" where
  "cleanup_taken s i cid = list_ex (\<lambda>(j, r). j \<noteq> i \<and> rn_cleanupId (row_data r) = cid) (c_run s)"

definition write_run :: "id \<Rightarrow> scope \<Rightarrow> run \<Rightarrow> bool \<Rightarrow> id option \<Rightarrow> catalog \<Rightarrow> failure + catalog" where
  "write_run i sc d ins rid s = sbind (tbl_write (c_run s) i sc d ins rid) (\<lambda>t.
     if cleanup_taken s i (rn_cleanupId d) then Inl Crash else Inr (s\<lparr>c_run := t\<rparr>))"

section \<open>What a successful write does\<close>

lemma write_eq [txn_simps]:
  "write_workspace i sc d_workspace ins rid s = Inr s' \<longleftrightarrow>
       writable (c_workspace s) i sc ins \<and> s' = s\<lparr>c_workspace := put_row i (mk_row sc rid d_workspace) (c_workspace s)\<rparr>"
  "write_binding i sc d_binding ins rid s = Inr s' \<longleftrightarrow>
       writable (c_binding s) i sc ins \<and> s' = s\<lparr>c_binding := put_row i (mk_row sc rid d_binding) (c_binding s)\<rparr>"
  "write_revision i sc d_revision ins rid s = Inr s' \<longleftrightarrow>
       writable (c_revision s) i sc ins \<and> s' = s\<lparr>c_revision := put_row i (mk_row sc rid d_revision) (c_revision s)\<rparr>"
  "write_run i sc d_run ins rid s = Inr s' \<longleftrightarrow>
       writable (c_run s) i sc ins \<and> \<not> cleanup_taken s i (rn_cleanupId d_run) \<and> s' = s\<lparr>c_run := put_row i (mk_row sc rid d_run) (c_run s)\<rparr>"
  "write_operation i sc d_operation ins rid s = Inr s' \<longleftrightarrow>
       writable (c_operation s) i sc ins \<and> s' = s\<lparr>c_operation := put_row i (mk_row sc rid d_operation) (c_operation s)\<rparr>"
  "write_candidate i sc d_candidate ins rid s = Inr s' \<longleftrightarrow>
       writable (c_candidate s) i sc ins \<and> s' = s\<lparr>c_candidate := put_row i (mk_row sc rid d_candidate) (c_candidate s)\<rparr>"
  "write_submission i sc d_submission ins rid s = Inr s' \<longleftrightarrow>
       writable (c_submission s) i sc ins \<and> s' = s\<lparr>c_submission := put_row i (mk_row sc rid d_submission) (c_submission s)\<rparr>"
  "write_receipt i sc d_receipt ins rid s = Inr s' \<longleftrightarrow>
       writable (c_receipt s) i sc ins \<and> s' = s\<lparr>c_receipt := put_row i (mk_row sc rid d_receipt) (c_receipt s)\<rparr>"
  "write_submission_writer i sc d_submission_writer ins rid s = Inr s' \<longleftrightarrow>
       writable (c_submission_writer s) i sc ins \<and> s' = s\<lparr>c_submission_writer := put_row i (mk_row sc rid d_submission_writer) (c_submission_writer s)\<rparr>"
  "write_submission_collection i sc d_submission_collection ins rid s = Inr s' \<longleftrightarrow>
       writable (c_submission_collection s) i sc ins \<and> s' = s\<lparr>c_submission_collection := put_row i (mk_row sc rid d_submission_collection) (c_submission_collection s)\<rparr>"
  "write_candidate_writer i sc d_candidate_writer ins rid s = Inr s' \<longleftrightarrow>
       writable (c_candidate_writer s) i sc ins \<and> s' = s\<lparr>c_candidate_writer := put_row i (mk_row sc rid d_candidate_writer) (c_candidate_writer s)\<rparr>"
  "write_cleanup i sc d_cleanup ins rid s = Inr s' \<longleftrightarrow>
       writable (c_cleanup s) i sc ins \<and> s' = s\<lparr>c_cleanup := put_row i (mk_row sc rid d_cleanup) (c_cleanup s)\<rparr>"
  "write_cleanup_owner i sc d_cleanup_owner ins rid s = Inr s' \<longleftrightarrow>
       writable (c_cleanup_owner s) i sc ins \<and> s' = s\<lparr>c_cleanup_owner := put_row i (mk_row sc rid d_cleanup_owner) (c_cleanup_owner s)\<rparr>"
  "write_audit i sc d_audit ins rid s = Inr s' \<longleftrightarrow>
       writable (c_audit s) i sc ins \<and> s' = s\<lparr>c_audit := put_row i (mk_row sc rid d_audit) (c_audit s)\<rparr>"
  "write_outbox i sc d_outbox ins rid s = Inr s' \<longleftrightarrow>
       writable (c_outbox s) i sc ins \<and> s' = s\<lparr>c_outbox := put_row i (mk_row sc rid d_outbox) (c_outbox s)\<rparr>"
  "write_recipients i sc d_recipients ins rid s = Inr s' \<longleftrightarrow>
       writable (c_recipients s) i sc ins \<and> s' = s\<lparr>c_recipients := put_row i (mk_row sc rid d_recipients) (c_recipients s)\<rparr>"
  "write_delivery i sc d_delivery ins rid s = Inr s' \<longleftrightarrow>
       writable (c_delivery s) i sc ins \<and> s' = s\<lparr>c_delivery := put_row i (mk_row sc rid d_delivery) (c_delivery s)\<rparr>"
  "write_subscription i sc d_subscription ins rid s = Inr s' \<longleftrightarrow>
       writable (c_subscription s) i sc ins \<and> s' = s\<lparr>c_subscription := put_row i (mk_row sc rid d_subscription) (c_subscription s)\<rparr>"
  "write_compatibility i sc d_compatibility ins rid s = Inr s' \<longleftrightarrow>
       writable (c_compatibility s) i sc ins \<and> s' = s\<lparr>c_compatibility := put_row i (mk_row sc rid d_compatibility) (c_compatibility s)\<rparr>"
  "write_migration i sc d_migration ins rid s = Inr s' \<longleftrightarrow>
       writable (c_migration s) i sc ins \<and> s' = s\<lparr>c_migration := put_row i (mk_row sc rid d_migration) (c_migration s)\<rparr>"
  "write_guards i sc d_guards ins rid s = Inr s' \<longleftrightarrow>
       writable (c_guards s) i sc ins \<and> s' = s\<lparr>c_guards := put_row i (mk_row sc rid d_guards) (c_guards s)\<rparr>"
  "write_adoption i sc d_adoption ins rid s = Inr s' \<longleftrightarrow>
       writable (c_adoption s) i sc ins \<and> s' = s\<lparr>c_adoption := put_row i (mk_row sc rid d_adoption) (c_adoption s)\<rparr>"
  "write_alias i sc d_alias ins rid s = Inr s' \<longleftrightarrow>
       writable (c_alias s) i sc ins \<and> s' = s\<lparr>c_alias := put_row i (mk_row sc rid d_alias) (c_alias s)\<rparr>"
  "write_bundle i sc d_bundle ins rid s = Inr s' \<longleftrightarrow>
       writable (c_bundle s) i sc ins \<and> s' = s\<lparr>c_bundle := put_row i (mk_row sc rid d_bundle) (c_bundle s)\<rparr>"
  "write_bundle_command i sc d_bundle_command ins rid s = Inr s' \<longleftrightarrow>
       writable (c_bundle_command s) i sc ins \<and> s' = s\<lparr>c_bundle_command := put_row i (mk_row sc rid d_bundle_command) (c_bundle_command s)\<rparr>"
  "write_pin i sc d_pin ins rid s = Inr s' \<longleftrightarrow>
       writable (c_pin s) i sc ins \<and> s' = s\<lparr>c_pin := put_row i (mk_row sc rid d_pin) (c_pin s)\<rparr>"
  "write_maintenance i sc d_maintenance ins rid s = Inr s' \<longleftrightarrow>
       writable (c_maintenance s) i sc ins \<and> s' = s\<lparr>c_maintenance := put_row i (mk_row sc rid d_maintenance) (c_maintenance s)\<rparr>"
  "write_authority i sc d_authority ins rid s = Inr s' \<longleftrightarrow>
       writable (c_authority s) i sc ins \<and> s' = s\<lparr>c_authority := put_row i (mk_row sc rid d_authority) (c_authority s)\<rparr>"
  "write_credential_source i sc d_credential_source ins rid s = Inr s' \<longleftrightarrow>
       writable (c_credential_source s) i sc ins \<and> s' = s\<lparr>c_credential_source := put_row i (mk_row sc rid d_credential_source) (c_credential_source s)\<rparr>"
  by (auto simp: write_workspace_def write_binding_def write_revision_def write_run_def write_operation_def write_candidate_def write_submission_def write_receipt_def write_submission_writer_def write_submission_collection_def write_candidate_writer_def write_cleanup_def write_cleanup_owner_def write_audit_def write_outbox_def write_recipients_def write_delivery_def write_subscription_def write_compatibility_def write_migration_def write_guards_def write_adoption_def write_alias_def write_bundle_def write_bundle_command_def write_pin_def write_maintenance_def write_authority_def write_credential_source_def txn_simps split: if_splits)

lemma post_write [post_simps]:
  "post (write_workspace i sc d_workspace ins rid s) Q \<longleftrightarrow>
       (writable (c_workspace s) i sc ins \<longrightarrow> Q (s\<lparr>c_workspace := put_row i (mk_row sc rid d_workspace) (c_workspace s)\<rparr>))"
  "post (write_binding i sc d_binding ins rid s) Q \<longleftrightarrow>
       (writable (c_binding s) i sc ins \<longrightarrow> Q (s\<lparr>c_binding := put_row i (mk_row sc rid d_binding) (c_binding s)\<rparr>))"
  "post (write_revision i sc d_revision ins rid s) Q \<longleftrightarrow>
       (writable (c_revision s) i sc ins \<longrightarrow> Q (s\<lparr>c_revision := put_row i (mk_row sc rid d_revision) (c_revision s)\<rparr>))"
  "post (write_run i sc d_run ins rid s) Q \<longleftrightarrow>
       (writable (c_run s) i sc ins \<and> \<not> cleanup_taken s i (rn_cleanupId d_run) \<longrightarrow> Q (s\<lparr>c_run := put_row i (mk_row sc rid d_run) (c_run s)\<rparr>))"
  "post (write_operation i sc d_operation ins rid s) Q \<longleftrightarrow>
       (writable (c_operation s) i sc ins \<longrightarrow> Q (s\<lparr>c_operation := put_row i (mk_row sc rid d_operation) (c_operation s)\<rparr>))"
  "post (write_candidate i sc d_candidate ins rid s) Q \<longleftrightarrow>
       (writable (c_candidate s) i sc ins \<longrightarrow> Q (s\<lparr>c_candidate := put_row i (mk_row sc rid d_candidate) (c_candidate s)\<rparr>))"
  "post (write_submission i sc d_submission ins rid s) Q \<longleftrightarrow>
       (writable (c_submission s) i sc ins \<longrightarrow> Q (s\<lparr>c_submission := put_row i (mk_row sc rid d_submission) (c_submission s)\<rparr>))"
  "post (write_receipt i sc d_receipt ins rid s) Q \<longleftrightarrow>
       (writable (c_receipt s) i sc ins \<longrightarrow> Q (s\<lparr>c_receipt := put_row i (mk_row sc rid d_receipt) (c_receipt s)\<rparr>))"
  "post (write_submission_writer i sc d_submission_writer ins rid s) Q \<longleftrightarrow>
       (writable (c_submission_writer s) i sc ins \<longrightarrow> Q (s\<lparr>c_submission_writer := put_row i (mk_row sc rid d_submission_writer) (c_submission_writer s)\<rparr>))"
  "post (write_submission_collection i sc d_submission_collection ins rid s) Q \<longleftrightarrow>
       (writable (c_submission_collection s) i sc ins \<longrightarrow> Q (s\<lparr>c_submission_collection := put_row i (mk_row sc rid d_submission_collection) (c_submission_collection s)\<rparr>))"
  "post (write_candidate_writer i sc d_candidate_writer ins rid s) Q \<longleftrightarrow>
       (writable (c_candidate_writer s) i sc ins \<longrightarrow> Q (s\<lparr>c_candidate_writer := put_row i (mk_row sc rid d_candidate_writer) (c_candidate_writer s)\<rparr>))"
  "post (write_cleanup i sc d_cleanup ins rid s) Q \<longleftrightarrow>
       (writable (c_cleanup s) i sc ins \<longrightarrow> Q (s\<lparr>c_cleanup := put_row i (mk_row sc rid d_cleanup) (c_cleanup s)\<rparr>))"
  "post (write_cleanup_owner i sc d_cleanup_owner ins rid s) Q \<longleftrightarrow>
       (writable (c_cleanup_owner s) i sc ins \<longrightarrow> Q (s\<lparr>c_cleanup_owner := put_row i (mk_row sc rid d_cleanup_owner) (c_cleanup_owner s)\<rparr>))"
  "post (write_audit i sc d_audit ins rid s) Q \<longleftrightarrow>
       (writable (c_audit s) i sc ins \<longrightarrow> Q (s\<lparr>c_audit := put_row i (mk_row sc rid d_audit) (c_audit s)\<rparr>))"
  "post (write_outbox i sc d_outbox ins rid s) Q \<longleftrightarrow>
       (writable (c_outbox s) i sc ins \<longrightarrow> Q (s\<lparr>c_outbox := put_row i (mk_row sc rid d_outbox) (c_outbox s)\<rparr>))"
  "post (write_recipients i sc d_recipients ins rid s) Q \<longleftrightarrow>
       (writable (c_recipients s) i sc ins \<longrightarrow> Q (s\<lparr>c_recipients := put_row i (mk_row sc rid d_recipients) (c_recipients s)\<rparr>))"
  "post (write_delivery i sc d_delivery ins rid s) Q \<longleftrightarrow>
       (writable (c_delivery s) i sc ins \<longrightarrow> Q (s\<lparr>c_delivery := put_row i (mk_row sc rid d_delivery) (c_delivery s)\<rparr>))"
  "post (write_subscription i sc d_subscription ins rid s) Q \<longleftrightarrow>
       (writable (c_subscription s) i sc ins \<longrightarrow> Q (s\<lparr>c_subscription := put_row i (mk_row sc rid d_subscription) (c_subscription s)\<rparr>))"
  "post (write_compatibility i sc d_compatibility ins rid s) Q \<longleftrightarrow>
       (writable (c_compatibility s) i sc ins \<longrightarrow> Q (s\<lparr>c_compatibility := put_row i (mk_row sc rid d_compatibility) (c_compatibility s)\<rparr>))"
  "post (write_migration i sc d_migration ins rid s) Q \<longleftrightarrow>
       (writable (c_migration s) i sc ins \<longrightarrow> Q (s\<lparr>c_migration := put_row i (mk_row sc rid d_migration) (c_migration s)\<rparr>))"
  "post (write_guards i sc d_guards ins rid s) Q \<longleftrightarrow>
       (writable (c_guards s) i sc ins \<longrightarrow> Q (s\<lparr>c_guards := put_row i (mk_row sc rid d_guards) (c_guards s)\<rparr>))"
  "post (write_adoption i sc d_adoption ins rid s) Q \<longleftrightarrow>
       (writable (c_adoption s) i sc ins \<longrightarrow> Q (s\<lparr>c_adoption := put_row i (mk_row sc rid d_adoption) (c_adoption s)\<rparr>))"
  "post (write_alias i sc d_alias ins rid s) Q \<longleftrightarrow>
       (writable (c_alias s) i sc ins \<longrightarrow> Q (s\<lparr>c_alias := put_row i (mk_row sc rid d_alias) (c_alias s)\<rparr>))"
  "post (write_bundle i sc d_bundle ins rid s) Q \<longleftrightarrow>
       (writable (c_bundle s) i sc ins \<longrightarrow> Q (s\<lparr>c_bundle := put_row i (mk_row sc rid d_bundle) (c_bundle s)\<rparr>))"
  "post (write_bundle_command i sc d_bundle_command ins rid s) Q \<longleftrightarrow>
       (writable (c_bundle_command s) i sc ins \<longrightarrow> Q (s\<lparr>c_bundle_command := put_row i (mk_row sc rid d_bundle_command) (c_bundle_command s)\<rparr>))"
  "post (write_pin i sc d_pin ins rid s) Q \<longleftrightarrow>
       (writable (c_pin s) i sc ins \<longrightarrow> Q (s\<lparr>c_pin := put_row i (mk_row sc rid d_pin) (c_pin s)\<rparr>))"
  "post (write_maintenance i sc d_maintenance ins rid s) Q \<longleftrightarrow>
       (writable (c_maintenance s) i sc ins \<longrightarrow> Q (s\<lparr>c_maintenance := put_row i (mk_row sc rid d_maintenance) (c_maintenance s)\<rparr>))"
  "post (write_authority i sc d_authority ins rid s) Q \<longleftrightarrow>
       (writable (c_authority s) i sc ins \<longrightarrow> Q (s\<lparr>c_authority := put_row i (mk_row sc rid d_authority) (c_authority s)\<rparr>))"
  "post (write_credential_source i sc d_credential_source ins rid s) Q \<longleftrightarrow>
       (writable (c_credential_source s) i sc ins \<longrightarrow> Q (s\<lparr>c_credential_source := put_row i (mk_row sc rid d_credential_source) (c_credential_source s)\<rparr>))"
  by (simp_all add: post_def write_eq)

section \<open>Commands\<close>

definition find_command :: "catalog \<Rightarrow> idempotency_scope \<Rightarrow> string \<Rightarrow> command_row option" where
  "find_command s sc k = map_of (c_commands s) (sc, k)"

text \<open>\<open>INSERT INTO catalog_commands\<close> with its primary key and its unique operation id.\<close>

definition insert_command :: "idempotency_scope \<Rightarrow> string \<Rightarrow> command_row \<Rightarrow> catalog \<Rightarrow> failure + catalog" where
  "insert_command sc k r s =
     (if find_command s sc k \<noteq> None \<or> list_ex (\<lambda>(_, q). cmr_operation q = cmr_operation r) (c_commands s) then Inl Crash
      else Inr (s\<lparr>c_commands := ((sc, k), r) # c_commands s\<rparr>))"

text \<open>\<open>UPDATE catalog_commands SET value=? WHERE operation_id=?\<close>.\<close>

definition update_command :: "id \<Rightarrow> command_value \<Rightarrow> catalog \<Rightarrow> catalog" where
  "update_command oid v s = s\<lparr>c_commands := map (\<lambda>(k, r).
     (k, if cmr_operation r = oid then CommandRow (cmr_digest r) (cmr_operation r) v else r)) (c_commands s)\<rparr>"

lemma find_insert_command [txn_simps]:
  "insert_command sc k r s = Inr s' \<longleftrightarrow> find_command s sc k = None \<and>
     \<not> list_ex (\<lambda>(_, q). cmr_operation q = cmr_operation r) (c_commands s) \<and>
     s' = s\<lparr>c_commands := ((sc, k), r) # c_commands s\<rparr>"
  by (auto simp: insert_command_def)

lemma map_of_update_values:
  "map_of (map (\<lambda>(k, r). (k, if p r then f r else r)) xs) key = map_option (\<lambda>r. if p r then f r else r) (map_of xs key)"
  by (induction xs) auto

lemma find_update_command:
  "find_command (update_command oid v s) sc k =
     map_option (\<lambda>r. if cmr_operation r = oid then CommandRow (cmr_digest r) (cmr_operation r) v else r) (find_command s sc k)"
  by (simp add: find_command_def update_command_def map_of_update_values)

lemma update_command_tables [simp]:
  "c_workspace (update_command oid v s) = c_workspace s"
  "c_binding (update_command oid v s) = c_binding s"
  "c_revision (update_command oid v s) = c_revision s"
  "c_run (update_command oid v s) = c_run s"
  "c_operation (update_command oid v s) = c_operation s"
  "c_candidate (update_command oid v s) = c_candidate s"
  "c_submission (update_command oid v s) = c_submission s"
  "c_receipt (update_command oid v s) = c_receipt s"
  "c_submission_writer (update_command oid v s) = c_submission_writer s"
  "c_submission_collection (update_command oid v s) = c_submission_collection s"
  "c_candidate_writer (update_command oid v s) = c_candidate_writer s"
  "c_cleanup (update_command oid v s) = c_cleanup s"
  "c_cleanup_owner (update_command oid v s) = c_cleanup_owner s"
  "c_audit (update_command oid v s) = c_audit s"
  "c_outbox (update_command oid v s) = c_outbox s"
  "c_recipients (update_command oid v s) = c_recipients s"
  "c_delivery (update_command oid v s) = c_delivery s"
  "c_subscription (update_command oid v s) = c_subscription s"
  "c_compatibility (update_command oid v s) = c_compatibility s"
  "c_migration (update_command oid v s) = c_migration s"
  "c_guards (update_command oid v s) = c_guards s"
  "c_adoption (update_command oid v s) = c_adoption s"
  "c_alias (update_command oid v s) = c_alias s"
  "c_bundle (update_command oid v s) = c_bundle s"
  "c_bundle_command (update_command oid v s) = c_bundle_command s"
  "c_pin (update_command oid v s) = c_pin s"
  "c_maintenance (update_command oid v s) = c_maintenance s"
  "c_authority (update_command oid v s) = c_authority s"
  "c_credential_source (update_command oid v s) = c_credential_source s"
  "c_api_keys (update_command oid v s) = c_api_keys s"
  "c_webhooks (update_command oid v s) = c_webhooks s"
  "c_admin_configuration (update_command oid v s) = c_admin_configuration s"
  "c_admin_provenance (update_command oid v s) = c_admin_provenance s"
  by (simp_all add: update_command_def)

section \<open>Well-formed catalogs\<close>

definition catalog_wf :: "catalog \<Rightarrow> bool" where
  "catalog_wf s \<longleftrightarrow> tbl_wf (c_workspace s) \<and> tbl_wf (c_binding s) \<and> tbl_wf (c_revision s) \<and> tbl_wf (c_run s) \<and> tbl_wf (c_operation s) \<and> tbl_wf (c_candidate s) \<and> tbl_wf (c_submission s) \<and> tbl_wf (c_receipt s) \<and> tbl_wf (c_submission_writer s) \<and> tbl_wf (c_submission_collection s) \<and> tbl_wf (c_candidate_writer s) \<and> tbl_wf (c_cleanup s) \<and> tbl_wf (c_cleanup_owner s) \<and> tbl_wf (c_audit s) \<and> tbl_wf (c_outbox s) \<and> tbl_wf (c_recipients s) \<and> tbl_wf (c_delivery s) \<and> tbl_wf (c_subscription s) \<and> tbl_wf (c_compatibility s) \<and> tbl_wf (c_migration s) \<and> tbl_wf (c_guards s) \<and> tbl_wf (c_adoption s) \<and> tbl_wf (c_alias s) \<and> tbl_wf (c_bundle s) \<and> tbl_wf (c_bundle_command s) \<and> tbl_wf (c_pin s) \<and> tbl_wf (c_maintenance s) \<and> tbl_wf (c_authority s) \<and> tbl_wf (c_credential_source s)"

lemma catalog_wf_empty [simp]: "catalog_wf empty_catalog"
  by (simp add: catalog_wf_def empty_catalog_def)

end
