(* ===== verification/Cv_Access.thy ===== *)
theory Cv_Access
  imports Cv_Catalog
begin

text \<open>
  Who may do what: \<open>src/adapters/access/catalog-access-policy.ts\<close>, the authority lookups and
  \<open>permit\<close> of \<open>sqlite-control-store.ts\<close>, authority bootstrap and update, and the configured
  administrator of \<open>src/db/configured-administrator.ts\<close>. Every guarded catalog operation calls
  \<open>permit\<close>; its contract is the locale \<open>guarded\<close> of \<open>Cv_Permits\<close>.
\<close>

section \<open>The access decision\<close>

datatype decision = Allowed authorization | Denied error_code

definition revoked :: "authority \<Rightarrow> bool" where
  "revoked a = (case at_revokedAt a of None \<Rightarrow> False | Some t \<Rightarrow> t \<noteq> [])"

definition is_administrator :: "principal \<Rightarrow> bool" where
  "is_administrator p = (pr_kind p = Administrator)"

definition grants_action :: "authority \<Rightarrow> action \<Rightarrow> scope \<Rightarrow> bool" where
  "grants_action a act sc = list_ex (\<lambda>g. gr_action g = act \<and> gr_customerId g = scope_customer sc \<and>
     (gr_workspaceId g = None \<or> scope_workspace sc \<noteq> None \<and> gr_workspaceId g = scope_workspace sc)) (at_grants a)"

definition decide_access :: "authority option \<Rightarrow> principal \<Rightarrow> action \<Rightarrow> scope \<Rightarrow> decision" where
  "decide_access auth p act sc =
     (if pr_actorId p = [] \<or> scope_customer sc = [] then Denied FORBIDDEN
      else if \<not> is_administrator p \<and> pr_customerId p \<noteq> Some (scope_customer sc) then Denied FORBIDDEN
      else case auth of
        None \<Rightarrow> Denied CREDENTIAL_REVOKED
      | Some a \<Rightarrow>
          if revoked a \<or> at_credentialVersion a \<noteq> ci_version (pr_credential p) \<or> at_permissionEpoch a \<noteq> pr_permissionEpoch p
          then Denied CREDENTIAL_REVOKED
          else if at_actorId a \<noteq> pr_actorId p \<or> at_credentialId a \<noteq> ci_id (pr_credential p) \<or>
            (if is_administrator p then at_customerId a \<noteq> None else at_customerId a \<noteq> Some (scope_customer sc))
          then Denied FORBIDDEN
          else if \<not> grants_action a act sc then Denied FORBIDDEN
          else Allowed (AuthorizationPrecondition p sc act (at_policyVersion a) (at_permissionEpoch a) (at_credentialVersion a)))"

section \<open>The configured administrator\<close>

definition configured_administrator_actor :: id where
  "configured_administrator_actor = ''administrator:configured-master-key''"

definition legacy_configured_identity :: "authority \<Rightarrow> bool" where
  "legacy_configured_identity a \<longleftrightarrow> at_customerId a = None \<and> at_actorId a = configured_administrator_actor \<and>
     take 14 (at_credentialId a) = ''administrator:'' \<and> sha256_text (drop 14 (at_credentialId a))"

definition provenance_of :: "catalog \<Rightarrow> id \<Rightarrow> admin_provenance option" where
  "provenance_of s i = map_of (c_admin_provenance s) i"

definition write_provenance :: "id \<Rightarrow> admin_provenance \<Rightarrow> catalog \<Rightarrow> catalog" where
  "write_provenance i p s = s\<lparr>c_admin_provenance := (i, p) # filter (\<lambda>(j, _). j \<noteq> i) (c_admin_provenance s)\<rparr>"

definition is_current_configured_administrator :: "catalog \<Rightarrow> authority \<Rightarrow> bool" where
  "is_current_configured_administrator s a = (case provenance_of s (at_credentialId a) of
     None \<Rightarrow> \<not> legacy_configured_identity a
   | Some p \<Rightarrow> at_customerId a = None \<and> at_actorId a = configured_administrator_actor \<and>
       (case c_admin_configuration s of
          None \<Rightarrow> False
        | Some c \<Rightarrow> acf_fingerprint c \<noteq> None \<and> ap_fingerprint p = acf_fingerprint c \<and> ap_epoch p = acf_epoch c))"

definition key_fingerprint :: "platform \<Rightarrow> string option \<Rightarrow> failure + string option" where
  "key_fingerprint P key = (case key of
     None \<Rightarrow> Inr None
   | Some k \<Rightarrow> if k = [] then Inl (Fail INVALID_REQUEST)
       else Inr (Some (pf_sha256 P (''ContextVault configured administrator v1'' @ [char_of (0 :: nat)] @ k))))"

definition replace_authority :: "id \<Rightarrow> authority \<Rightarrow> catalog \<Rightarrow> catalog" where
  "replace_authority i a s = s\<lparr>c_authority := map (\<lambda>(j, r). if j = i then (j, r\<lparr>row_data := a\<rparr>) else (j, r)) (c_authority s)\<rparr>"

definition adopt_legacy_provenance :: "authority \<Rightarrow> catalog \<Rightarrow> catalog" where
  "adopt_legacy_provenance a s =
     (if provenance_of s (at_credentialId a) = None \<and> legacy_configured_identity a
      then write_provenance (at_credentialId a) (AdminProvenance None 0) s else s)"

definition revoke_stale :: "admin_configuration \<Rightarrow> timestamp \<Rightarrow> authority \<Rightarrow> catalog \<Rightarrow> catalog" where
  "revoke_stale cur now a s = (let s1 = adopt_legacy_provenance a s in
     case provenance_of s1 (at_credentialId a) of
       None \<Rightarrow> s1
     | Some p \<Rightarrow>
         if acf_fingerprint cur \<noteq> None \<and> ap_fingerprint p = acf_fingerprint cur \<and> ap_epoch p = acf_epoch cur then s1
         else if at_revokedAt a = None then
           replace_authority (at_credentialId a) (a\<lparr>at_revokedAt := Some now,
             at_credentialVersion := at_credentialVersion a + 1, at_permissionEpoch := at_permissionEpoch a + 1\<rparr>) s1
         else s1)"

definition revoke_previous_configured_credentials :: "admin_configuration \<Rightarrow> timestamp \<Rightarrow> catalog \<Rightarrow> catalog" where
  "revoke_previous_configured_credentials cur now s =
     fold (revoke_stale cur now) (tbl_all (c_authority s) (Some (InCustomer []))) s"

definition install_configuration :: "string option \<Rightarrow> admin_configuration option \<Rightarrow> timestamp \<Rightarrow> catalog \<Rightarrow> failure + (admin_configuration \<times> catalog)" where
  "install_configuration v previous now s =
     (let epoch = (case previous of None \<Rightarrow> 0 | Some c \<Rightarrow> acf_epoch c) + 1;
          cur = AdminConfiguration v epoch now
      in if \<not> safe_integer epoch then Inl (Fail VERSION_CONFLICT)
         else Inr (cur, revoke_previous_configured_credentials cur now (s\<lparr>c_admin_configuration := Some cur\<rparr>)))"

definition synchronize_configured_administrator :: "platform \<Rightarrow> string option \<Rightarrow> timestamp \<Rightarrow> catalog \<Rightarrow> failure + (admin_configuration \<times> catalog)" where
  "synchronize_configured_administrator P key now s = sbind (key_fingerprint P key) (\<lambda>v.
     case c_admin_configuration s of
       Some c \<Rightarrow> if acf_fingerprint c = v then Inr (c, revoke_previous_configured_credentials c now s)
                else install_configuration v (Some c) now s
     | None \<Rightarrow> install_configuration v None now s)"

definition configuration_for_verified_administrator :: "platform \<Rightarrow> string \<Rightarrow> timestamp \<Rightarrow> catalog \<Rightarrow> failure + (admin_configuration \<times> catalog)" where
  "configuration_for_verified_administrator P key now s = sbind (key_fingerprint P (Some key)) (\<lambda>v.
     sbind (case c_admin_configuration s of Some c \<Rightarrow> Inr (c, s) | None \<Rightarrow> install_configuration v None now s) (\<lambda>(c, s1).
     if acf_fingerprint c = None \<or> acf_fingerprint c \<noteq> v then Inl (Fail CREDENTIAL_REVOKED) else Inr (c, s1)))"

definition register_configured_administrator_provenance :: "id \<Rightarrow> admin_configuration \<Rightarrow> catalog \<Rightarrow> failure + catalog" where
  "register_configured_administrator_provenance cid configuration s =
     (case c_admin_configuration s of
        None \<Rightarrow> Inl (Fail CREDENTIAL_REVOKED)
      | Some c \<Rightarrow>
          if acf_fingerprint c = None \<or> acf_fingerprint c \<noteq> acf_fingerprint configuration \<or> acf_epoch c \<noteq> acf_epoch configuration
          then Inl (Fail CREDENTIAL_REVOKED)
          else case tbl_load (c_authority s) cid None of
            None \<Rightarrow> Inl (Fail CREDENTIAL_REVOKED)
          | Some a \<Rightarrow>
              if revoked a \<or> at_customerId a \<noteq> None \<or> at_actorId a \<noteq> configured_administrator_actor
              then Inl (Fail CREDENTIAL_REVOKED)
              else case provenance_of s cid of
                Some p \<Rightarrow> if ap_fingerprint p \<noteq> acf_fingerprint c \<or> ap_epoch p \<noteq> acf_epoch c then Inl (Fail CREDENTIAL_REVOKED) else Inr s
              | None \<Rightarrow> Inr (write_provenance cid (AdminProvenance (acf_fingerprint c) (acf_epoch c)) s))"

section \<open>Authority of a principal\<close>

definition authority_of :: "catalog \<Rightarrow> id \<Rightarrow> principal \<Rightarrow> authority option" where
  "authority_of s customer p =
     (if pr_actorId p = [] then None
      else case tbl_load (c_authority s) (ci_id (pr_credential p)) None of
        None \<Rightarrow> None
      | Some a \<Rightarrow>
          if at_customerId a \<noteq> None \<and> at_customerId a \<noteq> Some customer then None
          else if \<not> is_current_configured_administrator s a then None
          else case tbl_load (c_credential_source s) (ci_id (pr_credential p)) None of
            None \<Rightarrow> None
          | Some k \<Rightarrow>
              if k \<noteq> ci_kind (pr_credential p) then None
              else if k = ApiKey then
                (case map_of (c_api_keys s) (ci_id (pr_credential p)) of
                   None \<Rightarrow> None
                 | Some c \<Rightarrow> if c \<noteq> customer \<or> at_customerId a \<noteq> Some c then None else Some a)
              else Some a)"

definition identity_of :: "principal \<Rightarrow> principal_kind \<times> id \<times> credential_identity \<times> int" where
  "identity_of p = (pr_kind p, pr_actorId p, pr_credential p, pr_permissionEpoch p)"

definition permit :: "catalog \<Rightarrow> principal \<Rightarrow> action \<Rightarrow> scope \<Rightarrow> authorization option \<Rightarrow> failure + unit" where
  "permit s p act sc pre =
     (case decide_access (authority_of s (scope_customer sc) p) p act sc of
        Denied c \<Rightarrow> Inl (Fail c)
      | Allowed cur \<Rightarrow>
          (case pre of
             None \<Rightarrow> Inr ()
           | Some q \<Rightarrow>
               if identity_of (au_principal q) \<noteq> identity_of p \<or> au_scope q \<noteq> sc \<or> au_action q \<noteq> act \<or>
                  au_policyVersion cur \<noteq> au_policyVersion q \<or> au_permissionEpoch cur \<noteq> au_permissionEpoch q \<or>
                  au_credentialVersion cur \<noteq> au_credentialVersion q
               then Inl (Fail CREDENTIAL_REVOKED) else Inr ()))"

text \<open>\<open>CatalogAccessPolicy.evaluate\<close>.\<close>

definition inactive_metadata_actions :: "action list" where
  "inactive_metadata_actions = [WorkspaceAdmin, WorkspaceDelete, CredentialManage, RunRead, OperationRead]"

definition evaluate_policy :: "catalog \<Rightarrow> principal \<Rightarrow> action \<Rightarrow> scope \<Rightarrow> decision" where
  "evaluate_policy s p act sc =
     (if scope_customer sc = [] then Denied FORBIDDEN
      else case decide_access (authority_of s (scope_customer sc) p) p act sc of
        Denied c \<Rightarrow> Denied c
      | Allowed d \<Rightarrow> (case scope_workspace sc of
          None \<Rightarrow> Allowed d
        | Some w \<Rightarrow> (case tbl_load (c_workspace s) w (Some sc) of
            None \<Rightarrow> Denied WORKSPACE_NOT_FOUND
          | Some x \<Rightarrow> if ws_status x \<noteq> WsActive \<and> act \<notin> set inactive_metadata_actions then Denied FORBIDDEN else Allowed d)))"

section \<open>Changing authority\<close>

definition bind_credential_source :: "authority \<Rightarrow> credential_kind option \<Rightarrow> catalog \<Rightarrow> catalog" where
  "bind_credential_source a kind s =
     (if map_of (c_credential_source s) (at_credentialId a) \<noteq> None then s
      else let k = (if map_of (c_api_keys s) (at_credentialId a) \<noteq> None then ApiKey
                    else case kind of Some k \<Rightarrow> k
                         | None \<Rightarrow> if at_customerId a = None then ExternalCredential else ServiceCredential);
               sc = InCustomer (case at_customerId a of None \<Rightarrow> [] | Some c \<Rightarrow> c)
           in s\<lparr>c_credential_source := put_row (at_credentialId a) (mk_row sc None k) (c_credential_source s)\<rparr>)"

definition bootstrap_authority :: "authority \<Rightarrow> credential_kind option \<Rightarrow> catalog \<Rightarrow> failure + catalog" where
  "bootstrap_authority a kind s =
     (let s1 = bind_credential_source a kind s in
      case tbl_load (c_authority s) (at_credentialId a) None of
        Some b \<Rightarrow> if b \<noteq> a then Inl (Fail VERSION_CONFLICT) else Inr s1
      | None \<Rightarrow> Inr (s1\<lparr>c_authority := put_row (at_credentialId a)
          (mk_row (InCustomer (case at_customerId a of None \<Rightarrow> [] | Some c \<Rightarrow> c)) None a) (c_authority s1)\<rparr>))"

datatype update_authority_input = UpdateAuthority (ua_scope: id) (ua_principal: principal) (ua_authorization: authorization)
  (ua_authority: authority) (ua_expectedCredentialVersion: "int option") (ua_expectedPermissionEpoch: int)

definition update_authority :: "update_authority_input \<Rightarrow> catalog \<Rightarrow> failure + (authority \<times> catalog)" where
  "update_authority i s =
     (let a = ua_authority i; existing = tbl_load (c_authority s) (at_credentialId a) None in
      sbind (permit s (ua_principal i) CredentialManage (InCustomer (ua_scope i)) (Some (ua_authorization i))) (\<lambda>_.
      sbind (require (map_option at_credentialVersion existing = ua_expectedCredentialVersion i \<and>
                      (case existing of None \<Rightarrow> 0 | Some e \<Rightarrow> at_permissionEpoch e) = ua_expectedPermissionEpoch i)
               (Fail VERSION_CONFLICT)) (\<lambda>_.
      sbind (require (at_customerId a = Some (ua_scope i) \<or> is_administrator (ua_principal i) \<and> at_customerId a = None)
               (Fail FORBIDDEN)) (\<lambda>_.
      sbind (require (case existing of None \<Rightarrow> True
                      | Some e \<Rightarrow> at_actorId e = at_actorId a \<and> at_customerId e = at_customerId a) (Fail FORBIDDEN)) (\<lambda>_.
      sbind (require (at_credentialVersion a = (case ua_expectedCredentialVersion i of None \<Rightarrow> 0 | Some v \<Rightarrow> v) + 1 \<and>
                      at_permissionEpoch a = ua_expectedPermissionEpoch i + 1 \<and>
                      (case existing of None \<Rightarrow> 1 | Some e \<Rightarrow> at_policyVersion e) \<le> at_policyVersion a) (Fail INVALID_REQUEST)) (\<lambda>_.
      sbind (require (list_all (\<lambda>g. gr_customerId g = ua_scope i) (at_grants a)) (Fail FORBIDDEN)) (\<lambda>_.
      sbind (write_authority (at_credentialId a) (InCustomer (case at_customerId a of None \<Rightarrow> [] | Some c \<Rightarrow> c)) a False None
               (bind_credential_source a None s)) (\<lambda>s1.
      Inr (a, s1)))))))))"

section \<open>Facts\<close>

lemma decide_access_Allowed:
  assumes "decide_access auth p act sc = Allowed d"
  shows "\<exists>a. auth = Some a \<and> \<not> revoked a \<and> at_credentialVersion a = ci_version (pr_credential p) \<and>
    at_permissionEpoch a = pr_permissionEpoch p \<and> at_actorId a = pr_actorId p \<and>
    at_credentialId a = ci_id (pr_credential p) \<and> grants_action a act sc \<and>
    (is_administrator p \<and> at_customerId a = None \<or>
     \<not> is_administrator p \<and> pr_customerId p = Some (scope_customer sc) \<and> at_customerId a = Some (scope_customer sc)) \<and>
    d = AuthorizationPrecondition p sc act (at_policyVersion a) (at_permissionEpoch a) (at_credentialVersion a)"
  using assms by (auto simp: decide_access_def split: if_splits option.splits)

lemma permit_Inr:
  "permit s p act sc pre = Inr u \<longleftrightarrow> (\<exists>cur. decide_access (authority_of s (scope_customer sc) p) p act sc = Allowed cur \<and>
     (\<forall>q. pre = Some q \<longrightarrow> identity_of (au_principal q) = identity_of p \<and> au_scope q = sc \<and> au_action q = act \<and>
        au_policyVersion cur = au_policyVersion q \<and> au_permissionEpoch cur = au_permissionEpoch q \<and>
        au_credentialVersion cur = au_credentialVersion q))"
  by (auto simp: permit_def split: decision.splits option.splits)

lemma authority_of_loaded: "authority_of s c p = Some a \<Longrightarrow> tbl_load (c_authority s) (ci_id (pr_credential p)) None = Some a"
  by (auto simp: authority_of_def split: option.splits if_splits)

text \<open>The part of the catalog \<open>permit\<close> reads.\<close>

definition same_authority :: "catalog \<Rightarrow> catalog \<Rightarrow> bool" where
  "same_authority s t \<longleftrightarrow> c_authority s = c_authority t \<and> c_credential_source s = c_credential_source t \<and>
     c_api_keys s = c_api_keys t \<and> c_admin_configuration s = c_admin_configuration t \<and>
     c_admin_provenance s = c_admin_provenance t"

lemma current_administrator_cong:
  "same_authority s t \<Longrightarrow> is_current_configured_administrator s a = is_current_configured_administrator t a"
  by (simp add: same_authority_def is_current_configured_administrator_def provenance_of_def cong: option.case_cong)

lemma authority_of_cong: "same_authority s t \<Longrightarrow> authority_of s c p = authority_of t c p"
  unfolding authority_of_def
  by (simp add: current_administrator_cong [of s t] cong: option.case_cong if_cong)
    (simp add: same_authority_def cong: option.case_cong if_cong)

lemma permit_cong: "same_authority s t \<Longrightarrow> permit s p act sc pre = permit t p act sc pre"
  by (simp add: permit_def authority_of_cong)

end
