(* ===== verification/Cv_Core.thy ===== *)
theory Cv_Core
  imports Cv_Access
begin

text \<open>
  The private helpers of \<open>SqliteControlStore\<close> that every catalog command is made of: the command
  envelope and its replay, operation records, publication events, cleanup records, processing
  claims and candidates. Each is the method of the same name in
  \<open>src/adapters/control/sqlite-control-store.ts\<close>. A method that may write takes the catalog and
  returns the next one; one that only reads returns its value.
\<close>

section \<open>Guards\<close>

definition fail_unless :: "bool \<Rightarrow> error_code \<Rightarrow> failure + unit" where
  "fail_unless b c = require b (Fail c)"

lemma fail_unless_eq_Inr [txn_simps]: "fail_unless b c = Inr u \<longleftrightarrow> b"
  by (simp add: fail_unless_def txn_simps)

lemma post_fail_unless [post_simps]: "post (fail_unless b c) Q \<longleftrightarrow> (b \<longrightarrow> Q ())"
  by (simp add: fail_unless_def post_simps)

lemma fail_unless_simps [simp]: "fail_unless True c = Inr ()" "fail_unless False c = Inl (Fail c)"
  by (simp_all add: fail_unless_def)

definition load_or :: "'a table \<Rightarrow> id \<Rightarrow> scope \<Rightarrow> error_code \<Rightarrow> failure + 'a" where
  "load_or t i sc c = found (tbl_load t i (Some sc)) (Fail c)"

lemma load_or_eq_Inr [txn_simps]: "load_or t i sc c = Inr d \<longleftrightarrow> tbl_load t i (Some sc) = Some d"
  by (simp add: load_or_def txn_simps)

lemma post_load_or [post_simps]: "post (load_or t i sc c) Q \<longleftrightarrow> (\<forall>d. tbl_load t i (Some sc) = Some d \<longrightarrow> Q d)"
  by (simp add: load_or_def post_simps)

lemma load_or_simps [simp]:
  "tbl_load t i (Some sc) = Some d \<Longrightarrow> load_or t i sc c = Inr d"
  "tbl_load t i (Some sc) = None \<Longrightarrow> load_or t i sc c = Inl (Fail c)"
  by (simp_all add: load_or_def)

section \<open>Workspaces, runs and their guards\<close>

definition scope_of :: "workspace \<Rightarrow> workspace_scope" where
  "scope_of w = WorkspaceScope (ws_customerId w) (ws_id w)"

definition binding_of :: "workspace \<Rightarrow> binding_scope" where
  "binding_of w = BindingScope (ws_customerId w) (ws_id w) (ws_storageBindingId w) (ws_bindingGeneration w)"

definition workspace_at :: "catalog \<Rightarrow> workspace_scope \<Rightarrow> bool \<Rightarrow> failure + workspace" where
  "workspace_at s sc active =
     sbind (load_or (c_workspace s) (wsc_workspaceId sc) (of_ws sc) WORKSPACE_NOT_FOUND) (\<lambda>w.
     sbind (fail_unless (active \<longrightarrow> ws_status w = WsActive) WORKSPACE_INACTIVE) (\<lambda>_. Inr w))"

definition run_at :: "catalog \<Rightarrow> run_scope \<Rightarrow> principal \<Rightarrow> action option \<Rightarrow> failure + run" where
  "run_at s sc p act =
     sbind (workspace_at s (rs_workspace sc) True) (\<lambda>_.
     sbind (load_or (c_run s) (rsc_runId sc) (of_rs sc) RUN_NOT_FOUND) (\<lambda>r.
     sbind (fail_unless (rn_scope r = rs_binding sc) STORAGE_BINDING_CHANGED) (\<lambda>_.
     sbind (workspace_at s (rs_workspace sc) True) (\<lambda>w.
     sbind (fail_unless (ws_storageBindingId w = rsc_storageBindingId sc \<and> ws_bindingGeneration w = rsc_bindingGeneration sc)
              STORAGE_BINDING_CHANGED) (\<lambda>_.
     sbind (fail_unless (identity_of p = identity_of (rn_principal r)) FORBIDDEN) (\<lambda>_.
     sbind (case act of None \<Rightarrow> Inr () | Some a \<Rightarrow> permit s p a (of_rs sc) None) (\<lambda>_.
     Inr r)))))))"

definition check_active :: "run \<Rightarrow> timestamp \<Rightarrow> failure + unit" where
  "check_active r now =
     sbind (fail_unless (rn_state r = Active)
              (if rn_state r = Finalizing then FINALIZATION_IN_PROGRESS else INVALID_TRANSITION)) (\<lambda>_.
     fail_unless (now < rl_expiresAt (rn_lease r)) RUN_EXPIRED)"

definition open_migration :: "migration \<Rightarrow> bool" where
  "open_migration m \<longleftrightarrow> mg_state m \<noteq> MigComplete \<and> mg_state m \<noteq> MigFailed"

definition migrating :: "catalog \<Rightarrow> workspace_scope \<Rightarrow> bool" where
  "migrating s sc = list_ex open_migration (tbl_all (c_migration s) (Some (of_ws sc)))"

definition valid_claim :: "processing_claim \<Rightarrow> timestamp \<Rightarrow> failure + unit" where
  "valid_claim c now = fail_unless (pc_ownerId c \<noteq> [] \<and> safe_integer (pc_fence c) \<and> 1 \<le> pc_fence c \<and> now < pc_expiresAt c) INVALID_REQUEST"

section \<open>Commands\<close>

definition check_command :: "command_identity \<Rightarrow> principal \<Rightarrow> scope \<Rightarrow> operation_kind \<Rightarrow> id option \<Rightarrow> failure + unit" where
  "check_command c p sc k rid =
     sbind (fail_unless (cm_key c \<noteq> [] \<and> cm_requestDigest c \<noteq> [] \<and> cm_operationId c \<noteq> []) INVALID_REQUEST) (\<lambda>_.
     fail_unless (cm_scope c = IdempotencyScope (scope_customer sc) (pr_actorId p) k (scope_workspace sc) rid) FORBIDDEN)"

definition replay :: "catalog \<Rightarrow> command_identity \<Rightarrow> principal \<Rightarrow> failure + command_result option" where
  "replay s c p = (case find_command s (cm_scope c) (cm_key c) of
     None \<Rightarrow> Inr None
   | Some row \<Rightarrow>
       sbind (fail_unless (cmr_digest row = cm_requestDigest c) IDEMPOTENCY_KEY_REUSED) (\<lambda>_.
       sbind (found (tbl_load (c_operation s) (cmr_operation row) None) Crash) (\<lambda>o'.
       sbind (fail_unless (identity_of (op_principal o') = identity_of p) FORBIDDEN) (\<lambda>_.
       Inr (Some (CommandResult o' (cmr_value row) True))))))"

definition new_operation :: "command_identity \<Rightarrow> principal \<Rightarrow> workspace_scope \<Rightarrow> id option \<Rightarrow> operation_result option \<Rightarrow> operation" where
  "new_operation c p sc rid res = \<lparr>op_id = cm_operationId c, op_kind = is_kind (cm_scope c), op_scope = sc, op_runId = rid,
     op_principal = p, op_command = c, op_state = (if res = None then OpProcessing else OpSucceeded),
     op_phase = (if res = None then PhClaimed else PhComplete), op_version = 1, op_claim = None, op_candidate = None,
     op_result = res, op_error = None, op_intent = CommandIntent None, op_createdAt = cm_requestedAt c, op_updatedAt = cm_requestedAt c\<rparr>"

lemma new_operation_simps [simp]:
  "op_id (new_operation c p sc rid res) = cm_operationId c"
  "op_kind (new_operation c p sc rid res) = is_kind (cm_scope c)"
  "op_scope (new_operation c p sc rid res) = sc"
  "op_runId (new_operation c p sc rid res) = rid"
  "op_principal (new_operation c p sc rid res) = p"
  "op_command (new_operation c p sc rid res) = c"
  "op_state (new_operation c p sc rid res) = (if res = None then OpProcessing else OpSucceeded)"
  "op_claim (new_operation c p sc rid res) = None"
  "op_result (new_operation c p sc rid res) = res"
  "op_intent (new_operation c p sc rid res) = CommandIntent None"
  by (simp_all add: new_operation_def)

definition save_command :: "operation \<Rightarrow> command_value \<Rightarrow> catalog \<Rightarrow> failure + (command_result \<times> catalog)" where
  "save_command o' v s =
     sbind (write_operation (op_id o') (of_ws (op_scope o')) o' True (op_runId o') s) (\<lambda>s1.
     sbind (insert_command (cm_scope (op_command o')) (cm_key (op_command o'))
              (CommandRow (cm_requestDigest (op_command o')) (op_id o') v) s1) (\<lambda>s2.
     Inr (CommandResult o' v False, s2)))"

definition save_operation :: "operation \<Rightarrow> catalog \<Rightarrow> failure + catalog" where
  "save_operation o' s = write_operation (op_id o') (of_ws (op_scope o')) o' False (op_runId o') s"

definition save_outcome :: "operation \<Rightarrow> command_value \<Rightarrow> catalog \<Rightarrow> failure + catalog" where
  "save_outcome o' v s = sbind (save_operation o' s) (\<lambda>s1. Inr (update_command (op_id o') v s1))"

section \<open>Events\<close>

definition event_matches :: "audit_event \<Rightarrow> id \<Rightarrow> workspace_scope \<Rightarrow> id option \<Rightarrow> id \<Rightarrow> bool" where
  "event_matches e oid sc rid actor \<longleftrightarrow> ev_scope e = sc \<and> ev_operationId e = oid \<and> ev_runId e = rid \<and> ev_actorId e = actor"

definition write_events :: "publication_events \<Rightarrow> id \<Rightarrow> workspace_scope \<Rightarrow> id option \<Rightarrow> id \<Rightarrow> catalog \<Rightarrow> failure + catalog" where
  "write_events e oid sc rid actor s =
     sbind (fail_unless (event_matches (pe_audit e) oid sc rid actor \<and> event_matches (ox_event (pe_outbox e)) oid sc rid actor) FORBIDDEN) (\<lambda>_.
     sbind (fail_unless (ox_deliveryState (pe_outbox e) = DeliveryPending \<and> ox_claim (pe_outbox e) = None \<and>
              ox_version (pe_outbox e) = 1 \<and> ox_attempts (pe_outbox e) = 0) INVALID_REQUEST) (\<lambda>_.
     sbind (write_audit (ev_id (pe_audit e)) (of_ws sc) (pe_audit e) True rid s) (\<lambda>s1.
     write_outbox (ev_id (ox_event (pe_outbox e))) (of_ws sc) (pe_outbox e) True rid s1)))"

definition operation_events :: "publication_events \<Rightarrow> operation \<Rightarrow> catalog \<Rightarrow> failure + catalog" where
  "operation_events e o' s = write_events e (op_id o') (op_scope o') (op_runId o') (pr_actorId (op_principal o')) s"

section \<open>Cleanup records\<close>

definition new_cleanup :: "id \<Rightarrow> workspace_scope \<Rightarrow> id option \<Rightarrow> timestamp \<Rightarrow> cleanup" where
  "new_cleanup i sc rid now = \<lparr>cl_id = i, cl_scope = sc, cl_runId = rid, cl_state = CleanupPending, cl_version = 1, cl_attempts = 0,
     cl_claim = None, cl_nextAttemptAt = now, cl_lastError = None, cl_targetCursor = None\<rparr>"

definition ensure_cleanup :: "run \<Rightarrow> timestamp \<Rightarrow> catalog \<Rightarrow> failure + (cleanup \<times> catalog)" where
  "ensure_cleanup r now s = (case tbl_load (c_cleanup s) (rn_cleanupId r) (Some (of_bs (rn_scope r))) of
     Some c \<Rightarrow> sbind (fail_unless (cl_runId c = Some (rn_id r)) VERSION_CONFLICT) (\<lambda>_. Inr (c, s))
   | None \<Rightarrow> (let c = new_cleanup (rn_cleanupId r) (bs_workspace (rn_scope r)) (Some (rn_id r)) now in
       sbind (write_cleanup (cl_id c) (of_ws (cl_scope c)) c True (Some (rn_id r)) s) (\<lambda>s1. Inr (c, s1))))"

section \<open>Processing claims and candidates\<close>

datatype processing_cas = ProcessingCAS (cs_scope: workspace_scope) (cs_operationId: id) (cs_expectedOperationVersion: int)
  (cs_processingFence: int) (cs_now: timestamp)

definition processing :: "catalog \<Rightarrow> processing_cas \<Rightarrow> failure + operation" where
  "processing s i =
     sbind (load_or (c_operation s) (cs_operationId i) (of_ws (cs_scope i)) OPERATION_NOT_FOUND) (\<lambda>o'.
     sbind (fail_unless (map_option pc_fence (op_claim o') = Some (cs_processingFence i)) STALE_FENCE) (\<lambda>_.
     sbind (fail_unless (op_state o' = OpProcessing \<and> (case op_claim o' of None \<Rightarrow> False | Some c \<Rightarrow> cs_now i < pc_expiresAt c)) STALE_FENCE) (\<lambda>_.
     sbind (fail_unless (op_version o' = cs_expectedOperationVersion i) VERSION_CONFLICT) (\<lambda>_.
     Inr o'))))"

definition match_candidate :: "catalog \<Rightarrow> candidate_identity \<Rightarrow> prepared_revision \<Rightarrow> string \<Rightarrow> failure + unit" where
  "match_candidate s ident c digest =
     sbind (fail_unless (cd_candidateId ident = pp_candidateId c \<and> cd_revisionId ident = pp_revisionId c \<and> cd_scope ident = pp_scope c \<and>
              cd_parentRevisionId ident = pp_parentRevisionId c \<and> cd_operationId ident = pp_operationId c \<and>
              pp_manifestDigest c = digest \<and> pl_storeId (pp_privateReference c) \<noteq> [] \<and> pl_opaqueKey (pp_privateReference c) \<noteq> []) RECEIPT_MISMATCH) (\<lambda>_.
     case tbl_load (c_candidate s) (pp_candidateId c) (Some (of_bs (pp_scope c))) of
       None \<Rightarrow> Inl (Fail STALE_FENCE)
     | Some reg \<Rightarrow>
         sbind (fail_unless (cr_collection reg = None) STALE_FENCE) (\<lambda>_.
         fail_unless (cr_prepared reg = None \<or> cr_prepared reg = Some c) RECEIPT_MISMATCH))"

definition register_candidate :: "candidate_identity \<Rightarrow> catalog \<Rightarrow> failure + catalog" where
  "register_candidate ident s = write_candidate (cd_candidateId ident) (of_bs (cd_scope ident))
     \<lparr>cr_identity = ident, cr_prepared = None, cr_collection = None, cr_collectedAt = None\<rparr> True None s"

definition record_prepared :: "prepared_revision \<Rightarrow> catalog \<Rightarrow> failure + catalog" where
  "record_prepared c s =
     sbind (found (tbl_load (c_candidate s) (pp_candidateId c) (Some (of_bs (pp_scope c)))) Crash) (\<lambda>reg.
     write_candidate (pp_candidateId c) (of_bs (pp_scope c)) (reg\<lparr>cr_prepared := Some c\<rparr>) False None s)"

definition revision_of :: "prepared_revision \<Rightarrow> timestamp \<Rightarrow> revision" where
  "revision_of c now = \<lparr>rv_id = pp_revisionId c, rv_scope = pp_scope c, rv_parentRevisionId = pp_parentRevisionId c,
     rv_manifestDigest = pp_manifestDigest c, rv_privateReference = pp_privateReference c,
     rv_originatingOperationId = pp_operationId c, rv_createdAt = now\<rparr>"

lemma new_cleanup_simps [simp]:
  "cl_id (new_cleanup i sc rid now) = i" "cl_scope (new_cleanup i sc rid now) = sc"
  "cl_runId (new_cleanup i sc rid now) = rid" "cl_state (new_cleanup i sc rid now) = CleanupPending"
  by (simp_all add: new_cleanup_def)

lemma revision_of_simps [simp]:
  "rv_id (revision_of c now) = pp_revisionId c" "rv_scope (revision_of c now) = pp_scope c"
  "rv_parentRevisionId (revision_of c now) = pp_parentRevisionId c" "rv_manifestDigest (revision_of c now) = pp_manifestDigest c"
  "rv_privateReference (revision_of c now) = pp_privateReference c" "rv_originatingOperationId (revision_of c now) = pp_operationId c"
  by (simp_all add: revision_of_def)

section \<open>Inversion of the helpers\<close>

lemma workspace_at_eq [txn_simps]:
  "workspace_at s sc act = Inr w \<longleftrightarrow> tbl_load (c_workspace s) (wsc_workspaceId sc) (Some (of_ws sc)) = Some w \<and> (act \<longrightarrow> ws_status w = WsActive)"
  by (auto simp: workspace_at_def txn_simps)

lemma run_at_eq [txn_simps]:
  "run_at s sc p act = Inr r \<longleftrightarrow>
     tbl_load (c_run s) (rsc_runId sc) (Some (of_rs sc)) = Some r \<and> rn_scope r = rs_binding sc \<and>
     identity_of p = identity_of (rn_principal r) \<and>
     (\<exists>w. workspace_at s (rs_workspace sc) True = Inr w \<and> ws_storageBindingId w = rsc_storageBindingId sc \<and>
          ws_bindingGeneration w = rsc_bindingGeneration sc) \<and>
     (\<forall>a. act = Some a \<longrightarrow> permit s p a (of_rs sc) None = Inr ())"
  by (auto simp: run_at_def txn_simps split: option.splits)

lemma check_active_eq [txn_simps]: "check_active r now = Inr u \<longleftrightarrow> rn_state r = Active \<and> now < rl_expiresAt (rn_lease r)"
  by (simp add: check_active_def txn_simps)

lemma valid_claim_eq [txn_simps]:
  "valid_claim c now = Inr u \<longleftrightarrow> pc_ownerId c \<noteq> [] \<and> safe_integer (pc_fence c) \<and> 1 \<le> pc_fence c \<and> now < pc_expiresAt c"
  by (simp add: valid_claim_def txn_simps)

lemma check_command_eq [txn_simps]:
  "check_command c p sc k rid = Inr u \<longleftrightarrow> cm_key c \<noteq> [] \<and> cm_requestDigest c \<noteq> [] \<and> cm_operationId c \<noteq> [] \<and>
     cm_scope c = IdempotencyScope (scope_customer sc) (pr_actorId p) k (scope_workspace sc) rid"
  by (auto simp: check_command_def txn_simps)

lemma replay_None: "replay s c p = Inr None \<longleftrightarrow> find_command s (cm_scope c) (cm_key c) = None"
  by (auto simp: replay_def txn_simps split: option.splits)

lemma replay_Some:
  "replay s c p = Inr (Some r) \<longleftrightarrow> (\<exists>row o'. find_command s (cm_scope c) (cm_key c) = Some row \<and>
     cmr_digest row = cm_requestDigest c \<and> tbl_load (c_operation s) (cmr_operation row) None = Some o' \<and>
     identity_of (op_principal o') = identity_of p \<and> r = CommandResult o' (cmr_value row) True)"
  by (auto simp: replay_def txn_simps split: option.splits)

lemma save_command_eq [txn_simps]:
  "save_command o' v s = Inr (r, s') \<longleftrightarrow>
     writable (c_operation s) (op_id o') (of_ws (op_scope o')) True \<and>
     find_command s (cm_scope (op_command o')) (cm_key (op_command o')) = None \<and>
     \<not> list_ex (\<lambda>(_, q). cmr_operation q = op_id o') (c_commands s) \<and> r = CommandResult o' v False \<and>
     s' = s\<lparr>c_operation := put_row (op_id o') (mk_row (of_ws (op_scope o')) (op_runId o') o') (c_operation s),
            c_commands := ((cm_scope (op_command o'), cm_key (op_command o')),
              CommandRow (cm_requestDigest (op_command o')) (op_id o') v) # c_commands s\<rparr>"
  by (auto simp: save_command_def txn_simps find_command_def)

lemma save_operation_eq [txn_simps]:
  "save_operation o' s = Inr s' \<longleftrightarrow> writable (c_operation s) (op_id o') (of_ws (op_scope o')) False \<and>
     s' = s\<lparr>c_operation := put_row (op_id o') (mk_row (of_ws (op_scope o')) (op_runId o') o') (c_operation s)\<rparr>"
  by (simp add: save_operation_def txn_simps)

lemma save_outcome_eq [txn_simps]:
  "save_outcome o' v s = Inr s' \<longleftrightarrow> writable (c_operation s) (op_id o') (of_ws (op_scope o')) False \<and>
     s' = update_command (op_id o') v (s\<lparr>c_operation := put_row (op_id o') (mk_row (of_ws (op_scope o')) (op_runId o') o') (c_operation s)\<rparr>)"
  by (auto simp: save_outcome_def txn_simps)

lemma write_events_eq [txn_simps]:
  "write_events e oid sc rid actor s = Inr s' \<longleftrightarrow>
     event_matches (pe_audit e) oid sc rid actor \<and> event_matches (ox_event (pe_outbox e)) oid sc rid actor \<and>
     ox_deliveryState (pe_outbox e) = DeliveryPending \<and> ox_claim (pe_outbox e) = None \<and> ox_version (pe_outbox e) = 1 \<and> ox_attempts (pe_outbox e) = 0 \<and>
     writable (c_audit s) (ev_id (pe_audit e)) (of_ws sc) True \<and> writable (c_outbox s) (ev_id (ox_event (pe_outbox e))) (of_ws sc) True \<and>
     s' = s\<lparr>c_audit := put_row (ev_id (pe_audit e)) (mk_row (of_ws sc) rid (pe_audit e)) (c_audit s),
            c_outbox := put_row (ev_id (ox_event (pe_outbox e))) (mk_row (of_ws sc) rid (pe_outbox e)) (c_outbox s)\<rparr>"
  by (auto simp: write_events_def txn_simps)

lemma processing_eq [txn_simps]:
  "processing s i = Inr o' \<longleftrightarrow> tbl_load (c_operation s) (cs_operationId i) (Some (of_ws (cs_scope i))) = Some o' \<and>
     op_state o' = OpProcessing \<and> op_version o' = cs_expectedOperationVersion i \<and>
     (\<exists>c. op_claim o' = Some c \<and> pc_fence c = cs_processingFence i \<and> cs_now i < pc_expiresAt c)"
  by (auto simp: processing_def txn_simps split: option.splits)

lemma match_candidate_eq [txn_simps]:
  "match_candidate s ident c digest = Inr u \<longleftrightarrow>
     cd_candidateId ident = pp_candidateId c \<and> cd_revisionId ident = pp_revisionId c \<and> cd_scope ident = pp_scope c \<and>
     cd_parentRevisionId ident = pp_parentRevisionId c \<and> cd_operationId ident = pp_operationId c \<and>
     pp_manifestDigest c = digest \<and> pl_storeId (pp_privateReference c) \<noteq> [] \<and> pl_opaqueKey (pp_privateReference c) \<noteq> [] \<and>
     (\<exists>reg. tbl_load (c_candidate s) (pp_candidateId c) (Some (of_bs (pp_scope c))) = Some reg \<and>
        cr_collection reg = None \<and> (cr_prepared reg = None \<or> cr_prepared reg = Some c))"
  by (auto simp: match_candidate_def txn_simps split: option.splits)

lemma register_candidate_eq [txn_simps]:
  "register_candidate ident s = Inr s' \<longleftrightarrow> writable (c_candidate s) (cd_candidateId ident) (of_bs (cd_scope ident)) True \<and>
     s' = s\<lparr>c_candidate := put_row (cd_candidateId ident) (mk_row (of_bs (cd_scope ident)) None
       \<lparr>cr_identity = ident, cr_prepared = None, cr_collection = None, cr_collectedAt = None\<rparr>) (c_candidate s)\<rparr>"
  by (simp add: register_candidate_def txn_simps)

lemma record_prepared_eq [txn_simps]:
  "record_prepared c s = Inr s' \<longleftrightarrow> (\<exists>reg. tbl_load (c_candidate s) (pp_candidateId c) (Some (of_bs (pp_scope c))) = Some reg \<and>
     writable (c_candidate s) (pp_candidateId c) (of_bs (pp_scope c)) False \<and>
     s' = s\<lparr>c_candidate := put_row (pp_candidateId c) (mk_row (of_bs (pp_scope c)) None (reg\<lparr>cr_prepared := Some c\<rparr>)) (c_candidate s)\<rparr>)"
  by (auto simp: record_prepared_def txn_simps)

lemma ensure_cleanup_eq [txn_simps]:
  "ensure_cleanup r now s = Inr (c, s') \<longleftrightarrow>
     (case tbl_load (c_cleanup s) (rn_cleanupId r) (Some (of_bs (rn_scope r))) of
        Some c' \<Rightarrow> cl_runId c' = Some (rn_id r) \<and> c = c' \<and> s' = s
      | None \<Rightarrow> writable (c_cleanup s) (rn_cleanupId r) (of_bs (rn_scope r)) True \<and>
          c = new_cleanup (rn_cleanupId r) (bs_workspace (rn_scope r)) (Some (rn_id r)) now \<and>
          s' = s\<lparr>c_cleanup := put_row (rn_cleanupId r) (mk_row (of_bs (rn_scope r)) (Some (rn_id r)) c) (c_cleanup s)\<rparr>)"
  by (auto simp: ensure_cleanup_def txn_simps Let_def new_cleanup_def of_ws_def of_bs_def bs_workspace_def split: option.splits)

section \<open>Postconditions of the helpers\<close>

lemma post_workspace_at [post_simps]:
  "post (workspace_at s sc act) Q \<longleftrightarrow> (\<forall>w. tbl_load (c_workspace s) (wsc_workspaceId sc) (Some (of_ws sc)) = Some w \<and>
     (act \<longrightarrow> ws_status w = WsActive) \<longrightarrow> Q w)"
  by (simp add: post_def txn_simps)

lemma post_permit [post_simps]: "post (permit s p act sc pre) Q \<longleftrightarrow> (permit s p act sc pre = Inr () \<longrightarrow> Q ())"
  by (simp add: post_def)

lemma post_check_command [post_simps]: "post (check_command c p sc k rid) Q \<longleftrightarrow> (check_command c p sc k rid = Inr () \<longrightarrow> Q ())"
  by (simp add: post_def)

lemma post_valid_claim [post_simps]: "post (valid_claim c now) Q \<longleftrightarrow> (valid_claim c now = Inr () \<longrightarrow> Q ())"
  by (simp add: post_def)

lemma post_check_active [post_simps]:
  "post (check_active r now) Q \<longleftrightarrow> (rn_state r = Active \<and> now < rl_expiresAt (rn_lease r) \<longrightarrow> Q ())"
  by (simp add: post_def check_active_eq)

lemma post_match_candidate [post_simps]:
  "post (match_candidate s ident c d) Q \<longleftrightarrow> (match_candidate s ident c d = Inr () \<longrightarrow> Q ())"
  by (simp add: post_def)

lemma post_run_at [post_simps]: "post (run_at s sc p act) Q \<longleftrightarrow> (\<forall>r. run_at s sc p act = Inr r \<longrightarrow> Q r)"
  by (simp add: post_def)

lemma post_processing [post_simps]: "post (processing s i) Q \<longleftrightarrow> (\<forall>o'. processing s i = Inr o' \<longrightarrow> Q o')"
  by (simp add: post_def)

lemma post_replay [post_simps]:
  "post (replay s c p) Q \<longleftrightarrow> (find_command s (cm_scope c) (cm_key c) = None \<longrightarrow> Q None) \<and>
     (\<forall>r. replay s c p = Inr (Some r) \<longrightarrow> Q (Some r))"
proof -
  have "replay s c p = Inr None \<longleftrightarrow> find_command s (cm_scope c) (cm_key c) = None" by (rule replay_None)
  moreover have "(\<forall>a. replay s c p = Inr a \<longrightarrow> Q a) \<longleftrightarrow>
      (replay s c p = Inr None \<longrightarrow> Q None) \<and> (\<forall>r. replay s c p = Inr (Some r) \<longrightarrow> Q (Some r))"
    by (metis option.exhaust)
  ultimately show ?thesis by (simp add: post_def)
qed

lemma post_save_command [post_simps]:
  "post (save_command o' v s) Q \<longleftrightarrow>
     (writable (c_operation s) (op_id o') (of_ws (op_scope o')) True \<and>
      find_command s (cm_scope (op_command o')) (cm_key (op_command o')) = None \<and>
      \<not> list_ex (\<lambda>(_, q). cmr_operation q = op_id o') (c_commands s) \<longrightarrow>
      Q (CommandResult o' v False, s\<lparr>c_operation := put_row (op_id o') (mk_row (of_ws (op_scope o')) (op_runId o') o') (c_operation s),
            c_commands := ((cm_scope (op_command o'), cm_key (op_command o')),
              CommandRow (cm_requestDigest (op_command o')) (op_id o') v) # c_commands s\<rparr>))"
  by (auto simp: post_def save_command_eq)

lemma post_save_operation [post_simps]:
  "post (save_operation o' s) Q \<longleftrightarrow> (writable (c_operation s) (op_id o') (of_ws (op_scope o')) False \<longrightarrow>
     Q (s\<lparr>c_operation := put_row (op_id o') (mk_row (of_ws (op_scope o')) (op_runId o') o') (c_operation s)\<rparr>))"
  by (auto simp: post_def save_operation_eq)

lemma post_save_outcome [post_simps]:
  "post (save_outcome o' v s) Q \<longleftrightarrow> (writable (c_operation s) (op_id o') (of_ws (op_scope o')) False \<longrightarrow>
     Q (update_command (op_id o') v (s\<lparr>c_operation := put_row (op_id o') (mk_row (of_ws (op_scope o')) (op_runId o') o') (c_operation s)\<rparr>)))"
  by (auto simp: post_def save_outcome_eq)

lemma post_write_events [post_simps]:
  "post (write_events e oid sc rid actor s) Q \<longleftrightarrow>
     (event_matches (pe_audit e) oid sc rid actor \<and> event_matches (ox_event (pe_outbox e)) oid sc rid actor \<and>
      ox_deliveryState (pe_outbox e) = DeliveryPending \<and> ox_claim (pe_outbox e) = None \<and> ox_version (pe_outbox e) = 1 \<and> ox_attempts (pe_outbox e) = 0 \<and>
      writable (c_audit s) (ev_id (pe_audit e)) (of_ws sc) True \<and> writable (c_outbox s) (ev_id (ox_event (pe_outbox e))) (of_ws sc) True \<longrightarrow>
      Q (s\<lparr>c_audit := put_row (ev_id (pe_audit e)) (mk_row (of_ws sc) rid (pe_audit e)) (c_audit s),
           c_outbox := put_row (ev_id (ox_event (pe_outbox e))) (mk_row (of_ws sc) rid (pe_outbox e)) (c_outbox s)\<rparr>))"
  by (auto simp: post_def write_events_eq)

lemma post_operation_events [post_simps]:
  "post (operation_events e o' s) Q \<longleftrightarrow> post (write_events e (op_id o') (op_scope o') (op_runId o') (pr_actorId (op_principal o')) s) Q"
  by (simp add: operation_events_def)

lemma post_register_candidate [post_simps]:
  "post (register_candidate ident s) Q \<longleftrightarrow> (writable (c_candidate s) (cd_candidateId ident) (of_bs (cd_scope ident)) True \<longrightarrow>
     Q (s\<lparr>c_candidate := put_row (cd_candidateId ident) (mk_row (of_bs (cd_scope ident)) None
       \<lparr>cr_identity = ident, cr_prepared = None, cr_collection = None, cr_collectedAt = None\<rparr>) (c_candidate s)\<rparr>))"
  by (auto simp: post_def register_candidate_eq)

lemma post_record_prepared [post_simps]:
  "post (record_prepared c s) Q \<longleftrightarrow> (\<forall>reg. tbl_load (c_candidate s) (pp_candidateId c) (Some (of_bs (pp_scope c))) = Some reg \<longrightarrow>
     Q (s\<lparr>c_candidate := put_row (pp_candidateId c) (mk_row (of_bs (pp_scope c)) None (reg\<lparr>cr_prepared := Some c\<rparr>)) (c_candidate s)\<rparr>))"
  by (auto simp: post_def record_prepared_eq of_bs_def loaded_writable)

lemma post_ensure_cleanup [post_simps]:
  "post (ensure_cleanup r now s) Q \<longleftrightarrow>
     (\<forall>c. tbl_load (c_cleanup s) (rn_cleanupId r) (Some (of_bs (rn_scope r))) = Some c \<and> cl_runId c = Some (rn_id r) \<longrightarrow> Q (c, s)) \<and>
     (tbl_load (c_cleanup s) (rn_cleanupId r) (Some (of_bs (rn_scope r))) = None \<and> writable (c_cleanup s) (rn_cleanupId r) (of_bs (rn_scope r)) True \<longrightarrow>
      (let c = new_cleanup (rn_cleanupId r) (bs_workspace (rn_scope r)) (Some (rn_id r)) now in
       Q (c, s\<lparr>c_cleanup := put_row (rn_cleanupId r) (mk_row (of_bs (rn_scope r)) (Some (rn_id r)) c) (c_cleanup s)\<rparr>)))"
  by (auto simp: post_def ensure_cleanup_eq Let_def split: option.splits)

end
