(* ===== verification/Cv_Evolution.thy ===== *)
theory Cv_Evolution
  imports Cv_Core
begin

text \<open>
  What every catalog operation promises about the rows it finds: the allowed change of one record of
  each kind (\<open>rn_next\<close> for runs, \<open>op_next\<close> for operations, ...), their conjunction over all tables
  (\<open>evolution\<close>), the well-formedness of each stored record, filed under its own id and scope
  (\<open>consistent\<close>), and the confinement of the change to the rows of one customer (\<open>confined\<close>). Each
  component proves \<open>advances\<close>, their conjunction, for its operations by the rules \<open>advance\<close>, one per
  write; \<open>Cv_System\<close> lifts it to every reachable catalog.
\<close>

section \<open>Scopes\<close>

text \<open>Every workspace-scoped write is at \<open>of_ws\<close> of the record's workspace.\<close>

lemma of_bs_ws [simp]: "of_bs b = of_ws (bs_workspace b)"
  by (simp add: of_bs_def of_ws_def bs_workspace_def)

lemma of_rs_ws [simp]: "of_rs r = of_ws (rs_workspace r)"
  by (simp add: of_rs_def of_ws_def rs_workspace_def)

lemma of_ws_eq [simp]: "of_ws a = of_ws b \<longleftrightarrow> a = b"
  by (cases a; cases b) (simp add: of_ws_def)

lemma of_ws_customer [simp]: "of_ws a \<noteq> InCustomer c" "InCustomer c \<noteq> of_ws a"
  by (simp_all add: of_ws_def)

lemma scope_of_ws [simp]: "scope_customer (of_ws a) = wsc_customerId a" "scope_workspace (of_ws a) = Some (wsc_workspaceId a)"
  by (simp_all add: of_ws_def)

lemma bs_workspace_binding [simp]: "bs_workspace (rs_binding r) = rs_workspace r" "bs_workspace (binding_of w) = scope_of w"
  by (simp_all add: bs_workspace_def rs_binding_def rs_workspace_def binding_of_def scope_of_def)

lemma scope_selectors:
  "wsc_customerId (rs_workspace r) = rsc_customerId r" "wsc_workspaceId (rs_workspace r) = rsc_workspaceId r"
  "wsc_customerId (bs_workspace b) = bsc_customerId b" "wsc_workspaceId (bs_workspace b) = bsc_workspaceId b"
  "wsc_customerId (scope_of w) = ws_customerId w" "wsc_workspaceId (scope_of w) = ws_id w"
  by (simp_all add: rs_workspace_def bs_workspace_def scope_of_def)

section \<open>Allowed changes\<close>

definition ws_next :: "workspace \<Rightarrow> workspace \<Rightarrow> bool" where
  "ws_next w v \<longleftrightarrow> ws_id v = ws_id w \<and> ws_customerId v = ws_customerId w \<and> ws_name v = ws_name w \<and>
     ws_createdAt v = ws_createdAt w \<and> ws_version v = ws_version w + 1"

definition sb_next :: "storage_binding \<Rightarrow> storage_binding \<Rightarrow> bool" where
  "sb_next b c \<longleftrightarrow> c = b\<lparr>sb_status := BindingRetired\<rparr>"

text \<open>Only a storage migration moves an accepted revision, and only its bytes.\<close>

definition rv_next :: "revision \<Rightarrow> revision \<Rightarrow> bool" where
  "rv_next v w \<longleftrightarrow> rv_id w = rv_id v \<and> rv_parentRevisionId w = rv_parentRevisionId v \<and> rv_manifestDigest w = rv_manifestDigest v \<and>
     rv_originatingOperationId w = rv_originatingOperationId v \<and> rv_createdAt w = rv_createdAt v"

definition same_run :: "run \<Rightarrow> run \<Rightarrow> bool" where
  "same_run r q \<longleftrightarrow> rn_id q = rn_id r \<and> rn_scope q = rn_scope r \<and> rn_principal q = rn_principal r \<and> rn_agentLabel q = rn_agentLabel r \<and>
     rn_task q = rn_task r \<and> rn_reason q = rn_reason r \<and> rn_mode q = rn_mode r \<and> rn_baseRevisionId q = rn_baseRevisionId r \<and>
     rn_workspaceVersionAtOpen q = rn_workspaceVersionAtOpen r \<and> rn_cleanupId q = rn_cleanupId r \<and> rn_createdAt q = rn_createdAt r"

definition lease_renewed :: "run \<Rightarrow> run \<Rightarrow> bool" where
  "lease_renewed r q \<longleftrightarrow> rn_state r = Active \<and> rn_state q = Active \<and> rn_version q = rn_version r \<and> rn_operationId q = rn_operationId r \<and>
     rn_outcome q = rn_outcome r \<and> rl_version (rn_lease q) = rl_version (rn_lease r) + 1 \<and>
     rl_expiresAt (rn_lease r) \<le> rl_expiresAt (rn_lease q)"

definition run_moved :: "run \<Rightarrow> run \<Rightarrow> bool" where
  "run_moved r q \<longleftrightarrow> can_transition_run (rn_state r) (rn_state q) \<and> rn_version q = rn_version r + 1 \<and> rn_lease q = rn_lease r \<and>
     (rn_state r = Finalizing \<longrightarrow> rn_operationId q = rn_operationId r) \<and>
     (if rn_state q = Finalizing then rn_outcome q = rn_outcome r
      else map_option ro_state (rn_outcome q) = Some (rn_state q))"

definition rn_next :: "run \<Rightarrow> run \<Rightarrow> bool" where
  "rn_next r q \<longleftrightarrow> same_run r q \<and> (lease_renewed r q \<or> run_moved r q)"

definition fence_kept :: "processing_claim option \<Rightarrow> processing_claim option \<Rightarrow> bool" where
  "fence_kept c d \<longleftrightarrow> (\<forall>k. c = Some k \<longrightarrow> (\<exists>l. d = Some l \<and> pc_fence k \<le> pc_fence l))"

definition same_operation :: "operation \<Rightarrow> operation \<Rightarrow> bool" where
  "same_operation o' q \<longleftrightarrow> op_id q = op_id o' \<and> op_kind q = op_kind o' \<and> op_scope q = op_scope o' \<and> op_runId q = op_runId o' \<and>
     op_principal q = op_principal o' \<and> op_command q = op_command o' \<and> op_intent q = op_intent o' \<and> op_createdAt q = op_createdAt o'"

text \<open>A migration's operation record follows the migration; every other operation ends once.\<close>

definition op_next :: "operation \<Rightarrow> operation \<Rightarrow> bool" where
  "op_next o' q \<longleftrightarrow> same_operation o' q \<and> op_version q = op_version o' + 1 \<and>
     (op_kind o' \<noteq> KStorageMigrate \<longrightarrow> op_state o' = OpProcessing \<and> op_state q \<noteq> OpPending \<and> fence_kept (op_claim o') (op_claim q))"

definition cr_next :: "candidate_record \<Rightarrow> candidate_record \<Rightarrow> bool" where
  "cr_next c d \<longleftrightarrow> cr_identity d = cr_identity c \<and> (\<forall>p. cr_prepared c = Some p \<longrightarrow> cr_prepared d = Some p) \<and>
     (\<forall>q. cr_collection c = Some q \<longrightarrow> cr_prepared d = cr_prepared c \<and> (\<exists>r. cr_collection d = Some r \<and> cq_collectionFence q \<le> cq_collectionFence r)) \<and>
     (cr_collectedAt c \<noteq> None \<longrightarrow> cr_collectedAt d \<noteq> None)"

definition cw_next :: "candidate_writer \<Rightarrow> candidate_writer \<Rightarrow> bool" where
  "cw_next w v \<longleftrightarrow> cw_id v = cw_id w \<and> cw_identity v = cw_identity w \<and> cw_ownerId v = cw_ownerId w \<and>
     cw_processingFence v = cw_processingFence w \<and> cw_state w = WriterActive \<and> cw_state v = WriterFinished"

definition sm_next :: "submission \<Rightarrow> submission \<Rightarrow> bool" where
  "sm_next m n \<longleftrightarrow> sm_id n = sm_id m \<and> sm_scope n = sm_scope m \<and> sm_expiresAt n = sm_expiresAt m \<and> sm_createdAt n = sm_createdAt m \<and>
     sm_version n = sm_version m + 1 \<and> sm_state m \<noteq> SubmissionExpired \<and>
     (case sm_state n of Uploading \<Rightarrow> sm_state m = Uploading | Sealed \<Rightarrow> sm_state m = Uploading | SubmissionExpired \<Rightarrow> True) \<and>
     (sm_state n \<noteq> Sealed \<longrightarrow> sm_manifest n = sm_manifest m \<and> sm_manifestDigest n = sm_manifestDigest m \<and>
        sm_receipts n = sm_receipts m \<and> sm_sealedAt n = sm_sealedAt m)"

definition sw_next :: "submission_writer \<Rightarrow> submission_writer \<Rightarrow> bool" where
  "sw_next w v \<longleftrightarrow> sw_id v = sw_id w \<and> sw_scope v = sw_scope w \<and> sw_submissionId v = sw_submissionId w \<and>
     sw_attemptKey v = sw_attemptKey w \<and> sw_storeId v = sw_storeId w \<and> sw_state w = WriterActive \<and> sw_state v = WriterFinished"

definition sc_next :: "submission_collection \<Rightarrow> submission_collection \<Rightarrow> bool" where
  "sc_next x y \<longleftrightarrow> sp_collectionFence (sc_permit x) \<le> sp_collectionFence (sc_permit y) \<and> (sc_collectedAt x \<noteq> None \<longrightarrow> sc_collectedAt y \<noteq> None)"

definition cl_next :: "cleanup \<Rightarrow> cleanup \<Rightarrow> bool" where
  "cl_next c d \<longleftrightarrow> cl_id d = cl_id c \<and> cl_scope d = cl_scope c \<and> cl_runId d = cl_runId c \<and> cl_version d = cl_version c + 1 \<and>
     cl_attempts c \<le> cl_attempts d \<and> cl_state c \<noteq> CleanupComplete \<and> (cl_state d = CleanupRunning \<or> cl_state c = CleanupRunning) \<and>
     fence_kept (cl_claim c) (cl_claim d)"

definition ox_next :: "outbox_event \<Rightarrow> outbox_event \<Rightarrow> bool" where
  "ox_next e f \<longleftrightarrow> ox_event f = ox_event e \<and> ox_version f = ox_version e + 1 \<and> ox_attempts e \<le> ox_attempts f \<and>
     ox_deliveryState e \<noteq> DeliveryComplete \<and> (ox_deliveryState f \<noteq> DeliveryComplete \<longrightarrow> fence_kept (ox_claim e) (ox_claim f))"

definition dl_next :: "delivery \<Rightarrow> delivery \<Rightarrow> bool" where
  "dl_next d e \<longleftrightarrow> (dl_delivered d \<longrightarrow> dl_delivered e) \<and> dl_attempts e = dl_attempts d + 1"

definition bu_next :: "bundle_record \<Rightarrow> bundle_record \<Rightarrow> bool" where
  "bu_next b c \<longleftrightarrow> bu_id c = bu_id b \<and> bu_customerId c = bu_customerId b \<and> bu_principal c = bu_principal b \<and> bu_kind c = bu_kind b \<and>
     bu_source c = bu_source b \<and> bu_requestDigest c = bu_requestDigest b \<and> bu_version c = bu_version b + 1 \<and> bu_state b \<noteq> BundleReady \<and>
     (bu_header b \<noteq> None \<longrightarrow> bu_header c = bu_header b \<and> bu_manifestDigest c = bu_manifestDigest b)"

definition cp_next :: "copy_pin \<Rightarrow> copy_pin \<Rightarrow> bool" where
  "cp_next p q \<longleftrightarrow> cp_id q = cp_id p \<and> cp_scope q = cp_scope p \<and> cp_principal q = cp_principal p \<and> cp_source q = cp_source p \<and>
     cp_target q = cp_target p \<and> cp_state q = PinReleased \<and> cp_terminalOperationId q \<noteq> None"

definition mg_next :: "migration \<Rightarrow> migration \<Rightarrow> bool" where
  "mg_next m n \<longleftrightarrow> mg_id n = mg_id m \<and> mg_scope n = mg_scope m \<and> mg_command n = mg_command m \<and> mg_sourceBindingId n = mg_sourceBindingId m \<and>
     mg_sourceBindingGeneration n = mg_sourceBindingGeneration m \<and> mg_targetBinding n = mg_targetBinding m \<and>
     mg_expectedHeadRevisionId n = mg_expectedHeadRevisionId m \<and> mg_retainedRevisionSetDigest n = mg_retainedRevisionSetDigest m \<and>
     mg_version n = mg_version m + 1 \<and> open_migration m \<and> pc_fence (mg_claim m) \<le> pc_fence (mg_claim n) \<and>
     take (length (mg_copies m)) (mg_copies n) = mg_copies m \<and> take (length (mg_candidates m)) (mg_candidates n) = mg_candidates m"

definition ad_next :: "adoption \<Rightarrow> adoption \<Rightarrow> bool" where
  "ad_next a b \<longleftrightarrow> ad_id b = ad_id a \<and> ad_scope b = ad_scope a \<and> ad_command b = ad_command a \<and> ad_sourceFingerprint b = ad_sourceFingerprint a \<and>
     ad_inventory b = ad_inventory a \<and> ad_workspace b = ad_workspace a \<and> ad_binding b = ad_binding a \<and> ad_candidates b = ad_candidates a \<and>
     ad_version b = ad_version a + 1 \<and> ad_state a \<noteq> AdoptionComplete \<and> pc_fence (ad_claim a) \<le> pc_fence (ad_claim b) \<and>
     take (length (ad_copies a)) (ad_copies b) = ad_copies a"

text \<open>A recorded command keeps its digest and its operation, and its result value once its operation is
  settled. A migration's command follows the migration record.\<close>

definition settled :: "operation \<Rightarrow> bool" where
  "settled o' \<longleftrightarrow> (op_state o' = OpSucceeded \<or> op_state o' = OpFailed) \<and> op_kind o' \<noteq> KStorageMigrate"

type_synonym command_table = "((idempotency_scope \<times> string) \<times> command_row) list"

definition commands_kept :: "operation table \<Rightarrow> command_table \<Rightarrow> command_table \<Rightarrow> bool" where
  "commands_kept ops xs ys \<longleftrightarrow> (\<forall>k r. map_of xs k = Some r \<longrightarrow>
     (\<exists>q. map_of ys k = Some q \<and> cmr_digest q = cmr_digest r \<and> cmr_operation q = cmr_operation r \<and>
       ((\<exists>o'. tbl_load ops (cmr_operation r) None = Some o' \<and> settled o') \<longrightarrow> cmr_value q = cmr_value r)))"

lemma scope_of_updates [simp]:
  "scope_of (w\<lparr>ws_status := a\<rparr>) = scope_of w" "scope_of (w\<lparr>ws_version := n\<rparr>) = scope_of w" "scope_of (w\<lparr>ws_updatedAt := u\<rparr>) = scope_of w"
  "scope_of (w\<lparr>ws_currentRevisionId := v\<rparr>) = scope_of w" "scope_of (w\<lparr>ws_storageBindingId := b\<rparr>) = scope_of w"
  "scope_of (w\<lparr>ws_bindingGeneration := g\<rparr>) = scope_of w"
  by (simp_all add: scope_of_def)

section \<open>Stored records\<close>

text \<open>\<open>k_ok sc i d\<close>: the record \<open>d\<close> may be stored under the id \<open>i\<close> in the scope \<open>sc\<close>.\<close>

definition workspace_ok :: "scope \<Rightarrow> id \<Rightarrow> workspace \<Rightarrow> bool" where
  "workspace_ok sc i w \<longleftrightarrow> ws_id w = i \<and> sc = of_ws (scope_of w)"

definition binding_ok :: "scope \<Rightarrow> id \<Rightarrow> storage_binding \<Rightarrow> bool" where
  "binding_ok sc i b \<longleftrightarrow> sb_id b = i \<and> sc = of_ws (sb_scope b)"

definition revision_ok :: "scope \<Rightarrow> id \<Rightarrow> revision \<Rightarrow> bool" where
  "revision_ok sc i v \<longleftrightarrow> rv_id v = i \<and> sc = of_ws (bs_workspace (rv_scope v))"

definition live :: "run_state \<Rightarrow> bool" where
  "live st \<longleftrightarrow> st = Active \<or> st = Finalizing"

definition run_ok :: "scope \<Rightarrow> id \<Rightarrow> run \<Rightarrow> bool" where
  "run_ok sc i r \<longleftrightarrow> rn_id r = i \<and> sc = of_ws (bs_workspace (rn_scope r)) \<and>
     map_option ro_state (rn_outcome r) = (if live (rn_state r) then None else Some (rn_state r))"

text \<open>The intent of an operation is bound to the operation, its workspace and its kind.\<close>

definition intent_ok :: "operation \<Rightarrow> bool" where
  "intent_ok o' = (case op_intent o' of
     FinalizeIntent f \<Rightarrow> op_kind o' = KFinalize \<and>
       (case fi_mode f of
          ReadOnly \<Rightarrow> fi_source f = None \<and> fi_candidateIdentity f = None
        | ReadWrite \<Rightarrow> fi_source f \<noteq> None \<and> (\<exists>c. fi_candidateIdentity f = Some c \<and> cd_operationId c = op_id o' \<and>
            bs_workspace (cd_scope c) = op_scope o'))
   | CreateIntent it \<Rightarrow> op_kind o' = KWorkspaceCreate \<and> op_scope o' = scope_of (wi_workspace it) \<and> sb_scope (wi_binding it) = op_scope o' \<and>
       sb_id (wi_binding it) = ws_storageBindingId (wi_workspace it) \<and>
       (let c = wi_candidateIdentity it in cd_operationId c = op_id o' \<and> cd_scope c = binding_of (wi_workspace it) \<and>
          cd_parentRevisionId c = None \<and> cd_revisionId c = ws_currentRevisionId (wi_workspace it))
   | RestoreOpIntent it \<Rightarrow> op_kind o' = KRestore \<and>
       (let c = ri_candidateIdentity it in cd_operationId c = op_id o' \<and> bs_workspace (cd_scope c) = op_scope o' \<and>
          cd_parentRevisionId c = Some (rb_expectedRevisionId (rq_body (ri_request it))))
   | CommandIntent c \<Rightarrow> c = None \<and> op_kind o' \<noteq> KFinalize \<and> op_kind o' \<noteq> KWorkspaceCreate \<and> op_kind o' \<noteq> KRestore)"

definition operation_ok :: "scope \<Rightarrow> id \<Rightarrow> operation \<Rightarrow> bool" where
  "operation_ok sc i o' \<longleftrightarrow> op_id o' = i \<and> sc = of_ws (op_scope o') \<and> cm_operationId (op_command o') = i \<and>
     op_kind o' = is_kind (cm_scope (op_command o')) \<and> intent_ok o' \<and>
     (op_state o' = OpSucceeded \<longrightarrow> op_result o' \<noteq> None) \<and> (op_state o' = OpFailed \<longrightarrow> op_error o' \<noteq> None) \<and>
     (op_state o' = OpProcessing \<longrightarrow> op_claim o' \<noteq> None)"

definition candidate_ok :: "scope \<Rightarrow> id \<Rightarrow> candidate_record \<Rightarrow> bool" where
  "candidate_ok sc i c \<longleftrightarrow> cd_candidateId (cr_identity c) = i \<and> sc = of_ws (bs_workspace (cd_scope (cr_identity c)))"

definition candidate_writer_ok :: "scope \<Rightarrow> id \<Rightarrow> candidate_writer \<Rightarrow> bool" where
  "candidate_writer_ok sc i w \<longleftrightarrow> cw_id w = i \<and> sc = of_ws (bs_workspace (cd_scope (cw_identity w)))"

definition submission_ok :: "scope \<Rightarrow> id \<Rightarrow> submission \<Rightarrow> bool" where
  "submission_ok sc i m \<longleftrightarrow> sm_id m = i \<and> sc = of_ws (rs_workspace (sm_scope m)) \<and>
     (sm_state m = Uploading \<longrightarrow> sm_manifest m = None \<and> sm_manifestDigest m = None \<and> sm_receipts m = []) \<and>
     (sm_state m = Sealed \<longrightarrow> sm_manifest m \<noteq> None \<and> sm_manifestDigest m \<noteq> None \<and> sm_sealedAt m \<noteq> None)"

definition receipt_ok :: "scope \<Rightarrow> id \<Rightarrow> upload_receipt \<Rightarrow> bool" where
  "receipt_ok sc i u \<longleftrightarrow> ur_id u = i \<and> sc = of_ws (rs_workspace (ur_scope u))"

definition submission_writer_ok :: "scope \<Rightarrow> id \<Rightarrow> submission_writer \<Rightarrow> bool" where
  "submission_writer_ok sc i w \<longleftrightarrow> sw_id w = i \<and> sc = of_ws (rs_workspace (sw_scope w))"

definition submission_collection_ok :: "scope \<Rightarrow> id \<Rightarrow> submission_collection \<Rightarrow> bool" where
  "submission_collection_ok sc i x \<longleftrightarrow> sp_submissionId (sc_permit x) = i \<and> sc = of_ws (rs_workspace (sp_scope (sc_permit x)))"

definition cleanup_ok :: "scope \<Rightarrow> id \<Rightarrow> cleanup \<Rightarrow> bool" where
  "cleanup_ok sc i c \<longleftrightarrow> cl_id c = i \<and> sc = of_ws (cl_scope c) \<and> (cl_state c = CleanupRunning \<longrightarrow> cl_claim c \<noteq> None)"

definition audit_ok :: "scope \<Rightarrow> id \<Rightarrow> audit_event \<Rightarrow> bool" where
  "audit_ok sc i e \<longleftrightarrow> ev_id e = i \<and> sc = of_ws (ev_scope e)"

definition outbox_ok :: "scope \<Rightarrow> id \<Rightarrow> outbox_event \<Rightarrow> bool" where
  "outbox_ok sc i e \<longleftrightarrow> ev_id (ox_event e) = i \<and> sc = of_ws (ev_scope (ox_event e)) \<and>
     (ox_deliveryState e = DeliveryRunning \<longrightarrow> ox_claim e \<noteq> None)"

definition bundle_ok :: "scope \<Rightarrow> id \<Rightarrow> bundle_record \<Rightarrow> bool" where
  "bundle_ok sc i b \<longleftrightarrow> bu_id b = i \<and> sc = InCustomer (bu_customerId b) \<and> (bu_state b = BundleReady \<longrightarrow> bu_header b \<noteq> None)"

definition pin_ok :: "scope \<Rightarrow> id \<Rightarrow> copy_pin \<Rightarrow> bool" where
  "pin_ok sc i p \<longleftrightarrow> cp_id p = i \<and> sc = of_ws (cp_scope p) \<and> (cp_state p = PinReleased \<longleftrightarrow> cp_terminalOperationId p \<noteq> None)"

text \<open>Every recorded copy of a migration is of its own revision, once, and lies in the target binding.\<close>

definition migration_ok :: "scope \<Rightarrow> id \<Rightarrow> migration \<Rightarrow> bool" where
  "migration_ok sc i m \<longleftrightarrow> mg_id m = i \<and> sc = of_ws (mg_scope m) \<and> sb_scope (mg_targetBinding m) = mg_scope m \<and>
     is_kind (cm_scope (mg_command m)) = KStorageMigrate \<and> distinct (map vc_revisionId (mg_copies m)) \<and>
     (\<forall>k \<in> set (mg_copies m). pp_revisionId (vc_target k) = vc_revisionId k \<and> pp_manifestDigest (vc_target k) = vc_sourceManifestDigest k \<and>
        pp_scope (vc_target k) = BindingScope (wsc_customerId (mg_scope m)) (wsc_workspaceId (mg_scope m)) (sb_id (mg_targetBinding m))
          (sb_generation (mg_targetBinding m)))"

text \<open>The candidates of an adoption form one chain from the root to the workspace's head.\<close>

fun chain :: "id option \<Rightarrow> candidate_identity list \<Rightarrow> id option \<Rightarrow> bool" where
  "chain p [] h \<longleftrightarrow> h = p"
| "chain p (c # cs) h \<longleftrightarrow> cd_parentRevisionId c = p \<and> chain (Some (cd_revisionId c)) cs h"

definition adoption_ok :: "scope \<Rightarrow> id \<Rightarrow> adoption \<Rightarrow> bool" where
  "adoption_ok sc i a \<longleftrightarrow> ad_id a = i \<and> sc = of_ws (ad_scope a) \<and> scope_of (ad_workspace a) = ad_scope a \<and> sb_scope (ad_binding a) = ad_scope a \<and>
     sb_id (ad_binding a) = ws_storageBindingId (ad_workspace a) \<and> is_kind (cm_scope (ad_command a)) = KStorageMigrate \<and>
     (\<forall>k \<in> set (ad_candidates a). cd_scope (ac_identity k) = binding_of (ad_workspace a)) \<and>
     chain None (map ac_identity (ad_candidates a)) (Some (ws_currentRevisionId (ad_workspace a)))"

lemmas record_ok_defs = workspace_ok_def binding_ok_def revision_ok_def run_ok_def operation_ok_def candidate_ok_def candidate_writer_ok_def submission_ok_def receipt_ok_def submission_writer_ok_def submission_collection_ok_def cleanup_ok_def audit_ok_def outbox_ok_def migration_ok_def adoption_ok_def bundle_ok_def pin_ok_def

definition row_scope :: "'a row \<Rightarrow> scope" where
  "row_scope q = (case row_workspace q of None \<Rightarrow> InCustomer (row_customer q) | Some w \<Rightarrow> InWorkspace (row_customer q) w)"

definition rows_ok :: "(scope \<Rightarrow> id \<Rightarrow> 'a \<Rightarrow> bool) \<Rightarrow> 'a table \<Rightarrow> bool" where
  "rows_ok P t \<longleftrightarrow> (\<forall>i q. map_of t i = Some q \<longrightarrow> P (row_scope q) i (row_data q))"

lemma row_scope_mk_row [simp]: "row_scope (mk_row sc rid d) = sc"
  by (cases sc) (simp_all add: row_scope_def mk_row_def)

lemma rows_ok_Nil [simp]: "rows_ok P []"
  by (simp add: rows_ok_def)

lemma rows_ok_put [simp]: "rows_ok P t \<Longrightarrow> rows_ok P (put_row i (mk_row sc rid d) t) \<longleftrightarrow> P sc i d"
  by (auto simp: rows_ok_def)

lemma in_row_scope: "in_scope (Some p) q \<Longrightarrow> scope_customer (row_scope q) = scope_customer p"
  "in_scope (Some (of_ws w)) q \<Longrightarrow> row_scope q = of_ws w"
  by (auto simp: in_scope_def row_scope_def of_ws_def split: scope.splits option.splits)

lemma rows_ok_load:
  assumes "rows_ok P t" and "tbl_load t i q = Some d"
  shows "\<exists>sc. P sc i d \<and> (\<forall>p. q = Some p \<longrightarrow> scope_customer sc = scope_customer p) \<and> (\<forall>w. q = Some (of_ws w) \<longrightarrow> sc = of_ws w)"
proof -
  from assms(2) obtain r where "map_of t i = Some r" "in_scope q r" "row_data r = d"
    by (auto simp: tbl_load_def split: option.splits if_splits)
  with assms(1) show ?thesis
    by (intro exI [of _ "row_scope r"]) (auto simp: rows_ok_def in_row_scope)
qed

lemma rows_ok_load_ws: "tbl_load t i (Some (of_ws w)) = Some d \<Longrightarrow> rows_ok P t \<Longrightarrow> tbl_load t i None = Some d \<and> P (of_ws w) i d"
  using rows_ok_load tbl_load_unscoped by fastforce

section \<open>The evolution of a catalog\<close>

definition evolution :: "catalog \<Rightarrow> catalog \<Rightarrow> bool" where
  "evolution s t \<longleftrightarrow>
     evolves ws_next\<^sup>*\<^sup>* (c_workspace s) (c_workspace t) \<and>
     evolves sb_next\<^sup>*\<^sup>* (c_binding s) (c_binding t) \<and>
     evolves rv_next\<^sup>*\<^sup>* (c_revision s) (c_revision t) \<and>
     evolves rn_next\<^sup>*\<^sup>* (c_run s) (c_run t) \<and>
     evolves op_next\<^sup>*\<^sup>* (c_operation s) (c_operation t) \<and>
     evolves cr_next\<^sup>*\<^sup>* (c_candidate s) (c_candidate t) \<and>
     evolves cw_next\<^sup>*\<^sup>* (c_candidate_writer s) (c_candidate_writer t) \<and>
     evolves sm_next\<^sup>*\<^sup>* (c_submission s) (c_submission t) \<and>
     evolves unchanged (c_receipt s) (c_receipt t) \<and>
     evolves sw_next\<^sup>*\<^sup>* (c_submission_writer s) (c_submission_writer t) \<and>
     evolves sc_next\<^sup>*\<^sup>* (c_submission_collection s) (c_submission_collection t) \<and>
     evolves cl_next\<^sup>*\<^sup>* (c_cleanup s) (c_cleanup t) \<and>
     evolves unchanged (c_cleanup_owner s) (c_cleanup_owner t) \<and>
     evolves unchanged (c_audit s) (c_audit t) \<and>
     evolves ox_next\<^sup>*\<^sup>* (c_outbox s) (c_outbox t) \<and>
     evolves unchanged (c_recipients s) (c_recipients t) \<and>
     evolves dl_next\<^sup>*\<^sup>* (c_delivery s) (c_delivery t) \<and>
     evolves unchanged (c_subscription s) (c_subscription t) \<and>
     evolves unchanged (c_compatibility s) (c_compatibility t) \<and>
     evolves mg_next\<^sup>*\<^sup>* (c_migration s) (c_migration t) \<and>
     evolves unchanged (c_guards s) (c_guards t) \<and>
     evolves ad_next\<^sup>*\<^sup>* (c_adoption s) (c_adoption t) \<and>
     evolves unchanged (c_alias s) (c_alias t) \<and>
     evolves bu_next\<^sup>*\<^sup>* (c_bundle s) (c_bundle t) \<and>
     evolves unchanged (c_bundle_command s) (c_bundle_command t) \<and>
     evolves cp_next\<^sup>*\<^sup>* (c_pin s) (c_pin t) \<and>
     commands_kept (c_operation s) (c_commands s) (c_commands t)"

text \<open>The operation that a migration or an adoption belongs to.\<close>

definition migrates :: "operation table \<Rightarrow> command_identity \<Rightarrow> workspace_scope \<Rightarrow> bool" where
  "migrates t c sc \<longleftrightarrow> (\<exists>o'. tbl_load t (cm_operationId c) (Some (of_ws sc)) = Some o' \<and> op_kind o' = KStorageMigrate)"

definition migrations_owned :: "catalog \<Rightarrow> bool" where
  "migrations_owned s \<longleftrightarrow> (\<forall>i m. tbl_load (c_migration s) i None = Some m \<longrightarrow> migrates (c_operation s) (mg_command m) (mg_scope m)) \<and>
     (\<forall>i a. tbl_load (c_adoption s) i None = Some a \<longrightarrow> migrates (c_operation s) (ad_command a) (ad_scope a))"

definition consistent :: "catalog \<Rightarrow> bool" where
  "consistent s \<longleftrightarrow> catalog_wf s \<and> migrations_owned s \<and>
     rows_ok workspace_ok (c_workspace s) \<and>
     rows_ok binding_ok (c_binding s) \<and>
     rows_ok revision_ok (c_revision s) \<and>
     rows_ok run_ok (c_run s) \<and>
     rows_ok operation_ok (c_operation s) \<and>
     rows_ok candidate_ok (c_candidate s) \<and>
     rows_ok candidate_writer_ok (c_candidate_writer s) \<and>
     rows_ok submission_ok (c_submission s) \<and>
     rows_ok receipt_ok (c_receipt s) \<and>
     rows_ok submission_writer_ok (c_submission_writer s) \<and>
     rows_ok submission_collection_ok (c_submission_collection s) \<and>
     rows_ok cleanup_ok (c_cleanup s) \<and>
     rows_ok audit_ok (c_audit s) \<and>
     rows_ok outbox_ok (c_outbox s) \<and>
     rows_ok migration_ok (c_migration s) \<and>
     rows_ok adoption_ok (c_adoption s) \<and>
     rows_ok bundle_ok (c_bundle s) \<and>
     rows_ok pin_ok (c_pin s)"

text \<open>The rows of every other customer are the same.\<close>

definition same_rows :: "id \<Rightarrow> 'a table \<Rightarrow> 'a table \<Rightarrow> bool" where
  "same_rows c t u \<longleftrightarrow> (\<forall>i q. row_customer q \<noteq> c \<longrightarrow> map_of t i = Some q \<longleftrightarrow> map_of u i = Some q)"

definition confined :: "id \<Rightarrow> catalog \<Rightarrow> catalog \<Rightarrow> bool" where
  "confined c s t \<longleftrightarrow>
     same_rows c (c_workspace s) (c_workspace t) \<and>
     same_rows c (c_binding s) (c_binding t) \<and>
     same_rows c (c_revision s) (c_revision t) \<and>
     same_rows c (c_run s) (c_run t) \<and>
     same_rows c (c_operation s) (c_operation t) \<and>
     same_rows c (c_candidate s) (c_candidate t) \<and>
     same_rows c (c_candidate_writer s) (c_candidate_writer t) \<and>
     same_rows c (c_submission s) (c_submission t) \<and>
     same_rows c (c_receipt s) (c_receipt t) \<and>
     same_rows c (c_submission_writer s) (c_submission_writer t) \<and>
     same_rows c (c_submission_collection s) (c_submission_collection t) \<and>
     same_rows c (c_cleanup s) (c_cleanup t) \<and>
     same_rows c (c_cleanup_owner s) (c_cleanup_owner t) \<and>
     same_rows c (c_audit s) (c_audit t) \<and>
     same_rows c (c_outbox s) (c_outbox t) \<and>
     same_rows c (c_recipients s) (c_recipients t) \<and>
     same_rows c (c_delivery s) (c_delivery t) \<and>
     same_rows c (c_subscription s) (c_subscription t) \<and>
     same_rows c (c_compatibility s) (c_compatibility t) \<and>
     same_rows c (c_migration s) (c_migration t) \<and>
     same_rows c (c_guards s) (c_guards t) \<and>
     same_rows c (c_adoption s) (c_adoption t) \<and>
     same_rows c (c_alias s) (c_alias t) \<and>
     same_rows c (c_bundle s) (c_bundle t) \<and>
     same_rows c (c_bundle_command s) (c_bundle_command t) \<and>
     same_rows c (c_pin s) (c_pin t)"

text \<open>A catalog \<open>t\<close> that advances \<open>s\<close> on behalf of the customer \<open>c\<close>: the preorder every write of the code
  respects. It leaves the authorities and the webhooks alone.\<close>

definition advances :: "id \<Rightarrow> catalog \<Rightarrow> catalog \<Rightarrow> bool" where
  "advances c s t \<longleftrightarrow> consistent t \<and> evolution s t \<and> confined c s t \<and> same_authority s t \<and> c_webhooks t = c_webhooks s"

lemma commands_kept_refl [simp]: "commands_kept ops xs xs"
  by (simp add: commands_kept_def)

lemma settled_final: "op_next\<^sup>*\<^sup>* o' q \<Longrightarrow> settled o' \<Longrightarrow> q = o'"
  by (induction rule: converse_rtranclp_induct) (auto simp: op_next_def settled_def)

lemma settled_kept:
  assumes "evolves op_next\<^sup>*\<^sup>* t u" and "tbl_load t i q = Some o'" and "settled o'"
  shows "tbl_load u i q = Some o'"
  using evolves_load [OF assms(1,2)] settled_final assms(3) by blast

lemma commands_kept_trans:
  assumes "commands_kept ops xs ys" and "commands_kept ops' ys zs" and "evolves op_next\<^sup>*\<^sup>* ops ops'"
  shows "commands_kept ops xs zs"
  unfolding commands_kept_def
proof (intro allI impI)
  fix k r assume "map_of xs k = Some r"
  with assms(1) obtain q where q: "map_of ys k = Some q" "cmr_digest q = cmr_digest r" "cmr_operation q = cmr_operation r"
    "(\<exists>o'. tbl_load ops (cmr_operation r) None = Some o' \<and> settled o') \<longrightarrow> cmr_value q = cmr_value r"
    unfolding commands_kept_def by blast
  with assms(2) obtain p where p: "map_of zs k = Some p" "cmr_digest p = cmr_digest q" "cmr_operation p = cmr_operation q"
    "(\<exists>o'. tbl_load ops' (cmr_operation q) None = Some o' \<and> settled o') \<longrightarrow> cmr_value p = cmr_value q"
    unfolding commands_kept_def by blast
  show "\<exists>q. map_of zs k = Some q \<and> cmr_digest q = cmr_digest r \<and> cmr_operation q = cmr_operation r \<and>
      ((\<exists>o'. tbl_load ops (cmr_operation r) None = Some o' \<and> settled o') \<longrightarrow> cmr_value q = cmr_value r)"
  proof (intro exI conjI impI)
    assume "\<exists>o'. tbl_load ops (cmr_operation r) None = Some o' \<and> settled o'"
    with settled_kept [OF assms(3)] q p show "cmr_value p = cmr_value r" by auto
  qed (use p q in simp_all)
qed

lemma commands_kept_insert: "commands_kept ops xs ys \<Longrightarrow> map_of ys k = None \<Longrightarrow> commands_kept ops xs ((k, r) # ys)"
  unfolding commands_kept_def by fastforce

lemma updated_command:
  "map_of (c_commands (update_command oid v s)) k =
     map_option (\<lambda>r. if cmr_operation r = oid then CommandRow (cmr_digest r) (cmr_operation r) v else r) (map_of (c_commands s) k)"
  by (simp add: update_command_def map_of_update_values)

lemma commands_kept_update:
  assumes "commands_kept ops xs (c_commands s)" and "\<And>o'. tbl_load ops oid None = Some o' \<Longrightarrow> \<not> settled o'"
  shows "commands_kept ops xs (c_commands (update_command oid v s))"
  unfolding commands_kept_def updated_command
proof (intro allI impI)
  fix k r assume "map_of xs k = Some r"
  with assms(1) obtain q where "map_of (c_commands s) k = Some q" "cmr_digest q = cmr_digest r" "cmr_operation q = cmr_operation r"
    "(\<exists>o'. tbl_load ops (cmr_operation r) None = Some o' \<and> settled o') \<longrightarrow> cmr_value q = cmr_value r"
    unfolding commands_kept_def by blast
  with assms(2) show "\<exists>q. map_option (\<lambda>r. if cmr_operation r = oid then CommandRow (cmr_digest r) (cmr_operation r) v else r)
        (map_of (c_commands s) k) = Some q \<and> cmr_digest q = cmr_digest r \<and> cmr_operation q = cmr_operation r \<and>
      ((\<exists>o'. tbl_load ops (cmr_operation r) None = Some o' \<and> settled o') \<longrightarrow> cmr_value q = cmr_value r)"
    by auto
qed

lemma evolution_refl [simp]: "evolution s s"
  by (simp add: evolution_def)

lemma same_rows_refl [simp]: "same_rows c t t"
  by (simp add: same_rows_def)

lemma same_rows_trans: "same_rows c t u \<Longrightarrow> same_rows c u v \<Longrightarrow> same_rows c t v"
  by (simp add: same_rows_def)

lemma same_rows_put:
  "same_rows c t u \<Longrightarrow> writable u i sc False \<Longrightarrow> scope_customer sc = c \<Longrightarrow> same_rows c t (put_row i (mk_row sc rid d) u)"
  by (auto simp: same_rows_def writable_def mk_row_def split: option.splits)

lemma same_rows_load:
  assumes "same_rows c t u" and "scope_customer q \<noteq> c"
  shows "tbl_load u i (Some q) = tbl_load t i (Some q)"
proof -
  have *: "tbl_load v i (Some q) = Some d" if "same_rows c w v \<or> same_rows c v w" "tbl_load w i (Some q) = Some d" for v w d
  proof -
    from that(2) obtain r where r: "map_of w i = Some r" "in_scope (Some q) r" "row_data r = d"
      by (auto simp: tbl_load_def split: option.splits if_splits)
    with assms(2) have "row_customer r \<noteq> c" by (auto simp: in_scope_def split: scope.splits)
    with r(1) that(1) have "map_of v i = Some r" by (auto simp: same_rows_def)
    with r show ?thesis by (simp add: tbl_load_def)
  qed
  show ?thesis
    using * [of t u] * [of u t] assms(1) by (cases "tbl_load t i (Some q)"; cases "tbl_load u i (Some q)") auto
qed

lemma confined_refl [simp]: "confined c s s"
  by (simp add: confined_def)

lemma confined_trans: "confined c s t \<Longrightarrow> confined c t u \<Longrightarrow> confined c s u"
  unfolding confined_def by (elim conjE, intro conjI) (erule (1) same_rows_trans)+

lemma advances_refl: "consistent s \<Longrightarrow> advances c s s"
  by (simp add: advances_def same_authority_def)

lemma transp_closure [simp]: "transp R\<^sup>*\<^sup>*" "transp unchanged"
  by (auto simp: transp_def unchanged_def)

lemma evolution_trans:
  assumes "evolution s t" and "evolution t u"
  shows "evolution s u"
proof -
  have "commands_kept (c_operation s) (c_commands s) (c_commands u)"
    using assms unfolding evolution_def by (elim conjE) (rule commands_kept_trans)
  with assms show ?thesis unfolding evolution_def
    by (elim conjE, intro conjI) (erule (1) evolves_trans, simp | assumption)+
qed

lemma advances_trans: "advances c s t \<Longrightarrow> advances c t u \<Longrightarrow> advances c s u"
  unfolding advances_def same_authority_def using evolution_trans confined_trans by auto

lemma advances_consistent: "advances c s t \<Longrightarrow> consistent t"
  by (simp add: advances_def)

lemma consistent_empty: "consistent empty_catalog"
  by (simp add: consistent_def migrations_owned_def) (simp add: empty_catalog_def tbl_load_def)

lemma fence_kept_refl [simp]: "fence_kept c c"
  by (simp add: fence_kept_def)

lemma fence_kept_None [simp]: "fence_kept None c"
  by (simp add: fence_kept_def)

section \<open>One write at a time\<close>

named_theorems advance "a write advances the catalog"

lemma evolves_closure_put:
  "evolves R\<^sup>*\<^sup>* t u \<Longrightarrow> writable u i sc False \<Longrightarrow> (\<And>e. tbl_load u i None = Some e \<Longrightarrow> d = e \<or> R e d) \<Longrightarrow>
   evolves R\<^sup>*\<^sup>* t (put_row i (mk_row sc rid d) u)"
  by (rule evolves_trans, assumption, simp_all) (blast intro: r_into_rtranclp)

lemma evolves_unchanged_put:
  "evolves unchanged t u \<Longrightarrow> writable u i sc False \<Longrightarrow> (\<And>e. tbl_load u i None = Some e \<Longrightarrow> d = e) \<Longrightarrow>
   evolves unchanged t (put_row i (mk_row sc rid d) u)"
  by (rule evolves_trans, assumption, simp_all)

lemma migrates_put:
  assumes "migrates t c q" and "writable t i sc False" and "\<And>e. tbl_load t i None = Some e \<Longrightarrow> d = e \<or> op_next e d"
  shows "migrates (put_row i (mk_row sc rid d) t) c q"
proof -
  from assms(1) obtain o' where o': "tbl_load t (cm_operationId c) (Some (of_ws q)) = Some o'" "op_kind o' = KStorageMigrate"
    by (auto simp: migrates_def)
  show ?thesis
  proof (cases "i = cm_operationId c")
    case True
    with o' assms(3) [of o'] have "op_kind d = KStorageMigrate" by (auto simp: op_next_def same_operation_def dest: tbl_load_unscoped)
    with writable_overwrite_scope [OF assms(2), of "of_ws q"] o' True show ?thesis by (auto simp: migrates_def)
  next
    case False
    with o' show ?thesis by (auto simp: migrates_def)
  qed
qed

lemma migrations_owned_put_operation:
  "migrations_owned u \<Longrightarrow> t = c_operation u \<Longrightarrow> writable t i sc False \<Longrightarrow> (\<And>e. tbl_load t i None = Some e \<Longrightarrow> d = e \<or> op_next e d) \<Longrightarrow>
   migrations_owned (u\<lparr>c_operation := put_row i (mk_row sc rid d) t\<rparr>)"
  unfolding migrations_owned_def by (simp add: migrates_put)

lemma migrations_owned_put [simp]:
  "migrations_owned u \<Longrightarrow> migrates (c_operation u) (mg_command m) (mg_scope m) \<Longrightarrow>
     migrations_owned (u\<lparr>c_migration := put_row i (mk_row sc rid m) (c_migration u)\<rparr>)"
  "migrations_owned u \<Longrightarrow> migrates (c_operation u) (ad_command a) (ad_scope a) \<Longrightarrow>
     migrations_owned (u\<lparr>c_adoption := put_row i (mk_row sc rid a) (c_adoption u)\<rparr>)"
  by (auto simp: migrations_owned_def split: if_splits)

text \<open>A write to any other table leaves the migrations and their operations alone.\<close>

lemma migrations_owned_same:
  "c_migration u = c_migration v \<Longrightarrow> c_adoption u = c_adoption v \<Longrightarrow> c_operation u = c_operation v \<Longrightarrow>
   migrations_owned v \<Longrightarrow> migrations_owned u"
  by (simp add: migrations_owned_def)

lemmas put_simps = same_authority_def migrations_owned_put_operation migrations_owned_same advances_def consistent_def catalog_wf_def evolution_def confined_def
  evolves_closure_put evolves_unchanged_put same_rows_put

lemma advance_workspace [advance]:
  "advances c s u \<Longrightarrow> t = c_workspace u \<Longrightarrow> writable t i sc False \<Longrightarrow> scope_customer sc = c \<Longrightarrow> workspace_ok sc i d \<Longrightarrow> 
   (\<And>e. tbl_load t i None = Some e \<Longrightarrow> d = e \<or> ws_next e d) \<Longrightarrow> advances c s (u\<lparr>c_workspace := put_row i (mk_row sc rid d) t\<rparr>)"
  by (simp add: put_simps)

lemma advance_binding [advance]:
  "advances c s u \<Longrightarrow> t = c_binding u \<Longrightarrow> writable t i sc False \<Longrightarrow> scope_customer sc = c \<Longrightarrow> binding_ok sc i d \<Longrightarrow> 
   (\<And>e. tbl_load t i None = Some e \<Longrightarrow> d = e \<or> sb_next e d) \<Longrightarrow> advances c s (u\<lparr>c_binding := put_row i (mk_row sc rid d) t\<rparr>)"
  by (simp add: put_simps)

lemma advance_revision [advance]:
  "advances c s u \<Longrightarrow> t = c_revision u \<Longrightarrow> writable t i sc False \<Longrightarrow> scope_customer sc = c \<Longrightarrow> revision_ok sc i d \<Longrightarrow> 
   (\<And>e. tbl_load t i None = Some e \<Longrightarrow> d = e \<or> rv_next e d) \<Longrightarrow> advances c s (u\<lparr>c_revision := put_row i (mk_row sc rid d) t\<rparr>)"
  by (simp add: put_simps)

lemma advance_run [advance]:
  "advances c s u \<Longrightarrow> t = c_run u \<Longrightarrow> writable t i sc False \<Longrightarrow> scope_customer sc = c \<Longrightarrow> run_ok sc i d \<Longrightarrow> 
   (\<And>e. tbl_load t i None = Some e \<Longrightarrow> d = e \<or> rn_next e d) \<Longrightarrow> advances c s (u\<lparr>c_run := put_row i (mk_row sc rid d) t\<rparr>)"
  by (simp add: put_simps)

lemma advance_operation [advance]:
  "advances c s u \<Longrightarrow> t = c_operation u \<Longrightarrow> writable t i sc False \<Longrightarrow> scope_customer sc = c \<Longrightarrow> operation_ok sc i d \<Longrightarrow> 
   (\<And>e. tbl_load t i None = Some e \<Longrightarrow> d = e \<or> op_next e d) \<Longrightarrow> advances c s (u\<lparr>c_operation := put_row i (mk_row sc rid d) t\<rparr>)"
  by (simp add: put_simps)

lemma advance_candidate [advance]:
  "advances c s u \<Longrightarrow> t = c_candidate u \<Longrightarrow> writable t i sc False \<Longrightarrow> scope_customer sc = c \<Longrightarrow> candidate_ok sc i d \<Longrightarrow> 
   (\<And>e. tbl_load t i None = Some e \<Longrightarrow> d = e \<or> cr_next e d) \<Longrightarrow> advances c s (u\<lparr>c_candidate := put_row i (mk_row sc rid d) t\<rparr>)"
  by (simp add: put_simps)

lemma advance_candidate_writer [advance]:
  "advances c s u \<Longrightarrow> t = c_candidate_writer u \<Longrightarrow> writable t i sc False \<Longrightarrow> scope_customer sc = c \<Longrightarrow> candidate_writer_ok sc i d \<Longrightarrow> 
   (\<And>e. tbl_load t i None = Some e \<Longrightarrow> d = e \<or> cw_next e d) \<Longrightarrow> advances c s (u\<lparr>c_candidate_writer := put_row i (mk_row sc rid d) t\<rparr>)"
  by (simp add: put_simps)

lemma advance_submission [advance]:
  "advances c s u \<Longrightarrow> t = c_submission u \<Longrightarrow> writable t i sc False \<Longrightarrow> scope_customer sc = c \<Longrightarrow> submission_ok sc i d \<Longrightarrow> 
   (\<And>e. tbl_load t i None = Some e \<Longrightarrow> d = e \<or> sm_next e d) \<Longrightarrow> advances c s (u\<lparr>c_submission := put_row i (mk_row sc rid d) t\<rparr>)"
  by (simp add: put_simps)

lemma advance_receipt [advance]:
  "advances c s u \<Longrightarrow> t = c_receipt u \<Longrightarrow> writable t i sc False \<Longrightarrow> scope_customer sc = c \<Longrightarrow> receipt_ok sc i d \<Longrightarrow> 
   (\<And>e. tbl_load t i None = Some e \<Longrightarrow> d = e) \<Longrightarrow> advances c s (u\<lparr>c_receipt := put_row i (mk_row sc rid d) t\<rparr>)"
  by (simp add: put_simps)

lemma advance_submission_writer [advance]:
  "advances c s u \<Longrightarrow> t = c_submission_writer u \<Longrightarrow> writable t i sc False \<Longrightarrow> scope_customer sc = c \<Longrightarrow> submission_writer_ok sc i d \<Longrightarrow> 
   (\<And>e. tbl_load t i None = Some e \<Longrightarrow> d = e \<or> sw_next e d) \<Longrightarrow> advances c s (u\<lparr>c_submission_writer := put_row i (mk_row sc rid d) t\<rparr>)"
  by (simp add: put_simps)

lemma advance_submission_collection [advance]:
  "advances c s u \<Longrightarrow> t = c_submission_collection u \<Longrightarrow> writable t i sc False \<Longrightarrow> scope_customer sc = c \<Longrightarrow> submission_collection_ok sc i d \<Longrightarrow> 
   (\<And>e. tbl_load t i None = Some e \<Longrightarrow> d = e \<or> sc_next e d) \<Longrightarrow> advances c s (u\<lparr>c_submission_collection := put_row i (mk_row sc rid d) t\<rparr>)"
  by (simp add: put_simps)

lemma advance_cleanup [advance]:
  "advances c s u \<Longrightarrow> t = c_cleanup u \<Longrightarrow> writable t i sc False \<Longrightarrow> scope_customer sc = c \<Longrightarrow> cleanup_ok sc i d \<Longrightarrow> 
   (\<And>e. tbl_load t i None = Some e \<Longrightarrow> d = e \<or> cl_next e d) \<Longrightarrow> advances c s (u\<lparr>c_cleanup := put_row i (mk_row sc rid d) t\<rparr>)"
  by (simp add: put_simps)

lemma advance_cleanup_owner [advance]:
  "advances c s u \<Longrightarrow> t = c_cleanup_owner u \<Longrightarrow> writable t i sc False \<Longrightarrow> scope_customer sc = c \<Longrightarrow> 
   (\<And>e. tbl_load t i None = Some e \<Longrightarrow> d = e) \<Longrightarrow> advances c s (u\<lparr>c_cleanup_owner := put_row i (mk_row sc rid d) t\<rparr>)"
  by (simp add: put_simps)

lemma advance_audit [advance]:
  "advances c s u \<Longrightarrow> t = c_audit u \<Longrightarrow> writable t i sc False \<Longrightarrow> scope_customer sc = c \<Longrightarrow> audit_ok sc i d \<Longrightarrow> 
   (\<And>e. tbl_load t i None = Some e \<Longrightarrow> d = e) \<Longrightarrow> advances c s (u\<lparr>c_audit := put_row i (mk_row sc rid d) t\<rparr>)"
  by (simp add: put_simps)

lemma advance_outbox [advance]:
  "advances c s u \<Longrightarrow> t = c_outbox u \<Longrightarrow> writable t i sc False \<Longrightarrow> scope_customer sc = c \<Longrightarrow> outbox_ok sc i d \<Longrightarrow> 
   (\<And>e. tbl_load t i None = Some e \<Longrightarrow> d = e \<or> ox_next e d) \<Longrightarrow> advances c s (u\<lparr>c_outbox := put_row i (mk_row sc rid d) t\<rparr>)"
  by (simp add: put_simps)

lemma advance_recipients [advance]:
  "advances c s u \<Longrightarrow> t = c_recipients u \<Longrightarrow> writable t i sc False \<Longrightarrow> scope_customer sc = c \<Longrightarrow> 
   (\<And>e. tbl_load t i None = Some e \<Longrightarrow> d = e) \<Longrightarrow> advances c s (u\<lparr>c_recipients := put_row i (mk_row sc rid d) t\<rparr>)"
  by (simp add: put_simps)

lemma advance_delivery [advance]:
  "advances c s u \<Longrightarrow> t = c_delivery u \<Longrightarrow> writable t i sc False \<Longrightarrow> scope_customer sc = c \<Longrightarrow> 
   (\<And>e. tbl_load t i None = Some e \<Longrightarrow> d = e \<or> dl_next e d) \<Longrightarrow> advances c s (u\<lparr>c_delivery := put_row i (mk_row sc rid d) t\<rparr>)"
  by (simp add: put_simps)

lemma advance_subscription [advance]:
  "advances c s u \<Longrightarrow> t = c_subscription u \<Longrightarrow> writable t i sc False \<Longrightarrow> scope_customer sc = c \<Longrightarrow> 
   (\<And>e. tbl_load t i None = Some e \<Longrightarrow> d = e) \<Longrightarrow> advances c s (u\<lparr>c_subscription := put_row i (mk_row sc rid d) t\<rparr>)"
  by (simp add: put_simps)

lemma advance_compatibility [advance]:
  "advances c s u \<Longrightarrow> t = c_compatibility u \<Longrightarrow> writable t i sc False \<Longrightarrow> scope_customer sc = c \<Longrightarrow> 
   (\<And>e. tbl_load t i None = Some e \<Longrightarrow> d = e) \<Longrightarrow> advances c s (u\<lparr>c_compatibility := put_row i (mk_row sc rid d) t\<rparr>)"
  by (simp add: put_simps)

lemma advance_migration [advance]:
  "advances c s u \<Longrightarrow> t = c_migration u \<Longrightarrow> writable t i sc False \<Longrightarrow> scope_customer sc = c \<Longrightarrow> migration_ok sc i d \<Longrightarrow>
   migrates (c_operation u) (mg_command d) (mg_scope d) \<Longrightarrow>
   (\<And>e. tbl_load t i None = Some e \<Longrightarrow> d = e \<or> mg_next e d) \<Longrightarrow> advances c s (u\<lparr>c_migration := put_row i (mk_row sc rid d) t\<rparr>)"
  by (simp add: put_simps)

lemma advance_guards [advance]:
  "advances c s u \<Longrightarrow> t = c_guards u \<Longrightarrow> writable t i sc False \<Longrightarrow> scope_customer sc = c \<Longrightarrow> 
   (\<And>e. tbl_load t i None = Some e \<Longrightarrow> d = e) \<Longrightarrow> advances c s (u\<lparr>c_guards := put_row i (mk_row sc rid d) t\<rparr>)"
  by (simp add: put_simps)

lemma advance_adoption [advance]:
  "advances c s u \<Longrightarrow> t = c_adoption u \<Longrightarrow> writable t i sc False \<Longrightarrow> scope_customer sc = c \<Longrightarrow> adoption_ok sc i d \<Longrightarrow>
   migrates (c_operation u) (ad_command d) (ad_scope d) \<Longrightarrow>
   (\<And>e. tbl_load t i None = Some e \<Longrightarrow> d = e \<or> ad_next e d) \<Longrightarrow> advances c s (u\<lparr>c_adoption := put_row i (mk_row sc rid d) t\<rparr>)"
  by (simp add: put_simps)

text \<open>A new migration or adoption is stored before its operation.\<close>

lemma migrates_new: "op_kind d = KStorageMigrate \<Longrightarrow> migrates (put_row (cm_operationId c) (mk_row (of_ws sc) rid d) t) c sc"
  by (simp add: migrates_def matches_def of_ws_def)

lemma advance_new_migration:
  assumes u: "advances c s u" and t: "mt = c_migration u" "ot = c_operation u" and m: "writable mt i sc False" "scope_customer sc = c" "migration_ok sc i d"
      "\<And>e. tbl_load mt i None = Some e \<Longrightarrow> d = e \<or> mg_next e d"
    and o: "writable ot j (of_ws w) False" "wsc_customerId w = c" "operation_ok (of_ws w) j q"
      "\<And>e. tbl_load ot j None = Some e \<Longrightarrow> q = e \<or> op_next e q"
    and k: "op_kind q = KStorageMigrate" "j = cm_operationId (mg_command d)" "w = mg_scope d"
  shows "advances c s (u\<lparr>c_migration := put_row i (mk_row sc rid' d) mt,
    c_operation := put_row j (mk_row (of_ws w) rid q) ot\<rparr>)" (is "advances c s ?v")
proof -
  have "?v = u\<lparr>c_operation := put_row j (mk_row (of_ws w) rid q) ot, c_migration := put_row i (mk_row sc rid' d) mt\<rparr>"
    by simp
  also have "advances c s \<dots>"
    by (rule advance_migration [OF advance_operation [OF u t(2) o(1) _ o(3,4)]]) (use t m o k in \<open>simp_all add: migrates_new\<close>)
  finally show ?thesis .
qed

lemma advance_new_adoption:
  assumes u: "advances c s u" and t: "mt = c_adoption u" "ot = c_operation u" and m: "writable mt i sc False" "scope_customer sc = c" "adoption_ok sc i d"
      "\<And>e. tbl_load mt i None = Some e \<Longrightarrow> d = e \<or> ad_next e d"
    and o: "writable ot j (of_ws w) False" "wsc_customerId w = c" "operation_ok (of_ws w) j q"
      "\<And>e. tbl_load ot j None = Some e \<Longrightarrow> q = e \<or> op_next e q"
    and k: "op_kind q = KStorageMigrate" "j = cm_operationId (ad_command d)" "w = ad_scope d"
  shows "advances c s (u\<lparr>c_adoption := put_row i (mk_row sc rid' d) mt,
    c_operation := put_row j (mk_row (of_ws w) rid q) ot\<rparr>)" (is "advances c s ?v")
proof -
  have "?v = u\<lparr>c_operation := put_row j (mk_row (of_ws w) rid q) ot, c_adoption := put_row i (mk_row sc rid' d) mt\<rparr>"
    by simp
  also have "advances c s \<dots>"
    by (rule advance_adoption [OF advance_operation [OF u t(2) o(1) _ o(3,4)]]) (use t m o k in \<open>simp_all add: migrates_new\<close>)
  finally show ?thesis .
qed

lemma migration_migrates:
  "tbl_load (c_migration s) i q = Some m \<Longrightarrow> consistent s \<Longrightarrow> migrates (c_operation s) (mg_command m) (mg_scope m)"
  "tbl_load (c_adoption s) i q = Some a \<Longrightarrow> consistent s \<Longrightarrow> migrates (c_operation s) (ad_command a) (ad_scope a)"
  by (auto simp: consistent_def migrations_owned_def dest: tbl_load_unscoped)

lemma migrates_load:
  "migrates t c sc \<Longrightarrow> tbl_load t (cm_operationId c) (Some (of_ws sc)) = Some o' \<Longrightarrow> op_kind o' = KStorageMigrate"
  by (auto simp: migrates_def)

lemma advance_alias [advance]:
  "advances c s u \<Longrightarrow> t = c_alias u \<Longrightarrow> writable t i sc False \<Longrightarrow> scope_customer sc = c \<Longrightarrow> 
   (\<And>e. tbl_load t i None = Some e \<Longrightarrow> d = e) \<Longrightarrow> advances c s (u\<lparr>c_alias := put_row i (mk_row sc rid d) t\<rparr>)"
  by (simp add: put_simps)

lemma advance_bundle [advance]:
  "advances c s u \<Longrightarrow> t = c_bundle u \<Longrightarrow> writable t i sc False \<Longrightarrow> scope_customer sc = c \<Longrightarrow> bundle_ok sc i d \<Longrightarrow> 
   (\<And>e. tbl_load t i None = Some e \<Longrightarrow> d = e \<or> bu_next e d) \<Longrightarrow> advances c s (u\<lparr>c_bundle := put_row i (mk_row sc rid d) t\<rparr>)"
  by (simp add: put_simps)

lemma advance_bundle_command [advance]:
  "advances c s u \<Longrightarrow> t = c_bundle_command u \<Longrightarrow> writable t i sc False \<Longrightarrow> scope_customer sc = c \<Longrightarrow> 
   (\<And>e. tbl_load t i None = Some e \<Longrightarrow> d = e) \<Longrightarrow> advances c s (u\<lparr>c_bundle_command := put_row i (mk_row sc rid d) t\<rparr>)"
  by (simp add: put_simps)

lemma advance_pin [advance]:
  "advances c s u \<Longrightarrow> t = c_pin u \<Longrightarrow> writable t i sc False \<Longrightarrow> scope_customer sc = c \<Longrightarrow> pin_ok sc i d \<Longrightarrow> 
   (\<And>e. tbl_load t i None = Some e \<Longrightarrow> d = e \<or> cp_next e d) \<Longrightarrow> advances c s (u\<lparr>c_pin := put_row i (mk_row sc rid d) t\<rparr>)"
  by (simp add: put_simps)

lemma advance_maintenance [advance]:
  "advances c s u \<Longrightarrow> t = c_maintenance u \<Longrightarrow> advances c s (u\<lparr>c_maintenance := put_row i r t\<rparr>)"
  by (simp add: put_simps)

lemma advance_command [advance]:
  "advances c s u \<Longrightarrow> t = c_commands u \<Longrightarrow> map_of t k = None \<Longrightarrow> advances c s (u\<lparr>c_commands := (k, r) # t\<rparr>)"
  by (simp add: put_simps commands_kept_insert)

lemma advance_update_command [advance]:
  "advances c s u \<Longrightarrow> (\<And>o'. tbl_load (c_operation s) oid None = Some o' \<Longrightarrow> \<not> settled o') \<Longrightarrow> advances c s (update_command oid v u)"
  by (simp add: put_simps commands_kept_update)

section \<open>Loaded rows\<close>

text \<open>A row loaded in a workspace is well-formed there, and is the row of its id.\<close>

lemma own_row:
  shows
    "tbl_load (c_workspace s) i (Some (of_ws w)) = Some d_workspace \<Longrightarrow> consistent s \<Longrightarrow>
       writable (c_workspace s) i (of_ws w) False \<and> tbl_load (c_workspace s) i None = Some d_workspace \<and> workspace_ok (of_ws w) i d_workspace \<and> ws_id d_workspace = i \<and> scope_of d_workspace = w"
    "tbl_load (c_binding s) i (Some (of_ws w)) = Some d_binding \<Longrightarrow> consistent s \<Longrightarrow>
       writable (c_binding s) i (of_ws w) False \<and> tbl_load (c_binding s) i None = Some d_binding \<and> binding_ok (of_ws w) i d_binding \<and> sb_id d_binding = i \<and> sb_scope d_binding = w"
    "tbl_load (c_revision s) i (Some (of_ws w)) = Some d_revision \<Longrightarrow> consistent s \<Longrightarrow>
       writable (c_revision s) i (of_ws w) False \<and> tbl_load (c_revision s) i None = Some d_revision \<and> revision_ok (of_ws w) i d_revision \<and> rv_id d_revision = i \<and> bs_workspace (rv_scope d_revision) = w"
    "tbl_load (c_run s) i (Some (of_ws w)) = Some d_run \<Longrightarrow> consistent s \<Longrightarrow>
       writable (c_run s) i (of_ws w) False \<and> tbl_load (c_run s) i None = Some d_run \<and> run_ok (of_ws w) i d_run \<and> rn_id d_run = i \<and> bs_workspace (rn_scope d_run) = w"
    "tbl_load (c_operation s) i (Some (of_ws w)) = Some d_operation \<Longrightarrow> consistent s \<Longrightarrow>
       writable (c_operation s) i (of_ws w) False \<and> tbl_load (c_operation s) i None = Some d_operation \<and> operation_ok (of_ws w) i d_operation \<and> op_id d_operation = i \<and> op_scope d_operation = w"
    "tbl_load (c_candidate s) i (Some (of_ws w)) = Some d_candidate \<Longrightarrow> consistent s \<Longrightarrow>
       writable (c_candidate s) i (of_ws w) False \<and> tbl_load (c_candidate s) i None = Some d_candidate \<and> candidate_ok (of_ws w) i d_candidate \<and> cd_candidateId (cr_identity d_candidate) = i \<and> bs_workspace (cd_scope (cr_identity d_candidate)) = w"
    "tbl_load (c_candidate_writer s) i (Some (of_ws w)) = Some d_candidate_writer \<Longrightarrow> consistent s \<Longrightarrow>
       writable (c_candidate_writer s) i (of_ws w) False \<and> tbl_load (c_candidate_writer s) i None = Some d_candidate_writer \<and> candidate_writer_ok (of_ws w) i d_candidate_writer \<and> cw_id d_candidate_writer = i \<and> bs_workspace (cd_scope (cw_identity d_candidate_writer)) = w"
    "tbl_load (c_submission s) i (Some (of_ws w)) = Some d_submission \<Longrightarrow> consistent s \<Longrightarrow>
       writable (c_submission s) i (of_ws w) False \<and> tbl_load (c_submission s) i None = Some d_submission \<and> submission_ok (of_ws w) i d_submission \<and> sm_id d_submission = i \<and> rs_workspace (sm_scope d_submission) = w"
    "tbl_load (c_receipt s) i (Some (of_ws w)) = Some d_receipt \<Longrightarrow> consistent s \<Longrightarrow>
       writable (c_receipt s) i (of_ws w) False \<and> tbl_load (c_receipt s) i None = Some d_receipt \<and> receipt_ok (of_ws w) i d_receipt \<and> ur_id d_receipt = i \<and> rs_workspace (ur_scope d_receipt) = w"
    "tbl_load (c_submission_writer s) i (Some (of_ws w)) = Some d_submission_writer \<Longrightarrow> consistent s \<Longrightarrow>
       writable (c_submission_writer s) i (of_ws w) False \<and> tbl_load (c_submission_writer s) i None = Some d_submission_writer \<and> submission_writer_ok (of_ws w) i d_submission_writer \<and> sw_id d_submission_writer = i \<and> rs_workspace (sw_scope d_submission_writer) = w"
    "tbl_load (c_submission_collection s) i (Some (of_ws w)) = Some d_submission_collection \<Longrightarrow> consistent s \<Longrightarrow>
       writable (c_submission_collection s) i (of_ws w) False \<and> tbl_load (c_submission_collection s) i None = Some d_submission_collection \<and> submission_collection_ok (of_ws w) i d_submission_collection \<and> sp_submissionId (sc_permit d_submission_collection) = i \<and> rs_workspace (sp_scope (sc_permit d_submission_collection)) = w"
    "tbl_load (c_cleanup s) i (Some (of_ws w)) = Some d_cleanup \<Longrightarrow> consistent s \<Longrightarrow>
       writable (c_cleanup s) i (of_ws w) False \<and> tbl_load (c_cleanup s) i None = Some d_cleanup \<and> cleanup_ok (of_ws w) i d_cleanup \<and> cl_id d_cleanup = i \<and> cl_scope d_cleanup = w"
    "tbl_load (c_audit s) i (Some (of_ws w)) = Some d_audit \<Longrightarrow> consistent s \<Longrightarrow>
       writable (c_audit s) i (of_ws w) False \<and> tbl_load (c_audit s) i None = Some d_audit \<and> audit_ok (of_ws w) i d_audit \<and> ev_id d_audit = i \<and> ev_scope d_audit = w"
    "tbl_load (c_outbox s) i (Some (of_ws w)) = Some d_outbox \<Longrightarrow> consistent s \<Longrightarrow>
       writable (c_outbox s) i (of_ws w) False \<and> tbl_load (c_outbox s) i None = Some d_outbox \<and> outbox_ok (of_ws w) i d_outbox \<and> ev_id (ox_event d_outbox) = i \<and> ev_scope (ox_event d_outbox) = w"
    "tbl_load (c_migration s) i (Some (of_ws w)) = Some d_migration \<Longrightarrow> consistent s \<Longrightarrow>
       writable (c_migration s) i (of_ws w) False \<and> tbl_load (c_migration s) i None = Some d_migration \<and> migration_ok (of_ws w) i d_migration \<and> mg_id d_migration = i \<and> mg_scope d_migration = w"
    "tbl_load (c_adoption s) i (Some (of_ws w)) = Some d_adoption \<Longrightarrow> consistent s \<Longrightarrow>
       writable (c_adoption s) i (of_ws w) False \<and> tbl_load (c_adoption s) i None = Some d_adoption \<and> adoption_ok (of_ws w) i d_adoption \<and> ad_id d_adoption = i \<and> ad_scope d_adoption = w"
    "tbl_load (c_pin s) i (Some (of_ws w)) = Some d_pin \<Longrightarrow> consistent s \<Longrightarrow>
       writable (c_pin s) i (of_ws w) False \<and> tbl_load (c_pin s) i None = Some d_pin \<and> pin_ok (of_ws w) i d_pin \<and> cp_id d_pin = i \<and> cp_scope d_pin = w"
  unfolding consistent_def by (elim conjE, frule (1) rows_ok_load_ws, simp add: record_ok_defs)+

lemma own_bundle:
  assumes "tbl_load (c_bundle s) i (Some (InCustomer c)) = Some b" and "consistent s"
  shows "tbl_load (c_bundle s) i None = Some b \<and> bundle_ok (InCustomer c) i b \<and> bu_id b = i \<and> bu_customerId b = c"
proof -
  from assms(2) have "rows_ok bundle_ok (c_bundle s)" by (simp add: consistent_def)
  from rows_ok_load [OF this assms(1)] have "bundle_ok (InCustomer c) i b"
    by (auto simp: bundle_ok_def)
  with tbl_load_unscoped [OF assms(1)] show ?thesis by (simp add: bundle_ok_def)
qed

lemma run_at_own:
  "run_at s sc p act = Inr r \<Longrightarrow> consistent s \<Longrightarrow>
   tbl_load (c_run s) (rsc_runId sc) None = Some r \<and> run_ok (of_ws (rs_workspace sc)) (rsc_runId sc) r \<and>
   rn_id r = rsc_runId sc \<and> rn_scope r = rs_binding sc"
  by (auto simp: run_at_eq dest!: own_row)

lemma processing_own:
  "processing s i = Inr o' \<Longrightarrow> consistent s \<Longrightarrow>
   tbl_load (c_operation s) (cs_operationId i) None = Some o' \<and> operation_ok (of_ws (cs_scope i)) (cs_operationId i) o' \<and>
   op_id o' = cs_operationId i \<and> op_scope o' = cs_scope i \<and> op_state o' = OpProcessing \<and> op_claim o' \<noteq> None"
  by (auto simp: processing_eq dest!: own_row)

lemma matched_candidate:
  assumes "match_candidate s ident c d = Inr ()" and "consistent s"
  shows "\<exists>reg. tbl_load (c_candidate s) (pp_candidateId c) (Some (of_ws (bs_workspace (pp_scope c)))) = Some reg \<and>
     tbl_load (c_candidate s) (pp_candidateId c) None = Some reg \<and> candidate_ok (of_ws (bs_workspace (pp_scope c))) (pp_candidateId c) reg \<and>
     cd_candidateId (cr_identity reg) = pp_candidateId c \<and> cr_collection reg = None \<and> cr_next reg (reg\<lparr>cr_prepared := Some c\<rparr>) \<and>
     pp_revisionId c = cd_revisionId ident \<and> pp_scope c = cd_scope ident \<and> pp_parentRevisionId c = cd_parentRevisionId ident \<and>
     pp_operationId c = cd_operationId ident \<and> pp_manifestDigest c = d"
proof -
  from assms(1) obtain reg where reg: "tbl_load (c_candidate s) (pp_candidateId c) (Some (of_ws (bs_workspace (pp_scope c)))) = Some reg"
    "cr_collection reg = None" "cr_prepared reg = None \<or> cr_prepared reg = Some c"
    by (auto simp: match_candidate_eq)
  from own_row(6) [OF reg(1) assms(2)] reg assms(1) show ?thesis
    by (intro exI [of _ reg]) (auto simp: match_candidate_eq cr_next_def)
qed

text \<open>The facts every proof that an operation advances the catalog shares.\<close>

lemma new_operation_ok [simp]:
  "operation_ok (of_ws sc) i (new_operation c p sc rid (Some res)) \<longleftrightarrow>
     cm_operationId c = i \<and> is_kind (cm_scope c) \<noteq> KFinalize \<and> is_kind (cm_scope c) \<noteq> KWorkspaceCreate \<and> is_kind (cm_scope c) \<noteq> KRestore"
  by (auto simp: operation_ok_def intent_ok_def)

lemma candidate_ok_updates [simp]:
  "candidate_ok sc i (c\<lparr>cr_prepared := p\<rparr>) = candidate_ok sc i c" "candidate_ok sc i (c\<lparr>cr_collection := q\<rparr>) = candidate_ok sc i c"
  "candidate_ok sc i (c\<lparr>cr_collectedAt := u\<rparr>) = candidate_ok sc i c"
  by (simp_all add: candidate_ok_def)

text \<open>What a stored intent says of its operation.\<close>

lemma creation_intent_stored:
  "op_intent o' = CreateIntent it \<Longrightarrow> operation_ok sc i o' \<Longrightarrow>
   op_kind o' = KWorkspaceCreate \<and> scope_of (wi_workspace it) = op_scope o' \<and> sb_scope (wi_binding it) = op_scope o' \<and>
   sb_id (wi_binding it) = ws_storageBindingId (wi_workspace it) \<and> cd_operationId (wi_candidateIdentity it) = op_id o' \<and>
   cd_scope (wi_candidateIdentity it) = binding_of (wi_workspace it) \<and> cd_parentRevisionId (wi_candidateIdentity it) = None \<and>
   cd_revisionId (wi_candidateIdentity it) = ws_currentRevisionId (wi_workspace it)"
  by (auto simp: operation_ok_def intent_ok_def Let_def)

lemma restore_intent_stored:
  "op_intent o' = RestoreOpIntent it \<Longrightarrow> operation_ok sc i o' \<Longrightarrow>
   op_kind o' = KRestore \<and> cd_operationId (ri_candidateIdentity it) = op_id o' \<and>
   bs_workspace (cd_scope (ri_candidateIdentity it)) = op_scope o' \<and>
   cd_parentRevisionId (ri_candidateIdentity it) = Some (rb_expectedRevisionId (rq_body (ri_request it)))"
  by (auto simp: operation_ok_def intent_ok_def Let_def)

lemma finalize_intent_stored:
  assumes "op_intent o' = FinalizeIntent f" and "operation_ok sc i o'"
  shows "op_kind o' = KFinalize" and "fi_mode f = ReadOnly \<Longrightarrow> fi_source f = None \<and> fi_candidateIdentity f = None"
    and "fi_mode f = ReadWrite \<Longrightarrow> fi_source f \<noteq> None \<and> (\<exists>c. fi_candidateIdentity f = Some c \<and> cd_operationId c = op_id o' \<and>
      bs_workspace (cd_scope c) = op_scope o')"
  using assms by (auto simp: operation_ok_def intent_ok_def split: run_mode.splits)

lemma intent_candidate_stored:
  "intent_candidateIdentity (op_intent o') = Some c \<Longrightarrow> operation_ok sc i o' \<Longrightarrow>
   cd_operationId c = op_id o' \<and> bs_workspace (cd_scope c) = op_scope o'"
  by (auto simp: operation_ok_def intent_ok_def Let_def split: intent.splits run_mode.splits)

lemma command_kind: "check_command c p sc k rid = Inr () \<Longrightarrow> is_kind (cm_scope c) = k"
  by (simp add: check_command_eq)

lemma event_matches_scope: "event_matches e oid sc rid actor \<Longrightarrow> ev_scope e = sc"
  by (simp add: event_matches_def)

lemmas advancing = advances_refl find_command_def writable_insert audit_ok_def outbox_ok_def cleanup_ok_def workspace_ok_def binding_ok_def revision_ok_def settled_def
lemmas owned = own_row(1-5) own_row(7-17) own_bundle run_at_own processing_own matched_candidate
  command_kind event_matches_scope creation_intent_stored restore_intent_stored

lemma each_advances:
  assumes "consistent s" and "\<And>x u. x \<in> set xs \<Longrightarrow> consistent u \<Longrightarrow> post (f x u) (advances c u)"
  shows "post (each f xs s) (advances c s)"
proof (rule post_each)
  show "advances c s s" using assms(1) by (rule advances_refl)
next
  fix x u assume x: "x \<in> set xs" and u: "advances c s u"
  from assms(2) [OF x advances_consistent [OF u]] show "post (f x u) (advances c s)"
    by (rule post_mono) (rule advances_trans [OF u])
qed

lemma consistent_wf: "consistent s \<Longrightarrow> catalog_wf s"
  by (simp add: consistent_def)

end
