(* ===== verification/Cv_Workspaces.thy ===== *)
theory Cv_Workspaces
  imports Cv_Evolution
begin

text \<open>
  Workspace creation and status of \<open>sqlite-control-store.ts\<close>: a creation is claimed with its
  draft workspace, accepted atomically with the first revision, or failed; a status transition
  suspends, reactivates or deletes. Also the read operations on workspaces and revisions, and the
  registration of legacy revision aliases. \<open>P\<close> is the platform (digests).
\<close>

section \<open>Reading\<close>

definition get_workspace :: "catalog \<Rightarrow> workspace_scope \<Rightarrow> workspace option" where
  "get_workspace s sc = tbl_load (c_workspace s) (wsc_workspaceId sc) (Some (of_ws sc))"

definition get_binding :: "catalog \<Rightarrow> workspace_scope \<Rightarrow> id \<Rightarrow> storage_binding option" where
  "get_binding s sc i = tbl_load (c_binding s) i (Some (of_ws sc))"

definition get_revision :: "catalog \<Rightarrow> workspace_scope \<Rightarrow> id \<Rightarrow> revision option" where
  "get_revision s sc i = tbl_load (c_revision s) i (Some (of_ws sc))"

definition get_run :: "catalog \<Rightarrow> workspace_scope \<Rightarrow> id \<Rightarrow> run option" where
  "get_run s sc i = tbl_load (c_run s) i (Some (of_ws sc))"

definition get_operation :: "catalog \<Rightarrow> workspace_scope \<Rightarrow> id \<Rightarrow> operation option" where
  "get_operation s sc i = tbl_load (c_operation s) i (Some (of_ws sc))"

definition list_workspaces :: "catalog \<Rightarrow> id \<Rightarrow> string option \<Rightarrow> int \<Rightarrow> failure + (workspace list \<times> string option)" where
  "list_workspaces s customer cursor limit =
     tbl_page (c_workspace s) ws_id (InCustomer customer) (case cursor of None \<Rightarrow> [] | Some c \<Rightarrow> c) limit"

definition list_revisions :: "catalog \<Rightarrow> workspace_scope \<Rightarrow> string option \<Rightarrow> int \<Rightarrow> failure + (revision list \<times> string option)" where
  "list_revisions s sc cursor limit =
     tbl_page (c_revision s) rv_id (of_ws sc) (case cursor of None \<Rightarrow> [] | Some c \<Rightarrow> c) limit"

definition list_runs :: "catalog \<Rightarrow> workspace_scope \<Rightarrow> string option \<Rightarrow> int \<Rightarrow> failure + (run list \<times> string option)" where
  "list_runs s sc cursor limit =
     tbl_page (c_run s) rn_id (of_ws sc) (case cursor of None \<Rightarrow> [] | Some c \<Rightarrow> c) limit"

definition list_workspace_metadata :: "catalog \<Rightarrow> id \<Rightarrow> int \<Rightarrow> int \<Rightarrow> failure + (workspace list \<times> nat)" where
  "list_workspace_metadata s customer offset limit = sbind (check_limit limit) (\<lambda>_.
     if \<not> safe_integer offset \<or> offset < 0 then Inl (Fail INVALID_REQUEST)
     else let found = filter (\<lambda>w. ws_status w \<noteq> WsDeleted) (tbl_all (c_workspace s) (Some (InCustomer customer)))
          in Inr (take (nat limit) (drop (nat offset) found), length found))"

definition find_operation :: "catalog \<Rightarrow> idempotency_scope \<Rightarrow> string \<Rightarrow> operation option" where
  "find_operation s sc k = (case find_command s sc k of
     None \<Rightarrow> None
   | Some row \<Rightarrow> tbl_load (c_operation s) (cmr_operation row) None)"

section \<open>Resolution by id\<close>

datatype lookup_context =
    TenantLookup principal
  | AdministratorLookup principal id authorization

definition resolve_allowed :: "catalog \<Rightarrow> lookup_context \<Rightarrow> action \<Rightarrow> workspace_scope \<Rightarrow> bool" where
  "resolve_allowed s ctx act sc = (case ctx of
     TenantLookup p \<Rightarrow> permit s p act (of_ws sc) None = Inr ()
   | AdministratorLookup p customer au \<Rightarrow>
       permit s p act (InCustomer customer) (Some au) = Inr () \<and> permit s p act (of_ws sc) None = Inr ())"

text \<open>A tenant principal of kind administrator, and an administrator lookup by anyone else, finds nothing.\<close>

definition lookup_customer :: "lookup_context \<Rightarrow> id option" where
  "lookup_customer ctx = (case ctx of
     TenantLookup p \<Rightarrow> pr_customerId p
   | AdministratorLookup p customer au \<Rightarrow> if is_administrator p then Some customer else None)"

definition resolve_run :: "catalog \<Rightarrow> lookup_context \<Rightarrow> id \<Rightarrow> run option" where
  "resolve_run s ctx i = (case lookup_customer ctx of
     None \<Rightarrow> None
   | Some c \<Rightarrow> (case tbl_load (c_run s) i (Some (InCustomer c)) of
       None \<Rightarrow> None
     | Some r \<Rightarrow> if resolve_allowed s ctx RunRead (bs_workspace (rn_scope r)) then Some r else None))"

definition resolve_operation :: "catalog \<Rightarrow> lookup_context \<Rightarrow> id \<Rightarrow> operation option" where
  "resolve_operation s ctx i = (case lookup_customer ctx of
     None \<Rightarrow> None
   | Some c \<Rightarrow> (case tbl_load (c_operation s) i (Some (InCustomer c)) of
       None \<Rightarrow> None
     | Some o' \<Rightarrow> if resolve_allowed s ctx OperationRead (op_scope o') then Some o' else None))"

section \<open>Creation\<close>

datatype claim_creation_input = ClaimCreation (cc_principal: principal) (cc_authorization: authorization)
  (cc_command: command_identity) (cc_intent: creation_intent) (cc_claim: processing_claim) (cc_now: timestamp)

definition creation_intent_ok :: "platform \<Rightarrow> creation_intent \<Rightarrow> command_identity \<Rightarrow> failure + bool" where
  "creation_intent_ok P i c = (let w = wi_workspace i; b = wi_binding i; d = wi_candidateIdentity i; r = wi_request i in
     if wi_schemaVersion i \<noteq> 1 \<or> wi_kind i \<noteq> KWorkspaceCreate \<or> rq_method r \<noteq> ''POST'' \<or> rq_path r \<noteq> ''/v1/workspaces'' \<or>
        cb_customerId (rq_body r) \<noteq> ws_customerId w \<or> cb_name (rq_body r) \<noteq> ws_name w \<or> ws_status w \<noteq> WsActive \<or> ws_version w \<noteq> 1 \<or>
        sb_scope b \<noteq> scope_of w \<or> sb_id b \<noteq> ws_storageBindingId w \<or> sb_generation b \<noteq> ws_bindingGeneration w \<or> sb_status b \<noteq> BindingActive \<or>
        cd_scope d \<noteq> binding_of w \<or> cd_parentRevisionId d \<noteq> None \<or> cd_revisionId d \<noteq> ws_currentRevisionId w \<or>
        cd_operationId d \<noteq> cm_operationId c \<or> mf_entries (wi_initialManifest i) \<noteq> []
     then Inr False
     else sbind (manifest_digest P no_override (manifest_json (wi_initialManifest i))) (\<lambda>d. Inr (d = wi_initialManifestDigest i)))"

definition workspace_claimed :: "catalog \<Rightarrow> workspace_scope \<Rightarrow> bool" where
  "workspace_claimed s sc \<longleftrightarrow>
     tbl_load (c_workspace s) (wsc_workspaceId sc) None \<noteq> None \<or>
     list_ex (\<lambda>a. ad_state a \<noteq> AdoptionComplete) (tbl_all (c_adoption s) (Some (of_ws sc))) \<or>
     list_ex (\<lambda>o'. op_kind o' = KWorkspaceCreate \<and> op_state o' = OpProcessing) (tbl_all (c_operation s) (Some (of_ws sc)))"

definition same_create_request :: "intent \<Rightarrow> creation_intent \<Rightarrow> bool" where
  "same_create_request i j = (case i of CreateIntent k \<Rightarrow> wi_request k = wi_request j | _ \<Rightarrow> False)"

definition claim_workspace_creation :: "platform \<Rightarrow> claim_creation_input \<Rightarrow> catalog \<Rightarrow> failure + ((operation \<times> bool) \<times> catalog)" where
  "claim_workspace_creation P i s =
     (let it = cc_intent i; sc = scope_of (wi_workspace it); customer = InCustomer (wsc_customerId sc); c = cc_command i; p = cc_principal i in
      sbind (check_command c p customer KWorkspaceCreate None) (\<lambda>_.
      sbind (permit s p WorkspaceCreate customer (Some (cc_authorization i))) (\<lambda>_.
      sbind (replay s c p) (\<lambda>prior. case prior of
        Some r \<Rightarrow>
          sbind (fail_unless (op_kind (cx_operation r) = KWorkspaceCreate \<and> same_create_request (op_intent (cx_operation r)) it) IDEMPOTENCY_KEY_REUSED) (\<lambda>_.
          Inr ((cx_operation r, True), s))
      | None \<Rightarrow>
          sbind (creation_intent_ok P it c) (\<lambda>ok.
          sbind (fail_unless ok INVALID_REQUEST) (\<lambda>_.
          sbind (fail_unless (\<not> workspace_claimed s sc) VERSION_CONFLICT) (\<lambda>_.
          sbind (valid_claim (cc_claim i) (cc_now i)) (\<lambda>_.
          let o' = (new_operation c p sc None None)\<lparr>op_kind := KWorkspaceCreate, op_intent := CreateIntent it, op_claim := Some (cc_claim i)\<rparr> in
          sbind (register_candidate (wi_candidateIdentity it) s) (\<lambda>s1.
          sbind (save_command o' VNull s1) (\<lambda>(_, s2).
          Inr ((o', False), s2))))))))))) "

datatype accept_creation_input = AcceptCreation (xc_cas: processing_cas) (xc_authorization: authorization)
  (xc_initialRevision: prepared_revision) (xc_events: publication_events)

definition complete_operation :: "operation \<Rightarrow> operation_result \<Rightarrow> timestamp \<Rightarrow> operation" where
  "complete_operation o' res now = o'\<lparr>op_state := OpSucceeded, op_phase := PhComplete, op_version := op_version o' + 1,
     op_updatedAt := now, op_result := Some res\<rparr>"

definition fail_operation :: "operation \<Rightarrow> error_code \<Rightarrow> string \<Rightarrow> timestamp \<Rightarrow> operation" where
  "fail_operation o' code msg now = o'\<lparr>op_state := OpFailed, op_phase := PhComplete, op_version := op_version o' + 1,
     op_updatedAt := now, op_error := Some (OperationError code msg False)\<rparr>"

lemma operation_ids [simp]:
  "op_id (complete_operation o' res now) = op_id o'" "op_scope (complete_operation o' res now) = op_scope o'"
  "op_runId (complete_operation o' res now) = op_runId o'" "op_principal (complete_operation o' res now) = op_principal o'"
  "op_id (fail_operation o' code msg now) = op_id o'" "op_scope (fail_operation o' code msg now) = op_scope o'"
  "op_runId (fail_operation o' code msg now) = op_runId o'" "op_principal (fail_operation o' code msg now) = op_principal o'"
  by (simp_all add: complete_operation_def fail_operation_def)

lemma op_next_moves [simp]:
  "op_next o' (complete_operation o' res now) \<longleftrightarrow> op_kind o' = KStorageMigrate \<or> op_state o' = OpProcessing"
  "op_next o' (complete_operation (o'\<lparr>op_candidate := c\<rparr>) res now) \<longleftrightarrow> op_kind o' = KStorageMigrate \<or> op_state o' = OpProcessing"
  "op_next o' (fail_operation o' code msg now) \<longleftrightarrow> op_kind o' = KStorageMigrate \<or> op_state o' = OpProcessing"
  by (auto simp: op_next_def same_operation_def complete_operation_def fail_operation_def)

lemma intent_ok_cong:
  "op_kind q = op_kind o' \<Longrightarrow> op_id q = op_id o' \<Longrightarrow> op_scope q = op_scope o' \<Longrightarrow> op_intent q = op_intent o' \<Longrightarrow> intent_ok q = intent_ok o'"
  by (simp add: intent_ok_def split: intent.splits run_mode.splits)

lemma operation_ok_moves [simp]:
  "operation_ok sc i o' \<Longrightarrow> operation_ok sc i (complete_operation o' res now)"
  "operation_ok sc i o' \<Longrightarrow> operation_ok sc i (complete_operation (o'\<lparr>op_candidate := c\<rparr>) res now)"
  "operation_ok sc i o' \<Longrightarrow> operation_ok sc i (fail_operation o' code msg now)"
  using intent_ok_cong [of "complete_operation o' res now" o'] intent_ok_cong [of "complete_operation (o'\<lparr>op_candidate := c\<rparr>) res now" o']
    intent_ok_cong [of "fail_operation o' code msg now" o']
  by (auto simp: operation_ok_def complete_operation_def fail_operation_def)

definition creation_intent_of :: "operation \<Rightarrow> failure + creation_intent" where
  "creation_intent_of o' = (case op_intent o' of CreateIntent i \<Rightarrow> Inr i | _ \<Rightarrow> Inl Crash)"

definition fence_of :: "operation \<Rightarrow> int option" where
  "fence_of o' = map_option pc_fence (op_claim o')"

definition publish_creation :: "accept_creation_input \<Rightarrow> operation \<Rightarrow> catalog \<Rightarrow> failure + (command_result \<times> catalog)" where
  "publish_creation i o' s =
     (let cas = xc_cas i; rev = xc_initialRevision i in
      sbind (permit s (op_principal o') WorkspaceCreate (InCustomer (wsc_customerId (cs_scope cas))) (Some (xc_authorization i))) (\<lambda>_.
      sbind (creation_intent_of o') (\<lambda>it.
      sbind (match_candidate s (wi_candidateIdentity it) rev (wi_initialManifestDigest it)) (\<lambda>_.
      sbind (fail_unless (op_scope o' = cs_scope cas) FORBIDDEN) (\<lambda>_.
      let w = wi_workspace it; rv = revision_of rev (cs_now cas);
          o1 = complete_operation (o'\<lparr>op_candidate := Some rev\<rparr>) (ResWorkspaceCreate (ws_id w) (rv_id rv)) (cs_now cas) in
      sbind (record_prepared rev s) (\<lambda>s1.
      sbind (write_workspace (ws_id w) (of_ws (scope_of w)) w True None s1) (\<lambda>s2.
      sbind (write_binding (sb_id (wi_binding it)) (of_ws (op_scope o')) (wi_binding it) True None s2) (\<lambda>s3.
      sbind (write_revision (rv_id rv) (of_ws (op_scope o')) rv True None s3) (\<lambda>s4.
      sbind (save_outcome o1 (VWorkspace w) s4) (\<lambda>s5.
      sbind (operation_events (xc_events i) o1 s5) (\<lambda>s6.
      Inr (CommandResult o1 (VWorkspace w) False, s6))))))))))))"

definition accept_workspace_creation :: "accept_creation_input \<Rightarrow> catalog \<Rightarrow> failure + (command_result \<times> catalog)" where
  "accept_workspace_creation i s =
     (let cas = xc_cas i; existing = tbl_load (c_operation s) (cs_operationId cas) (Some (of_ws (cs_scope cas))) in
      sbind (fail_unless (case existing of None \<Rightarrow> True | Some e \<Rightarrow> op_kind e = KWorkspaceCreate) INVALID_TRANSITION) (\<lambda>_.
      if (case existing of None \<Rightarrow> False | Some e \<Rightarrow> op_state e = OpSucceeded) then
        sbind (found existing Crash) (\<lambda>e.
        sbind (fail_unless (fence_of e = Some (cs_processingFence cas)) STALE_FENCE) (\<lambda>_.
        sbind (fail_unless (op_candidate e = Some (xc_initialRevision i)) RECEIPT_MISMATCH) (\<lambda>_.
        sbind (permit s (op_principal e) WorkspaceCreate (InCustomer (wsc_customerId (op_scope e))) (Some (xc_authorization i))) (\<lambda>_.
        sbind (replay s (op_command e) (op_principal e)) (\<lambda>r.
        sbind (found r Crash) (\<lambda>r'. Inr (r', s)))))))
      else
        sbind (processing s cas) (\<lambda>o'.
        sbind (fail_unless (op_kind o' = KWorkspaceCreate) INVALID_TRANSITION) (\<lambda>_.
        publish_creation i o' s))))"

datatype fail_creation_input = FailCreation (fc_cas: processing_cas) (fc_code: error_code) (fc_message: string)
  (fc_events: publication_events) (fc_cleanup: cleanup)

definition fail_workspace_creation :: "fail_creation_input \<Rightarrow> catalog \<Rightarrow> failure + (operation \<times> catalog)" where
  "fail_workspace_creation i s =
     (let cl = fc_cleanup i in
      sbind (processing s (fc_cas i)) (\<lambda>o'.
      sbind (fail_unless (op_kind o' = KWorkspaceCreate) INVALID_TRANSITION) (\<lambda>_.
      sbind (fail_unless (tbl_load (c_workspace s) (wsc_workspaceId (op_scope o')) (Some (of_ws (op_scope o'))) = None) PUBLICATION_OUTCOME_UNKNOWN) (\<lambda>_.
      sbind (fail_unless (cl_scope cl = op_scope o' \<and> cl_runId cl = None \<and> cl_state cl = CleanupPending \<and> cl_claim cl = None) INVALID_REQUEST) (\<lambda>_.
      sbind (fail_unless (\<not> list_ex (\<lambda>r. rn_cleanupId r = cl_id cl) (tbl_all (c_run s) None)) VERSION_CONFLICT) (\<lambda>_.
      let o1 = fail_operation o' (fc_code i) (fc_message i) (cs_now (fc_cas i)) in
      sbind (save_outcome o1 VNull s) (\<lambda>s1.
      sbind (write_cleanup (cl_id cl) (of_ws (op_scope o')) cl True None s1) (\<lambda>s2.
      sbind (write_cleanup_owner (cl_id cl) (of_ws (op_scope o')) (op_id o') True None s2) (\<lambda>s3.
      sbind (operation_events (fc_events i) o1 s3) (\<lambda>s4.
      Inr (o1, s4)))))))))))"

section \<open>Status\<close>

datatype status_input = StatusInput (si_scope: workspace_scope) (si_principal: principal) (si_authorization: authorization)
  (si_command: command_identity) (si_expectedVersion: int) (si_from: workspace_status) (si_to: workspace_status)
  (si_events: publication_events) (si_now: timestamp)

definition workspace_cleanup_id :: "workspace \<Rightarrow> id" where
  "workspace_cleanup_id w = ''workspace:'' @ ws_id w @ '':'' @ int_text (ws_version w)"

definition schedule_workspace_cleanup :: "workspace \<Rightarrow> workspace_scope \<Rightarrow> id \<Rightarrow> timestamp \<Rightarrow> catalog \<Rightarrow> failure + catalog" where
  "schedule_workspace_cleanup w sc oid now s =
     (if ws_status w = WsDeleted then
        sbind (write_cleanup (workspace_cleanup_id w) (of_ws sc) (new_cleanup (workspace_cleanup_id w) sc None now) True None s) (\<lambda>s1.
        write_cleanup_owner (workspace_cleanup_id w) (of_ws sc) oid True None s1)
      else Inr s)"

definition transition_workspace_status :: "status_input \<Rightarrow> catalog \<Rightarrow> failure + (command_result \<times> catalog)" where
  "transition_workspace_status i s =
     (let sc = si_scope i in
      sbind (check_command (si_command i) (si_principal i) (of_ws sc) KWorkspaceStatus None) (\<lambda>_.
      sbind (permit s (si_principal i) (if si_to i = WsDeleted then WorkspaceDelete else WorkspaceAdmin) (of_ws sc) (Some (si_authorization i))) (\<lambda>_.
      sbind (replay s (si_command i) (si_principal i)) (\<lambda>prior. case prior of
        Some r \<Rightarrow> Inr (r, s)
      | None \<Rightarrow>
          sbind (workspace_at s sc False) (\<lambda>w.
          sbind (fail_unless (ws_version w = si_expectedVersion i) VERSION_CONFLICT) (\<lambda>_.
          sbind (fail_unless (ws_status w = si_from i \<and> si_from i \<noteq> si_to i) INVALID_TRANSITION) (\<lambda>_.
          let w1 = w\<lparr>ws_status := si_to i, ws_version := ws_version w + 1, ws_updatedAt := si_now i\<rparr>;
              o' = new_operation (si_command i) (si_principal i) sc None (Some (ResWorkspaceStatus (ws_id w1) (ws_status w1))) in
          sbind (write_workspace (ws_id w1) (of_ws sc) w1 False None s) (\<lambda>s1.
          sbind (save_command o' (VWorkspace w1) s1) (\<lambda>(res, s2).
          sbind (operation_events (si_events i) o' s2) (\<lambda>s3.
          sbind (schedule_workspace_cleanup w1 sc (op_id o') (si_now i) s3) (\<lambda>s4.
          Inr (res, s4))))))))))))"

section \<open>Legacy aliases\<close>

datatype aliases_input = AliasesInput (la_scope: workspace_scope) (la_principal: principal) (la_authorization: authorization)
  (la_command: command_identity) (la_expectedWorkspaceVersion: int) (la_aliases: "revision_alias list")
  (la_events: publication_events) (la_now: timestamp)

text \<open>\<open>canonicalJson([customerId, workspaceId, alias])\<close>.\<close>

definition alias_id :: "workspace_scope \<Rightarrow> string \<Rightarrow> failure + id" where
  "alias_id sc a = canonical_json (JArr [JStr (wsc_customerId sc), JStr (wsc_workspaceId sc), JStr a])"

definition register_alias :: "workspace_scope \<Rightarrow> revision_alias \<Rightarrow> catalog \<Rightarrow> failure + catalog" where
  "register_alias sc a s =
     sbind (fail_unless (al_alias a \<noteq> [] \<and> tbl_load (c_revision s) (al_revisionId a) (Some (of_ws sc)) \<noteq> None) REVISION_NOT_FOUND) (\<lambda>_.
     sbind (alias_id sc (al_alias a)) (\<lambda>i.
     case tbl_load (c_alias s) i (Some (of_ws sc)) of
       Some e \<Rightarrow> sbind (fail_unless (e = a) VERSION_CONFLICT) (\<lambda>_. Inr s)
     | None \<Rightarrow> write_alias i (of_ws sc) a True None s))"

definition get_legacy_revision_alias :: "catalog \<Rightarrow> workspace_scope \<Rightarrow> string \<Rightarrow> failure + revision_alias option" where
  "get_legacy_revision_alias s sc a = sbind (alias_id sc a) (\<lambda>i. Inr (tbl_load (c_alias s) i (Some (of_ws sc))))"

definition register_legacy_revision_aliases :: "aliases_input \<Rightarrow> catalog \<Rightarrow> failure + (command_result \<times> catalog)" where
  "register_legacy_revision_aliases i s =
     (let sc = la_scope i in
      sbind (check_command (la_command i) (la_principal i) (of_ws sc) KRevisionAlias None) (\<lambda>_.
      sbind (permit s (la_principal i) WorkspaceAdmin (of_ws sc) (Some (la_authorization i))) (\<lambda>_.
      sbind (replay s (la_command i) (la_principal i)) (\<lambda>prior. case prior of
        Some r \<Rightarrow> Inr (r, s)
      | None \<Rightarrow>
          sbind (workspace_at s sc True) (\<lambda>w.
          sbind (fail_unless (ws_version w = la_expectedWorkspaceVersion i) VERSION_CONFLICT) (\<lambda>_.
          sbind (fail_unless (distinct (map al_alias (la_aliases i))) INVALID_REQUEST) (\<lambda>_.
          sbind (each (register_alias sc) (la_aliases i) s) (\<lambda>s1.
          let o' = new_operation (la_command i) (la_principal i) sc None (Some (ResRevisionAlias (wsc_workspaceId sc) (la_aliases i))) in
          sbind (save_command o' (VAliases (la_aliases i)) s1) (\<lambda>(res, s2).
          sbind (operation_events (la_events i) o' s2) (\<lambda>s3.
          Inr (res, s3)))))))))))"

section \<open>The catalog advances\<close>

lemma post_creation_intent_of [post_simps]:
  "post (creation_intent_of o') Q \<longleftrightarrow> (\<forall>it. op_intent o' = CreateIntent it \<longrightarrow> Q it)"
  by (auto simp: creation_intent_of_def post_def split: intent.splits)

lemma post_creation_intent_ok [post_simps]:
  "post (creation_intent_ok P it c) Q \<longleftrightarrow> (\<forall>b. creation_intent_ok P it c = Inr b \<longrightarrow> Q b)"
  by (simp add: post_def)

lemma creation_intent_facts:
  assumes "creation_intent_ok P it c = Inr True"
  shows "sb_scope (wi_binding it) = scope_of (wi_workspace it) \<and> sb_id (wi_binding it) = ws_storageBindingId (wi_workspace it) \<and>
    cd_operationId (wi_candidateIdentity it) = cm_operationId c \<and> cd_scope (wi_candidateIdentity it) = binding_of (wi_workspace it) \<and>
    cd_parentRevisionId (wi_candidateIdentity it) = None \<and> cd_revisionId (wi_candidateIdentity it) = ws_currentRevisionId (wi_workspace it) \<and>
    manifest_digest P no_override (manifest_json (wi_initialManifest it)) = Inr (wi_initialManifestDigest it)"
  using assms by (auto simp: creation_intent_ok_def Let_def txn_simps split: if_splits)

lemma claim_workspace_creation_advances:
  "consistent s \<Longrightarrow> post (claim_workspace_creation P i s)
     (\<lambda>(r, s'). advances (wsc_customerId (scope_of (wi_workspace (cc_intent i)))) s s')"
  apply (simp add: claim_workspace_creation_def Let_def split_beta post_simps advancing)
  apply (auto intro!: advance simp: post_simps advancing candidate_ok_def operation_ok_def intent_ok_def dest!: creation_intent_facts owned)
  done

lemma accept_workspace_creation_advances:
  "consistent s \<Longrightarrow> post (accept_workspace_creation i s) (\<lambda>(r, s'). advances (wsc_customerId (cs_scope (xc_cas i))) s s')"
  apply (simp add: accept_workspace_creation_def publish_creation_def Let_def split_beta post_simps advancing)
  apply (auto intro!: advance simp: post_simps advancing dest!: owned)
  done

lemma fail_workspace_creation_advances:
  "consistent s \<Longrightarrow> post (fail_workspace_creation i s) (\<lambda>(r, s'). advances (wsc_customerId (cs_scope (fc_cas i))) s s')"
  apply (simp add: fail_workspace_creation_def Let_def split_beta post_simps advancing)
  apply (auto intro!: advance simp: post_simps advancing dest!: owned)
  done

lemma transition_workspace_status_advances:
  "consistent s \<Longrightarrow> post (transition_workspace_status i s) (\<lambda>(r, s'). advances (wsc_customerId (si_scope i)) s s')"
  apply (simp add: transition_workspace_status_def schedule_workspace_cleanup_def Let_def split_beta post_simps advancing)
  apply (auto intro!: advance simp: post_simps advancing ws_next_def dest!: owned)
  done

lemma post_alias_id [post_simps]: "post (alias_id sc a) Q \<longleftrightarrow> (\<forall>i. alias_id sc a = Inr i \<longrightarrow> Q i)"
  by (simp add: post_def)

lemma register_alias_advances: "consistent s \<Longrightarrow> post (register_alias sc a s) (advances (wsc_customerId sc) s)"
  by (auto intro!: advance simp: register_alias_def post_simps advancing)

lemma register_legacy_revision_aliases_advances:
  "consistent s \<Longrightarrow> post (register_legacy_revision_aliases i s) (\<lambda>(r, s'). advances (wsc_customerId (la_scope i)) s s')"
  apply (simp add: register_legacy_revision_aliases_def Let_def split_beta post_simps advancing)
  apply (intro impI allI post_mono [OF each_advances [OF _ register_alias_advances]])
  apply (auto intro!: advance simp: post_simps advancing dest!: owned)
  done

end
