(* ===== verification/Cv_Runs.thy ===== *)
theory Cv_Runs
  imports Cv_Workspaces
begin

text \<open>
  The run lifecycle of \<open>sqlite-control-store.ts\<close> outside finalization: opening a run on the current
  head, renewing its lease, aborting it, expiring it, and binding the legacy push presentation to the
  finalize command. A run is \<open>Active\<close> until it is aborted, expired or claimed by a finalization.
\<close>

section \<open>Opening\<close>

datatype open_run_input = OpenRun (or_scope: workspace_scope) (or_principal: principal) (or_authorization: authorization)
  (or_command: command_identity) (or_runId: id) (or_cleanupId: id) (or_mode: run_mode) (or_agentLabel: string)
  (or_task: string) (or_reason: string) (or_expiresAt: timestamp) (or_createdAt: timestamp)

definition opened_run :: "open_run_input \<Rightarrow> workspace \<Rightarrow> run" where
  "opened_run i w = \<lparr>rn_id = or_runId i, rn_scope = binding_of w, rn_principal = or_principal i, rn_agentLabel = or_agentLabel i,
     rn_task = or_task i, rn_reason = or_reason i, rn_mode = or_mode i, rn_baseRevisionId = ws_currentRevisionId w,
     rn_workspaceVersionAtOpen = ws_version w, rn_version = 1, rn_state = Active,
     rn_lease = RunLease 1 (or_expiresAt i) (or_createdAt i), rn_operationId = None, rn_outcome = None,
     rn_cleanupId = or_cleanupId i, rn_createdAt = or_createdAt i, rn_updatedAt = or_createdAt i\<rparr>"

definition open_events :: "open_run_input \<Rightarrow> operation \<Rightarrow> publication_events" where
  "open_events i o' =
     (let event = (\<lambda>e. AuditEvent e (or_scope i) (Some (or_runId i)) (op_id o') (pr_actorId (or_principal i))
            ''run.started'' (JObj [(''agentId'', JStr (or_agentLabel i))]) (or_createdAt i))
      in PublicationEvents (event (''audit-'' @ op_id o'))
           \<lparr>ox_event = event (''outbox-'' @ op_id o'), ox_deliveryState = DeliveryPending, ox_version = 1, ox_attempts = 0,
            ox_nextAttemptAt = or_createdAt i, ox_claim = None\<rparr>)"

definition cleanup_used :: "catalog \<Rightarrow> id \<Rightarrow> bool" where
  "cleanup_used s i \<longleftrightarrow> tbl_load (c_cleanup s) i None \<noteq> None \<or> list_ex (\<lambda>r. rn_cleanupId r = i) (tbl_all (c_run s) None)"

definition open_run :: "open_run_input \<Rightarrow> catalog \<Rightarrow> failure + (command_result \<times> catalog)" where
  "open_run i s =
     (let sc = of_ws (or_scope i); p = or_principal i in
      sbind (check_command (or_command i) p sc KRunOpen None) (\<lambda>_.
      sbind (permit s p (if or_mode i = ReadOnly then RunOpenRead else RunOpenWrite) sc (Some (or_authorization i))) (\<lambda>_.
      sbind (replay s (or_command i) p) (\<lambda>prior. case prior of
        Some r \<Rightarrow> Inr (r, s)
      | None \<Rightarrow>
          sbind (workspace_at s (or_scope i) True) (\<lambda>w.
          sbind (fail_unless (or_createdAt i < or_expiresAt i) INVALID_REQUEST) (\<lambda>_.
          sbind (fail_unless (\<not> migrating s (or_scope i)) FINALIZATION_IN_PROGRESS) (\<lambda>_.
          let r = opened_run i w in
          sbind (fail_unless (\<not> cleanup_used s (rn_cleanupId r)) VERSION_CONFLICT) (\<lambda>_.
          sbind (write_run (rn_id r) sc r True (Some (rn_id r)) s) (\<lambda>s1.
          let o' = new_operation (or_command i) p (or_scope i) (Some (rn_id r)) (Some (ResRunOpen (rn_id r))) in
          sbind (operation_events (open_events i o') o' s1) (\<lambda>s2.
          save_command o' (VRun r) s2))))))))))"

section \<open>Lease renewal\<close>

datatype renew_lease_input = RenewLease (nl_scope: run_scope) (nl_principal: principal) (nl_command: command_identity)
  (nl_expectedLeaseVersion: int) (nl_now: timestamp) (nl_expiresAt: timestamp)

definition renewed_run :: "renew_lease_input \<Rightarrow> run \<Rightarrow> run" where
  "renewed_run i r = r\<lparr>rn_lease := RunLease (rl_version (rn_lease r) + 1) (nl_expiresAt i) (nl_now i), rn_updatedAt := nl_now i\<rparr>"

definition renew_run_lease :: "renew_lease_input \<Rightarrow> catalog \<Rightarrow> failure + (command_result \<times> catalog)" where
  "renew_run_lease i s =
     (let sc = nl_scope i; p = nl_principal i in
      sbind (check_command (nl_command i) p (of_rs sc) KRunHeartbeat (Some (rsc_runId sc))) (\<lambda>_.
      sbind (replay s (nl_command i) p) (\<lambda>prior. case prior of
        Some r \<Rightarrow> sbind (permit s p RunHeartbeat (of_rs sc) None) (\<lambda>_. Inr (r, s))
      | None \<Rightarrow>
          sbind (run_at s sc p (Some RunHeartbeat)) (\<lambda>r.
          sbind (check_active r (nl_now i)) (\<lambda>_.
          sbind (fail_unless (rl_version (rn_lease r) = nl_expectedLeaseVersion i) VERSION_CONFLICT) (\<lambda>_.
          sbind (fail_unless (nl_now i < nl_expiresAt i \<and> rl_expiresAt (rn_lease r) \<le> nl_expiresAt i) INVALID_REQUEST) (\<lambda>_.
          let r1 = renewed_run i r in
          sbind (write_run (rn_id r1) (of_bs (rn_scope r1)) r1 False (Some (rn_id r1)) s) (\<lambda>s1.
          save_command (new_operation (nl_command i) p (rs_workspace sc) (Some (rn_id r1))
            (Some (ResRunHeartbeat (rn_id r1) (rl_version (rn_lease r1))))) (VRun r1) s1))))))))"

section \<open>Legacy push presentation\<close>

primrec operation_kind_text :: "operation_kind \<Rightarrow> string" where
  "operation_kind_text KWorkspaceCreate = ''workspace:create''"
| "operation_kind_text KWorkspaceStatus = ''workspace:status''"
| "operation_kind_text KStorageMigrate = ''storage:migrate''"
| "operation_kind_text KRevisionAlias = ''revision:alias''"
| "operation_kind_text KRunOpen = ''run:open''"
| "operation_kind_text KSubmissionCreate = ''submission:create''"
| "operation_kind_text KSubmissionFile = ''submission:file''"
| "operation_kind_text KSubmissionSeal = ''submission:seal''"
| "operation_kind_text KRunHeartbeat = ''run:heartbeat''"
| "operation_kind_text KFinalize = ''finalize''"
| "operation_kind_text KAbort = ''abort''"
| "operation_kind_text KRestore = ''restore''"

definition json_option :: "string option \<Rightarrow> json" where
  "json_option x = (case x of None \<Rightarrow> JNull | Some t \<Rightarrow> JStr t)"

definition idempotency_scope_json :: "idempotency_scope \<Rightarrow> json" where
  "idempotency_scope_json sc = JObj [(''customerId'', JStr (is_customerId sc)), (''actorId'', JStr (is_actorId sc)),
     (''kind'', JStr (operation_kind_text (is_kind sc))), (''workspaceId'', json_option (is_workspaceId sc)),
     (''runId'', json_option (is_runId sc))]"

datatype legacy_push_input = LegacyPushInput (lg_scope: run_scope) (lg_principal: principal) (lg_authorization: authorization)
  (lg_command: command_identity)

definition record_legacy_push :: "legacy_push_input \<Rightarrow> catalog \<Rightarrow> failure + catalog" where
  "record_legacy_push i s =
     (let sc = lg_scope i; p = lg_principal i; c = lg_command i; v = LegacyPush ''legacy-push'' (rsc_runId sc) (cm_requestDigest c) in
      sbind (check_command c p (of_rs sc) KFinalize (Some (rsc_runId sc))) (\<lambda>_.
      sbind (permit s p RunFinalize (of_rs sc) (Some (lg_authorization i))) (\<lambda>_.
      sbind (canonical_json (JArr [idempotency_scope_json (cm_scope c), JStr (cm_key c)])) (\<lambda>key.
      sbind (run_at s sc p None) (\<lambda>r.
      case tbl_load (c_compatibility s) key (Some (of_rs sc)) of
        Some e \<Rightarrow> sbind (fail_unless (e = v) IDEMPOTENCY_KEY_REUSED) (\<lambda>_. Inr s)
      | None \<Rightarrow>
          sbind (check_active r (cm_requestedAt c)) (\<lambda>_.
          write_compatibility key (of_rs sc) v True (Some (rsc_runId sc)) s))))))"

section \<open>Abort\<close>

datatype abort_input = AbortInput (ab_scope: run_scope) (ab_principal: principal) (ab_authorization: authorization)
  (ab_command: command_identity) (ab_expectedRunVersion: int) (ab_reason: string) (ab_events: publication_events) (ab_now: timestamp)

definition aborted_run :: "id \<Rightarrow> timestamp \<Rightarrow> run \<Rightarrow> run" where
  "aborted_run oid now r = r\<lparr>rn_state := Aborted, rn_version := rn_version r + 1, rn_operationId := Some oid, rn_updatedAt := now,
     rn_outcome := Some (RunOutcome Aborted None False now None)\<rparr>"

definition abort_run :: "abort_input \<Rightarrow> catalog \<Rightarrow> failure + (command_result \<times> catalog)" where
  "abort_run i s =
     (let sc = ab_scope i; p = ab_principal i in
      sbind (check_command (ab_command i) p (of_rs sc) KAbort (Some (rsc_runId sc))) (\<lambda>_.
      sbind (permit s p RunAbort (of_rs sc) (Some (ab_authorization i))) (\<lambda>_.
      sbind (replay s (ab_command i) p) (\<lambda>prior. case prior of
        Some r \<Rightarrow> Inr (r, s)
      | None \<Rightarrow>
          sbind (run_at s sc p None) (\<lambda>r.
          sbind (check_active r (ab_now i)) (\<lambda>_.
          sbind (fail_unless (rn_version r = ab_expectedRunVersion i) VERSION_CONFLICT) (\<lambda>_.
          let o' = new_operation (ab_command i) p (rs_workspace sc) (Some (rn_id r)) (Some ResAbort);
              r1 = aborted_run (op_id o') (ab_now i) r in
          sbind (write_run (rn_id r1) (of_bs (rn_scope r1)) r1 False (Some (rn_id r1)) s) (\<lambda>s1.
          sbind (ensure_cleanup r1 (ab_now i) s1) (\<lambda>(_, s2).
          sbind (save_command o' (VRun r1) s2) (\<lambda>(res, s3).
          sbind (operation_events (ab_events i) o' s3) (\<lambda>s4.
          Inr (res, s4))))))))))))"

section \<open>Expiry\<close>

datatype expired_active_run = ExpiredActiveRun (xr_scope: run_scope) (xr_expectedRunVersion: int)
  (xr_expectedLeaseVersion: int) (xr_expectedLeaseExpiresAt: timestamp)

definition run_scope_of :: "run \<Rightarrow> run_scope" where
  "run_scope_of r = RunScope (bsc_customerId (rn_scope r)) (bsc_workspaceId (rn_scope r)) (bsc_storageBindingId (rn_scope r))
     (bsc_bindingGeneration (rn_scope r)) (rn_id r)"

definition list_expired_active_runs :: "catalog \<Rightarrow> timestamp \<Rightarrow> int \<Rightarrow> string option \<Rightarrow> failure + (expired_active_run list \<times> string option)" where
  "list_expired_active_runs s now limit cursor = sbind (check_limit limit) (\<lambda>_.
     let c = (case cursor of None \<Rightarrow> [] | Some c \<Rightarrow> c);
         rows = take (nat limit + 1) (map (row_data \<circ> snd) (filter (\<lambda>(i, q). rn_state (row_data q) = Active \<and>
           rl_expiresAt (rn_lease (row_data q)) \<le> now \<and> c < i) (c_run s)));
         more = length rows > nat limit;
         runs = (if more then butlast rows else rows)
     in Inr (map (\<lambda>r. ExpiredActiveRun (run_scope_of r) (rn_version r) (rl_version (rn_lease r)) (rl_expiresAt (rn_lease r))) runs,
             if more then Some (rn_id (last runs)) else None))"

datatype expire_run_input = ExpireRun (xp_target: expired_active_run) (xp_now: timestamp) (xp_events: publication_events)

definition expired_run :: "timestamp \<Rightarrow> run \<Rightarrow> run" where
  "expired_run now r = r\<lparr>rn_state := Expired, rn_version := rn_version r + 1, rn_updatedAt := now,
     rn_outcome := Some (RunOutcome Expired None False now (Some RUN_EXPIRED))\<rparr>"

definition expire_active_run :: "expire_run_input \<Rightarrow> catalog \<Rightarrow> failure + ((run \<times> cleanup) \<times> catalog)" where
  "expire_active_run i s =
     (let x = xp_target i; sc = xr_scope x; e = pe_audit (xp_events i) in
      sbind (load_or (c_run s) (rsc_runId sc) (of_rs sc) RUN_NOT_FOUND) (\<lambda>r.
      sbind (fail_unless (rn_scope r = rs_binding sc) RUN_NOT_FOUND) (\<lambda>_.
      sbind (fail_unless (rn_state r = Active \<and> rn_version r = xr_expectedRunVersion x \<and> rl_version (rn_lease r) = xr_expectedLeaseVersion x \<and>
               rl_expiresAt (rn_lease r) = xr_expectedLeaseExpiresAt x) VERSION_CONFLICT) (\<lambda>_.
      sbind (fail_unless (rl_expiresAt (rn_lease r) \<le> xp_now i) INVALID_TRANSITION) (\<lambda>_.
      let r1 = expired_run (xp_now i) r in
      sbind (write_run (rn_id r1) (of_bs (rn_scope r1)) r1 False (Some (rn_id r1)) s) (\<lambda>s1.
      sbind (ensure_cleanup r1 (xp_now i) s1) (\<lambda>(c, s2).
      sbind (write_events (xp_events i) (ev_operationId e) (bs_workspace (rn_scope r1)) (Some (rn_id r1)) (ev_actorId e) s2) (\<lambda>s3.
      Inr ((r1, c), s3)))))))))"

section \<open>The catalog advances\<close>

lemma run_ids [simp]:
  "rn_id (renewed_run i r) = rn_id r" "rn_scope (renewed_run i r) = rn_scope r" "rn_cleanupId (renewed_run i r) = rn_cleanupId r"
  "rn_id (aborted_run oid now r) = rn_id r" "rn_scope (aborted_run oid now r) = rn_scope r" "rn_cleanupId (aborted_run oid now r) = rn_cleanupId r"
  "rn_id (expired_run now r) = rn_id r" "rn_scope (expired_run now r) = rn_scope r" "rn_cleanupId (expired_run now r) = rn_cleanupId r"
  "rn_id (opened_run j w) = or_runId j" "rn_scope (opened_run j w) = binding_of w" "rn_cleanupId (opened_run j w) = or_cleanupId j"
  by (simp_all add: renewed_run_def aborted_run_def expired_run_def opened_run_def)

lemma rn_next_moves [simp]:
  "rn_next r (aborted_run oid now r) \<longleftrightarrow> rn_state r = Active"
  "rn_next r (expired_run now r) \<longleftrightarrow> rn_state r = Active"
  by (cases "rn_state r"; simp add: rn_next_def same_run_def run_moved_def lease_renewed_def can_transition_run_def aborted_run_def expired_run_def)+

lemma rn_next_renewed [simp]:
  "rn_next r (renewed_run i r) \<longleftrightarrow> rn_state r = Active \<and> rl_expiresAt (rn_lease r) \<le> nl_expiresAt i"
  by (cases "rn_state r") (auto simp: rn_next_def same_run_def run_moved_def lease_renewed_def can_transition_run_def renewed_run_def)

lemma run_ok_moves [simp]:
  "run_ok sc i (opened_run j w) \<longleftrightarrow> or_runId j = i \<and> sc = of_ws (scope_of w)"
  "run_ok sc i r \<Longrightarrow> run_ok sc i (renewed_run k r)"
  "run_ok sc i r \<Longrightarrow> run_ok sc i (aborted_run oid now r)"
  "run_ok sc i r \<Longrightarrow> run_ok sc i (expired_run now r)"
  by (auto simp: run_ok_def live_def opened_run_def renewed_run_def aborted_run_def expired_run_def)

lemma open_events_simps [simp]:
  "ev_scope (pe_audit (open_events i o')) = or_scope i" "ev_scope (ox_event (pe_outbox (open_events i o'))) = or_scope i"
  "ox_deliveryState (pe_outbox (open_events i o')) = DeliveryPending"
  by (simp_all add: open_events_def Let_def)

lemma open_run_advances: "consistent s \<Longrightarrow> post (open_run i s) (\<lambda>(r, s'). advances (wsc_customerId (or_scope i)) s s')"
  apply (simp add: open_run_def Let_def split_beta post_simps advancing)
  apply (auto intro!: advance simp: post_simps advancing dest!: owned)
  done

lemma renew_run_lease_advances:
  "consistent s \<Longrightarrow> post (renew_run_lease i s) (\<lambda>(r, s'). advances (wsc_customerId (rs_workspace (nl_scope i))) s s')"
  apply (simp add: renew_run_lease_def Let_def split_beta post_simps advancing)
  apply (auto intro!: advance simp: post_simps advancing dest!: owned)
  done

lemma record_legacy_push_advances:
  "consistent s \<Longrightarrow> post (record_legacy_push i s) (advances (wsc_customerId (rs_workspace (lg_scope i))) s)"
  apply (simp add: record_legacy_push_def Let_def split_beta post_simps advancing)
  apply (auto intro!: advance postI [of "canonical_json _"] simp: post_simps advancing dest!: owned)
  done

lemma abort_run_advances:
  "consistent s \<Longrightarrow> post (abort_run i s) (\<lambda>(r, s'). advances (wsc_customerId (rs_workspace (ab_scope i))) s s')"
  apply (simp add: abort_run_def Let_def split_beta post_simps advancing)
  apply (auto intro!: advance simp: post_simps advancing dest!: owned)
  done

lemma expire_active_run_advances:
  "consistent s \<Longrightarrow> post (expire_active_run i s) (\<lambda>(r, s'). advances (wsc_customerId (rs_workspace (xr_scope (xp_target i)))) s s')"
  apply (simp add: expire_active_run_def Let_def split_beta post_simps advancing)
  apply (auto intro!: advance simp: post_simps advancing dest!: owned)
  done

end
