(* ===== verification/Cv_Finalize.thy ===== *)
theory Cv_Finalize
  imports Cv_Runs
begin

text \<open>
  Finalization of \<open>sqlite-control-store.ts\<close>: an active run is claimed by one finalize operation with
  a processing claim; a worker prepares a revision under that claim, then publishes it
  (\<open>accept_revision\<close>), completes a read-only run, or records the failure. An expired claim is taken
  over by \<open>claim_recovery\<close>, which increments the fence, and extended by \<open>renew_processing_claim\<close>.
\<close>

section \<open>Claiming\<close>

datatype claim_finalization_input = ClaimFinalization (cf_scope: run_scope) (cf_principal: principal)
  (cf_authorization: authorization) (cf_command: command_identity) (cf_expectedRunVersion: int)
  (cf_intent: finalization_intent) (cf_claim: processing_claim) (cf_now: timestamp)

text \<open>A selected source or candidate that is absent where the code reads its fields is a \<open>TypeError\<close>.\<close>

definition select_sealed :: "platform \<Rightarrow> claim_finalization_input \<Rightarrow> run \<Rightarrow> catalog \<Rightarrow> failure + catalog" where
  "select_sealed P i r s =
     (let it = cf_intent i; sc = cf_scope i in
      sbind (found (fi_source it) Crash) (\<lambda>src.
      sbind (load_or (c_submission s) (ss_submissionId src) (of_rs sc) SUBMISSION_NOT_FOUND) (\<lambda>m.
      sbind (fail_unless (sm_scope m = sc) SUBMISSION_NOT_FOUND) (\<lambda>_.
      sbind (fail_unless (sm_state m = Sealed \<and> cf_now i < sm_expiresAt m \<and> sm_version m = ss_submissionVersion src \<and>
               sm_manifestDigest m = Some (ss_manifestDigest src) \<and> fb_submissionId (rq_body (fi_request it)) = Some (sm_id m) \<and>
               sm_manifest m \<noteq> None) RECEIPT_MISMATCH) (\<lambda>_.
      sbind (found (sm_manifest m) Crash) (\<lambda>mf.
      sbind (manifest_digest P no_override (manifest_json mf)) (\<lambda>d.
      sbind (fail_unless (sm_manifestDigest m = Some d) RECEIPT_MISMATCH) (\<lambda>_.
      sbind (found (fi_candidateIdentity it) Crash) (\<lambda>c.
      sbind (fail_unless (cd_scope c = rn_scope r \<and> cd_parentRevisionId c = Some (rn_baseRevisionId r) \<and>
               cd_operationId c = cm_operationId (cf_command i)) RECEIPT_MISMATCH) (\<lambda>_.
      register_candidate c s))))))))))"

definition finalizing_run :: "id \<Rightarrow> timestamp \<Rightarrow> run \<Rightarrow> run" where
  "finalizing_run oid now r = r\<lparr>rn_state := Finalizing, rn_version := rn_version r + 1, rn_operationId := Some oid, rn_updatedAt := now\<rparr>"

definition finalize_operation :: "claim_finalization_input \<Rightarrow> run \<Rightarrow> operation" where
  "finalize_operation i r = (new_operation (cf_command i) (cf_principal i) (rs_workspace (cf_scope i)) (Some (rn_id r)) None)
     \<lparr>op_kind := KFinalize, op_intent := FinalizeIntent (cf_intent i), op_claim := Some (cf_claim i)\<rparr>"

definition same_finalize_request :: "intent \<Rightarrow> finalization_intent \<Rightarrow> bool" where
  "same_finalize_request i j = (case i of FinalizeIntent k \<Rightarrow> fi_request k = fi_request j | _ \<Rightarrow> False)"

definition finalize_request_ok :: "claim_finalization_input \<Rightarrow> run \<Rightarrow> bool" where
  "finalize_request_ok i r \<longleftrightarrow> (let it = cf_intent i; q = fi_request it in
     fi_schemaVersion it = 1 \<and> fi_kind it = KFinalize \<and> fi_mode it = rn_mode r \<and> rq_method q = ''POST'' \<and>
     rq_path q = ''/v1/runs/'' @ rn_id r @ ''/finalize'' \<and> fb_expectedRunVersion (rq_body q) = cf_expectedRunVersion i)"

definition read_only_request_ok :: "finalization_intent \<Rightarrow> bool" where
  "read_only_request_ok it \<longleftrightarrow> fi_source it = None \<and> fi_candidateIdentity it = None \<and> fb_submissionId (rq_body (fi_request it)) = None"

definition claim_finalization :: "platform \<Rightarrow> claim_finalization_input \<Rightarrow> catalog \<Rightarrow> failure + (command_result \<times> catalog)" where
  "claim_finalization P i s =
     (let sc = cf_scope i; p = cf_principal i; it = cf_intent i in
      sbind (check_command (cf_command i) p (of_rs sc) KFinalize (Some (rsc_runId sc))) (\<lambda>_.
      sbind (permit s p RunFinalize (of_rs sc) (Some (cf_authorization i))) (\<lambda>_.
      sbind (replay s (cf_command i) p) (\<lambda>prior. case prior of
        Some r \<Rightarrow>
          sbind (fail_unless (op_kind (cx_operation r) = KFinalize \<and> same_finalize_request (op_intent (cx_operation r)) it) IDEMPOTENCY_KEY_REUSED) (\<lambda>_.
          Inr (r, s))
      | None \<Rightarrow>
          sbind (run_at s sc p None) (\<lambda>r.
          sbind (check_active r (cf_now i)) (\<lambda>_.
          sbind (fail_unless (rn_version r = cf_expectedRunVersion i) VERSION_CONFLICT) (\<lambda>_.
          sbind (fail_unless (finalize_request_ok i r) INVALID_REQUEST) (\<lambda>_.
          sbind (if fi_mode it = ReadWrite then select_sealed P i r s
                 else sbind (fail_unless (read_only_request_ok it) INVALID_REQUEST) (\<lambda>_. Inr s)) (\<lambda>s1.
          sbind (valid_claim (cf_claim i) (cf_now i)) (\<lambda>_.
          let o' = finalize_operation i r; r1 = finalizing_run (op_id o') (cf_now i) r in
          sbind (write_run (rn_id r1) (of_bs (rn_scope r1)) r1 False (Some (rn_id r1)) s1) (\<lambda>s2.
          save_command o' (VRun r1) s2)))))))))))"

section \<open>Preparing\<close>

definition intent_mode :: "intent \<Rightarrow> run_mode option" where
  "intent_mode i = (case i of FinalizeIntent f \<Rightarrow> Some (fi_mode f) | _ \<Rightarrow> None)"

definition intent_source :: "intent \<Rightarrow> sealed_selection option" where
  "intent_source i = (case i of FinalizeIntent f \<Rightarrow> fi_source f | _ \<Rightarrow> None)"

definition prepared_digest :: "operation \<Rightarrow> string option" where
  "prepared_digest o' = (case op_kind o' of
     KWorkspaceCreate \<Rightarrow> (case op_intent o' of CreateIntent i \<Rightarrow> Some (wi_initialManifestDigest i) | _ \<Rightarrow> None)
   | KRestore \<Rightarrow> (case op_intent o' of RestoreOpIntent i \<Rightarrow> Some (ri_sourceManifestDigest i) | _ \<Rightarrow> None)
   | _ \<Rightarrow> map_option ss_manifestDigest (intent_source (op_intent o')))"

datatype record_prepared_input = RecordPrepared (pi_cas: processing_cas) (pi_candidate: prepared_revision)

definition prepared_operation :: "prepared_revision \<Rightarrow> timestamp \<Rightarrow> operation \<Rightarrow> operation" where
  "prepared_operation c now o' = o'\<lparr>op_candidate := Some c, op_phase := PhPrepared, op_version := op_version o' + 1, op_updatedAt := now\<rparr>"

definition record_prepared_revision :: "record_prepared_input \<Rightarrow> catalog \<Rightarrow> failure + (operation \<times> catalog)" where
  "record_prepared_revision i s =
     (let c = pi_candidate i in
      sbind (processing s (pi_cas i)) (\<lambda>o'.
      sbind (fail_unless (op_kind o' \<in> {KFinalize, KWorkspaceCreate, KRestore}) INVALID_TRANSITION) (\<lambda>_.
      sbind (fail_unless (op_kind o' = KFinalize \<longrightarrow> intent_mode (op_intent o') = Some ReadWrite) INVALID_TRANSITION) (\<lambda>_.
      sbind (found (intent_candidateIdentity (op_intent o')) (Fail INVALID_TRANSITION)) (\<lambda>ident.
      sbind (found (prepared_digest o') (Fail INVALID_TRANSITION)) (\<lambda>digest.
      sbind (fail_unless (digest \<noteq> []) INVALID_TRANSITION) (\<lambda>_.
      sbind (match_candidate s ident c digest) (\<lambda>_.
      sbind (fail_unless (op_candidate o' = None \<or> op_candidate o' = Some c) RECEIPT_MISMATCH) (\<lambda>_.
      if op_candidate o' \<noteq> None then Inr (o', s)
      else
        sbind (record_prepared c s) (\<lambda>s1.
        let o1 = prepared_operation c (cs_now (pi_cas i)) o' in
        sbind (save_operation o1 s1) (\<lambda>s2.
        Inr (o1, s2))))))))))))"

section \<open>Publishing\<close>

datatype publication_result = PublicationResult (pb_run: run) (pb_revision: revision) (pb_operation: operation)

datatype finalizer = FinalizerPreconditions (fz_scope: run_scope) (fz_operationId: id) (fz_expectedRunVersion: int)
  (fz_expectedOperationVersion: int) (fz_expectedBindingGeneration: int) (fz_processingFence: int)
  (fz_authorization: authorization) (fz_events: publication_events) (fz_at: timestamp)

datatype accept_revision_input = AcceptRevision (av_finalizer: finalizer) (av_expectedHeadRevisionId: id)
  (av_expectedWorkspaceVersion: int) (av_submissionId: id) (av_candidate: prepared_revision)

definition finalizer_of :: "finalizer \<Rightarrow> catalog \<Rightarrow> failure + (operation \<times> run \<times> workspace)" where
  "finalizer_of i s =
     (let sc = fz_scope i in
      sbind (processing s (ProcessingCAS (rs_workspace sc) (fz_operationId i) (fz_expectedOperationVersion i) (fz_processingFence i) (fz_at i))) (\<lambda>o'.
      sbind (fail_unless (op_kind o' = KFinalize \<and> op_runId o' = Some (rsc_runId sc)) INVALID_TRANSITION) (\<lambda>_.
      sbind (permit s (op_principal o') RunFinalize (of_rs sc) (Some (fz_authorization i))) (\<lambda>_.
      sbind (run_at s sc (op_principal o') None) (\<lambda>r.
      sbind (fail_unless (rn_state r = Finalizing \<and> rn_operationId r = Some (op_id o')) INVALID_TRANSITION) (\<lambda>_.
      sbind (fail_unless (rn_version r = fz_expectedRunVersion i) VERSION_CONFLICT) (\<lambda>_.
      sbind (fail_unless (fz_expectedBindingGeneration i = bsc_bindingGeneration (rn_scope r)) STORAGE_BINDING_CHANGED) (\<lambda>_.
      sbind (workspace_at s (rs_workspace sc) True) (\<lambda>w.
      Inr (o', r, w))))))))))"

text \<open>The value of a completed finalize command: its run and the revision of its outcome.\<close>

definition replayed_run :: "command_value \<Rightarrow> int \<Rightarrow> failure + (run \<times> id)" where
  "replayed_run v version = (case v of
     VNull \<Rightarrow> Inl Crash
   | VRun r \<Rightarrow> (case rn_outcome r of
       None \<Rightarrow> Inl (Fail VERSION_CONFLICT)
     | Some x \<Rightarrow> (case ro_revisionId x of
         None \<Rightarrow> Inl (Fail VERSION_CONFLICT)
       | Some vid \<Rightarrow> if rn_version r = version + 1 \<and> vid \<noteq> [] then Inr (r, vid) else Inl (Fail VERSION_CONFLICT)))
   | _ \<Rightarrow> Inl (Fail VERSION_CONFLICT))"

definition publication_replay :: "finalizer \<Rightarrow> prepared_revision option \<Rightarrow> catalog \<Rightarrow> failure + publication_result option" where
  "publication_replay i cand s =
     (let sc = fz_scope i in
      case tbl_load (c_operation s) (fz_operationId i) (Some (of_rs sc)) of
        None \<Rightarrow> Inr None
      | Some o' \<Rightarrow>
          if op_state o' \<noteq> OpSucceeded then Inr None
          else
            sbind (fail_unless (op_kind o' = KFinalize \<and> op_runId o' = Some (rsc_runId sc) \<and> fence_of o' = Some (fz_processingFence i)) STALE_FENCE) (\<lambda>_.
            sbind (permit s (op_principal o') RunFinalize (of_ws (op_scope o')) (Some (fz_authorization i))) (\<lambda>_.
            sbind (fail_unless (cand = None \<or> op_candidate o' = cand) RECEIPT_MISMATCH) (\<lambda>_.
            sbind (replay s (op_command o') (op_principal o')) (\<lambda>prior.
            sbind (found prior Crash) (\<lambda>c.
            sbind (replayed_run (cx_value c) (fz_expectedRunVersion i)) (\<lambda>(r, vid).
            sbind (found (tbl_load (c_revision s) vid (Some (of_ws (op_scope o')))) Crash) (\<lambda>rv.
            Inr (Some (PublicationResult r rv o'))))))))))"

definition finished_run :: "revision \<Rightarrow> bool \<Rightarrow> timestamp \<Rightarrow> run \<Rightarrow> run" where
  "finished_run rv changed now r = r\<lparr>rn_state := Finalized, rn_version := rn_version r + 1, rn_updatedAt := now,
     rn_outcome := Some (RunOutcome Finalized (Some (rv_id rv)) changed now None)\<rparr>"

definition complete_finalization :: "operation \<Rightarrow> run \<Rightarrow> revision \<Rightarrow> bool \<Rightarrow> publication_events \<Rightarrow> timestamp \<Rightarrow> catalog \<Rightarrow> failure + (publication_result \<times> catalog)" where
  "complete_finalization o' r rv changed e now s =
     (let r1 = finished_run rv changed now r;
          o1 = complete_operation o' (ResFinalize Finalized (Some (rv_id rv)) changed) now in
      sbind (write_run (rn_id r1) (of_bs (rn_scope r1)) r1 False (Some (rn_id r1)) s) (\<lambda>s1.
      sbind (ensure_cleanup r1 now s1) (\<lambda>(_, s2).
      sbind (save_outcome o1 (VRun r1) s2) (\<lambda>s3.
      sbind (operation_events e o1 s3) (\<lambda>s4.
      Inr (PublicationResult r1 rv o1, s4))))))"

definition advance_head :: "revision \<Rightarrow> timestamp \<Rightarrow> workspace \<Rightarrow> workspace" where
  "advance_head rv now w = w\<lparr>ws_currentRevisionId := rv_id rv, ws_version := ws_version w + 1, ws_updatedAt := now\<rparr>"

definition check_source :: "catalog \<Rightarrow> run_scope \<Rightarrow> id \<Rightarrow> sealed_selection \<Rightarrow> failure + unit" where
  "check_source s sc sid src =
     sbind (fail_unless (sid = ss_submissionId src) RECEIPT_MISMATCH) (\<lambda>_.
     sbind (load_or (c_submission s) sid (of_rs sc) RECEIPT_MISMATCH) (\<lambda>m.
     fail_unless (sm_scope m = sc \<and> sm_state m = Sealed \<and> sm_version m = ss_submissionVersion src \<and>
       sm_manifestDigest m = Some (ss_manifestDigest src)) RECEIPT_MISMATCH))"

definition publish_revision :: "prepared_revision \<Rightarrow> run \<Rightarrow> workspace \<Rightarrow> timestamp \<Rightarrow> catalog \<Rightarrow> failure + catalog" where
  "publish_revision c r w now s =
     (let rv = revision_of c now; w1 = advance_head rv now w in
      sbind (write_revision (rv_id rv) (of_bs (rn_scope r)) rv True None s) (\<lambda>s1.
      write_workspace (ws_id w1) (of_bs (rn_scope r)) w1 False None s1))"

definition head_unchanged :: "accept_revision_input \<Rightarrow> run \<Rightarrow> workspace \<Rightarrow> bool" where
  "head_unchanged i r w \<longleftrightarrow> av_expectedHeadRevisionId i = rn_baseRevisionId r \<and> av_expectedWorkspaceVersion i = rn_workspaceVersionAtOpen r \<and>
     ws_currentRevisionId w = rn_baseRevisionId r \<and> ws_version w = rn_workspaceVersionAtOpen r"

definition accept_revision :: "accept_revision_input \<Rightarrow> catalog \<Rightarrow> failure + (publication_result \<times> catalog)" where
  "accept_revision i s =
     (let fz = av_finalizer i; sc = fz_scope fz; now = fz_at fz; c = av_candidate i in
      sbind (publication_replay fz (Some c) s) (\<lambda>prior. case prior of
        Some r \<Rightarrow> Inr (r, s)
      | None \<Rightarrow>
          sbind (finalizer_of fz s) (\<lambda>(o', r, w).
          sbind (fail_unless (rn_mode r = ReadWrite \<and> intent_mode (op_intent o') = Some ReadWrite) INVALID_TRANSITION) (\<lambda>_.
          sbind (fail_unless (head_unchanged i r w) REVISION_CONFLICT) (\<lambda>_.
          sbind (found (intent_source (op_intent o')) Crash) (\<lambda>src.
          sbind (check_source s sc (av_submissionId i) src) (\<lambda>_.
          sbind (found (intent_candidateIdentity (op_intent o')) Crash) (\<lambda>ident.
          sbind (match_candidate s ident c (ss_manifestDigest src)) (\<lambda>_.
          sbind (fail_unless (op_candidate o' = Some c) RECEIPT_MISMATCH) (\<lambda>_.
          sbind (load_or (c_revision s) (rn_baseRevisionId r) (of_bs (rn_scope r)) REVISION_NOT_FOUND) (\<lambda>base.
          if rv_manifestDigest base \<noteq> pp_manifestDigest c then
            sbind (publish_revision c r w now s) (\<lambda>s1.
            complete_finalization o' r (revision_of c now) True (fz_events fz) now s1)
          else complete_finalization o' r base False (fz_events fz) now s)))))))))))"

definition complete_read_only :: "finalizer \<Rightarrow> catalog \<Rightarrow> failure + (publication_result \<times> catalog)" where
  "complete_read_only i s =
      sbind (publication_replay i None s) (\<lambda>prior. case prior of
        Some r \<Rightarrow> Inr (r, s)
      | None \<Rightarrow>
          sbind (finalizer_of i s) (\<lambda>(o', r, w).
          sbind (fail_unless (rn_mode r = ReadOnly \<and> intent_mode (op_intent o') = Some ReadOnly) INVALID_TRANSITION) (\<lambda>_.
          sbind (load_or (c_revision s) (rn_baseRevisionId r) (of_bs (rn_scope r)) REVISION_NOT_FOUND) (\<lambda>base.
          complete_finalization o' r base False (fz_events i) (fz_at i) s))))"

section \<open>Failing\<close>

datatype fail_input = FailInput (ff_cas: processing_cas) (ff_code: error_code) (ff_message: string) (ff_events: publication_events)

definition failed_run :: "error_code \<Rightarrow> timestamp \<Rightarrow> run \<Rightarrow> run" where
  "failed_run code now r =
     (let st = (if code = REVISION_CONFLICT then Conflicted else Failed) in
      r\<lparr>rn_state := st, rn_version := rn_version r + 1, rn_updatedAt := now,
        rn_outcome := Some (RunOutcome st None False now (Some code))\<rparr>)"

definition load_optional :: "'a table \<Rightarrow> id option \<Rightarrow> scope \<Rightarrow> 'a option" where
  "load_optional t i sc = (case i of None \<Rightarrow> None | Some j \<Rightarrow> tbl_load t j (Some sc))"

definition revision_accepted :: "catalog \<Rightarrow> operation \<Rightarrow> bool" where
  "revision_accepted s o' = list_ex (\<lambda>v. rv_originatingOperationId v = op_id o') (tbl_all (c_revision s) (Some (of_ws (op_scope o'))))"

definition fail_finalization :: "fail_input \<Rightarrow> catalog \<Rightarrow> failure + (operation \<times> catalog)" where
  "fail_finalization i s =
     (let now = cs_now (ff_cas i) in
      sbind (processing s (ff_cas i)) (\<lambda>o'.
      sbind (fail_unless (op_kind o' = KFinalize) INVALID_TRANSITION) (\<lambda>_.
      sbind (found (load_optional (c_run s) (op_runId o') (of_ws (op_scope o'))) (Fail PUBLICATION_OUTCOME_UNKNOWN)) (\<lambda>r.
      sbind (fail_unless (rn_state r = Finalizing \<and> rn_operationId r = Some (op_id o')) PUBLICATION_OUTCOME_UNKNOWN) (\<lambda>_.
      sbind (fail_unless (\<not> revision_accepted s o') PUBLICATION_OUTCOME_UNKNOWN) (\<lambda>_.
      let r1 = failed_run (ff_code i) now r;
          o1 = (fail_operation o' (ff_code i) (ff_message i) now)\<lparr>op_result := Some (ResFinalize (rn_state r1) None False)\<rparr> in
      sbind (write_run (rn_id r1) (of_bs (rn_scope r1)) r1 False (Some (rn_id r1)) s) (\<lambda>s1.
      sbind (ensure_cleanup r1 now s1) (\<lambda>(_, s2).
      sbind (save_outcome o1 (VRun r1) s2) (\<lambda>s3.
      sbind (operation_events (ff_events i) o1 s3) (\<lambda>s4.
      Inr (o1, s4)))))))))))"

section \<open>Recovery\<close>

definition list_recoverable_operations :: "catalog \<Rightarrow> timestamp \<Rightarrow> int \<Rightarrow> operation_kind list option \<Rightarrow> failure + operation list" where
  "list_recoverable_operations s now limit kinds = sbind (check_limit limit) (\<lambda>_.
     let ks = (case kinds of None \<Rightarrow> [KWorkspaceCreate, KFinalize] | Some ks \<Rightarrow> ks)
     in Inr (take (nat limit) (filter (\<lambda>o'. op_kind o' \<in> set ks \<and> op_state o' = OpProcessing \<and>
          (case op_claim o' of None \<Rightarrow> False | Some c \<Rightarrow> pc_expiresAt c \<le> now)) (tbl_all (c_operation s) None))))"

datatype claim_recovery_input = ClaimRecovery (rc_scope: workspace_scope) (rc_operationId: id) (rc_expectedVersion: int)
  (rc_ownerId: string) (rc_now: timestamp) (rc_expiresAt: timestamp) (rc_kind: "operation_kind option")

definition recovery_kind_ok :: "operation_kind option \<Rightarrow> operation_kind \<Rightarrow> bool" where
  "recovery_kind_ok want k = (case want of None \<Rightarrow> k = KWorkspaceCreate \<or> k = KFinalize | Some w \<Rightarrow> k = w)"

definition candidate_fenced :: "catalog \<Rightarrow> operation \<Rightarrow> bool" where
  "candidate_fenced s o' = (case intent_candidateIdentity (op_intent o') of
     None \<Rightarrow> False
   | Some c \<Rightarrow> (case tbl_load (c_candidate s) (cd_candidateId c) (Some (of_bs (cd_scope c))) of
       None \<Rightarrow> False
     | Some reg \<Rightarrow> cr_collection reg \<noteq> None))"

definition claimed_operation :: "processing_claim \<Rightarrow> timestamp \<Rightarrow> operation \<Rightarrow> operation" where
  "claimed_operation c now o' = o'\<lparr>op_claim := Some c, op_version := op_version o' + 1, op_updatedAt := now\<rparr>"

definition claim_recovery :: "claim_recovery_input \<Rightarrow> catalog \<Rightarrow> failure + (operation \<times> catalog)" where
  "claim_recovery i s =
     sbind (load_or (c_operation s) (rc_operationId i) (of_ws (rc_scope i)) OPERATION_NOT_FOUND) (\<lambda>o'.
     sbind (fail_unless (recovery_kind_ok (rc_kind i) (op_kind o')) INVALID_TRANSITION) (\<lambda>_.
     sbind (fail_unless (op_version o' = rc_expectedVersion i) VERSION_CONFLICT) (\<lambda>_.
     sbind (fail_unless (op_state o' = OpProcessing) STALE_FENCE) (\<lambda>_.
     sbind (found (op_claim o') (Fail STALE_FENCE)) (\<lambda>old.
     sbind (fail_unless (pc_expiresAt old \<le> rc_now i) STALE_FENCE) (\<lambda>_.
     sbind (fail_unless (\<not> candidate_fenced s o') STALE_FENCE) (\<lambda>_.
     let c = ProcessingClaim (rc_ownerId i) (pc_fence old + 1) (rc_expiresAt i) in
     sbind (valid_claim c (rc_now i)) (\<lambda>_.
     let o1 = claimed_operation c (rc_now i) o' in
     sbind (save_operation o1 s) (\<lambda>s1.
     Inr (o1, s1))))))))))"

datatype renew_claim_input = RenewClaim (nc_cas: processing_cas) (nc_expiresAt: timestamp)

definition renew_processing_claim :: "renew_claim_input \<Rightarrow> catalog \<Rightarrow> failure + (operation \<times> catalog)" where
  "renew_processing_claim i s =
     sbind (processing s (nc_cas i)) (\<lambda>o'.
     sbind (found (op_claim o') (Fail INVALID_REQUEST)) (\<lambda>c.
     sbind (fail_unless (pc_expiresAt c < nc_expiresAt i \<and> cs_now (nc_cas i) < nc_expiresAt i) INVALID_REQUEST) (\<lambda>_.
     let o1 = claimed_operation (ProcessingClaim (pc_ownerId c) (pc_fence c) (nc_expiresAt i)) (cs_now (nc_cas i)) o' in
     sbind (save_operation o1 s) (\<lambda>s1.
     Inr (o1, s1)))))"

section \<open>The catalog advances\<close>

lemma finalize_ids [simp]:
  "rn_id (finalizing_run oid now r) = rn_id r" "rn_scope (finalizing_run oid now r) = rn_scope r" "rn_cleanupId (finalizing_run oid now r) = rn_cleanupId r"
  "rn_id (finished_run v b now r) = rn_id r" "rn_scope (finished_run v b now r) = rn_scope r" "rn_cleanupId (finished_run v b now r) = rn_cleanupId r"
  "rn_id (failed_run code now r) = rn_id r" "rn_scope (failed_run code now r) = rn_scope r" "rn_cleanupId (failed_run code now r) = rn_cleanupId r"
  "ws_id (advance_head v now w) = ws_id w" "scope_of (advance_head v now w) = scope_of w"
  "op_id (prepared_operation c now o') = op_id o'" "op_scope (prepared_operation c now o') = op_scope o'"
  "op_id (claimed_operation k now o') = op_id o'" "op_scope (claimed_operation k now o') = op_scope o'"
  "op_id (finalize_operation i r) = cm_operationId (cf_command i)" "op_scope (finalize_operation i r) = rs_workspace (cf_scope i)"
  "op_command (finalize_operation i r) = cf_command i"
  by (simp_all add: finalizing_run_def finished_run_def failed_run_def advance_head_def prepared_operation_def claimed_operation_def
      finalize_operation_def Let_def)

lemma finalize_run_next [simp]:
  "rn_next r (finalizing_run oid now r) \<longleftrightarrow> rn_state r = Active"
  "rn_next r (finished_run v b now r) \<longleftrightarrow> rn_state r = Finalizing"
  "rn_next r (failed_run code now r) \<longleftrightarrow> rn_state r = Finalizing \<or> rn_state r = Active \<and> code \<noteq> REVISION_CONFLICT"
  by (cases "rn_state r"; simp add: rn_next_def same_run_def run_moved_def lease_renewed_def can_transition_run_def
      finalizing_run_def finished_run_def failed_run_def Let_def)+

lemma finalize_run_ok [simp]:
  "run_ok sc i r \<Longrightarrow> rn_state r = Active \<Longrightarrow> run_ok sc i (finalizing_run oid now r)"
  "run_ok sc i r \<Longrightarrow> run_ok sc i (finished_run v b now r)"
  "run_ok sc i r \<Longrightarrow> run_ok sc i (failed_run code now r)"
  by (auto simp: run_ok_def live_def finalizing_run_def finished_run_def failed_run_def Let_def)

lemma ws_next_advance [simp]: "ws_next w (advance_head v now w)"
  by (simp add: ws_next_def advance_head_def)

lemma operation_next_claims [simp]:
  "op_state o' = OpProcessing \<Longrightarrow> op_next o' (prepared_operation c now o')"
  "op_next o' (claimed_operation k now o') \<longleftrightarrow> op_kind o' = KStorageMigrate \<or> op_state o' = OpProcessing \<and> fence_kept (op_claim o') (Some k)"
  by (auto simp: op_next_def same_operation_def prepared_operation_def claimed_operation_def)

lemma operation_ok_claims [simp]:
  "operation_ok sc i o' \<Longrightarrow> operation_ok sc i (prepared_operation c now o')"
  "operation_ok sc i o' \<Longrightarrow> operation_ok sc i (claimed_operation k now o')"
  "operation_ok sc i o' \<Longrightarrow> operation_ok sc i ((fail_operation o' code msg now)\<lparr>op_result := res\<rparr>)"
  using intent_ok_cong [of "prepared_operation c now o'" o'] intent_ok_cong [of "claimed_operation k now o'" o']
    intent_ok_cong [of "(fail_operation o' code msg now)\<lparr>op_result := res\<rparr>" o']
  by (auto simp: operation_ok_def prepared_operation_def claimed_operation_def fail_operation_def)

lemma op_next_failed_result [simp]:
  "op_next o' ((fail_operation o' code msg now)\<lparr>op_result := res\<rparr>) \<longleftrightarrow> op_kind o' = KStorageMigrate \<or> op_state o' = OpProcessing"
  by (auto simp: op_next_def same_operation_def fail_operation_def)

lemma finalizer_own:
  assumes "finalizer_of i s = Inr (o', r, w)" and "consistent s"
  shows "tbl_load (c_operation s) (fz_operationId i) None = Some o' \<and>
    operation_ok (of_ws (rs_workspace (fz_scope i))) (fz_operationId i) o' \<and> op_id o' = fz_operationId i \<and>
    op_scope o' = rs_workspace (fz_scope i) \<and> op_state o' = OpProcessing \<and> op_kind o' = KFinalize \<and>
    op_runId o' = Some (rsc_runId (fz_scope i)) \<and>
    tbl_load (c_run s) (rsc_runId (fz_scope i)) None = Some r \<and> run_ok (of_ws (rs_workspace (fz_scope i))) (rsc_runId (fz_scope i)) r \<and>
    rn_id r = rsc_runId (fz_scope i) \<and> rn_scope r = rs_binding (fz_scope i) \<and> rn_state r = Finalizing \<and> rn_operationId r = Some (op_id o') \<and>
    tbl_load (c_workspace s) (wsc_workspaceId (rs_workspace (fz_scope i))) None = Some w \<and>
    ws_id w = wsc_workspaceId (rs_workspace (fz_scope i)) \<and> scope_of w = rs_workspace (fz_scope i)"
  using assms unfolding finalizer_of_def
  by (auto simp: sbind_eq_Inr fail_unless_eq_Inr workspace_at_eq Let_def dest!: own_row(1) processing_own run_at_own)

lemma post_finalizer_of [post_simps]: "post (finalizer_of i s) Q \<longleftrightarrow> (\<forall>o' r w. finalizer_of i s = Inr (o', r, w) \<longrightarrow> Q (o', r, w))"
  by (auto simp: post_def)

lemma post_check_source [post_simps]: "post (check_source s sc sid src) Q \<longleftrightarrow> (check_source s sc sid src = Inr () \<longrightarrow> Q ())"
  by (simp add: post_def)

lemma post_publication_replay [post_simps]: "post (publication_replay i c s) Q \<longleftrightarrow> (\<forall>r. publication_replay i c s = Inr r \<longrightarrow> Q r)"
  by (simp add: post_def)

lemma intent_modes:
  "intent_mode i = Some m \<longleftrightarrow> (\<exists>f. i = FinalizeIntent f \<and> fi_mode f = m)"
  "intent_source i = Some x \<longleftrightarrow> (\<exists>f. i = FinalizeIntent f \<and> fi_source f = Some x)"
  by (auto simp: intent_mode_def intent_source_def split: intent.splits)

text \<open>A finalize command selects its candidate and source exactly in read-write mode.\<close>

definition selected :: "claim_finalization_input \<Rightarrow> run \<Rightarrow> bool" where
  "selected i r \<longleftrightarrow> (let f = cf_intent i in
     case fi_mode f of
       ReadOnly \<Rightarrow> fi_source f = None \<and> fi_candidateIdentity f = None
     | ReadWrite \<Rightarrow> fi_source f \<noteq> None \<and> (\<exists>c. fi_candidateIdentity f = Some c \<and> cd_operationId c = cm_operationId (cf_command i) \<and>
         cd_scope c = rn_scope r \<and> cd_parentRevisionId c = Some (rn_baseRevisionId r)))"

lemma selected_read_only: "fi_mode (cf_intent i) \<noteq> ReadWrite \<Longrightarrow> read_only_request_ok (cf_intent i) \<Longrightarrow> selected i r"
  by (cases "fi_mode (cf_intent i)") (simp_all add: selected_def read_only_request_ok_def)

lemma finalize_operation_ok [simp]:
  assumes "selected i r" and "is_kind (cm_scope (cf_command i)) = KFinalize" and "bs_workspace (rn_scope r) = rs_workspace (cf_scope i)"
  shows "operation_ok (of_ws (rs_workspace (cf_scope i))) (cm_operationId (cf_command i)) (finalize_operation i r)"
  using assms by (auto simp: operation_ok_def intent_ok_def finalize_operation_def selected_def Let_def split: run_mode.splits)

lemma select_sealed_advances:
  assumes "consistent s" and "wsc_customerId (bs_workspace (rn_scope r)) = c"
  shows "post (select_sealed P i r s) (\<lambda>s'. advances c s s' \<and> c_run s' = c_run s \<and> c_operation s' = c_operation s \<and>
     c_commands s' = c_commands s \<and> (fi_mode (cf_intent i) = ReadWrite \<longrightarrow> selected i r))"
  using assms
  apply (simp add: select_sealed_def Let_def split_beta post_simps advancing)
  apply (auto intro!: advance postI [of "manifest_digest _ _ _"] simp: post_simps advancing candidate_ok_def selected_def)
  done

lemma claim_finalization_advances:
  "consistent s \<Longrightarrow> post (claim_finalization P i s) (\<lambda>(r, s'). advances (wsc_customerId (rs_workspace (cf_scope i))) s s')"
  apply (simp add: claim_finalization_def Let_def split_beta post_simps advancing)
  apply (auto intro!: advance post_mono [OF select_sealed_advances] simp: post_simps advancing selected_read_only dest!: owned)
  done

lemma record_prepared_revision_advances:
  "consistent s \<Longrightarrow> post (record_prepared_revision i s) (\<lambda>(r, s'). advances (wsc_customerId (cs_scope (pi_cas i))) s s')"
  apply (simp add: record_prepared_revision_def Let_def split_beta post_simps advancing)
  apply (auto intro!: advance simp: post_simps advancing dest!: owned intent_candidate_stored)
  done

lemma complete_finalization_advances:
  assumes "advances c s u" and "c_run u = c_run s" and "c_operation u = c_operation s"
    and "tbl_load (c_run s) (rn_id r) None = Some r" and "run_ok (of_ws (bs_workspace (rn_scope r))) (rn_id r) r" and "rn_state r = Finalizing"
    and "tbl_load (c_operation s) (op_id o') None = Some o'" and "operation_ok (of_ws (op_scope o')) (op_id o') o'"
    and "op_state o' = OpProcessing" and "wsc_customerId (bs_workspace (rn_scope r)) = c" and "wsc_customerId (op_scope o') = c"
  shows "post (complete_finalization o' r v b e now u) (\<lambda>(x, s'). advances c s s')"
  using assms
  apply (simp add: complete_finalization_def Let_def split_beta post_simps advancing)
  apply (auto intro!: advance simp: post_simps advancing dest!: event_matches_scope)
  done

lemma accept_revision_advances:
  "consistent s \<Longrightarrow> post (accept_revision i s) (\<lambda>(r, s'). advances (wsc_customerId (rs_workspace (fz_scope (av_finalizer i)))) s s')"
  apply (simp add: accept_revision_def publish_revision_def Let_def split_beta post_simps advancing)
  apply (auto intro!: complete_finalization_advances advance simp: post_simps advancing intent_modes
      dest!: matched_candidate finalizer_own dest: intent_candidate_stored)
  done

lemma complete_read_only_advances:
  "consistent s \<Longrightarrow> post (complete_read_only i s) (\<lambda>(r, s'). advances (wsc_customerId (rs_workspace (fz_scope i))) s s')"
  apply (simp add: complete_read_only_def Let_def split_beta post_simps advancing)
  apply (auto intro!: complete_finalization_advances simp: post_simps advancing dest!: finalizer_own)
  done

lemma fail_finalization_advances:
  "consistent s \<Longrightarrow> post (fail_finalization i s) (\<lambda>(r, s'). advances (wsc_customerId (cs_scope (ff_cas i))) s s')"
  apply (simp add: fail_finalization_def load_optional_def Let_def split_beta post_simps advancing)
  apply (auto intro!: advance simp: post_simps advancing dest!: owned split: option.splits)
  done

lemma claim_recovery_advances:
  "consistent s \<Longrightarrow> post (claim_recovery i s) (\<lambda>(r, s'). advances (wsc_customerId (rc_scope i)) s s')"
  apply (simp add: claim_recovery_def Let_def split_beta post_simps advancing)
  apply (auto intro!: advance simp: post_simps advancing fence_kept_def dest!: owned)
  done

lemma renew_processing_claim_advances:
  "consistent s \<Longrightarrow> post (renew_processing_claim i s) (\<lambda>(r, s'). advances (wsc_customerId (cs_scope (nc_cas i))) s s')"
  apply (simp add: renew_processing_claim_def Let_def split_beta post_simps advancing)
  apply (auto intro!: advance simp: post_simps advancing fence_kept_def dest!: owned)
  done

end
