(* ===== verification/Cv_Submissions.thy ===== *)
theory Cv_Submissions
  imports Cv_Finalize
begin

text \<open>
  Submissions of \<open>sqlite-control-store.ts\<close>: a read-write run uploads files against a submission,
  each completed upload is registered as an immutable receipt, and sealing fixes the manifest and the
  receipt of every file. An expired submission is collected under a permit; writers that may still be
  uploading are recorded and hold the collection back. Also the receipt selection of
  \<open>src/application/submissions/selection.ts\<close>.
\<close>

section \<open>Creation and reading\<close>

datatype create_submission_input = CreateSubmission (ns_scope: run_scope) (ns_principal: principal)
  (ns_command: command_identity) (ns_submissionId: id) (ns_expiresAt: timestamp)

definition new_submission :: "create_submission_input \<Rightarrow> submission" where
  "new_submission i = \<lparr>sm_id = ns_submissionId i, sm_scope = ns_scope i, sm_state = Uploading, sm_version = 1,
     sm_expiresAt = ns_expiresAt i, sm_manifest = None, sm_manifestDigest = None, sm_receipts = [],
     sm_createdAt = cm_requestedAt (ns_command i), sm_sealedAt = None\<rparr>"

definition create_submission :: "create_submission_input \<Rightarrow> catalog \<Rightarrow> failure + (command_result \<times> catalog)" where
  "create_submission i s =
     (let sc = ns_scope i; p = ns_principal i; c = ns_command i in
      sbind (check_command c p (of_rs sc) KSubmissionCreate (Some (rsc_runId sc))) (\<lambda>_.
      sbind (replay s c p) (\<lambda>prior. case prior of
        Some r \<Rightarrow> sbind (permit s p RunUpload (of_rs sc) None) (\<lambda>_. Inr (r, s))
      | None \<Rightarrow>
          sbind (run_at s sc p (Some RunUpload)) (\<lambda>r.
          sbind (check_active r (cm_requestedAt c)) (\<lambda>_.
          sbind (fail_unless (rn_mode r = ReadWrite) FORBIDDEN) (\<lambda>_.
          sbind (fail_unless (cm_requestedAt c < ns_expiresAt i) INVALID_REQUEST) (\<lambda>_.
          let m = new_submission i in
          sbind (write_submission (sm_id m) (of_bs (rn_scope r)) m True (Some (rn_id r)) s) (\<lambda>s1.
          save_command (new_operation c p (bs_workspace (rn_scope r)) (Some (rn_id r)) (Some (ResSubmissionCreate (sm_id m)))) (VSubmission m) s1))))))))"

definition get_submission :: "catalog \<Rightarrow> run_scope \<Rightarrow> id \<Rightarrow> submission option" where
  "get_submission s sc i = (case tbl_load (c_submission s) i (Some (of_rs sc)) of
     None \<Rightarrow> None
   | Some m \<Rightarrow> if sm_scope m = sc then Some m else None)"

definition get_receipt :: "catalog \<Rightarrow> run_scope \<Rightarrow> id \<Rightarrow> id \<Rightarrow> upload_receipt option" where
  "get_receipt s sc sid i = (case tbl_load (c_receipt s) i (Some (of_rs sc)) of
     None \<Rightarrow> None
   | Some u \<Rightarrow> if ur_submissionId u = sid \<and> ur_scope u = sc then Some u else None)"

section \<open>Receipts\<close>

definition submission_at :: "catalog \<Rightarrow> run_scope \<Rightarrow> id \<Rightarrow> failure + submission" where
  "submission_at s sc i = found (get_submission s sc i) (Fail SUBMISSION_NOT_FOUND)"

definition writable_submission :: "catalog \<Rightarrow> run_scope \<Rightarrow> id \<Rightarrow> int \<Rightarrow> timestamp \<Rightarrow> failure + submission" where
  "writable_submission s sc i version now =
     sbind (submission_at s sc i) (\<lambda>m.
     sbind (fail_unless (sm_state m = Uploading) (if sm_state m = Sealed then SUBMISSION_SEALED else RUN_EXPIRED)) (\<lambda>_.
     sbind (fail_unless (now < sm_expiresAt m) RUN_EXPIRED) (\<lambda>_.
     sbind (fail_unless (sm_version m = version) VERSION_CONFLICT) (\<lambda>_.
     Inr m))))"

datatype register_receipt_input = RegisterReceipt (ni_scope: run_scope) (ni_principal: principal)
  (ni_command: command_identity) (ni_expectedSubmissionVersion: int) (ni_receipt: upload_receipt) (ni_now: timestamp)

definition receipt_entry :: "upload_receipt \<Rightarrow> manifest_entry" where
  "receipt_entry u = FileEntry (ur_path u) (ur_byteLength u) (ur_sha256 u)"

definition register_upload_receipt :: "platform \<Rightarrow> register_receipt_input \<Rightarrow> catalog \<Rightarrow> failure + (command_result \<times> catalog)" where
  "register_upload_receipt P i s =
     (let sc = ni_scope i; p = ni_principal i; c = ni_command i; u = ni_receipt i in
      sbind (check_command c p (of_rs sc) KSubmissionFile (Some (rsc_runId sc))) (\<lambda>_.
      sbind (replay s c p) (\<lambda>prior. case prior of
        Some r \<Rightarrow> sbind (permit s p RunUpload (of_rs sc) None) (\<lambda>_. Inr (r, s))
      | None \<Rightarrow>
          sbind (run_at s sc p (Some RunUpload)) (\<lambda>r.
          sbind (check_active r (ni_now i)) (\<lambda>_.
          sbind (fail_unless (rn_mode r = ReadWrite) FORBIDDEN) (\<lambda>_.
          sbind (fail_unless (ur_scope u = sc) FORBIDDEN) (\<lambda>_.
          sbind (writable_submission s sc (ur_submissionId u) (ni_expectedSubmissionVersion i) (ni_now i)) (\<lambda>m.
          sbind (canonicalize_manifest P no_override (manifest_json (Manifest [receipt_entry u]))) (\<lambda>_.
          sbind (fail_unless (pl_opaqueKey (ur_privateReference u) \<noteq> [] \<and> pl_storeId (ur_privateReference u) \<noteq> []) INVALID_REQUEST) (\<lambda>_.
          sbind (fail_unless (\<not> list_ex (\<lambda>v. ur_privateReference v = ur_privateReference u) (tbl_all (c_receipt s) (Some (of_rs sc)))) RECEIPT_MISMATCH) (\<lambda>_.
          sbind (write_receipt (ur_id u) (of_bs (rn_scope r)) u True (Some (rn_id r)) s) (\<lambda>s1.
          sbind (write_submission (sm_id m) (of_bs (rn_scope r)) (m\<lparr>sm_version := sm_version m + 1\<rparr>) False (Some (rn_id r)) s1) (\<lambda>s2.
          save_command (new_operation c p (bs_workspace (rn_scope r)) (Some (rn_id r)) (Some (ResSubmissionFile (ur_id u)))) (VReceipt u) s2)))))))))))))"

section \<open>Sealing\<close>

datatype seal_input = SealInput (sl_scope: run_scope) (sl_principal: principal) (sl_command: command_identity)
  (sl_submissionId: id) (sl_expectedSubmissionVersion: int) (sl_manifest: json) (sl_manifestDigest: string)
  (sl_receipts: "receipt_selection list") (sl_now: timestamp)

definition is_file :: "manifest_entry \<Rightarrow> bool" where
  "is_file e = (case e of FileEntry _ _ _ \<Rightarrow> True | DirectoryEntry _ \<Rightarrow> False)"

definition selection_complete :: "manifest_entry list \<Rightarrow> receipt_selection list \<Rightarrow> bool" where
  "selection_complete files sel \<longleftrightarrow> length sel = length files \<and>
     length (remdups (map rs_path sel)) = length files \<and> length (remdups (map rs_receiptId sel)) = length files"

definition receipt_fits :: "run_scope \<Rightarrow> id \<Rightarrow> manifest_entry \<Rightarrow> upload_receipt \<Rightarrow> bool" where
  "receipt_fits sc sid e u \<longleftrightarrow> ur_scope u = sc \<and> ur_submissionId u = sid \<and> receipt_entry u = e"

definition entry_selected :: "catalog \<Rightarrow> run_scope \<Rightarrow> id \<Rightarrow> receipt_selection list \<Rightarrow> manifest_entry \<Rightarrow> bool" where
  "entry_selected s sc sid sel e = (case find (\<lambda>q. rs_path q = me_path e) sel of
     None \<Rightarrow> False
   | Some q \<Rightarrow> (case tbl_load (c_receipt s) (rs_receiptId q) (Some (of_rs sc)) of
       None \<Rightarrow> False
     | Some u \<Rightarrow> receipt_fits sc sid e u))"

definition sealed_submission :: "manifest \<Rightarrow> seal_input \<Rightarrow> submission \<Rightarrow> submission" where
  "sealed_submission mf i m = m\<lparr>sm_state := Sealed, sm_version := sm_version m + 1, sm_manifest := Some mf,
     sm_manifestDigest := Some (sl_manifestDigest i), sm_receipts := sl_receipts i, sm_sealedAt := Some (sl_now i)\<rparr>"

definition seal_submission :: "platform \<Rightarrow> seal_input \<Rightarrow> catalog \<Rightarrow> failure + (command_result \<times> catalog)" where
  "seal_submission P i s =
     (let sc = sl_scope i; p = sl_principal i; c = sl_command i in
      sbind (check_command c p (of_rs sc) KSubmissionSeal (Some (rsc_runId sc))) (\<lambda>_.
      sbind (replay s c p) (\<lambda>prior. case prior of
        Some r \<Rightarrow> sbind (permit s p RunUpload (of_rs sc) None) (\<lambda>_. Inr (r, s))
      | None \<Rightarrow>
          sbind (run_at s sc p (Some RunUpload)) (\<lambda>r.
          sbind (check_active r (sl_now i)) (\<lambda>_.
          sbind (fail_unless (rn_mode r = ReadWrite) FORBIDDEN) (\<lambda>_.
          sbind (writable_submission s sc (sl_submissionId i) (sl_expectedSubmissionVersion i) (sl_now i)) (\<lambda>m.
          sbind (canonicalize_manifest P no_override (sl_manifest i)) (\<lambda>mf.
          sbind (manifest_digest P no_override (manifest_json mf)) (\<lambda>d.
          sbind (fail_unless (d = sl_manifestDigest i) RECEIPT_MISMATCH) (\<lambda>_.
          let files = filter is_file (mf_entries mf) in
          sbind (fail_unless (selection_complete files (sl_receipts i)) RECEIPT_MISMATCH) (\<lambda>_.
          sbind (fail_unless (list_all (entry_selected s sc (sm_id m) (sl_receipts i)) files) RECEIPT_MISMATCH) (\<lambda>_.
          let m1 = sealed_submission mf i m in
          sbind (write_submission (sm_id m1) (of_bs (rn_scope r)) m1 False (Some (rn_id r)) s) (\<lambda>s1.
          save_command (new_operation c p (bs_workspace (rn_scope r)) (Some (rn_id r))
            (Some (ResSubmissionSeal (sm_id m1) (sl_manifestDigest i)))) (VSubmission m1) s1)))))))))))))"

section \<open>Expiry\<close>

text \<open>A processing finalization that selected this submission. A read-write intent always carries its source.\<close>

definition retains_source :: "id \<Rightarrow> operation \<Rightarrow> bool" where
  "retains_source sid o' \<longleftrightarrow> op_kind o' = KFinalize \<and> op_state o' = OpProcessing \<and> intent_mode (op_intent o') = Some ReadWrite \<and>
     map_option ss_submissionId (intent_source (op_intent o')) = Some sid"

datatype expire_submission_input = ExpireSubmission (xs_scope: run_scope) (xs_submissionId: id) (xs_expectedVersion: int) (xs_now: timestamp)

definition expired_submission :: "submission \<Rightarrow> submission" where
  "expired_submission m = m\<lparr>sm_state := SubmissionExpired, sm_version := sm_version m + 1\<rparr>"

definition expire_submission :: "expire_submission_input \<Rightarrow> catalog \<Rightarrow> failure + (submission \<times> catalog)" where
  "expire_submission i s =
     (let sc = xs_scope i in
      sbind (submission_at s sc (xs_submissionId i)) (\<lambda>m.
      sbind (fail_unless (sm_version m = xs_expectedVersion i) VERSION_CONFLICT) (\<lambda>_.
      sbind (fail_unless (\<not> list_ex (\<lambda>o'. op_runId o' = Some (rsc_runId sc) \<and> retains_source (sm_id m) o') (tbl_all (c_operation s) (Some (of_rs sc)))) FINALIZATION_IN_PROGRESS) (\<lambda>_.
      sbind (fail_unless (sm_expiresAt m \<le> xs_now i \<and> sm_state m \<noteq> SubmissionExpired) INVALID_TRANSITION) (\<lambda>_.
      let m1 = expired_submission m in
      sbind (write_submission (sm_id m1) (of_rs sc) m1 False (Some (rsc_runId sc)) s) (\<lambda>s1.
      Inr (m1, s1)))))))"

section \<open>Writers\<close>

definition digest_of :: "platform \<Rightarrow> json \<Rightarrow> failure + string" where
  "digest_of P j = sbind (canonical_json j) (\<lambda>t. Inr (pf_sha256 P t))"

datatype begin_write_input = BeginWrite (bw_scope: run_scope) (bw_principal: principal) (bw_command: command_identity)
  (bw_submissionId: id) (bw_writerId: id) (bw_attemptKey: string) (bw_storeId: string) (bw_now: timestamp)

definition begin_submission_write :: "platform \<Rightarrow> begin_write_input \<Rightarrow> catalog \<Rightarrow> failure + (submission_writer \<times> catalog)" where
  "begin_submission_write P i s =
     (let sc = bw_scope i; p = bw_principal i; c = bw_command i in
      sbind (check_command c p (of_rs sc) KSubmissionFile (Some (rsc_runId sc))) (\<lambda>_.
      sbind (run_at s sc p (Some RunUpload)) (\<lambda>r.
      sbind (check_active r (bw_now i)) (\<lambda>_.
      sbind (fail_unless (rn_mode r = ReadWrite) FORBIDDEN) (\<lambda>_.
      sbind (submission_at s sc (bw_submissionId i)) (\<lambda>m.
      sbind (writable_submission s sc (sm_id m) (sm_version m) (bw_now i)) (\<lambda>_.
      sbind (fail_unless (tbl_load (c_submission_collection s) (sm_id m) (Some (of_rs sc)) = None) STALE_FENCE) (\<lambda>_.
      sbind (fail_unless (bw_writerId i \<noteq> [] \<and> js_length (bw_writerId i) \<le> 255 \<and> bw_storeId i \<noteq> [] \<and> js_length (bw_storeId i) \<le> 1024) INVALID_REQUEST) (\<lambda>_.
      sbind (digest_of P (JObj [(''scope'', idempotency_scope_json (cm_scope c)), (''key'', JStr (cm_key c))])) (\<lambda>d.
      sbind (fail_unless (bw_attemptKey i = d) INVALID_REQUEST) (\<lambda>_.
      let w = \<lparr>sw_id = bw_writerId i, sw_scope = sc, sw_submissionId = bw_submissionId i, sw_attemptKey = bw_attemptKey i,
               sw_storeId = bw_storeId i, sw_state = WriterActive, sw_startedAt = bw_now i, sw_finishedAt = None\<rparr> in
      sbind (write_submission_writer (sw_id w) (of_rs sc) w True (Some (rsc_runId sc)) s) (\<lambda>s1.
      Inr (w, s1)))))))))))))"

datatype finish_write_input = FinishWrite (fw_scope: run_scope) (fw_submissionId: id) (fw_writerId: id) (fw_now: timestamp)

definition finish_submission_write :: "finish_write_input \<Rightarrow> catalog \<Rightarrow> failure + (submission_writer \<times> catalog)" where
  "finish_submission_write i s =
     sbind (load_or (c_submission_writer s) (fw_writerId i) (of_rs (fw_scope i)) FORBIDDEN) (\<lambda>w.
     sbind (fail_unless (sw_submissionId w = fw_submissionId i \<and> sw_scope w = fw_scope i) FORBIDDEN) (\<lambda>_.
     if sw_state w = WriterFinished then Inr (w, s)
     else (let w1 = w\<lparr>sw_state := WriterFinished, sw_finishedAt := Some (fw_now i)\<rparr> in
       sbind (write_submission_writer (sw_id w1) (of_rs (sw_scope w1)) w1 False (Some (rsc_runId (sw_scope w1))) s) (\<lambda>s1.
       Inr (w1, s1)))))"

section \<open>Collection\<close>

definition writer_active :: "catalog \<Rightarrow> submission \<Rightarrow> bool" where
  "writer_active s m = list_ex (\<lambda>(_, q). in_scope (Some (of_rs (sm_scope m))) q \<and> row_run q = Some (rsc_runId (sm_scope m)) \<and>
     sw_submissionId (row_data q) = sm_id m \<and> sw_state (row_data q) = WriterActive) (c_submission_writer s)"

definition submission_collectable :: "catalog \<Rightarrow> submission \<Rightarrow> timestamp \<Rightarrow> bool" where
  "submission_collectable s m now = (case tbl_load (c_run s) (rsc_runId (sm_scope m)) (Some (of_rs (sm_scope m))) of
     None \<Rightarrow> False
   | Some r \<Rightarrow>
       rn_scope r = rs_binding (sm_scope m) \<and>
       \<not> (now < sm_expiresAt m \<and> (rn_state r = Active \<or> rn_state r = Finalizing)) \<and>
       \<not> writer_active s m \<and>
       \<not> list_ex (retains_source (sm_id m)) (tbl_all (c_operation s) (Some (of_rs (sm_scope m)))))"

datatype claim_submission_input = ClaimSubmission (cu_scope: run_scope) (cu_submissionId: id) (cu_expiresAt: timestamp) (cu_now: timestamp)

definition cursor_of :: "string option \<Rightarrow> string" where
  "cursor_of c = (case c of None \<Rightarrow> [] | Some x \<Rightarrow> x)"

definition keep_cursor :: "submission_collection option \<Rightarrow> string option" where
  "keep_cursor e = (case e of None \<Rightarrow> None | Some x \<Rightarrow> if cursor_of (sc_cursor x) = [] then None else sc_cursor x)"

definition next_fence :: "submission_collection option \<Rightarrow> int" where
  "next_fence e = (case e of None \<Rightarrow> 0 | Some x \<Rightarrow> sp_collectionFence (sc_permit x)) + 1"

definition expire_if_open :: "submission \<Rightarrow> catalog \<Rightarrow> failure + (submission \<times> catalog)" where
  "expire_if_open m s =
     (if sm_state m = SubmissionExpired then Inr (m, s)
      else sbind (write_submission (sm_id m) (of_rs (sm_scope m)) (expired_submission m) False (Some (rsc_runId (sm_scope m))) s) (\<lambda>s1.
        Inr (expired_submission m, s1)))"

definition claim_submission_collection :: "claim_submission_input \<Rightarrow> catalog \<Rightarrow> failure + (submission_permit \<times> catalog)" where
  "claim_submission_collection i s =
     (let sc = cu_scope i in
      sbind (submission_at s sc (cu_submissionId i)) (\<lambda>m.
      sbind (fail_unless (submission_collectable s m (cu_now i)) FORBIDDEN) (\<lambda>_.
      let e = tbl_load (c_submission_collection s) (sm_id m) (Some (of_rs sc)) in
      sbind (fail_unless (case e of None \<Rightarrow> True | Some x \<Rightarrow> sp_expiresAt (sc_permit x) \<le> cu_now i) STALE_FENCE) (\<lambda>_.
      sbind (fail_unless (cu_now i < cu_expiresAt i) INVALID_REQUEST) (\<lambda>_.
      sbind (expire_if_open m s) (\<lambda>(m1, s1).
      let pm = SubmissionPermit sc (sm_id m1) (sm_version m1) (next_fence e) (cu_expiresAt i) in
      sbind (write_submission_collection (sm_id m1) (of_rs (sm_scope m1))
               \<lparr>sc_permit = pm, sc_collectedAt = (case e of None \<Rightarrow> None | Some x \<Rightarrow> sc_collectedAt x), sc_cursor = keep_cursor e\<rparr>
               False (Some (rsc_runId (sm_scope m1))) s1) (\<lambda>s2.
      Inr (pm, s2))))))))"

definition submission_permit_valid :: "catalog \<Rightarrow> submission_permit \<Rightarrow> timestamp \<Rightarrow> bool" where
  "submission_permit_valid s pm now =
     (case (tbl_load (c_submission_collection s) (sp_submissionId pm) (Some (of_rs (sp_scope pm))),
            tbl_load (c_submission s) (sp_submissionId pm) (Some (of_rs (sp_scope pm)))) of
        (Some x, Some m) \<Rightarrow> sc_permit x = pm \<and> sm_scope m = sp_scope pm \<and> now < sp_expiresAt pm \<and>
          sm_version m = sp_submissionVersion pm \<and> sm_state m = SubmissionExpired \<and> submission_collectable s m now
      | _ \<Rightarrow> False)"

text \<open>\<open>submissionAttemptRows\<close>: receipts sort before writers, and both tables are ordered by id.\<close>

definition owned_row :: "submission_permit \<Rightarrow> 'a row \<Rightarrow> id \<Rightarrow> bool" where
  "owned_row pm q sid \<longleftrightarrow> in_scope (Some (of_rs (sp_scope pm))) q \<and> row_run q = Some (rsc_runId (sp_scope pm)) \<and> sid = sp_submissionId pm"

definition receipt_attempt :: "id \<Rightarrow> upload_receipt \<Rightarrow> collection_attempt" where
  "receipt_attempt i u = CollectionAttempt (''receipt:'' @ i) (pl_opaqueKey (ur_privateReference u)) (pl_storeId (ur_privateReference u)) None (Some u)"

definition writer_attempt :: "id \<Rightarrow> submission_writer \<Rightarrow> collection_attempt" where
  "writer_attempt i w = CollectionAttempt (''submission-writer:'' @ i) (sw_attemptKey w) (sw_storeId w) (Some (sw_id w)) None"

definition submission_attempts :: "catalog \<Rightarrow> submission_permit \<Rightarrow> string \<Rightarrow> collection_attempt list" where
  "submission_attempts s pm cursor = filter (\<lambda>a. cursor < ca_id a)
     (map (\<lambda>(i, q). receipt_attempt i (row_data q)) (filter (\<lambda>(i, q). owned_row pm q (ur_submissionId (row_data q))) (c_receipt s)) @
      map (\<lambda>(i, q). writer_attempt i (row_data q)) (filter (\<lambda>(i, q). owned_row pm q (sw_submissionId (row_data q))) (c_submission_writer s)))"

definition collection_at :: "catalog \<Rightarrow> submission_permit \<Rightarrow> timestamp \<Rightarrow> failure + submission_collection" where
  "collection_at s pm now =
     sbind (fail_unless (submission_permit_valid s pm now) STALE_FENCE) (\<lambda>_.
     found (tbl_load (c_submission_collection s) (sp_submissionId pm) (Some (of_rs (sp_scope pm)))) Crash)"

definition save_collection :: "submission_permit \<Rightarrow> submission_collection \<Rightarrow> catalog \<Rightarrow> failure + catalog" where
  "save_collection pm x s = write_submission_collection (sp_submissionId pm) (of_rs (sp_scope pm)) x False (Some (rsc_runId (sp_scope pm))) s"

definition complete_submission_collection :: "submission_permit \<Rightarrow> timestamp \<Rightarrow> catalog \<Rightarrow> failure + catalog" where
  "complete_submission_collection pm now s =
     sbind (collection_at s pm now) (\<lambda>x.
     sbind (fail_unless (submission_attempts s pm (cursor_of (sc_cursor x)) = []) INVALID_TRANSITION) (\<lambda>_.
     save_collection pm (x\<lparr>sc_collectedAt := Some now\<rparr>) s))"

definition list_submission_collection_attempts :: "catalog \<Rightarrow> submission_permit \<Rightarrow> timestamp \<Rightarrow> int \<Rightarrow> string option \<Rightarrow> failure + (collection_attempt list \<times> string option)" where
  "list_submission_collection_attempts s pm now limit cursor =
     sbind (fail_unless (submission_permit_valid s pm now) STALE_FENCE) (\<lambda>_.
     sbind (check_limit limit) (\<lambda>_.
     sbind (collection_at s pm now) (\<lambda>x.
     let rows = take (nat limit + 1) (submission_attempts s pm (case cursor of Some c \<Rightarrow> c | None \<Rightarrow> cursor_of (sc_cursor x)));
         more = length rows > nat limit;
         vals = (if more then butlast rows else rows)
     in Inr (vals, if more then Some (ca_id (last vals)) else None))))"

definition record_submission_progress :: "submission_permit \<Rightarrow> string \<Rightarrow> timestamp \<Rightarrow> catalog \<Rightarrow> failure + catalog" where
  "record_submission_progress pm attempt now s =
     sbind (collection_at s pm now) (\<lambda>x.
     if cursor_of (sc_cursor x) \<noteq> [] \<and> attempt \<le> cursor_of (sc_cursor x) then Inr s
     else (case submission_attempts s pm (cursor_of (sc_cursor x)) of
         [] \<Rightarrow> Inl (Fail INVALID_REQUEST)
       | a # _ \<Rightarrow>
           sbind (fail_unless (ca_id a = attempt) INVALID_REQUEST) (\<lambda>_.
           save_collection pm (x\<lparr>sc_cursor := Some attempt\<rparr>) s)))"

definition submission_target_of :: "catalog \<Rightarrow> submission \<Rightarrow> submission_target" where
  "submission_target_of s m = SubmissionTarget m (tbl_load (c_binding s) (rsc_storageBindingId (sm_scope m)) (Some (of_rs (sm_scope m))))
     (map_option sc_permit (tbl_load (c_submission_collection s) (sm_id m) (Some (of_rs (sm_scope m)))))"

definition submission_collected :: "catalog \<Rightarrow> id \<Rightarrow> bool" where
  "submission_collected s i = (case tbl_load (c_submission_collection s) i None of None \<Rightarrow> False | Some x \<Rightarrow> sc_collectedAt x \<noteq> None)"

definition list_submission_collection_targets :: "catalog \<Rightarrow> timestamp \<Rightarrow> int \<Rightarrow> string option \<Rightarrow> failure + (submission_target list \<times> string option)" where
  "list_submission_collection_targets s now limit cursor = sbind (check_limit limit) (\<lambda>_.
     let rows = take (nat limit + 1) (filter (\<lambda>(i, q). cursor_of cursor < i \<and> \<not> submission_collected s i) (c_submission s));
         more = length rows > nat limit;
         kept = (if more then butlast rows else rows)
     in Inr (map (submission_target_of s) (filter (\<lambda>m. submission_collectable s m now) (map (row_data \<circ> snd) kept)),
             if more then Some (fst (last kept)) else None))"

text \<open>A receipt is retired once collection has passed it, or storage proves its deletion under the fence.\<close>

definition run_scope_json :: "run_scope \<Rightarrow> json" where
  "run_scope_json sc = JObj [(''customerId'', JStr (rsc_customerId sc)), (''workspaceId'', JStr (rsc_workspaceId sc)),
     (''storageBindingId'', JStr (rsc_storageBindingId sc)), (''bindingGeneration'', JInt (rsc_bindingGeneration sc)),
     (''runId'', JStr (rsc_runId sc))]"

definition retirement_marker :: "upload_receipt \<Rightarrow> json" where
  "retirement_marker u = JObj [(''scope'', run_scope_json (ur_scope u)), (''submissionId'', JStr (ur_submissionId u)),
     (''attemptKey'', JStr (pl_opaqueKey (ur_privateReference u))), (''storeId'', JStr (pl_storeId (ur_privateReference u)))]"

definition retirement_fenced :: "catalog \<Rightarrow> upload_receipt \<Rightarrow> submission_collection option" where
  "retirement_fenced s u =
     (case (tbl_load (c_receipt s) (ur_id u) (Some (of_rs (ur_scope u))),
            tbl_load (c_submission s) (ur_submissionId u) (Some (of_rs (ur_scope u))),
            tbl_load (c_submission_collection s) (ur_submissionId u) (Some (of_rs (ur_scope u)))) of
        (Some v, Some m, Some x) \<Rightarrow>
          if v = u \<and> sm_state m = SubmissionExpired \<and> sm_scope m = ur_scope u \<and> sp_scope (sc_permit x) = ur_scope u \<and>
             sp_submissionId (sc_permit x) = ur_submissionId u \<and> sp_submissionVersion (sc_permit x) = sm_version m
          then Some x else None
      | _ \<Rightarrow> None)"

definition is_upload_receipt_retired :: "catalog \<Rightarrow> upload_receipt \<Rightarrow> json option \<Rightarrow> failure + bool" where
  "is_upload_receipt_retired s u marker = (case retirement_fenced s u of
     None \<Rightarrow> Inr False
   | Some x \<Rightarrow>
       if cursor_of (sc_cursor x) \<noteq> [] \<and> ''receipt:'' @ ur_id u \<le> cursor_of (sc_cursor x) then Inr True
       else (case marker of
           None \<Rightarrow> Inr False
         | Some j \<Rightarrow> sbind (canonical_json j) (\<lambda>a. sbind (canonical_json (retirement_marker u)) (\<lambda>b. Inr (a = b)))))"

section \<open>Receipt selection\<close>

text \<open>\<open>sameRunScope\<close> compares the five fields; \<open>receiptMatches\<close> ignores an absent byte length.\<close>

definition same_run_scope :: "run_scope \<Rightarrow> run_scope \<Rightarrow> bool" where
  "same_run_scope a b \<longleftrightarrow> rsc_customerId a = rsc_customerId b \<and> rsc_workspaceId a = rsc_workspaceId b \<and>
     rsc_storageBindingId a = rsc_storageBindingId b \<and> rsc_bindingGeneration a = rsc_bindingGeneration b \<and> rsc_runId a = rsc_runId b"

definition receipt_matches :: "upload_receipt \<Rightarrow> run_scope \<Rightarrow> id \<Rightarrow> string \<Rightarrow> int option \<Rightarrow> string \<Rightarrow> bool" where
  "receipt_matches u sc sid path len sha \<longleftrightarrow> same_run_scope (ur_scope u) sc \<and> ur_submissionId u = sid \<and> ur_path u = path \<and>
     ur_sha256 u = sha \<and> (len = None \<or> len = Some (ur_byteLength u))"

definition select_one :: "catalog \<Rightarrow> run_scope \<Rightarrow> id \<Rightarrow> manifest_entry list \<Rightarrow> receipt_selection \<Rightarrow> string list \<Rightarrow> failure + string list" where
  "select_one s sc sid files q seen =
     sbind (fail_unless (rs_path q \<notin> set seen) RECEIPT_MISMATCH) (\<lambda>_.
     sbind (fail_unless (case (find (\<lambda>e. me_path e = rs_path q) files, get_receipt s sc sid (rs_receiptId q)) of
         (Some (FileEntry p n h), Some u) \<Rightarrow> receipt_matches u sc sid p (Some n) h
       | _ \<Rightarrow> False) RECEIPT_MISMATCH) (\<lambda>_.
     Inr (rs_path q # seen)))"

definition validate_receipt_selection :: "platform \<Rightarrow> catalog \<Rightarrow> run_scope \<Rightarrow> id \<Rightarrow> json \<Rightarrow> receipt_selection list \<Rightarrow> limits_override \<Rightarrow> failure + manifest" where
  "validate_receipt_selection P s sc sid input sel ov =
     sbind (canonicalize_manifest P ov input) (\<lambda>mf.
     let files = filter is_file (mf_entries mf) in
     sbind (fail_unless (length sel = length files) RECEIPT_MISMATCH) (\<lambda>_.
     sbind (each (select_one s sc sid files) sel []) (\<lambda>_. Inr mf)))"

section \<open>The catalog advances\<close>

lemma submission_at_eq:
  "submission_at s sc i = Inr m \<longleftrightarrow> tbl_load (c_submission s) i (Some (of_rs sc)) = Some m \<and> sm_scope m = sc"
  by (auto simp: submission_at_def get_submission_def found_def split: option.splits)

lemma writable_submission_eq:
  "writable_submission s sc i v now = Inr m \<longleftrightarrow>
     submission_at s sc i = Inr m \<and> sm_state m = Uploading \<and> now < sm_expiresAt m \<and> sm_version m = v"
  by (auto simp: writable_submission_def txn_simps)

lemma post_submission_at [post_simps]: "post (submission_at s sc i) Q \<longleftrightarrow> (\<forall>m. submission_at s sc i = Inr m \<longrightarrow> Q m)"
  by (simp add: post_def)

lemma post_writable_submission [post_simps]:
  "post (writable_submission s sc i v now) Q \<longleftrightarrow> (\<forall>m. writable_submission s sc i v now = Inr m \<longrightarrow> Q m)"
  by (simp add: post_def)

lemma submission_at_own:
  "submission_at s sc i = Inr m \<Longrightarrow> consistent s \<Longrightarrow>
   tbl_load (c_submission s) i None = Some m \<and> submission_ok (of_ws (rs_workspace sc)) i m \<and> sm_id m = i \<and> sm_scope m = sc"
  by (auto simp: submission_at_eq dest!: own_row)

lemma writable_submission_own:
  "writable_submission s sc i v now = Inr m \<Longrightarrow> consistent s \<Longrightarrow>
   tbl_load (c_submission s) i None = Some m \<and> submission_ok (of_ws (rs_workspace sc)) i m \<and> sm_id m = i \<and> sm_scope m = sc \<and>
   sm_state m = Uploading \<and> now < sm_expiresAt m \<and> sm_version m = v"
  by (auto simp: writable_submission_eq dest!: submission_at_own)

lemma collection_at_own:
  "collection_at s pm now = Inr x \<Longrightarrow> consistent s \<Longrightarrow>
   tbl_load (c_submission_collection s) (sp_submissionId pm) None = Some x \<and> sc_permit x = pm \<and> submission_permit_valid s pm now"
  by (auto simp: collection_at_def txn_simps submission_permit_valid_def split: option.splits dest!: own_row)

lemma post_collection_at [post_simps]: "post (collection_at s pm now) Q \<longleftrightarrow> (\<forall>x. collection_at s pm now = Inr x \<longrightarrow> Q x)"
  by (simp add: post_def)

lemma submission_moves [simp]:
  "sm_id (expired_submission m) = sm_id m" "sm_scope (expired_submission m) = sm_scope m"
  "sm_version (expired_submission m) = sm_version m + 1" "sm_state (expired_submission m) = SubmissionExpired"
  "sm_id (sealed_submission mf i m) = sm_id m" "sm_scope (sealed_submission mf i m) = sm_scope m"
  "sm_id (new_submission k) = ns_submissionId k" "sm_scope (new_submission k) = ns_scope k"
  by (simp_all add: expired_submission_def sealed_submission_def new_submission_def)

lemma submission_ok_moves [simp]:
  "submission_ok sc i (new_submission k) \<longleftrightarrow> ns_submissionId k = i \<and> sc = of_ws (rs_workspace (ns_scope k))"
  "submission_ok sc i m \<Longrightarrow> submission_ok sc i (expired_submission m)"
  "submission_ok sc i m \<Longrightarrow> submission_ok sc i (sealed_submission mf j m)"
  "submission_ok sc i m \<Longrightarrow> submission_ok sc i (m\<lparr>sm_version := v\<rparr>)"
  by (auto simp: submission_ok_def new_submission_def expired_submission_def sealed_submission_def)

lemma sm_next_moves [simp]:
  "sm_next m (expired_submission m) \<longleftrightarrow> sm_state m \<noteq> SubmissionExpired"
  "sm_next m (sealed_submission mf i m) \<longleftrightarrow> sm_state m = Uploading"
  "sm_next m (m\<lparr>sm_version := sm_version m + 1\<rparr>) \<longleftrightarrow> sm_state m = Uploading"
  by (cases "sm_state m"; simp add: sm_next_def expired_submission_def sealed_submission_def)+

lemma create_submission_advances:
  "consistent s \<Longrightarrow> post (create_submission i s) (\<lambda>(r, s'). advances (wsc_customerId (rs_workspace (ns_scope i))) s s')"
  apply (simp add: create_submission_def Let_def split_beta post_simps advancing)
  apply (auto intro!: advance simp: post_simps advancing dest!: owned)
  done

lemma register_upload_receipt_advances:
  "consistent s \<Longrightarrow> post (register_upload_receipt P i s) (\<lambda>(r, s'). advances (wsc_customerId (rs_workspace (ni_scope i))) s s')"
  apply (simp add: register_upload_receipt_def Let_def split_beta post_simps advancing)
  apply (auto intro!: advance postI [of "canonicalize_manifest _ _ _"] simp: post_simps advancing receipt_ok_def dest!: owned writable_submission_own)
  done

lemma seal_submission_advances:
  "consistent s \<Longrightarrow> post (seal_submission P i s) (\<lambda>(r, s'). advances (wsc_customerId (rs_workspace (sl_scope i))) s s')"
  apply (simp add: seal_submission_def Let_def split_beta post_simps advancing)
  apply (auto intro!: advance postI [of "canonicalize_manifest _ _ _"] postI [of "manifest_digest _ _ _"]
      simp: post_simps advancing dest!: owned writable_submission_own)
  done

lemma expire_submission_advances:
  "consistent s \<Longrightarrow> post (expire_submission i s) (\<lambda>(r, s'). advances (wsc_customerId (rs_workspace (xs_scope i))) s s')"
  apply (simp add: expire_submission_def Let_def split_beta post_simps advancing)
  apply (auto intro!: advance simp: post_simps advancing dest!: submission_at_own)
  done

lemma begin_submission_write_advances:
  "consistent s \<Longrightarrow> post (begin_submission_write P i s) (\<lambda>(r, s'). advances (wsc_customerId (rs_workspace (bw_scope i))) s s')"
  apply (simp add: begin_submission_write_def Let_def split_beta post_simps advancing)
  apply (auto intro!: advance postI [of "digest_of _ _"] simp: post_simps advancing submission_writer_ok_def)
  done

lemma finish_submission_write_advances:
  "consistent s \<Longrightarrow> post (finish_submission_write i s) (\<lambda>(r, s'). advances (wsc_customerId (rs_workspace (fw_scope i))) s s')"
  apply (simp add: finish_submission_write_def Let_def split_beta post_simps advancing)
  apply (auto intro!: advance simp: post_simps advancing submission_writer_ok_def sw_next_def dest!: own_row intro: writer_state.exhaust)
  done

lemma post_expire_if_open [post_simps]:
  "post (expire_if_open m s) Q \<longleftrightarrow> (if sm_state m = SubmissionExpired then Q (m, s)
     else writable (c_submission s) (sm_id m) (of_rs (sm_scope m)) False \<longrightarrow>
       Q (expired_submission m, s\<lparr>c_submission := put_row (sm_id m) (mk_row (of_rs (sm_scope m)) (Some (rsc_runId (sm_scope m))) (expired_submission m)) (c_submission s)\<rparr>))"
  by (simp add: expire_if_open_def post_simps)

lemma next_fence_pos: "next_fence (Some x) = sp_collectionFence (sc_permit x) + 1"
  by (simp add: next_fence_def)

lemma claim_submission_collection_advances:
  "consistent s \<Longrightarrow> post (claim_submission_collection i s) (\<lambda>(r, s'). advances (wsc_customerId (rs_workspace (cu_scope i))) s s')"
  apply (simp add: claim_submission_collection_def Let_def split_beta post_simps advancing)
  apply (auto intro!: advance simp: post_simps advancing submission_collection_ok_def sc_next_def next_fence_pos writable_found dest!: submission_at_own own_row(11) split: option.splits)
  done

lemma complete_submission_collection_advances:
  "consistent s \<Longrightarrow> post (complete_submission_collection pm now s) (advances (wsc_customerId (rs_workspace (sp_scope pm))) s)"
  apply (simp add: complete_submission_collection_def save_collection_def Let_def split_beta post_simps advancing)
  apply (auto intro!: advance simp: post_simps advancing submission_collection_ok_def sc_next_def dest!: collection_at_own)
  done

lemma record_submission_progress_advances:
  "consistent s \<Longrightarrow> post (record_submission_progress pm a now s) (advances (wsc_customerId (rs_workspace (sp_scope pm))) s)"
  apply (simp add: record_submission_progress_def save_collection_def Let_def split_beta post_simps advancing)
  apply (auto intro!: advance simp: post_simps advancing submission_collection_ok_def sc_next_def dest!: collection_at_own split: list.splits)
  done

end
