(* ===== verification/Cv_Collection.thy ===== *)
theory Cv_Collection
  imports Cv_Submissions
begin

text \<open>
  Candidate ownership and garbage collection of \<open>sqlite-control-store.ts\<close>. A candidate (an unpublished
  prepared revision) is retained while catalog history, a run, an operation, a bundle, a writer or a
  migration may still need its bytes; otherwise a collector claims it. A collection mark is permanent:
  \<open>match_candidate\<close> refuses a marked candidate. Writers record the storage writes in flight.
\<close>

section \<open>Who retains a candidate\<close>

text \<open>Restores and exports of other workspaces pin an accepted source revision.\<close>

definition pins_revision :: "candidate_identity \<Rightarrow> revision \<Rightarrow> bool" where
  "pins_revision c v \<longleftrightarrow> rv_id v = cd_revisionId c \<and> bsc_customerId (rv_scope v) = bsc_customerId (cd_scope c) \<and>
     bsc_workspaceId (rv_scope v) = bsc_workspaceId (cd_scope c) \<and> bsc_storageBindingId (rv_scope v) = bsc_storageBindingId (cd_scope c)"

definition restore_pins :: "candidate_identity \<Rightarrow> operation \<Rightarrow> bool" where
  "restore_pins c o' \<longleftrightarrow> op_kind o' = KRestore \<and> (op_state o' = OpPending \<or> op_state o' = OpProcessing) \<and>
     (case op_intent o' of RestoreOpIntent i \<Rightarrow> (case ri_source i of FromRevision src \<Rightarrow> pins_revision c (so_revision src) | FromBundle _ \<Rightarrow> False)
      | _ \<Rightarrow> False)"

definition export_pins :: "candidate_identity \<Rightarrow> bundle_record \<Rightarrow> bool" where
  "export_pins c b \<longleftrightarrow> bu_kind b = ExportBundle \<and> bu_state b = BundlePreparing \<and>
     (case bu_source b of None \<Rightarrow> False | Some v \<Rightarrow> pins_revision c v)"

definition same_reference :: "candidate_record \<Rightarrow> private_locator \<Rightarrow> bool" where
  "same_reference c l = (case cr_prepared c of None \<Rightarrow> False | Some p \<Rightarrow> pp_privateReference p = l)"

definition history_retains :: "catalog \<Rightarrow> candidate_record \<Rightarrow> bool" where
  "history_retains s c = list_ex (\<lambda>v. rv_id v = cd_revisionId (cr_identity c) \<or> same_reference c (rv_privateReference v))
     (tbl_all (c_revision s) (Some (of_bs (cd_scope (cr_identity c)))))"

definition run_retains :: "catalog \<Rightarrow> candidate_record \<Rightarrow> bool" where
  "run_retains s c = list_ex (\<lambda>r. (rn_state r = Active \<or> rn_state r = Finalizing) \<and> rn_baseRevisionId r = cd_revisionId (cr_identity c))
     (tbl_all (c_run s) (Some (of_bs (cd_scope (cr_identity c)))))"

definition operation_retains :: "catalog \<Rightarrow> candidate_record \<Rightarrow> bool" where
  "operation_retains s c = (case tbl_load (c_operation s) (cd_operationId (cr_identity c)) (Some (of_bs (cd_scope (cr_identity c)))) of
     None \<Rightarrow> False
   | Some o' \<Rightarrow> op_state o' = OpPending \<or> op_state o' = OpProcessing)"

definition candidate_writing :: "catalog \<Rightarrow> candidate_record \<Rightarrow> bool" where
  "candidate_writing s c = list_ex (\<lambda>w. cd_candidateId (cw_identity w) = cd_candidateId (cr_identity c) \<and> cw_state w = WriterActive)
     (tbl_all (c_candidate_writer s) (Some (of_bs (cd_scope (cr_identity c)))))"

definition migration_retains :: "catalog \<Rightarrow> candidate_record \<Rightarrow> migration \<Rightarrow> bool" where
  "migration_retains s c m =
     (let sc = cd_scope (cr_identity c) in
      list_ex (\<lambda>k. pp_candidateId (vc_target k) = cd_candidateId (cr_identity c)) (mg_copies m) \<or>
      (case tbl_load (c_guards s) (mg_id m) (Some (of_bs sc)) of
         None \<Rightarrow> mg_sourceBindingId m = bsc_storageBindingId sc
       | Some g \<Rightarrow> list_ex (\<lambda>q. sr_scope q = sc \<and> same_reference c (sr_privateReference q)) (gd_sourceReferences g)))"

definition collectable :: "catalog \<Rightarrow> candidate_record \<Rightarrow> bool" where
  "collectable s c \<longleftrightarrow> \<not> history_retains s c \<and> \<not> run_retains s c \<and> \<not> operation_retains s c \<and>
     \<not> list_ex (restore_pins (cr_identity c)) (tbl_all (c_operation s) None) \<and>
     \<not> list_ex (export_pins (cr_identity c)) (tbl_all (c_bundle s) None) \<and>
     \<not> candidate_writing s c \<and>
     \<not> list_ex (migration_retains s c) (tbl_all (c_migration s) (Some (of_bs (cd_scope (cr_identity c)))))"

section \<open>Collection of candidates\<close>

text \<open>The binding of a candidate whose binding row does not exist yet is its operation's draft.\<close>

definition draft_binding :: "catalog \<Rightarrow> candidate_identity \<Rightarrow> storage_binding option" where
  "draft_binding s c = (let sc = Some (of_bs (cd_scope c)); b = bsc_storageBindingId (cd_scope c) in
     case tbl_load (c_operation s) (cd_operationId c) sc of
       None \<Rightarrow> None
     | Some o' \<Rightarrow>
         if op_kind o' = KWorkspaceCreate then
           (case op_intent o' of CreateIntent i \<Rightarrow> if wi_candidateIdentity i = c then Some (wi_binding i) else None | _ \<Rightarrow> None)
         else if op_kind o' = KStorageMigrate then
           (case find (\<lambda>m. cm_operationId (mg_command m) = op_id o' \<and> sb_id (mg_targetBinding m) = b) (tbl_all (c_migration s) sc) of
              Some m \<Rightarrow> Some (mg_targetBinding m)
            | None \<Rightarrow> map_option ad_binding
                (find (\<lambda>a. cm_operationId (ad_command a) = op_id o' \<and> sb_id (ad_binding a) = b) (tbl_all (c_adoption s) sc)))
         else None)"

definition collection_binding :: "catalog \<Rightarrow> candidate_identity \<Rightarrow> storage_binding option" where
  "collection_binding s c = (case tbl_load (c_binding s) (bsc_storageBindingId (cd_scope c)) (Some (of_bs (cd_scope c))) of
     Some b \<Rightarrow> Some b
   | None \<Rightarrow> draft_binding s c)"

definition collection_target :: "catalog \<Rightarrow> candidate_record \<Rightarrow> candidate_target" where
  "collection_target s c = CandidateTarget (cr_identity c) (cr_prepared c) (collection_binding s (cr_identity c)) (cr_collection c)"

datatype claim_candidate_input = ClaimCandidate (kc_scope: binding_scope) (kc_candidateId: id) (kc_expiresAt: timestamp) (kc_now: timestamp)

definition permit_target_of :: "candidate_record \<Rightarrow> storage_binding option \<Rightarrow> failure + permit_target" where
  "permit_target_of c b = (case cr_prepared c of
     Some p \<Rightarrow> Inr (PreparedTarget (pp_privateReference p))
   | None \<Rightarrow> sbind (found b (Fail STORAGE_UNAVAILABLE)) (\<lambda>k. Inr (PartialTarget (cr_identity c) (pl_storeId (sb_location k)))))"

definition claim_candidate_collection :: "claim_candidate_input \<Rightarrow> catalog \<Rightarrow> failure + (collection_permit \<times> catalog)" where
  "claim_candidate_collection i s =
     sbind (load_or (c_candidate s) (kc_candidateId i) (of_bs (kc_scope i)) REVISION_NOT_FOUND) (\<lambda>c.
     sbind (fail_unless (cd_scope (cr_identity c) = kc_scope i) REVISION_NOT_FOUND) (\<lambda>_.
     sbind (fail_unless (case cr_collection c of None \<Rightarrow> True | Some q \<Rightarrow> cq_expiresAt q \<le> kc_now i) STALE_FENCE) (\<lambda>_.
     sbind (fail_unless (collectable s c) FORBIDDEN) (\<lambda>_.
     sbind (fail_unless (kc_now i < kc_expiresAt i) INVALID_REQUEST) (\<lambda>_.
     sbind (permit_target_of c (collection_binding s (cr_identity c))) (\<lambda>tg.
     let pm = CollectionPermit (kc_scope i) (kc_candidateId i)
                ((case cr_collection c of None \<Rightarrow> 0 | Some q \<Rightarrow> cq_collectionFence q) + 1) (kc_expiresAt i) tg in
     sbind (write_candidate (kc_candidateId i) (of_bs (kc_scope i)) (c\<lparr>cr_collection := Some pm\<rparr>) False None s) (\<lambda>s1.
     Inr (pm, s1))))))))"

definition permit_fits :: "candidate_record \<Rightarrow> permit_target \<Rightarrow> bool" where
  "permit_fits c t = (case t of
     PartialTarget ident _ \<Rightarrow> cr_prepared c = None \<and> cr_identity c = ident
   | PreparedTarget l \<Rightarrow> same_reference c l)"

definition verify_collection_permit :: "catalog \<Rightarrow> collection_permit \<Rightarrow> timestamp \<Rightarrow> bool" where
  "verify_collection_permit s pm now = (case tbl_load (c_candidate s) (cq_candidateId pm) (Some (of_bs (cq_scope pm))) of
     None \<Rightarrow> False
   | Some c \<Rightarrow> now < cq_expiresAt pm \<and> cd_scope (cr_identity c) = cq_scope pm \<and> cr_collection c = Some pm \<and>
       collectable s c \<and> permit_fits c (cq_target pm))"

definition complete_candidate_collection :: "collection_permit \<Rightarrow> timestamp \<Rightarrow> catalog \<Rightarrow> failure + catalog" where
  "complete_candidate_collection pm now s =
     sbind (load_or (c_candidate s) (cq_candidateId pm) (of_bs (cq_scope pm)) STALE_FENCE) (\<lambda>c.
     sbind (fail_unless (cr_collection c = Some pm \<and> now < cq_expiresAt pm \<and> collectable s c) STALE_FENCE) (\<lambda>_.
     write_candidate (cq_candidateId pm) (of_bs (cq_scope pm)) (c\<lparr>cr_collectedAt := Some now\<rparr>) False None s))"

definition list_candidate_collection_targets :: "catalog \<Rightarrow> int \<Rightarrow> string option \<Rightarrow> failure + (candidate_target list \<times> string option)" where
  "list_candidate_collection_targets s limit cursor = sbind (check_limit limit) (\<lambda>_.
     let rows = take (nat limit + 1) (filter (\<lambda>(i, q). cursor_of cursor < i \<and> cr_collectedAt (row_data q) = None) (c_candidate s));
         more = length rows > nat limit;
         kept = (if more then butlast rows else rows)
     in Inr (map (collection_target s) (filter (collectable s) (map (row_data \<circ> snd) kept)),
             if more then Some (fst (last kept)) else None))"

section \<open>Writers of candidates\<close>

datatype begin_candidate_input = BeginCandidate (bd_identity: candidate_identity) (bd_ownerId: string) (bd_writerId: id) (bd_now: timestamp)

definition backup_missing :: "catalog \<Rightarrow> scope \<Rightarrow> operation \<Rightarrow> bool" where
  "backup_missing s sc o' \<longleftrightarrow> op_kind o' = KStorageMigrate \<and>
     (case find (\<lambda>a. cm_operationId (ad_command a) = op_id o') (tbl_all (c_adoption s) (Some sc)) of
        None \<Rightarrow> False
      | Some a \<Rightarrow> mb_state (ad_backup a) \<noteq> BackupReady)"

definition begin_candidate_write :: "begin_candidate_input \<Rightarrow> catalog \<Rightarrow> failure + (candidate_writer \<times> catalog)" where
  "begin_candidate_write i s =
     (let ident = bd_identity i; sc = of_bs (cd_scope ident) in
      sbind (load_or (c_candidate s) (cd_candidateId ident) sc REVISION_CONFLICT) (\<lambda>c.
      sbind (fail_unless (cr_identity c = ident) REVISION_CONFLICT) (\<lambda>_.
      sbind (fail_unless (cr_collection c = None) REVISION_CONFLICT) (\<lambda>_.
      sbind (load_or (c_operation s) (cd_operationId ident) sc STALE_FENCE) (\<lambda>o'.
      sbind (fail_unless (op_state o' = OpProcessing) STALE_FENCE) (\<lambda>_.
      sbind (found (op_claim o') (Fail STALE_FENCE)) (\<lambda>k.
      sbind (fail_unless (pc_ownerId k = bd_ownerId i \<and> bd_now i < pc_expiresAt k) STALE_FENCE) (\<lambda>_.
      sbind (fail_unless (\<not> backup_missing s sc o') INVALID_TRANSITION) (\<lambda>_.
      sbind (fail_unless (bd_writerId i \<noteq> [] \<and> js_length (bd_writerId i) \<le> 255) INVALID_REQUEST) (\<lambda>_.
      let w = \<lparr>cw_id = bd_writerId i, cw_identity = ident, cw_ownerId = bd_ownerId i, cw_processingFence = pc_fence k,
               cw_state = WriterActive, cw_startedAt = bd_now i, cw_finishedAt = None\<rparr> in
      sbind (write_candidate_writer (cw_id w) sc w True (op_runId o') s) (\<lambda>s1.
      Inr (w, s1))))))))))))"

datatype finish_candidate_input = FinishCandidate (fd_identity: candidate_identity) (fd_writerId: id) (fd_now: timestamp)

definition run_of_operation :: "catalog \<Rightarrow> id \<Rightarrow> scope \<Rightarrow> id option" where
  "run_of_operation s i sc = (case tbl_load (c_operation s) i (Some sc) of None \<Rightarrow> None | Some o' \<Rightarrow> op_runId o')"

definition finish_candidate_write :: "finish_candidate_input \<Rightarrow> catalog \<Rightarrow> failure + (candidate_writer \<times> catalog)" where
  "finish_candidate_write i s =
     (let ident = fd_identity i; sc = of_bs (cd_scope ident) in
      sbind (load_or (c_candidate_writer s) (fd_writerId i) sc FORBIDDEN) (\<lambda>w.
      sbind (fail_unless (cw_identity w = ident) FORBIDDEN) (\<lambda>_.
      if cw_state w = WriterFinished then Inr (w, s)
      else (let w1 = w\<lparr>cw_state := WriterFinished, cw_finishedAt := Some (fd_now i)\<rparr> in
        sbind (write_candidate_writer (cw_id w1) sc w1 False (run_of_operation s (cd_operationId ident) sc) s) (\<lambda>s1.
        Inr (w1, s1))))))"

definition are_candidate_writers_stopped :: "catalog \<Rightarrow> candidate_identity \<Rightarrow> string \<Rightarrow> bool" where
  "are_candidate_writers_stopped s ident owner =
     (let sc = of_bs (cd_scope ident) in
      case tbl_load (c_candidate s) (cd_candidateId ident) (Some sc) of
        None \<Rightarrow> False
      | Some c \<Rightarrow>
          if cr_identity c \<noteq> ident then False
          else (let ws = filter (\<lambda>w. cd_candidateId (cw_identity w) = cd_candidateId ident) (tbl_all (c_candidate_writer s) (Some sc)) in
            if list_ex (\<lambda>w. cw_state w \<noteq> WriterFinished \<or> cw_identity w \<noteq> ident) ws then False
            else if ws \<noteq> [] then True
            else (case tbl_load (c_operation s) (cd_operationId ident) (Some sc) of
                None \<Rightarrow> False
              | Some o' \<Rightarrow> (op_state o' = OpSucceeded \<or> op_state o' = OpFailed) \<and> map_option pc_ownerId (op_claim o') = Some owner)))"

section \<open>The catalog advances\<close>

lemma post_permit_target_of [post_simps]:
  "post (permit_target_of c b) Q \<longleftrightarrow> (\<forall>t. permit_target_of c b = Inr t \<longrightarrow> Q t)"
  by (simp add: post_def)

lemma claim_candidate_collection_advances:
  "consistent s \<Longrightarrow> post (claim_candidate_collection i s) (\<lambda>(r, s'). advances (wsc_customerId (bs_workspace (kc_scope i))) s s')"
  apply (simp add: claim_candidate_collection_def Let_def split_beta post_simps advancing)
  apply (auto intro!: advance simp: post_simps advancing cr_next_def dest!: own_row split: option.splits)
  done

lemma complete_candidate_collection_advances:
  "consistent s \<Longrightarrow> post (complete_candidate_collection pm now s) (advances (wsc_customerId (bs_workspace (cq_scope pm))) s)"
  apply (simp add: complete_candidate_collection_def Let_def split_beta post_simps advancing)
  apply (auto intro!: advance simp: post_simps advancing cr_next_def dest!: own_row)
  done

lemma begin_candidate_write_advances:
  "consistent s \<Longrightarrow> post (begin_candidate_write i s) (\<lambda>(r, s'). advances (wsc_customerId (bs_workspace (cd_scope (bd_identity i)))) s s')"
  apply (simp add: begin_candidate_write_def Let_def split_beta post_simps advancing)
  apply (auto intro!: advance simp: post_simps advancing candidate_writer_ok_def)
  done

lemma finish_candidate_write_advances:
  "consistent s \<Longrightarrow> post (finish_candidate_write i s) (\<lambda>(r, s'). advances (wsc_customerId (bs_workspace (cd_scope (fd_identity i)))) s s')"
  apply (simp add: finish_candidate_write_def Let_def split_beta post_simps advancing)
  apply (auto intro!: advance simp: post_simps advancing candidate_writer_ok_def cw_next_def dest!: own_row intro: writer_state.exhaust)
  done

end
