(* ===== verification/Cv_Cleanup.thy ===== *)
theory Cv_Cleanup
  imports Cv_Collection
begin

text \<open>
  Cleanup records of \<open>sqlite-control-store.ts\<close>: a terminal run, a failed creation and a deleted
  workspace leave a cleanup record that a worker claims under a fence, completes, fails or releases.
  Its targets are the uncollected candidates and submissions it owns. \<open>next_collection_work\<close> scans
  cleanups, candidates and submissions in turn, with one persistent cursor per lane.
\<close>

section \<open>Claims\<close>

definition get_cleanup :: "catalog \<Rightarrow> workspace_scope \<Rightarrow> id \<Rightarrow> cleanup option" where
  "get_cleanup s sc i = tbl_load (c_cleanup s) i (Some (of_ws sc))"

definition claim_lapsed :: "processing_claim option \<Rightarrow> timestamp \<Rightarrow> bool" where
  "claim_lapsed c now = (case c of None \<Rightarrow> True | Some k \<Rightarrow> pc_expiresAt k \<le> now)"

definition claim_held :: "processing_claim option \<Rightarrow> int \<Rightarrow> timestamp \<Rightarrow> bool" where
  "claim_held c fence now = (case c of None \<Rightarrow> False | Some k \<Rightarrow> pc_fence k = fence \<and> now < pc_expiresAt k)"

definition advanced_claim :: "processing_claim option \<Rightarrow> string \<Rightarrow> timestamp \<Rightarrow> processing_claim" where
  "advanced_claim c owner expires = ProcessingClaim owner ((case c of None \<Rightarrow> 0 | Some k \<Rightarrow> pc_fence k) + 1) expires"

definition end_claim :: "timestamp \<Rightarrow> processing_claim option \<Rightarrow> processing_claim option" where
  "end_claim now c = map_option (\<lambda>k. ProcessingClaim (pc_ownerId k) (pc_fence k) now) c"

definition cleanup_due :: "timestamp \<Rightarrow> cleanup \<Rightarrow> bool" where
  "cleanup_due now c \<longleftrightarrow> cl_state c \<noteq> CleanupComplete \<and> cl_nextAttemptAt c \<le> now \<and> claim_lapsed (cl_claim c) now"

definition list_due_cleanup :: "catalog \<Rightarrow> timestamp \<Rightarrow> int \<Rightarrow> failure + cleanup list" where
  "list_due_cleanup s now limit = sbind (check_limit limit) (\<lambda>_.
     Inr (take (nat limit) (filter (cleanup_due now) (tbl_all (c_cleanup s) None))))"

datatype claim_cleanup_input = ClaimCleanup (ku_scope: workspace_scope) (ku_cleanupId: id) (ku_expectedVersion: int)
  (ku_ownerId: string) (ku_now: timestamp) (ku_expiresAt: timestamp)

definition running_cleanup :: "processing_claim \<Rightarrow> cleanup \<Rightarrow> cleanup" where
  "running_cleanup k c = c\<lparr>cl_claim := Some k, cl_state := CleanupRunning, cl_version := cl_version c + 1, cl_attempts := cl_attempts c + 1\<rparr>"

definition claim_cleanup :: "claim_cleanup_input \<Rightarrow> catalog \<Rightarrow> failure + (cleanup \<times> catalog)" where
  "claim_cleanup i s =
     sbind (load_or (c_cleanup s) (ku_cleanupId i) (of_ws (ku_scope i)) OPERATION_NOT_FOUND) (\<lambda>c.
     sbind (fail_unless (cl_version c = ku_expectedVersion i) VERSION_CONFLICT) (\<lambda>_.
     sbind (fail_unless (cleanup_due (ku_now i) c) STALE_FENCE) (\<lambda>_.
     let k = advanced_claim (cl_claim c) (ku_ownerId i) (ku_expiresAt i) in
     sbind (valid_claim k (ku_now i)) (\<lambda>_.
     let c1 = running_cleanup k c in
     sbind (write_cleanup (cl_id c1) (of_ws (ku_scope i)) c1 False (cl_runId c1) s) (\<lambda>s1.
     Inr (c1, s1))))))"

datatype complete_cleanup_input = CompleteCleanup (mu_scope: workspace_scope) (mu_cleanupId: id) (mu_expectedVersion: int)
  (mu_fence: int) (mu_error: "string option") (mu_nextAttemptAt: timestamp) (mu_targetCursor: "string option option") (mu_now: timestamp)

definition cleanup_claimed :: "cleanup \<Rightarrow> int \<Rightarrow> timestamp \<Rightarrow> int \<Rightarrow> failure + unit" where
  "cleanup_claimed c fence now version =
     sbind (fail_unless (claim_held (cl_claim c) fence now \<and> cl_state c = CleanupRunning) STALE_FENCE) (\<lambda>_.
     fail_unless (cl_version c = version) VERSION_CONFLICT)"

definition set_cursor :: "string option option \<Rightarrow> cleanup \<Rightarrow> cleanup" where
  "set_cursor t c = (if t = None then c else c\<lparr>cl_targetCursor := t\<rparr>)"

definition finished_cleanup :: "complete_cleanup_input \<Rightarrow> cleanup \<Rightarrow> cleanup" where
  "finished_cleanup i c = (set_cursor (mu_targetCursor i) c)\<lparr>cl_state := if mu_error i = None then CleanupComplete else CleanupFailed,
     cl_lastError := mu_error i, cl_nextAttemptAt := mu_nextAttemptAt i,
     cl_claim := if mu_error i = None then cl_claim c else end_claim (mu_now i) (cl_claim c), cl_version := cl_version c + 1\<rparr>"

definition complete_cleanup :: "complete_cleanup_input \<Rightarrow> catalog \<Rightarrow> failure + (cleanup \<times> catalog)" where
  "complete_cleanup i s =
     sbind (load_or (c_cleanup s) (mu_cleanupId i) (of_ws (mu_scope i)) OPERATION_NOT_FOUND) (\<lambda>c.
     sbind (cleanup_claimed c (mu_fence i) (mu_now i) (mu_expectedVersion i)) (\<lambda>_.
     let c1 = finished_cleanup i c in
     sbind (write_cleanup (cl_id c1) (of_ws (mu_scope i)) c1 False (cl_runId c1) s) (\<lambda>s1.
     Inr (c1, s1))))"

datatype release_cleanup_input = ReleaseCleanup (lu_scope: workspace_scope) (lu_cleanupId: id) (lu_expectedVersion: int)
  (lu_fence: int) (lu_nextAttemptAt: timestamp) (lu_targetCursor: "string option option") (lu_now: timestamp)

definition released_cleanup :: "release_cleanup_input \<Rightarrow> cleanup \<Rightarrow> cleanup" where
  "released_cleanup i c = (set_cursor (lu_targetCursor i) c)\<lparr>cl_state := CleanupPending, cl_lastError := None,
     cl_claim := end_claim (lu_now i) (cl_claim c), cl_nextAttemptAt := lu_nextAttemptAt i, cl_version := cl_version c + 1\<rparr>"

definition release_cleanup_claim :: "release_cleanup_input \<Rightarrow> catalog \<Rightarrow> failure + (cleanup \<times> catalog)" where
  "release_cleanup_claim i s =
     sbind (load_or (c_cleanup s) (lu_cleanupId i) (of_ws (lu_scope i)) OPERATION_NOT_FOUND) (\<lambda>c.
     sbind (cleanup_claimed c (lu_fence i) (lu_now i) (lu_expectedVersion i)) (\<lambda>_.
     sbind (fail_unless (lu_now i \<le> lu_nextAttemptAt i) INVALID_REQUEST) (\<lambda>_.
     let c1 = released_cleanup i c in
     sbind (write_cleanup (cl_id c1) (of_ws (cl_scope c1)) c1 False (cl_runId c1) s) (\<lambda>s1.
     Inr (c1, s1)))))"

section \<open>Targets\<close>

datatype cleanup_targets = CleanupTargets (ctt_candidates: "candidate_target list") (ctt_submissions: "submission_target list")
  (ctt_nextCursor: "string option")

datatype target_row = CandidateRow string candidate_record | SubmissionRow string submission

primrec row_cursor :: "target_row \<Rightarrow> string" where
  "row_cursor (CandidateRow c _) = c"
| "row_cursor (SubmissionRow c _) = c"

definition owned_by_cleanup :: "catalog \<Rightarrow> scope \<Rightarrow> id option \<Rightarrow> id option \<Rightarrow> candidate_record \<Rightarrow> bool" where
  "owned_by_cleanup s sc rid owner c = (case map_of (c_operation s) (cd_operationId (cr_identity c)) of
     None \<Rightarrow> False
   | Some q \<Rightarrow> in_scope (Some sc) q \<and>
       (rid \<noteq> None \<and> row_run q = rid \<or> owner = Some (cd_operationId (cr_identity c))))"

definition cleanup_candidate_rows :: "catalog \<Rightarrow> scope \<Rightarrow> id option \<Rightarrow> id option \<Rightarrow> string \<Rightarrow> target_row list" where
  "cleanup_candidate_rows s sc rid owner cursor =
     map (\<lambda>(i, q). CandidateRow (''candidate:'' @ i) (row_data q))
       (filter (\<lambda>(i, q). in_scope (Some sc) q \<and> cursor < ''candidate:'' @ i \<and> cr_collectedAt (row_data q) = None \<and>
          owned_by_cleanup s sc rid owner (row_data q) \<and>
          tbl_load (c_revision s) (cd_revisionId (cr_identity (row_data q))) (Some sc) = None) (c_candidate s))"

definition cleanup_submission_rows :: "catalog \<Rightarrow> scope \<Rightarrow> id option \<Rightarrow> string \<Rightarrow> target_row list" where
  "cleanup_submission_rows s sc rid cursor = (if rid = None then [] else
     map (\<lambda>(i, q). SubmissionRow (''submission:'' @ i) (row_data q))
       (filter (\<lambda>(i, q). in_scope (Some sc) q \<and> row_run q = rid \<and> cursor < ''submission:'' @ i \<and> \<not> submission_collected s i)
          (c_submission s)))"

text \<open>Candidate cursors sort before submission cursors, and each table is ordered by id.\<close>

definition get_cleanup_targets :: "catalog \<Rightarrow> workspace_scope \<Rightarrow> id \<Rightarrow> int \<Rightarrow> string \<Rightarrow> failure + cleanup_targets option" where
  "get_cleanup_targets s sc0 i limit cursor =
     (let sc = of_ws sc0 in
      sbind (check_limit limit) (\<lambda>_.
      case tbl_load (c_cleanup s) i (Some sc) of
        None \<Rightarrow> Inr None
      | Some c \<Rightarrow>
          let rid = cl_runId c; owner = (if rid = None then tbl_load (c_cleanup_owner s) i (Some sc) else None) in
          sbind (fail_unless (rid \<noteq> None \<or> owner \<noteq> None) STORAGE_UNAVAILABLE) (\<lambda>_.
          sbind (fail_unless (rid = None \<or> load_optional (c_run s) rid sc \<noteq> None) STORAGE_UNAVAILABLE) (\<lambda>_.
          let page = take (nat limit) (take (nat limit) (cleanup_candidate_rows s sc rid owner cursor) @
                       take (nat limit) (cleanup_submission_rows s sc rid cursor))
          in Inr (Some (CleanupTargets
               (concat (map (\<lambda>r. case r of CandidateRow _ k \<Rightarrow> [collection_target s k] | _ \<Rightarrow> []) page))
               (concat (map (\<lambda>r. case r of SubmissionRow _ m \<Rightarrow> [submission_target_of s m] | _ \<Rightarrow> []) page))
               (if page = [] then None else Some (row_cursor (last page)))))))))"

section \<open>The maintenance scan\<close>

datatype collection_work = CleanupWork cleanup | CandidateWork candidate_target | SubmissionWork submission_target

definition scan_key :: id where "scan_key = ''collection-scan''"

definition after_cursor :: "string \<Rightarrow> (id \<times> 'a row) list \<Rightarrow> ('a \<Rightarrow> bool) \<Rightarrow> (id \<times> 'a) option" where
  "after_cursor cursor t p = map_option (\<lambda>(i, q). (i, row_data q)) (find (\<lambda>(i, q). cursor < i \<and> p (row_data q)) t)"

text \<open>The row after the cursor, or the first row when the cursor has passed the last.\<close>

definition scan_row :: "string \<Rightarrow> (id \<times> 'a row) list \<Rightarrow> ('a \<Rightarrow> bool) \<Rightarrow> (id \<times> 'a) option" where
  "scan_row cursor t p = (case after_cursor cursor t p of
     Some r \<Rightarrow> Some r
   | None \<Rightarrow> if cursor \<noteq> [] then after_cursor [] t p else None)"

definition submission_scan_row :: "catalog \<Rightarrow> string \<Rightarrow> (id \<times> submission) option" where
  "submission_scan_row s cursor = scan_row cursor (filter (\<lambda>(i, _). \<not> submission_collected s i) (c_submission s)) (\<lambda>_. True)"

definition lane_work :: "catalog \<Rightarrow> timestamp \<Rightarrow> nat \<Rightarrow> string \<Rightarrow> (id \<times> collection_work option) option" where
  "lane_work s now lane cursor =
     (if lane = 0 then map_option (\<lambda>(i, c). (i, Some (CleanupWork c))) (scan_row cursor (c_cleanup s) (cleanup_due now))
      else if lane = 1 then map_option (\<lambda>(i, c). (i, if collectable s c then Some (CandidateWork (collection_target s c)) else None))
        (scan_row cursor (c_candidate s) (\<lambda>c. cr_collectedAt c = None))
      else map_option (\<lambda>(i, m). (i, if submission_collectable s m now then Some (SubmissionWork (submission_target_of s m)) else None))
        (submission_scan_row s cursor))"

definition next_collection_work :: "timestamp \<Rightarrow> catalog \<Rightarrow> failure + (collection_work option \<times> catalog)" where
  "next_collection_work now s =
     (let st = (case tbl_load (c_maintenance s) scan_key None of None \<Rightarrow> ScanState 0 [[], [], []] | Some x \<Rightarrow> x);
          lane = sn_lane st;
          row = lane_work s now lane (sn_cursors st ! lane);
          st1 = ScanState ((lane + 1) mod 3) ((sn_cursors st)[lane := (case row of None \<Rightarrow> [] | Some (i, _) \<Rightarrow> i)]) in
      sbind (write_maintenance scan_key (InCustomer []) st1 False None s) (\<lambda>s1.
      Inr (case row of None \<Rightarrow> None | Some (_, w) \<Rightarrow> w, s1)))"

section \<open>The catalog advances\<close>

lemma post_cleanup_claimed [post_simps]:
  "post (cleanup_claimed c f now v) Q \<longleftrightarrow>
     (claim_held (cl_claim c) f now \<and> cl_state c = CleanupRunning \<and> cl_version c = v \<longrightarrow> Q ())"
  by (auto simp: cleanup_claimed_def post_simps)

lemma set_cursor_simps [simp]:
  "cl_id (set_cursor t c) = cl_id c" "cl_scope (set_cursor t c) = cl_scope c" "cl_runId (set_cursor t c) = cl_runId c"
  "cl_attempts (set_cursor t c) = cl_attempts c"
  by (simp_all add: set_cursor_def)

lemma cleanup_moves [simp]:
  "cl_id (running_cleanup k c) = cl_id c" "cl_runId (running_cleanup k c) = cl_runId c" "cl_scope (running_cleanup k c) = cl_scope c"
  "cl_id (finished_cleanup i c) = cl_id c" "cl_runId (finished_cleanup i c) = cl_runId c" "cl_scope (finished_cleanup i c) = cl_scope c"
  "cl_id (released_cleanup j c) = cl_id c" "cl_runId (released_cleanup j c) = cl_runId c" "cl_scope (released_cleanup j c) = cl_scope c"
  "cl_state (running_cleanup k c) = CleanupRunning" "cl_claim (running_cleanup k c) = Some k"
  "cl_state (released_cleanup j c) = CleanupPending"
  "cl_state (finished_cleanup i c) \<noteq> CleanupRunning"
  by (simp_all add: running_cleanup_def finished_cleanup_def released_cleanup_def)

lemma fence_kept_end_claim [simp]: "fence_kept c (end_claim now c)"
  by (auto simp: fence_kept_def end_claim_def)

lemma fence_kept_advanced [simp]: "fence_kept c (Some (advanced_claim c owner expires))"
  by (auto simp: fence_kept_def advanced_claim_def)

lemma cl_next_moves [simp]:
  "cl_next c (running_cleanup (advanced_claim (cl_claim c) owner expires) c) \<longleftrightarrow> cl_state c \<noteq> CleanupComplete"
  "cl_next c (finished_cleanup i c) \<longleftrightarrow> cl_state c = CleanupRunning"
  "cl_next c (released_cleanup j c) \<longleftrightarrow> cl_state c = CleanupRunning"
  by (auto simp: cl_next_def running_cleanup_def finished_cleanup_def released_cleanup_def)

lemma claim_cleanup_advances:
  "consistent s \<Longrightarrow> post (claim_cleanup i s) (\<lambda>(r, s'). advances (wsc_customerId (ku_scope i)) s s')"
  apply (simp add: claim_cleanup_def Let_def split_beta post_simps advancing)
  apply (auto intro!: advance simp: post_simps advancing cleanup_due_def dest!: owned)
  done

lemma complete_cleanup_advances:
  "consistent s \<Longrightarrow> post (complete_cleanup i s) (\<lambda>(r, s'). advances (wsc_customerId (mu_scope i)) s s')"
  apply (simp add: complete_cleanup_def Let_def split_beta post_simps advancing)
  apply (auto intro!: advance simp: post_simps advancing dest!: owned)
  done

lemma release_cleanup_claim_advances:
  "consistent s \<Longrightarrow> post (release_cleanup_claim i s) (\<lambda>(r, s'). advances (wsc_customerId (lu_scope i)) s s')"
  apply (simp add: release_cleanup_claim_def Let_def split_beta post_simps advancing)
  apply (auto intro!: advance simp: post_simps advancing dest!: owned)
  done

text \<open>The scan belongs to no customer: it advances every one of them.\<close>

lemma next_collection_work_advances:
  "consistent s \<Longrightarrow> post (next_collection_work now s) (\<lambda>(r, s'). advances c s s')"
  apply (simp add: next_collection_work_def Let_def split_beta post_simps advancing)
  apply (auto intro!: advance simp: post_simps advancing)
  done

end
