(* ===== verification/Cv_Outbox.thy ===== *)
theory Cv_Outbox
  imports Cv_Cleanup
begin

text \<open>
  The outbox of \<open>sqlite-control-store.ts\<close> and its webhook representations
  (\<open>src/compat/webhook.ts\<close>). The first claim of an event freezes its recipients; a worker delivers
  to the due recipients and records each attempt; the event is complete when every frozen recipient
  has been delivered.
\<close>

section \<open>Webhook representations\<close>

text \<open>\<open>canonicalRepresentation\<close> and \<open>legacyRepresentations\<close> give an event type and a payload.\<close>

type_synonym webhook_representation = "string \<times> json"

definition run_of_event :: "audit_event \<Rightarrow> run \<Rightarrow> bool" where
  "run_of_event e r \<longleftrightarrow> Some (rn_id r) = ev_runId e \<and> bsc_customerId (rn_scope r) = wsc_customerId (ev_scope e) \<and>
     bsc_workspaceId (rn_scope r) = wsc_workspaceId (ev_scope e)"

definition canonical_representation :: "audit_event \<Rightarrow> operation option \<Rightarrow> run option \<Rightarrow> webhook_representation option" where
  "canonical_representation e o' r =
     (case (o', r) of
        (Some p, Some q) \<Rightarrow>
          (case (op_result p, op_error p, rn_outcome q) of
             (Some (ResFinalize Failed _ _), Some err, Some out) \<Rightarrow>
               if ev_type e = ''run.failed'' \<and> op_kind p = KFinalize \<and> op_state p = OpFailed \<and> rn_state q = Failed \<and>
                  run_of_event e q \<and> rn_operationId q = Some (op_id p) \<and> ro_errorCode out = Some (oe_code err)
               then Some (ev_type e, JObj [(''agentId'', JStr (rn_agentLabel q)), (''reason'', JStr (oe_message err))])
               else None
           | _ \<Rightarrow> None)
      | _ \<Rightarrow> None)"

definition truthy :: "string option \<Rightarrow> bool" where
  "truthy x \<longleftrightarrow> x \<noteq> None \<and> x \<noteq> Some []"

definition legacy_representations :: "audit_event \<Rightarrow> operation option \<Rightarrow> run option \<Rightarrow> bool \<Rightarrow> webhook_representation list" where
  "legacy_representations e o' r push =
     (case (o', r) of
        (Some p, Some q) \<Rightarrow>
          (case (op_result p, rn_outcome q) of
             (Some (ResFinalize Finalized vid changed), Some out) \<Rightarrow>
               if ev_type e = ''run.finalized'' \<and> op_kind p = KFinalize \<and> op_state p = OpSucceeded \<and> rn_state q = Finalized \<and>
                  run_of_event e q \<and> rn_operationId q = Some (ev_operationId e) \<and> ro_revisionId out = vid \<and> ro_changed out = changed
               then (''run.completed'', JObj [(''agentId'', JStr (rn_agentLabel q))]) #
                 (case vid of
                    None \<Rightarrow> []
                  | Some v \<Rightarrow> if (changed \<or> push) \<and> v \<noteq> [] then [(''commit.created'', JObj [(''commitId'', JStr v)])] else [])
               else []
           | _ \<Rightarrow> [])
      | _ \<Rightarrow> [])"

definition representation_recipient :: "platform \<Rightarrow> audit_event \<Rightarrow> webhook_representation \<Rightarrow> subscription \<Rightarrow> failure + subscription" where
  "representation_recipient P e rep su =
     sbind (digest_of P (JArr [JStr (ev_id e), JStr (su_id su), JStr (fst rep)])) (\<lambda>d.
     Inr (su\<lparr>su_id := ''representation-'' @ d,
       su_representation := Some (Representation (fst rep) (snd rep) (su_id su) (''delivery-'' @ d))\<rparr>))"

section \<open>Subscriptions\<close>

definition webhook_subscription :: "webhook_row \<Rightarrow> subscription" where
  "webhook_subscription w = \<lparr>su_id = wh_id w, su_customerId = wh_customer w, su_active = True, su_eventTypes = wh_events w,
     su_destination = wh_url w, su_signingSecretRef = (if wh_secret w then Some (''legacy-webhook:'' @ wh_id w) else None),
     su_representation = None\<rparr>"

definition add_webhook :: "webhook_row \<Rightarrow> subscription list \<Rightarrow> subscription list" where
  "add_webhook w ss = (if list_ex (\<lambda>x. su_id x = wh_id w) ss then ss else ss @ [webhook_subscription w])"

definition wants_event :: "string \<Rightarrow> subscription \<Rightarrow> bool" where
  "wants_event t su \<longleftrightarrow> su_active su \<and> (t \<in> set (su_eventTypes su) \<or> ''*'' \<in> set (su_eventTypes su))"

definition subscriptions_of :: "catalog \<Rightarrow> id \<Rightarrow> string \<Rightarrow> subscription list" where
  "subscriptions_of s customer t = filter (wants_event t)
     (fold add_webhook (filter (\<lambda>w. wh_customer w = customer \<and> wh_active w) (c_webhooks s))
        (tbl_all (c_subscription s) (Some (InCustomer customer))))"

definition register_subscription :: "subscription \<Rightarrow> catalog \<Rightarrow> failure + catalog" where
  "register_subscription su s = write_subscription (su_id su) (InCustomer (su_customerId su)) su True None s"

section \<open>Claiming an event\<close>

fun map_m :: "('a \<Rightarrow> failure + 'b) \<Rightarrow> 'a list \<Rightarrow> failure + 'b list" where
  "map_m f [] = Inr []"
| "map_m f (x # xs) = sbind (f x) (\<lambda>y. sbind (map_m f xs) (\<lambda>ys. Inr (y # ys)))"

definition with_canonical :: "audit_event \<Rightarrow> webhook_representation option \<Rightarrow> subscription list \<Rightarrow> subscription list" where
  "with_canonical e rep ss = (case rep of
     None \<Rightarrow> ss
   | Some (t, b) \<Rightarrow> map (\<lambda>su. su\<lparr>su_representation := Some (Representation t b (su_id su) (ev_id e))\<rparr>) ss)"

definition is_legacy_push :: "catalog \<Rightarrow> workspace_scope \<Rightarrow> audit_event \<Rightarrow> operation option \<Rightarrow> failure + bool" where
  "is_legacy_push s sc e o' = (case o' of
     None \<Rightarrow> Inr False
   | Some p \<Rightarrow>
       sbind (canonical_json (JArr [idempotency_scope_json (cm_scope (op_command p)), JStr (cm_key (op_command p))])) (\<lambda>k.
       Inr (case tbl_load (c_compatibility s) k (Some (of_ws sc)) of
          None \<Rightarrow> False
        | Some v \<Rightarrow> lp_kind v = ''legacy-push'' \<and> Some (lp_runId v) = ev_runId e \<and> lp_requestDigest v = cm_requestDigest (op_command p))))"

definition freeze_recipients :: "platform \<Rightarrow> workspace_scope \<Rightarrow> audit_event \<Rightarrow> catalog \<Rightarrow> failure + (subscription list)" where
  "freeze_recipients P sc e s =
     (let customer = wsc_customerId sc;
          o' = tbl_load (c_operation s) (ev_operationId e) (Some (of_ws sc));
          r = load_optional (c_run s) (ev_runId e) (of_ws sc) in
      sbind (is_legacy_push s sc e o') (\<lambda>push.
      sbind (map_m (\<lambda>rep. map_m (representation_recipient P e rep) (subscriptions_of s customer (fst rep)))
               (legacy_representations e o' r push)) (\<lambda>extra.
      Inr (with_canonical e (canonical_representation e o' r) (subscriptions_of s customer (ev_type e)) @ concat extra))))"

definition recipients_snapshot :: "platform \<Rightarrow> workspace_scope \<Rightarrow> audit_event \<Rightarrow> catalog \<Rightarrow> failure + (subscription list \<times> catalog)" where
  "recipients_snapshot P sc e s = (case tbl_load (c_recipients s) (ev_id e) (Some (of_ws sc)) of
     Some ss \<Rightarrow> Inr (ss, s)
   | None \<Rightarrow>
       sbind (freeze_recipients P sc e s) (\<lambda>ss.
       sbind (write_recipients (ev_id e) (of_ws sc) ss True None s) (\<lambda>s1.
       Inr (ss, s1))))"

datatype claim_outbox_input = ClaimOutbox (ko_scope: workspace_scope) (ko_eventId: id) (ko_expectedVersion: int)
  (ko_ownerId: string) (ko_now: timestamp) (ko_expiresAt: timestamp)

definition outbox_due :: "timestamp \<Rightarrow> outbox_event \<Rightarrow> bool" where
  "outbox_due now e \<longleftrightarrow> ox_deliveryState e \<noteq> DeliveryComplete \<and> ox_nextAttemptAt e \<le> now \<and> claim_lapsed (ox_claim e) now"

definition delivered_outbox :: "outbox_event \<Rightarrow> outbox_event" where
  "delivered_outbox e = e\<lparr>ox_deliveryState := DeliveryComplete, ox_claim := None, ox_version := ox_version e + 1\<rparr>"

definition running_outbox :: "processing_claim \<Rightarrow> outbox_event \<Rightarrow> outbox_event" where
  "running_outbox k e = e\<lparr>ox_claim := Some k, ox_deliveryState := DeliveryRunning, ox_version := ox_version e + 1, ox_attempts := ox_attempts e + 1\<rparr>"

definition save_outbox :: "workspace_scope \<Rightarrow> outbox_event \<Rightarrow> catalog \<Rightarrow> failure + (outbox_event \<times> catalog)" where
  "save_outbox sc e s = sbind (write_outbox (ev_id (ox_event e)) (of_ws sc) e False (ev_runId (ox_event e)) s) (\<lambda>s1. Inr (e, s1))"

definition claim_outbox :: "platform \<Rightarrow> claim_outbox_input \<Rightarrow> catalog \<Rightarrow> failure + (outbox_event \<times> catalog)" where
  "claim_outbox P i s =
     (let sc = ko_scope i in
      sbind (load_or (c_outbox s) (ko_eventId i) (of_ws sc) OPERATION_NOT_FOUND) (\<lambda>e.
      sbind (fail_unless (ox_version e = ko_expectedVersion i) VERSION_CONFLICT) (\<lambda>_.
      sbind (fail_unless (outbox_due (ko_now i) e) STALE_FENCE) (\<lambda>_.
      sbind (recipients_snapshot P sc (ox_event e) s) (\<lambda>(ss, s1).
      if ss = [] then save_outbox sc (delivered_outbox e) s1
      else (let k = advanced_claim (ox_claim e) (ko_ownerId i) (ko_expiresAt i) in
        sbind (valid_claim k (ko_now i)) (\<lambda>_.
        save_outbox sc (running_outbox k e) s1)))))))"

section \<open>Deliveries\<close>

definition outbox_claimed :: "outbox_event \<Rightarrow> int \<Rightarrow> timestamp \<Rightarrow> int \<Rightarrow> failure + unit" where
  "outbox_claimed e fence now version =
     sbind (fail_unless (claim_held (ox_claim e) fence now \<and> ox_deliveryState e = DeliveryRunning) STALE_FENCE) (\<lambda>_.
     fail_unless (ox_version e = version) VERSION_CONFLICT)"

datatype release_outbox_input = ReleaseOutbox (lo_scope: workspace_scope) (lo_eventId: id) (lo_expectedVersion: int)
  (lo_fence: int) (lo_nextAttemptAt: timestamp) (lo_now: timestamp)

definition released_outbox :: "release_outbox_input \<Rightarrow> outbox_event \<Rightarrow> outbox_event" where
  "released_outbox i e = e\<lparr>ox_deliveryState := DeliveryPending, ox_claim := end_claim (lo_now i) (ox_claim e),
     ox_nextAttemptAt := lo_nextAttemptAt i, ox_version := ox_version e + 1\<rparr>"

definition release_outbox_claim :: "release_outbox_input \<Rightarrow> catalog \<Rightarrow> failure + (outbox_event \<times> catalog)" where
  "release_outbox_claim i s =
     sbind (load_or (c_outbox s) (lo_eventId i) (of_ws (lo_scope i)) OPERATION_NOT_FOUND) (\<lambda>e.
     sbind (outbox_claimed e (lo_fence i) (lo_now i) (lo_expectedVersion i)) (\<lambda>_.
     sbind (fail_unless (lo_now i \<le> lo_nextAttemptAt i) INVALID_REQUEST) (\<lambda>_.
     save_outbox (lo_scope i) (released_outbox i e) s)))"

datatype record_delivery_input = RecordDelivery (rd_scope: workspace_scope) (rd_eventId: id) (rd_expectedVersion: int)
  (rd_fence: int) (rd_subscriptionId: id) (rd_delivered: bool) (rd_nextAttemptAt: timestamp) (rd_now: timestamp)

definition delivery_id :: "id \<Rightarrow> id \<Rightarrow> failure + id" where
  "delivery_id e su = canonical_json (JArr [JStr e, JStr su])"

definition next_delivery :: "record_delivery_input \<Rightarrow> id \<Rightarrow> delivery option \<Rightarrow> delivery" where
  "next_delivery i eid prev =
     (let ok = (rd_delivered i \<or> (case prev of None \<Rightarrow> False | Some d \<Rightarrow> dl_delivered d)) in
      Delivery eid (rd_subscriptionId i) ok ((case prev of None \<Rightarrow> 0 | Some d \<Rightarrow> dl_attempts d) + 1)
        (if ok then rd_now i else rd_nextAttemptAt i) (rd_now i))"

definition event_deliveries :: "catalog \<Rightarrow> workspace_scope \<Rightarrow> id \<Rightarrow> delivery list" where
  "event_deliveries s sc eid = filter (\<lambda>d. dl_eventId d = eid) (tbl_all (c_delivery s) (Some (of_ws sc)))"

definition remaining_recipients :: "subscription list \<Rightarrow> delivery list \<Rightarrow> timestamp \<Rightarrow> (id \<times> timestamp) list" where
  "remaining_recipients ss progress now =
     map (\<lambda>su. (su_id su, case find (\<lambda>d. dl_subscriptionId d = su_id su) progress of None \<Rightarrow> now | Some d \<Rightarrow> dl_nextAttemptAt d))
       (filter (\<lambda>su. \<not> list_ex (\<lambda>d. dl_subscriptionId d = su_id su \<and> dl_delivered d) progress) ss)"

definition progressed_outbox :: "record_delivery_input \<Rightarrow> bool \<Rightarrow> (id \<times> timestamp) list \<Rightarrow> outbox_event \<Rightarrow> outbox_event" where
  "progressed_outbox i ok rest e =
     (let now = rd_now i;
          go = list_ex (\<lambda>(j, t). t \<le> now \<and> (ok \<or> j \<noteq> rd_subscriptionId i)) rest;
          st = (if rest = [] then DeliveryComplete else if go then DeliveryRunning else DeliveryFailed) in
      e\<lparr>ox_nextAttemptAt := (case sort (map snd rest) of [] \<Rightarrow> now | t # _ \<Rightarrow> t), ox_deliveryState := st,
        ox_claim := if st = DeliveryFailed then end_claim now (ox_claim e) else ox_claim e, ox_version := ox_version e + 1\<rparr>)"

definition record_delivery :: "record_delivery_input \<Rightarrow> catalog \<Rightarrow> failure + (outbox_event \<times> catalog)" where
  "record_delivery i s =
     (let sc = rd_scope i in
      sbind (load_or (c_outbox s) (rd_eventId i) (of_ws sc) OPERATION_NOT_FOUND) (\<lambda>e.
      let eid = ev_id (ox_event e) in
      sbind (outbox_claimed e (rd_fence i) (rd_now i) (rd_expectedVersion i)) (\<lambda>_.
      sbind (load_or (c_recipients s) eid (of_ws sc) INVALID_TRANSITION) (\<lambda>ss.
      sbind (fail_unless (list_ex (\<lambda>su. su_id su = rd_subscriptionId i) ss) FORBIDDEN) (\<lambda>_.
      sbind (delivery_id eid (rd_subscriptionId i)) (\<lambda>did.
      let d = next_delivery i eid (tbl_load (c_delivery s) did (Some (of_ws sc))) in
      sbind (write_delivery did (of_ws sc) d False None s) (\<lambda>s1.
      save_outbox sc (progressed_outbox i (dl_delivered d)
        (remaining_recipients ss (event_deliveries s1 sc eid) (rd_now i)) e) s1)))))))"

section \<open>Reading\<close>

definition list_pending_outbox :: "catalog \<Rightarrow> timestamp \<Rightarrow> int \<Rightarrow> failure + outbox_event list" where
  "list_pending_outbox s now limit = sbind (check_limit limit) (\<lambda>_.
     Inr (take (nat limit) (sort_key ox_nextAttemptAt (sort_key ox_attempts (filter (outbox_due now) (tbl_all (c_outbox s) None))))))"

definition list_outbox_recipients :: "catalog \<Rightarrow> workspace_scope \<Rightarrow> id \<Rightarrow> subscription list" where
  "list_outbox_recipients s sc eid = (case tbl_load (c_recipients s) eid (Some (of_ws sc)) of None \<Rightarrow> [] | Some ss \<Rightarrow> ss)"

definition list_delivered_subscriptions :: "catalog \<Rightarrow> workspace_scope \<Rightarrow> id \<Rightarrow> id list" where
  "list_delivered_subscriptions s sc eid = map dl_subscriptionId (filter dl_delivered (event_deliveries s sc eid))"

text \<open>The left join of the frozen recipients with their delivery rows.\<close>

definition recipient_rows :: "catalog \<Rightarrow> workspace_scope \<Rightarrow> id \<Rightarrow> (subscription \<times> delivery option) list" where
  "recipient_rows s sc eid = concat (map (\<lambda>su.
     case filter (\<lambda>d. dl_subscriptionId d = su_id su) (event_deliveries s sc eid) of
       [] \<Rightarrow> [(su, None)]
     | ds \<Rightarrow> map (\<lambda>d. (su, Some d)) ds) (list_outbox_recipients s sc eid))"

definition recipient_due :: "timestamp \<Rightarrow> subscription \<times> delivery option \<Rightarrow> bool" where
  "recipient_due now q = (case snd q of None \<Rightarrow> True | Some d \<Rightarrow> \<not> dl_delivered d \<and> dl_nextAttemptAt d \<le> now)"

definition list_due_outbox_recipients :: "catalog \<Rightarrow> workspace_scope \<Rightarrow> id \<Rightarrow> timestamp \<Rightarrow> int \<Rightarrow> failure + (subscription \<times> int) list" where
  "list_due_outbox_recipients s sc eid now limit = sbind (check_limit limit) (\<lambda>_.
     let rows = sort_key (\<lambda>(_, d). case d of None \<Rightarrow> [] | Some x \<Rightarrow> dl_updatedAt x)
                  (sort_key (\<lambda>(su, _). su_id su) (filter (recipient_due now) (recipient_rows s sc eid)))
     in Inr (map (\<lambda>(su, d). (su, case d of None \<Rightarrow> 0 | Some x \<Rightarrow> dl_attempts x)) (take (nat limit) rows)))"

definition list_audit :: "catalog \<Rightarrow> workspace_scope \<Rightarrow> string option \<Rightarrow> int \<Rightarrow> failure + (audit_event list \<times> string option)" where
  "list_audit s sc cursor limit = tbl_page (c_audit s) ev_id (of_ws sc) (cursor_of cursor) limit"

section \<open>The catalog advances\<close>

lemma post_outbox_claimed [post_simps]:
  "post (outbox_claimed e f now v) Q \<longleftrightarrow>
     (claim_held (ox_claim e) f now \<and> ox_deliveryState e = DeliveryRunning \<and> ox_version e = v \<longrightarrow> Q ())"
  by (auto simp: outbox_claimed_def post_simps)

lemma post_save_outbox [post_simps]:
  "post (save_outbox sc e s) Q \<longleftrightarrow> (writable (c_outbox s) (ev_id (ox_event e)) (of_ws sc) False \<longrightarrow>
     Q (e, s\<lparr>c_outbox := put_row (ev_id (ox_event e)) (mk_row (of_ws sc) (ev_runId (ox_event e)) e) (c_outbox s)\<rparr>))"
  by (simp add: save_outbox_def post_simps)

lemma outbox_moves [simp]:
  "ox_event (delivered_outbox e) = ox_event e" "ox_event (running_outbox k e) = ox_event e"
  "ox_event (released_outbox i e) = ox_event e" "ox_event (progressed_outbox j ok rest e) = ox_event e"
  "ox_deliveryState (delivered_outbox e) = DeliveryComplete" "ox_deliveryState (running_outbox k e) = DeliveryRunning"
  "ox_deliveryState (released_outbox i e) = DeliveryPending" "ox_claim (running_outbox k e) = Some k"
  by (simp_all add: delivered_outbox_def running_outbox_def released_outbox_def progressed_outbox_def Let_def)

lemma progressed_outbox_claim:
  "ox_deliveryState (progressed_outbox j ok rest e) = DeliveryRunning \<Longrightarrow> ox_claim (progressed_outbox j ok rest e) = ox_claim e"
  by (auto simp: progressed_outbox_def Let_def split: if_splits)

lemma ox_next_moves [simp]:
  "ox_next e (delivered_outbox e) \<longleftrightarrow> ox_deliveryState e \<noteq> DeliveryComplete"
  "ox_next e (running_outbox (advanced_claim (ox_claim e) owner expires) e) \<longleftrightarrow> ox_deliveryState e \<noteq> DeliveryComplete"
  "ox_next e (released_outbox i e) \<longleftrightarrow> ox_deliveryState e \<noteq> DeliveryComplete"
  "ox_next e (progressed_outbox j ok rest e) \<longleftrightarrow> ox_deliveryState e \<noteq> DeliveryComplete"
  by (auto simp: ox_next_def delivered_outbox_def running_outbox_def released_outbox_def progressed_outbox_def Let_def)

lemma claim_held_Some: "claim_held c f now \<Longrightarrow> c \<noteq> None"
  by (auto simp: claim_held_def split: option.splits)

lemma register_subscription_advances:
  "consistent s \<Longrightarrow> post (register_subscription su s) (advances (su_customerId su) s)"
  by (auto intro!: advance simp: register_subscription_def post_simps advancing)

lemma post_freeze_recipients [post_simps]:
  "post (freeze_recipients P sc e s) Q \<longleftrightarrow> (\<forall>ss. freeze_recipients P sc e s = Inr ss \<longrightarrow> Q ss)"
  by (simp add: post_def)

lemma post_recipients_snapshot [post_simps]:
  "post (recipients_snapshot P sc e s) Q \<longleftrightarrow> (case tbl_load (c_recipients s) (ev_id e) (Some (of_ws sc)) of
     Some ss \<Rightarrow> Q (ss, s)
   | None \<Rightarrow> (\<forall>ss. freeze_recipients P sc e s = Inr ss \<longrightarrow> writable (c_recipients s) (ev_id e) (of_ws sc) True \<longrightarrow>
       Q (ss, s\<lparr>c_recipients := put_row (ev_id e) (mk_row (of_ws sc) None ss) (c_recipients s)\<rparr>)))"
  by (auto simp: recipients_snapshot_def post_simps split: option.split)

lemma claim_outbox_advances:
  "consistent s \<Longrightarrow> post (claim_outbox P i s) (\<lambda>(r, s'). advances (wsc_customerId (ko_scope i)) s s')"
  apply (simp add: claim_outbox_def Let_def split_beta post_simps advancing)
  apply (auto intro!: advance simp: post_simps advancing outbox_due_def dest!: owned split: option.split)
  done

lemma release_outbox_claim_advances:
  "consistent s \<Longrightarrow> post (release_outbox_claim i s) (\<lambda>(r, s'). advances (wsc_customerId (lo_scope i)) s s')"
  apply (simp add: release_outbox_claim_def Let_def split_beta post_simps advancing)
  apply (auto intro!: advance simp: post_simps advancing dest!: owned)
  done

lemma post_delivery_id [post_simps]: "post (delivery_id e su) Q \<longleftrightarrow> (\<forall>i. delivery_id e su = Inr i \<longrightarrow> Q i)"
  by (simp add: post_def)

lemma dl_next_delivery [simp]: "dl_next d (next_delivery i eid (Some d))"
  by (simp add: dl_next_def next_delivery_def Let_def)

lemma record_delivery_advances:
  "consistent s \<Longrightarrow> post (record_delivery i s) (\<lambda>(r, s'). advances (wsc_customerId (rd_scope i)) s s')"
  apply (simp add: record_delivery_def Let_def split_beta post_simps advancing)
  apply (auto intro!: advance simp: post_simps advancing writable_found progressed_outbox_claim claim_held_Some dest!: owned)
  done

end
