(* ===== verification/Cv_Restore.thy ===== *)
theory Cv_Restore
  imports Cv_Outbox
begin

text \<open>
  Bundles, restores and copy pins of \<open>sqlite-control-store.ts\<close>. A restore publishes the contents of a
  source (an accepted revision, perhaps of another workspace, or an imported bundle) as the new head of
  its destination. A copy pin holds the source of a copy into a new workspace until the exact restore
  (or the failed creation) of its target is known.
\<close>

section \<open>Bundles\<close>

definition bundle_permit :: "catalog \<Rightarrow> bundle_record \<Rightarrow> principal \<Rightarrow> failure + unit" where
  "bundle_permit s b p =
     (if bu_kind b = ExportBundle then
        sbind (found (bu_source b) (Fail INVALID_REQUEST)) (\<lambda>v.
        sbind (fail_unless (bsc_customerId (rv_scope v) = bu_customerId b) INVALID_REQUEST) (\<lambda>_.
        sbind (permit s p WorkspaceExport (of_bs (rv_scope v)) None) (\<lambda>_.
        sbind (permit s p WorkspaceRead (of_bs (rv_scope v)) None) (\<lambda>_.
        sbind (workspace_at s (bs_workspace (rv_scope v)) True) (\<lambda>_. Inr ())))))
      else permit s p WorkspaceCreate (InCustomer (bu_customerId b)) None)"

datatype create_bundle_input = CreateBundle (nb_scope: id) (nb_principal: principal) (nb_bundle: bundle_record)

text \<open>The pattern \<open>^bundle-[a-f0-9-]{36}$\<close>.\<close>

definition bundle_id_ok :: "id \<Rightarrow> bool" where
  "bundle_id_ok i \<longleftrightarrow> take 7 i = ''bundle-'' \<and> length i = 43 \<and> list_all (\<lambda>c. is_hex c \<or> c = CHR ''-'') (drop 7 i)"

definition bundle_kind_text :: "bundle_kind \<Rightarrow> string" where
  "bundle_kind_text k = (case k of ExportBundle \<Rightarrow> ''export'' | UploadBundle \<Rightarrow> ''upload'')"

definition bundle_key :: "platform \<Rightarrow> id \<Rightarrow> principal \<Rightarrow> bundle_record \<Rightarrow> failure + string" where
  "bundle_key P customer p b = digest_of P (JArr [JObj [(''customerId'', JStr customer)], JStr (pr_actorId p), JStr (ci_id (pr_credential p)),
     JStr (bundle_kind_text (bu_kind b)), json_option (map_option (\<lambda>v. bsc_workspaceId (rv_scope v)) (bu_source b)), JStr (bu_idempotencyKey b)])"

definition export_source_ok :: "catalog \<Rightarrow> bundle_record \<Rightarrow> failure + unit" where
  "export_source_ok s b = (if bu_kind b \<noteq> ExportBundle then Inr ()
     else sbind (found (bu_source b) Crash) (\<lambda>v.
       sbind (fail_unless (tbl_load (c_revision s) (rv_id v) (Some (of_bs (rv_scope v))) = Some v) REVISION_NOT_FOUND) (\<lambda>_.
       fail_unless (\<not> migrating s (bs_workspace (rv_scope v))) FINALIZATION_IN_PROGRESS)))"

definition create_bundle :: "platform \<Rightarrow> create_bundle_input \<Rightarrow> catalog \<Rightarrow> failure + (bundle_record \<times> catalog)" where
  "create_bundle P i s =
     (let b = nb_bundle i; sc = InCustomer (nb_scope i); p = nb_principal i in
      sbind (fail_unless (bu_customerId b = nb_scope i \<and> identity_of (bu_principal b) = identity_of p \<and> bundle_id_ok (bu_id b) \<and>
               bu_idempotencyKey b \<noteq> [] \<and> js_length (bu_idempotencyKey b) \<le> 256 \<and> bu_requestDigest b \<noteq> [] \<and> bu_version b = 1 \<and>
               bu_state b \<noteq> BundleReady) INVALID_REQUEST) (\<lambda>_.
      sbind (bundle_permit s b p) (\<lambda>_.
      sbind (bundle_key P (nb_scope i) p b) (\<lambda>key.
      case tbl_load (c_bundle_command s) key (Some sc) of
        Some prior \<Rightarrow>
          sbind (fail_unless (bc_digest prior = bu_requestDigest b) IDEMPOTENCY_KEY_REUSED) (\<lambda>_.
          sbind (load_or (c_bundle s) (bc_id prior) sc STORAGE_UNAVAILABLE) (\<lambda>kept.
          sbind (bundle_permit s kept p) (\<lambda>_. Inr (kept, s))))
      | None \<Rightarrow>
          sbind (export_source_ok s b) (\<lambda>_.
          sbind (write_bundle (bu_id b) sc b True None s) (\<lambda>s1.
          sbind (write_bundle_command key sc (BundleCommand (bu_id b) (bu_requestDigest b)) True None s1) (\<lambda>s2.
          Inr (b, s2))))))))"

definition get_bundle :: "catalog \<Rightarrow> id \<Rightarrow> id \<Rightarrow> bundle_record option" where
  "get_bundle s customer i = tbl_load (c_bundle s) i (Some (InCustomer customer))"

datatype select_manifest_input = SelectManifest (sf_scope: id) (sf_principal: principal) (sf_id: id)
  (sf_expectedVersion: int) (sf_header: bundle_header) (sf_now: timestamp)

definition selected_bundle :: "bundle_header \<Rightarrow> string \<Rightarrow> timestamp \<Rightarrow> bundle_record \<Rightarrow> bundle_record" where
  "selected_bundle h d now b = b\<lparr>bu_header := Some h, bu_manifestDigest := Some d, bu_version := bu_version b + 1, bu_updatedAt := now\<rparr>"

definition select_bundle_manifest :: "platform \<Rightarrow> select_manifest_input \<Rightarrow> catalog \<Rightarrow> failure + (bundle_record \<times> catalog)" where
  "select_bundle_manifest P i s =
     (let sc = InCustomer (sf_scope i); h = sf_header i in
      sbind (load_or (c_bundle s) (sf_id i) sc REVISION_NOT_FOUND) (\<lambda>b.
      sbind (bundle_permit s b (sf_principal i)) (\<lambda>_.
      case bu_header b of
        Some old \<Rightarrow> sbind (fail_unless (old = h) IDEMPOTENCY_KEY_REUSED) (\<lambda>_. Inr (b, s))
      | None \<Rightarrow>
          sbind (fail_unless (bu_version b = sf_expectedVersion i \<and> bu_state b \<noteq> BundleReady) VERSION_CONFLICT) (\<lambda>_.
          sbind (canonicalize_manifest P no_override (bh_snapshot h)) (\<lambda>mf.
          sbind (fail_unless (bh_signatureAlgorithm h = ''Ed25519'' \<and> bh_signature h \<noteq> [] \<and> bh_keyId h \<noteq> []) INVALID_MANIFEST) (\<lambda>_.
          sbind (manifest_digest P no_override (manifest_json mf)) (\<lambda>d.
          let b1 = selected_bundle h d (sf_now i) b in
          sbind (write_bundle (bu_id b1) sc b1 False None s) (\<lambda>s1.
          Inr (b1, s1)))))))))"

datatype complete_bundle_input = CompleteBundle (ob_scope: id) (ob_principal: principal) (ob_id: id) (ob_expectedVersion: int) (ob_now: timestamp)

definition ready_bundle :: "timestamp \<Rightarrow> bundle_record \<Rightarrow> bundle_record" where
  "ready_bundle now b = b\<lparr>bu_state := BundleReady, bu_version := bu_version b + 1, bu_updatedAt := now\<rparr>"

definition complete_bundle :: "complete_bundle_input \<Rightarrow> catalog \<Rightarrow> failure + (bundle_record \<times> catalog)" where
  "complete_bundle i s =
     (let sc = InCustomer (ob_scope i) in
      sbind (load_or (c_bundle s) (ob_id i) sc REVISION_NOT_FOUND) (\<lambda>b.
      sbind (bundle_permit s b (ob_principal i)) (\<lambda>_.
      if bu_state b = BundleReady then Inr (b, s)
      else
        sbind (fail_unless (bu_version b = ob_expectedVersion i \<and> bu_header b \<noteq> None \<and> truthy (bu_manifestDigest b)) VERSION_CONFLICT) (\<lambda>_.
        let b1 = ready_bundle (ob_now i) b in
        sbind (write_bundle (bu_id b1) sc b1 False None s) (\<lambda>s1.
        Inr (b1, s1))))))"

section \<open>The source of a restore\<close>

definition restore_source_ok :: "catalog \<Rightarrow> restore_source \<Rightarrow> string \<Rightarrow> principal \<Rightarrow> workspace_scope \<Rightarrow> bool \<Rightarrow> failure + unit" where
  "restore_source_ok s src digest p sc need = (case src of
     FromRevision k \<Rightarrow>
       (let v = so_revision k; b = so_binding k; vs = of_bs (rv_scope v) in
        sbind (fail_unless (pr_actorId (so_principal k) = pr_actorId p) FORBIDDEN) (\<lambda>_.
        sbind (permit s (so_principal k) WorkspaceRead vs None) (\<lambda>_.
        sbind (workspace_at s (bs_workspace (rv_scope v)) True) (\<lambda>_.
        if \<not> need then Inr ()
        else fail_unless (tbl_load (c_revision s) (rv_id v) (Some vs) = Some v \<and> tbl_load (c_binding s) (sb_id b) (Some vs) = Some b \<and>
               sb_id b = bsc_storageBindingId (rv_scope v) \<and> sb_generation b = bsc_bindingGeneration (rv_scope v) \<and>
               rv_manifestDigest v = digest) STORAGE_BINDING_CHANGED))))
   | FromBundle b \<Rightarrow>
       sbind (fail_unless (bu_customerId b = wsc_customerId sc) FORBIDDEN) (\<lambda>_.
       sbind (bundle_permit s b p) (\<lambda>_.
       if \<not> need then Inr ()
       else
         sbind (load_or (c_bundle s) (bu_id b) (InCustomer (wsc_customerId sc)) REVISION_NOT_FOUND) (\<lambda>kept.
         sbind (fail_unless (bu_customerId kept = wsc_customerId sc \<and> bu_state kept = BundleReady \<and> kept = b \<and>
                  bu_manifestDigest kept = Some digest) REVISION_NOT_FOUND) (\<lambda>_.
         bundle_permit s kept p)))))"

definition intent_source_ok :: "catalog \<Rightarrow> restore_intent \<Rightarrow> principal \<Rightarrow> workspace_scope \<Rightarrow> bool \<Rightarrow> failure + unit" where
  "intent_source_ok s it p sc need = restore_source_ok s (ri_source it) (ri_sourceManifestDigest it) p sc need"

section \<open>Restores\<close>

datatype claim_restore_input = ClaimRestore (kr_scope: workspace_scope) (kr_principal: principal) (kr_authorization: authorization)
  (kr_command: command_identity) (kr_intent: restore_intent) (kr_claim: processing_claim) (kr_now: timestamp)

definition destination_scope :: "action \<Rightarrow> workspace_scope \<Rightarrow> scope" where
  "destination_scope act sc = (if act = WorkspaceCreate then InCustomer (wsc_customerId sc) else of_ws sc)"

definition restore_intent_of :: "operation \<Rightarrow> failure + restore_intent" where
  "restore_intent_of o' = (case op_intent o' of RestoreOpIntent i \<Rightarrow> Inr i | _ \<Rightarrow> Inl Crash)"

definition restore_request_ok :: "claim_restore_input \<Rightarrow> workspace \<Rightarrow> bool" where
  "restore_request_ok i w \<longleftrightarrow> (let it = kr_intent i; q = ri_request it; d = ri_candidateIdentity it in
     ri_schemaVersion it = 1 \<and> ri_kind it = KRestore \<and> rq_method q = ''POST'' \<and>
     rq_path q = ''/v1/workspaces/'' @ encode_uri_component (wsc_workspaceId (kr_scope i)) @ ''/restore'' \<and>
     (ri_destinationAction it = WorkspaceRestore \<or> ri_destinationAction it = WorkspaceCreate) \<and> rb_reason (rq_body q) \<noteq> [] \<and>
     cd_scope d = binding_of w \<and> cd_operationId d = cm_operationId (kr_command i) \<and>
     cd_parentRevisionId d = Some (rb_expectedRevisionId (rq_body q)))"

definition restore_operation :: "claim_restore_input \<Rightarrow> operation" where
  "restore_operation i = (new_operation (kr_command i) (kr_principal i) (kr_scope i) None None)
     \<lparr>op_kind := KRestore, op_intent := RestoreOpIntent (kr_intent i), op_claim := Some (kr_claim i)\<rparr>"

definition replay_restore :: "claim_restore_input \<Rightarrow> operation \<Rightarrow> catalog \<Rightarrow> failure + ((operation \<times> bool) \<times> catalog)" where
  "replay_restore i o' s =
     sbind (fail_unless (op_kind o' = KRestore) IDEMPOTENCY_KEY_REUSED) (\<lambda>_.
     sbind (restore_intent_of o') (\<lambda>it.
     sbind (fail_unless (ri_destinationAction it = ri_destinationAction (kr_intent i) \<and> ri_request it = ri_request (kr_intent i)) IDEMPOTENCY_KEY_REUSED) (\<lambda>_.
     sbind (intent_source_ok s it (kr_principal i) (kr_scope i) (op_state o' = OpPending \<or> op_state o' = OpProcessing)) (\<lambda>_.
     Inr ((o', True), s)))))"

definition claim_restore :: "claim_restore_input \<Rightarrow> catalog \<Rightarrow> failure + ((operation \<times> bool) \<times> catalog)" where
  "claim_restore i s =
     (let it = kr_intent i; sc = kr_scope i; p = kr_principal i; q = rq_body (ri_request it) in
      sbind (check_command (kr_command i) p (of_ws sc) KRestore None) (\<lambda>_.
      sbind (permit s p (ri_destinationAction it) (destination_scope (ri_destinationAction it) sc) (Some (kr_authorization i))) (\<lambda>_.
      sbind (replay s (kr_command i) p) (\<lambda>prior. case prior of
        Some r \<Rightarrow> replay_restore i (cx_operation r) s
      | None \<Rightarrow>
          sbind (workspace_at s sc True) (\<lambda>w.
          sbind (fail_unless (\<not> migrating s sc) FINALIZATION_IN_PROGRESS) (\<lambda>_.
          sbind (fail_unless (restore_request_ok i w) INVALID_REQUEST) (\<lambda>_.
          sbind (fail_unless (ws_currentRevisionId w = rb_expectedRevisionId q \<and> ws_version w = rb_expectedWorkspaceVersion q) REVISION_CONFLICT) (\<lambda>_.
          sbind (intent_source_ok s it p sc True) (\<lambda>_.
          sbind (valid_claim (kr_claim i) (kr_now i)) (\<lambda>_.
          sbind (register_candidate (ri_candidateIdentity it) s) (\<lambda>s1.
          sbind (save_command (restore_operation i) VNull s1) (\<lambda>(_, s2).
          Inr ((restore_operation i, False), s2)))))))))))))"

datatype accept_restore_input = AcceptRestore (xt_cas: processing_cas) (xt_authorization: authorization)
  (xt_candidate: prepared_revision) (xt_events: publication_events)

definition restored_operation :: "revision \<Rightarrow> bool \<Rightarrow> timestamp \<Rightarrow> operation \<Rightarrow> operation" where
  "restored_operation v changed now o' = complete_operation o' (ResRestore (rv_id v) changed) now"

definition finish_restore :: "accept_restore_input \<Rightarrow> operation \<Rightarrow> revision \<Rightarrow> bool \<Rightarrow> catalog \<Rightarrow> failure + (operation \<times> catalog)" where
  "finish_restore i o' v changed s =
     (let o1 = restored_operation v changed (cs_now (xt_cas i)) o' in
      sbind (save_outcome o1 (VResult (ResRestore (rv_id v) changed)) s) (\<lambda>s1.
      sbind (operation_events (xt_events i) o1 s1) (\<lambda>s2.
      Inr (o1, s2))))"

definition publish_restored :: "prepared_revision \<Rightarrow> workspace_scope \<Rightarrow> workspace \<Rightarrow> timestamp \<Rightarrow> catalog \<Rightarrow> failure + catalog" where
  "publish_restored c sc w now s =
     (let v = revision_of c now; w1 = advance_head v now w in
      sbind (write_revision (rv_id v) (of_ws sc) v True None s) (\<lambda>s1.
      write_workspace (ws_id w1) (of_ws sc) w1 False None s1))"

definition publish_restore :: "accept_restore_input \<Rightarrow> operation \<Rightarrow> catalog \<Rightarrow> failure + (operation \<times> catalog)" where
  "publish_restore i o' s =
     (let cas = xt_cas i; sc = cs_scope cas; c = xt_candidate i; p = op_principal o' in
      sbind (restore_intent_of o') (\<lambda>it.
      sbind (permit s p (ri_destinationAction it) (destination_scope (ri_destinationAction it) sc) (Some (xt_authorization i))) (\<lambda>_.
      sbind (intent_source_ok s it p sc True) (\<lambda>_.
      sbind (workspace_at s sc True) (\<lambda>w.
      let q = rq_body (ri_request it) in
      sbind (fail_unless (ws_currentRevisionId w = rb_expectedRevisionId q \<and> ws_version w = rb_expectedWorkspaceVersion q) REVISION_CONFLICT) (\<lambda>_.
      sbind (fail_unless (binding_of w = cd_scope (ri_candidateIdentity it)) STORAGE_BINDING_CHANGED) (\<lambda>_.
      sbind (match_candidate s (ri_candidateIdentity it) c (ri_sourceManifestDigest it)) (\<lambda>_.
      sbind (fail_unless (op_candidate o' = Some c) RECEIPT_MISMATCH) (\<lambda>_.
      sbind (load_or (c_revision s) (ws_currentRevisionId w) (of_ws sc) REVISION_NOT_FOUND) (\<lambda>base.
      if rv_manifestDigest base \<noteq> pp_manifestDigest c then
        sbind (publish_restored c sc w (cs_now cas) s) (\<lambda>s1.
        finish_restore i o' (revision_of c (cs_now cas)) True s1)
      else finish_restore i o' base False s))))))))))"

definition accepted_restore :: "accept_restore_input \<Rightarrow> operation \<Rightarrow> catalog \<Rightarrow> failure + (operation \<times> catalog)" where
  "accepted_restore i o' s =
     (let sc = cs_scope (xt_cas i) in
      sbind (fail_unless (fence_of o' = Some (cs_processingFence (xt_cas i)) \<and> op_candidate o' = Some (xt_candidate i)) STALE_FENCE) (\<lambda>_.
      sbind (restore_intent_of o') (\<lambda>it.
      sbind (permit s (op_principal o') (ri_destinationAction it) (destination_scope (ri_destinationAction it) sc) (Some (xt_authorization i))) (\<lambda>_.
      sbind (intent_source_ok s it (op_principal o') sc False) (\<lambda>_. Inr (o', s))))))"

definition accept_restore :: "accept_restore_input \<Rightarrow> catalog \<Rightarrow> failure + (operation \<times> catalog)" where
  "accept_restore i s =
     (let cas = xt_cas i in
      case filter (\<lambda>e. op_kind e = KRestore \<and> op_state e = OpSucceeded)
             (case tbl_load (c_operation s) (cs_operationId cas) (Some (of_ws (cs_scope cas))) of None \<Rightarrow> [] | Some e \<Rightarrow> [e]) of
        e # _ \<Rightarrow> accepted_restore i e s
      | [] \<Rightarrow>
          sbind (processing s cas) (\<lambda>o'.
          sbind (fail_unless (op_kind o' = KRestore) INVALID_TRANSITION) (\<lambda>_.
          publish_restore i o' s)))"

definition fail_restore :: "fail_input \<Rightarrow> catalog \<Rightarrow> failure + (operation \<times> catalog)" where
  "fail_restore i s =
     sbind (processing s (ff_cas i)) (\<lambda>o'.
     sbind (fail_unless (op_kind o' = KRestore) INVALID_TRANSITION) (\<lambda>_.
     let o1 = fail_operation o' (ff_code i) (ff_message i) (cs_now (ff_cas i)) in
     sbind (save_outcome o1 VNull s) (\<lambda>s1.
     sbind (operation_events (ff_events i) o1 s1) (\<lambda>s2.
     Inr (o1, s2)))))"

section \<open>Copy pins\<close>

datatype claim_pin_input = ClaimPin (kp_scope: workspace_scope) (kp_principal: principal) (kp_authorization: authorization)
  (kp_destinationAuthorization: authorization) (kp_idempotencyKey: string) (kp_request: json) (kp_source: restore_source)
  (kp_target: copy_target) (kp_now: timestamp)

definition workspace_scope_json :: "workspace_scope \<Rightarrow> json" where
  "workspace_scope_json sc = JObj [(''customerId'', JStr (wsc_customerId sc)), (''workspaceId'', JStr (wsc_workspaceId sc))]"

definition pin_id :: "platform \<Rightarrow> claim_pin_input \<Rightarrow> failure + id" where
  "pin_id P i = sbind (digest_of P (JArr [workspace_scope_json (kp_scope i), JStr (pr_actorId (kp_principal i)),
     JStr (ci_id (pr_credential (kp_principal i))), JStr (kp_idempotencyKey i)])) (\<lambda>d. Inr (''copy-pin-'' @ d))"

definition same_kind :: "principal \<Rightarrow> principal \<Rightarrow> bool" where
  "same_kind p q = (case (pr_kind p, pr_kind q) of
     (Customer _, Customer _) \<Rightarrow> True | (Service _, Service _) \<Rightarrow> True | (Administrator, Administrator) \<Rightarrow> True | _ \<Rightarrow> False)"

definition key_ok :: "string \<Rightarrow> bool" where
  "key_ok k \<longleftrightarrow> k \<noteq> [] \<and> js_length k \<le> 256"

definition copy_target_ok :: "copy_target \<Rightarrow> principal \<Rightarrow> bool" where
  "copy_target_ok t p \<longleftrightarrow> ct_customerId t \<noteq> [] \<and> ct_workspaceId t \<noteq> [] \<and> \<not> blank (ct_name t) \<and> js_length (ct_name t) \<le> 255 \<and>
     key_ok (ct_createIdempotencyKey t) \<and> key_ok (ct_restoreIdempotencyKey t) \<and>
     pr_actorId (ct_principal t) = pr_actorId p \<and> same_kind (ct_principal t) p"

definition revision_source_of :: "restore_source \<Rightarrow> failure \<Rightarrow> failure + revision_source" where
  "revision_source_of src e = (case src of FromRevision k \<Rightarrow> Inr k | FromBundle _ \<Rightarrow> Inl e)"

definition copy_source_ok :: "catalog \<Rightarrow> restore_source \<Rightarrow> principal \<Rightarrow> workspace_scope \<Rightarrow> failure + unit" where
  "copy_source_ok s src p sc =
     sbind (revision_source_of src Crash) (\<lambda>k.
     restore_source_ok s src (rv_manifestDigest (so_revision k)) p sc True)"

definition replay_pin :: "platform \<Rightarrow> claim_pin_input \<Rightarrow> string \<Rightarrow> copy_pin \<Rightarrow> catalog \<Rightarrow> failure + (copy_pin \<times> catalog)" where
  "replay_pin P i d old s =
     sbind (fail_unless (cp_requestDigest old = d \<and> identity_of (cp_principal old) = identity_of (kp_principal i)) IDEMPOTENCY_KEY_REUSED) (\<lambda>_.
     sbind (permit s (ct_principal (cp_target old)) WorkspaceCreate (InCustomer (ct_customerId (cp_target old))) None) (\<lambda>_.
     sbind (if cp_state old = PinHeld then copy_source_ok s (cp_source old) (cp_principal old) (cp_scope old) else Inr ()) (\<lambda>_.
     Inr (old, s))))"

definition claim_copy_source_pin :: "platform \<Rightarrow> claim_pin_input \<Rightarrow> catalog \<Rightarrow> failure + (copy_pin \<times> catalog)" where
  "claim_copy_source_pin P i s =
     (let sc = kp_scope i; p = kp_principal i; t = kp_target i in
      sbind (permit s p WorkspaceRead (of_ws sc) (Some (kp_authorization i))) (\<lambda>_.
      sbind (fail_unless (key_ok (kp_idempotencyKey i)) INVALID_REQUEST) (\<lambda>_.
      sbind (pin_id P i) (\<lambda>pid.
      sbind (digest_of P (kp_request i)) (\<lambda>d.
      case tbl_load (c_pin s) pid (Some (of_ws sc)) of
        Some old \<Rightarrow> replay_pin P i d old s
      | None \<Rightarrow>
          sbind (fail_unless (\<not> migrating s sc) FINALIZATION_IN_PROGRESS) (\<lambda>_.
          sbind (revision_source_of (kp_source i) (Fail FORBIDDEN)) (\<lambda>k.
          sbind (workspace_at s sc True) (\<lambda>w.
          sbind (fail_unless (scope_of w = sc \<and> bs_workspace (rv_scope (so_revision k)) = sc \<and>
                   identity_of (so_principal k) = identity_of p) FORBIDDEN) (\<lambda>_.
          sbind (fail_unless (copy_target_ok t p) INVALID_REQUEST) (\<lambda>_.
          sbind (permit s (ct_principal t) WorkspaceCreate (InCustomer (ct_customerId t)) (Some (kp_destinationAuthorization i))) (\<lambda>_.
          sbind (fail_unless (tbl_load (c_workspace s) (ct_workspaceId t) None = None) VERSION_CONFLICT) (\<lambda>_.
          sbind (copy_source_ok s (kp_source i) p sc) (\<lambda>_.
          let pin = \<lparr>cp_id = pid, cp_scope = sc, cp_principal = p, cp_idempotencyKey = kp_idempotencyKey i, cp_requestDigest = d,
                     cp_request = kp_request i, cp_source = kp_source i, cp_target = t, cp_state = PinHeld,
                     cp_terminalOperationId = None, cp_createdAt = kp_now i, cp_releasedAt = None\<rparr> in
          sbind (write_pin pid (of_ws sc) pin True None s) (\<lambda>s1.
          Inr (pin, s1)))))))))))))))"

definition list_copy_source_pins :: "catalog \<Rightarrow> workspace_scope \<Rightarrow> copy_pin list" where
  "list_copy_source_pins s sc = tbl_all (c_pin s) (Some (of_ws sc))"

definition target_scope :: "copy_pin \<Rightarrow> workspace_scope" where
  "target_scope p = WorkspaceScope (ct_customerId (cp_target p)) (ct_workspaceId (cp_target p))"

definition wanted :: "id option \<Rightarrow> operation \<Rightarrow> bool" where
  "wanted oid o' \<longleftrightarrow> \<not> truthy oid \<or> Some (op_id o') = oid"

definition command_operation :: "catalog \<Rightarrow> idempotency_scope \<Rightarrow> string \<Rightarrow> scope \<Rightarrow> operation option" where
  "command_operation s isc k sc = (case find_command s isc k of
     None \<Rightarrow> None
   | Some row \<Rightarrow> tbl_load (c_operation s) (cmr_operation row) (Some sc))"

definition terminal_restore :: "copy_pin \<Rightarrow> id option \<Rightarrow> operation \<Rightarrow> bool" where
  "terminal_restore p oid o' \<longleftrightarrow> op_kind o' = KRestore \<and> wanted oid o' \<and> (op_state o' = OpSucceeded \<or> op_state o' = OpFailed) \<and>
     (case op_intent o' of RestoreOpIntent i \<Rightarrow> ri_destinationAction i = WorkspaceCreate \<and> ri_source i = cp_source p | _ \<Rightarrow> False) \<and>
     identity_of (op_principal o') = identity_of (ct_principal (cp_target p))"

definition create_scope :: "copy_pin \<Rightarrow> idempotency_scope" where
  "create_scope p = IdempotencyScope (ct_customerId (cp_target p)) (pr_actorId (ct_principal (cp_target p))) KWorkspaceCreate None None"

definition failed_creation :: "copy_pin \<Rightarrow> id option \<Rightarrow> operation \<Rightarrow> bool" where
  "failed_creation p oid o' \<longleftrightarrow> (let t = cp_target p in
     op_kind o' = KWorkspaceCreate \<and> op_state o' = OpFailed \<and> wanted oid o' \<and>
     identity_of (op_principal o') = identity_of (ct_principal t) \<and> op_scope o' = target_scope p \<and>
     cm_scope (op_command o') = create_scope p \<and> cm_key (op_command o') = ct_createIdempotencyKey t \<and>
     (case op_intent o' of
        CreateIntent i \<Rightarrow> ws_id (wi_workspace i) = ct_workspaceId t \<and> ws_customerId (wi_workspace i) = ct_customerId t \<and>
          ws_name (wi_workspace i) = ct_name t \<and>
          wi_request i = JsonRequest ''POST'' ''/v1/workspaces'' (CreateBody (ct_customerId t) (ct_name t))
      | _ \<Rightarrow> False))"

definition terminal_copy :: "catalog \<Rightarrow> copy_pin \<Rightarrow> id option \<Rightarrow> operation option" where
  "terminal_copy s p oid =
     (let sc = of_ws (target_scope p); t = cp_target p;
          isc = IdempotencyScope (ct_customerId t) (pr_actorId (ct_principal t)) KRestore (Some (ct_workspaceId t)) None;
          created = command_operation s (create_scope p) (ct_createIdempotencyKey t) sc in
      case filter (terminal_restore p oid) (case command_operation s isc (ct_restoreIdempotencyKey t) sc of None \<Rightarrow> [] | Some o' \<Rightarrow> [o']) of
        o' # _ \<Rightarrow> Some o'
      | [] \<Rightarrow>
          if ct_createIdempotencyKey t = [] \<or> list_ex (\<lambda>v. op_kind v = KRestore) (tbl_all (c_operation s) (Some sc)) \<or>
             tbl_load (c_workspace s) (ct_workspaceId t) None \<noteq> None
          then None
          else (case created of None \<Rightarrow> None | Some o' \<Rightarrow> if failed_creation p oid o' then Some o' else None))"

datatype complete_pin_input = CompletePin (op_scope_in: workspace_scope) (op_pinId: id) (op_operationId: id) (op_now: timestamp)

definition released_pin :: "id \<Rightarrow> timestamp \<Rightarrow> copy_pin \<Rightarrow> copy_pin" where
  "released_pin oid now p = p\<lparr>cp_state := PinReleased, cp_terminalOperationId := Some oid, cp_releasedAt := Some now\<rparr>"

definition complete_copy_source_pin :: "complete_pin_input \<Rightarrow> catalog \<Rightarrow> failure + (copy_pin \<times> catalog)" where
  "complete_copy_source_pin i s =
     sbind (load_or (c_pin s) (op_pinId i) (of_ws (op_scope_in i)) OPERATION_NOT_FOUND) (\<lambda>p.
     sbind (found (terminal_copy s p (Some (op_operationId i))) (Fail PUBLICATION_OUTCOME_UNKNOWN)) (\<lambda>o'.
     if cp_state p = PinReleased then
       sbind (fail_unless (cp_terminalOperationId p = Some (op_id o')) IDEMPOTENCY_KEY_REUSED) (\<lambda>_. Inr (p, s))
     else (let p1 = released_pin (op_id o') (op_now i) p in
       sbind (write_pin (cp_id p1) (of_ws (cp_scope p1)) p1 False None s) (\<lambda>s1.
       Inr (p1, s1)))))"

section \<open>The catalog advances\<close>

lemma post_unit: "post m Q \<longleftrightarrow> (m = Inr () \<longrightarrow> Q ())"
  by (auto simp: post_def)

lemma post_value: "post m Q \<longleftrightarrow> (\<forall>x. m = Inr x \<longrightarrow> Q x)"
  by (simp add: post_def)

lemmas post_checks = post_unit [of "bundle_permit _ _ _"] post_unit [of "export_source_ok _ _"]
  post_unit [of "intent_source_ok _ _ _ _ _"] post_unit [of "copy_source_ok _ _ _ _"]
  post_value [of "bundle_key _ _ _ _"] post_value [of "canonicalize_manifest _ _ _"] post_value [of "manifest_digest _ _ _"]
  post_value [of "restore_intent_of _"] post_value [of "pin_id _ _"] post_value [of "digest_of _ _"]
  post_value [of "revision_source_of _ _"]

lemma restore_intent_of_eq: "restore_intent_of o' = Inr it \<longleftrightarrow> op_intent o' = RestoreOpIntent it"
  by (auto simp: restore_intent_of_def split: intent.splits)

lemma bundle_moves [simp]:
  "bu_id (selected_bundle h d now b) = bu_id b" "bu_id (ready_bundle now b) = bu_id b"
  "bundle_ok sc i b \<Longrightarrow> bu_state b \<noteq> BundleReady \<Longrightarrow> bundle_ok sc i (selected_bundle h d now b)"
  "bundle_ok sc i b \<Longrightarrow> bundle_ok sc i (ready_bundle now b) \<longleftrightarrow> bu_header b \<noteq> None"
  "bu_next b (selected_bundle h d now b) \<longleftrightarrow> bu_state b \<noteq> BundleReady \<and> (bu_header b = None \<or> bu_header b = Some h \<and> bu_manifestDigest b = Some d)"
  "bu_next b (ready_bundle now b) \<longleftrightarrow> bu_state b \<noteq> BundleReady"
  by (auto simp: selected_bundle_def ready_bundle_def bundle_ok_def bu_next_def)

lemma create_bundle_advances:
  "consistent s \<Longrightarrow> post (create_bundle P i s) (\<lambda>(r, s'). advances (nb_scope i) s s')"
  apply (simp add: create_bundle_def Let_def split_beta post_simps post_checks advancing)
  apply (auto intro!: advance simp: post_simps advancing bundle_ok_def)
  done

lemma select_bundle_manifest_advances:
  "consistent s \<Longrightarrow> post (select_bundle_manifest P i s) (\<lambda>(r, s'). advances (sf_scope i) s s')"
  apply (simp add: select_bundle_manifest_def Let_def split_beta post_simps post_checks advancing)
  apply (auto intro!: advance simp: post_simps advancing dest!: own_bundle)
  done

lemma complete_bundle_advances:
  "consistent s \<Longrightarrow> post (complete_bundle i s) (\<lambda>(r, s'). advances (ob_scope i) s s')"
  apply (simp add: complete_bundle_def Let_def split_beta post_simps post_checks advancing)
  apply (auto intro!: advance simp: post_simps advancing dest!: own_bundle)
  done

lemma restore_operation_simps [simp]:
  "op_id (restore_operation i) = cm_operationId (kr_command i)" "op_scope (restore_operation i) = kr_scope i"
  "op_command (restore_operation i) = kr_command i" "op_runId (restore_operation i) = None"
  by (simp_all add: restore_operation_def)

lemma restore_request_facts:
  "restore_request_ok i w \<Longrightarrow> cd_scope (ri_candidateIdentity (kr_intent i)) = binding_of w \<and>
     cd_operationId (ri_candidateIdentity (kr_intent i)) = cm_operationId (kr_command i) \<and>
     cd_parentRevisionId (ri_candidateIdentity (kr_intent i)) = Some (rb_expectedRevisionId (rq_body (ri_request (kr_intent i))))"
  by (simp add: restore_request_ok_def Let_def)

lemma restore_operation_ok:
  "restore_request_ok i w \<Longrightarrow> is_kind (cm_scope (kr_command i)) = KRestore \<Longrightarrow> scope_of w = kr_scope i \<Longrightarrow>
   operation_ok (of_ws (kr_scope i)) (cm_operationId (kr_command i)) (restore_operation i)"
  using restore_request_facts [of i w] by (auto simp: operation_ok_def intent_ok_def restore_operation_def Let_def)

lemma claim_restore_advances:
  "consistent s \<Longrightarrow> post (claim_restore i s) (\<lambda>(r, s'). advances (wsc_customerId (kr_scope i)) s s')"
  apply (simp add: claim_restore_def replay_restore_def Let_def split_beta post_simps post_checks advancing)
  apply (auto intro!: advance simp: post_simps advancing candidate_ok_def restore_request_facts restore_operation_ok dest!: owned)
  done

lemma finish_restore_advances:
  assumes "consistent s" and "processing s (xt_cas i) = Inr o'" and "advances (wsc_customerId (cs_scope (xt_cas i))) s u"
    and "c_operation u = c_operation s"
  shows "post (finish_restore i o' v changed u) (\<lambda>(r, s'). advances (wsc_customerId (cs_scope (xt_cas i))) s s')"
  using assms processing_own [OF assms(2,1)]
  apply (simp add: finish_restore_def restored_operation_def Let_def split_beta post_simps advancing)
  apply (auto intro!: advance simp: post_simps advancing dest!: event_matches_scope)
  done

lemma publish_restore_advances:
  assumes "consistent s" and "processing s (xt_cas i) = Inr o'"
  shows "post (publish_restore i o' s) (\<lambda>(r, s'). advances (wsc_customerId (cs_scope (xt_cas i))) s s')"
  using assms processing_own [OF assms(2,1)]
  apply (simp add: publish_restore_def publish_restored_def Let_def split_beta post_simps post_checks restore_intent_of_eq)
  apply (auto intro!: finish_restore_advances advance simp: post_simps advancing dest!: own_row restore_intent_stored matched_candidate)
  done

lemma accept_restore_advances:
  "consistent s \<Longrightarrow> post (accept_restore i s) (\<lambda>(r, s'). advances (wsc_customerId (cs_scope (xt_cas i))) s s')"
  by (auto simp: accept_restore_def accepted_restore_def Let_def post_simps post_checks advances_refl intro: publish_restore_advances)

lemma fail_restore_advances:
  "consistent s \<Longrightarrow> post (fail_restore i s) (\<lambda>(r, s'). advances (wsc_customerId (cs_scope (ff_cas i))) s s')"
  apply (simp add: fail_restore_def Let_def split_beta post_simps advancing)
  apply (auto intro!: advance simp: post_simps advancing dest!: owned)
  done

lemma released_pin_simps [simp]:
  "cp_id (released_pin oid now p) = cp_id p" "cp_scope (released_pin oid now p) = cp_scope p"
  "pin_ok sc i p \<Longrightarrow> pin_ok sc i (released_pin oid now p)" "cp_next p (released_pin oid now p)"
  by (auto simp: released_pin_def pin_ok_def cp_next_def)

lemma claim_copy_source_pin_advances:
  "consistent s \<Longrightarrow> post (claim_copy_source_pin P i s) (\<lambda>(r, s'). advances (wsc_customerId (kp_scope i)) s s')"
  apply (simp add: claim_copy_source_pin_def replay_pin_def Let_def split_beta post_simps post_checks advancing)
  apply (auto intro!: advance simp: post_simps advancing pin_ok_def)
  done

lemma complete_copy_source_pin_advances:
  "consistent s \<Longrightarrow> post (complete_copy_source_pin i s) (\<lambda>(r, s'). advances (wsc_customerId (op_scope_in i)) s s')"
  apply (simp add: complete_copy_source_pin_def Let_def split_beta post_simps advancing)
  apply (auto intro!: advance simp: post_simps advancing dest!: owned)
  done

end
