(* ===== verification/Cv_Migration.thy ===== *)
theory Cv_Migration
  imports Cv_Restore
begin

text \<open>
  Storage migration of \<open>sqlite-control-store.ts\<close>. A claimed migration drains the workspace (no active
  run, restore, export or copy pin), takes a backup, copies every retained revision to the target
  binding under a fence, and switches the binding in one transaction once the copy set is exact.
  The copy of the SQLite file is made outside the catalog; \<open>backup_matches\<close> is the check on it.
\<close>

section \<open>Digests of the history\<close>

definition binding_scope_json :: "binding_scope \<Rightarrow> json" where
  "binding_scope_json sc = JObj [(''customerId'', JStr (bsc_customerId sc)), (''workspaceId'', JStr (bsc_workspaceId sc)),
     (''storageBindingId'', JStr (bsc_storageBindingId sc)), (''bindingGeneration'', JInt (bsc_bindingGeneration sc))]"

definition locator_json :: "private_locator \<Rightarrow> json" where
  "locator_json l = JObj [(''storeId'', JStr (pl_storeId l)), (''opaqueKey'', JStr (pl_opaqueKey l))]"

definition prepared_json :: "prepared_revision \<Rightarrow> json" where
  "prepared_json p = JObj [(''candidateId'', JStr (pp_candidateId p)), (''revisionId'', JStr (pp_revisionId p)),
     (''scope'', binding_scope_json (pp_scope p)), (''parentRevisionId'', json_option (pp_parentRevisionId p)),
     (''operationId'', JStr (pp_operationId p)), (''manifestDigest'', JStr (pp_manifestDigest p)),
     (''privateReference'', locator_json (pp_privateReference p)), (''preparedAt'', JStr (pp_preparedAt p))]"

definition copy_json :: "verified_copy \<Rightarrow> json" where
  "copy_json c = JObj [(''revisionId'', JStr (vc_revisionId c)), (''sourceManifestDigest'', JStr (vc_sourceManifestDigest c)),
     (''target'', prepared_json (vc_target c)), (''verifiedAt'', JStr (vc_verifiedAt c))]"

definition retained_json :: "revision \<Rightarrow> json" where
  "retained_json v = JObj [(''revisionId'', JStr (rv_id v)), (''manifestDigest'', JStr (rv_manifestDigest v))]"

definition retained_revision_set_digest :: "platform \<Rightarrow> revision list \<Rightarrow> failure + string" where
  "retained_revision_set_digest P vs = digest_of P (JArr (map retained_json (sort_key rv_id vs)))"

definition verified_copy_set_digest :: "platform \<Rightarrow> verified_copy list \<Rightarrow> failure + string" where
  "verified_copy_set_digest P cs = digest_of P (JArr (map copy_json (sort_key vc_revisionId cs)))"

section \<open>Claiming\<close>

definition revisions_of :: "catalog \<Rightarrow> workspace_scope \<Rightarrow> revision list" where
  "revisions_of s sc = tbl_all (c_revision s) (Some (of_ws sc))"

definition get_storage_migration :: "catalog \<Rightarrow> workspace_scope \<Rightarrow> id \<Rightarrow> migration option" where
  "get_storage_migration s sc i = tbl_load (c_migration s) i (Some (of_ws sc))"

datatype claim_migration_input = ClaimMigration (km_scope: workspace_scope) (km_principal: principal) (km_authorization: authorization)
  (km_command: command_identity) (km_migrationId: id) (km_targetBinding: storage_binding) (km_expectedWorkspaceVersion: int)
  (km_expectedHeadRevisionId: id) (km_expectedSourceBindingGeneration: int) (km_retainedRevisionSetDigest: string)
  (km_claim: processing_claim) (km_request: "migration_request option") (km_now: timestamp)

definition replayed_migration :: "catalog \<Rightarrow> workspace_scope \<Rightarrow> operation \<Rightarrow> migration option" where
  "replayed_migration s sc o' = (case op_result o' of
     Some (ResStorageMigrate mid _ _) \<Rightarrow> tbl_load (c_migration s) mid (Some (of_ws sc))
   | _ \<Rightarrow> find (\<lambda>m. cm_operationId (mg_command m) = op_id o') (tbl_all (c_migration s) (Some (of_ws sc))))"

definition migration_request_ok :: "migration_request option \<Rightarrow> storage_binding \<Rightarrow> bool" where
  "migration_request_ok q b = (case q of
     None \<Rightarrow> True
   | Some r \<Rightarrow> mq_targetConfigurationRef r = sb_configurationRef b \<and> is_absolute (mq_backupRoot r) \<and> \<not> blank (mq_reason r) \<and> js_length (mq_reason r) \<le> 4096)"

definition new_migration :: "claim_migration_input \<Rightarrow> workspace \<Rightarrow> migration" where
  "new_migration i w = \<lparr>mg_id = km_migrationId i, mg_scope = km_scope i, mg_command = km_command i, mg_sourceBindingId = ws_storageBindingId w,
     mg_sourceBindingGeneration = ws_bindingGeneration w, mg_targetBinding = km_targetBinding i,
     mg_expectedHeadRevisionId = ws_currentRevisionId w, mg_retainedRevisionSetDigest = km_retainedRevisionSetDigest i,
     mg_state = Draining, mg_version = 1, mg_claim = km_claim i, mg_copies = [], mg_candidates = [], mg_backup = None,
     mg_request = km_request i, mg_lastError = None, mg_createdAt = km_now i, mg_updatedAt = km_now i, mg_switchedAt = None\<rparr>"

definition guards_of :: "catalog \<Rightarrow> workspace_scope \<Rightarrow> workspace \<Rightarrow> migration_guards" where
  "guards_of s sc w = MigrationGuards (ws_version w) (map (\<lambda>v. SourceReference (rv_scope v) (rv_privateReference v)) (revisions_of s sc))"

definition claim_storage_migration :: "platform \<Rightarrow> claim_migration_input \<Rightarrow> catalog \<Rightarrow> failure + (migration \<times> catalog)" where
  "claim_storage_migration P i s =
     (let sc = km_scope i; p = km_principal i; c = km_command i; b = km_targetBinding i in
      sbind (check_command c p (of_ws sc) KStorageMigrate None) (\<lambda>_.
      sbind (permit s p WorkspaceMigrate (of_ws sc) (Some (km_authorization i))) (\<lambda>_.
      sbind (replay s c p) (\<lambda>prior. case prior of
        Some r \<Rightarrow>
          sbind (found (replayed_migration s sc (cx_operation r)) Crash) (\<lambda>m.
          sbind (require (cm_operationId (mg_command m) = op_id (cx_operation r)) Crash) (\<lambda>_. Inr (m, s)))
      | None \<Rightarrow>
          sbind (workspace_at s sc True) (\<lambda>w.
          sbind (fail_unless (ws_version w = km_expectedWorkspaceVersion i \<and> ws_currentRevisionId w = km_expectedHeadRevisionId i) REVISION_CONFLICT) (\<lambda>_.
          sbind (fail_unless (ws_bindingGeneration w = km_expectedSourceBindingGeneration i) STORAGE_BINDING_CHANGED) (\<lambda>_.
          sbind (fail_unless (sb_scope b = sc \<and> sb_id b \<noteq> ws_storageBindingId w \<and> ws_bindingGeneration w < sb_generation b \<and>
                   sb_status b = BindingActive) INVALID_REQUEST) (\<lambda>_.
          sbind (fail_unless (tbl_load (c_binding s) (sb_id b) None = None) VERSION_CONFLICT) (\<lambda>_.
          sbind (fail_unless (\<not> migrating s sc) FINALIZATION_IN_PROGRESS) (\<lambda>_.
          sbind (retained_revision_set_digest P (revisions_of s sc)) (\<lambda>d.
          sbind (fail_unless (d = km_retainedRevisionSetDigest i) REVISION_CONFLICT) (\<lambda>_.
          sbind (valid_claim (km_claim i) (km_now i)) (\<lambda>_.
          sbind (fail_unless (migration_request_ok (km_request i) b) INVALID_REQUEST) (\<lambda>_.
          let m = new_migration i w in
          sbind (write_guards (mg_id m) (of_ws sc) (guards_of s sc w) True None s) (\<lambda>s1.
          sbind (write_migration (mg_id m) (of_ws sc) m True None s1) (\<lambda>s2.
          sbind (save_command ((new_operation c p sc None None)\<lparr>op_claim := Some (km_claim i)\<rparr>) (VMigration m) s2) (\<lambda>(_, s3).
          Inr (m, s3))))))))))))))))))"

section \<open>Fencing and draining\<close>

datatype migration_cas = MigrationCAS (mm_scope: workspace_scope) (mm_migrationId: id) (mm_expectedVersion: int) (mm_fence: int) (mm_now: timestamp)

definition migration_at :: "catalog \<Rightarrow> migration_cas \<Rightarrow> failure + migration" where
  "migration_at s i =
     sbind (load_or (c_migration s) (mm_migrationId i) (of_ws (mm_scope i)) OPERATION_NOT_FOUND) (\<lambda>m.
     sbind (fail_unless (pc_fence (mg_claim m) = mm_fence i \<and> mm_now i < pc_expiresAt (mg_claim m) \<and> open_migration m) STALE_FENCE) (\<lambda>_.
     sbind (fail_unless (mg_version m = mm_expectedVersion i) VERSION_CONFLICT) (\<lambda>_. Inr m)))"

definition release_terminal_pin :: "copy_pin \<Rightarrow> catalog \<Rightarrow> failure + catalog" where
  "release_terminal_pin p s = (case terminal_copy s p None of
     None \<Rightarrow> Inl (Fail FINALIZATION_IN_PROGRESS)
   | Some o' \<Rightarrow> write_pin (cp_id p) (of_ws (cp_scope p)) (released_pin (op_id o') (op_updatedAt o') p) False None s)"

definition restore_source_scope :: "operation \<Rightarrow> binding_scope option" where
  "restore_source_scope o' = (case op_intent o' of
     RestoreOpIntent i \<Rightarrow> (case ri_source i of FromRevision k \<Rightarrow> Some (rv_scope (so_revision k)) | FromBundle _ \<Rightarrow> None)
   | _ \<Rightarrow> None)"

definition restore_blocks :: "workspace_scope \<Rightarrow> operation row \<Rightarrow> bool" where
  "restore_blocks sc q \<longleftrightarrow> (let o' = row_data q in
     op_kind o' = KRestore \<and> (op_state o' = OpPending \<or> op_state o' = OpProcessing) \<and>
     (in_scope (Some (of_ws sc)) q \<or> map_option bs_workspace (restore_source_scope o') = Some sc))"

definition export_blocks :: "workspace_scope \<Rightarrow> bundle_record \<Rightarrow> bool" where
  "export_blocks sc b \<longleftrightarrow> bu_kind b = ExportBundle \<and> bu_state b = BundlePreparing \<and>
     map_option (\<lambda>v. bs_workspace (rv_scope v)) (bu_source b) = Some sc"

definition live_run :: "run \<Rightarrow> bool" where
  "live_run r \<longleftrightarrow> rn_state r = Active \<or> rn_state r = Finalizing"

definition drained :: "workspace_scope \<Rightarrow> catalog \<Rightarrow> failure + catalog" where
  "drained sc s =
     sbind (fail_unless (\<not> list_ex live_run (tbl_all (c_run s) (Some (of_ws sc)))) FINALIZATION_IN_PROGRESS) (\<lambda>_.
     sbind (each release_terminal_pin (filter (\<lambda>p. cp_state p = PinHeld) (tbl_all (c_pin s) (Some (of_ws sc)))) s) (\<lambda>s1.
     sbind (fail_unless (\<not> list_ex (\<lambda>(_, q). restore_blocks sc q) (c_operation s1)) FINALIZATION_IN_PROGRESS) (\<lambda>_.
     sbind (fail_unless (\<not> list_ex (export_blocks sc) (tbl_all (c_bundle s1) None)) FINALIZATION_IN_PROGRESS) (\<lambda>_.
     Inr s1))))"

definition save_migration :: "migration \<Rightarrow> catalog \<Rightarrow> failure + catalog" where
  "save_migration m s =
     sbind (write_migration (mg_id m) (of_ws (mg_scope m)) m False None s) (\<lambda>s1.
     Inr (update_command (cm_operationId (mg_command m)) (VMigration m) s1))"

definition touch_migration :: "timestamp \<Rightarrow> migration \<Rightarrow> migration" where
  "touch_migration now m = m\<lparr>mg_version := mg_version m + 1, mg_updatedAt := now\<rparr>"

section \<open>Backup\<close>

datatype backup_input = BackupInput (mk_cas: migration_cas) (mk_directory: string)

definition no_nul :: "string \<Rightarrow> bool" where
  "no_nul p \<longleftrightarrow> char_of (0 :: nat) \<notin> set p"

definition claim_migration_backup :: "backup_input \<Rightarrow> catalog \<Rightarrow> failure + (migration \<times> catalog)" where
  "claim_migration_backup i s =
     (let cas = mk_cas i; dir = mk_directory i in
      sbind (migration_at s cas) (\<lambda>m.
      sbind (drained (mm_scope cas) s) (\<lambda>s1.
      sbind (fail_unless (is_absolute dir \<and> no_nul dir) INVALID_REQUEST) (\<lambda>_.
      case mg_backup m of
        Some b \<Rightarrow> sbind (fail_unless (mb_directory b = dir) IDEMPOTENCY_KEY_REUSED) (\<lambda>_. Inr (m, s1))
      | None \<Rightarrow>
          let m1 = touch_migration (mm_now cas) (m\<lparr>mg_backup := Some (MigrationBackup dir BackupPreparing None)\<rparr>) in
          sbind (save_migration m1 s1) (\<lambda>s2. Inr (m1, s2))))))"

text \<open>\<open>captureMigrationCatalog\<close>: the transaction before the file is written, and the check of its contents.\<close>

definition begin_capture :: "migration_cas \<Rightarrow> catalog \<Rightarrow> failure + (migration \<times> catalog)" where
  "begin_capture cas s =
     sbind (migration_at s cas) (\<lambda>m.
     sbind (drained (mm_scope cas) s) (\<lambda>s1.
     sbind (fail_unless (mg_backup m \<noteq> None) INVALID_TRANSITION) (\<lambda>_. Inr (m, s1))))"

definition backup_matches :: "platform \<Rightarrow> workspace_scope \<Rightarrow> migration \<Rightarrow> catalog \<Rightarrow> failure + unit" where
  "backup_matches P sc m backup = (case tbl_all (c_workspace backup) (Some (of_ws sc)) of
     [] \<Rightarrow> Inl (Fail RECEIPT_MISMATCH)
   | w # _ \<Rightarrow>
       sbind (fail_unless (ws_currentRevisionId w = mg_expectedHeadRevisionId m \<and> ws_storageBindingId w = mg_sourceBindingId m \<and>
                ws_bindingGeneration w = mg_sourceBindingGeneration m) RECEIPT_MISMATCH) (\<lambda>_.
       sbind (retained_revision_set_digest P (revisions_of backup sc)) (\<lambda>d.
       fail_unless (d = mg_retainedRevisionSetDigest m) RECEIPT_MISMATCH)))"

datatype backup_done_input = BackupDone (mz_cas: migration_cas) (mz_receiptDigest: string)

definition complete_migration_backup :: "backup_done_input \<Rightarrow> catalog \<Rightarrow> failure + (migration \<times> catalog)" where
  "complete_migration_backup i s =
     (let cas = mz_cas i; d = mz_receiptDigest i in
      sbind (migration_at s cas) (\<lambda>m.
      sbind (drained (mm_scope cas) s) (\<lambda>s1.
      sbind (found (mg_backup m) (Fail INVALID_REQUEST)) (\<lambda>b.
      sbind (fail_unless (sha256_text d) INVALID_REQUEST) (\<lambda>_.
      if mb_state b = BackupReady then sbind (fail_unless (mb_receiptDigest b = Some d) RECEIPT_MISMATCH) (\<lambda>_. Inr (m, s1))
      else (let m1 = touch_migration (mm_now cas) (m\<lparr>mg_backup := Some (MigrationBackup (mb_directory b) BackupReady (Some d))\<rparr>) in
        sbind (save_migration m1 s1) (\<lambda>s2. Inr (m1, s2))))))))"

section \<open>Copies\<close>

definition backup_ready :: "migration \<Rightarrow> bool" where
  "backup_ready m = (case mg_backup m of None \<Rightarrow> False | Some b \<Rightarrow> mb_state b = BackupReady)"

definition target_scope_of :: "workspace_scope \<Rightarrow> migration \<Rightarrow> binding_scope" where
  "target_scope_of sc m = BindingScope (wsc_customerId sc) (wsc_workspaceId sc) (sb_id (mg_targetBinding m)) (sb_generation (mg_targetBinding m))"

datatype migration_candidate_input = MigrationCandidateInput (my_cas: migration_cas) (my_principal: principal)
  (my_authorization: authorization) (my_revisionId: id) (my_identity: candidate_identity)

definition migration_operation :: "catalog \<Rightarrow> migration \<Rightarrow> workspace_scope \<Rightarrow> principal \<Rightarrow> failure + operation" where
  "migration_operation s m sc p =
     sbind (load_or (c_operation s) (cm_operationId (mg_command m)) (of_ws sc) FORBIDDEN) (\<lambda>o'.
     sbind (fail_unless (identity_of (op_principal o') = identity_of p) FORBIDDEN) (\<lambda>_. Inr o'))"

definition migration_identity_ok :: "platform \<Rightarrow> workspace_scope \<Rightarrow> migration \<Rightarrow> revision \<Rightarrow> candidate_identity \<Rightarrow> bool" where
  "migration_identity_ok P sc m v c \<longleftrightarrow> cd_revisionId c = rv_id v \<and> cd_parentRevisionId c = rv_parentRevisionId v \<and>
     cd_operationId c = cm_operationId (mg_command m) \<and> cd_scope c = target_scope_of sc m \<and> cd_candidateId c \<noteq> [] \<and> pf_dateValid P (cd_createdAt c)"

definition claim_migration_candidate :: "platform \<Rightarrow> migration_candidate_input \<Rightarrow> catalog \<Rightarrow> failure + (migration \<times> catalog)" where
  "claim_migration_candidate P i s =
     (let cas = my_cas i; sc = mm_scope cas; p = my_principal i; c = my_identity i in
      sbind (migration_at s cas) (\<lambda>m.
      sbind (permit s p WorkspaceMigrate (of_ws sc) (Some (my_authorization i))) (\<lambda>_.
      sbind (migration_operation s m sc p) (\<lambda>_.
      sbind (drained sc s) (\<lambda>s1.
      sbind (fail_unless (backup_ready m) INVALID_TRANSITION) (\<lambda>_.
      sbind (load_or (c_revision s1) (my_revisionId i) (of_ws sc) REVISION_NOT_FOUND) (\<lambda>v.
      sbind (fail_unless (migration_identity_ok P sc m v c) RECEIPT_MISMATCH) (\<lambda>_.
      case find (\<lambda>k. mc_revisionId k = rv_id v) (mg_candidates m) of
        Some k \<Rightarrow> sbind (fail_unless (mc_identity k = c \<and> mc_source k = v) RECEIPT_MISMATCH) (\<lambda>_. Inr (m, s1))
      | None \<Rightarrow>
          sbind (register_candidate c s1) (\<lambda>s2.
          let m1 = touch_migration (mm_now cas) (m\<lparr>mg_candidates := mg_candidates m @ [MigrationCandidate (rv_id v) v c], mg_state := Copying\<rparr>) in
          sbind (save_migration m1 s2) (\<lambda>s3. Inr (m1, s3)))))))))))"

datatype record_copy_input = RecordCopy (mr_cas: migration_cas) (mr_copy: verified_copy)

definition copy_matches :: "workspace_scope \<Rightarrow> migration \<Rightarrow> revision \<Rightarrow> verified_copy \<Rightarrow> bool" where
  "copy_matches sc m v c \<longleftrightarrow> (let t = vc_target c in
     vc_sourceManifestDigest c = rv_manifestDigest v \<and> pp_manifestDigest t = rv_manifestDigest v \<and> pp_revisionId t = rv_id v \<and>
     pp_parentRevisionId t = rv_parentRevisionId v \<and> pp_scope t = target_scope_of sc m \<and> pp_operationId t = cm_operationId (mg_command m))"

definition with_copy :: "verified_copy \<Rightarrow> nat \<Rightarrow> timestamp \<Rightarrow> migration \<Rightarrow> migration" where
  "with_copy c retained now m = touch_migration now (m\<lparr>mg_copies := mg_copies m @ [c],
     mg_state := if length (mg_copies m) + 1 = retained then Verified else Copying\<rparr>)"

definition record_verified_revision_copy :: "record_copy_input \<Rightarrow> catalog \<Rightarrow> failure + (migration \<times> catalog)" where
  "record_verified_revision_copy i s =
     (let cas = mr_cas i; sc = mm_scope cas; c = mr_copy i in
      sbind (migration_at s cas) (\<lambda>m.
      sbind (drained sc s) (\<lambda>s1.
      sbind (load_or (c_revision s1) (vc_revisionId c) (of_ws sc) REVISION_NOT_FOUND) (\<lambda>v.
      sbind (fail_unless (copy_matches sc m v c) RECEIPT_MISMATCH) (\<lambda>_.
      case find (\<lambda>k. vc_revisionId k = vc_revisionId c) (mg_copies m) of
        Some k \<Rightarrow> sbind (fail_unless (k = c) RECEIPT_MISMATCH) (\<lambda>_. Inr (m, s1))
      | None \<Rightarrow>
          sbind (found (find (\<lambda>k. mc_revisionId k = rv_id v) (mg_candidates m)) (Fail RECEIPT_MISMATCH)) (\<lambda>own.
          sbind (fail_unless (mc_source own = v) RECEIPT_MISMATCH) (\<lambda>_.
          sbind (match_candidate s1 (mc_identity own) (vc_target c) (rv_manifestDigest v)) (\<lambda>_.
          sbind (record_prepared (vc_target c) s1) (\<lambda>s2.
          let m1 = with_copy c (length (revisions_of s2 sc)) (mm_now cas) m in
          sbind (save_migration m1 s2) (\<lambda>s3. Inr (m1, s3)))))))))))"

section \<open>Recovery and renewal\<close>

text \<open>The operation record of a migration or adoption carries its claim.\<close>

definition sync_claim :: "id \<Rightarrow> workspace_scope \<Rightarrow> processing_claim \<Rightarrow> timestamp \<Rightarrow> catalog \<Rightarrow> failure + catalog" where
  "sync_claim oid sc c now s =
     sbind (found (tbl_load (c_operation s) oid (Some (of_ws sc))) Crash) (\<lambda>o'.
     write_operation (op_id o') (of_ws sc) (claimed_operation c now o') False None s)"

definition reclaim_migration :: "processing_claim \<Rightarrow> timestamp \<Rightarrow> workspace_scope \<Rightarrow> migration \<Rightarrow> catalog \<Rightarrow> failure + (migration \<times> catalog)" where
  "reclaim_migration c now sc m s =
     (let m1 = touch_migration now (m\<lparr>mg_claim := c\<rparr>) in
      sbind (sync_claim (cm_operationId (mg_command m)) sc c now s) (\<lambda>s1.
      sbind (save_migration m1 s1) (\<lambda>s2. Inr (m1, s2))))"

datatype migration_recovery_input = MigrationRecovery (mv_scope: workspace_scope) (mv_migrationId: id) (mv_expectedVersion: int)
  (mv_ownerId: string) (mv_now: timestamp) (mv_expiresAt: timestamp)

definition claim_storage_migration_recovery :: "migration_recovery_input \<Rightarrow> catalog \<Rightarrow> failure + (migration \<times> catalog)" where
  "claim_storage_migration_recovery i s =
     sbind (load_or (c_migration s) (mv_migrationId i) (of_ws (mv_scope i)) OPERATION_NOT_FOUND) (\<lambda>m.
     sbind (fail_unless (mg_version m = mv_expectedVersion i) VERSION_CONFLICT) (\<lambda>_.
     sbind (fail_unless (open_migration m \<and> pc_expiresAt (mg_claim m) \<le> mv_now i) STALE_FENCE) (\<lambda>_.
     let c = ProcessingClaim (mv_ownerId i) (pc_fence (mg_claim m) + 1) (mv_expiresAt i) in
     sbind (valid_claim c (mv_now i)) (\<lambda>_.
     reclaim_migration c (mv_now i) (mv_scope i) m s))))"

datatype renew_migration_input = RenewMigration (mn_cas: migration_cas) (mn_expiresAt: timestamp)

definition renew_storage_migration_claim :: "renew_migration_input \<Rightarrow> catalog \<Rightarrow> failure + (migration \<times> catalog)" where
  "renew_storage_migration_claim i s =
     sbind (migration_at s (mn_cas i)) (\<lambda>m.
     sbind (fail_unless (pc_expiresAt (mg_claim m) < mn_expiresAt i) INVALID_REQUEST) (\<lambda>_.
     reclaim_migration (ProcessingClaim (pc_ownerId (mg_claim m)) (pc_fence (mg_claim m)) (mn_expiresAt i))
       (mm_now (mn_cas i)) (mm_scope (mn_cas i)) m s))"

definition writers_running :: "catalog \<Rightarrow> workspace_scope \<Rightarrow> id \<Rightarrow> string \<Rightarrow> bool" where
  "writers_running s sc oid owner = list_ex (\<lambda>w. cd_operationId (cw_identity w) = oid \<and> cw_ownerId w = owner \<and> cw_state w = WriterActive)
     (tbl_all (c_candidate_writer s) (Some (of_ws sc)))"

datatype release_migration_input = ReleaseMigration (ml_cas: migration_cas) (ml_ownerId: string)

definition release_storage_migration_claim :: "release_migration_input \<Rightarrow> catalog \<Rightarrow> failure + (migration \<times> catalog)" where
  "release_storage_migration_claim i s =
     (let cas = ml_cas i in
      sbind (migration_at s cas) (\<lambda>m.
      sbind (fail_unless (pc_ownerId (mg_claim m) = ml_ownerId i) STALE_FENCE) (\<lambda>_.
      sbind (fail_unless (\<not> writers_running s (mm_scope cas) (cm_operationId (mg_command m)) (ml_ownerId i)) FINALIZATION_IN_PROGRESS) (\<lambda>_.
      reclaim_migration (ProcessingClaim (pc_ownerId (mg_claim m)) (pc_fence (mg_claim m)) (mm_now cas)) (mm_now cas) (mm_scope cas) m s))))"

section \<open>The switch\<close>

datatype switch_input = SwitchInput (mw_cas: migration_cas) (mw_principal: principal) (mw_authorization: authorization)
  (mw_expectedWorkspaceVersion: int) (mw_expectedHeadRevisionId: id) (mw_expectedSourceBindingGeneration: int)
  (mw_expectedRetainedRevisionSetDigest: string) (mw_expectedVerifiedCopySetDigest: string) (mw_events: publication_events)

definition switch_revision :: "workspace_scope \<Rightarrow> migration \<Rightarrow> revision \<Rightarrow> catalog \<Rightarrow> failure + catalog" where
  "switch_revision sc m v s =
     sbind (found (find (\<lambda>c. vc_revisionId c = rv_id v) (mg_copies m)) (Fail RECEIPT_MISMATCH)) (\<lambda>c.
     sbind (fail_unless (vc_sourceManifestDigest c = rv_manifestDigest v \<and> pp_manifestDigest (vc_target c) = rv_manifestDigest v) RECEIPT_MISMATCH) (\<lambda>_.
     sbind (load_or (c_candidate s) (pp_candidateId (vc_target c)) (of_ws sc) STALE_FENCE) (\<lambda>reg.
     sbind (fail_unless (cr_collection reg = None \<and> cr_prepared reg = Some (vc_target c)) STALE_FENCE) (\<lambda>_.
     write_revision (rv_id v) (of_ws sc) (v\<lparr>rv_scope := pp_scope (vc_target c), rv_privateReference := pp_privateReference (vc_target c)\<rparr>) False None s))))"

definition switched_workspace :: "migration \<Rightarrow> timestamp \<Rightarrow> workspace \<Rightarrow> workspace" where
  "switched_workspace m now w = w\<lparr>ws_storageBindingId := sb_id (mg_targetBinding m), ws_bindingGeneration := sb_generation (mg_targetBinding m),
     ws_version := ws_version w + 1, ws_updatedAt := now\<rparr>"

definition completed_migration :: "timestamp \<Rightarrow> migration \<Rightarrow> migration" where
  "completed_migration now m = (touch_migration now m)\<lparr>mg_state := MigComplete, mg_switchedAt := Some now\<rparr>"

definition switch_checks :: "platform \<Rightarrow> switch_input \<Rightarrow> migration \<Rightarrow> workspace \<Rightarrow> catalog \<Rightarrow> failure + unit" where
  "switch_checks P i m w s =
     (let sc = mm_scope (mw_cas i); vs = revisions_of s sc in
      sbind (fail_unless (backup_ready m) INVALID_TRANSITION) (\<lambda>_.
      sbind (load_or (c_guards s) (mg_id m) (of_ws sc) REVISION_CONFLICT) (\<lambda>g.
      sbind (fail_unless (mw_expectedWorkspaceVersion i = gd_workspaceVersion g \<and> ws_version w = mw_expectedWorkspaceVersion i \<and>
               ws_currentRevisionId w = mw_expectedHeadRevisionId i \<and> ws_currentRevisionId w = mg_expectedHeadRevisionId m) REVISION_CONFLICT) (\<lambda>_.
      sbind (fail_unless (ws_storageBindingId w = mg_sourceBindingId m \<and> ws_bindingGeneration w = mg_sourceBindingGeneration m \<and>
               mw_expectedSourceBindingGeneration i = mg_sourceBindingGeneration m) STORAGE_BINDING_CHANGED) (\<lambda>_.
      sbind (retained_revision_set_digest P vs) (\<lambda>d.
      sbind (verified_copy_set_digest P (mg_copies m)) (\<lambda>e.
      fail_unless (d = mg_retainedRevisionSetDigest m \<and> d = mw_expectedRetainedRevisionSetDigest i \<and>
        e = mw_expectedVerifiedCopySetDigest i \<and> length (mg_copies m) = length vs \<and> mg_state m = Verified) RECEIPT_MISMATCH)))))))"

definition rebind :: "switch_input \<Rightarrow> migration \<Rightarrow> workspace \<Rightarrow> operation \<Rightarrow> catalog \<Rightarrow> failure + (command_result \<times> catalog)" where
  "rebind i m w o' s =
     (let sc = mm_scope (mw_cas i); now = mm_now (mw_cas i); w1 = switched_workspace m now w; m1 = completed_migration now m;
          o1 = complete_operation (o'\<lparr>op_claim := Some (mg_claim m)\<rparr>) (ResStorageMigrate (mg_id m) (ws_storageBindingId w1) (ws_bindingGeneration w1)) now in
      sbind (load_or (c_binding s) (ws_storageBindingId w) (of_ws sc) STORAGE_BINDING_CHANGED) (\<lambda>b.
      sbind (write_binding (sb_id b) (of_ws sc) (b\<lparr>sb_status := BindingRetired\<rparr>) False None s) (\<lambda>s1.
      sbind (write_binding (sb_id (mg_targetBinding m)) (of_ws sc) (mg_targetBinding m) True None s1) (\<lambda>s2.
      sbind (write_workspace (ws_id w1) (of_ws sc) w1 False None s2) (\<lambda>s3.
      sbind (write_migration (mg_id m1) (of_ws sc) m1 False None s3) (\<lambda>s4.
      sbind (save_outcome o1 (VWorkspace w1) s4) (\<lambda>s5.
      sbind (operation_events (mw_events i) o1 s5) (\<lambda>s6.
      Inr (CommandResult o1 (VWorkspace w1) False, s6)))))))))"

definition cut_over :: "switch_input \<Rightarrow> migration \<Rightarrow> workspace \<Rightarrow> operation \<Rightarrow> catalog \<Rightarrow> failure + (command_result \<times> catalog)" where
  "cut_over i m w o' s = sbind (each (switch_revision (mm_scope (mw_cas i)) m) (revisions_of s (mm_scope (mw_cas i))) s) (rebind i m w o')"

definition switch_storage_binding :: "platform \<Rightarrow> switch_input \<Rightarrow> catalog \<Rightarrow> failure + (command_result \<times> catalog)" where
  "switch_storage_binding P i s =
     (let cas = mw_cas i; sc = mm_scope cas; p = mw_principal i in
      sbind (permit s p WorkspaceMigrate (of_ws sc) (Some (mw_authorization i))) (\<lambda>_.
      sbind (load_or (c_migration s) (mm_migrationId cas) (of_ws sc) OPERATION_NOT_FOUND) (\<lambda>stored.
      sbind (migration_operation s stored sc p) (\<lambda>o'.
      if mg_state stored = MigComplete then
        sbind (fail_unless (pc_fence (mg_claim stored) = mm_fence cas) STALE_FENCE) (\<lambda>_.
        sbind (replay s (mg_command stored) p) (\<lambda>prior.
        sbind (found prior Crash) (\<lambda>r. Inr (r, s))))
      else
        sbind (migration_at s cas) (\<lambda>m.
        sbind (workspace_at s sc True) (\<lambda>w.
        sbind (drained sc s) (\<lambda>s1.
        sbind (switch_checks P i m w s1) (\<lambda>_.
        cut_over i m w o' s1))))))))"

section \<open>Failure\<close>

datatype fail_migration_input = FailMigration (mf_cas: migration_cas) (mf_message: string)

definition failed_migration :: "string \<Rightarrow> timestamp \<Rightarrow> migration \<Rightarrow> migration" where
  "failed_migration msg now m = (touch_migration now m)\<lparr>mg_state := MigFailed, mg_lastError := Some msg\<rparr>"

definition fail_storage_migration :: "fail_migration_input \<Rightarrow> catalog \<Rightarrow> failure + (migration \<times> catalog)" where
  "fail_storage_migration i s =
     (let cas = mf_cas i; sc = mm_scope cas; now = mm_now cas in
      sbind (migration_at s cas) (\<lambda>m.
      sbind (workspace_at s sc False) (\<lambda>w.
      sbind (fail_unless (\<not> truthy (mg_switchedAt m) \<and> ws_storageBindingId w = mg_sourceBindingId m \<and>
               ws_bindingGeneration w = mg_sourceBindingGeneration m) PUBLICATION_OUTCOME_UNKNOWN) (\<lambda>_.
      let m1 = failed_migration (mf_message i) now m in
      sbind (save_migration m1 s) (\<lambda>s1.
      sbind (found (tbl_load (c_operation s1) (cm_operationId (mg_command m)) (Some (of_ws sc))) Crash) (\<lambda>o'.
      sbind (write_operation (op_id o') (of_ws sc) (fail_operation o' STORAGE_UNAVAILABLE (mf_message i) now) False None s1) (\<lambda>s2.
      Inr (m1, s2))))))))"

section \<open>The catalog advances\<close>

lemma release_pins_advances:
  assumes "consistent u" and "distinct (map cp_id ps)"
    and "\<And>p. p \<in> set ps \<Longrightarrow> tbl_load (c_pin u) (cp_id p) (Some (of_ws sc)) = Some p"
  shows "post (each release_terminal_pin ps u) (\<lambda>v. (\<exists>t. v = u\<lparr>c_pin := t\<rparr>) \<and> advances (wsc_customerId sc) u v)"
  using assms
proof (induction ps arbitrary: u)
  case Nil
  have "u = u\<lparr>c_pin := c_pin u\<rparr>" by simp
  then have "\<exists>t. u = u\<lparr>c_pin := t\<rparr>" ..
  with advances_refl [OF Nil(1)] show ?case by (simp only: each.simps post_Inr)
next
  case (Cons p ps)
  from Cons.prems(3) [of p] have p: "tbl_load (c_pin u) (cp_id p) (Some (of_ws sc)) = Some p" by simp
  note own = own_row(17) [OF p Cons.prems(1)]
  define q where "q o' = u\<lparr>c_pin := put_row (cp_id p) (mk_row (of_ws sc) None (released_pin (op_id o') (op_updatedAt o') p)) (c_pin u)\<rparr>" for o' :: operation
  have adv: "advances (wsc_customerId sc) u (q o')" for o'
    unfolding q_def by (rule advance_pin [OF advances_refl [OF Cons.prems(1)] refl]) (use own in simp_all)
  have "post (each release_terminal_pin ps (q o')) (\<lambda>v. (\<exists>t. v = u\<lparr>c_pin := t\<rparr>) \<and> advances (wsc_customerId sc) u v)" for o'
  proof (rule post_mono [OF Cons.IH])
    fix v assume "(\<exists>t. v = (q o')\<lparr>c_pin := t\<rparr>) \<and> advances (wsc_customerId sc) (q o') v"
    then show "(\<exists>t. v = u\<lparr>c_pin := t\<rparr>) \<and> advances (wsc_customerId sc) u v"
      using advances_trans [OF adv [of o']] by (fastforce simp: q_def)
  next
    show "consistent (q o')" by (rule advances_consistent [OF adv])
  next
    fix r assume r: "r \<in> set ps"
    with Cons.prems(2) have "cp_id r \<noteq> cp_id p" by (auto simp: rev_image_eqI)
    with Cons.prems(3) [of r] r show "tbl_load (c_pin (q o')) (cp_id r) (Some (of_ws sc)) = Some r"
      by (simp add: q_def)
  qed (use Cons.prems(2) in simp)
  moreover have "release_terminal_pin p u = (case terminal_copy u p None of
      None \<Rightarrow> Inl (Fail FINALIZATION_IN_PROGRESS) | Some o' \<Rightarrow> Inr (q o'))"
    using own by (simp add: release_terminal_pin_def q_def write_pin_def split: option.split)
  ultimately show ?case
    by (cases "terminal_copy u p None") (simp_all only: each.simps sbind_Inl sbind_Inr option.case post_Inl)
qed

lemma drained_advances:
  assumes "consistent s"
  shows "post (drained sc s) (\<lambda>v. (\<exists>t. v = s\<lparr>c_pin := t\<rparr>) \<and> advances (wsc_customerId sc) s v)"
proof -
  have pins: "tbl_wf (c_pin s)" using assms by (simp add: consistent_def catalog_wf_def)
  have key: "cp_id d = i" if "tbl_load (c_pin s) i None = Some d" for i d
    using rows_ok_load [OF _ that, of pin_ok] assms by (auto simp: consistent_def pin_ok_def)
  have "post (each release_terminal_pin (filter (\<lambda>p. cp_state p = PinHeld) (tbl_all (c_pin s) (Some (of_ws sc)))) s)
      (\<lambda>v. (\<exists>t. v = s\<lparr>c_pin := t\<rparr>) \<and> advances (wsc_customerId sc) s v)"
    by (rule release_pins_advances) (use assms distinct_tbl_all [of "c_pin s" cp_id, OF pins key] tbl_all_load [of "c_pin s" cp_id, OF pins key] in \<open>auto simp: distinct_map_filter\<close>)
  then show ?thesis
    by (simp add: drained_def post_simps) (blast intro: post_mono)
qed

lemma post_drained:
  assumes "consistent s" and "\<And>t. advances (wsc_customerId sc) s (s\<lparr>c_pin := t\<rparr>) \<Longrightarrow> consistent (s\<lparr>c_pin := t\<rparr>) \<Longrightarrow> Q (s\<lparr>c_pin := t\<rparr>)"
  shows "post (drained sc s) Q"
  using drained_advances [OF assms(1)] by (rule post_mono) (use assms(2) advances_consistent in blast)

lemma migration_moves [simp]:
  "mg_id (touch_migration now m) = mg_id m" "mg_scope (touch_migration now m) = mg_scope m" "mg_command (touch_migration now m) = mg_command m"
  "mg_id (failed_migration msg now m) = mg_id m" "mg_scope (failed_migration msg now m) = mg_scope m" "mg_command (failed_migration msg now m) = mg_command m"
  "mg_id (completed_migration now m) = mg_id m" "mg_scope (completed_migration now m) = mg_scope m" "mg_command (completed_migration now m) = mg_command m"
  "migration_ok sc i (touch_migration now m) = migration_ok sc i m"
  "migration_ok sc i (failed_migration msg now m) = migration_ok sc i m" "migration_ok sc i (completed_migration now m) = migration_ok sc i m"
  "migration_ok sc i (m\<lparr>mg_claim := c\<rparr>) = migration_ok sc i m" "migration_ok sc i (m\<lparr>mg_backup := b\<rparr>) = migration_ok sc i m"
  "migration_ok sc i (m\<lparr>mg_state := st\<rparr>) = migration_ok sc i m" "migration_ok sc i (m\<lparr>mg_candidates := ks\<rparr>) = migration_ok sc i m"
  by (simp_all add: touch_migration_def failed_migration_def completed_migration_def migration_ok_def)

lemma migration_next_moves [simp]:
  "mg_next m (touch_migration now (m\<lparr>mg_claim := c\<rparr>)) \<longleftrightarrow> open_migration m \<and> pc_fence (mg_claim m) \<le> pc_fence c"
  "mg_next m (touch_migration now (m\<lparr>mg_backup := b\<rparr>)) \<longleftrightarrow> open_migration m"
  "mg_next m (touch_migration now (m\<lparr>mg_candidates := mg_candidates m @ ks, mg_state := st\<rparr>)) \<longleftrightarrow> open_migration m"
  "mg_next m (with_copy k n now m) \<longleftrightarrow> open_migration m"
  "mg_next m (failed_migration msg now m) \<longleftrightarrow> open_migration m" "mg_next m (completed_migration now m) \<longleftrightarrow> open_migration m"
  by (auto simp: mg_next_def touch_migration_def failed_migration_def completed_migration_def with_copy_def)

lemma target_scope_workspace [simp]: "bs_workspace (target_scope_of sc m) = sc"
  by (cases sc) (simp add: target_scope_of_def bs_workspace_def)

lemma migration_at_own:
  "migration_at s i = Inr m \<Longrightarrow> consistent s \<Longrightarrow>
   tbl_load (c_migration s) (mm_migrationId i) (Some (of_ws (mm_scope i))) = Some m \<and>
   tbl_load (c_migration s) (mm_migrationId i) None = Some m \<and> migration_ok (of_ws (mm_scope i)) (mm_migrationId i) m \<and>
   mg_id m = mm_migrationId i \<and> mg_scope m = mm_scope i \<and> open_migration m \<and> mg_version m = mm_expectedVersion i \<and>
   pc_fence (mg_claim m) = mm_fence i \<and> migrates (c_operation s) (mg_command m) (mm_scope i)"
  unfolding migration_at_def txn_simps by (elim exE conjE, frule (1) own_row(15), frule (1) migration_migrates(1)) auto

lemma post_migration_at [post_simps]: "post (migration_at s i) Q \<longleftrightarrow> (\<forall>m. migration_at s i = Inr m \<longrightarrow> Q m)"
  by (simp add: post_def)

lemma not_settled_migrates: "migrates t c sc \<Longrightarrow> tbl_load t (cm_operationId c) None = Some o' \<Longrightarrow> \<not> settled o'"
  by (auto simp: migrates_def settled_def dest: tbl_load_unscoped)

text \<open>Saving an open migration, over a catalog that still has its operation.\<close>

lemma save_migration_advances:
  assumes "advances c s u" and "tbl_load (c_migration u) (mg_id m) (Some (of_ws (mg_scope m))) = Some e" and "mg_next e m"
    and "migration_ok (of_ws (mg_scope m)) (mg_id m) m" and "migrates (c_operation s) (mg_command m) (mg_scope m)"
    and "wsc_customerId (mg_scope m) = c" and "migrates (c_operation u) (mg_command m) (mg_scope m)"
  shows "post (save_migration m u) (\<lambda>v. advances c s v)"
  using assms own_row(15) [OF assms(2) advances_consistent [OF assms(1)]]
  by (auto simp: save_migration_def post_simps not_settled_migrates intro!: advance)

lemma sync_claim_advances:
  assumes "advances c s u" and "migrates (c_operation u) k sc" and "wsc_customerId sc = c"
  shows "post (sync_claim (cm_operationId k) sc cl now u) (\<lambda>v. advances c s v \<and> migrates (c_operation v) k sc \<and>
    c_migration v = c_migration u \<and> c_adoption v = c_adoption u)"
proof -
  have "advances c s (u\<lparr>c_operation := put_row (op_id o') (mk_row (of_ws sc) None (claimed_operation cl now o')) (c_operation u)\<rparr>) \<and>
     migrates (put_row (op_id o') (mk_row (of_ws sc) None (claimed_operation cl now o')) (c_operation u)) k sc"
    if o': "tbl_load (c_operation u) (cm_operationId k) (Some (of_ws sc)) = Some o'" for o'
  proof -
    note own = own_row(5) [OF o' advances_consistent [OF assms(1)]]
    have "op_kind o' = KStorageMigrate" using migrates_load [OF assms(2) o'] .
    then have "op_next o' (claimed_operation cl now o')" by (simp add: op_next_def claimed_operation_def same_operation_def)
    then show ?thesis using own assms by (auto intro!: advance_operation migrates_put)
  qed
  then show ?thesis by (auto simp: sync_claim_def post_simps)
qed

lemma reclaim_migration_advances:
  assumes "consistent s" and "tbl_load (c_migration s) i (Some (of_ws sc)) = Some m" and "open_migration m" and "pc_fence (mg_claim m) \<le> pc_fence c"
  shows "post (reclaim_migration c now sc m s) (\<lambda>(r, s'). advances (wsc_customerId sc) s s')"
proof -
  note own = own_row(15) [OF assms(2,1)] migration_migrates(1) [OF assms(2,1)]
  have "post (sync_claim (cm_operationId (mg_command m)) sc c now s) (\<lambda>v. advances (wsc_customerId sc) s v \<and>
      migrates (c_operation v) (mg_command m) sc \<and> c_migration v = c_migration s \<and> c_adoption v = c_adoption s)"
    by (rule sync_claim_advances) (use own assms(1) in \<open>auto simp: advances_refl\<close>)
  then show ?thesis unfolding reclaim_migration_def Let_def post_sbind split_beta
    by (rule post_mono) (use own assms in \<open>auto simp: post_simps intro!: save_migration_advances [where e = m]\<close>)
qed

lemma claim_storage_migration_recovery_advances:
  "consistent s \<Longrightarrow> post (claim_storage_migration_recovery i s) (\<lambda>(r, s'). advances (wsc_customerId (mv_scope i)) s s')"
  by (auto simp: claim_storage_migration_recovery_def Let_def post_simps intro!: reclaim_migration_advances)

lemma renew_storage_migration_claim_advances:
  "consistent s \<Longrightarrow> post (renew_storage_migration_claim i s) (\<lambda>(r, s'). advances (wsc_customerId (mm_scope (mn_cas i))) s s')"
  by (auto simp: renew_storage_migration_claim_def Let_def post_simps intro!: reclaim_migration_advances dest!: migration_at_own)

lemma release_storage_migration_claim_advances:
  "consistent s \<Longrightarrow> post (release_storage_migration_claim i s) (\<lambda>(r, s'). advances (wsc_customerId (mm_scope (ml_cas i))) s s')"
  by (auto simp: release_storage_migration_claim_def Let_def post_simps intro!: reclaim_migration_advances dest!: migration_at_own)

lemma claim_migration_backup_advances:
  "consistent s \<Longrightarrow> post (claim_migration_backup i s) (\<lambda>(r, s'). advances (wsc_customerId (mm_scope (mk_cas i))) s s')"
  by (auto simp: claim_migration_backup_def Let_def post_simps intro!: post_drained save_migration_advances [THEN post_mono] dest!: migration_at_own)

lemma begin_capture_advances:
  "consistent s \<Longrightarrow> post (begin_capture i s) (\<lambda>(r, s'). advances (wsc_customerId (mm_scope i)) s s')"
  by (auto simp: begin_capture_def Let_def post_simps intro!: post_drained)

lemma complete_migration_backup_advances:
  "consistent s \<Longrightarrow> post (complete_migration_backup i s) (\<lambda>(r, s'). advances (wsc_customerId (mm_scope (mz_cas i))) s s')"
  by (auto simp: complete_migration_backup_def Let_def post_simps intro!: post_drained save_migration_advances [THEN post_mono] dest!: migration_at_own)

lemma claim_migration_candidate_advances:
  "consistent s \<Longrightarrow> post (claim_migration_candidate P i s) (\<lambda>(r, s'). advances (wsc_customerId (mm_scope (my_cas i))) s s')"
  by (auto simp: claim_migration_candidate_def migration_operation_def migration_identity_ok_def Let_def post_simps
      candidate_ok_def writable_insert scope_selectors intro!: post_drained save_migration_advances [THEN post_mono] advance_candidate dest!: migration_at_own)

lemma with_copy_ok:
  assumes "migration_ok (of_ws sc) j m" and "copy_matches sc m v c" and "find (\<lambda>k. vc_revisionId k = vc_revisionId c) (mg_copies m) = None"
    and "rv_id v = vc_revisionId c" and "mg_scope m = sc"
  shows "migration_ok (of_ws sc) j (with_copy c n now m)"
  using assms by (auto simp: migration_ok_def with_copy_def touch_migration_def copy_matches_def target_scope_of_def Let_def find_None_iff)

lemma with_copy_simps [simp]:
  "mg_id (with_copy c n now m) = mg_id m" "mg_scope (with_copy c n now m) = mg_scope m" "mg_command (with_copy c n now m) = mg_command m"
  by (simp_all add: with_copy_def)

lemma record_verified_revision_copy_advances:
  "consistent s \<Longrightarrow> post (record_verified_revision_copy i s) (\<lambda>(r, s'). advances (wsc_customerId (mm_scope (mr_cas i))) s s')"
  by (auto simp: record_verified_revision_copy_def Let_def post_simps copy_matches_def
      intro!: post_drained save_migration_advances [THEN post_mono] advance_candidate with_copy_ok
      dest!: migration_at_own matched_candidate own_row(3))

text \<open>The operation of a stored migration.\<close>

lemma migrating_operation:
  "migrates (c_operation s) k sc \<Longrightarrow> tbl_load (c_operation s) (cm_operationId k) (Some (of_ws sc)) = Some o' \<Longrightarrow> consistent s \<Longrightarrow>
   migrates (c_operation s) k sc \<and> op_kind o' = KStorageMigrate \<and> writable (c_operation s) (cm_operationId k) (of_ws sc) False \<and>
   tbl_load (c_operation s) (cm_operationId k) None = Some o' \<and> operation_ok (of_ws sc) (cm_operationId k) o' \<and>
   op_id o' = cm_operationId k \<and> op_scope o' = sc"
  using own_row(5) migrates_load by blast

lemma migration_operation_moves [simp]:
  "op_kind o' = KStorageMigrate \<Longrightarrow> op_next o' (complete_operation (o'\<lparr>op_claim := k\<rparr>) r now)"
  by (simp add: op_next_def same_operation_def complete_operation_def)

lemma completed_operation_ok [simp]:
  "operation_ok sc i o' \<Longrightarrow> operation_ok sc i (complete_operation (o'\<lparr>op_claim := k\<rparr>) r now)"
  by (auto simp: operation_ok_def complete_operation_def intent_ok_def split: intent.splits run_mode.splits)

lemma new_migration_simps [simp]:
  "mg_id (new_migration i w) = km_migrationId i" "mg_scope (new_migration i w) = km_scope i" "mg_command (new_migration i w) = km_command i"
  "mg_targetBinding (new_migration i w) = km_targetBinding i" "mg_copies (new_migration i w) = []"
  by (simp_all add: new_migration_def)

lemma processing_operation_ok [simp]:
  "operation_ok (of_ws sc) i ((new_operation c p sc None None)\<lparr>op_claim := Some k\<rparr>) \<longleftrightarrow>
     cm_operationId c = i \<and> is_kind (cm_scope c) \<noteq> KFinalize \<and> is_kind (cm_scope c) \<noteq> KWorkspaceCreate \<and> is_kind (cm_scope c) \<noteq> KRestore"
  by (auto simp: operation_ok_def intent_ok_def new_operation_def)

lemma fail_storage_migration_advances:
  assumes "consistent s"
  shows "post (fail_storage_migration i s) (\<lambda>(r, s'). advances (wsc_customerId (mm_scope (mf_cas i))) s s')"
proof -
  have "advances (wsc_customerId (mm_scope (mf_cas i))) s v"
    if m: "migration_at s (mf_cas i) = Inr m" and o': "tbl_load (c_operation s) (cm_operationId (mg_command m)) (Some (of_ws (mm_scope (mf_cas i)))) = Some o'"
      and v: "v = (update_command (cm_operationId (mg_command m)) k (s\<lparr>c_migration := put_row (mg_id m) (mk_row (of_ws (mg_scope m)) None
        (failed_migration msg now m)) (c_migration s)\<rparr>))\<lparr>c_operation := put_row (op_id o') (mk_row (of_ws (mm_scope (mf_cas i))) None
        (fail_operation o' STORAGE_UNAVAILABLE msg now)) (c_operation s)\<rparr>" for m o' v k msg now
  proof -
    note own = migration_at_own [OF m assms]
    with migrating_operation [OF _ o' assms] have op: "op_kind o' = KStorageMigrate" "writable (c_operation s) (op_id o') (of_ws (mm_scope (mf_cas i))) False"
      "tbl_load (c_operation s) (op_id o') None = Some o'" "operation_ok (of_ws (mm_scope (mf_cas i))) (op_id o') o'" "op_scope o' = mm_scope (mf_cas i)" by auto
    have "\<not> settled p" if "tbl_load (c_operation s) (cm_operationId (mg_command m)) None = Some p" for p
      using not_settled_migrates that own by blast
    then show ?thesis
      unfolding v using own op assms by (auto intro!: advance own_row loaded_writable_scope simp: advances_refl)
  qed
  then show ?thesis
    by (auto simp: fail_storage_migration_def save_migration_def Let_def post_simps)
qed

lemma claim_storage_migration_advances:
  "consistent s \<Longrightarrow> post (claim_storage_migration P i s) (\<lambda>(r, s'). advances (wsc_customerId (km_scope i)) s s')"
  apply (simp add: claim_storage_migration_def Let_def split_beta post_simps)
  apply (auto simp: post_value[of "retained_revision_set_digest _ _"] post_simps advances_refl)
  apply (rule advance_command [OF advance_new_migration [OF advance_guards]])
  apply (simp_all add: advances_refl find_command_def writable_insert command_kind migration_ok_def)
  done

lemma rv_next_closure: "rv_next\<^sup>*\<^sup>* v w \<Longrightarrow> w = v \<or> rv_next v w"
  by (induction rule: rtranclp_induct) (auto simp: rv_next_def)

lemma switched_revision_advances:
  assumes "advances (wsc_customerId sc) s u" and "tbl_load (c_revision s) (rv_id v) (Some (of_ws sc)) = Some v" and "consistent s"
    and "bs_workspace b = sc"
  shows "advances (wsc_customerId sc) s (u\<lparr>c_revision := put_row (rv_id v) (mk_row (of_ws sc) None
    (v\<lparr>rv_scope := b, rv_privateReference := l\<rparr>)) (c_revision u)\<rparr>)"
proof -
  from assms(1) have "evolves rv_next\<^sup>*\<^sup>* (c_revision s) (c_revision u)" by (simp add: advances_def evolution_def)
  from evolves_load [OF this assms(2)] obtain e where e: "tbl_load (c_revision u) (rv_id v) (Some (of_ws sc)) = Some e" "e = v \<or> rv_next\<^sup>*\<^sup>* v e"
    by (elim exE conjE)
  then have next': "e = v \<or> rv_next v e" using rv_next_closure by auto
  note at = own_row(3) [OF e(1) advances_consistent [OF assms(1)]]
  show ?thesis
  proof (rule advance_revision [OF assms(1) refl])
    show "revision_ok (of_ws sc) (rv_id v) (v\<lparr>rv_scope := b, rv_privateReference := l\<rparr>)"
      using assms(4) by (simp add: revision_ok_def)
  next
    fix d assume "tbl_load (c_revision u) (rv_id v) None = Some d"
    with at have "d = e" by simp
    with next' show "v\<lparr>rv_scope := b, rv_privateReference := l\<rparr> = d \<or> rv_next d (v\<lparr>rv_scope := b, rv_privateReference := l\<rparr>)"
      by (auto simp: rv_next_def)
  qed (use at in simp_all)
qed

lemma post_switch_revision:
  "post (switch_revision sc m v s) Q \<longleftrightarrow> (\<forall>c reg. find (\<lambda>c. vc_revisionId c = rv_id v) (mg_copies m) = Some c \<and>
     vc_sourceManifestDigest c = rv_manifestDigest v \<and> pp_manifestDigest (vc_target c) = rv_manifestDigest v \<and>
     tbl_load (c_candidate s) (pp_candidateId (vc_target c)) (Some (of_ws sc)) = Some reg \<and> cr_collection reg = None \<and>
     cr_prepared reg = Some (vc_target c) \<and> writable (c_revision s) (rv_id v) (of_ws sc) False \<longrightarrow>
     Q (s\<lparr>c_revision := put_row (rv_id v) (mk_row (of_ws sc) None
          (v\<lparr>rv_scope := pp_scope (vc_target c), rv_privateReference := pp_privateReference (vc_target c)\<rparr>)) (c_revision s)\<rparr>))"
  unfolding switch_revision_def post_simps by blast

lemma switch_revisions_advances:
  assumes "consistent s" and "\<And>v. v \<in> set vs \<Longrightarrow> tbl_load (c_revision s) (rv_id v) (Some (of_ws sc)) = Some v"
    and "migration_ok (of_ws sc) i m" and "mg_scope m = sc"
  shows "post (each (switch_revision sc m) vs s) (\<lambda>u. advances (wsc_customerId sc) s u \<and> u\<lparr>c_revision := []\<rparr> = s\<lparr>c_revision := []\<rparr>)"
proof (rule post_each)
  fix v u assume v: "v \<in> set vs" and u: "advances (wsc_customerId sc) s u \<and> u\<lparr>c_revision := []\<rparr> = s\<lparr>c_revision := []\<rparr>"
  have "bs_workspace (pp_scope (vc_target c)) = sc" if "find (\<lambda>c. vc_revisionId c = rv_id v) (mg_copies m) = Some c" for c
    using assms(3,4) that by (cases sc) (auto simp: migration_ok_def bs_workspace_def find_Some_iff)
  then show "post (switch_revision sc m v u) (\<lambda>u. advances (wsc_customerId sc) s u \<and> u\<lparr>c_revision := []\<rparr> = s\<lparr>c_revision := []\<rparr>)"
    unfolding post_switch_revision using switched_revision_advances [OF conjunct1 [OF u] assms(2) [OF v] assms(1)] conjunct2 [OF u]
    by simp
qed (use advances_refl [OF assms(1)] in simp)

lemma revisions_only:
  assumes "u\<lparr>c_revision := []\<rparr> = s\<lparr>c_revision := []\<rparr>"
  shows "c_workspace u = c_workspace s" and "c_binding u = c_binding s" and "c_operation u = c_operation s" and "c_migration u = c_migration s"
  using arg_cong [OF assms, of c_workspace] arg_cong [OF assms, of c_binding] arg_cong [OF assms, of c_operation]
    arg_cong [OF assms, of c_migration] by simp_all

lemma in_revisions_of:
  assumes "consistent s" and "v \<in> set (revisions_of s sc)"
  shows "tbl_load (c_revision s) (rv_id v) (Some (of_ws sc)) = Some v"
proof -
  have wf: "tbl_wf (c_revision s)" using assms(1) by (simp add: consistent_def catalog_wf_def)
  have key: "rv_id d = i" if "tbl_load (c_revision s) i None = Some d" for i d
    using rows_ok_load [OF _ that, of revision_ok] assms(1) by (auto simp: consistent_def revision_ok_def)
  show ?thesis
    by (rule tbl_all_load [of "c_revision s" rv_id, OF wf]) (use key assms(2) in \<open>simp_all add: revisions_of_def\<close>)
qed

lemma switched_workspace_simps [simp]:
  "ws_id (switched_workspace m now w) = ws_id w" "ws_next w (switched_workspace m now w)"
  "workspace_ok sc i (switched_workspace m now w) = workspace_ok sc i w"
  by (simp_all add: switched_workspace_def ws_next_def workspace_ok_def scope_of_def)

text \<open>What the switch has loaded when it starts to write.\<close>

definition switch_ready :: "catalog \<Rightarrow> workspace_scope \<Rightarrow> migration \<Rightarrow> workspace \<Rightarrow> operation \<Rightarrow> bool" where
  "switch_ready s sc m w o' \<longleftrightarrow> tbl_load (c_migration s) (mg_id m) (Some (of_ws sc)) = Some m \<and> mg_scope m = sc \<and> open_migration m \<and>
     tbl_load (c_workspace s) (wsc_workspaceId sc) (Some (of_ws sc)) = Some w \<and>
     tbl_load (c_operation s) (cm_operationId (mg_command m)) (Some (of_ws sc)) = Some o'"

lemma advance_two_bindings:
  assumes "advances c s u" and "t = c_binding u" and "writable t i sc False" and "scope_customer sc = c" and "binding_ok sc i d"
    and "\<And>e. tbl_load t i None = Some e \<Longrightarrow> d = e \<or> sb_next e d"
    and "binding_ok sc j b" and "j \<noteq> i" and "tbl_load t j None = None"
  shows "advances c s (u\<lparr>c_binding := put_row j (mk_row sc rid b) (put_row i (mk_row sc rid' d) t)\<rparr>)"
proof -
  let ?v = "u\<lparr>c_binding := put_row i (mk_row sc rid' d) t\<rparr>"
  have "advances c s ?v" by (rule advance_binding [OF assms(1-6)])
  then have "advances c s (?v\<lparr>c_binding := put_row j (mk_row sc rid b) (c_binding ?v)\<rparr>)"
    by (rule advance_binding [OF _ refl]) (use assms(4,7,8,9) in \<open>simp_all add: writable_insert [THEN iffD2]\<close>)
  then show ?thesis by simp
qed

lemma rebind_advances:
  assumes "consistent s" and "switch_ready s (mm_scope (mw_cas i)) m w o'" and "advances (wsc_customerId (mm_scope (mw_cas i))) s u"
    and "u\<lparr>c_revision := []\<rparr> = s\<lparr>c_revision := []\<rparr>"
  shows "post (rebind i m w o' u) (\<lambda>(r, s'). advances (wsc_customerId (mm_scope (mw_cas i))) s s')"
proof -
  let ?sc = "mm_scope (mw_cas i)"
  have loads: "tbl_load (c_migration s) (mg_id m) (Some (of_ws ?sc)) = Some m" "mg_scope m = ?sc" "open_migration m"
    "tbl_load (c_workspace s) (wsc_workspaceId ?sc) (Some (of_ws ?sc)) = Some w"
    "tbl_load (c_operation s) (cm_operationId (mg_command m)) (Some (of_ws ?sc)) = Some o'"
    using assms(2) by (simp_all add: switch_ready_def)
  note mig = own_row(15) [OF loads(1) assms(1)] and ws = own_row(1) [OF loads(4) assms(1)]
  have owned: "migrates (c_operation s) (mg_command m) ?sc" using migration_migrates(1) [OF loads(1) assms(1)] loads(2) by simp
  note op = migrating_operation [OF owned loads(5) assms(1)]
  have "sb_scope (mg_targetBinding m) = mg_scope m" using mig unfolding migration_ok_def by blast
  then have binding: "sb_scope (mg_targetBinding m) = ?sc" using loads(2) by (rule trans)
  show ?thesis
    unfolding rebind_def Let_def
    apply (simp add: revisions_only [OF assms(4)] post_simps)
    using assms(1,3) loads mig ws op owned binding revisions_only [OF assms(4)]
    apply (auto intro!: advance_audit advance_outbox advance_update_command advance_operation advance_migration advance_workspace advance_two_bindings
       simp: audit_ok_def outbox_ok_def binding_ok_def not_settled_migrates writable_insert migrates_put sb_next_def dest!: own_row(2) event_matches_scope)
    done
qed

lemma cut_over_advances:
  assumes "consistent s" and "switch_ready s (mm_scope (mw_cas i)) m w o'"
  shows "post (cut_over i m w o' s) (\<lambda>(r, s'). advances (wsc_customerId (mm_scope (mw_cas i))) s s')"
proof -
  let ?sc = "mm_scope (mw_cas i)"
  have m: "tbl_load (c_migration s) (mg_id m) (Some (of_ws ?sc)) = Some m" "mg_scope m = ?sc"
    using assms(2) by (simp_all add: switch_ready_def)
  have "post (each (switch_revision ?sc m) (revisions_of s ?sc) s)
      (\<lambda>u. advances (wsc_customerId ?sc) s u \<and> u\<lparr>c_revision := []\<rparr> = s\<lparr>c_revision := []\<rparr>)"
    using own_row(15) [OF m(1) assms(1)] by (intro switch_revisions_advances [OF assms(1) in_revisions_of [OF assms(1)]]) (auto simp: m(2))
  then show ?thesis
    unfolding cut_over_def post_sbind by (rule post_mono) (use rebind_advances [OF assms] in blast)
qed

lemma switch_storage_binding_advances:
  "consistent s \<Longrightarrow> post (switch_storage_binding P i s) (\<lambda>(r, s'). advances (wsc_customerId (mm_scope (mw_cas i))) s s')"
  unfolding switch_storage_binding_def Let_def post_simps migration_operation_def
  apply (auto simp: advances_refl)
  apply (rule post_drained, assumption)
  apply (simp add: post_value [of "switch_checks _ _ _ _ _"])
  apply (clarify dest!: migration_at_own)
  apply (rule post_mono [OF cut_over_advances])
  apply (auto simp: switch_ready_def intro: advances_trans)
  done

end
