(* ===== verification/Cv_Adoption.thy ===== *)
theory Cv_Adoption
  imports Cv_Migration
begin

text \<open>
  Legacy adoption of \<open>sqlite-control-store.ts\<close>: an offline legacy workspace enters the catalog with
  its whole revision history. The claim checks that the selected inventory is one complete chain with
  a unique opaque identity per revision; acceptance publishes every revision, its alias, the binding
  and the workspace in one transaction.
\<close>

section \<open>Authority and claim\<close>

datatype adoption_cas = AdoptionCAS (da_scope: workspace_scope) (da_adoptionId: id) (da_expectedVersion: int) (da_fence: int) (da_now: timestamp)

definition get_legacy_adoption :: "catalog \<Rightarrow> workspace_scope \<Rightarrow> id \<Rightarrow> adoption option" where
  "get_legacy_adoption s sc i = tbl_load (c_adoption s) i (Some (of_ws sc))"

definition adoption_at :: "catalog \<Rightarrow> adoption_cas \<Rightarrow> failure + adoption" where
  "adoption_at s i =
     sbind (load_or (c_adoption s) (da_adoptionId i) (of_ws (da_scope i)) OPERATION_NOT_FOUND) (\<lambda>a.
     sbind (fail_unless (ad_state a \<noteq> AdoptionComplete \<and> pc_fence (ad_claim a) = da_fence i \<and> da_now i < pc_expiresAt (ad_claim a)) STALE_FENCE) (\<lambda>_.
     sbind (fail_unless (ad_version a = da_expectedVersion i) VERSION_CONFLICT) (\<lambda>_. Inr a)))"

definition save_adoption :: "adoption \<Rightarrow> catalog \<Rightarrow> failure + catalog" where
  "save_adoption a s =
     sbind (write_adoption (ad_id a) (of_ws (ad_scope a)) a False None s) (\<lambda>s1.
     Inr (update_command (cm_operationId (ad_command a)) (VAdoption a) s1))"

definition adoption_authority :: "catalog \<Rightarrow> principal \<Rightarrow> adoption \<Rightarrow> authorization option \<Rightarrow> authorization option \<Rightarrow> failure + unit" where
  "adoption_authority s p a create migrate =
     (let customer = InCustomer (wsc_customerId (ad_scope a)) in
      sbind (permit s p WorkspaceCreate customer create) (\<lambda>_.
      sbind (permit s p WorkspaceMigrate customer migrate) (\<lambda>_.
      fail_unless (case tbl_load (c_operation s) (cm_operationId (ad_command a)) (Some (of_ws (ad_scope a))) of
          None \<Rightarrow> True
        | Some o' \<Rightarrow> identity_of (op_principal o') = identity_of p) FORBIDDEN)))"

text \<open>The scan of the inventory: the sets seen so far and the last alias and revision.\<close>

record history =
  hi_aliases :: "string list"
  hi_candidates :: "id list"
  hi_revisions :: "id list"
  hi_parent :: "string option"
  hi_canonical :: "id option"

definition history_entry_ok :: "catalog \<Rightarrow> adoption \<Rightarrow> legacy_revision \<Rightarrow> adoption_candidate \<Rightarrow> string \<Rightarrow> history \<Rightarrow> bool" where
  "history_entry_ok s a src k d h \<longleftrightarrow> (let c = ac_identity k in
     lr_manifestDigest src = d \<and> cd_revisionId c \<noteq> [] \<and> cd_revisionId c \<noteq> lr_alias src \<and> cd_revisionId c \<notin> set (hi_revisions h) \<and>
     cd_parentRevisionId c = hi_canonical h \<and> cd_operationId c = cm_operationId (ad_command a) \<and> cd_scope c = binding_of (ad_workspace a) \<and>
     cd_candidateId c \<notin> set (hi_candidates h) \<and> tbl_load (c_revision s) (cd_revisionId c) None = None)"

definition check_history_entry :: "platform \<Rightarrow> catalog \<Rightarrow> adoption \<Rightarrow> legacy_revision \<times> adoption_candidate \<Rightarrow> history \<Rightarrow> failure + history" where
  "check_history_entry P s a q h = (case q of (src, k) \<Rightarrow>
     sbind (fail_unless (lr_alias src \<noteq> [] \<and> lr_alias src \<notin> set (hi_aliases h) \<and> lr_parentAlias src = hi_parent h \<and> ac_source k = src) INVALID_REQUEST) (\<lambda>_.
     sbind (manifest_digest P no_override (lr_manifest src)) (\<lambda>d.
     sbind (fail_unless (history_entry_ok s a src k d h) INVALID_REQUEST) (\<lambda>_.
     Inr \<lparr>hi_aliases = lr_alias src # hi_aliases h, hi_candidates = cd_candidateId (ac_identity k) # hi_candidates h,
          hi_revisions = cd_revisionId (ac_identity k) # hi_revisions h, hi_parent = Some (lr_alias src),
          hi_canonical = Some (cd_revisionId (ac_identity k))\<rparr>))))"

definition empty_history :: history where
  "empty_history = \<lparr>hi_aliases = [], hi_candidates = [], hi_revisions = [], hi_parent = None, hi_canonical = None\<rparr>"

definition adoption_request_ok :: "adoption \<Rightarrow> bool" where
  "adoption_request_ok a \<longleftrightarrow> (let sc = ad_scope a; inv = ad_inventory a; w = ad_workspace a; b = ad_binding a in
     sha256_text (ad_sourceFingerprint a) \<and> is_absolute (ad_sourceRoot a) \<and> is_absolute (ad_databasePath a) \<and>
     is_absolute (mb_directory (ad_backup a)) \<and> mb_state (ad_backup a) = BackupPreparing \<and> mb_receiptDigest (ad_backup a) = None \<and>
     ad_copies a = [] \<and> ad_state a = AdoptionPreparing \<and> ad_version a = 1 \<and> ln_eligible inv \<and> ln_issues inv = [] \<and> ln_revisions inv \<noteq> [] \<and>
     ln_workspaceId inv = wsc_workspaceId sc \<and> ln_customerId inv = Some (wsc_customerId sc) \<and> ln_status inv = ''active'' \<and>
     ws_id w = wsc_workspaceId sc \<and> ws_customerId w = wsc_customerId sc \<and> ws_name w = ln_name inv \<and> ws_version w = 1 \<and>
     ws_status w = WsActive \<and> sb_scope b = sc \<and> sb_id b = ws_storageBindingId w \<and> sb_generation b = ws_bindingGeneration w \<and>
     sb_generation b = 1 \<and> sb_status b = BindingActive \<and> length (ad_candidates a) = length (ln_revisions inv))"

definition adoption_identity_free :: "catalog \<Rightarrow> adoption \<Rightarrow> bool" where
  "adoption_identity_free s a \<longleftrightarrow> (let sc = Some (of_ws (ad_scope a)) in
     tbl_load (c_workspace s) (ws_id (ad_workspace a)) None = None \<and> tbl_load (c_binding s) (sb_id (ad_binding a)) None = None \<and>
     tbl_all (c_adoption s) sc = [] \<and> \<not> list_ex (\<lambda>o'. op_state o' = OpProcessing) (tbl_all (c_operation s) sc))"

datatype claim_adoption_input = ClaimAdoption (ka_principal: principal) (ka_authorization: authorization)
  (ka_migrationAuthorization: authorization) (ka_adoption: adoption) (ka_now: timestamp)

definition claim_legacy_adoption :: "platform \<Rightarrow> claim_adoption_input \<Rightarrow> catalog \<Rightarrow> failure + (adoption \<times> catalog)" where
  "claim_legacy_adoption P i s =
     (let a = ka_adoption i; sc = ad_scope a; p = ka_principal i; c = ad_command a; inv = ad_inventory a in
      sbind (check_command c p (of_ws sc) KStorageMigrate None) (\<lambda>_.
      sbind (adoption_authority s p a (Some (ka_authorization i)) (Some (ka_migrationAuthorization i))) (\<lambda>_.
      sbind (replay s c p) (\<lambda>prior. case prior of
        Some r \<Rightarrow>
          sbind (load_or (c_adoption s) (ad_id a) (of_ws sc) IDEMPOTENCY_KEY_REUSED) (\<lambda>kept.
          sbind (fail_unless (cm_operationId (ad_command kept) = op_id (cx_operation r)) IDEMPOTENCY_KEY_REUSED) (\<lambda>_. Inr (kept, s)))
      | None \<Rightarrow>
          sbind (fail_unless (adoption_request_ok a) INVALID_REQUEST) (\<lambda>_.
          sbind (fail_unless (adoption_identity_free s a) VERSION_CONFLICT) (\<lambda>_.
          sbind (each (check_history_entry P s a) (zip (ln_revisions inv) (ad_candidates a)) empty_history) (\<lambda>h.
          sbind (fail_unless (hi_parent h = ln_selectedHead inv \<and> hi_canonical h = Some (ws_currentRevisionId (ad_workspace a))) INVALID_REQUEST) (\<lambda>_.
          sbind (valid_claim (ad_claim a) (ka_now i)) (\<lambda>_.
          sbind (each register_candidate (map ac_identity (ad_candidates a)) s) (\<lambda>s1.
          sbind (write_adoption (ad_id a) (of_ws sc) a True None s1) (\<lambda>s2.
          sbind (save_command ((new_operation c p sc None None)\<lparr>op_claim := Some (ad_claim a)\<rparr>) (VAdoption a) s2) (\<lambda>(_, s3).
          Inr (a, s3)))))))))))))"

section \<open>Ownership\<close>

definition touch_adoption :: "timestamp \<Rightarrow> adoption \<Rightarrow> adoption" where
  "touch_adoption now a = a\<lparr>ad_version := ad_version a + 1, ad_updatedAt := now\<rparr>"

definition reclaim_adoption :: "processing_claim \<Rightarrow> timestamp \<Rightarrow> adoption \<Rightarrow> catalog \<Rightarrow> failure + (adoption \<times> catalog)" where
  "reclaim_adoption c now a s =
     (let a1 = touch_adoption now (a\<lparr>ad_claim := c\<rparr>) in
      sbind (save_adoption a1 s) (\<lambda>s1.
      sbind (sync_claim (cm_operationId (ad_command a)) (ad_scope a) c now s1) (\<lambda>s2. Inr (a1, s2))))"

datatype adoption_recovery_input = AdoptionRecovery (dv_scope: workspace_scope) (dv_adoptionId: id) (dv_expectedVersion: int)
  (dv_ownerId: string) (dv_now: timestamp) (dv_expiresAt: timestamp)

definition claim_legacy_adoption_recovery :: "adoption_recovery_input \<Rightarrow> catalog \<Rightarrow> failure + (adoption \<times> catalog)" where
  "claim_legacy_adoption_recovery i s =
     sbind (load_or (c_adoption s) (dv_adoptionId i) (of_ws (dv_scope i)) OPERATION_NOT_FOUND) (\<lambda>a.
     sbind (fail_unless (ad_state a \<noteq> AdoptionComplete \<and> ad_version a = dv_expectedVersion i \<and> pc_expiresAt (ad_claim a) \<le> dv_now i) STALE_FENCE) (\<lambda>_.
     let c = ProcessingClaim (dv_ownerId i) (pc_fence (ad_claim a) + 1) (dv_expiresAt i) in
     sbind (valid_claim c (dv_now i)) (\<lambda>_.
     reclaim_adoption c (dv_now i) a s)))"

definition renew_legacy_adoption_claim :: "adoption_cas \<Rightarrow> timestamp \<Rightarrow> catalog \<Rightarrow> failure + (adoption \<times> catalog)" where
  "renew_legacy_adoption_claim i expires s =
     sbind (adoption_at s i) (\<lambda>a.
     sbind (fail_unless (pc_expiresAt (ad_claim a) < expires) INVALID_REQUEST) (\<lambda>_.
     reclaim_adoption (ProcessingClaim (pc_ownerId (ad_claim a)) (pc_fence (ad_claim a)) expires) (da_now i) a s))"

definition release_legacy_adoption_claim :: "adoption_cas \<Rightarrow> string \<Rightarrow> catalog \<Rightarrow> failure + (adoption \<times> catalog)" where
  "release_legacy_adoption_claim i owner s =
     sbind (adoption_at s i) (\<lambda>a.
     sbind (fail_unless (pc_ownerId (ad_claim a) = owner) STALE_FENCE) (\<lambda>_.
     sbind (fail_unless (\<not> writers_running s (da_scope i) (cm_operationId (ad_command a)) owner) FINALIZATION_IN_PROGRESS) (\<lambda>_.
     reclaim_adoption (ProcessingClaim (pc_ownerId (ad_claim a)) (pc_fence (ad_claim a)) (da_now i)) (da_now i) a s)))"

section \<open>Backup and copies\<close>

definition record_legacy_adoption_backup :: "adoption_cas \<Rightarrow> string \<Rightarrow> catalog \<Rightarrow> failure + (adoption \<times> catalog)" where
  "record_legacy_adoption_backup i d s =
     sbind (adoption_at s i) (\<lambda>a.
     sbind (fail_unless (sha256_text d) INVALID_REQUEST) (\<lambda>_.
     sbind (fail_unless (truthy (mb_receiptDigest (ad_backup a)) \<longrightarrow> mb_receiptDigest (ad_backup a) = Some d) RECEIPT_MISMATCH) (\<lambda>_.
     let a1 = touch_adoption (da_now i) (a\<lparr>ad_backup := MigrationBackup (mb_directory (ad_backup a)) BackupReady (Some d)\<rparr>) in
     sbind (save_adoption a1 s) (\<lambda>s1. Inr (a1, s1)))))"

definition record_legacy_adoption_copy :: "adoption_cas \<Rightarrow> prepared_revision \<Rightarrow> catalog \<Rightarrow> failure + (adoption \<times> catalog)" where
  "record_legacy_adoption_copy i c s =
     sbind (adoption_at s i) (\<lambda>a.
     sbind (fail_unless (mb_state (ad_backup a) = BackupReady) INVALID_TRANSITION) (\<lambda>_.
     sbind (found (find (\<lambda>k. cd_revisionId (ac_identity k) = pp_revisionId c) (ad_candidates a)) (Fail RECEIPT_MISMATCH)) (\<lambda>k.
     sbind (match_candidate s (ac_identity k) c (lr_manifestDigest (ac_source k))) (\<lambda>_.
     case find (\<lambda>q. pp_revisionId q = pp_revisionId c) (ad_copies a) of
       Some q \<Rightarrow> sbind (fail_unless (q = c) RECEIPT_MISMATCH) (\<lambda>_. Inr (a, s))
     | None \<Rightarrow>
         sbind (record_prepared c s) (\<lambda>s1.
         let a1 = touch_adoption (da_now i) (a\<lparr>ad_copies := ad_copies a @ [c]\<rparr>) in
         sbind (save_adoption a1 s1) (\<lambda>s2. Inr (a1, s2)))))))"

section \<open>Acceptance\<close>

datatype accept_adoption_input = AcceptAdoption (xa_cas: adoption_cas) (xa_principal: principal) (xa_authorization: authorization)
  (xa_migrationAuthorization: authorization) (xa_sourceFingerprint: string) (xa_backupDigest: string)
  (xa_verifiedCopyDigest: string) (xa_events: publication_events)

definition publish_adopted :: "workspace_scope \<Rightarrow> adoption \<Rightarrow> adoption_candidate \<Rightarrow> catalog \<Rightarrow> failure + catalog" where
  "publish_adopted sc a k s =
     sbind (found (find (\<lambda>c. pp_revisionId c = cd_revisionId (ac_identity k)) (ad_copies a)) (Fail RECEIPT_MISMATCH)) (\<lambda>c.
     sbind (match_candidate s (ac_identity k) c (lr_manifestDigest (ac_source k))) (\<lambda>_.
     sbind (load_or (c_candidate s) (pp_candidateId c) (of_ws sc) STALE_FENCE) (\<lambda>reg.
     sbind (fail_unless (cr_collection reg = None \<and> cr_prepared reg = Some c) STALE_FENCE) (\<lambda>_.
     sbind (write_revision (pp_revisionId c) (of_ws sc) (revision_of c (cd_createdAt (ac_identity k))) True None s) (\<lambda>s1.
     sbind (alias_id sc (lr_alias (ac_source k))) (\<lambda>i.
     write_alias i (of_ws sc) (RevisionAlias (lr_alias (ac_source k)) (pp_revisionId c)) True None s1))))))"

definition adoption_complete_ok :: "accept_adoption_input \<Rightarrow> adoption \<Rightarrow> string \<Rightarrow> catalog \<Rightarrow> bool" where
  "adoption_complete_ok i a d s \<longleftrightarrow> xa_sourceFingerprint i = ad_sourceFingerprint a \<and> mb_state (ad_backup a) = BackupReady \<and>
     mb_receiptDigest (ad_backup a) = Some (xa_backupDigest i) \<and> d = xa_verifiedCopyDigest i \<and>
     length (ad_copies a) = length (ad_candidates a) \<and> tbl_load (c_workspace s) (ws_id (ad_workspace a)) None = None \<and>
     tbl_load (c_binding s) (sb_id (ad_binding a)) None = None"

definition completed_adoption :: "timestamp \<Rightarrow> adoption \<Rightarrow> adoption" where
  "completed_adoption now a = (touch_adoption now a)\<lparr>ad_state := AdoptionComplete\<rparr>"

definition accept_legacy_adoption :: "platform \<Rightarrow> accept_adoption_input \<Rightarrow> catalog \<Rightarrow> failure + (adoption \<times> catalog)" where
  "accept_legacy_adoption P i s =
     (let cas = xa_cas i; sc = da_scope cas; now = da_now cas in
      sbind (adoption_at s cas) (\<lambda>a.
      sbind (adoption_authority s (xa_principal i) a (Some (xa_authorization i)) (Some (xa_migrationAuthorization i))) (\<lambda>_.
      sbind (digest_of P (JArr (map prepared_json (ad_copies a)))) (\<lambda>d.
      sbind (fail_unless (adoption_complete_ok i a d s) RECEIPT_MISMATCH) (\<lambda>_.
      sbind (each (publish_adopted sc a) (ad_candidates a) s) (\<lambda>s1.
      sbind (write_binding (sb_id (ad_binding a)) (of_ws sc) (ad_binding a) True None s1) (\<lambda>s2.
      sbind (write_workspace (ws_id (ad_workspace a)) (of_ws sc) (ad_workspace a) True None s2) (\<lambda>s3.
      let a1 = completed_adoption now a in
      sbind (save_adoption a1 s3) (\<lambda>s4.
      sbind (found (tbl_load (c_operation s4) (cm_operationId (ad_command a)) (Some (of_ws sc))) Crash) (\<lambda>o'.
      let o1 = complete_operation o' (ResStorageMigrate (ad_id a) (sb_id (ad_binding a)) (sb_generation (ad_binding a))) now in
      sbind (save_outcome o1 (VAdoption a1) s4) (\<lambda>s5.
      sbind (operation_events (xa_events i) o1 s5) (\<lambda>s6.
      Inr (a1, s6)))))))))))))"

section \<open>The catalog advances\<close>

text \<open>A history that passes the scan is one chain, in the scope of the adopted workspace.\<close>

lemma history_chain:
  assumes "each (check_history_entry P s a) (zip srcs ks) h = Inr h'" and "length ks = length srcs"
  shows "(\<forall>k \<in> set ks. cd_scope (ac_identity k) = binding_of (ad_workspace a)) \<and> chain (hi_canonical h) (map ac_identity ks) (hi_canonical h')"
  using assms
proof (induction ks arbitrary: srcs h)
  case (Cons k ks)
  then obtain src rest where "srcs = src # rest" by (cases srcs) auto
  with Cons.prems obtain m where m: "check_history_entry P s a (src, k) h = Inr m"
    "each (check_history_entry P s a) (zip rest ks) m = Inr h'" "length ks = length rest"
    by (auto simp: txn_simps)
  from m(1) have "cd_scope (ac_identity k) = binding_of (ad_workspace a)" "cd_parentRevisionId (ac_identity k) = hi_canonical h"
    "hi_canonical m = Some (cd_revisionId (ac_identity k))"
    by (auto simp: check_history_entry_def history_entry_ok_def txn_simps Let_def)
  with Cons.IH [OF m(2,3)] show ?case by simp
qed simp

lemma register_candidates_advances:
  assumes "consistent s" and "\<And>c. c \<in> set cs \<Longrightarrow> bs_workspace (cd_scope c) = sc"
  shows "post (each register_candidate cs s) (\<lambda>u. advances (wsc_customerId sc) s u \<and> u\<lparr>c_candidate := []\<rparr> = s\<lparr>c_candidate := []\<rparr>)"
proof (rule post_each)
  fix c u assume c: "c \<in> set cs" and u: "advances (wsc_customerId sc) s u \<and> u\<lparr>c_candidate := []\<rparr> = s\<lparr>c_candidate := []\<rparr>"
  with assms(2) [OF c] show "post (register_candidate c u) (\<lambda>u. advances (wsc_customerId sc) s u \<and> u\<lparr>c_candidate := []\<rparr> = s\<lparr>c_candidate := []\<rparr>)"
    by (auto simp: post_simps writable_insert candidate_ok_def intro!: advance_candidate)
qed (use advances_refl [OF assms(1)] in simp)

lemma adoption_request_facts:
  "adoption_request_ok a \<Longrightarrow> scope_of (ad_workspace a) = ad_scope a \<and> sb_scope (ad_binding a) = ad_scope a \<and>
     sb_id (ad_binding a) = ws_storageBindingId (ad_workspace a) \<and> length (ad_candidates a) = length (ln_revisions (ad_inventory a))"
  by (cases "ad_scope a") (auto simp: adoption_request_ok_def Let_def scope_of_def)

lemma candidates_only:
  assumes "u\<lparr>c_candidate := []\<rparr> = s\<lparr>c_candidate := []\<rparr>"
  shows "c_adoption u = c_adoption s" and "c_operation u = c_operation s" and "c_commands u = c_commands s"
  using arg_cong [OF assms, of c_adoption] arg_cong [OF assms, of c_operation] arg_cong [OF assms, of c_commands] by simp_all

lemma register_adoption_advances:
  assumes "consistent s" and "adoption_ok (of_ws (ad_scope a)) (ad_id a) a" and "cm_scope (ad_command a) = k" and "find_command s k (cm_key (ad_command a)) = None"
  shows "post (each register_candidate (map ac_identity (ad_candidates a)) s) (\<lambda>s1.
    post (write_adoption (ad_id a) (of_ws (ad_scope a)) a True None s1) (\<lambda>s2.
    post (save_command ((new_operation (ad_command a) p (ad_scope a) None None)\<lparr>op_claim := Some c\<rparr>) (VAdoption a) s2) (\<lambda>q.
      advances (wsc_customerId (ad_scope a)) s (snd q))))"
proof (rule post_mono [OF register_candidates_advances [OF assms(1)]])
  show "bs_workspace (cd_scope c) = ad_scope a" if "c \<in> set (map ac_identity (ad_candidates a))" for c
    using that assms(2) by (auto simp: adoption_ok_def)
next
  fix u assume u: "advances (wsc_customerId (ad_scope a)) s u \<and> u\<lparr>c_candidate := []\<rparr> = s\<lparr>c_candidate := []\<rparr>"
  have kind: "is_kind (cm_scope (ad_command a)) = KStorageMigrate" using assms(2) by (simp add: adoption_ok_def)
  show "post (write_adoption (ad_id a) (of_ws (ad_scope a)) a True None u) (\<lambda>s2.
    post (save_command ((new_operation (ad_command a) p (ad_scope a) None None)\<lparr>op_claim := Some c\<rparr>) (VAdoption a) s2) (\<lambda>q.
      advances (wsc_customerId (ad_scope a)) s (snd q)))"
    using u kind assms(2)
    by (auto simp: post_simps find_command_def writable_insert intro!: advance_command advance_new_adoption)
qed

lemma claim_legacy_adoption_advances:
  assumes "consistent s"
  shows "post (claim_legacy_adoption P i s) (\<lambda>(r, s'). advances (wsc_customerId (ad_scope (ka_adoption i))) s s')"
proof -
  let ?a = "ka_adoption i"
  have ok: "adoption_ok (of_ws (ad_scope ?a)) (ad_id ?a) ?a"
    if "adoption_request_ok ?a" "check_command (ad_command ?a) p sc KStorageMigrate None = Inr ()" "hi_canonical h = Some (ws_currentRevisionId (ad_workspace ?a))"
      "each (check_history_entry P s ?a) (zip (ln_revisions (ad_inventory ?a)) (ad_candidates ?a)) empty_history = Inr h" for p sc h
    using adoption_request_facts [OF that(1)] history_chain [OF that(4)] command_kind [OF that(2)] that(3)
    by (auto simp: adoption_ok_def empty_history_def)
  have "post (each register_candidate (map ac_identity (ad_candidates ?a)) s) (\<lambda>s1.
      post (write_adoption (ad_id ?a) (of_ws (ad_scope ?a)) ?a True None s1) (\<lambda>s2.
      post (save_command ((new_operation (ad_command ?a) p (ad_scope ?a) None None)\<lparr>op_claim := Some c\<rparr>) (VAdoption ?a) s2) (\<lambda>q.
        advances (wsc_customerId (ad_scope ?a)) s (snd q))))"
    if "adoption_ok (of_ws (ad_scope ?a)) (ad_id ?a) ?a" "find_command s (cm_scope (ad_command ?a)) (cm_key (ad_command ?a)) = None" for p c
    by (rule register_adoption_advances [OF assms that(1) refl that(2)])
  with ok show ?thesis
    unfolding claim_legacy_adoption_def Let_def post_sbind post_check_command post_replay post_fail_unless post_load_or post_valid_claim
    by (auto simp: advances_refl assms post_Inr post_option post_value [of "each (check_history_entry _ _ _) _ _"] post_unit [of "adoption_authority _ _ _ _ _"]
      post_load_or post_fail_unless post_valid_claim split_beta post_sbind)
qed

lemma adopted_scope:
  "find p (ad_candidates a) = Some k \<Longrightarrow> adoption_ok (of_ws sc) i a \<Longrightarrow> bs_workspace (cd_scope (ac_identity k)) = sc"
  by (auto simp: adoption_ok_def find_Some_iff)

lemma adoption_moves [simp]:
  "ad_id (touch_adoption now a) = ad_id a" "ad_scope (touch_adoption now a) = ad_scope a" "ad_command (touch_adoption now a) = ad_command a"
  "ad_id (completed_adoption now a) = ad_id a" "ad_scope (completed_adoption now a) = ad_scope a" "ad_command (completed_adoption now a) = ad_command a"
  "adoption_ok sc i (touch_adoption now a) = adoption_ok sc i a" "adoption_ok sc i (completed_adoption now a) = adoption_ok sc i a"
  "adoption_ok sc i (a\<lparr>ad_claim := c\<rparr>) = adoption_ok sc i a" "adoption_ok sc i (a\<lparr>ad_backup := b\<rparr>) = adoption_ok sc i a"
  "adoption_ok sc i (a\<lparr>ad_copies := cs\<rparr>) = adoption_ok sc i a"
  by (simp_all add: touch_adoption_def completed_adoption_def adoption_ok_def)

lemma adoption_next_moves [simp]:
  "ad_next a (touch_adoption now (a\<lparr>ad_claim := c\<rparr>)) \<longleftrightarrow> ad_state a \<noteq> AdoptionComplete \<and> pc_fence (ad_claim a) \<le> pc_fence c"
  "ad_next a (touch_adoption now (a\<lparr>ad_backup := b\<rparr>)) \<longleftrightarrow> ad_state a \<noteq> AdoptionComplete"
  "ad_next a (touch_adoption now (a\<lparr>ad_copies := ad_copies a @ cs\<rparr>)) \<longleftrightarrow> ad_state a \<noteq> AdoptionComplete"
  "ad_next a (completed_adoption now a) \<longleftrightarrow> ad_state a \<noteq> AdoptionComplete"
  by (auto simp: ad_next_def touch_adoption_def completed_adoption_def)

lemma adoption_at_own:
  "adoption_at s i = Inr a \<Longrightarrow> consistent s \<Longrightarrow>
   tbl_load (c_adoption s) (da_adoptionId i) (Some (of_ws (da_scope i))) = Some a \<and> ad_id a = da_adoptionId i \<and> ad_scope a = da_scope i \<and>
   tbl_load (c_adoption s) (da_adoptionId i) None = Some a \<and> adoption_ok (of_ws (da_scope i)) (da_adoptionId i) a \<and>
   ad_state a \<noteq> AdoptionComplete \<and> ad_version a = da_expectedVersion i \<and> pc_fence (ad_claim a) = da_fence i \<and>
   migrates (c_operation s) (ad_command a) (da_scope i)"
  unfolding adoption_at_def txn_simps by (elim exE conjE, frule (1) own_row(16), frule (1) migration_migrates(2)) auto

lemma post_adoption_at [post_simps]: "post (adoption_at s i) Q \<longleftrightarrow> (\<forall>a. adoption_at s i = Inr a \<longrightarrow> Q a)"
  by (simp add: post_def)

lemma save_adoption_advances:
  assumes "advances c s u" and "tbl_load (c_adoption u) (ad_id a) (Some (of_ws (ad_scope a))) = Some e" and "ad_next e a"
    and "adoption_ok (of_ws (ad_scope a)) (ad_id a) a" and "migrates (c_operation s) (ad_command a) (ad_scope a)"
    and "wsc_customerId (ad_scope a) = c" and "migrates (c_operation u) (ad_command a) (ad_scope a)"
  shows "post (save_adoption a u) (\<lambda>v. advances c s v \<and> c_operation v = c_operation u)"
  using assms own_row(16) [OF assms(2) advances_consistent [OF assms(1)]]
  by (auto simp: save_adoption_def post_simps not_settled_migrates intro!: advance)

lemma reclaim_adoption_advances:
  assumes "consistent s" and "tbl_load (c_adoption s) i (Some (of_ws sc)) = Some a" and "ad_state a \<noteq> AdoptionComplete" and "pc_fence (ad_claim a) \<le> pc_fence c"
  shows "post (reclaim_adoption c now a s) (\<lambda>(r, s'). advances (wsc_customerId sc) s s')"
proof -
  note own = own_row(16) [OF assms(2,1)] migration_migrates(2) [OF assms(2,1)]
  have "post (save_adoption (touch_adoption now (a\<lparr>ad_claim := c\<rparr>)) s) (\<lambda>v. advances (wsc_customerId sc) s v \<and> c_operation v = c_operation s)"
    by (rule save_adoption_advances) (use own assms in \<open>auto simp: advances_refl\<close>)
  then show ?thesis unfolding reclaim_adoption_def Let_def post_sbind split_beta
    by (rule post_mono) (use own in \<open>auto simp: post_simps intro!: sync_claim_advances [THEN post_mono]\<close>)
qed

lemma claim_legacy_adoption_recovery_advances:
  "consistent s \<Longrightarrow> post (claim_legacy_adoption_recovery i s) (\<lambda>(r, s'). advances (wsc_customerId (dv_scope i)) s s')"
  by (auto simp: claim_legacy_adoption_recovery_def Let_def post_simps intro!: reclaim_adoption_advances)

lemma renew_legacy_adoption_claim_advances:
  "consistent s \<Longrightarrow> post (renew_legacy_adoption_claim i e s) (\<lambda>(r, s'). advances (wsc_customerId (da_scope i)) s s')"
  by (auto simp: renew_legacy_adoption_claim_def Let_def post_simps intro!: reclaim_adoption_advances dest!: adoption_at_own)

lemma release_legacy_adoption_claim_advances:
  "consistent s \<Longrightarrow> post (release_legacy_adoption_claim i owner s) (\<lambda>(r, s'). advances (wsc_customerId (da_scope i)) s s')"
  by (auto simp: release_legacy_adoption_claim_def Let_def post_simps intro!: reclaim_adoption_advances dest!: adoption_at_own)

lemma record_legacy_adoption_backup_advances:
  "consistent s \<Longrightarrow> post (record_legacy_adoption_backup i d s) (\<lambda>(r, s'). advances (wsc_customerId (da_scope i)) s s')"
  by (auto simp: record_legacy_adoption_backup_def Let_def post_simps advances_refl intro!: save_adoption_advances [THEN post_mono] dest!: adoption_at_own)

lemma record_legacy_adoption_copy_advances:
  "consistent s \<Longrightarrow> post (record_legacy_adoption_copy i c s) (\<lambda>(r, s'). advances (wsc_customerId (da_scope i)) s s')"
  apply (simp add: record_legacy_adoption_copy_def Let_def post_simps)
  apply (auto simp: advances_refl intro!: save_adoption_advances [THEN post_mono] advance_candidate dest!: adoption_at_own matched_candidate
      dest: adopted_scope)
  done

lemma publish_adopted_advances:
  assumes "advances (wsc_customerId sc) s u" and "adoption_ok (of_ws sc) i a" and "k \<in> set (ad_candidates a)"
  shows "post (publish_adopted sc a k u) (\<lambda>v. advances (wsc_customerId sc) s v \<and> c_adoption v = c_adoption u \<and> c_operation v = c_operation u)"
proof -
  have "bs_workspace (cd_scope (ac_identity k)) = sc" using assms(2,3) by (auto simp: adoption_ok_def)
  with assms(1) show ?thesis
    by (auto simp: publish_adopted_def post_simps writable_insert revision_ok_def match_candidate_eq intro!: advance_alias advance_revision)
qed

lemma finish_adoption_advances:
  assumes "consistent s" and "advances (wsc_customerId sc) s v" and "c_operation v = c_operation s" and "migrates (c_operation s) k sc"
    and "tbl_load (c_operation v) (cm_operationId k) (Some (of_ws sc)) = Some o'"
  shows "post (save_outcome (complete_operation o' r now) x v) (\<lambda>w. post (operation_events e (complete_operation o' r now) w) (\<lambda>y.
    post (Inr (q, y)) (\<lambda>(a, s'). advances (wsc_customerId sc) s s')))"
proof -
  have o': "tbl_load (c_operation s) (cm_operationId k) (Some (of_ws sc)) = Some o'" using assms(3,5) by simp
  have "\<not> settled p" if "tbl_load (c_operation s) (cm_operationId k) None = Some p" for p
    using not_settled_migrates [OF assms(4) that] .
  with migrating_operation [OF assms(4) o' assms(1)] assms(2,3) show ?thesis
    by (auto simp: post_simps audit_ok_def outbox_ok_def writable_insert intro!: advance_audit advance_outbox advance_update_command advance_operation dest!: event_matches_scope)
qed

lemma accept_legacy_adoption_advances:
  assumes "consistent s"
  shows "post (accept_legacy_adoption P i s) (\<lambda>(r, s'). advances (wsc_customerId (da_scope (xa_cas i))) s s')"
proof -
  let ?sc = "da_scope (xa_cas i)"
  have published: "post (each (publish_adopted ?sc a) (ad_candidates a) s) (\<lambda>u. advances (wsc_customerId ?sc) s u \<and>
      c_adoption u = c_adoption s \<and> c_operation u = c_operation s)" if "adoption_ok (of_ws ?sc) j a" for a j
  proof (rule post_each)
    fix k u assume k: "k \<in> set (ad_candidates a)" and u: "advances (wsc_customerId ?sc) s u \<and> c_adoption u = c_adoption s \<and> c_operation u = c_operation s"
    show "post (publish_adopted ?sc a k u) (\<lambda>u. advances (wsc_customerId ?sc) s u \<and> c_adoption u = c_adoption s \<and> c_operation u = c_operation s)"
      by (rule post_mono [OF publish_adopted_advances [OF conjunct1 [OF u] that k]]) (use u in simp)
  qed (simp add: advances_refl [OF assms])
  show ?thesis
    unfolding accept_legacy_adoption_def Let_def post_sbind post_adoption_at post_fail_unless post_unit [of "adoption_authority _ _ _ _ _"] post_value [of "digest_of _ _"]
  proof (intro allI impI)
    fix a d assume "adoption_at s (xa_cas i) = Inr a"
    note own = adoption_at_own [OF this assms]
    then have ok: "adoption_ok (of_ws ?sc) (da_adoptionId (xa_cas i)) a" by blast
    have "scope_of (ad_workspace a) = ad_scope a" "sb_scope (ad_binding a) = ad_scope a" "ad_scope a = ?sc"
      using ok own unfolding adoption_ok_def by blast+
    then have rows: "workspace_ok (of_ws ?sc) (ws_id (ad_workspace a)) (ad_workspace a)" "binding_ok (of_ws ?sc) (sb_id (ad_binding a)) (ad_binding a)"
      by (simp_all add: workspace_ok_def binding_ok_def)
    have saved: "post (save_adoption (completed_adoption now a) v) (\<lambda>w. advances (wsc_customerId ?sc) s w \<and> c_operation w = c_operation s)"
      if "advances (wsc_customerId ?sc) s v" "c_adoption v = c_adoption s" "c_operation v = c_operation s" for v now
      by (rule post_mono [OF save_adoption_advances [where c = "wsc_customerId ?sc" and s = s and e = a]]) (use that own in auto)
    have owned: "migrates (c_operation s) (ad_command a) ?sc" using own by blast
    show "post (each (publish_adopted ?sc a) (ad_candidates a) s) (\<lambda>u.
       post (write_binding (sb_id (ad_binding a)) (of_ws ?sc) (ad_binding a) True None u) (\<lambda>v.
       post (write_workspace (ws_id (ad_workspace a)) (of_ws ?sc) (ad_workspace a) True None v) (\<lambda>w.
       post (save_adoption (completed_adoption (da_now (xa_cas i)) a) w) (\<lambda>x.
       post (found (tbl_load (c_operation x) (cm_operationId (ad_command a)) (Some (of_ws ?sc))) Crash) (\<lambda>o'.
       post (save_outcome (complete_operation o' (ResStorageMigrate (ad_id a) (sb_id (ad_binding a)) (sb_generation (ad_binding a))) (da_now (xa_cas i)))
           (VAdoption (completed_adoption (da_now (xa_cas i)) a)) x) (\<lambda>y.
       post (operation_events (xa_events i) (complete_operation o' (ResStorageMigrate (ad_id a) (sb_id (ad_binding a)) (sb_generation (ad_binding a))) (da_now (xa_cas i))) y) (\<lambda>z.
       post (Inr (completed_adoption (da_now (xa_cas i)) a, z)) (\<lambda>(r, s'). advances (wsc_customerId ?sc) s s'))))))))"
    proof (rule post_mono [OF published [OF ok]], unfold post_write, intro impI, elim conjE)
      fix u assume u: "advances (wsc_customerId ?sc) s u" "c_adoption u = c_adoption s" "c_operation u = c_operation s"
        and free: "writable (c_binding u) (sb_id (ad_binding a)) (of_ws ?sc) True"
          "writable (c_workspace (u\<lparr>c_binding := put_row (sb_id (ad_binding a)) (mk_row (of_ws ?sc) None (ad_binding a)) (c_binding u)\<rparr>))
            (ws_id (ad_workspace a)) (of_ws ?sc) True"
      show "post (save_adoption (completed_adoption (da_now (xa_cas i)) a)
          (u\<lparr>c_binding := put_row (sb_id (ad_binding a)) (mk_row (of_ws ?sc) None (ad_binding a)) (c_binding u),
             c_workspace := put_row (ws_id (ad_workspace a)) (mk_row (of_ws ?sc) None (ad_workspace a))
               (c_workspace (u\<lparr>c_binding := put_row (sb_id (ad_binding a)) (mk_row (of_ws ?sc) None (ad_binding a)) (c_binding u)\<rparr>))\<rparr>)) (\<lambda>x.
       post (found (tbl_load (c_operation x) (cm_operationId (ad_command a)) (Some (of_ws ?sc))) Crash) (\<lambda>o'.
       post (save_outcome (complete_operation o' (ResStorageMigrate (ad_id a) (sb_id (ad_binding a)) (sb_generation (ad_binding a))) (da_now (xa_cas i)))
           (VAdoption (completed_adoption (da_now (xa_cas i)) a)) x) (\<lambda>y.
       post (operation_events (xa_events i) (complete_operation o' (ResStorageMigrate (ad_id a) (sb_id (ad_binding a)) (sb_generation (ad_binding a))) (da_now (xa_cas i))) y) (\<lambda>z.
       post (Inr (completed_adoption (da_now (xa_cas i)) a, z)) (\<lambda>(r, s'). advances (wsc_customerId ?sc) s s')))))"
        unfolding post_found
      proof (rule post_mono [OF saved], goal_cases)
        case 1
        then show ?case using u free rows by (auto simp: writable_insert intro!: advance_binding advance_workspace)
      next
        case (4 w)
        then show ?case
          by (elim conjE) (intro allI impI, rule finish_adoption_advances [OF assms _ _ owned])
      qed (use u in simp_all)
    qed
  qed
qed

end
