(* ===== verification/Cv_System.thy ===== *)
theory Cv_System
  imports Cv_Adoption
begin

text \<open>
  The whole catalog as one transition system. \<open>step P c\<close> is any operation of the store on behalf of the
  customer \<open>c\<close>, with any input and at any time; \<open>access_step\<close> is an operation that changes authorities,
  the configured administrator or the legacy tables. Every step advances the catalog, so what \<open>evolution\<close>
  and \<open>confined\<close> say of one write holds between any two catalogs of a run, however the operations of
  different customers, workers and retries interleave.
\<close>

section \<open>Steps\<close>

inductive step :: "platform \<Rightarrow> id \<Rightarrow> catalog \<Rightarrow> catalog \<Rightarrow> bool" for P where
  st_claim_workspace_creation: "claim_workspace_creation P i s = Inr (r, t) \<Longrightarrow> step P (wsc_customerId (scope_of (wi_workspace (cc_intent i)))) s t"
| st_accept_workspace_creation: "accept_workspace_creation i s = Inr (r, t) \<Longrightarrow> step P (wsc_customerId (cs_scope (xc_cas i))) s t"
| st_fail_workspace_creation: "fail_workspace_creation i s = Inr (r, t) \<Longrightarrow> step P (wsc_customerId (cs_scope (fc_cas i))) s t"
| st_transition_workspace_status: "transition_workspace_status i s = Inr (r, t) \<Longrightarrow> step P (wsc_customerId (si_scope i)) s t"
| st_register_legacy_revision_aliases: "register_legacy_revision_aliases i s = Inr (r, t) \<Longrightarrow> step P (wsc_customerId (la_scope i)) s t"
| st_open_run: "open_run i s = Inr (r, t) \<Longrightarrow> step P (wsc_customerId (or_scope i)) s t"
| st_renew_run_lease: "renew_run_lease i s = Inr (r, t) \<Longrightarrow> step P (wsc_customerId (rs_workspace (nl_scope i))) s t"
| st_record_legacy_push: "record_legacy_push i s = Inr t \<Longrightarrow> step P (wsc_customerId (rs_workspace (lg_scope i))) s t"
| st_abort_run: "abort_run i s = Inr (r, t) \<Longrightarrow> step P (wsc_customerId (rs_workspace (ab_scope i))) s t"
| st_expire_active_run: "expire_active_run i s = Inr (r, t) \<Longrightarrow> step P (wsc_customerId (rs_workspace (xr_scope (xp_target i)))) s t"
| st_claim_finalization: "claim_finalization P i s = Inr (r, t) \<Longrightarrow> step P (wsc_customerId (rs_workspace (cf_scope i))) s t"
| st_record_prepared_revision: "record_prepared_revision i s = Inr (r, t) \<Longrightarrow> step P (wsc_customerId (cs_scope (pi_cas i))) s t"
| st_accept_revision: "accept_revision i s = Inr (r, t) \<Longrightarrow> step P (wsc_customerId (rs_workspace (fz_scope (av_finalizer i)))) s t"
| st_complete_read_only: "complete_read_only i s = Inr (r, t) \<Longrightarrow> step P (wsc_customerId (rs_workspace (fz_scope i))) s t"
| st_fail_finalization: "fail_finalization i s = Inr (r, t) \<Longrightarrow> step P (wsc_customerId (cs_scope (ff_cas i))) s t"
| st_claim_recovery: "claim_recovery i s = Inr (r, t) \<Longrightarrow> step P (wsc_customerId (rc_scope i)) s t"
| st_renew_processing_claim: "renew_processing_claim i s = Inr (r, t) \<Longrightarrow> step P (wsc_customerId (cs_scope (nc_cas i))) s t"
| st_create_submission: "create_submission i s = Inr (r, t) \<Longrightarrow> step P (wsc_customerId (rs_workspace (ns_scope i))) s t"
| st_register_upload_receipt: "register_upload_receipt P i s = Inr (r, t) \<Longrightarrow> step P (wsc_customerId (rs_workspace (ni_scope i))) s t"
| st_seal_submission: "seal_submission P i s = Inr (r, t) \<Longrightarrow> step P (wsc_customerId (rs_workspace (sl_scope i))) s t"
| st_expire_submission: "expire_submission i s = Inr (r, t) \<Longrightarrow> step P (wsc_customerId (rs_workspace (xs_scope i))) s t"
| st_begin_submission_write: "begin_submission_write P i s = Inr (r, t) \<Longrightarrow> step P (wsc_customerId (rs_workspace (bw_scope i))) s t"
| st_finish_submission_write: "finish_submission_write i s = Inr (r, t) \<Longrightarrow> step P (wsc_customerId (rs_workspace (fw_scope i))) s t"
| st_claim_submission_collection: "claim_submission_collection i s = Inr (r, t) \<Longrightarrow> step P (wsc_customerId (rs_workspace (cu_scope i))) s t"
| st_complete_submission_collection: "complete_submission_collection pm now s = Inr t \<Longrightarrow> step P (wsc_customerId (rs_workspace (sp_scope pm))) s t"
| st_record_submission_progress: "record_submission_progress pm a now s = Inr t \<Longrightarrow> step P (wsc_customerId (rs_workspace (sp_scope pm))) s t"
| st_claim_candidate_collection: "claim_candidate_collection i s = Inr (r, t) \<Longrightarrow> step P (wsc_customerId (bs_workspace (kc_scope i))) s t"
| st_complete_candidate_collection: "complete_candidate_collection pm now s = Inr t \<Longrightarrow> step P (wsc_customerId (bs_workspace (cq_scope pm))) s t"
| st_begin_candidate_write: "begin_candidate_write i s = Inr (r, t) \<Longrightarrow> step P (wsc_customerId (bs_workspace (cd_scope (bd_identity i)))) s t"
| st_finish_candidate_write: "finish_candidate_write i s = Inr (r, t) \<Longrightarrow> step P (wsc_customerId (bs_workspace (cd_scope (fd_identity i)))) s t"
| st_claim_cleanup: "claim_cleanup i s = Inr (r, t) \<Longrightarrow> step P (wsc_customerId (ku_scope i)) s t"
| st_complete_cleanup: "complete_cleanup i s = Inr (r, t) \<Longrightarrow> step P (wsc_customerId (mu_scope i)) s t"
| st_release_cleanup_claim: "release_cleanup_claim i s = Inr (r, t) \<Longrightarrow> step P (wsc_customerId (lu_scope i)) s t"
| st_next_collection_work: "next_collection_work now s = Inr (r, t) \<Longrightarrow> step P c s t"
| st_register_subscription: "register_subscription su s = Inr t \<Longrightarrow> step P (su_customerId su) s t"
| st_claim_outbox: "claim_outbox P i s = Inr (r, t) \<Longrightarrow> step P (wsc_customerId (ko_scope i)) s t"
| st_release_outbox_claim: "release_outbox_claim i s = Inr (r, t) \<Longrightarrow> step P (wsc_customerId (lo_scope i)) s t"
| st_record_delivery: "record_delivery i s = Inr (r, t) \<Longrightarrow> step P (wsc_customerId (rd_scope i)) s t"
| st_create_bundle: "create_bundle P i s = Inr (r, t) \<Longrightarrow> step P (nb_scope i) s t"
| st_select_bundle_manifest: "select_bundle_manifest P i s = Inr (r, t) \<Longrightarrow> step P (sf_scope i) s t"
| st_complete_bundle: "complete_bundle i s = Inr (r, t) \<Longrightarrow> step P (ob_scope i) s t"
| st_claim_restore: "claim_restore i s = Inr (r, t) \<Longrightarrow> step P (wsc_customerId (kr_scope i)) s t"
| st_accept_restore: "accept_restore i s = Inr (r, t) \<Longrightarrow> step P (wsc_customerId (cs_scope (xt_cas i))) s t"
| st_fail_restore: "fail_restore i s = Inr (r, t) \<Longrightarrow> step P (wsc_customerId (cs_scope (ff_cas i))) s t"
| st_claim_copy_source_pin: "claim_copy_source_pin P i s = Inr (r, t) \<Longrightarrow> step P (wsc_customerId (kp_scope i)) s t"
| st_complete_copy_source_pin: "complete_copy_source_pin i s = Inr (r, t) \<Longrightarrow> step P (wsc_customerId (op_scope_in i)) s t"
| st_claim_storage_migration_recovery: "claim_storage_migration_recovery i s = Inr (r, t) \<Longrightarrow> step P (wsc_customerId (mv_scope i)) s t"
| st_renew_storage_migration_claim: "renew_storage_migration_claim i s = Inr (r, t) \<Longrightarrow> step P (wsc_customerId (mm_scope (mn_cas i))) s t"
| st_release_storage_migration_claim: "release_storage_migration_claim i s = Inr (r, t) \<Longrightarrow> step P (wsc_customerId (mm_scope (ml_cas i))) s t"
| st_claim_migration_backup: "claim_migration_backup i s = Inr (r, t) \<Longrightarrow> step P (wsc_customerId (mm_scope (mk_cas i))) s t"
| st_begin_capture: "begin_capture i s = Inr (r, t) \<Longrightarrow> step P (wsc_customerId (mm_scope i)) s t"
| st_complete_migration_backup: "complete_migration_backup i s = Inr (r, t) \<Longrightarrow> step P (wsc_customerId (mm_scope (mz_cas i))) s t"
| st_claim_migration_candidate: "claim_migration_candidate P i s = Inr (r, t) \<Longrightarrow> step P (wsc_customerId (mm_scope (my_cas i))) s t"
| st_record_verified_revision_copy: "record_verified_revision_copy i s = Inr (r, t) \<Longrightarrow> step P (wsc_customerId (mm_scope (mr_cas i))) s t"
| st_fail_storage_migration: "fail_storage_migration i s = Inr (r, t) \<Longrightarrow> step P (wsc_customerId (mm_scope (mf_cas i))) s t"
| st_claim_storage_migration: "claim_storage_migration P i s = Inr (r, t) \<Longrightarrow> step P (wsc_customerId (km_scope i)) s t"
| st_switch_storage_binding: "switch_storage_binding P i s = Inr (r, t) \<Longrightarrow> step P (wsc_customerId (mm_scope (mw_cas i))) s t"
| st_claim_legacy_adoption: "claim_legacy_adoption P i s = Inr (r, t) \<Longrightarrow> step P (wsc_customerId (ad_scope (ka_adoption i))) s t"
| st_claim_legacy_adoption_recovery: "claim_legacy_adoption_recovery i s = Inr (r, t) \<Longrightarrow> step P (wsc_customerId (dv_scope i)) s t"
| st_renew_legacy_adoption_claim: "renew_legacy_adoption_claim i e s = Inr (r, t) \<Longrightarrow> step P (wsc_customerId (da_scope i)) s t"
| st_release_legacy_adoption_claim: "release_legacy_adoption_claim i owner s = Inr (r, t) \<Longrightarrow> step P (wsc_customerId (da_scope i)) s t"
| st_record_legacy_adoption_backup: "record_legacy_adoption_backup i d s = Inr (r, t) \<Longrightarrow> step P (wsc_customerId (da_scope i)) s t"
| st_record_legacy_adoption_copy: "record_legacy_adoption_copy i c s = Inr (r, t) \<Longrightarrow> step P (wsc_customerId (da_scope i)) s t"
| st_accept_legacy_adoption: "accept_legacy_adoption P i s = Inr (r, t) \<Longrightarrow> step P (wsc_customerId (da_scope (xa_cas i))) s t"

text \<open>Operations on authorities; the legacy tables are written by the legacy services.\<close>

inductive access_step :: "platform \<Rightarrow> catalog \<Rightarrow> catalog \<Rightarrow> bool" for P where
  as_bootstrap: "bootstrap_authority a k s = Inr t \<Longrightarrow> access_step P s t"
| as_update: "update_authority i s = Inr (r, t) \<Longrightarrow> access_step P s t"
| as_synchronize: "synchronize_configured_administrator P key now s = Inr (r, t) \<Longrightarrow> access_step P s t"
| as_verified: "configuration_for_verified_administrator P k now s = Inr (r, t) \<Longrightarrow> access_step P s t"
| as_provenance: "register_configured_administrator_provenance i cur s = Inr t \<Longrightarrow> access_step P s t"
| as_legacy: "access_step P s (s\<lparr>c_api_keys := ks, c_webhooks := ws\<rparr>)"

definition any_step :: "platform \<Rightarrow> catalog \<Rightarrow> catalog \<Rightarrow> bool" where
  "any_step P s t \<longleftrightarrow> (\<exists>c. step P c s t) \<or> access_step P s t"

abbreviation run_of :: "platform \<Rightarrow> catalog \<Rightarrow> catalog \<Rightarrow> bool" where
  "run_of P \<equiv> (any_step P)\<^sup>*\<^sup>*"

abbreviation reachable :: "platform \<Rightarrow> catalog \<Rightarrow> bool" where
  "reachable P \<equiv> run_of P empty_catalog"

lemmas operations_advance =
  claim_workspace_creation_advances accept_workspace_creation_advances fail_workspace_creation_advances transition_workspace_status_advances
  register_legacy_revision_aliases_advances open_run_advances renew_run_lease_advances record_legacy_push_advances
  abort_run_advances expire_active_run_advances claim_finalization_advances record_prepared_revision_advances
  accept_revision_advances complete_read_only_advances fail_finalization_advances claim_recovery_advances
  renew_processing_claim_advances create_submission_advances register_upload_receipt_advances seal_submission_advances
  expire_submission_advances begin_submission_write_advances finish_submission_write_advances claim_submission_collection_advances
  complete_submission_collection_advances record_submission_progress_advances claim_candidate_collection_advances complete_candidate_collection_advances
  begin_candidate_write_advances finish_candidate_write_advances claim_cleanup_advances complete_cleanup_advances
  release_cleanup_claim_advances next_collection_work_advances register_subscription_advances claim_outbox_advances
  release_outbox_claim_advances record_delivery_advances create_bundle_advances select_bundle_manifest_advances
  complete_bundle_advances claim_restore_advances accept_restore_advances fail_restore_advances
  claim_copy_source_pin_advances complete_copy_source_pin_advances claim_storage_migration_recovery_advances
  renew_storage_migration_claim_advances release_storage_migration_claim_advances claim_migration_backup_advances begin_capture_advances
  complete_migration_backup_advances claim_migration_candidate_advances record_verified_revision_copy_advances fail_storage_migration_advances
  claim_storage_migration_advances switch_storage_binding_advances claim_legacy_adoption_advances
  claim_legacy_adoption_recovery_advances renew_legacy_adoption_claim_advances release_legacy_adoption_claim_advances record_legacy_adoption_backup_advances
  record_legacy_adoption_copy_advances accept_legacy_adoption_advances

theorem step_advances: "step P c s t \<Longrightarrow> consistent s \<Longrightarrow> advances c s t"
  by (induction rule: step.induct) (drule operations_advance, drule (1) postD, simp)+

section \<open>Authorities over a run\<close>

definition at_next :: "authority \<Rightarrow> authority \<Rightarrow> bool" where
  "at_next a b \<longleftrightarrow> at_credentialId b = at_credentialId a \<and> at_customerId b = at_customerId a \<and> at_actorId b = at_actorId a \<and>
     at_credentialVersion b = at_credentialVersion a + 1 \<and> at_permissionEpoch b = at_permissionEpoch a + 1"

definition authority_ok :: "scope \<Rightarrow> id \<Rightarrow> authority \<Rightarrow> bool" where
  "authority_ok sc i a \<longleftrightarrow> at_credentialId a = i"

definition access_ok :: "catalog \<Rightarrow> bool" where
  "access_ok s \<longleftrightarrow> tbl_wf (c_authority s) \<and> tbl_wf (c_credential_source s) \<and> rows_ok authority_ok (c_authority s)"

text \<open>Between two catalogs only the authorities and the legacy tables differ.\<close>

definition records_of :: "catalog \<Rightarrow> catalog" where
  "records_of s = s\<lparr>c_authority := [], c_credential_source := [], c_api_keys := [], c_webhooks := [],
     c_admin_configuration := None, c_admin_provenance := []\<rparr>"

abbreviation same_records :: "catalog \<Rightarrow> catalog \<Rightarrow> bool" where
  "same_records s t \<equiv> records_of t = records_of s"

lemma records_of_updates [simp]:
  "records_of (s\<lparr>c_authority := a\<rparr>) = records_of s" "records_of (s\<lparr>c_credential_source := k\<rparr>) = records_of s"
  "records_of (s\<lparr>c_admin_provenance := p\<rparr>) = records_of s" "records_of (s\<lparr>c_admin_configuration := c\<rparr>) = records_of s"
  "records_of (s\<lparr>c_api_keys := ks, c_webhooks := ws\<rparr>) = records_of s"
  by (simp_all add: records_of_def)

lemma same_records_update:
  assumes "same_records s t"
  shows "t = s\<lparr>c_authority := c_authority t, c_credential_source := c_credential_source t, c_api_keys := c_api_keys t,
    c_webhooks := c_webhooks t, c_admin_configuration := c_admin_configuration t, c_admin_provenance := c_admin_provenance t\<rparr>"
proof -
  have "t = (records_of t)\<lparr>c_authority := c_authority t, c_credential_source := c_credential_source t, c_api_keys := c_api_keys t,
    c_webhooks := c_webhooks t, c_admin_configuration := c_admin_configuration t, c_admin_provenance := c_admin_provenance t\<rparr>"
    by (simp add: records_of_def)
  also have "\<dots> = s\<lparr>c_authority := c_authority t, c_credential_source := c_credential_source t, c_api_keys := c_api_keys t,
    c_webhooks := c_webhooks t, c_admin_configuration := c_admin_configuration t, c_admin_provenance := c_admin_provenance t\<rparr>"
    unfolding assms by (simp add: records_of_def)
  finally show ?thesis .
qed

definition access_advances :: "catalog \<Rightarrow> catalog \<Rightarrow> bool" where
  "access_advances s t \<longleftrightarrow> same_records s t \<and> access_ok t \<and> evolves at_next\<^sup>*\<^sup>* (c_authority s) (c_authority t)"

lemma same_records_evolution:
  assumes "same_records s t"
  shows "evolution s t" and "consistent s \<Longrightarrow> access_ok t \<Longrightarrow> consistent t"
  by (subst same_records_update [OF assms], simp add: evolution_def)
    (subst same_records_update [OF assms], simp add: consistent_def catalog_wf_def migrations_owned_def access_ok_def)

lemma access_advances_refl: "access_ok s \<Longrightarrow> access_advances s s"
  by (simp add: access_advances_def)

lemma access_advances_trans: "access_advances s t \<Longrightarrow> access_advances t u \<Longrightarrow> access_advances s u"
  unfolding access_advances_def using evolves_trans [OF _ _ transp_closure(1)] by auto

lemma access_advances_ok: "access_advances s t \<Longrightarrow> access_ok t"
  by (simp add: access_advances_def)

text \<open>The writes of an access step.\<close>

lemma put_authority_advances:
  assumes "access_ok s" and "writable (c_authority s) i sc False" and "at_credentialId a = i"
    and "\<And>e. tbl_load (c_authority s) i None = Some e \<Longrightarrow> a = e \<or> at_next e a"
  shows "access_advances s (s\<lparr>c_authority := put_row i (mk_row sc rid a) (c_authority s)\<rparr>)"
  using assms by (auto simp: access_advances_def access_ok_def authority_ok_def intro!: evolves_closure_put)

lemma bind_credential_source_advances: "access_ok s \<Longrightarrow> access_advances s (bind_credential_source a k s)"
  by (simp add: bind_credential_source_def access_advances_def access_ok_def Let_def)

lemma bind_credential_source_authority [simp]: "c_authority (bind_credential_source a k s) = c_authority s"
  by (simp add: bind_credential_source_def Let_def)

lemma map_of_replaced:
  "map_of (map (\<lambda>(j, r). if j = i then (j, f r) else (j, r)) t) k = (if k = i then map_option f (map_of t i) else map_of t k)"
  by (induction t) auto

lemma replace_authority_advances:
  assumes "access_ok s" and "at_credentialId a = i" and "\<And>e. tbl_load (c_authority s) i None = Some e \<Longrightarrow> at_next e a"
  shows "access_advances s (replace_authority i a s)"
proof -
  let ?t = "map (\<lambda>(j, r). if j = i then (j, r\<lparr>row_data := a\<rparr>) else (j, r)) (c_authority s)"
  have keys: "map fst ?t = map fst (c_authority s)" by auto
  have "tbl_wf ?t" using assms(1) by (simp only: access_ok_def tbl_wf_def keys)
  then have "access_ok (replace_authority i a s)"
    using assms(1,2) by (auto simp: access_ok_def replace_authority_def rows_ok_def authority_ok_def map_of_replaced split: if_splits)
  moreover have "evolves at_next\<^sup>*\<^sup>* (c_authority s) ?t"
    using assms(3) by (auto simp: evolves_def map_of_replaced tbl_load_def in_scope_def)
  ultimately show ?thesis by (simp add: access_advances_def) (simp add: replace_authority_def)
qed

lemma write_provenance_advances [simp]: "access_ok s \<Longrightarrow> access_advances s (write_provenance i p s)"
  by (simp add: write_provenance_def access_advances_def access_ok_def)

lemma adopt_legacy_provenance_advances [simp]: "access_ok s \<Longrightarrow> access_advances s (adopt_legacy_provenance a s)"
  by (simp add: adopt_legacy_provenance_def access_advances_refl)

lemma adopt_legacy_provenance_authority [simp]: "c_authority (adopt_legacy_provenance a s) = c_authority s"
  by (simp add: adopt_legacy_provenance_def write_provenance_def)

lemma revoke_stale_advances:
  assumes "access_ok s" and "tbl_load (c_authority s) (at_credentialId a) None = Some a"
  shows "access_advances s (revoke_stale cur now a s)"
    and "i \<noteq> at_credentialId a \<Longrightarrow> tbl_load (c_authority (revoke_stale cur now a s)) i None = tbl_load (c_authority s) i None"
proof -
  let ?s = "adopt_legacy_provenance a s"
  let ?a = "a\<lparr>at_revokedAt := Some now, at_credentialVersion := at_credentialVersion a + 1, at_permissionEpoch := at_permissionEpoch a + 1\<rparr>"
  have s: "access_advances s ?s" using assms(1) by simp
  have "access_advances ?s (replace_authority (at_credentialId a) ?a ?s)"
    by (rule replace_authority_advances [OF access_advances_ok [OF s]]) (use assms(2) in \<open>auto simp: at_next_def\<close>)
  with access_advances_trans [OF s this] s show "access_advances s (revoke_stale cur now a s)"
    by (auto simp: revoke_stale_def Let_def split: option.split)
  show "tbl_load (c_authority (revoke_stale cur now a s)) i None = tbl_load (c_authority s) i None" if "i \<noteq> at_credentialId a"
    using that by (auto simp: revoke_stale_def Let_def replace_authority_def tbl_load_def map_of_replaced split: option.split)
qed

lemma revoke_all_advances:
  assumes "access_ok s" and "distinct (map at_credentialId as)"
    and "\<And>a. a \<in> set as \<Longrightarrow> tbl_load (c_authority s) (at_credentialId a) None = Some a"
  shows "access_advances s (fold (revoke_stale cur now) as s)"
  using assms
proof (induction as arbitrary: s)
  case (Cons a as)
  have a: "tbl_load (c_authority s) (at_credentialId a) None = Some a" using Cons.prems(3) by simp
  note one = revoke_stale_advances [OF Cons.prems(1) a, where cur = cur and now = now]
  have "access_advances (revoke_stale cur now a s) (fold (revoke_stale cur now) as (revoke_stale cur now a s))"
  proof (rule Cons.IH [OF access_advances_ok [OF one(1)]])
    fix b assume b: "b \<in> set as"
    with Cons.prems(2) have "at_credentialId b \<noteq> at_credentialId a" by (auto simp: rev_image_eqI)
    with one(2) Cons.prems(3) [of b] b show "tbl_load (c_authority (revoke_stale cur now a s)) (at_credentialId b) None = Some b" by simp
  qed (use Cons.prems(2) in simp)
  with access_advances_trans [OF one(1)] show ?case by simp
qed (simp add: access_advances_refl)

lemma revoke_previous_advances:
  assumes "access_ok s"
  shows "access_advances s (revoke_previous_configured_credentials cur now s)"
  unfolding revoke_previous_configured_credentials_def
proof (rule revoke_all_advances [OF assms])
  have wf: "tbl_wf (c_authority s)" using assms by (simp add: access_ok_def)
  have key: "at_credentialId d = i" if "tbl_load (c_authority s) i None = Some d" for i d
    using rows_ok_load [OF _ that, of authority_ok] assms by (auto simp: access_ok_def authority_ok_def)
  show "distinct (map at_credentialId (tbl_all (c_authority s) (Some (InCustomer []))))"
    by (rule distinct_tbl_all [OF wf key])
  show "tbl_load (c_authority s) (at_credentialId a) None = Some a" if "a \<in> set (tbl_all (c_authority s) (Some (InCustomer [])))" for a
    by (rule tbl_load_unscoped, rule tbl_all_load [of "c_authority s" at_credentialId, OF wf]) (use key that in simp_all)
qed

lemma configuration_advances [simp]: "access_ok s \<Longrightarrow> access_advances s (s\<lparr>c_admin_configuration := c\<rparr>)"
  by (simp add: access_advances_def access_ok_def)

lemma install_configuration_advances:
  "access_ok s \<Longrightarrow> install_configuration v prev now s = Inr (r, t) \<Longrightarrow> access_advances s t"
  using access_advances_trans [OF configuration_advances revoke_previous_advances] access_advances_ok [OF configuration_advances]
  by (fastforce simp: install_configuration_def Let_def split: if_splits)

lemma bootstrap_authority_advances:
  assumes "access_ok s" and "bootstrap_authority a k s = Inr t"
  shows "access_advances s t"
proof -
  let ?s = "bind_credential_source a k s"
  have s: "access_advances s ?s" by (rule bind_credential_source_advances [OF assms(1)])
  show ?thesis
  proof (cases "tbl_load (c_authority s) (at_credentialId a) None")
    case None
    with assms(2) have t: "t = ?s\<lparr>c_authority := put_row (at_credentialId a) (mk_row (InCustomer (case at_customerId a of None \<Rightarrow> [] | Some c \<Rightarrow> c)) None a) (c_authority ?s)\<rparr>"
      by (simp add: bootstrap_authority_def Let_def)
    have "access_advances ?s t" unfolding t
      by (rule put_authority_advances [OF access_advances_ok [OF s]]) (use None in \<open>simp_all add: writable_insert writable_weaken\<close>)
    with s show ?thesis by (rule access_advances_trans)
  next
    case (Some b)
    with assms(2) s show ?thesis by (simp add: bootstrap_authority_def Let_def split: if_splits)
  qed
qed

lemma update_authority_advances:
  assumes "access_ok s" and "update_authority i s = Inr (r, t)"
  shows "access_advances s t"
proof -
  let ?a = "ua_authority i"
  let ?s = "bind_credential_source ?a None s"
  let ?sc = "InCustomer (case at_customerId ?a of None \<Rightarrow> [] | Some c \<Rightarrow> c)"
  have s: "access_advances s ?s" by (rule bind_credential_source_advances [OF assms(1)])
  have "post (update_authority i s) (\<lambda>(r, t). writable (c_authority s) (at_credentialId ?a) ?sc False \<and>
      t = ?s\<lparr>c_authority := put_row (at_credentialId ?a) (mk_row ?sc None ?a) (c_authority ?s)\<rparr> \<and>
      (\<forall>e. tbl_load (c_authority s) (at_credentialId ?a) None = Some e \<longrightarrow> at_credentialId e = at_credentialId ?a \<longrightarrow> at_next e ?a))"
    unfolding update_authority_def Let_def post_simps
    by (auto simp: at_next_def split: option.splits)
  from postD [OF this assms(2)] have w: "writable (c_authority s) (at_credentialId ?a) ?sc False"
    "t = ?s\<lparr>c_authority := put_row (at_credentialId ?a) (mk_row ?sc None ?a) (c_authority ?s)\<rparr>"
    and next': "\<And>e. tbl_load (c_authority s) (at_credentialId ?a) None = Some e \<Longrightarrow> at_credentialId e = at_credentialId ?a \<Longrightarrow> at_next e ?a"
    by auto
  have key: "at_credentialId e = i" if "tbl_load (c_authority s) i None = Some e" for i e
    using rows_ok_load [OF _ that, of authority_ok] assms(1) by (auto simp: access_ok_def authority_ok_def)
  have "access_advances ?s t" unfolding w(2)
    by (rule put_authority_advances [OF access_advances_ok [OF s]]) (use w(1) next' key in auto)
  with s show ?thesis by (rule access_advances_trans)
qed

lemma synchronize_configured_administrator_advances:
  "access_ok s \<Longrightarrow> synchronize_configured_administrator P key now s = Inr (r, t) \<Longrightarrow> access_advances s t"
  by (auto simp: synchronize_configured_administrator_def txn_simps revoke_previous_advances split: option.splits if_splits
      dest: install_configuration_advances)

lemma configuration_for_verified_administrator_advances:
  "access_ok s \<Longrightarrow> configuration_for_verified_administrator P key now s = Inr (r, t) \<Longrightarrow> access_advances s t"
  by (auto simp: configuration_for_verified_administrator_def txn_simps access_advances_refl split: option.splits if_splits
      dest: install_configuration_advances)

lemma register_provenance_advances:
  "access_ok s \<Longrightarrow> register_configured_administrator_provenance i cur s = Inr t \<Longrightarrow> access_advances s t"
  by (auto simp: register_configured_administrator_provenance_def access_advances_refl split: option.splits if_splits)

theorem access_step_advances: "access_step P s t \<Longrightarrow> access_ok s \<Longrightarrow> access_advances s t"
proof (induction rule: access_step.induct)
  case (as_legacy s ks ws)
  then show ?case by (simp add: access_advances_def access_ok_def)
qed (blast intro: bootstrap_authority_advances update_authority_advances synchronize_configured_administrator_advances
    configuration_for_verified_administrator_advances register_provenance_advances)+

section \<open>Runs\<close>

definition sound :: "catalog \<Rightarrow> bool" where
  "sound s \<longleftrightarrow> consistent s \<and> access_ok s"

lemma any_step_advances:
  assumes "any_step P s t" and "sound s"
  shows "sound t \<and> evolution s t \<and> evolves at_next\<^sup>*\<^sup>* (c_authority s) (c_authority t)"
proof -
  from assms(1) consider c where "step P c s t" | "access_step P s t" by (auto simp: any_step_def)
  then show ?thesis
  proof cases
    case 1
    with assms(2) have "advances c s t" by (auto simp: sound_def intro: step_advances)
    then show ?thesis using assms(2) by (simp add: advances_def sound_def access_ok_def same_authority_def)
  next
    case 2
    with assms(2) have a: "access_advances s t" by (auto simp: sound_def intro: access_step_advances)
    then have "records_of t = records_of s" by (simp add: access_advances_def)
    from same_records_evolution [OF this] a assms(2) show ?thesis by (simp add: access_advances_def sound_def)
  qed
qed

theorem run_evolution:
  assumes "run_of P s t" and "sound s"
  shows "sound t \<and> evolution s t \<and> evolves at_next\<^sup>*\<^sup>* (c_authority s) (c_authority t)"
  using assms
proof (induction rule: rtranclp_induct)
  case (step u t)
  then have u: "sound u \<and> evolution s u \<and> evolves at_next\<^sup>*\<^sup>* (c_authority s) (c_authority u)" by blast
  with any_step_advances [OF step.hyps(2)] have "sound t \<and> evolution u t \<and> evolves at_next\<^sup>*\<^sup>* (c_authority u) (c_authority t)" by blast
  with u evolution_trans evolves_trans [OF _ _ transp_closure(1)] show ?case by blast
qed simp

lemma sound_empty: "sound empty_catalog"
  by (simp add: sound_def consistent_empty access_ok_def) (simp add: empty_catalog_def)

text \<open>What a run does to one record.\<close>

lemma evolves_closure_load:
  assumes "evolves R\<^sup>*\<^sup>* t u" and "tbl_load t i q = Some d"
  shows "\<exists>e. tbl_load u i q = Some e \<and> R\<^sup>*\<^sup>* d e"
  using evolves_load [OF assms] by auto

lemma evolves_unchanged_load: "evolves unchanged t u \<Longrightarrow> tbl_load t i q = Some d \<Longrightarrow> tbl_load u i q = Some d"
  using evolves_load [of unchanged t u i q d] by (auto simp: unchanged_def)

lemma evolution_load:
  assumes "evolution s t"
  shows "tbl_load (c_run s) i q = Some r \<Longrightarrow> \<exists>e. tbl_load (c_run t) i q = Some e \<and> rn_next\<^sup>*\<^sup>* r e"
    and "tbl_load (c_operation s) i q = Some o' \<Longrightarrow> \<exists>e. tbl_load (c_operation t) i q = Some e \<and> op_next\<^sup>*\<^sup>* o' e"
    and "tbl_load (c_revision s) i q = Some v \<Longrightarrow> \<exists>e. tbl_load (c_revision t) i q = Some e \<and> rv_next\<^sup>*\<^sup>* v e"
    and "tbl_load (c_submission s) i q = Some m \<Longrightarrow> \<exists>e. tbl_load (c_submission t) i q = Some e \<and> sm_next\<^sup>*\<^sup>* m e"
    and "tbl_load (c_candidate s) i q = Some k \<Longrightarrow> \<exists>e. tbl_load (c_candidate t) i q = Some e \<and> cr_next\<^sup>*\<^sup>* k e"
    and "tbl_load (c_cleanup s) i q = Some x \<Longrightarrow> \<exists>e. tbl_load (c_cleanup t) i q = Some e \<and> cl_next\<^sup>*\<^sup>* x e"
    and "tbl_load (c_outbox s) i q = Some y \<Longrightarrow> \<exists>e. tbl_load (c_outbox t) i q = Some e \<and> ox_next\<^sup>*\<^sup>* y e"
    and "tbl_load (c_workspace s) i q = Some w \<Longrightarrow> \<exists>e. tbl_load (c_workspace t) i q = Some e \<and> ws_next\<^sup>*\<^sup>* w e"
    and "tbl_load (c_migration s) i q = Some mg \<Longrightarrow> \<exists>e. tbl_load (c_migration t) i q = Some e \<and> mg_next\<^sup>*\<^sup>* mg e"
    and "tbl_load (c_delivery s) i q = Some dl \<Longrightarrow> \<exists>e. tbl_load (c_delivery t) i q = Some e \<and> dl_next\<^sup>*\<^sup>* dl e"
    and "tbl_load (c_receipt s) i q = Some u \<Longrightarrow> tbl_load (c_receipt t) i q = Some u"
    and "tbl_load (c_audit s) i q = Some a \<Longrightarrow> tbl_load (c_audit t) i q = Some a"
    and "tbl_load (c_recipients s) i q = Some rs \<Longrightarrow> tbl_load (c_recipients t) i q = Some rs"
  by (rule evolves_closure_load evolves_unchanged_load; use assms in \<open>simp add: evolution_def\<close>)+

end
