(* ===== verification/Cv_Sample.thy ===== *)
theory Cv_Sample
  imports Cv_System
begin

text \<open>
  A concrete run of the catalog, for the witnesses: a service principal is given its authority, creates
  a workspace, opens a read-write run on it, uploads one file, seals its submission and publishes it as
  the second revision. \<open>after m\<close> is the catalog an operation returns.
\<close>

definition after :: "failure + ('a \<times> catalog) \<Rightarrow> catalog" where
  "after m = (case m of Inl _ \<Rightarrow> empty_catalog | Inr (_, s) \<Rightarrow> s)"

definition x_platform :: platform where
  "x_platform = Platform (\<lambda>t. replicate 64 (if length t < 40 then CHR ''0'' else CHR ''1'')) (\<lambda>t. t) (\<lambda>t. t) (\<lambda>_. True)"

definition x_ws :: workspace_scope where "x_ws = WorkspaceScope ''c1'' ''w1''"
definition x_run :: run_scope where "x_run = RunScope ''c1'' ''w1'' ''b1'' 1 ''r1''"

definition x_principal :: principal where
  "x_principal = Principal (Service ''c1'') ''svc'' (CredentialIdentity ''k1'' ServiceCredential 1) 1 ''2026-01-01''"

definition x_authority :: authority where
  "x_authority = \<lparr>at_credentialId = ''k1'', at_actorId = ''svc'', at_customerId = Some ''c1'', at_credentialVersion = 1,
     at_permissionEpoch = 1, at_policyVersion = 1, at_revokedAt = None,
     at_grants = map (\<lambda>a. PermissionGrant a ''c1'' None) [WorkspaceCreate, WorkspaceRead, WorkspaceAdmin, RunOpenRead, RunOpenWrite, RunRead, RunUpload, RunFinalize, RunAbort, RunHeartbeat]\<rparr>"

definition x_permission :: "action \<Rightarrow> scope \<Rightarrow> authorization" where
  "x_permission a sc = AuthorizationPrecondition x_principal sc a 1 1 1"

definition x_command :: "operation_kind \<Rightarrow> id option \<Rightarrow> id option \<Rightarrow> string \<Rightarrow> command_identity" where
  "x_command k w r n = CommandIdentity (IdempotencyScope ''c1'' ''svc'' k w r) (''key-'' @ n) (''digest-'' @ n) (''op-'' @ n) ''2026-01-02''"

definition x_event :: "string \<Rightarrow> id option \<Rightarrow> publication_events" where
  "x_event n r = (let e = (\<lambda>i. AuditEvent i x_ws r (''op-'' @ n) ''svc'' ''changed'' JNull ''2026-01-02'')
     in PublicationEvents (e (''a-'' @ n)) \<lparr>ox_event = e (''o-'' @ n), ox_deliveryState = DeliveryPending, ox_version = 1,
          ox_attempts = 0, ox_nextAttemptAt = ''2026-01-02'', ox_claim = None\<rparr>)"

definition x_claim :: processing_claim where "x_claim = ProcessingClaim ''worker'' 1 ''2026-01-09''"

definition x_new_workspace :: workspace where
  "x_new_workspace = \<lparr>ws_id = ''w1'', ws_customerId = ''c1'', ws_name = ''docs'', ws_currentRevisionId = ''v1'', ws_version = 1,
     ws_status = WsActive, ws_storageBindingId = ''b1'', ws_bindingGeneration = 1, ws_createdAt = ''2026-01-02'', ws_updatedAt = ''2026-01-02''\<rparr>"

definition x_binding :: storage_binding where
  "x_binding = \<lparr>sb_id = ''b1'', sb_scope = x_ws, sb_backend = GitBackend, sb_generation = 1, sb_location = PrivateLocator ''git'' ''w1'',
     sb_configurationRef = ''default'', sb_status = BindingActive, sb_createdAt = ''2026-01-02''\<rparr>"

definition x_digest :: "manifest \<Rightarrow> string" where "x_digest m = pf_sha256 x_platform (manifest_text m)"

definition x_first :: candidate_identity where
  "x_first = CandidateIdentity ''d1'' ''v1'' ''op-1'' (binding_of x_new_workspace) None ''2026-01-02''"

definition x_first_revision :: prepared_revision where
  "x_first_revision = PreparedRevision ''d1'' ''v1'' (binding_of x_new_workspace) None ''op-1'' (x_digest (Manifest [])) (PrivateLocator ''git'' ''o1'') ''2026-01-02''"

definition x_service :: "authority row" where "x_service = mk_row (InCustomer ''c1'') None x_authority"

definition x_revision :: revision where "x_revision = revision_of x_first_revision ''2026-01-03''"

definition x_active :: run where
  "x_active = \<lparr>rn_id = ''r1'', rn_scope = binding_of x_new_workspace, rn_principal = x_principal, rn_agentLabel = ''agent'',
     rn_task = ''task'', rn_reason = ''reason'', rn_mode = ReadWrite, rn_baseRevisionId = ''v1'', rn_workspaceVersionAtOpen = 1,
     rn_version = 1, rn_state = Active, rn_lease = RunLease 1 ''2026-01-08'' ''2026-01-03'', rn_operationId = None, rn_outcome = None,
     rn_cleanupId = ''u1'', rn_createdAt = ''2026-01-03'', rn_updatedAt = ''2026-01-03''\<rparr>"

definition x_open :: catalog where
  "x_open = empty_catalog\<lparr>c_workspace := [(''w1'', mk_row (of_ws x_ws) None x_new_workspace)],
     c_binding := [(''b1'', mk_row (of_ws x_ws) None x_binding)],
     c_revision := [(''v1'', mk_row (of_ws x_ws) None x_revision)],
     c_run := [(''r1'', mk_row (of_ws x_ws) (Some ''r1'') x_active)],
     c_authority := [(''k1'', mk_row (InCustomer ''c1'') None x_authority)],
     c_credential_source := [(''k1'', mk_row (InCustomer ''c1'') None ServiceCredential)]\<rparr>"

definition in_abort :: abort_input where
  "in_abort = AbortInput x_run x_principal (x_permission RunAbort (of_rs x_run)) (x_command KAbort (Some ''w1'') (Some ''r1'') ''7'') 1 ''stop''
     (x_event ''7'' (Some ''r1'')) ''2026-01-05''"

definition in_expire :: expire_run_input where
  "in_expire = ExpireRun (ExpiredActiveRun x_run 1 1 ''2026-01-08'') ''2026-01-08'' (x_event ''8'' (Some ''r1''))"

named_theorems x_eval "definitions that evaluate an operation on the sample catalogs"

lemmas [x_eval] = x_open_def x_active_def x_new_workspace_def x_binding_def x_revision_def x_first_revision_def x_first_def x_ws_def x_run_def
  x_principal_def x_permission_def x_authority_def x_command_def x_event_def x_claim_def in_abort_def in_expire_def empty_catalog_def
  Let_def sbind_def load_or_def tbl_load_def found_def in_scope_def mk_row_def of_ws_def of_rs_def of_bs_def fail_unless_def require_def
  rs_binding_def binding_of_def scope_of_def rs_workspace_def bs_workspace_def tbl_write_def tbl_all_def cleanup_taken_def
  write_workspace_def write_binding_def write_revision_def write_run_def write_operation_def write_candidate_def write_submission_def
  write_receipt_def write_cleanup_def write_cleanup_owner_def write_audit_def write_outbox_def
  permit_def decide_access_def authority_of_def is_current_configured_administrator_def provenance_of_def legacy_configured_identity_def
  configured_administrator_actor_def revoked_def is_administrator_def grants_action_def pr_customerId_def identity_of_def
  workspace_at_def run_at_def check_active_def check_command_def replay_def find_command_def insert_command_def save_command_def
  new_operation_def save_operation_def save_outcome_def update_command_def event_matches_def write_events_def operation_events_def
  new_cleanup_def ensure_cleanup_def processing_def match_candidate_def register_candidate_def record_prepared_def revision_of_def valid_claim_def

lemma rows_ok_list: "distinct (map fst t) \<Longrightarrow> rows_ok P t \<longleftrightarrow> list_all (\<lambda>(i, q). P (row_scope q) i (row_data q)) t"
  by (auto simp: rows_ok_def list_all_iff)

lemma sound_x_open: "sound x_open"
  by (simp add: sound_def consistent_def catalog_wf_def migrations_owned_def access_ok_def rows_ok_list record_ok_defs authority_ok_def
    tbl_wf_def row_scope_def live_def x_eval)

definition x_aborted :: catalog where "x_aborted = after (abort_run in_abort x_open)"
definition x_expired :: catalog where "x_expired = after (expire_active_run in_expire x_open)"

lemma after_ok: "\<not> isl m \<Longrightarrow> \<exists>r. m = Inr (r, after m)"
  by (cases m) (auto simp: after_def)

lemma x_abort: "\<exists>r. abort_run in_abort x_open = Inr (r, x_aborted)"
  unfolding x_aborted_def by (rule after_ok) (simp add: abort_run_def aborted_run_def x_eval)

lemma x_expire: "\<exists>r. expire_active_run in_expire x_open = Inr (r, x_expired)"
  unfolding x_expired_def by (rule after_ok) (simp add: expire_active_run_def expired_run_def x_eval)

lemma x_abort_run: "run_of P x_open x_aborted"
  using x_abort by (blast intro: r_into_rtranclp any_step_def [THEN iffD2] st_abort_run)

lemma x_aborted_run: "tbl_load (c_run x_aborted) ''r1'' (Some (of_ws x_ws)) = Some (aborted_run ''op-7'' ''2026-01-05'' x_active)"
  unfolding x_aborted_def after_def by (simp add: abort_run_def aborted_run_def x_eval)

lemma sound_x_aborted: "sound x_aborted"
  using run_evolution [OF x_abort_run sound_x_open] by blast

section \<open>A claimed finalization\<close>

definition x_selection :: sealed_selection where "x_selection = SealedSelection ''m1'' 2 ''digest-m''"

definition x_candidate :: candidate_identity where
  "x_candidate = CandidateIdentity ''d2'' ''v2'' ''op-2'' (binding_of x_new_workspace) (Some ''v1'') ''2026-01-04''"

definition x_prepared :: prepared_revision where
  "x_prepared = PreparedRevision ''d2'' ''v2'' (binding_of x_new_workspace) (Some ''v1'') ''op-2'' ''digest-m'' (PrivateLocator ''git'' ''o2'') ''2026-01-04''"

definition x_submission :: submission where
  "x_submission = \<lparr>sm_id = ''m1'', sm_scope = x_run, sm_state = Sealed, sm_version = 2, sm_expiresAt = ''2026-01-08'',
     sm_manifest = Some (Manifest [FileEntry ''a.txt'' 1 ''digest-a'']), sm_manifestDigest = Some ''digest-m'',
     sm_receipts = [ReceiptSelection ''a.txt'' ''u1''], sm_createdAt = ''2026-01-03'', sm_sealedAt = Some ''2026-01-03''\<rparr>"

definition x_intent :: finalization_intent where
  "x_intent = FinalizationIntent 1 KFinalize ReadWrite (JsonRequest ''POST'' ''/v1/runs/r1/finalize'' (FinalizeBody 1 (Some ''m1'')))
     (Some x_selection) (Some x_candidate)"

definition x_claimed :: operation where
  "x_claimed = (new_operation (x_command KFinalize (Some ''w1'') (Some ''r1'') ''2'') x_principal x_ws (Some ''r1'') None)
     \<lparr>op_intent := FinalizeIntent x_intent, op_claim := Some x_claim, op_candidate := Some x_prepared, op_phase := PhPrepared\<rparr>"

definition x_final :: catalog where
  "x_final = x_open\<lparr>c_run := [(''r1'', mk_row (of_ws x_ws) (Some ''r1'') (finalizing_run ''op-2'' ''2026-01-04'' x_active))],
     c_operation := [(''op-2'', mk_row (of_ws x_ws) (Some ''r1'') x_claimed)],
     c_commands := [((cm_scope (op_command x_claimed), ''key-2''), CommandRow ''digest-2'' ''op-2'' (VRun (finalizing_run ''op-2'' ''2026-01-04'' x_active)))],
     c_submission := [(''m1'', mk_row (of_ws x_ws) (Some ''r1'') x_submission)],
     c_candidate := [(''d2'', mk_row (of_ws x_ws) None \<lparr>cr_identity = x_candidate, cr_prepared = Some x_prepared, cr_collection = None, cr_collectedAt = None\<rparr>)]\<rparr>"

definition x_finalizer :: finalizer where
  "x_finalizer = FinalizerPreconditions x_run ''op-2'' 2 1 1 1 (x_permission RunFinalize (of_rs x_run)) (x_event ''2'' (Some ''r1'')) ''2026-01-05''"

definition in_accept :: accept_revision_input where
  "in_accept = AcceptRevision x_finalizer ''v1'' 1 ''m1'' x_prepared"

definition in_fail :: fail_input where
  "in_fail = FailInput (ProcessingCAS x_ws ''op-2'' 1 1 ''2026-01-05'') REVISION_CONFLICT ''conflict'' (x_event ''2'' (Some ''r1''))"

definition in_recover :: claim_recovery_input where
  "in_recover = ClaimRecovery x_ws ''op-2'' 1 ''other'' ''2026-01-10'' ''2026-01-12'' None"

lemmas [x_eval] = x_selection_def x_candidate_def x_prepared_def x_submission_def x_intent_def x_claimed_def x_final_def x_finalizer_def
  in_accept_def in_fail_def in_recover_def finalizing_run_def finalizer_of_def finished_run_def failed_run_def complete_finalization_def
  complete_operation_def fail_operation_def advance_head_def check_source_def publish_revision_def head_unchanged_def publication_replay_def
  revision_accepted_def load_optional_def intent_mode_def intent_source_def claimed_operation_def candidate_fenced_def recovery_kind_ok_def

lemma x_digest_length [x_eval]: "x_digest m = ''digest-m'' \<longleftrightarrow> False" "''digest-m'' = x_digest m \<longleftrightarrow> False"
  by (auto simp: x_digest_def x_platform_def dest: arg_cong [where f = size])

lemma sound_x_final: "sound x_final"
  by (simp add: sound_def consistent_def catalog_wf_def migrations_owned_def access_ok_def rows_ok_list record_ok_defs authority_ok_def
    tbl_wf_def row_scope_def live_def intent_ok_def x_eval)

definition x_published :: catalog where "x_published = after (accept_revision in_accept x_final)"
definition x_conflicted :: catalog where "x_conflicted = after (fail_finalization in_fail x_final)"
definition x_recovered :: catalog where "x_recovered = after (claim_recovery in_recover x_final)"

lemma x_publish: "\<exists>r. accept_revision in_accept x_final = Inr (r, x_published)"
  unfolding x_published_def by (rule after_ok) (simp add: accept_revision_def x_eval)

lemma x_conflict: "\<exists>r. fail_finalization in_fail x_final = Inr (r, x_conflicted)"
  unfolding x_conflicted_def by (rule after_ok) (simp add: fail_finalization_def x_eval)

lemma x_recover: "\<exists>r. claim_recovery in_recover x_final = Inr (r, x_recovered)"
  unfolding x_recovered_def by (rule after_ok) (simp add: claim_recovery_def safe_integer_def x_eval)

lemma x_runs: "run_of P x_final x_published" "run_of P x_final x_conflicted" "run_of P x_final x_recovered"
  using x_publish x_conflict x_recover
  by (blast intro: r_into_rtranclp any_step_def [THEN iffD2] st_accept_revision st_fail_finalization st_claim_recovery)+

lemma sound_samples: "sound x_published" "sound x_conflicted" "sound x_recovered"
  using x_runs [THEN run_evolution] sound_x_final by blast+


section \<open>A collected candidate and a rotated credential\<close>

definition in_collect :: claim_candidate_input where
  "in_collect = ClaimCandidate (binding_of x_new_workspace) ''d2'' ''2026-01-21'' ''2026-01-20''"

lemmas collection_eval = collectable_def history_retains_def run_retains_def operation_retains_def candidate_writing_def same_reference_def
  permit_target_of_def collection_binding_def restore_pins_def

definition x_collected :: catalog where "x_collected = after (claim_candidate_collection in_collect x_conflicted)"

lemma x_collect: "\<exists>r. claim_candidate_collection in_collect x_conflicted = Inr (r, x_collected)"
  unfolding x_collected_def x_conflicted_def
  by (rule after_ok) (simp add: after_def in_collect_def claim_candidate_collection_def fail_finalization_def collection_eval x_eval)

lemma x_collect_run: "run_of P x_final x_collected"
  using x_collect x_runs(2) by (blast intro: rtranclp.rtrancl_into_rtrancl any_step_def [THEN iffD2] st_claim_candidate_collection)

lemma sound_x_collected: "sound x_collected"
  using run_evolution [OF x_collect_run sound_x_final] by blast

definition x_rotated :: catalog where
  "x_rotated = x_open\<lparr>c_authority := [(''k1'', mk_row (InCustomer ''c1'') None
     (x_authority\<lparr>at_credentialVersion := 2, at_permissionEpoch := 2\<rparr>))]\<rparr>"

lemma sound_x_rotated: "sound x_rotated"
  using sound_x_open by (simp add: x_rotated_def sound_def consistent_def catalog_wf_def migrations_owned_def access_ok_def rows_ok_list authority_ok_def
    tbl_wf_def x_authority_def mk_row_def)

end
