(* ===== verification/Cv_History.thy ===== *)
theory Cv_History
  imports Cv_Sample
begin

text \<open>
  What holds of the catalog over any run: any sequence of operations by any customers, workers and
  administrators, from a sound catalog (the empty one is). The facts come from \<open>run_evolution\<close> and the
  allowed changes of \<open>Cv_Evolution\<close>.
\<close>

section \<open>Closures of the allowed changes\<close>

lemma rn_next_identity: "rn_next\<^sup>*\<^sup>* r q \<Longrightarrow> same_run r q"
  by (induction rule: rtranclp_induct) (auto simp: rn_next_def same_run_def)

lemma rn_next_live: "rn_next r q \<Longrightarrow> live (rn_state r)"
  by (cases "rn_state r") (simp_all add: rn_next_def live_def lease_renewed_def run_moved_def can_transition_run_def)

lemma rn_next_finalizing: "rn_next r q \<Longrightarrow> rn_state r = Finalizing \<Longrightarrow> \<not> live (rn_state q) \<and> rn_operationId q = rn_operationId r"
  by (auto simp: rn_next_def live_def lease_renewed_def run_moved_def can_transition_run_def)

lemma terminal_run_closed: "rn_next\<^sup>*\<^sup>* r q \<Longrightarrow> \<not> live (rn_state r) \<Longrightarrow> q = r"
  by (erule converse_rtranclpE) (auto dest: rn_next_live)

lemma finalizing_closed:
  assumes "rn_next\<^sup>*\<^sup>* r q" and "rn_state r = Finalizing"
  shows "q = r \<or> \<not> live (rn_state q) \<and> rn_operationId q = rn_operationId r"
  using assms(1)
proof (cases rule: converse_rtranclpE)
  case (step p)
  with rn_next_finalizing [OF step(1) assms(2)] terminal_run_closed [OF step(2)] show ?thesis by simp
qed simp

lemma fence_kept_trans: "fence_kept a b \<Longrightarrow> fence_kept b c \<Longrightarrow> fence_kept a c"
  by (fastforce simp: fence_kept_def)

lemma op_fence_closed:
  "op_next\<^sup>*\<^sup>* o' p \<Longrightarrow> op_kind o' \<noteq> KStorageMigrate \<Longrightarrow> op_kind p = op_kind o' \<and> fence_kept (op_claim o') (op_claim p)"
  by (induction rule: rtranclp_induct) (auto simp: op_next_def same_operation_def intro: fence_kept_trans)

lemma op_next_identity: "op_next\<^sup>*\<^sup>* o' p \<Longrightarrow> same_operation o' p"
  by (induction rule: rtranclp_induct) (auto simp: op_next_def same_operation_def)

lemma sm_closed:
  "sm_next\<^sup>*\<^sup>* m n \<Longrightarrow> sm_state m = Sealed \<Longrightarrow> n = m \<or> sm_state n = SubmissionExpired \<and> sm_scope n = sm_scope m \<and>
     sm_manifest n = sm_manifest m \<and> sm_manifestDigest n = sm_manifestDigest m \<and> sm_receipts n = sm_receipts m \<and> sm_sealedAt n = sm_sealedAt m"
  by (induction rule: rtranclp_induct) (auto simp: sm_next_def split: submission_state.splits)

lemma cr_collection_closed: "cr_next\<^sup>*\<^sup>* k l \<Longrightarrow> cr_collection k \<noteq> None \<Longrightarrow> cr_collection l \<noteq> None \<and> cr_prepared l = cr_prepared k"
  by (induction rule: rtranclp_induct) (auto simp: cr_next_def)

lemma cl_closed:
  "cl_next\<^sup>*\<^sup>* c d \<Longrightarrow> cl_attempts c \<le> cl_attempts d \<and> cl_version c \<le> cl_version d \<and> (cl_state c = CleanupComplete \<longrightarrow> d = c)"
  by (induction rule: rtranclp_induct) (auto simp: cl_next_def)

lemma ox_closed:
  "ox_next\<^sup>*\<^sup>* e f \<Longrightarrow> ox_event f = ox_event e \<and> ox_attempts e \<le> ox_attempts f \<and> (ox_deliveryState e = DeliveryComplete \<longrightarrow> f = e)"
  by (induction rule: rtranclp_induct) (auto simp: ox_next_def)

lemma dl_closed: "dl_next\<^sup>*\<^sup>* d e \<Longrightarrow> dl_delivered d \<Longrightarrow> dl_delivered e"
  by (induction rule: rtranclp_induct) (auto simp: dl_next_def)

lemma at_closed:
  "at_next\<^sup>*\<^sup>* a b \<Longrightarrow> at_credentialVersion a \<le> at_credentialVersion b \<and> at_permissionEpoch a \<le> at_permissionEpoch b \<and>
     (at_credentialVersion b = at_credentialVersion a \<longrightarrow> b = a)"
  by (induction rule: rtranclp_induct) (auto simp: at_next_def)

lemma rv_closed: "rv_next\<^sup>*\<^sup>* v w \<Longrightarrow> rv_id w = rv_id v \<and> rv_parentRevisionId w = rv_parentRevisionId v \<and>
    rv_manifestDigest w = rv_manifestDigest v \<and> rv_originatingOperationId w = rv_originatingOperationId v"
  by (induction rule: rtranclp_induct) (auto simp: rv_next_def)

lemma ws_closed: "ws_next\<^sup>*\<^sup>* w v \<Longrightarrow> ws_version w \<le> ws_version v \<and> (ws_version v = ws_version w \<longrightarrow> v = w) \<and> ws_name v = ws_name w"
  by (induction rule: rtranclp_induct) (auto simp: ws_next_def)

lemma run_evolves: "run_of P s t \<Longrightarrow> sound s \<Longrightarrow> evolution s t"
  using run_evolution by blast

section \<open>Tenant isolation\<close>

text \<open>Everything a reader scoped to \<open>q\<close> can load under the id \<open>i\<close>.\<close>

definition tenant_view :: "scope \<Rightarrow> catalog \<Rightarrow> id \<Rightarrow> _" where
  "tenant_view q s i = 
     ((tbl_load (c_workspace s) i (Some q), tbl_load (c_binding s) i (Some q), tbl_load (c_revision s) i (Some q), tbl_load (c_run s) i (Some q),
       tbl_load (c_operation s) i (Some q), tbl_load (c_candidate s) i (Some q), tbl_load (c_candidate_writer s) i (Some q)),
      (tbl_load (c_submission s) i (Some q), tbl_load (c_receipt s) i (Some q), tbl_load (c_submission_writer s) i (Some q),
       tbl_load (c_submission_collection s) i (Some q), tbl_load (c_cleanup s) i (Some q), tbl_load (c_cleanup_owner s) i (Some q)),
      (tbl_load (c_audit s) i (Some q), tbl_load (c_outbox s) i (Some q), tbl_load (c_recipients s) i (Some q),
       tbl_load (c_delivery s) i (Some q), tbl_load (c_subscription s) i (Some q), tbl_load (c_compatibility s) i (Some q)),
      (tbl_load (c_migration s) i (Some q), tbl_load (c_guards s) i (Some q), tbl_load (c_adoption s) i (Some q), tbl_load (c_alias s) i (Some q)),
      (tbl_load (c_bundle s) i (Some q), tbl_load (c_bundle_command s) i (Some q), tbl_load (c_pin s) i (Some q)))"

text \<open>C24: no operation of the store on behalf of one customer changes anything that another customer's scope
  can read, in any of the record tables: not its value, its existence or its absence.\<close>

theorem tenant_isolation:
  assumes "step P c s t" and "sound s" and "scope_customer q \<noteq> c"
  shows "tenant_view q t i = tenant_view q s i"
proof -
  from assms(1,2) have "confined c s t"
    using step_advances by (auto simp: sound_def advances_def)
  then show ?thesis
    unfolding confined_def tenant_view_def by (simp add: same_rows_load [of c, OF _ assms(3)])
qed

theorem tenant_isolation_witness:
  "tenant_view (of_ws (WorkspaceScope ''c2'' ''w1'')) x_aborted ''r1'' = tenant_view (of_ws (WorkspaceScope ''c2'' ''w1'')) x_open ''r1''"
proof -
  obtain r where "abort_run in_abort x_open = Inr (r, x_aborted)" using x_abort by blast
  from tenant_isolation [OF st_abort_run [OF this] sound_x_open] show ?thesis
    by (simp add: in_abort_def x_run_def rs_workspace_def)
qed

section \<open>Runs\<close>

text \<open>C30: a run that has reached a terminal state (finalized, aborted, expired, failed or conflicted) never
  changes again, whatever operations follow: no late heartbeat, abort, expiry, finalization or recovery
  can alter its state, outcome, lease or version.\<close>

theorem terminal_run_immutable:
  assumes "run_of P s t" and "sound s" and "tbl_load (c_run s) i q = Some r" and "\<not> live (rn_state r)"
  shows "tbl_load (c_run t) i q = Some r"
  using evolution_load(1) [OF run_evolves [OF assms(1,2)] assms(3)] terminal_run_closed [OF _ assms(4)] by blast

theorem terminal_run_immutable_witness:
  "tbl_load (c_run x_aborted) ''r1'' (Some (of_ws x_ws)) = Some (aborted_run ''op-7'' ''2026-01-05'' x_active)"
  by (rule terminal_run_immutable [OF rtranclp.rtrancl_refl [where r = "any_step x_platform"] sound_x_aborted x_aborted_run])
    (simp add: aborted_run_def live_def)

text \<open>A run that a finalization has claimed stays with that operation: later it is either unchanged or
  ended, still bound to the same operation, with its identity, principal, mode and base revision intact.\<close>

theorem finalizing_run_kept:
  assumes "run_of P s t" and "sound s" and "tbl_load (c_run s) i q = Some r" and "rn_state r = Finalizing"
  shows "\<exists>r'. tbl_load (c_run t) i q = Some r' \<and> same_run r r' \<and> (r' = r \<or> \<not> live (rn_state r')) \<and> rn_operationId r' = rn_operationId r"
  using evolution_load(1) [OF run_evolves [OF assms(1,2)] assms(3)] finalizing_closed [OF _ assms(4)] rn_next_identity by blast

theorem finalizing_run_kept_witness:
  "\<exists>r. tbl_load (c_run x_published) ''r1'' None = Some r \<and> same_run x_active r \<and> rn_operationId r = Some ''op-2''"
proof -
  let ?r = "finalizing_run ''op-2'' ''2026-01-04'' x_active"
  have "tbl_load (c_run x_final) ''r1'' None = Some ?r" "rn_state ?r = Finalizing"
    by (simp_all add: x_final_def tbl_load_def in_scope_def finalizing_run_def)
  from finalizing_run_kept [OF x_runs(1) sound_x_final this] show ?thesis
    by (auto simp: same_run_def finalizing_run_def)
qed

section \<open>Commands\<close>

text \<open>Once a command's operation has succeeded or failed, every later retry of that command by the same
  identity, at any point of any run, returns the same operation and the same recorded value.\<close>

theorem settled_command_replays:
  assumes "run_of P s t" and "sound s" and "replay s c p = Inr (Some (CommandResult o' v True))" and "settled o'"
  shows "replay t c p = Inr (Some (CommandResult o' v True))"
proof -
  note e = run_evolves [OF assms(1,2)]
  from assms(3) obtain row where row: "find_command s (cm_scope c) (cm_key c) = Some row" "cmr_digest row = cm_requestDigest c"
    "tbl_load (c_operation s) (cmr_operation row) None = Some o'" "identity_of (op_principal o') = identity_of p" "v = cmr_value row"
    by (auto simp: replay_Some)
  from e have "commands_kept (c_operation s) (c_commands s) (c_commands t)" by (simp add: evolution_def)
  with row(1) obtain row' where row': "find_command t (cm_scope c) (cm_key c) = Some row'" "cmr_digest row' = cmr_digest row"
    "cmr_operation row' = cmr_operation row" "cmr_value row' = cmr_value row"
    using row(3) assms(4) unfolding commands_kept_def find_command_def by blast
  from evolution_load(2) [OF e row(3)] assms(4) have "tbl_load (c_operation t) (cmr_operation row) None = Some o'"
    using settled_final by blast
  with row row' show ?thesis by (simp add: replay_Some)
qed

theorem settled_command_replays_witness:
  "\<exists>v o'. replay x_published (op_command x_claimed) x_principal = Inr (Some (CommandResult o' v True)) \<and> settled o'"
proof -
  let ?o = "complete_operation x_claimed (ResFinalize Finalized (Some ''v2'') True) ''2026-01-05''"
  have "\<exists>v. replay x_published (op_command x_claimed) x_principal = Inr (Some (CommandResult ?o v True))"
    unfolding x_published_def after_def by (simp add: accept_revision_def x_eval)
  then obtain v where v: "replay x_published (op_command x_claimed) x_principal = Inr (Some (CommandResult ?o v True))" by blast
  moreover have "settled ?o" by (simp add: settled_def complete_operation_def x_claimed_def new_operation_def x_command_def)
  ultimately show ?thesis
    using settled_command_replays [OF rtranclp.rtrancl_refl [where r = "any_step x_platform"] sound_samples(1) v] by blast
qed

text \<open>C31: a key that was used for one request is refused for any other request, for ever: replaying it with a
  different request digest fails with IDEMPOTENCY_KEY_REUSED in every later catalog.\<close>

theorem reused_key_rejected:
  assumes "run_of P s t" and "sound s" and "find_command s (cm_scope c) (cm_key c) = Some row" and "cmr_digest row \<noteq> cm_requestDigest c"
  shows "replay t c p = Inl (Fail IDEMPOTENCY_KEY_REUSED)"
proof -
  from run_evolves [OF assms(1,2)] have "commands_kept (c_operation s) (c_commands s) (c_commands t)" by (simp add: evolution_def)
  with assms(3) obtain row' where "find_command t (cm_scope c) (cm_key c) = Some row'" "cmr_digest row' = cmr_digest row"
    unfolding commands_kept_def find_command_def by blast
  with assms(4) show ?thesis by (simp add: replay_def sbind_def)
qed


theorem reused_key_rejected_witness:
  "replay x_published (CommandIdentity (cm_scope (op_command x_claimed)) ''key-2'' ''another digest'' ''op-9'' ''2026-01-06'') x_principal =
     Inl (Fail IDEMPOTENCY_KEY_REUSED)"
  by (rule reused_key_rejected [OF x_runs(1) sound_x_final, where row = "CommandRow ''digest-2'' ''op-2'' (VRun (finalizing_run ''op-2'' ''2026-01-04'' x_active))"])
    (simp_all add: find_command_def x_final_def)

section \<open>Fences\<close>

text \<open>A worker whose claim was taken over is fenced off for ever: once an operation's claim carries a higher
  fence than the worker's, every later call of the worker under its old fence fails, whatever its expected
  version and whatever the time.\<close>

theorem stale_worker_fenced:
  assumes "run_of P s t" and "sound s"
    and "tbl_load (c_operation s) (cs_operationId i) (Some (of_ws (cs_scope i))) = Some o'" and "op_kind o' \<noteq> KStorageMigrate"
    and "op_claim o' = Some k" and "cs_processingFence i < pc_fence k"
  shows "processing t i = Inl (Fail STALE_FENCE)"
proof -
  from evolution_load(2) [OF run_evolves [OF assms(1,2)] assms(3)] obtain p where p:
    "tbl_load (c_operation t) (cs_operationId i) (Some (of_ws (cs_scope i))) = Some p" "op_next\<^sup>*\<^sup>* o' p" by blast
  with op_fence_closed [OF p(2) assms(4)] assms(5) obtain l where "op_claim p = Some l" "pc_fence k \<le> pc_fence l"
    by (auto simp: fence_kept_def)
  with p(1) assms(6) show ?thesis by (simp add: processing_def sbind_def)
qed


theorem stale_worker_fenced_witness:
  "processing x_recovered (ProcessingCAS x_ws ''op-2'' 1 1 ''2026-01-05'') = Inl (Fail STALE_FENCE)"
proof -
  let ?k = "ProcessingClaim ''other'' 2 ''2026-01-12''"
  have "tbl_load (c_operation x_recovered) ''op-2'' (Some (of_ws x_ws)) = Some (claimed_operation ?k ''2026-01-10'' x_claimed)"
    unfolding x_recovered_def after_def by (simp add: claim_recovery_def safe_integer_def x_eval)
  moreover have "op_kind x_claimed \<noteq> KStorageMigrate" by (simp add: x_claimed_def new_operation_def x_command_def)
  ultimately show ?thesis
    using stale_worker_fenced [OF rtranclp.rtrancl_refl [where r = "any_step x_platform"] sound_samples(3),
        of "ProcessingCAS x_ws ''op-2'' 1 1 ''2026-01-05''" "claimed_operation ?k ''2026-01-10'' x_claimed" ?k]
    by (simp add: claimed_operation_def)
qed

section \<open>Revisions and stored content\<close>

text \<open>C32: an accepted revision is there for ever, with its id, its parent, the digest of its manifest, the operation
  that published it and its time of creation; only the place of its bytes may change, when storage migrates.\<close>

theorem revision_permanent:
  assumes "run_of P s t" and "sound s" and "tbl_load (c_revision s) i q = Some v"
  shows "\<exists>v'. tbl_load (c_revision t) i q = Some v' \<and> rv_id v' = rv_id v \<and> rv_parentRevisionId v' = rv_parentRevisionId v \<and>
    rv_manifestDigest v' = rv_manifestDigest v \<and> rv_originatingOperationId v' = rv_originatingOperationId v"
  using evolution_load(3) [OF run_evolves [OF assms(1,2)] assms(3)] rv_closed by blast

theorem revision_permanent_witness:
  "\<exists>v. tbl_load (c_revision x_published) ''v1'' None = Some v \<and> rv_originatingOperationId v = ''op-1''"
  using revision_permanent [OF x_runs(1) sound_x_final, of "''v1''" None x_revision]
  by (auto simp: x_final_def x_open_def tbl_load_def in_scope_def x_revision_def revision_of_def x_first_revision_def)

text \<open>What a sealed submission promised to a finalization never changes: it stays as it is, or expires with
  its manifest, digest and receipts intact; it is never reopened for uploads.\<close>

theorem sealed_submission_fixed:
  assumes "run_of P s t" and "sound s" and "tbl_load (c_submission s) i q = Some m" and "sm_state m = Sealed"
  shows "\<exists>m'. tbl_load (c_submission t) i q = Some m' \<and> (m' = m \<or> sm_state m' = SubmissionExpired) \<and> sm_manifest m' = sm_manifest m \<and>
    sm_manifestDigest m' = sm_manifestDigest m \<and> sm_receipts m' = sm_receipts m"
  using evolution_load(4) [OF run_evolves [OF assms(1,2)] assms(3)] sm_closed [OF _ assms(4)] by blast

theorem sealed_submission_fixed_witness:
  "\<exists>m. tbl_load (c_submission x_published) ''m1'' None = Some m \<and> sm_manifestDigest m = Some ''digest-m''"
  using sealed_submission_fixed [OF x_runs(1) sound_x_final, of "''m1''" None x_submission]
  by (auto simp: x_final_def x_open_def tbl_load_def in_scope_def x_submission_def)

text \<open>Receipts of uploads and audit records are written once: no operation changes or removes one.\<close>

theorem evidence_permanent:
  assumes "run_of P s t" and "sound s"
  shows "(\<forall>u. tbl_load (c_receipt s) i q = Some u \<longrightarrow> tbl_load (c_receipt t) i q = Some u) \<and>
    (\<forall>a. tbl_load (c_audit s) i q = Some a \<longrightarrow> tbl_load (c_audit t) i q = Some a)"
  using evolution_load(11,12) [OF run_evolves [OF assms]] by blast

theorem evidence_permanent_witness:
  "\<exists>a. tbl_load (c_audit x_aborted) ''a-7'' None = Some a"
proof -
  have "\<exists>a. tbl_load (c_audit x_aborted) ''a-7'' None = Some a"
    unfolding x_aborted_def after_def by (simp add: abort_run_def aborted_run_def x_eval)
  then show ?thesis
    using evidence_permanent [OF rtranclp.rtrancl_refl [where r = "any_step x_platform"] sound_x_aborted] by blast
qed

text \<open>C33: the version of a workspace names its state: two catalogs of one run that hold the workspace at the same
  version hold the same record, head included, and a later catalog never holds a smaller version. The
  optimistic checks of every write rest on this.\<close>

theorem workspace_version_names_state:
  assumes "run_of P s t" and "sound s" and "tbl_load (c_workspace s) i q = Some w"
  shows "\<exists>w'. tbl_load (c_workspace t) i q = Some w' \<and> ws_version w \<le> ws_version w' \<and> (ws_version w' = ws_version w \<longrightarrow> w' = w)"
  using evolution_load(8) [OF run_evolves [OF assms(1,2)] assms(3)] ws_closed by blast

theorem workspace_version_names_state_witness:
  "\<exists>w. tbl_load (c_workspace x_published) ''w1'' None = Some w \<and> 1 \<le> ws_version w"
  using workspace_version_names_state [OF x_runs(1) sound_x_final, of "''w1''" None x_new_workspace]
  by (auto simp: x_final_def x_open_def tbl_load_def in_scope_def x_new_workspace_def)

section \<open>Collection, cleanup and delivery\<close>

text \<open>A candidate whose collection has begun can never be published or prepared again: every later attempt to
  match it fails, so the bytes the collector deletes are not referenced by a new revision.\<close>

theorem collected_candidate_unusable:
  assumes "run_of P s t" and "sound s" and "tbl_load (c_candidate s) (pp_candidateId c) (Some (of_bs (pp_scope c))) = Some k"
    and "cr_collection k \<noteq> None"
  shows "match_candidate t ident c d \<noteq> Inr ()"
proof -
  from evolution_load(5) [OF run_evolves [OF assms(1,2)] assms(3)] obtain l where
    l: "tbl_load (c_candidate t) (pp_candidateId c) (Some (of_bs (pp_scope c))) = Some l" "cr_next\<^sup>*\<^sup>* k l" by blast
  from cr_collection_closed [OF l(2) assms(4)] l(1) show ?thesis unfolding match_candidate_eq by simp
qed

theorem collected_candidate_unusable_witness:
  "match_candidate x_collected x_candidate x_prepared ''digest-m'' \<noteq> Inr ()"
proof -
  have "\<exists>k. tbl_load (c_candidate x_collected) (pp_candidateId x_prepared) (Some (of_bs (pp_scope x_prepared))) = Some k \<and> cr_collection k \<noteq> None"
    unfolding x_collected_def x_conflicted_def
    by (simp add: after_def in_collect_def claim_candidate_collection_def fail_finalization_def collection_eval x_eval)
  then show ?thesis
    using collected_candidate_unusable [OF rtranclp.rtrancl_refl [where r = "any_step x_platform"] sound_x_collected] by blast
qed

text \<open>A cleanup that is complete stays as it is, and its attempts are never forgotten.\<close>

theorem cleanup_complete_final:
  assumes "run_of P s t" and "sound s" and "tbl_load (c_cleanup s) i q = Some x"
  shows "\<exists>y. tbl_load (c_cleanup t) i q = Some y \<and> cl_attempts x \<le> cl_attempts y \<and> (cl_state x = CleanupComplete \<longrightarrow> y = x)"
  using evolution_load(6) [OF run_evolves [OF assms(1,2)] assms(3)] cl_closed by blast

theorem cleanup_complete_final_witness:
  "\<exists>y. tbl_load (c_cleanup x_aborted) ''u1'' None = Some y \<and> 0 \<le> cl_attempts y"
proof -
  have "\<exists>x. tbl_load (c_cleanup x_aborted) ''u1'' None = Some x \<and> cl_attempts x = 0"
    unfolding x_aborted_def after_def by (simp add: abort_run_def aborted_run_def x_eval)
  then show ?thesis
    using cleanup_complete_final [OF rtranclp.rtrancl_refl [where r = "any_step x_platform"] sound_x_aborted] by metis
qed

text \<open>An event put into the outbox is never rewritten, its recipients stay the ones frozen at the first claim,
  and once its delivery is complete nothing is delivered again.\<close>

theorem outbox_event_permanent:
  assumes "run_of P s t" and "sound s" and "tbl_load (c_outbox s) i q = Some x"
  shows "\<exists>y. tbl_load (c_outbox t) i q = Some y \<and> ox_event y = ox_event x \<and> ox_attempts x \<le> ox_attempts y \<and>
    (ox_deliveryState x = DeliveryComplete \<longrightarrow> y = x) \<and>
    (\<forall>rs. tbl_load (c_recipients s) i q = Some rs \<longrightarrow> tbl_load (c_recipients t) i q = Some rs)"
  using evolution_load(7,13) [OF run_evolves [OF assms(1,2)]] assms(3) ox_closed by blast

theorem outbox_event_permanent_witness:
  "\<exists>y. tbl_load (c_outbox x_aborted) ''o-7'' None = Some y \<and> ev_operationId (ox_event y) = ''op-7''"
proof -
  have "\<exists>x. tbl_load (c_outbox x_aborted) ''o-7'' None = Some x \<and> ev_operationId (ox_event x) = ''op-7''"
    unfolding x_aborted_def after_def by (simp add: abort_run_def aborted_run_def x_eval)
  then show ?thesis
    using outbox_event_permanent [OF rtranclp.rtrancl_refl [where r = "any_step x_platform"] sound_x_aborted] by metis
qed

section \<open>Credentials\<close>

text \<open>Once a credential was rotated or revoked (its version went up), a principal that authenticated with the
  earlier version is refused every action in every scope for ever.\<close>

theorem rotated_credential_refused:
  assumes "run_of P s t" and "sound s" and "tbl_load (c_authority s) (ci_id (pr_credential p)) None = Some a"
    and "ci_version (pr_credential p) < at_credentialVersion a"
  shows "permit t p act sc pre = Inl (Fail CREDENTIAL_REVOKED) \<or> permit t p act sc pre = Inl (Fail FORBIDDEN)"
proof -
  from evolves_closure_load [OF _ assms(3)] run_evolution [OF assms(1,2)] obtain b
    where b: "tbl_load (c_authority t) (ci_id (pr_credential p)) None = Some b" "at_next\<^sup>*\<^sup>* a b" by blast
  with at_closed [OF b(2)] assms(4) have "at_credentialVersion b \<noteq> ci_version (pr_credential p)" by simp
  with b(1) authority_of_loaded [of t "scope_customer sc" p] show ?thesis
    by (cases "authority_of t (scope_customer sc) p") (auto simp: permit_def decide_access_def)
qed

theorem rotated_credential_refused_witness:
  "permit x_rotated x_principal RunUpload (of_ws x_ws) None = Inl (Fail CREDENTIAL_REVOKED) \<or>
   permit x_rotated x_principal RunUpload (of_ws x_ws) None = Inl (Fail FORBIDDEN)"
  by (rule rotated_credential_refused [OF rtranclp.rtrancl_refl [where r = "any_step x_platform"] sound_x_rotated,
      where a = "x_authority\<lparr>at_credentialVersion := 2, at_permissionEpoch := 2\<rparr>"])
    (simp_all add: x_rotated_def x_principal_def tbl_load_def in_scope_def)

text \<open>An authority whose version is unchanged is unchanged: when a principal is permitted an action now and
  was permitted one at an earlier time, both decisions rest on one and the same authority record.\<close>

theorem permitted_by_one_authority:
  assumes "run_of P s t" and "sound s" and "permit s p act sc pre = Inr ()" and "permit t p act' sc' pre' = Inr ()"
  shows "\<exists>a. tbl_load (c_authority s) (ci_id (pr_credential p)) None = Some a \<and>
    tbl_load (c_authority t) (ci_id (pr_credential p)) None = Some a"
proof -
  from assms(3) obtain a where a: "tbl_load (c_authority s) (ci_id (pr_credential p)) None = Some a"
    "at_credentialVersion a = ci_version (pr_credential p)"
    by (auto simp: permit_Inr dest!: decide_access_Allowed authority_of_loaded)
  from assms(4) obtain b where b: "tbl_load (c_authority t) (ci_id (pr_credential p)) None = Some b"
    "at_credentialVersion b = ci_version (pr_credential p)"
    by (auto simp: permit_Inr dest!: decide_access_Allowed authority_of_loaded)
  from evolves_closure_load [OF _ a(1)] run_evolution [OF assms(1,2)] b(1) have "at_next\<^sup>*\<^sup>* a b" by fastforce
  from at_closed [OF this] a(2) b(2) have "b = a" by simp
  with a(1) b(1) show ?thesis by blast
qed

theorem permitted_by_one_authority_witness:
  "\<exists>a. tbl_load (c_authority x_final) ''k1'' None = Some a \<and> tbl_load (c_authority x_published) ''k1'' None = Some a"
proof -
  have a: "permit x_final x_principal RunRead (of_ws x_ws) None = Inr ()" by (simp add: x_eval)
  have b: "permit x_published x_principal RunUpload (of_ws x_ws) None = Inr ()"
    unfolding x_published_def after_def by (simp add: accept_revision_def x_eval)
  from permitted_by_one_authority [OF x_runs(1) sound_x_final a b] show ?thesis by (simp add: x_principal_def)
qed

end
