(* ===== verification/Cv_Idempotence.thy ===== *)
theory Cv_Idempotence
  imports Cv_History
begin

text \<open>
  The contract of an idempotent command, stated once and discharged by every command of the store: the
  locale \<open>idempotent\<close>. A successful command is recorded under its scope and key with its request digest
  and its operation, and a command that finds itself recorded changes nothing. From these two laws a
  command runs at most once over any run of the catalog, whatever other operations are interleaved.
\<close>

text \<open>The command \<open>c\<close> is recorded with the operation \<open>oid\<close>.\<close>

definition executed :: "command_identity \<Rightarrow> id \<Rightarrow> catalog \<Rightarrow> bool" where
  "executed c oid t \<longleftrightarrow> (\<exists>row. find_command t (cm_scope c) (cm_key c) = Some row \<and> cmr_digest row = cm_requestDigest c \<and>
     cmr_operation row = oid)"

definition fresh_command :: "command_identity \<Rightarrow> catalog \<Rightarrow> bool" where
  "fresh_command c s \<longleftrightarrow> find_command s (cm_scope c) (cm_key c) = None"

lemma executed_kept:
  assumes "run_of P s t" and "sound s" and "executed c oid s"
  shows "executed c oid t"
proof -
  from run_evolves [OF assms(1,2)] have "commands_kept (c_operation s) (c_commands s) (c_commands t)" by (simp add: evolution_def)
  with assms(3) show ?thesis unfolding commands_kept_def find_command_def executed_def by metis
qed

lemma executed_fresh: "executed c oid s \<Longrightarrow> \<not> fresh_command c s"
  by (auto simp: executed_def fresh_command_def)

lemma executed_unique:
  assumes "executed c a s" and "executed d b s" and "cm_scope d = cm_scope c" and "cm_key d = cm_key c"
  shows "b = a \<and> cm_requestDigest d = cm_requestDigest c"
  using assms by (auto simp: executed_def)

text \<open>A command runs at most once: executed again with any other operations in between, it returns the same
  operation and changes nothing; another request under its key is refused.\<close>

definition runs_once :: "platform \<Rightarrow> ('i \<Rightarrow> catalog \<Rightarrow> failure + ('r \<times> catalog)) \<Rightarrow> ('i \<Rightarrow> command_identity) \<Rightarrow> ('r \<Rightarrow> id) \<Rightarrow> bool" where
  "runs_once P command identity operation_of \<longleftrightarrow> (\<forall>i s r t u. sound s \<and> command i s = Inr (r, t) \<and> run_of P t u \<longrightarrow>
     (\<forall>r' v. command i u = Inr (r', v) \<longrightarrow> v = u \<and> operation_of r' = operation_of r) \<and>
     (\<forall>j. cm_scope (identity j) = cm_scope (identity i) \<and> cm_key (identity j) = cm_key (identity i) \<and>
        cm_requestDigest (identity j) \<noteq> cm_requestDigest (identity i) \<longrightarrow> isl (command j u)))"

lemma step_sound: "step P c s t \<Longrightarrow> sound s \<Longrightarrow> sound t"
  using any_step_advances [of P s t] by (auto simp: any_step_def)

lemma replay_executed: "replay s c p = Inr (Some r) \<Longrightarrow> consistent s \<Longrightarrow> executed c (op_id (cx_operation r)) s"
  by (auto simp: replay_Some executed_def consistent_def operation_ok_def dest!: rows_ok_load [of operation_ok])

locale idempotent =
  fixes command :: "'i \<Rightarrow> catalog \<Rightarrow> failure + ('r \<times> catalog)"
    and identity :: "'i \<Rightarrow> command_identity"
    and operation_of :: "'r \<Rightarrow> id"
  assumes recorded: "consistent s \<Longrightarrow> post (command i s) (\<lambda>(r, t). executed (identity i) (operation_of r) t)"
    and recognized: "\<not> fresh_command (identity i) s \<Longrightarrow> post (command i s) (\<lambda>(r, t). t = s)"
begin

lemma run_recorded:
  assumes "sound s" and "command i s = Inr (r, t)" and "sound t" and "run_of P t u"
  shows "executed (identity i) (operation_of r) u"
  using assms(1) postD [OF recorded assms(2)] executed_kept [OF assms(4,3)] by (simp add: sound_def)

lemma repeated:
  assumes "sound u" and "executed c oid u" and "cm_scope (identity j) = cm_scope c" and "cm_key (identity j) = cm_key c"
    and "command j u = Inr (r, v)"
  shows "v = u \<and> operation_of r = oid \<and> cm_requestDigest (identity j) = cm_requestDigest c"
proof -
  have "\<not> fresh_command (identity j) u"
    using executed_fresh [OF assms(2)] assms(3,4) by (simp add: fresh_command_def)
  from postD [OF recognized [OF this] assms(5)] have v: "v = u" by simp
  with assms(1) postD [OF recorded assms(5)] have "executed (identity j) (operation_of r) u" by (simp add: sound_def)
  with executed_unique [OF assms(2) this assms(3,4)] v show ?thesis by simp
qed

lemma at_most_once:
  assumes "sound s" and "command i s = Inr (r, t)" and "sound t" and "run_of P t u" and "command i u = Inr (r', v)"
  shows "v = u \<and> operation_of r' = operation_of r"
  using repeated [OF _ run_recorded [OF assms(1-4)] refl refl assms(5)] run_evolution [OF assms(4,3)] by simp

lemma other_request:
  assumes "sound s" and "command i s = Inr (r, t)" and "sound t" and "run_of P t u"
    and "cm_scope (identity j) = cm_scope (identity i)" and "cm_key (identity j) = cm_key (identity i)"
    and "cm_requestDigest (identity j) \<noteq> cm_requestDigest (identity i)"
  shows "isl (command j u)"
  using repeated [OF _ run_recorded [OF assms(1-4)] assms(5,6)] run_evolution [OF assms(4,3)] assms(7)
  by (cases "command j u") auto

lemma once:
  assumes "\<And>i s r t. command i s = Inr (r, t) \<Longrightarrow> \<exists>c. step P c s t"
  shows "runs_once P command identity operation_of"
  unfolding runs_once_def
proof (intro allI impI conjI; elim conjE)
  fix i s r t u r' v
  assume a: "sound s" "command i s = Inr (r, t)" "run_of P t u" "command i u = Inr (r', v)"
  from assms [OF a(2)] a(1) step_sound have "sound t" by blast
  from at_most_once [OF a(1,2) this a(3,4)] show "v = u" "operation_of r' = operation_of r" by auto
next
  fix i s r t u j
  assume a: "sound s" "command i s = Inr (r, t)" "run_of P t u"
    "cm_scope (identity j) = cm_scope (identity i)" "cm_key (identity j) = cm_key (identity i)"
    "cm_requestDigest (identity j) \<noteq> cm_requestDigest (identity i)"
  from assms [OF a(2)] a(1) step_sound have "sound t" by blast
  from other_request [OF a(1,2) this a(3-6)] show "isl (command j u)" .
qed

end

section \<open>The commands\<close>

lemma executed_new [simp]:
  "c_commands t = ((cm_scope c, cm_key c), CommandRow (cm_requestDigest c) (cm_operationId c) v) # cs \<Longrightarrow> oid = cm_operationId c \<Longrightarrow>
     executed c oid t"
  by (simp add: executed_def find_command_def)

lemma schedule_commands: "schedule_workspace_cleanup w sc oid now s = Inr t \<Longrightarrow> c_commands t = c_commands s"
  by (auto simp: schedule_workspace_cleanup_def txn_simps Let_def split: if_splits)

lemma post_schedule [post_simps]:
  "post (schedule_workspace_cleanup w sc oid now s) Q \<longleftrightarrow> (\<forall>t. schedule_workspace_cleanup w sc oid now s = Inr t \<longrightarrow> Q t)"
  by (simp add: post_def)

lemma operation_finalized [simp]: "op_command (finalize_operation i r) = cf_command i" "op_command (restore_operation j) = kr_command j"
  "op_id (restore_operation j) = cm_operationId (kr_command j)"
  by (simp_all add: restore_operation_def)

interpretation open_run: idempotent open_run or_command "op_id \<circ> cx_operation"
  by unfold_locales (auto simp: open_run_def Let_def post_simps fresh_command_def intro: replay_executed)

interpretation renew_run_lease: idempotent renew_run_lease nl_command "op_id \<circ> cx_operation"
  by unfold_locales (auto simp: renew_run_lease_def Let_def post_simps fresh_command_def intro: replay_executed)

interpretation abort_run: idempotent abort_run ab_command "op_id \<circ> cx_operation"
  by unfold_locales (auto simp: abort_run_def Let_def post_simps fresh_command_def split_beta intro: replay_executed)

interpretation create_submission: idempotent create_submission ns_command "op_id \<circ> cx_operation"
  by unfold_locales (auto simp: create_submission_def Let_def post_simps fresh_command_def intro: replay_executed)

interpretation register_upload_receipt: idempotent "register_upload_receipt P" ni_command "op_id \<circ> cx_operation"
  by unfold_locales (auto simp: register_upload_receipt_def Let_def post_simps fresh_command_def
      intro!: postI [of "canonicalize_manifest _ _ _"] postI [of "writable_submission _ _ _ _ _"] intro: replay_executed)

interpretation seal_submission: idempotent "seal_submission P" sl_command "op_id \<circ> cx_operation"
  by unfold_locales (auto simp: seal_submission_def Let_def post_simps fresh_command_def
      intro!: postI [of "canonicalize_manifest _ _ _"] postI [of "manifest_digest _ _ _"] postI [of "writable_submission _ _ _ _ _"] intro: replay_executed)

interpretation claim_finalization: idempotent "claim_finalization P" cf_command "op_id \<circ> cx_operation"
  by unfold_locales (auto simp: claim_finalization_def Let_def post_simps fresh_command_def
      intro!: postI [of "select_sealed _ _ _ _"] intro: replay_executed)

interpretation transition_workspace_status: idempotent transition_workspace_status si_command "op_id \<circ> cx_operation"
  by unfold_locales (auto simp: transition_workspace_status_def Let_def post_simps fresh_command_def split_beta
      intro: replay_executed dest!: schedule_commands)

interpretation register_legacy_revision_aliases: idempotent register_legacy_revision_aliases la_command "op_id \<circ> cx_operation"
  by unfold_locales (auto simp: register_legacy_revision_aliases_def Let_def post_simps fresh_command_def split_beta
      intro!: postI [of "each _ _ _"] intro: replay_executed)

interpretation claim_workspace_creation: idempotent "claim_workspace_creation P" cc_command "op_id \<circ> fst"
  by unfold_locales (auto simp: claim_workspace_creation_def Let_def post_simps fresh_command_def split_beta
      intro!: postI [of "creation_intent_ok _ _ _"] intro: replay_executed)

interpretation claim_restore: idempotent claim_restore kr_command "op_id \<circ> fst"
  by unfold_locales (auto simp: claim_restore_def replay_restore_def Let_def post_simps fresh_command_def split_beta
      intro!: postI [of "restore_intent_of _"] postI [of "intent_source_ok _ _ _ _ _"] intro: replay_executed)

interpretation claim_storage_migration: idempotent "claim_storage_migration P" km_command "cm_operationId \<circ> mg_command"
  by unfold_locales (auto simp: claim_storage_migration_def new_migration_def Let_def post_simps fresh_command_def split_beta
      intro!: postI [of "retained_revision_set_digest _ _"] intro: replay_executed)

interpretation claim_legacy_adoption: idempotent "claim_legacy_adoption P" "ad_command \<circ> ka_adoption" "cm_operationId \<circ> ad_command"
  by unfold_locales (auto simp: claim_legacy_adoption_def Let_def post_simps fresh_command_def split_beta
      intro!: postI [of "adoption_authority _ _ _ _ _"] postI [of "each _ _ _"] intro: replay_executed)


section \<open>Every command runs at most once\<close>

text \<open>C7: opening a run, renewing its lease, aborting it and claiming its finalization each run at most once per
  idempotency key: repeated after any other operations, the command returns the operation of its first
  execution and leaves the catalog as it is, and a different request under the same key is refused.\<close>

theorem run_commands_once:
  "runs_once P open_run or_command (op_id \<circ> cx_operation) \<and> runs_once P renew_run_lease nl_command (op_id \<circ> cx_operation) \<and>
   runs_once P abort_run ab_command (op_id \<circ> cx_operation) \<and> runs_once P (claim_finalization P) cf_command (op_id \<circ> cx_operation)"
  by (intro conjI open_run.once renew_run_lease.once abort_run.once claim_finalization.once) (blast intro: step.intros)+

theorem run_commands_once_witness: "\<exists>r. abort_run in_abort x_aborted = Inr (r, x_aborted)"
proof -
  obtain r where r: "abort_run in_abort x_open = Inr (r, x_aborted)" using x_abort by blast
  have "\<not> isl (abort_run in_abort x_aborted)"
    unfolding x_aborted_def after_def by (simp add: abort_run_def aborted_run_def x_eval)
  then obtain r' v where "abort_run in_abort x_aborted = Inr (r', v)" by (cases "abort_run in_abort x_aborted") auto
  moreover from this r sound_x_open have "v = x_aborted"
    using run_commands_once [of x_platform] unfolding runs_once_def by blast
  ultimately show ?thesis by blast
qed

text \<open>Creating a submission, registering an uploaded file and sealing each run at most once per key.\<close>

theorem submission_commands_once:
  "runs_once P create_submission ns_command (op_id \<circ> cx_operation) \<and>
   runs_once P (register_upload_receipt P) ni_command (op_id \<circ> cx_operation) \<and>
   runs_once P (seal_submission P) sl_command (op_id \<circ> cx_operation)"
  by (intro conjI create_submission.once register_upload_receipt.once seal_submission.once) (blast intro: step.intros)+

text \<open>The administrative commands run at most once per key: creating a workspace, changing its status, registering
  legacy aliases, restoring, migrating its storage and adopting a legacy workspace.\<close>

theorem workspace_commands_once:
  "runs_once P (claim_workspace_creation P) cc_command (op_id \<circ> fst) \<and>
   runs_once P transition_workspace_status si_command (op_id \<circ> cx_operation) \<and>
   runs_once P register_legacy_revision_aliases la_command (op_id \<circ> cx_operation) \<and>
   runs_once P claim_restore kr_command (op_id \<circ> fst) \<and>
   runs_once P (claim_storage_migration P) km_command (cm_operationId \<circ> mg_command) \<and>
   runs_once P (claim_legacy_adoption P) (ad_command \<circ> ka_adoption) (cm_operationId \<circ> ad_command)"
  by (intro conjI claim_workspace_creation.once transition_workspace_status.once register_legacy_revision_aliases.once
      claim_restore.once claim_storage_migration.once claim_legacy_adoption.once) (blast intro: step.intros)+

end
