(* ===== verification/Cv_Fences.thy ===== *)
theory Cv_Fences
  imports Cv_History
begin

text \<open>
  The fence contract of claimed work. An operation, a cleanup, an outbox event, a storage migration and a
  legacy adoption are worked on under a processing claim whose fence grows with every take-over. The locale
  \<open>fenced_work\<close> states the two laws a kind of work obeys, that a call under a superseded fence is refused
  and that a superseded fence stays superseded in every later catalog, and derives that a superseded worker
  never acts again. Every call that works under a claim interprets it.
\<close>

section \<open>Superseded fences\<close>

definition operation_superseded :: "operation \<Rightarrow> int \<Rightarrow> bool" where
  "operation_superseded o' n \<longleftrightarrow> op_kind o' \<noteq> KStorageMigrate \<and> (case op_claim o' of None \<Rightarrow> False | Some k \<Rightarrow> n < pc_fence k)"

definition cleanup_superseded :: "cleanup \<Rightarrow> int \<Rightarrow> bool" where
  "cleanup_superseded c n \<longleftrightarrow> cl_state c = CleanupComplete \<or> (case cl_claim c of None \<Rightarrow> False | Some k \<Rightarrow> n < pc_fence k)"

definition outbox_superseded :: "outbox_event \<Rightarrow> int \<Rightarrow> bool" where
  "outbox_superseded e n \<longleftrightarrow> ox_deliveryState e = DeliveryComplete \<or> (case ox_claim e of None \<Rightarrow> False | Some k \<Rightarrow> n < pc_fence k)"

definition migration_superseded :: "migration \<Rightarrow> int \<Rightarrow> bool" where
  "migration_superseded m n \<longleftrightarrow> n < pc_fence (mg_claim m)"

definition adoption_superseded :: "adoption \<Rightarrow> int \<Rightarrow> bool" where
  "adoption_superseded a n \<longleftrightarrow> n < pc_fence (ad_claim a)"

lemma operation_superseded_closed: "op_next\<^sup>*\<^sup>* o' p \<Longrightarrow> operation_superseded o' n \<Longrightarrow> operation_superseded p n"
  using op_fence_closed [of o' p] by (fastforce simp: operation_superseded_def fence_kept_def split: option.splits)

lemma cleanup_superseded_closed: "cl_next\<^sup>*\<^sup>* c d \<Longrightarrow> cleanup_superseded c n \<Longrightarrow> cleanup_superseded d n"
  by (induction rule: rtranclp_induct) (fastforce simp: cleanup_superseded_def cl_next_def fence_kept_def split: option.splits)+

lemma outbox_superseded_closed: "ox_next\<^sup>*\<^sup>* e f \<Longrightarrow> outbox_superseded e n \<Longrightarrow> outbox_superseded f n"
  by (induction rule: rtranclp_induct) (fastforce simp: outbox_superseded_def ox_next_def fence_kept_def split: option.splits)+

lemma migration_superseded_closed: "mg_next\<^sup>*\<^sup>* m k \<Longrightarrow> migration_superseded m n \<Longrightarrow> migration_superseded k n"
  by (induction rule: rtranclp_induct) (auto simp: migration_superseded_def mg_next_def)

lemma adoption_superseded_closed: "ad_next\<^sup>*\<^sup>* a b \<Longrightarrow> adoption_superseded a n \<Longrightarrow> adoption_superseded b n"
  by (induction rule: rtranclp_induct) (auto simp: adoption_superseded_def ad_next_def)

section \<open>The contract\<close>

definition outlasted :: "platform \<Rightarrow> ('i \<Rightarrow> catalog \<Rightarrow> failure + 'r) \<Rightarrow> ('i \<Rightarrow> catalog \<Rightarrow> 'a option) \<Rightarrow> ('a \<Rightarrow> int \<Rightarrow> bool) \<Rightarrow> ('i \<Rightarrow> int) \<Rightarrow> bool" where
  "outlasted P work target superseded fence \<longleftrightarrow> (\<forall>i s t a. sound s \<and> run_of P s t \<and> target i s = Some a \<and> superseded a (fence i) \<longrightarrow> isl (work i t))"

lemma outlasted_now: "outlasted P work target superseded fence \<Longrightarrow> sound s \<Longrightarrow> target i s = Some a \<Longrightarrow> superseded a (fence i) \<Longrightarrow> isl (work i s)"
  unfolding outlasted_def by blast

locale fenced_work =
  fixes work :: "'i \<Rightarrow> catalog \<Rightarrow> failure + 'r"
    and target :: "'i \<Rightarrow> catalog \<Rightarrow> 'a option"
    and superseded :: "'a \<Rightarrow> int \<Rightarrow> bool"
    and fence :: "'i \<Rightarrow> int"
  assumes admitted: "post (work i s) (\<lambda>_. \<forall>a. target i s = Some a \<longrightarrow> \<not> superseded a (fence i))"
    and kept: "evolution s t \<Longrightarrow> target i s = Some a \<Longrightarrow> superseded a n \<Longrightarrow> \<exists>b. target i t = Some b \<and> superseded b n"
begin

lemma refused: "target i s = Some a \<Longrightarrow> superseded a (fence i) \<Longrightarrow> isl (work i s)"
  using postD [OF admitted] by (cases "work i s") auto

lemma fenced_off: "outlasted P work target superseded fence"
  unfolding outlasted_def using kept [OF run_evolves] refused by blast

end

section \<open>Work on operations\<close>

definition operation_of_cas :: "processing_cas \<Rightarrow> catalog \<Rightarrow> operation option" where
  "operation_of_cas i s = tbl_load (c_operation s) (cs_operationId i) (Some (of_ws (cs_scope i)))"

definition operation_of_finalizer :: "finalizer \<Rightarrow> catalog \<Rightarrow> operation option" where
  "operation_of_finalizer i s = tbl_load (c_operation s) (fz_operationId i) (Some (of_rs (fz_scope i)))"

lemma operation_kept:
  "evolution s t \<Longrightarrow> operation_of_cas i s = Some o' \<Longrightarrow> operation_superseded o' n \<Longrightarrow> \<exists>p. operation_of_cas i t = Some p \<and> operation_superseded p n"
  "evolution s t \<Longrightarrow> operation_of_finalizer j s = Some o' \<Longrightarrow> operation_superseded o' n \<Longrightarrow> \<exists>p. operation_of_finalizer j t = Some p \<and> operation_superseded p n"
  unfolding operation_of_cas_def operation_of_finalizer_def by (blast dest: evolution_load(2) operation_superseded_closed)+

lemma post_processing_unfenced: "post (processing s i) (\<lambda>o'. operation_of_cas i s = Some o' \<and> \<not> operation_superseded o' (cs_processingFence i))"
  by (auto simp: post_def processing_eq operation_of_cas_def operation_superseded_def)

lemmas under_processing = post_mono [OF post_processing_unfenced]

interpretation processing: fenced_work "\<lambda>i s. processing s i" operation_of_cas operation_superseded cs_processingFence
  by unfold_locales (auto intro: under_processing operation_kept)

interpretation record_prepared_revision: fenced_work record_prepared_revision "operation_of_cas \<circ> pi_cas" operation_superseded "cs_processingFence \<circ> pi_cas"
  by unfold_locales (auto simp: record_prepared_revision_def Let_def post_sbind intro!: under_processing intro: operation_kept)

lemma post_finalizer: "post (finalizer_of i s) (\<lambda>_. \<forall>o'. operation_of_finalizer i s = Some o' \<longrightarrow> \<not> operation_superseded o' (fz_processingFence i))"
  by (auto simp: finalizer_of_def Let_def post_sbind operation_of_finalizer_def operation_of_cas_def intro!: under_processing)

lemma post_publication: "post (publication_replay i c s) (\<lambda>r. r \<noteq> None \<longrightarrow>
    (\<forall>o'. operation_of_finalizer i s = Some o' \<longrightarrow> \<not> operation_superseded o' (fz_processingFence i)))"
  by (auto simp: publication_replay_def Let_def operation_of_finalizer_def operation_superseded_def fence_of_def post_sbind post_Inr post_fail_unless
      split: option.splits intro!: postI)

interpretation accept_revision: fenced_work accept_revision "operation_of_finalizer \<circ> av_finalizer" operation_superseded "fz_processingFence \<circ> av_finalizer"
  by unfold_locales (auto simp: accept_revision_def Let_def post_sbind split: option.split
      intro!: post_mono [OF post_publication] post_mono [OF post_finalizer] intro: operation_kept postI)

interpretation complete_read_only: fenced_work complete_read_only operation_of_finalizer operation_superseded fz_processingFence
  by unfold_locales (auto simp: complete_read_only_def Let_def post_sbind split: option.split
      intro!: post_mono [OF post_publication] post_mono [OF post_finalizer] intro: operation_kept postI)

interpretation fail_finalization: fenced_work fail_finalization "operation_of_cas \<circ> ff_cas" operation_superseded "cs_processingFence \<circ> ff_cas"
  by unfold_locales (auto simp: fail_finalization_def Let_def post_sbind intro!: under_processing intro: operation_kept postI)

interpretation renew_processing_claim: fenced_work renew_processing_claim "operation_of_cas \<circ> nc_cas" operation_superseded "cs_processingFence \<circ> nc_cas"
  by unfold_locales (auto simp: renew_processing_claim_def Let_def post_sbind intro!: under_processing intro: operation_kept postI)

interpretation fail_workspace_creation: fenced_work fail_workspace_creation "operation_of_cas \<circ> fc_cas" operation_superseded "cs_processingFence \<circ> fc_cas"
  by unfold_locales (auto simp: fail_workspace_creation_def Let_def post_sbind intro!: under_processing intro: operation_kept postI)

interpretation fail_restore: fenced_work fail_restore "operation_of_cas \<circ> ff_cas" operation_superseded "cs_processingFence \<circ> ff_cas"
  by unfold_locales (auto simp: fail_restore_def Let_def post_sbind intro!: under_processing intro: operation_kept postI)

section \<open>Work on cleanups, deliveries, migrations and adoptions\<close>

definition cleanup_target :: "workspace_scope \<Rightarrow> id \<Rightarrow> catalog \<Rightarrow> cleanup option" where
  "cleanup_target w i s = tbl_load (c_cleanup s) i (Some (of_ws w))"

definition outbox_target :: "workspace_scope \<Rightarrow> id \<Rightarrow> catalog \<Rightarrow> outbox_event option" where
  "outbox_target w i s = tbl_load (c_outbox s) i (Some (of_ws w))"

definition migration_target :: "migration_cas \<Rightarrow> catalog \<Rightarrow> migration option" where
  "migration_target i s = tbl_load (c_migration s) (mm_migrationId i) (Some (of_ws (mm_scope i)))"

definition adoption_target :: "adoption_cas \<Rightarrow> catalog \<Rightarrow> adoption option" where
  "adoption_target i s = tbl_load (c_adoption s) (da_adoptionId i) (Some (of_ws (da_scope i)))"

lemma targets_kept:
  "evolution s t \<Longrightarrow> cleanup_target w i s = Some c \<Longrightarrow> cleanup_superseded c n \<Longrightarrow> \<exists>d. cleanup_target w i t = Some d \<and> cleanup_superseded d n"
  "evolution s t \<Longrightarrow> outbox_target w i s = Some e \<Longrightarrow> outbox_superseded e n \<Longrightarrow> \<exists>f. outbox_target w i t = Some f \<and> outbox_superseded f n"
  "evolution s t \<Longrightarrow> migration_target j s = Some m \<Longrightarrow> migration_superseded m n \<Longrightarrow> \<exists>k. migration_target j t = Some k \<and> migration_superseded k n"
  unfolding cleanup_target_def outbox_target_def migration_target_def
  by (blast dest: evolution_load(6,7,9) cleanup_superseded_closed outbox_superseded_closed migration_superseded_closed)+

lemma adoption_target_kept:
  assumes "evolution s t" and "adoption_target j s = Some a" and "adoption_superseded a n"
  shows "\<exists>b. adoption_target j t = Some b \<and> adoption_superseded b n"
proof -
  from assms(1) have "evolves ad_next\<^sup>*\<^sup>* (c_adoption s) (c_adoption t)" by (simp add: evolution_def)
  from evolves_closure_load [OF this assms(2) [unfolded adoption_target_def]] adoption_superseded_closed assms(3)
  show ?thesis unfolding adoption_target_def by blast
qed

lemma claims_admit:
  "post (cleanup_claimed c n now v) (\<lambda>_. \<not> cleanup_superseded c n)"
  "post (outbox_claimed e n now v) (\<lambda>_. \<not> outbox_superseded e n)"
  "post (migration_at s i) (\<lambda>m. migration_target i s = Some m \<and> \<not> migration_superseded m (mm_fence i))"
  "post (adoption_at s j) (\<lambda>a. adoption_target j s = Some a \<and> \<not> adoption_superseded a (da_fence j))"
  by (auto simp: cleanup_claimed_def outbox_claimed_def migration_at_def adoption_at_def claim_held_def post_simps cleanup_superseded_def
      outbox_superseded_def migration_superseded_def adoption_superseded_def migration_target_def adoption_target_def split: option.splits)

lemmas under_claims = claims_admit [THEN post_mono]

interpretation complete_cleanup: fenced_work complete_cleanup "\<lambda>i. cleanup_target (mu_scope i) (mu_cleanupId i)" cleanup_superseded mu_fence
  by unfold_locales (auto simp: complete_cleanup_def cleanup_target_def [abs_def] Let_def post_sbind post_load_or
      intro!: under_claims postI [of "write_cleanup _ _ _ _ _ _"] intro: targets_kept [unfolded cleanup_target_def])

interpretation release_cleanup_claim: fenced_work release_cleanup_claim "\<lambda>i. cleanup_target (lu_scope i) (lu_cleanupId i)" cleanup_superseded lu_fence
  by unfold_locales (auto simp: release_cleanup_claim_def cleanup_target_def [abs_def] Let_def post_sbind post_load_or
      intro!: under_claims postI [of "fail_unless _ _"] postI [of "write_cleanup _ _ _ _ _ _"] intro: targets_kept [unfolded cleanup_target_def])

interpretation record_delivery: fenced_work record_delivery "\<lambda>i. outbox_target (rd_scope i) (rd_eventId i)" outbox_superseded rd_fence
proof
  show "post (record_delivery i s) (\<lambda>_. \<forall>a. outbox_target (rd_scope i) (rd_eventId i) s = Some a \<longrightarrow> \<not> outbox_superseded a (rd_fence i))" for i s
    unfolding record_delivery_def Let_def outbox_target_def by (simp add: post_sbind post_load_or) (auto intro!: postI dest!: postD [OF claims_admit(2)])
qed (rule targets_kept)

interpretation release_outbox_claim: fenced_work release_outbox_claim "\<lambda>i. outbox_target (lo_scope i) (lo_eventId i)" outbox_superseded lo_fence
proof
  show "post (release_outbox_claim i s) (\<lambda>_. \<forall>a. outbox_target (lo_scope i) (lo_eventId i) s = Some a \<longrightarrow> \<not> outbox_superseded a (lo_fence i))" for i s
    unfolding release_outbox_claim_def Let_def outbox_target_def by (simp add: post_sbind post_load_or) (auto intro!: postI dest!: postD [OF claims_admit(2)])
qed (rule targets_kept)

interpretation claim_migration_backup: fenced_work claim_migration_backup "migration_target \<circ> mk_cas" migration_superseded "mm_fence \<circ> mk_cas"
  by unfold_locales (auto simp: claim_migration_backup_def Let_def post_sbind intro!: postI dest!: postD [OF claims_admit(3)] intro: targets_kept)

interpretation begin_capture: fenced_work begin_capture migration_target migration_superseded mm_fence
  by unfold_locales (auto simp: begin_capture_def Let_def post_sbind intro!: postI dest!: postD [OF claims_admit(3)] intro: targets_kept)

interpretation complete_migration_backup: fenced_work complete_migration_backup "migration_target \<circ> mz_cas" migration_superseded "mm_fence \<circ> mz_cas"
  by unfold_locales (auto simp: complete_migration_backup_def Let_def post_sbind intro!: postI dest!: postD [OF claims_admit(3)] intro: targets_kept)

interpretation claim_migration_candidate: fenced_work "claim_migration_candidate P" "migration_target \<circ> my_cas" migration_superseded "mm_fence \<circ> my_cas"
  by unfold_locales (auto simp: claim_migration_candidate_def Let_def post_sbind intro!: postI dest!: postD [OF claims_admit(3)] intro: targets_kept)

interpretation record_verified_revision_copy: fenced_work record_verified_revision_copy "migration_target \<circ> mr_cas" migration_superseded "mm_fence \<circ> mr_cas"
  by unfold_locales (auto simp: record_verified_revision_copy_def Let_def post_sbind intro!: postI dest!: postD [OF claims_admit(3)] intro: targets_kept)

interpretation renew_storage_migration_claim: fenced_work renew_storage_migration_claim "migration_target \<circ> mn_cas" migration_superseded "mm_fence \<circ> mn_cas"
  by unfold_locales (auto simp: renew_storage_migration_claim_def Let_def post_sbind intro!: postI dest!: postD [OF claims_admit(3)] intro: targets_kept)

interpretation release_storage_migration_claim: fenced_work release_storage_migration_claim "migration_target \<circ> ml_cas" migration_superseded "mm_fence \<circ> ml_cas"
  by unfold_locales (auto simp: release_storage_migration_claim_def Let_def post_sbind intro!: postI dest!: postD [OF claims_admit(3)] intro: targets_kept)

interpretation switch_storage_binding: fenced_work "switch_storage_binding P" "migration_target \<circ> mw_cas" migration_superseded "mm_fence \<circ> mw_cas"
proof
  show "post (switch_storage_binding P i s) (\<lambda>_. \<forall>m. (migration_target \<circ> mw_cas) i s = Some m \<longrightarrow> \<not> migration_superseded m ((mm_fence \<circ> mw_cas) i))" for i s
    unfolding switch_storage_binding_def Let_def post_sbind
    by (auto simp: txn_simps migration_target_def migration_superseded_def intro!: postI dest!: postD [OF claims_admit(3)])
qed (simp add: targets_kept)

interpretation fail_storage_migration: fenced_work fail_storage_migration "migration_target \<circ> mf_cas" migration_superseded "mm_fence \<circ> mf_cas"
  by unfold_locales (auto simp: fail_storage_migration_def Let_def post_sbind intro!: postI dest!: postD [OF claims_admit(3)] intro: targets_kept)

interpretation renew_legacy_adoption_claim: fenced_work "(\<lambda>i. renew_legacy_adoption_claim (fst i) (snd i))" "adoption_target \<circ> fst" adoption_superseded "da_fence \<circ> fst"
  by unfold_locales (auto simp: renew_legacy_adoption_claim_def Let_def post_sbind intro!: postI dest!: postD [OF claims_admit(4)] intro: adoption_target_kept)

interpretation release_legacy_adoption_claim: fenced_work "(\<lambda>i. release_legacy_adoption_claim (fst i) (snd i))" "adoption_target \<circ> fst" adoption_superseded "da_fence \<circ> fst"
  by unfold_locales (auto simp: release_legacy_adoption_claim_def Let_def post_sbind intro!: postI dest!: postD [OF claims_admit(4)] intro: adoption_target_kept)

interpretation record_legacy_adoption_backup: fenced_work "(\<lambda>i. record_legacy_adoption_backup (fst i) (snd i))" "adoption_target \<circ> fst" adoption_superseded "da_fence \<circ> fst"
  by unfold_locales (auto simp: record_legacy_adoption_backup_def Let_def post_sbind intro!: postI dest!: postD [OF claims_admit(4)] intro: adoption_target_kept)

interpretation record_legacy_adoption_copy: fenced_work "(\<lambda>i. record_legacy_adoption_copy (fst i) (snd i))" "adoption_target \<circ> fst" adoption_superseded "da_fence \<circ> fst"
  by unfold_locales (auto simp: record_legacy_adoption_copy_def Let_def post_sbind intro!: postI dest!: postD [OF claims_admit(4)] intro: adoption_target_kept)

interpretation accept_legacy_adoption: fenced_work "accept_legacy_adoption P" "adoption_target \<circ> xa_cas" adoption_superseded "da_fence \<circ> xa_cas"
  by unfold_locales (auto simp: accept_legacy_adoption_def Let_def post_sbind intro!: postI dest!: postD [OF claims_admit(4)] intro: adoption_target_kept)

section \<open>Superseded workers\<close>



text \<open>A cleanup worker or an outbox publisher whose claim was taken over, or whose work is complete, never
  records anything on it again.\<close>

theorem delivery_workers_fenced:
  "outlasted P complete_cleanup (\<lambda>i. cleanup_target (mu_scope i) (mu_cleanupId i)) cleanup_superseded mu_fence \<and>
   outlasted P release_cleanup_claim (\<lambda>i. cleanup_target (lu_scope i) (lu_cleanupId i)) cleanup_superseded lu_fence \<and>
   outlasted P record_delivery (\<lambda>i. outbox_target (rd_scope i) (rd_eventId i)) outbox_superseded rd_fence \<and>
   outlasted P release_outbox_claim (\<lambda>i. outbox_target (lo_scope i) (lo_eventId i)) outbox_superseded lo_fence"
  by (intro conjI complete_cleanup.fenced_off release_cleanup_claim.fenced_off record_delivery.fenced_off release_outbox_claim.fenced_off)

text \<open>Every step of a storage migration (backup, capture, candidates, copies, claim renewal and release, the
  switch and the failure) and of a legacy adoption is refused to a worker whose fence was superseded.\<close>

theorem migration_workers_fenced:
  "outlasted P claim_migration_backup (migration_target \<circ> mk_cas) migration_superseded (mm_fence \<circ> mk_cas) \<and>
   outlasted P begin_capture migration_target migration_superseded mm_fence \<and>
   outlasted P complete_migration_backup (migration_target \<circ> mz_cas) migration_superseded (mm_fence \<circ> mz_cas) \<and>
   outlasted P (claim_migration_candidate P) (migration_target \<circ> my_cas) migration_superseded (mm_fence \<circ> my_cas) \<and>
   outlasted P record_verified_revision_copy (migration_target \<circ> mr_cas) migration_superseded (mm_fence \<circ> mr_cas) \<and>
   outlasted P renew_storage_migration_claim (migration_target \<circ> mn_cas) migration_superseded (mm_fence \<circ> mn_cas) \<and>
   outlasted P release_storage_migration_claim (migration_target \<circ> ml_cas) migration_superseded (mm_fence \<circ> ml_cas) \<and>
   outlasted P (switch_storage_binding P) (migration_target \<circ> mw_cas) migration_superseded (mm_fence \<circ> mw_cas) \<and>
   outlasted P fail_storage_migration (migration_target \<circ> mf_cas) migration_superseded (mm_fence \<circ> mf_cas) \<and>
   outlasted P (accept_legacy_adoption P) (adoption_target \<circ> xa_cas) adoption_superseded (da_fence \<circ> xa_cas)"
  by (intro conjI claim_migration_backup.fenced_off begin_capture.fenced_off complete_migration_backup.fenced_off
      claim_migration_candidate.fenced_off record_verified_revision_copy.fenced_off renew_storage_migration_claim.fenced_off
      release_storage_migration_claim.fenced_off switch_storage_binding.fenced_off fail_storage_migration.fenced_off accept_legacy_adoption.fenced_off)

end
