(* ===== verification/Cv_Permits.thy ===== *)
theory Cv_Permits
  imports Cv_History
begin

text \<open>
  The authorization contract of guarded operations: the locale \<open>guarded\<close> says that an operation succeeds
  only if \<open>permit\<close> allows its subject its action in its scope at that moment. It follows that every
  success rests on a current, unrevoked authority that grants the action (\<open>authorized\<close>), and that a
  subject whose credential was rotated or revoked can never use the operation again (\<open>locked_out\<close>).
\<close>

text \<open>The authority on which a permit of \<open>p\<close> for the action \<open>act\<close> in the scope \<open>sc\<close> rests.\<close>

definition backed_by :: "catalog \<Rightarrow> principal \<Rightarrow> action \<Rightarrow> scope \<Rightarrow> authority \<Rightarrow> bool" where
  "backed_by s p act sc a \<longleftrightarrow> tbl_load (c_authority s) (ci_id (pr_credential p)) None = Some a \<and> \<not> revoked a \<and>
     at_credentialVersion a = ci_version (pr_credential p) \<and> at_permissionEpoch a = pr_permissionEpoch p \<and>
     at_actorId a = pr_actorId p \<and> grants_action a act sc \<and>
     (at_customerId a = None \<and> is_administrator p \<or> at_customerId a = Some (scope_customer sc) \<and> pr_customerId p = Some (scope_customer sc))"

lemma permit_backed: "permit s p act sc pre = Inr () \<Longrightarrow> \<exists>a. backed_by s p act sc a"
  by (auto simp: permit_Inr backed_by_def dest!: decide_access_Allowed authority_of_loaded)

text \<open>Every success of \<open>work\<close> is backed by an authority of its subject for its action in its scope.\<close>

definition authorized :: "('i \<Rightarrow> catalog \<Rightarrow> failure + 'r) \<Rightarrow> ('i \<Rightarrow> catalog \<Rightarrow> principal option) \<Rightarrow> ('i \<Rightarrow> action) \<Rightarrow> ('i \<Rightarrow> scope) \<Rightarrow> bool" where
  "authorized work subject doing place \<longleftrightarrow> (\<forall>i s r. sound s \<and> work i s = Inr r \<longrightarrow>
     (\<exists>p a. subject i s = Some p \<and> backed_by s p (doing i) (place i) a))"

definition locked_out :: "platform \<Rightarrow> ('i \<Rightarrow> catalog \<Rightarrow> failure + 'r) \<Rightarrow> ('i \<Rightarrow> catalog \<Rightarrow> principal option) \<Rightarrow> bool" where
  "locked_out P work subject \<longleftrightarrow> (\<forall>i s t p a. sound s \<and> run_of P s t \<and> subject i t = Some p \<and>
     tbl_load (c_authority s) (ci_id (pr_credential p)) None = Some a \<and> ci_version (pr_credential p) < at_credentialVersion a \<longrightarrow> isl (work i t))"

lemma backed_version_kept:
  assumes "run_of P s t" and "sound s" and "tbl_load (c_authority s) (ci_id (pr_credential p)) None = Some a" and "backed_by t p act sc b"
  shows "at_credentialVersion a \<le> ci_version (pr_credential p)"
proof -
  from run_evolution [OF assms(1,2)] have "evolves at_next\<^sup>*\<^sup>* (c_authority s) (c_authority t)" by blast
  from evolves_closure_load [OF this assms(3)] assms(4) have "at_next\<^sup>*\<^sup>* a b" by (auto simp: backed_by_def)
  with at_closed assms(4) show ?thesis by (fastforce simp: backed_by_def)
qed

locale guarded =
  fixes work :: "'i \<Rightarrow> catalog \<Rightarrow> failure + 'r"
    and subject :: "'i \<Rightarrow> catalog \<Rightarrow> principal option"
    and doing :: "'i \<Rightarrow> action"
    and place :: "'i \<Rightarrow> scope"
  assumes permitted: "consistent s \<Longrightarrow> post (work i s) (\<lambda>_. \<exists>p pre. subject i s = Some p \<and> permit s p (doing i) (place i) pre = Inr ())"
begin

lemma success_authorized: "authorized work subject doing place"
  unfolding authorized_def sound_def using postD [OF permitted] permit_backed by blast

lemma no_work_after: "locked_out P work subject"
  unfolding locked_out_def
proof (intro allI impI; elim conjE)
  fix i s t p a
  assume a: "sound s" "run_of P s t" "subject i t = Some p" "tbl_load (c_authority s) (ci_id (pr_credential p)) None = Some a"
    "ci_version (pr_credential p) < at_credentialVersion a"
  show "isl (work i t)"
  proof (cases "work i t")
    case (Inr r)
    from run_evolution [OF a(2,1)] have "sound t" by blast
    with Inr success_authorized a(3) obtain b where "backed_by t p (doing i) (place i) b"
      unfolding authorized_def by force
    from backed_version_kept [OF a(2,1,4) this] a(5) show ?thesis by simp
  qed simp
qed

end

section \<open>The guarded operations\<close>

definition open_action :: "open_run_input \<Rightarrow> action" where
  "open_action i = (if or_mode i = ReadOnly then RunOpenRead else RunOpenWrite)"

definition status_action :: "status_input \<Rightarrow> action" where
  "status_action i = (if si_to i = WsDeleted then WorkspaceDelete else WorkspaceAdmin)"

abbreviation given :: "('i \<Rightarrow> principal) \<Rightarrow> 'i \<Rightarrow> catalog \<Rightarrow> principal option" where
  "given f \<equiv> \<lambda>i s. Some (f i)"

definition finalizing_principal :: "finalizer \<Rightarrow> catalog \<Rightarrow> principal option" where
  "finalizing_principal i s = map_option op_principal (tbl_load (c_operation s) (fz_operationId i) (Some (of_rs (fz_scope i))))"

lemma run_at_permits: "run_at s sc p (Some a) = Inr r \<Longrightarrow> permit s p a (of_rs sc) None = Inr ()"
  by (auto simp: run_at_eq)

interpretation open_run: guarded open_run "given or_principal" open_action "of_ws \<circ> or_scope"
  by unfold_locales (auto simp: open_run_def open_action_def Let_def post_sbind txn_simps intro!: postI)

interpretation renew_run_lease: guarded renew_run_lease "given nl_principal" "\<lambda>_. RunHeartbeat" "of_rs \<circ> nl_scope"
  by unfold_locales (auto simp: renew_run_lease_def Let_def post_simps intro!: postI dest!: run_at_permits)

interpretation abort_run: guarded abort_run "given ab_principal" "\<lambda>_. RunAbort" "of_rs \<circ> ab_scope"
  by unfold_locales (auto simp: abort_run_def Let_def post_sbind intro!: postI)

interpretation claim_finalization: guarded "claim_finalization P" "given cf_principal" "\<lambda>_. RunFinalize" "of_rs \<circ> cf_scope"
  by unfold_locales (auto simp: claim_finalization_def  Let_def post_sbind txn_simps split: option.splits intro!: postI dest!: run_at_permits)

interpretation create_submission: guarded create_submission "given ns_principal" "\<lambda>_. RunUpload" "of_rs \<circ> ns_scope"
  by unfold_locales (auto simp: create_submission_def  Let_def post_sbind txn_simps split: option.splits intro!: postI dest!: run_at_permits)

interpretation register_upload_receipt: guarded "register_upload_receipt P" "given ni_principal" "\<lambda>_. RunUpload" "of_rs \<circ> ni_scope"
  by unfold_locales (auto simp: register_upload_receipt_def  Let_def post_sbind txn_simps split: option.splits intro!: postI dest!: run_at_permits)

interpretation seal_submission: guarded "seal_submission P" "given sl_principal" "\<lambda>_. RunUpload" "of_rs \<circ> sl_scope"
  by unfold_locales (auto simp: seal_submission_def  Let_def post_sbind txn_simps split: option.splits intro!: postI dest!: run_at_permits)

interpretation transition_workspace_status: guarded transition_workspace_status "given si_principal" status_action "of_ws \<circ> si_scope"
  by unfold_locales (auto simp: transition_workspace_status_def status_action_def Let_def post_sbind txn_simps split: option.splits intro!: postI dest!: run_at_permits)

interpretation register_legacy_revision_aliases: guarded register_legacy_revision_aliases "given la_principal" "\<lambda>_. WorkspaceAdmin" "of_ws \<circ> la_scope"
  by unfold_locales (auto simp: register_legacy_revision_aliases_def  Let_def post_sbind txn_simps split: option.splits intro!: postI dest!: run_at_permits)

interpretation claim_workspace_creation: guarded "claim_workspace_creation P" "given cc_principal" "\<lambda>_. WorkspaceCreate" "\<lambda>i. InCustomer (ws_customerId (wi_workspace (cc_intent i)))"
  by unfold_locales (auto simp: claim_workspace_creation_def scope_of_def Let_def post_sbind txn_simps split: option.splits intro!: postI dest!: run_at_permits)

interpretation claim_restore: guarded claim_restore "given kr_principal" "\<lambda>i. ri_destinationAction (kr_intent i)" "\<lambda>i. destination_scope (ri_destinationAction (kr_intent i)) (kr_scope i)"
  by unfold_locales (auto simp: claim_restore_def  Let_def post_sbind txn_simps split: option.splits intro!: postI dest!: run_at_permits)

interpretation claim_storage_migration: guarded "claim_storage_migration P" "given km_principal" "\<lambda>_. WorkspaceMigrate" "of_ws \<circ> km_scope"
  by unfold_locales (auto simp: claim_storage_migration_def  Let_def post_sbind txn_simps split: option.splits intro!: postI dest!: run_at_permits)

interpretation switch_storage_binding: guarded "switch_storage_binding P" "given mw_principal" "\<lambda>_. WorkspaceMigrate" "of_ws \<circ> mm_scope \<circ> mw_cas"
  by unfold_locales (auto simp: switch_storage_binding_def  Let_def post_sbind txn_simps split: option.splits intro!: postI dest!: run_at_permits)

lemma finalizer_permits:
  assumes "finalizer_of i s = Inr x"
  shows "\<exists>p pre. finalizing_principal i s = Some p \<and> permit s p RunFinalize (of_rs (fz_scope i)) pre = Inr ()"
  using assms by (auto simp: finalizer_of_def Let_def txn_simps finalizing_principal_def)

lemma replay_permits:
  assumes "publication_replay i c s = Inr (Some x)" and "consistent s"
  shows "\<exists>p pre. finalizing_principal i s = Some p \<and> permit s p RunFinalize (of_rs (fz_scope i)) pre = Inr ()"
proof -
  from assms(1) obtain o' where o': "tbl_load (c_operation s) (fz_operationId i) (Some (of_rs (fz_scope i))) = Some o'"
    and p: "permit s (op_principal o') RunFinalize (of_ws (op_scope o')) (Some (fz_authorization i)) = Inr ()"
    by (auto simp: publication_replay_def Let_def txn_simps split: option.splits if_splits)
  from o' assms(2) have "op_scope o' = rs_workspace (fz_scope i)" by (auto dest!: owned)
  with o' p show ?thesis by (auto simp: finalizing_principal_def)
qed

interpretation accept_revision: guarded accept_revision "finalizing_principal \<circ> av_finalizer" "\<lambda>_. RunFinalize" "of_rs \<circ> fz_scope \<circ> av_finalizer"
  by unfold_locales (auto simp: accept_revision_def Let_def post_sbind split: option.split intro!: postI dest!: finalizer_permits replay_permits)

interpretation complete_read_only: guarded complete_read_only finalizing_principal "\<lambda>_. RunFinalize" "of_rs \<circ> fz_scope"
  by unfold_locales (auto simp: complete_read_only_def Let_def post_sbind split: option.split intro!: postI dest!: finalizer_permits replay_permits)

section \<open>Authorization over a run\<close>

text \<open>C21: no run is opened, renewed, aborted, finalized or published, and nothing is uploaded or sealed, unless at that
  very moment an unrevoked authority of the principal, at the principal's credential version and permission
  epoch and of the customer, grants the action in the scope. Publication checks the principal that
  claimed the finalization again.\<close>

theorem run_operations_authorized:
  "authorized open_run (given or_principal) open_action (of_ws \<circ> or_scope) \<and>
   authorized renew_run_lease (given nl_principal) (\<lambda>_. RunHeartbeat) (of_rs \<circ> nl_scope) \<and>
   authorized abort_run (given ab_principal) (\<lambda>_. RunAbort) (of_rs \<circ> ab_scope) \<and>
   authorized create_submission (given ns_principal) (\<lambda>_. RunUpload) (of_rs \<circ> ns_scope) \<and>
   authorized (register_upload_receipt P) (given ni_principal) (\<lambda>_. RunUpload) (of_rs \<circ> ni_scope) \<and>
   authorized (seal_submission P) (given sl_principal) (\<lambda>_. RunUpload) (of_rs \<circ> sl_scope) \<and>
   authorized (claim_finalization P) (given cf_principal) (\<lambda>_. RunFinalize) (of_rs \<circ> cf_scope) \<and>
   authorized accept_revision (finalizing_principal \<circ> av_finalizer) (\<lambda>_. RunFinalize) (of_rs \<circ> fz_scope \<circ> av_finalizer) \<and>
   authorized complete_read_only finalizing_principal (\<lambda>_. RunFinalize) (of_rs \<circ> fz_scope)"
  by (intro conjI open_run.success_authorized renew_run_lease.success_authorized abort_run.success_authorized
      create_submission.success_authorized register_upload_receipt.success_authorized seal_submission.success_authorized
      claim_finalization.success_authorized accept_revision.success_authorized complete_read_only.success_authorized)

theorem run_operations_authorized_witness: "\<exists>a. backed_by x_final x_principal RunFinalize (of_rs x_run) a"
proof -
  obtain r where r: "accept_revision in_accept x_final = Inr (r, x_published)" using x_publish by blast
  have "authorized accept_revision (finalizing_principal \<circ> av_finalizer) (\<lambda>_. RunFinalize) (of_rs \<circ> fz_scope \<circ> av_finalizer)"
    using run_operations_authorized by blast
  with r sound_x_final obtain p a where "finalizing_principal x_finalizer x_final = Some p" "backed_by x_final p RunFinalize (of_rs x_run) a"
    unfolding authorized_def by (fastforce simp: in_accept_def x_finalizer_def)
  moreover from this(1) have "p = x_principal" by (simp add: finalizing_principal_def x_eval)
  ultimately show ?thesis by blast
qed

text \<open>Workspaces are created, restored, migrated, switched to other storage, suspended, deleted and given legacy
  aliases only under an authority that grants that action there.\<close>

theorem workspace_operations_authorized:
  "authorized (claim_workspace_creation P) (given cc_principal) (\<lambda>_. WorkspaceCreate) (\<lambda>i. InCustomer (ws_customerId (wi_workspace (cc_intent i)))) \<and>
   authorized transition_workspace_status (given si_principal) status_action (of_ws \<circ> si_scope) \<and>
   authorized register_legacy_revision_aliases (given la_principal) (\<lambda>_. WorkspaceAdmin) (of_ws \<circ> la_scope) \<and>
   authorized claim_restore (given kr_principal) (\<lambda>i. ri_destinationAction (kr_intent i))
     (\<lambda>i. destination_scope (ri_destinationAction (kr_intent i)) (kr_scope i)) \<and>
   authorized (claim_storage_migration P) (given km_principal) (\<lambda>_. WorkspaceMigrate) (of_ws \<circ> km_scope) \<and>
   authorized (switch_storage_binding P) (given mw_principal) (\<lambda>_. WorkspaceMigrate) (of_ws \<circ> mm_scope \<circ> mw_cas)"
  by (intro conjI claim_workspace_creation.success_authorized transition_workspace_status.success_authorized
      register_legacy_revision_aliases.success_authorized claim_restore.success_authorized claim_storage_migration.success_authorized
      switch_storage_binding.success_authorized)



end
