(* ===== verification/Cv_Publication.thy ===== *)
theory Cv_Publication
  imports Cv_Idempotence
begin

text \<open>
  What a finalization does to the workspace: the head of a workspace as a compare-and-set register
  (\<open>publish_spec\<close>), the refinement of that specification by \<open>accept_revision\<close>, the content of the head
  after publication, and what the other outcomes of a finalization leave untouched.
\<close>

section \<open>The head as a register\<close>

definition head_of :: "workspace_scope \<Rightarrow> catalog \<Rightarrow> (id \<times> int) option" where
  "head_of w s = map_option (\<lambda>x. (ws_currentRevisionId x, ws_version x)) (tbl_load (c_workspace s) (wsc_workspaceId w) (Some (of_ws w)))"

definition digest_at :: "workspace_scope \<Rightarrow> catalog \<Rightarrow> id \<Rightarrow> string option" where
  "digest_at w s v = map_option rv_manifestDigest (tbl_load (c_revision s) v (Some (of_ws w)))"

text \<open>The content of a workspace: the manifest digest of its head revision.\<close>

definition content_of :: "workspace_scope \<Rightarrow> catalog \<Rightarrow> string option" where
  "content_of w s = (case head_of w s of None \<Rightarrow> None | Some (v, _) \<Rightarrow> digest_at w s v)"

text \<open>Publishing the content \<open>d\<close> as revision \<open>v\<close>, when the head is expected to be \<open>h\<close> with content \<open>old\<close>.\<close>

definition publish_spec :: "id \<times> int \<Rightarrow> string \<Rightarrow> id \<Rightarrow> string \<Rightarrow> id \<times> int \<Rightarrow> (id \<times> int) option" where
  "publish_spec h old v d cur = (if cur \<noteq> h then None else if d = old then Some cur else Some (v, snd cur + 1))"

text \<open>The operation of the finalization has not succeeded before: this call is not a repetition.\<close>

definition first_publication :: "finalizer \<Rightarrow> catalog \<Rightarrow> bool" where
  "first_publication i s \<longleftrightarrow> (case tbl_load (c_operation s) (fz_operationId i) (Some (of_rs (fz_scope i))) of
     None \<Rightarrow> True | Some o' \<Rightarrow> op_state o' \<noteq> OpSucceeded)"

lemma first_publication_replay: "first_publication i s \<Longrightarrow> publication_replay i c s = Inr None"
  by (auto simp: first_publication_def publication_replay_def split: option.splits)

lemma repeated_publication: "\<not> first_publication i s \<Longrightarrow> post (publication_replay i c s) (\<lambda>r. r \<noteq> None)"
  by (auto simp: first_publication_def publication_replay_def Let_def post_def txn_simps split: option.splits)

lemma repeated_accept: "accept_revision i s = Inr (x, t) \<Longrightarrow> \<not> first_publication (av_finalizer i) s \<Longrightarrow> t = s"
  by (auto simp: accept_revision_def txn_simps Let_def split: option.splits dest!: repeated_publication [THEN postD])

lemma complete_finalization_eq:
  "complete_finalization o' r v b e now s = Inr (x, t) \<Longrightarrow> x = PublicationResult (finished_run v b now r) v (complete_operation o' (ResFinalize Finalized (Some (rv_id v)) b) now) \<and>
     c_workspace t = c_workspace s \<and> c_revision t = c_revision s \<and> c_binding t = c_binding s \<and>
     c_run t = put_row (rn_id r) (mk_row (of_bs (rn_scope r)) (Some (rn_id r)) (finished_run v b now r)) (c_run s) \<and>
     c_operation t = put_row (op_id o') (mk_row (of_ws (op_scope o')) (op_runId o') (complete_operation o' (ResFinalize Finalized (Some (rv_id v)) b) now)) (c_operation s)"
  by (auto simp: complete_finalization_def operation_events_def txn_simps Let_def split: option.splits)

text \<open>The checks and the two outcomes of a first publication.\<close>

lemma accept_first:
  assumes "accept_revision i s = Inr (x, t)" and "first_publication (av_finalizer i) s"
  shows "\<exists>o' r w base src ident. finalizer_of (av_finalizer i) s = Inr (o', r, w) \<and> head_unchanged i r w \<and>
    intent_source (op_intent o') = Some src \<and> check_source s (fz_scope (av_finalizer i)) (av_submissionId i) src = Inr () \<and>
    intent_candidateIdentity (op_intent o') = Some ident \<and> match_candidate s ident (av_candidate i) (ss_manifestDigest src) = Inr () \<and>
    op_candidate o' = Some (av_candidate i) \<and> tbl_load (c_revision s) (rn_baseRevisionId r) (Some (of_bs (rn_scope r))) = Some base \<and>
    (if rv_manifestDigest base \<noteq> pp_manifestDigest (av_candidate i)
     then \<exists>u. publish_revision (av_candidate i) r w (fz_at (av_finalizer i)) s = Inr u \<and>
       complete_finalization o' r (revision_of (av_candidate i) (fz_at (av_finalizer i))) True (fz_events (av_finalizer i)) (fz_at (av_finalizer i)) u = Inr (x, t)
     else complete_finalization o' r base False (fz_events (av_finalizer i)) (fz_at (av_finalizer i)) s = Inr (x, t))"
  using assms(1) unfolding accept_revision_def Let_def first_publication_replay [OF assms(2)]
  by (simp add: sbind_eq_Inr fail_unless_eq_Inr load_or_eq_Inr found_eq_Inr split_beta split: if_splits) blast+

lemma publish_revision_eq:
  "publish_revision c r w now s = Inr u \<longleftrightarrow> writable (c_revision s) (pp_revisionId c) (of_bs (rn_scope r)) True \<and>
     writable (c_workspace s) (ws_id w) (of_bs (rn_scope r)) False \<and>
     u = s\<lparr>c_revision := put_row (pp_revisionId c) (mk_row (of_bs (rn_scope r)) None (revision_of c now)) (c_revision s),
           c_workspace := put_row (ws_id w) (mk_row (of_bs (rn_scope r)) None (advance_head (revision_of c now) now w)) (c_workspace s)\<rparr>"
  by (auto simp: publish_revision_def txn_simps Let_def)

section \<open>Publication\<close>

lemma matches_of_ws: "matches (Some (of_ws w)) (of_ws w)"
  by (simp add: matches_def of_ws_def)

lemma head_after_publish:
  assumes "publish_revision c r w now s = Inr u" and "bs_workspace (rn_scope r) = sc" and "ws_id w = wsc_workspaceId sc"
  shows "head_of sc u = Some (pp_revisionId c, ws_version w + 1) \<and> digest_at sc u (pp_revisionId c) = Some (pp_manifestDigest c)"
  using assms by (auto simp: publish_revision_eq head_of_def digest_at_def matches_of_ws advance_head_def)

lemma head_tables: "c_workspace t = c_workspace s \<Longrightarrow> head_of sc t = head_of sc s" "c_revision t = c_revision s \<Longrightarrow> digest_at sc t v = digest_at sc s v"
  by (simp_all add: head_of_def digest_at_def)

lemma accept_publishes:
  assumes "sound s" and "accept_revision i s = Inr (x, t)" and "first_publication (av_finalizer i) s"
  defines "w \<equiv> rs_workspace (fz_scope (av_finalizer i))" and "h \<equiv> (av_expectedHeadRevisionId i, av_expectedWorkspaceVersion i)"
    and "d \<equiv> pp_manifestDigest (av_candidate i)"
  shows "\<exists>old m. head_of w s = Some h \<and> content_of w s = Some old \<and>
    tbl_load (c_submission s) (av_submissionId i) (Some (of_ws w)) = Some m \<and> sm_state m = Sealed \<and> sm_manifestDigest m = Some d \<and>
    head_of w t = publish_spec h old (pp_revisionId (av_candidate i)) d h \<and> content_of w t = Some d"
proof -
  from assms(1) have s: "consistent s" by (simp add: sound_def)
  obtain o' r k base src ident where f: "finalizer_of (av_finalizer i) s = Inr (o', r, k)" and un: "head_unchanged i r k"
    and c: "check_source s (fz_scope (av_finalizer i)) (av_submissionId i) src = Inr ()"
    and mc: "match_candidate s ident (av_candidate i) (ss_manifestDigest src) = Inr ()"
    and b: "tbl_load (c_revision s) (rn_baseRevisionId r) (Some (of_bs (rn_scope r))) = Some base"
    and out: "if rv_manifestDigest base \<noteq> pp_manifestDigest (av_candidate i)
     then \<exists>u. publish_revision (av_candidate i) r k (fz_at (av_finalizer i)) s = Inr u \<and>
       complete_finalization o' r (revision_of (av_candidate i) (fz_at (av_finalizer i))) True (fz_events (av_finalizer i)) (fz_at (av_finalizer i)) u = Inr (x, t)
     else complete_finalization o' r base False (fz_events (av_finalizer i)) (fz_at (av_finalizer i)) s = Inr (x, t)"
    using accept_first [OF assms(2,3)] by metis
  from finalizer_own [OF f s] have own: "rn_scope r = rs_binding (fz_scope (av_finalizer i))" "ws_id k = wsc_workspaceId w" by (auto simp: w_def)
  from f have k: "tbl_load (c_workspace s) (wsc_workspaceId w) (Some (of_ws w)) = Some k"
    by (auto simp: finalizer_of_def txn_simps Let_def w_def)
  from k un have hs: "head_of w s = Some h" "rn_baseRevisionId r = fst h" "ws_version k = snd h"
    by (auto simp: head_of_def head_unchanged_def h_def)
  from b own(1) hs(1,2) have old: "content_of w s = Some (rv_manifestDigest base)"
    by (simp add: content_of_def digest_at_def w_def split_beta)
  from c mc obtain m where m: "tbl_load (c_submission s) (av_submissionId i) (Some (of_ws w)) = Some m" "sm_state m = Sealed" "sm_manifestDigest m = Some d"
    by (auto simp: check_source_def match_candidate_eq txn_simps w_def d_def)
  have "head_of w t = publish_spec h (rv_manifestDigest base) (pp_revisionId (av_candidate i)) d h \<and> content_of w t = Some d"
  proof (cases "rv_manifestDigest base = d")
    case True
    with out have "c_workspace t = c_workspace s" "c_revision t = c_revision s" by (auto simp: d_def dest!: complete_finalization_eq)
    with True hs(1) old show ?thesis by (simp add: head_tables [of t s] publish_spec_def content_of_def)
  next
    case False
    with out obtain u where u: "publish_revision (av_candidate i) r k (fz_at (av_finalizer i)) s = Inr u"
      "c_workspace t = c_workspace u" "c_revision t = c_revision u" by (auto simp: d_def dest!: complete_finalization_eq)
    from head_after_publish [OF u(1) _ own(2)] own(1) have "head_of w u = Some (pp_revisionId (av_candidate i), ws_version k + 1)"
      "digest_at w u (pp_revisionId (av_candidate i)) = Some d" by (simp_all add: w_def d_def)
    with False hs(3) show ?thesis by (simp add: head_tables [of t u] u(2,3) publish_spec_def content_of_def)
  qed
  with hs(1) old m show ?thesis by blast
qed



text \<open>C2: no lost updates. When a publication has moved the head from one version to the next, no other publication
  based on the same version of that workspace ever succeeds: the only calls that still return are repetitions,
  which change nothing.\<close>

theorem one_publication_per_version:
  assumes "sound s" and "accept_revision i s = Inr (x, t)" and "first_publication (av_finalizer i) s"
    and "head_of (rs_workspace (fz_scope (av_finalizer i))) t \<noteq> head_of (rs_workspace (fz_scope (av_finalizer i))) s"
    and "run_of P t u" and "rs_workspace (fz_scope (av_finalizer j)) = rs_workspace (fz_scope (av_finalizer i))"
    and "av_expectedWorkspaceVersion j = av_expectedWorkspaceVersion i" and "accept_revision j u = Inr (y, v)"
  shows "v = u"
proof (rule ccontr)
  let ?w = "rs_workspace (fz_scope (av_finalizer i))"
  assume "v \<noteq> u"
  with repeated_accept [OF assms(8)] have first: "first_publication (av_finalizer j) u" by blast
  from st_accept_revision [OF assms(2)] assms(1) step_sound have t: "sound t" by blast
  from run_evolution [OF assms(5) t] have u: "sound u" "evolution t u" by auto
  from accept_publishes [OF assms(1-3)] assms(4) obtain id where "head_of ?w t = Some (id, av_expectedWorkspaceVersion i + 1)"
    by (auto simp: publish_spec_def split: if_splits)
  then obtain k where k: "tbl_load (c_workspace t) (wsc_workspaceId ?w) (Some (of_ws ?w)) = Some k" "ws_version k = av_expectedWorkspaceVersion i + 1"
    by (auto simp: head_of_def)
  from evolution_load(8) [OF u(2) k(1)] ws_closed obtain l where
    "tbl_load (c_workspace u) (wsc_workspaceId ?w) (Some (of_ws ?w)) = Some l" "ws_version k \<le> ws_version l" by blast
  moreover from accept_publishes [OF u(1) assms(8) first] assms(6,7) have
    "map_option snd (head_of ?w u) = Some (av_expectedWorkspaceVersion i)" by auto
  ultimately show False using k(2) by (simp add: head_of_def)
qed

theorem one_publication_per_version_witness: "\<exists>y. accept_revision in_accept x_published = Inr (y, x_published)"
proof -
  obtain r where r: "accept_revision in_accept x_final = Inr (r, x_published)" using x_publish by blast
  have first: "first_publication (av_finalizer in_accept) x_final" by (simp add: first_publication_def x_eval)
  have moved: "head_of (rs_workspace (fz_scope (av_finalizer in_accept))) x_published \<noteq> head_of (rs_workspace (fz_scope (av_finalizer in_accept))) x_final"
    unfolding x_published_def after_def by (simp add: accept_revision_def head_of_def x_eval)
  have "\<not> isl (accept_revision in_accept x_published)"
    unfolding x_published_def after_def by (simp add: accept_revision_def fence_of_def replayed_run_def x_eval)
  then obtain y v where y: "accept_revision in_accept x_published = Inr (y, v)" by (cases "accept_revision in_accept x_published") auto
  from one_publication_per_version [OF sound_x_final r first moved rtranclp.rtrancl_refl [where r = "any_step x_platform"] refl refl y] y
  show ?thesis by blast
qed

text \<open>C34: a publication whose workspace has moved on since the run was opened fails with REVISION_CONFLICT and
  leaves no trace: the error is a value, and the transaction is rolled back.\<close>

theorem stale_head_conflicts:
  assumes "first_publication (av_finalizer i) s" and "finalizer_of (av_finalizer i) s = Inr (o', r, w)"
    and "rn_mode r = ReadWrite" and "intent_mode (op_intent o') = Some ReadWrite"
    and "ws_currentRevisionId w \<noteq> rn_baseRevisionId r \<or> ws_version w \<noteq> rn_workspaceVersionAtOpen r"
  shows "accept_revision i s = Inl (Fail REVISION_CONFLICT)"
  using assms(2-5) unfolding accept_revision_def Let_def first_publication_replay [OF assms(1)]
  by (auto simp: sbind_def fail_unless_def require_def head_unchanged_def)

theorem stale_head_conflicts_witness:
  "accept_revision in_accept (x_final\<lparr>c_workspace := [(''w1'', mk_row (of_ws x_ws) None (x_new_workspace\<lparr>ws_version := 2\<rparr>))]\<rparr>) = Inl (Fail REVISION_CONFLICT)"
  by (rule stale_head_conflicts [where o' = x_claimed and r = "finalizing_run ''op-2'' ''2026-01-04'' x_active" and w = "x_new_workspace\<lparr>ws_version := 2\<rparr>"])
    (simp_all add: first_publication_def x_eval)

text \<open>Completing a read-only run publishes nothing: no workspace and no revision changes, and the run ends finalized
  at the revision it was opened on, marked as unchanged.\<close>

theorem read_only_publishes_nothing:
  assumes "sound s" and "complete_read_only i s = Inr (x, t)" and "first_publication i s"
  shows "c_workspace t = c_workspace s \<and> c_revision t = c_revision s \<and>
    (\<exists>r. tbl_load (c_run s) (rsc_runId (fz_scope i)) None = Some r \<and> rn_mode r = ReadOnly \<and> rn_state r = Finalizing \<and>
      (\<exists>rv. rv_id rv = rn_baseRevisionId r \<and> tbl_load (c_run t) (rsc_runId (fz_scope i)) None = Some (finished_run rv False (fz_at i) r)))"
proof -
  from assms(1) have s: "consistent s" by (simp add: sound_def)
  from assms(2) obtain o' r w base where f: "finalizer_of i s = Inr (o', r, w)" "rn_mode r = ReadOnly"
    and b: "tbl_load (c_revision s) (rn_baseRevisionId r) (Some (of_bs (rn_scope r))) = Some base"
    and c: "complete_finalization o' r base False (fz_events i) (fz_at i) s = Inr (x, t)"
    unfolding complete_read_only_def first_publication_replay [OF assms(3)]
    by (auto simp: sbind_eq_Inr fail_unless_eq_Inr load_or_eq_Inr)
  from b s have "rv_id base = rn_baseRevisionId r" by (auto dest!: owned)
  moreover from finalizer_own [OF f(1) s] have "rn_id r = rsc_runId (fz_scope i)" "rn_state r = Finalizing"
    "tbl_load (c_run s) (rsc_runId (fz_scope i)) None = Some r" by auto
  ultimately show ?thesis using complete_finalization_eq [OF c] f(2) by (auto simp: matches_def)
qed

definition x_reading :: catalog where
  "x_reading = x_final\<lparr>c_run := [(''r1'', mk_row (of_ws x_ws) (Some ''r1'') (finalizing_run ''op-2'' ''2026-01-04'' (x_active\<lparr>rn_mode := ReadOnly\<rparr>)))],
     c_operation := [(''op-2'', mk_row (of_ws x_ws) (Some ''r1'') (x_claimed\<lparr>op_candidate := None, op_intent := FinalizeIntent
       (FinalizationIntent 1 KFinalize ReadOnly (JsonRequest ''POST'' ''/v1/runs/r1/finalize'' (FinalizeBody 1 None)) None None)\<rparr>))]\<rparr>"

lemma sound_x_reading: "sound x_reading"
  by (simp add: sound_def consistent_def catalog_wf_def migrations_owned_def access_ok_def rows_ok_list record_ok_defs authority_ok_def
    tbl_wf_def row_scope_def live_def intent_ok_def x_reading_def x_eval)

definition x_read :: catalog where "x_read = after (complete_read_only x_finalizer x_reading)"

theorem read_only_publishes_nothing_witness:
  "c_workspace x_read = c_workspace x_reading \<and> (\<exists>rv. tbl_load (c_run x_read) ''r1'' None =
     Some (finished_run rv False ''2026-01-05'' (finalizing_run ''op-2'' ''2026-01-04'' (x_active\<lparr>rn_mode := ReadOnly\<rparr>))))"
proof -
  have "\<exists>x. complete_read_only x_finalizer x_reading = Inr (x, x_read)"
    unfolding x_read_def by (rule after_ok) (simp add: complete_read_only_def x_reading_def x_eval)
  then obtain x where t: "complete_read_only x_finalizer x_reading = Inr (x, x_read)" by blast
  have "first_publication x_finalizer x_reading" by (simp add: first_publication_def x_reading_def x_eval)
  from read_only_publishes_nothing [OF sound_x_reading t this] obtain rv r where "c_workspace x_read = c_workspace x_reading"
    "tbl_load (c_run x_reading) ''r1'' None = Some r" "tbl_load (c_run x_read) ''r1'' None = Some (finished_run rv False ''2026-01-05'' r)"
    by (auto simp: x_finalizer_def x_run_def)
  moreover have "tbl_load (c_run x_reading) ''r1'' None = Some (finalizing_run ''op-2'' ''2026-01-04'' (x_active\<lparr>rn_mode := ReadOnly\<rparr>))"
    by (simp add: x_reading_def tbl_load_def in_scope_def)
  ultimately show ?thesis by auto
qed

text \<open>A failed finalization publishes nothing either: the run ends conflicted exactly for REVISION_CONFLICT and
  failed otherwise, with the error as its outcome, and its operation fails with the same error.\<close>

theorem failure_publishes_nothing:
  assumes "sound s" and "fail_finalization i s = Inr (x, t)"
  shows "c_workspace t = c_workspace s \<and> c_revision t = c_revision s \<and> op_state x = OpFailed \<and>
    (\<exists>rid r. op_runId x = Some rid \<and> tbl_load (c_run s) rid None = Some r \<and> rn_state r = Finalizing \<and>
      tbl_load (c_run t) rid None = Some (failed_run (ff_code i) (cs_now (ff_cas i)) r) \<and>
      (rn_state (failed_run (ff_code i) (cs_now (ff_cas i)) r) = Conflicted \<longleftrightarrow> ff_code i = REVISION_CONFLICT))"
proof -
  from assms(1) have s: "consistent s" by (simp add: sound_def)
  from assms(2) obtain rid r o' where r: "op_runId o' = Some rid" "tbl_load (c_run s) rid (Some (of_ws (op_scope o'))) = Some r" "rn_state r = Finalizing"
    and x: "x = (fail_operation o' (ff_code i) (ff_message i) (cs_now (ff_cas i)))\<lparr>op_result := Some (ResFinalize (rn_state (failed_run (ff_code i) (cs_now (ff_cas i)) r)) None False)\<rparr>"
    and t: "c_workspace t = c_workspace s" "c_revision t = c_revision s"
      "c_run t = put_row (rn_id r) (mk_row (of_bs (rn_scope r)) (Some (rn_id r)) (failed_run (ff_code i) (cs_now (ff_cas i)) r)) (c_run s)"
    unfolding fail_finalization_def operation_events_def Let_def
    by (auto simp: load_optional_def txn_simps split: option.splits)
  from r(2) s have "tbl_load (c_run s) rid None = Some r" "rn_id r = rid" by (auto dest!: owned)
  with r x t show ?thesis by (auto simp: matches_def fail_operation_def failed_run_def Let_def)
qed


theorem failure_publishes_nothing_witness: "c_workspace x_conflicted = c_workspace x_final \<and> c_revision x_conflicted = c_revision x_final"
proof -
  obtain r where "fail_finalization in_fail x_final = Inr (r, x_conflicted)" using x_conflict by blast
  from failure_publishes_nothing [OF sound_x_final this] show ?thesis by blast
qed

end
