(* ===== verification/Cv_Leases.thy ===== *)
theory Cv_Leases
  imports Cv_Publication
begin

text \<open>
  Leases and claims over time: the lifecycle of a run as a state machine, what a renewed lease is worth
  against an expiry prepared earlier, who may touch a run while a finalization holds it, and when exactly a
  lapsed claim can be taken over.
\<close>

section \<open>The lifecycle of a run\<close>

lemma rn_next_transition: "rn_next r q \<Longrightarrow> can_transition_run\<^sup>*\<^sup>* (rn_state r) (rn_state q)"
  by (auto simp: rn_next_def lease_renewed_def run_moved_def)

lemma rn_next_transitions: "rn_next\<^sup>*\<^sup>* r q \<Longrightarrow> can_transition_run\<^sup>*\<^sup>* (rn_state r) (rn_state q)"
  by (induction rule: rtranclp_induct) (auto dest: rn_next_transition)

lemma rn_next_lease: "rn_next\<^sup>*\<^sup>* r q \<Longrightarrow> rl_version (rn_lease r) \<le> rl_version (rn_lease q) \<and> rn_version r \<le> rn_version q \<and>
    (live (rn_state q) \<longrightarrow> rl_expiresAt (rn_lease r) \<le> rl_expiresAt (rn_lease q))"
proof (induction rule: rtranclp_induct)
  case (step p q)
  then have "live (rn_state p)" by (auto dest: rn_next_live)
  with step show ?case by (auto simp: rn_next_def lease_renewed_def run_moved_def)
qed simp



section \<open>Renewal and expiry\<close>

lemma renewed_lease:
  assumes "renew_run_lease i s = Inr (x, t)" and "fresh_command (nl_command i) s"
  shows "\<exists>r. tbl_load (c_run s) (rsc_runId (nl_scope i)) (Some (of_rs (nl_scope i))) = Some r \<and> rn_state r = Active \<and>
    rl_version (rn_lease r) = nl_expectedLeaseVersion i \<and> rl_expiresAt (rn_lease r) \<le> nl_expiresAt i \<and> nl_now i < nl_expiresAt i \<and>
    c_run t = put_row (rn_id r) (mk_row (of_bs (rn_scope r)) (Some (rn_id r)) (renewed_run i r)) (c_run s) \<and> rn_scope r = rs_binding (nl_scope i)"
  using assms by (auto simp: renew_run_lease_def fresh_command_def replay_def txn_simps Let_def split: option.splits)

text \<open>C26: a renewed lease protects its run from every expiry that was prepared before the renewal: an expiry that
  expects the lease version the renewal replaced is refused in every later catalog.\<close>

theorem renewal_defeats_expiry:
  assumes "sound s" and "renew_run_lease i s = Inr (x, t)" and "fresh_command (nl_command i) s" and "run_of P t u"
    and "rs_workspace (xr_scope (xp_target j)) = rs_workspace (nl_scope i)" and "rsc_runId (xr_scope (xp_target j)) = rsc_runId (nl_scope i)"
    and "xr_expectedLeaseVersion (xp_target j) = nl_expectedLeaseVersion i"
  shows "isl (expire_active_run j u)"
proof (cases "expire_active_run j u")
  case (Inr y)
  let ?i = "rsc_runId (nl_scope i)" and ?w = "of_ws (rs_workspace (nl_scope i))"
  from renewed_lease [OF assms(2,3)] obtain r where r: "tbl_load (c_run s) ?i (Some ?w) = Some r"
    "rl_version (rn_lease r) = nl_expectedLeaseVersion i" "rn_scope r = rs_binding (nl_scope i)"
    "c_run t = put_row (rn_id r) (mk_row (of_bs (rn_scope r)) (Some (rn_id r)) (renewed_run i r)) (c_run s)" by auto
  from r(1) assms(1) have "rn_id r = ?i" by (auto simp: sound_def dest!: owned)
  with r(3,4) have t: "tbl_load (c_run t) ?i (Some ?w) = Some (renewed_run i r)" by (simp add: matches_of_ws)
  from st_renew_run_lease [OF assms(2)] assms(1) step_sound have "sound t" by blast
  from evolution_load(1) [OF run_evolves [OF assms(4) this] t] obtain q where
    q: "tbl_load (c_run u) ?i (Some ?w) = Some q" "rn_next\<^sup>*\<^sup>* (renewed_run i r) q" by blast
  have "nl_expectedLeaseVersion i < rl_version (rn_lease q)" using rn_next_lease [OF q(2)] r(2) by (simp add: renewed_run_def)
  moreover from Inr q(1) assms(5-7) have "rl_version (rn_lease q) = nl_expectedLeaseVersion i"
    by (cases y) (auto simp: expire_active_run_def txn_simps Let_def)
  ultimately show ?thesis by simp
qed simp

definition in_renew :: renew_lease_input where
  "in_renew = RenewLease x_run x_principal (x_command KRunHeartbeat (Some ''w1'') (Some ''r1'') ''9'') 1 ''2026-01-07'' ''2026-01-20''"

definition x_renewed :: catalog where "x_renewed = after (renew_run_lease in_renew x_open)"

theorem renewal_defeats_expiry_witness: "isl (expire_active_run in_expire x_renewed)"
proof -
  have "\<exists>x. renew_run_lease in_renew x_open = Inr (x, x_renewed)"
    unfolding x_renewed_def by (rule after_ok) (simp add: renew_run_lease_def renewed_run_def in_renew_def x_eval)
  then obtain x where "renew_run_lease in_renew x_open = Inr (x, x_renewed)" by blast
  from renewal_defeats_expiry [OF sound_x_open this _ rtranclp.rtrancl_refl [where r = "any_step x_platform"], of in_expire] show ?thesis
    by (simp add: fresh_command_def find_command_def x_open_def empty_catalog_def in_expire_def in_renew_def)
qed

text \<open>An expiry succeeds only on an active run whose lease has lapsed at the given time, and ends it expired with
  that reason, scheduling its cleanup; the time of expiry of a live lease is never overrun.\<close>

theorem expiry_needs_lapsed_lease:
  assumes "sound s" and "expire_active_run j s = Inr ((r', c), t)"
  shows "\<exists>r. tbl_load (c_run s) (rsc_runId (xr_scope (xp_target j))) None = Some r \<and> rn_state r = Active \<and> rl_expiresAt (rn_lease r) \<le> xp_now j \<and>
    r' = expired_run (xp_now j) r \<and> tbl_load (c_run t) (rn_id r) None = Some r' \<and> tbl_load (c_cleanup t) (rn_cleanupId r) None = Some c \<and> cl_runId c = Some (rn_id r)"
proof -
  let ?sc = "xr_scope (xp_target j)"
  from assms(2) obtain r u where r: "tbl_load (c_run s) (rsc_runId ?sc) (Some (of_rs ?sc)) = Some r" "rn_state r = Active" "rl_expiresAt (rn_lease r) \<le> xp_now j"
    "r' = expired_run (xp_now j) r" and e: "ensure_cleanup r' (xp_now j) (s\<lparr>c_run := put_row (rn_id r) (mk_row (of_bs (rn_scope r)) (Some (rn_id r)) r') (c_run s)\<rparr>) = Inr (c, u)"
    and t: "c_run t = c_run u" "c_cleanup t = c_cleanup u"
    by (auto simp: expire_active_run_def txn_simps(1-3) sbind_eq_Inr fail_unless_eq_Inr load_or_eq_Inr write_run_def write_events_eq tbl_write_eq_Inr Let_def split: if_splits)
  from r(1) assms(1) have "rn_id r = rsc_runId ?sc" "tbl_load (c_run s) (rsc_runId ?sc) None = Some r"
    by (auto simp: sound_def dest!: owned)
  moreover from e have "c_run u = put_row (rn_id r) (mk_row (of_bs (rn_scope r)) (Some (rn_id r)) r') (c_run s)"
    "tbl_load (c_cleanup u) (rn_cleanupId r) None = Some c" "cl_runId c = Some (rn_id r)"
    using r(4) by (auto simp: ensure_cleanup_eq matches_def tbl_load_unscoped split: option.splits)
  ultimately show ?thesis using r t by (auto simp: matches_def)
qed

theorem expiry_needs_lapsed_lease_witness: "\<exists>c. tbl_load (c_cleanup x_expired) ''u1'' None = Some c"
proof -
  obtain r c where "expire_active_run in_expire x_open = Inr ((r, c), x_expired)" using x_expire by auto
  from expiry_needs_lapsed_lease [OF sound_x_open this] show ?thesis
    by (auto simp: in_expire_def x_run_def x_open_def x_active_def tbl_load_def in_scope_def)
qed

section \<open>A finalization holds its run\<close>

lemma isl_sbind: "(\<And>a. m = Inr a \<Longrightarrow> isl (f a)) \<Longrightarrow> isl (sbind m f)"
  by (cases m) auto

text \<open>While a finalization holds a run, nothing else moves it: a fresh abort, heartbeat, upload, seal or second
  finalization and any expiry of it are refused; the refusal of a permitted one is FINALIZATION_IN_PROGRESS.\<close>

theorem finalizing_excludes:
  assumes "tbl_load (c_run s) (rsc_runId sc) (Some (of_rs sc)) = Some r" and "rn_state r = Finalizing"
  shows "(ab_scope a = sc \<and> fresh_command (ab_command a) s \<longrightarrow> isl (abort_run a s)) \<and>
    (nl_scope n = sc \<and> fresh_command (nl_command n) s \<longrightarrow> isl (renew_run_lease n s)) \<and>
    (ni_scope u = sc \<and> fresh_command (ni_command u) s \<longrightarrow> isl (register_upload_receipt P u s)) \<and>
    (sl_scope l = sc \<and> fresh_command (sl_command l) s \<longrightarrow> isl (seal_submission P l s)) \<and>
    (cf_scope f = sc \<and> fresh_command (cf_command f) s \<longrightarrow> isl (claim_finalization P f s)) \<and>
    (xr_scope (xp_target x) = sc \<longrightarrow> isl (expire_active_run x s)) \<and>
    check_active r now = Inl (Fail FINALIZATION_IN_PROGRESS)"
proof -
  have held: "isl (sbind (run_at s sc p act) (\<lambda>q. sbind (check_active q now') (g q)))" for p act now' and g :: "_ \<Rightarrow> _ \<Rightarrow> failure + 'z"
    by (intro isl_sbind) (use assms in \<open>auto simp: run_at_eq check_active_def sbind_def\<close>)
  have new: "replay s c p = Inr None" if "fresh_command c s" for c p
    using that by (simp add: fresh_command_def replay_None)
  have late: "isl (expire_active_run x s)" if "xr_scope (xp_target x) = sc"
    using assms unfolding expire_active_run_def Let_def that by (simp add: load_or_def sbind_def fail_unless_def require_def)
  show ?thesis
    unfolding abort_run_def renew_run_lease_def register_upload_receipt_def seal_submission_def claim_finalization_def Let_def
    by (intro conjI impI; (elim conjE)?; (intro isl_sbind)?) (auto simp: new held late, auto simp: assms check_active_def)
qed

theorem finalizing_excludes_witness: "isl (abort_run in_abort x_final)"
proof -
  have "tbl_load (c_run x_final) (rsc_runId x_run) (Some (of_rs x_run)) = Some (finalizing_run ''op-2'' ''2026-01-04'' x_active)"
    by (simp add: x_eval)
  from finalizing_excludes [OF this, of in_abort] show ?thesis
    by (auto simp: fresh_command_def find_command_def x_final_def in_abort_def x_command_def x_claimed_def new_operation_def finalizing_run_def)
qed

section \<open>Taking over a lapsed claim\<close>

definition recoverable :: "claim_recovery_input \<Rightarrow> catalog \<Rightarrow> operation \<Rightarrow> processing_claim \<Rightarrow> bool" where
  "recoverable i s o' old \<longleftrightarrow> tbl_load (c_operation s) (rc_operationId i) (Some (of_ws (rc_scope i))) = Some o' \<and>
     recovery_kind_ok (rc_kind i) (op_kind o') \<and> op_version o' = rc_expectedVersion i \<and> op_state o' = OpProcessing \<and>
     op_claim o' = Some old \<and> pc_expiresAt old \<le> rc_now i \<and> \<not> candidate_fenced s o'"

definition next_claim :: "claim_recovery_input \<Rightarrow> processing_claim \<Rightarrow> processing_claim" where
  "next_claim i old = ProcessingClaim (rc_ownerId i) (pc_fence old + 1) (rc_expiresAt i)"

lemma claim_recovery_eq:
  "claim_recovery i s = Inr (r, t) \<longleftrightarrow> (\<exists>o' old. recoverable i s o' old \<and> valid_claim (next_claim i old) (rc_now i) = Inr () \<and>
     r = claimed_operation (next_claim i old) (rc_now i) o' \<and> save_operation r s = Inr t)"
  unfolding claim_recovery_def recoverable_def next_claim_def Let_def
  by (auto simp: sbind_eq_Inr fail_unless_eq_Inr load_or_eq_Inr found_eq_Inr)



end
