(* ===== verification/Cv_Sealing.thy ===== *)
theory Cv_Sealing
  imports Cv_Publication
begin

text \<open>
  What is sealed is what was uploaded, and what is published extends what the run was opened on: the
  contracts of \<open>seal_submission\<close>, \<open>open_run\<close> and \<open>claim_finalization\<close> that follow a change of a workspace
  from the opening of the run to its publication.
\<close>

section \<open>Sealing\<close>

lemma selection_unique:
  assumes "selection_complete files sel"
  shows "distinct (map rs_path sel) \<and> distinct (map rs_receiptId sel) \<and> length sel = length files"
  using assms by (auto simp: selection_complete_def length_remdups_card_conv card_distinct distinct_card dest!: card_distinct)

lemma find_member: "find Q xs = Some x \<Longrightarrow> x \<in> set xs \<and> Q x"
  by (auto simp: find_Some_iff)

lemma sealed_parts:
  assumes "seal_submission P i s = Inr (x, t)" and "fresh_command (sl_command i) s"
  shows "\<exists>(r :: run) m mf. rn_scope r = rs_binding (sl_scope i) \<and> rn_mode r = ReadWrite \<and> rn_state r = Active \<and> get_submission s (sl_scope i) (sl_submissionId i) = Some m \<and>
    sm_state m = Uploading \<and> sl_now i < sm_expiresAt m \<and> canonicalize_manifest P no_override (sl_manifest i) = Inr mf \<and>
    manifest_digest P no_override (manifest_json mf) = Inr (sl_manifestDigest i) \<and>
    selection_complete (filter is_file (mf_entries mf)) (sl_receipts i) \<and>
    list_all (entry_selected s (sl_scope i) (sm_id m) (sl_receipts i)) (filter is_file (mf_entries mf)) \<and>
    c_submission t = put_row (sm_id m) (mk_row (of_bs (rn_scope r)) (Some (rn_id r)) (sealed_submission mf i m)) (c_submission s) \<and> c_receipt t = c_receipt s"
proof -
  have "replay s (sl_command i) (sl_principal i) = Inr None" using assms(2) by (simp add: fresh_command_def replay_None)
  with assms(1) obtain r m mf where "run_at s (sl_scope i) (sl_principal i) (Some RunUpload) = Inr r" "check_active r (sl_now i) = Inr ()"
    "rn_mode r = ReadWrite" "writable_submission s (sl_scope i) (sl_submissionId i) (sl_expectedSubmissionVersion i) (sl_now i) = Inr m"
    "canonicalize_manifest P no_override (sl_manifest i) = Inr mf" "manifest_digest P no_override (manifest_json mf) = Inr (sl_manifestDigest i)"
    "selection_complete (filter is_file (mf_entries mf)) (sl_receipts i)"
    "list_all (entry_selected s (sl_scope i) (sm_id m) (sl_receipts i)) (filter is_file (mf_entries mf))"
    "c_submission t = put_row (sm_id m) (mk_row (of_bs (rn_scope r)) (Some (rn_id r)) (sealed_submission mf i m)) (c_submission s)" "c_receipt t = c_receipt s"
    by (auto simp: seal_submission_def sealed_submission_def sbind_eq_Inr fail_unless_eq_Inr write_submission_def tbl_write_eq_Inr save_command_eq Let_def
        cong: sbind_cong)
  then show ?thesis
    by (intro exI [of _ r] exI [of _ m] exI [of _ mf]) (auto simp: run_at_eq check_active_eq writable_submission_def submission_at_def txn_simps)
qed

text \<open>C14: a submission is sealed exactly with what was uploaded for it. Afterwards its manifest is canonical and has the
  digest that was announced, and the selected receipts correspond one to one to its files: as many, no path and
  no receipt twice, each receipt belonging to this submission and agreeing with its file in path, size and hash.\<close>

theorem sealing_exact:
  assumes "sound s" and "seal_submission P i s = Inr (x, t)" and "fresh_command (sl_command i) s"
  shows "\<exists>m mf. tbl_load (c_submission t) (sl_submissionId i) None = Some m \<and> sm_state m = Sealed \<and> sm_manifest m = Some mf \<and>
    canonicalize_manifest P no_override (sl_manifest i) = Inr mf \<and> manifest_digest P no_override (manifest_json mf) = Inr (sl_manifestDigest i) \<and>
    sm_manifestDigest m = Some (sl_manifestDigest i) \<and> length (sm_receipts m) = length (filter is_file (mf_entries mf)) \<and>
    distinct (map rs_path (sm_receipts m)) \<and> distinct (map rs_receiptId (sm_receipts m)) \<and>
    (\<forall>e \<in> set (mf_entries mf). is_file e \<longrightarrow> (\<exists>q u. q \<in> set (sm_receipts m) \<and> rs_path q = me_path e \<and>
      tbl_load (c_receipt t) (rs_receiptId q) None = Some u \<and> receipt_fits (sl_scope i) (sl_submissionId i) e u))"
proof -
  from sealed_parts [OF assms(2,3)] obtain r :: run and m mf where r: "rn_scope r = rs_binding (sl_scope i)" and m: "get_submission s (sl_scope i) (sl_submissionId i) = Some m"
    and mf: "canonicalize_manifest P no_override (sl_manifest i) = Inr mf" "manifest_digest P no_override (manifest_json mf) = Inr (sl_manifestDigest i)"
    and sel: "selection_complete (filter is_file (mf_entries mf)) (sl_receipts i)"
      "list_all (entry_selected s (sl_scope i) (sm_id m) (sl_receipts i)) (filter is_file (mf_entries mf))"
    and t: "c_submission t = put_row (sm_id m) (mk_row (of_bs (rn_scope r)) (Some (rn_id r)) (sealed_submission mf i m)) (c_submission s)" "c_receipt t = c_receipt s"
    by blast
  from m assms(1) have id: "sm_id m = sl_submissionId i" by (auto simp: get_submission_def sound_def split: option.splits if_splits dest!: owned)
  with t(1) have "tbl_load (c_submission t) (sl_submissionId i) None = Some (sealed_submission mf i m)" by (simp add: matches_def)
  moreover have "\<exists>q u. q \<in> set (sl_receipts i) \<and> rs_path q = me_path e \<and> tbl_load (c_receipt t) (rs_receiptId q) None = Some u \<and>
      receipt_fits (sl_scope i) (sl_submissionId i) e u" if "e \<in> set (mf_entries mf)" "is_file e" for e
  proof -
    from sel(2) that id have "entry_selected s (sl_scope i) (sl_submissionId i) (sl_receipts i) e" by (auto simp: list_all_iff)
    then obtain q u where q: "find (\<lambda>q. rs_path q = me_path e) (sl_receipts i) = Some q"
      and u: "tbl_load (c_receipt s) (rs_receiptId q) (Some (of_rs (sl_scope i))) = Some u" "receipt_fits (sl_scope i) (sl_submissionId i) e u"
      by (auto simp: entry_selected_def split: option.splits)
    from find_member [OF q] tbl_load_unscoped [OF u(1)] u(2) t(2) show ?thesis by auto
  qed
  moreover note mf selection_unique [OF sel(1)]
  ultimately show ?thesis by (intro exI [of _ "sealed_submission mf i m"] exI [of _ mf]) (simp add: sealed_submission_def)
qed

definition x_uploading :: catalog where
  "x_uploading = x_open\<lparr>c_submission := [(''m1'', mk_row (of_ws x_ws) (Some ''r1'') (x_submission\<lparr>sm_state := Uploading, sm_version := 1,
     sm_manifest := None, sm_manifestDigest := None, sm_receipts := [], sm_sealedAt := None\<rparr>))]\<rparr>"

definition in_seal :: seal_input where
  "in_seal = SealInput x_run x_principal (x_command KSubmissionSeal (Some ''w1'') (Some ''r1'') ''6'') ''m1'' 1 (manifest_json (Manifest []))
     (x_digest (Manifest [])) [] ''2026-01-04''"

lemma sound_x_uploading: "sound x_uploading"
  by (simp add: sound_def consistent_def catalog_wf_def migrations_owned_def access_ok_def rows_ok_list record_ok_defs authority_ok_def
    tbl_wf_def row_scope_def live_def intent_ok_def x_uploading_def x_eval)

lemma limits_default: "workspace_limits no_override = Inr default_limits"
  by (simp add: workspace_limits_def no_override_def default_limits_def pick_def safe_integer_def Let_def)

lemma canonical_empty: "canonicalize_manifest P no_override (manifest_json (Manifest [])) = Inr (Manifest [])"
  by (simp add: canonicalize_manifest_def limits_default manifest_json_def exact_keys_def default_limits_def sort_entries_def)

definition x_sealed :: catalog where "x_sealed = after (seal_submission x_platform in_seal x_uploading)"

theorem sealing_exact_witness:
  "\<exists>m. tbl_load (c_submission x_sealed) ''m1'' None = Some m \<and> sm_state m = Sealed \<and> sm_receipts m = []"
proof -
  have d: "manifest_digest x_platform no_override (manifest_json (Manifest [])) = Inr (x_digest (Manifest []))"
    by (simp add: manifest_digest_def canonical_manifest_bytes_def canonical_empty x_digest_def)
  have "\<exists>x. seal_submission x_platform in_seal x_uploading = Inr (x, x_sealed)"
    unfolding x_sealed_def by (rule after_ok) (simp add: seal_submission_def in_seal_def x_uploading_def canonical_empty d writable_submission_def submission_at_def
      get_submission_def selection_complete_def sealed_submission_def x_eval)
  then obtain x where "seal_submission x_platform in_seal x_uploading = Inr (x, x_sealed)" by blast
  from sealing_exact [OF sound_x_uploading this] show ?thesis
    by (force simp: fresh_command_def find_command_def x_uploading_def x_open_def empty_catalog_def in_seal_def canonical_empty)
qed

section \<open>Opening\<close>

text \<open>A run opens on the current head of an active workspace that is not being migrated: it records the head and the
  version it found, starts active with the requested lease, and changes neither the workspace nor any revision.\<close>

theorem opening_snapshots_head:
  assumes "sound s" and "open_run i s = Inr (x, t)" and "fresh_command (or_command i) s"
  shows "\<exists>r. tbl_load (c_run t) (or_runId i) None = Some r \<and> rn_state r = Active \<and> rl_expiresAt (rn_lease r) = or_expiresAt i \<and>
    head_of (or_scope i) s = Some (rn_baseRevisionId r, rn_workspaceVersionAtOpen r) \<and> bs_workspace (rn_scope r) = or_scope i \<and>
    tbl_load (c_run s) (or_runId i) None = None \<and> \<not> migrating s (or_scope i) \<and> c_workspace t = c_workspace s \<and> c_revision t = c_revision s"
proof -
  from assms(2,3) obtain w where w: "tbl_load (c_workspace s) (wsc_workspaceId (or_scope i)) (Some (of_ws (or_scope i))) = Some w"
    "\<not> migrating s (or_scope i)" "writable (c_run s) (or_runId i) (of_ws (or_scope i)) True"
    "c_run t = put_row (or_runId i) (mk_row (of_ws (or_scope i)) (Some (or_runId i)) (opened_run i w)) (c_run s)"
    "c_workspace t = c_workspace s" "c_revision t = c_revision s"
    by (auto simp: open_run_def operation_events_def fresh_command_def replay_def txn_simps Let_def split: option.splits if_splits)
  from w(1) assms(1) have "scope_of w = or_scope i" by (auto simp: sound_def dest!: owned)
  with w show ?thesis by (auto simp: head_of_def opened_run_def matches_def writable_insert)
qed


definition in_open :: open_run_input where
  "in_open = OpenRun x_ws x_principal (x_permission RunOpenWrite (of_ws x_ws)) (x_command KRunOpen (Some ''w1'') None ''5'') ''r2'' ''u2'' ReadWrite
     ''agent'' ''task'' ''reason'' ''2026-01-08'' ''2026-01-03''"

definition x_opened :: catalog where "x_opened = after (open_run in_open x_open)"

theorem opening_snapshots_head_witness: "\<exists>r. tbl_load (c_run x_opened) ''r2'' None = Some r \<and> rn_baseRevisionId r = ''v1''"
proof -
  have "\<exists>x. open_run in_open x_open = Inr (x, x_opened)"
    unfolding x_opened_def by (rule after_ok) (simp add: open_run_def in_open_def opened_run_def open_events_def migrating_def cleanup_used_def x_eval)
  then obtain x where "open_run in_open x_open = Inr (x, x_opened)" by blast
  from opening_snapshots_head [OF sound_x_open this] show ?thesis
    by (auto simp: fresh_command_def find_command_def head_of_def tbl_load_def in_open_def x_open_def x_ws_def empty_catalog_def mk_row_def in_scope_def of_ws_def x_new_workspace_def)
qed

section \<open>From the claim to the publication\<close>

lemma claimed_parts:
  assumes "claim_finalization P c s = Inr (x, t)" and "fresh_command (cf_command c) s" and "fi_mode (cf_intent c) = ReadWrite" and "consistent s"
  shows "\<exists>r. run_at s (cf_scope c) (cf_principal c) None = Inr r \<and> selected c r \<and>
    c_operation t = put_row (cm_operationId (cf_command c)) (mk_row (of_ws (rs_workspace (cf_scope c))) (Some (rn_id r)) (finalize_operation c r)) (c_operation s) \<and>
    c_run t = put_row (rn_id r) (mk_row (of_bs (rn_scope r)) (Some (rn_id r)) (finalizing_run (cm_operationId (cf_command c)) (cf_now c) r)) (c_run s)"
proof -
  have "replay s (cf_command c) (cf_principal c) = Inr None" using assms(2) by (simp add: fresh_command_def replay_None)
  with assms(1,3) obtain r u where r: "run_at s (cf_scope c) (cf_principal c) None = Inr r" and u: "select_sealed P c r s = Inr u"
    and t: "c_operation t = put_row (cm_operationId (cf_command c)) (mk_row (of_ws (rs_workspace (cf_scope c))) (Some (rn_id r)) (finalize_operation c r)) (c_operation u)"
      "c_run t = put_row (rn_id r) (mk_row (of_bs (rn_scope r)) (Some (rn_id r)) (finalizing_run (cm_operationId (cf_command c)) (cf_now c) r)) (c_run u)"
    by (auto simp: claim_finalization_def sbind_eq_Inr fail_unless_eq_Inr write_run_def tbl_write_eq_Inr save_command_eq Let_def finalize_operation_def split: if_splits cong: sbind_cong)
  from r have "wsc_customerId (bs_workspace (rn_scope r)) = rsc_customerId (cf_scope c)" by (auto simp: run_at_eq scope_selectors)
  from postD [OF select_sealed_advances [OF assms(4) this] u] assms(3) r t show ?thesis by auto
qed


section \<open>A whole finalization\<close>

definition y_prepared :: prepared_revision where
  "y_prepared = PreparedRevision ''d2'' ''v2'' (binding_of x_new_workspace) (Some ''v1'') ''op-2'' (x_digest (Manifest [])) (PrivateLocator ''git'' ''o2'') ''2026-01-04''"

definition y_submission :: submission where
  "y_submission = x_submission\<lparr>sm_manifest := Some (Manifest []), sm_manifestDigest := Some (x_digest (Manifest [])), sm_receipts := []\<rparr>"

definition y_ready :: catalog where
  "y_ready = x_open\<lparr>c_submission := [(''m1'', mk_row (of_ws x_ws) (Some ''r1'') y_submission)]\<rparr>"

definition in_claim :: claim_finalization_input where
  "in_claim = ClaimFinalization x_run x_principal (x_permission RunFinalize (of_rs x_run)) (x_command KFinalize (Some ''w1'') (Some ''r1'') ''2'') 1
     (FinalizationIntent 1 KFinalize ReadWrite (JsonRequest ''POST'' ''/v1/runs/r1/finalize'' (FinalizeBody 1 (Some ''m1'')))
       (Some (SealedSelection ''m1'' 2 (x_digest (Manifest [])))) (Some x_candidate)) x_claim ''2026-01-04''"

definition in_prepare :: record_prepared_input where
  "in_prepare = RecordPrepared (ProcessingCAS x_ws ''op-2'' 1 1 ''2026-01-04'') y_prepared"

definition y_accept :: accept_revision_input where
  "y_accept = AcceptRevision (FinalizerPreconditions x_run ''op-2'' 2 2 1 1 (x_permission RunFinalize (of_rs x_run)) (x_event ''2'' (Some ''r1'')) ''2026-01-05'')
     ''v1'' 1 ''m1'' y_prepared"

definition y_claimed :: catalog where "y_claimed = after (claim_finalization x_platform in_claim y_ready)"
definition y_staged :: catalog where "y_staged = after (record_prepared_revision in_prepare y_claimed)"

lemmas y_eval = y_ready_def y_submission_def in_claim_def in_prepare_def y_accept_def y_prepared_def x_candidate_def claim_finalization_def select_sealed_def
  finalize_request_ok_def finalize_operation_def record_prepared_revision_def prepared_digest_def prepared_operation_def safe_integer_def

lemma y_digest: "manifest_digest x_platform no_override (manifest_json (Manifest [])) = Inr (x_digest (Manifest []))"
  by (simp add: manifest_digest_def canonical_manifest_bytes_def canonical_empty x_digest_def)

lemma x_digest_nonempty: "x_digest m \<noteq> []"
  by (simp add: x_digest_def x_platform_def)

lemma sound_y_ready: "sound y_ready"
  by (simp add: sound_def consistent_def catalog_wf_def migrations_owned_def access_ok_def rows_ok_list record_ok_defs authority_ok_def
    tbl_wf_def row_scope_def live_def intent_ok_def y_ready_def y_submission_def x_eval)

lemma y_claim: "\<exists>x. claim_finalization x_platform in_claim y_ready = Inr (x, y_claimed)"
  unfolding y_claimed_def by (rule after_ok) (simp add: y_eval y_digest x_eval)

lemma y_prepare: "\<exists>x. record_prepared_revision in_prepare y_claimed = Inr (x, y_staged)"
  unfolding y_staged_def y_claimed_def after_def by (rule after_ok [unfolded after_def]) (simp add: y_eval y_digest x_digest_nonempty x_eval)


end
