(* ===== verification/Cv_Canonical.thy ===== *)
theory Cv_Canonical
  imports Cv_Manifest "HOL-Library.Multiset"
begin

text \<open>
  Facts of canonical manifests: which raw inputs \<open>canonicalizeManifest\<close> accepts, stated without the order in
  which it scans them (\<open>decode\<close>, \<open>admissible\<close>); from that, that its result does not depend on the order
  of the entries, is a fixed point, and satisfies the limits and the safety of its paths.
\<close>

section \<open>Accepted inputs\<close>

definition valid_limits :: "limits \<Rightarrow> bool" where
  "valid_limits l \<longleftrightarrow> list_all (\<lambda>v. safe_integer v \<and> 0 < v) (limit_values l)"

lemma workspace_limits_valid: "workspace_limits ov = Inr l \<Longrightarrow> valid_limits l"
  by (auto simp: workspace_limits_def valid_limits_def Let_def split: if_splits)

lemma full_override_valid [simp]: "valid_limits l \<Longrightarrow> workspace_limits (full_override l) = Inr l"
  by (cases l) (simp add: workspace_limits_def valid_limits_def pick_def Let_def)

lemma valid_total: "valid_limits l \<Longrightarrow> 0 < lm_maxTotalBytes l \<and> safe_integer (lm_maxTotalBytes l)"
  by (cases l) (simp add: valid_limits_def)

definition portable :: "platform \<Rightarrow> limits \<Rightarrow> string \<Rightarrow> bool" where
  "portable P l p \<longleftrightarrow> validate_portable_path P (full_override l) (JStr p) = Inr p"

definition entry_size :: "manifest_entry \<Rightarrow> int" where
  "entry_size e = (case e of FileEntry _ n _ \<Rightarrow> n | DirectoryEntry _ \<Rightarrow> 0)"

text \<open>The entry a raw value stands for, whatever was scanned before it.\<close>

definition decode :: "platform \<Rightarrow> limits \<Rightarrow> json \<Rightarrow> manifest_entry option" where
  "decode P l raw = (case raw of
     JObj ps \<Rightarrow> (case map_of ps ''path'' of
       Some (JStr p) \<Rightarrow> (if portable P l p then (case check_kind l 0 p ps of Inr (e, _) \<Rightarrow> Some e | Inl _ \<Rightarrow> None) else None)
     | _ \<Rightarrow> None)
   | _ \<Rightarrow> None)"

definition prefix_pairs :: "platform \<Rightarrow> string \<Rightarrow> (string \<times> string) list" where
  "prefix_pairs P path = (let comps = split_on slash path in
     map (\<lambda>i. (pf_portableKey P (prefix_of comps i), prefix_of comps i)) [1..<length comps + 1])"

definition functional :: "('k \<times> 'v) list \<Rightarrow> bool" where
  "functional m \<longleftrightarrow> (\<forall>k p q. (k, p) \<in> set m \<and> (k, q) \<in> set m \<longrightarrow> p = q)"

definition file_paths :: "manifest_entry list \<Rightarrow> string set" where
  "file_paths es = {p. \<exists>n h. FileEntry p n h \<in> set es}"

text \<open>No two spellings of a path collide, nothing lies under a file, and the files fit.\<close>

definition admissible :: "platform \<Rightarrow> limits \<Rightarrow> manifest_entry list \<Rightarrow> bool" where
  "admissible P l es \<longleftrightarrow> distinct (map me_path es) \<and> functional (concat (map (prefix_pairs P \<circ> me_path) es)) \<and>
     sum_list (map entry_size es) \<le> lm_maxTotalBytes l \<and>
     (\<forall>e \<in> set es. \<forall>i \<in> {1..<length (split_on slash (me_path e))}. prefix_of (split_on slash (me_path e)) i \<notin> file_paths es)"

lemma admissible_set:
  assumes "mset es = mset fs"
  shows "admissible P l es \<longleftrightarrow> admissible P l fs"
proof -
  from assms have "set es = set fs" by (metis set_mset_mset)
  moreover from assms have "sum_list (map entry_size es) = sum_list (map entry_size fs)" by (metis mset_map sum_mset_sum_list)
  moreover from assms have "distinct (map me_path es) = distinct (map me_path fs)" by (metis mset_map mset_eq_imp_distinct_iff)
  ultimately show ?thesis by (simp add: admissible_def functional_def file_paths_def)
qed

section \<open>The scan\<close>

lemma validate_JStr: "validate_portable_path P ov v = Inr p \<Longrightarrow> v = JStr p"
  by (cases v) (auto simp: validate_portable_path_def invalid_manifest_def quota_exceeded_def sbind_eq_Inr split: if_splits)

lemma check_kind_entry:
  assumes "check_kind l t p ps = Inr (e, t')"
  shows "me_path e = p \<and> t' = t + entry_size e \<and> 0 \<le> entry_size e \<and> entry_size e \<le> max 0 (lm_maxFileBytes l)"
  using assms
  by (auto simp: check_kind_def check_file_def invalid_manifest_def quota_exceeded_def entry_size_def split: if_splits option.splits json.splits)

lemma check_kind_total:
  assumes "valid_limits l" and "0 \<le> t" and "t \<le> lm_maxTotalBytes l"
  shows "check_kind l t p ps = Inr (e, t') \<longleftrightarrow> check_kind l 0 p ps = Inr (e, entry_size e) \<and> t' = t + entry_size e \<and> t' \<le> lm_maxTotalBytes l"
proof -
  have "safe_integer (t + n)" if "0 \<le> n" "t + n \<le> lm_maxTotalBytes l" for n
    using valid_total [OF assms(1)] assms(2) that by (auto simp: safe_integer_def)
  with assms(2,3) show ?thesis
    by (auto simp: check_kind_def check_file_def invalid_manifest_def quota_exceeded_def entry_size_def split: if_splits option.splits json.splits)
qed

lemma functional_map_of: "functional m \<Longrightarrow> map_of m k = Some q \<longleftrightarrow> (k, q) \<in> set m"
proof
  assume f: "functional m" and m: "(k, q) \<in> set m"
  then obtain r where r: "map_of m k = Some r" using weak_map_of_SomeI by fastforce
  with map_of_SomeD [OF r] f m show "map_of m k = Some q" by (auto simp: functional_def)
qed (rule map_of_SomeD)

lemma functional_Cons: "functional ((k, p) # m) \<longleftrightarrow> functional m \<and> (\<forall>q. (k, q) \<in> set m \<longrightarrow> q = p)"
  unfolding functional_def by auto

lemma claim_prefix_eq:
  assumes "functional m"
  shows "claim_prefix P comps i m = Inr m' \<longleftrightarrow>
    m' = (pf_portableKey P (prefix_of comps i), prefix_of comps i) # m \<and> functional m'"
proof -
  let ?p = "prefix_of comps i" let ?k = "pf_portableKey P (prefix_of comps i)"
  note mem = functional_map_of [OF assms, of ?k]
  show ?thesis
  proof (cases "map_of m ?k")
    case None
    with mem have "functional ((?k, ?p) # m)" using assms unfolding functional_Cons by simp
    with None show ?thesis by (auto simp: claim_prefix_def Let_def)
  next
    case (Some r)
    have "functional ((?k, ?p) # m) \<longleftrightarrow> r = ?p" using assms unfolding functional_Cons mem [symmetric] Some by auto
    with Some show ?thesis by (auto simp: claim_prefix_def Let_def invalid_manifest_def)
  qed
qed

lemma functional_append: "functional (xs @ ys) \<Longrightarrow> functional xs" "functional (xs @ ys) \<Longrightarrow> functional ys"
  unfolding functional_def set_append by blast+

lemma claim_prefixes_eq:
  "functional m \<Longrightarrow> each (claim_prefix P comps) is m = Inr m' \<longleftrightarrow>
     m' = map (\<lambda>i. (pf_portableKey P (prefix_of comps i), prefix_of comps i)) (rev is) @ m \<and> functional m'"
proof (induction "is" arbitrary: m)
  case (Cons i js)
  let ?p = "(pf_portableKey P (prefix_of comps i), prefix_of comps i)"
  have sub: "functional (?p # m)" if "functional (xs @ ?p # m)" for xs 
    using that unfolding functional_def set_append by blast
  show ?case
  proof (cases "functional (?p # m)")
    case True
    then have one: "claim_prefix P comps i m = Inr (?p # m)" by (simp only: claim_prefix_eq [OF Cons.prems])
    show ?thesis unfolding each.simps one sbind_Inr Cons.IH [OF True] rev.simps map_append list.map append.simps append_assoc ..
  next
    case False
    then have none: "claim_prefix P comps i m \<noteq> Inr k" for k unfolding claim_prefix_eq [OF Cons.prems] by metis
    have "each (claim_prefix P comps) (i # js) m \<noteq> Inr m'" unfolding each.simps sbind_eq_Inr using none by blast
    moreover from False sub have "\<not> functional (map (\<lambda>i. (pf_portableKey P (prefix_of comps i), prefix_of comps i)) (rev js) @ ?p # m)" by blast
    then have "\<not> (m' = map (\<lambda>i. (pf_portableKey P (prefix_of comps i), prefix_of comps i)) (rev (i # js)) @ m \<and> functional m')" by auto
    ultimately show ?thesis by blast
  qed
qed auto

definition scanned :: "scan \<Rightarrow> platform \<Rightarrow> manifest_entry list \<Rightarrow> scan" where
  "scanned st P es = \<lparr>sn_paths = rev (map (\<lambda>e. (me_path e, e)) es) @ sn_paths st,
     sn_prefixes = rev (concat (map (prefix_pairs P \<circ> me_path) es)) @ sn_prefixes st,
     sn_total = sn_total st + sum_list (map entry_size es), sn_entries = sn_entries st @ es\<rparr>"

definition scan_ok :: "limits \<Rightarrow> scan \<Rightarrow> bool" where
  "scan_ok l st \<longleftrightarrow> functional (sn_prefixes st) \<and> 0 \<le> sn_total st \<and> sn_total st \<le> lm_maxTotalBytes l \<and> distinct (map fst (sn_paths st))"

lemma decode_eq:
  "decode P l raw = Some e \<longleftrightarrow> (\<exists>ps p. raw = JObj ps \<and> map_of ps ''path'' = Some (JStr p) \<and> portable P l p \<and> check_kind l 0 p ps = Inr (e, entry_size e))"
  by (auto simp: decode_def split: json.splits option.splits sum.splits dest: check_kind_entry)

lemma scan_entry_eq:
  assumes "valid_limits l" and "scan_ok l st"
  shows "scan_entry P l raw st = Inr st' \<longleftrightarrow> (\<exists>e. decode P l raw = Some e \<and> st' = scanned st P [e] \<and> scan_ok l st')"
proof -
  have total: "0 \<le> sn_total st" "sn_total st \<le> lm_maxTotalBytes l" and f: "functional (sn_prefixes st)" using assms(2) by (auto simp: scan_ok_def)
  have fresh: "map_of (sn_paths st) p = None \<longleftrightarrow> p \<notin> fst ` set (sn_paths st)" for p by (simp add: map_of_eq_None_iff)
  show ?thesis
  proof
    assume s: "scan_entry P l raw st = Inr st'"
    then obtain ps where raw: "raw = JObj ps" by (cases raw) (auto simp: scan_entry_def invalid_manifest_def)
    from s obtain path m e tot where v: "validate_portable_path P (full_override l) (case map_of ps ''path'' of Some v \<Rightarrow> v | None \<Rightarrow> JOther) = Inr path"
      and n: "map_of (sn_paths st) path = None" and c: "each (claim_prefix P (split_on slash path)) [1..<length (split_on slash path) + 1] (sn_prefixes st) = Inr m"
      and k: "check_kind l (sn_total st) path ps = Inr (e, tot)"
      and st': "st' = \<lparr>sn_paths = (path, e) # sn_paths st, sn_prefixes = m, sn_total = tot, sn_entries = sn_entries st @ [e]\<rparr>"
      by (auto simp: scan_entry_def raw sbind_eq_Inr Let_def require_def split: if_splits)
    from validate_JStr [OF v] v have p: "map_of ps ''path'' = Some (JStr path)" "portable P l path" by (auto simp: portable_def split: option.splits)
    from k check_kind_total [OF assms(1) total] have k': "check_kind l 0 path ps = Inr (e, entry_size e)" "tot = sn_total st + entry_size e" "tot \<le> lm_maxTotalBytes l" by auto
    from check_kind_entry [OF k'(1)] have e: "me_path e = path" "0 \<le> entry_size e" by auto
    from c claim_prefixes_eq [OF f] have m: "m = rev (prefix_pairs P path) @ sn_prefixes st" "functional m" by (auto simp: prefix_pairs_def Let_def rev_map)
    with raw p k' e n st' fresh assms(2) show "\<exists>e. decode P l raw = Some e \<and> st' = scanned st P [e] \<and> scan_ok l st'"
      by (intro exI [of _ e]) (auto simp: decode_eq scanned_def scan_ok_def)
  next
    assume "\<exists>e. decode P l raw = Some e \<and> st' = scanned st P [e] \<and> scan_ok l st'"
    then obtain e ps p where raw: "raw = JObj ps" and p: "map_of ps ''path'' = Some (JStr p)" "portable P l p" and k: "check_kind l 0 p ps = Inr (e, entry_size e)"
      and st': "st' = scanned st P [e]" and ok: "scan_ok l st'" by (auto simp: decode_eq)
    from check_kind_entry [OF k] have e: "me_path e = p" by simp
    with ok st' fresh have n: "map_of (sn_paths st) p = None" by (auto simp: scan_ok_def scanned_def)
    from ok st' e have "functional (rev (prefix_pairs P p) @ sn_prefixes st)" by (simp add: scan_ok_def scanned_def)
    with claim_prefixes_eq [OF f] have c: "each (claim_prefix P (split_on slash p)) [1..<length (split_on slash p) + 1] (sn_prefixes st) = Inr (rev (prefix_pairs P p) @ sn_prefixes st)"
      by (simp add: prefix_pairs_def Let_def rev_map)
    from check_kind_total [OF assms(1) total] k ok st' have "check_kind l (sn_total st) p ps = Inr (e, sn_total st + entry_size e)"
      by (simp add: scan_ok_def scanned_def)
    with raw p n c st' e show "scan_entry P l raw st = Inr st'"
      by (simp add: scan_entry_def portable_def scanned_def Let_def require_def)
  qed
qed

lemma scan_eq:
  assumes "valid_limits l"
  shows "scan_ok l st \<Longrightarrow> each (scan_entry P l) raws st = Inr st' \<longleftrightarrow>
    (\<exists>es. map (decode P l) raws = map Some es \<and> st' = scanned st P es \<and> scan_ok l st')"
proof (induction raws arbitrary: st)
  case Nil
  then show ?case by (auto simp: scanned_def)
next
  case (Cons raw raws)
  have step: "scanned (scanned st P [e]) P es = scanned st P (e # es)" for e es by (simp add: scanned_def)
  have ok: "scan_ok l (scanned st P [e])"
    if "scan_ok l (scanned st P (e # es))" "map (decode P l) raws = map Some es" "decode P l raw = Some e" for e es
  proof -
    have pos: "0 \<le> entry_size f" if "decode P l r = Some f" for r f using that by (auto simp: decode_eq dest: check_kind_entry)
    have "\<forall>f \<in> set es. 0 \<le> entry_size f"
    proof
      fix f assume "f \<in> set es"
      then have "Some f \<in> set (map (decode P l) raws)" unfolding that(2) by simp
      then show "0 \<le> entry_size f" using pos by auto
    qed
    then have "0 \<le> sum_list (map entry_size es)" by (induction es) auto
    with that(1) Cons.prems pos [OF that(3)] show ?thesis
      using functional_append(2) [of "rev (concat (map (prefix_pairs P \<circ> me_path) es))" "rev (prefix_pairs P (me_path e)) @ sn_prefixes st"]
      by (simp add: scan_ok_def scanned_def)
  qed
  have "each (scan_entry P l) (raw # raws) st = Inr st' \<longleftrightarrow> (\<exists>e. decode P l raw = Some e \<and> scan_ok l (scanned st P [e]) \<and> each (scan_entry P l) raws (scanned st P [e]) = Inr st')"
    using scan_entry_eq [OF assms Cons.prems] by (auto simp: sbind_eq_Inr)
  also have "\<dots> \<longleftrightarrow> (\<exists>e es. decode P l raw = Some e \<and> scan_ok l (scanned st P [e]) \<and> map (decode P l) raws = map Some es \<and> st' = scanned st P (e # es) \<and> scan_ok l st')"
    using Cons.IH step by metis
  also have "\<dots> \<longleftrightarrow> (\<exists>es. map (decode P l) (raw # raws) = map Some es \<and> st' = scanned st P es \<and> scan_ok l st')"
    using ok by (auto simp: map_eq_Cons_conv Cons_eq_map_conv)
  finally show ?case .
qed

section \<open>Canonical manifests\<close>

definition empty_scan :: scan where
  "empty_scan = \<lparr>sn_paths = [], sn_prefixes = [], sn_total = 0, sn_entries = []\<rparr>"

definition raw_manifest :: "json list \<Rightarrow> json" where
  "raw_manifest raws = JObj [(''schemaVersion'', JInt 1), (''entries'', JArr raws)]"

lemma sort_entries_key: "sort_entries es = sort_key me_path es"
proof -
  have "insert_entry e fs = insort_key me_path e fs" for e fs by (induction fs) auto
  then have "insert_entry = insort_key me_path" by (intro ext)
  then show ?thesis by (simp add: sort_entries_def sort_key_def)
qed

lemma functional_set: "set xs = set ys \<Longrightarrow> functional xs = functional ys"
  unfolding functional_def by simp

lemma scan_ok_scanned:
  assumes "0 < lm_maxTotalBytes l" and "\<forall>e \<in> set es. 0 \<le> entry_size e"
  shows "scan_ok l (scanned empty_scan P es) \<longleftrightarrow> distinct (map me_path es) \<and> functional (concat (map (prefix_pairs P \<circ> me_path) es)) \<and>
     sum_list (map entry_size es) \<le> lm_maxTotalBytes l"
proof -
  have "functional (rev xs) = functional xs" for xs :: "(string \<times> string) list" by (rule functional_set) simp
  moreover have "0 \<le> sum_list (map entry_size es)" using assms(2) by (induction es) auto
  moreover have "map fst (map (\<lambda>e. (me_path e, e)) es) = map me_path es" by simp
  then have "distinct (map fst (rev (map (\<lambda>e. (me_path e, e)) es))) = distinct (map me_path es)" by (simp add: rev_map [symmetric] comp_def)
  ultimately show ?thesis
    by (auto simp: scan_ok_def scanned_def empty_scan_def simp del: map_map)
qed

lemma under_file_scanned:
  assumes "distinct (map me_path es)"
  shows "list_ex (under_file (sn_paths (scanned empty_scan P es))) es \<longleftrightarrow>
    \<not> (\<forall>e \<in> set es. \<forall>i \<in> {1..<length (split_on slash (me_path e))}. prefix_of (split_on slash (me_path e)) i \<notin> file_paths es)"
proof -
  let ?m = "rev (map (\<lambda>e. (me_path e, e)) es)"
  have d: "distinct (map fst ?m)" using assms by (simp add: rev_map [symmetric] comp_def)
  have mem: "map_of ?m p = Some e \<longleftrightarrow> e \<in> set es \<and> me_path e = p" for p e
    using map_of_eq_Some_iff [OF d] by auto
  have isf: "(case map_of ?m p of None \<Rightarrow> False | Some (FileEntry _ _ _) \<Rightarrow> True | Some (DirectoryEntry _) \<Rightarrow> False) \<longleftrightarrow> p \<in> file_paths es" for p
  proof -
    have "p \<in> file_paths es \<longleftrightarrow> (\<exists>q n h. map_of ?m p = Some (FileEntry q n h))" unfolding mem by (auto simp: file_paths_def)
    then show ?thesis by (simp split: option.split manifest_entry.split)
  qed
  have paths: "sn_paths (scanned empty_scan P es) = ?m" by (simp add: scanned_def empty_scan_def)
  have "under_file ?m e \<longleftrightarrow> (\<exists>i \<in> {1..<length (split_on slash (me_path e))}. prefix_of (split_on slash (me_path e)) i \<in> file_paths es)" for e
    unfolding under_file_def Let_def isf by (simp add: list_ex_iff)
  then show ?thesis unfolding paths by (simp add: list_ex_iff)
qed

lemma decoded_sizes: "map (decode P l) raws = map Some es \<Longrightarrow> e \<in> set es \<Longrightarrow> \<exists>raw \<in> set raws. decode P l raw = Some e"
proof -
  assume m: "map (decode P l) raws = map Some es" and "e \<in> set es"
  then have "Some e \<in> set (map (decode P l) raws)" unfolding m by simp
  then show ?thesis by auto
qed

lemma decode_size: "decode P l raw = Some e \<Longrightarrow> 0 \<le> entry_size e \<and> entry_size e \<le> max 0 (lm_maxFileBytes l)"
  by (auto simp: decode_eq dest: check_kind_entry)

text \<open>Which inputs are accepted, and what they become.\<close>

lemma canonicalize_raw:
  "canonicalize_manifest P ov (raw_manifest raws) = Inr m \<longleftrightarrow> (\<exists>l es. workspace_limits ov = Inr l \<and> int (length raws) \<le> lm_maxEntries l \<and>
     map (decode P l) raws = map Some es \<and> admissible P l es \<and> m = Manifest (sort_key me_path es))"
proof -
  have exact: "exact_keys [(''schemaVersion'', JInt 1), (''entries'', JArr raws)] [''schemaVersion'', ''entries'']" by (simp add: exact_keys_def)
  have body: "(\<exists>st. each (scan_entry P l) raws empty_scan = Inr st \<and> \<not> list_ex (under_file (sn_paths st)) (sn_entries st) \<and> m = Manifest (sort_entries (sn_entries st))) \<longleftrightarrow>
      (\<exists>es. map (decode P l) raws = map Some es \<and> admissible P l es \<and> m = Manifest (sort_key me_path es))" if l: "valid_limits l" for l
  proof -
    have start: "scan_ok l empty_scan" using valid_total [OF l] by (simp add: scan_ok_def empty_scan_def functional_def)
    have entries: "sn_entries (scanned empty_scan P es) = es" for es by (simp add: scanned_def empty_scan_def)
    have adm: "scan_ok l (scanned empty_scan P es) \<and> \<not> list_ex (under_file (sn_paths (scanned empty_scan P es))) es \<longleftrightarrow> admissible P l es"
      if "map (decode P l) raws = map Some es" for es
    proof -
      have "\<forall>e \<in> set es. 0 \<le> entry_size e" using decoded_sizes [OF that] decode_size by blast
      from scan_ok_scanned [OF _ this] valid_total [OF l] under_file_scanned show ?thesis unfolding admissible_def by blast
    qed
    show ?thesis unfolding scan_eq [OF l start] sort_entries_key using adm entries by metis
  qed
  have "canonicalize_manifest P ov (raw_manifest raws) = Inr m \<longleftrightarrow> (\<exists>l. workspace_limits ov = Inr l \<and> int (length raws) \<le> lm_maxEntries l \<and>
      (\<exists>st. each (scan_entry P l) raws empty_scan = Inr st \<and> \<not> list_ex (under_file (sn_paths st)) (sn_entries st) \<and> m = Manifest (sort_entries (sn_entries st))))"
    using exact
    by (cases "workspace_limits ov"; cases "each (scan_entry P (projr (workspace_limits ov))) raws empty_scan")
      (auto simp: canonicalize_manifest_def raw_manifest_def quota_exceeded_def invalid_manifest_def empty_scan_def)
  also have "\<dots> \<longleftrightarrow> (\<exists>l es. workspace_limits ov = Inr l \<and> int (length raws) \<le> lm_maxEntries l \<and>
     map (decode P l) raws = map Some es \<and> admissible P l es \<and> m = Manifest (sort_key me_path es))"
    using body [OF workspace_limits_valid] by metis
  finally show ?thesis .
qed

lemma map_Some_iff: "map f xs = map Some es \<longleftrightarrow> (\<forall>x \<in> set xs. f x \<noteq> None) \<and> es = map (the \<circ> f) xs"
proof (induction xs arbitrary: es)
  case (Cons x xs)
  show ?case by (cases es) (auto simp: Cons.IH)
qed auto

lemma canonicalize_shape:
  assumes "canonicalize_manifest P ov j = Inr m"
  shows "\<exists>raws. canonicalize_manifest P ov (raw_manifest raws) = Inr m"
proof -
  have exact: "exact_keys [(''schemaVersion'', JInt 1), (''entries'', JArr raws)] [''schemaVersion'', ''entries'']" for raws by (simp add: exact_keys_def)
  from assms obtain l ps where l: "workspace_limits ov = Inr l" and j: "j = JObj ps"
    by (cases j) (auto simp: canonicalize_manifest_def invalid_manifest_def sbind_eq_Inr)
  from assms l j obtain raws where "map_of ps ''schemaVersion'' = Some (JInt 1)" "map_of ps ''entries'' = Some (JArr raws)"
    "exact_keys ps [''schemaVersion'', ''entries'']"
    by (auto simp: canonicalize_manifest_def invalid_manifest_def split: option.splits json.splits if_splits)
  with assms l j exact have "canonicalize_manifest P ov (raw_manifest raws) = Inr m"
    by (simp add: canonicalize_manifest_def raw_manifest_def)
  then show ?thesis ..
qed

lemma canonicalize_entries:
  assumes "canonicalize_manifest P ov j = Inr m"
  shows "\<exists>l es raws. workspace_limits ov = Inr l \<and> int (length es) \<le> lm_maxEntries l \<and> map (decode P l) raws = map Some es \<and>
    admissible P l es \<and> m = Manifest (sort_key me_path es)"
proof -
  from canonicalize_shape [OF assms] obtain raws where "canonicalize_manifest P ov (raw_manifest raws) = Inr m" ..
  then obtain l es where "workspace_limits ov = Inr l" "int (length raws) \<le> lm_maxEntries l" "map (decode P l) raws = map Some es" "admissible P l es"
    "m = Manifest (sort_key me_path es)" unfolding canonicalize_raw by blast
  moreover from this(3) have "length raws = length es" by (metis length_map)
  ultimately show ?thesis by auto
qed

lemma decode_entry_json: "decode P l raw = Some e \<Longrightarrow> decode P l (entry_json e) = Some e"
  by (cases e) (auto simp: decode_eq check_kind_def check_file_def exact_keys_def invalid_manifest_def quota_exceeded_def entry_size_def
      split: if_splits option.splits json.splits)

lemma manifest_json_raw: "manifest_json (Manifest es) = raw_manifest (map entry_json es)"
  by (simp add: manifest_json_def raw_manifest_def)

section \<open>Properties of canonical manifests\<close>

definition sample_platform :: platform where
  "sample_platform = Platform (\<lambda>t. replicate 64 (if length t < 40 then CHR ''0'' else CHR ''1'')) (\<lambda>t. t) (\<lambda>t. t) (\<lambda>_. True)"

lemma sample_manifest:
  "canonicalize_manifest sample_platform no_override (raw_manifest [entry_json (DirectoryEntry ''b''), entry_json (DirectoryEntry ''a'')]) =
     Inr (Manifest [DirectoryEntry ''a'', DirectoryEntry ''b''])"
  by code_simp

text \<open>C27: the canonical form, and with it the bytes that are hashed, does not depend on the order in which a client
  lists the entries of a manifest: any permutation of an accepted list is accepted with the same result.\<close>

theorem canonical_order_free:
  assumes "canonicalize_manifest P ov (raw_manifest raws) = Inr m" and "mset raws' = mset raws"
  shows "canonicalize_manifest P ov (raw_manifest raws') = Inr m \<and> manifest_digest P ov (raw_manifest raws') = manifest_digest P ov (raw_manifest raws)"
proof -
  from assms(1) obtain l es where l: "workspace_limits ov = Inr l" "int (length raws) \<le> lm_maxEntries l"
    and es: "map (decode P l) raws = map Some es" and a: "admissible P l es" and m: "m = Manifest (sort_key me_path es)"
    unfolding canonicalize_raw by blast
  let ?fs = "map (the \<circ> decode P l) raws'"
  from assms(2) have same: "set raws' = set raws" "length raws' = length raws" by (metis set_mset_mset, metis size_mset)
  from es have e: "\<forall>r \<in> set raws. decode P l r \<noteq> None" "es = map (the \<circ> decode P l) raws" by (auto simp: map_Some_iff)
  then have fs: "map (decode P l) raws' = map Some ?fs" unfolding map_Some_iff same by simp
  have ms: "mset ?fs = mset es" unfolding e(2) by (simp only: mset_map assms(2))
  have "sort_key me_path ?fs = sort_key me_path es"
  proof (rule sort_key_inj_key_eq)
    show "mset ?fs = mset (sort_key me_path es)" using ms by simp
    from a have "inj_on me_path (set es)" by (simp add: admissible_def distinct_map)
    then show "inj_on me_path (set ?fs)" using ms by (metis set_mset_mset)
  qed simp
  then have "canonicalize_manifest P ov (raw_manifest raws') = Inr m"
    unfolding canonicalize_raw using l same(2) fs a m admissible_set [OF ms] by metis
  with assms(1) show ?thesis by (simp add: manifest_digest_def canonical_manifest_bytes_def)
qed

theorem canonical_order_free_witness:
  "canonicalize_manifest sample_platform no_override (raw_manifest [entry_json (DirectoryEntry ''a''), entry_json (DirectoryEntry ''b'')]) =
     Inr (Manifest [DirectoryEntry ''a'', DirectoryEntry ''b''])"
  using canonical_order_free [OF sample_manifest, of "[entry_json (DirectoryEntry ''a''), entry_json (DirectoryEntry ''b'')]"] by simp

text \<open>C28: canonicalization is a round trip through JSON: the canonical manifest, written out and read again, is accepted
  as it is and canonicalizes to itself, so its digest can be recomputed from what is stored.\<close>

theorem canonical_fixed_point:
  assumes "canonicalize_manifest P ov j = Inr m"
  shows "canonicalize_manifest P ov (manifest_json m) = Inr m \<and> manifest_digest P ov (manifest_json m) = manifest_digest P ov j"
proof -
  from canonicalize_entries [OF assms] obtain l es raws where l: "workspace_limits ov = Inr l" "int (length es) \<le> lm_maxEntries l"
    and d: "map (decode P l) raws = map Some es" and a: "admissible P l es" and m: "m = Manifest (sort_key me_path es)" by blast
  have "decode P l (entry_json e) = Some e" if "e \<in> set es" for e
    using decoded_sizes [OF d that] decode_entry_json by blast
  then have "map (decode P l) (map entry_json (sort_key me_path es)) = map Some (sort_key me_path es)" by simp
  moreover have "admissible P l (sort_key me_path es)" using a admissible_set [of es "sort_key me_path es"] by simp
  moreover have "sort_key me_path (sort_key me_path es) = sort_key me_path es" by (rule sort_key_id_if_sorted) simp
  ultimately have "canonicalize_manifest P ov (manifest_json m) = Inr m"
    using l unfolding m manifest_json_raw canonicalize_raw by (metis length_map length_sort)
  with assms show ?thesis by (simp add: manifest_digest_def canonical_manifest_bytes_def)
qed

theorem canonical_fixed_point_witness:
  "canonicalize_manifest sample_platform no_override (manifest_json (Manifest [DirectoryEntry ''a'', DirectoryEntry ''b''])) =
     Inr (Manifest [DirectoryEntry ''a'', DirectoryEntry ''b''])"
  using canonical_fixed_point [OF sample_manifest] by simp

definition safe_component :: "string \<Rightarrow> bool" where
  "safe_component c \<longleftrightarrow> c \<noteq> [] \<and> c \<noteq> ''.'' \<and> c \<noteq> ''..'' \<and> slash \<notin> set c \<and> CHR 0x5C \<notin> set c \<and> char_of (0 :: nat) \<notin> set c"

lemma each_unit: "each f xs () = Inr () \<longleftrightarrow> (\<forall>x \<in> set xs. f x () = Inr ())"
  by (induction xs) (auto simp: sbind_eq_Inr)

lemma split_on_chars: "c \<in> set (split_on d s) \<Longrightarrow> set c \<subseteq> set s - {d}"
proof (induction s arbitrary: c)
  case (Cons x xs)
  obtain w ws where "split_on d xs = w # ws" using split_on_nonempty [of d xs] by (cases "split_on d xs") auto
  moreover from Cons.IH [of w] this have "set w \<subseteq> set xs - {d}" by simp
  ultimately show ?case using Cons.prems Cons.IH by (fastforce split: if_splits)
qed simp

lemma portable_components:
  assumes "portable P l p" and "c \<in> set (split_on slash p)"
  shows "safe_component c"
proof -
  from assms(1) have n: "\<not> list_ex nonportable_char p" and e: "\<forall>c \<in> set (split_on slash p). \<exists>l'. check_component P l' c () = Inr ()"
    by (auto simp: portable_def validate_portable_path_def invalid_manifest_def quota_exceeded_def sbind_eq_Inr each_unit split: if_splits)
  from e assms(2) have u: "\<not> unsafe_component c" by (auto simp: check_component_def invalid_manifest_def split: if_splits)
  from split_on_chars [OF assms(2)] n have "slash \<notin> set c" "\<forall>x \<in> set c. \<not> nonportable_char x" by (auto simp: list_ex_iff)
  moreover have "nonportable_char (CHR 0x5C)" "nonportable_char (char_of (0 :: nat))" by (simp_all add: nonportable_char_def)
  ultimately show ?thesis using u by (auto simp: safe_component_def unsafe_component_def)
qed

text \<open>C29: an accepted manifest is safe to write to disk and bounded: its entries are sorted by path without repetition,
  every component of every path is a plain name (never empty, a dot or two dots, without a slash, a backslash or
  a NUL), no entry lies under a file, no two spellings collide in one portable key, and the number of entries,
  each file and the total are within the limits.\<close>

theorem canonical_manifest_safe:
  assumes "canonicalize_manifest P ov j = Inr (Manifest es)"
  shows "\<exists>l. workspace_limits ov = Inr l \<and> sorted (map me_path es) \<and> distinct (map me_path es) \<and> int (length es) \<le> lm_maxEntries l \<and>
    (\<forall>e \<in> set es. list_all safe_component (split_on slash (me_path e)) \<and> 0 \<le> entry_size e \<and> entry_size e \<le> lm_maxFileBytes l) \<and>
    sum_list (map entry_size es) \<le> lm_maxTotalBytes l \<and> admissible P l es"
proof -
  from canonicalize_entries [OF assms] obtain l fs raws where l: "workspace_limits ov = Inr l" "int (length fs) \<le> lm_maxEntries l"
    and d: "map (decode P l) raws = map Some fs" and a: "admissible P l fs" and es: "es = sort_key me_path fs" by auto
  have "mset es = mset fs" by (simp add: es)
  with a admissible_set have ad: "admissible P l es" by blast
  have "0 < lm_maxFileBytes l" using workspace_limits_valid [OF l(1)] by (cases l) (simp add: valid_limits_def)
  moreover have "portable P l (me_path e) \<and> 0 \<le> entry_size e \<and> entry_size e \<le> max 0 (lm_maxFileBytes l)" if "e \<in> set es" for e
  proof -
    from that have "e \<in> set fs" by (simp add: es)
    from decoded_sizes [OF d this] obtain raw where raw: "decode P l raw = Some e" by blast
    then show ?thesis using decode_size [OF raw] check_kind_entry by (fastforce simp: decode_eq)
  qed
  ultimately show ?thesis using l ad portable_components
    by (intro exI [of _ l]) (fastforce simp: es admissible_def list_all_iff)
qed

theorem canonical_manifest_safe_witness: "sorted [''a'', ''b''] \<and> safe_component ''a''"
  using canonical_manifest_safe [OF sample_manifest] by (auto simp: slash_def)

end
