(* ===== verification/Cv_Streams.thy ===== *)
theory Cv_Streams
  imports Cv_Manifest "HOL-Library.Sublist"
begin

text \<open>
  \<open>src/application/files/streams.ts\<close>: the limiter that bounds how many streams are consumed at
  once, as a state machine over the calls of \<open>acquire\<close>, and \<open>persistByteStream\<close>, which writes a
  stream to a file under the workspace limits. The file handle is the environment: \<open>io n k\<close> is how
  many of the \<open>k\<close> bytes offered by the \<open>n\<close>-th write it accepted, \<open>stop n\<close> whether the abort signal
  was raised at the \<open>n\<close>-th check.
\<close>

section \<open>The stream limiter\<close>

text \<open>
  A call of \<open>acquire\<close> is idle before it runs, waits in the queue, is ready once its promise was
  resolved (its continuation has still to run), granted once it returned its \<open>release\<close>, and
  released or rejected at the end.
\<close>

datatype call_state = Idle | Waiting | Ready | Granted | Released | Rejected

record limiter =
  sl_maximum :: int
  sl_active :: int
  sl_waiting :: "nat list"
  sl_calls :: "nat \<Rightarrow> call_state"

definition new_limiter :: "int \<Rightarrow> limiter" where
  "new_limiter m = \<lparr>sl_maximum = m, sl_active = 0, sl_waiting = [], sl_calls = (\<lambda>_. Idle)\<rparr>"

definition set_call :: "nat \<Rightarrow> call_state \<Rightarrow> limiter \<Rightarrow> limiter" where
  "set_call i c l = l\<lparr>sl_calls := (sl_calls l)(i := c)\<rparr>"

definition hand_over :: "limiter \<Rightarrow> limiter" where
  "hand_over l = (case sl_waiting l of
     [] \<Rightarrow> l\<lparr>sl_active := sl_active l - 1\<rparr>
   | n # ns \<Rightarrow> set_call n Ready (l\<lparr>sl_waiting := ns\<rparr>))"

definition acquire :: "nat \<Rightarrow> bool \<Rightarrow> limiter \<Rightarrow> limiter" where
  "acquire i aborted l =
     (if sl_calls l i \<noteq> Idle then l
      else if aborted then set_call i Rejected l
      else if sl_active l \<ge> sl_maximum l then set_call i Waiting (l\<lparr>sl_waiting := sl_waiting l @ [i]\<rparr>)
      else set_call i Granted (l\<lparr>sl_active := sl_active l + 1\<rparr>))"

definition abort_waiting :: "nat \<Rightarrow> limiter \<Rightarrow> limiter" where
  "abort_waiting i l =
     (if sl_calls l i = Waiting then set_call i Rejected (l\<lparr>sl_waiting := remove1 i (sl_waiting l)\<rparr>) else l)"

definition resume :: "nat \<Rightarrow> bool \<Rightarrow> limiter \<Rightarrow> limiter" where
  "resume i aborted l =
     (if sl_calls l i \<noteq> Ready then l
      else if aborted then hand_over (set_call i Rejected l) else set_call i Granted l)"

definition release :: "nat \<Rightarrow> limiter \<Rightarrow> limiter" where
  "release i l = (if sl_calls l i = Granted then hand_over (set_call i Released l) else l)"

inductive limiter_step :: "limiter \<Rightarrow> limiter \<Rightarrow> bool" where
  step_acquire: "limiter_step l (acquire i b l)"
| step_abort: "limiter_step l (abort_waiting i l)"
| step_resume: "limiter_step l (resume i b l)"
| step_release: "limiter_step l (release i l)"

definition holders :: "limiter \<Rightarrow> nat set" where
  "holders l = {i. sl_calls l i \<in> {Ready, Granted}}"

definition limiter_ok :: "limiter \<Rightarrow> bool" where
  "limiter_ok l \<longleftrightarrow> finite (holders l) \<and> int (card (holders l)) = sl_active l \<and> distinct (sl_waiting l) \<and>
     set (sl_waiting l) = {i. sl_calls l i = Waiting} \<and> sl_active l \<le> sl_maximum l \<and>
     (sl_waiting l \<noteq> [] \<longrightarrow> sl_active l = sl_maximum l)"

lemma holders_set_call:
  "holders (set_call i c l) = (if c \<in> {Ready, Granted} then insert i (holders l) else holders l - {i})"
  by (auto simp: holders_def set_call_def)

lemma set_call_simps [simp]:
  "sl_maximum (set_call i c l) = sl_maximum l" "sl_active (set_call i c l) = sl_active l"
  "sl_waiting (set_call i c l) = sl_waiting l"
  "sl_calls (set_call i c l) = (sl_calls l)(i := c)"
  by (simp_all add: set_call_def)

lemma holders_update [simp]:
  "holders (l\<lparr>sl_active := a\<rparr>) = holders l" "holders (l\<lparr>sl_waiting := w\<rparr>) = holders l"
  by (simp_all add: holders_def)

lemma limiter_ok_new: "0 \<le> m \<Longrightarrow> limiter_ok (new_limiter m)"
  by (simp add: limiter_ok_def new_limiter_def holders_def)

lemma holder_iff: "i \<in> holders l \<longleftrightarrow> sl_calls l i = Ready \<or> sl_calls l i = Granted"
  by (simp add: holders_def)

lemma card_drop_holder:
  "limiter_ok l \<Longrightarrow> i \<in> holders l \<Longrightarrow> int (card (holders l - {i})) = sl_active l - 1"
  using card.remove [of "holders l" i] by (auto simp: limiter_ok_def)

text \<open>Giving a permit back: the permit of a holder that stops holding goes to the first waiter.\<close>

lemma limiter_ok_hand_over:
  assumes ok: "limiter_ok l" and i: "i \<in> holders l" and c: "c \<in> {Rejected, Released}"
  shows "limiter_ok (hand_over (set_call i c l))"
proof (cases "sl_waiting l")
  case Nil
  then show ?thesis
    using ok i c card_drop_holder [OF ok i]
    by (auto simp: hand_over_def limiter_ok_def holders_set_call holder_iff)
next
  case (Cons n ns)
  have n: "sl_calls l n = Waiting" and ns: "n \<notin> set ns" "distinct ns"
    using ok Cons by (auto simp: limiter_ok_def)
  then have nh: "n \<notin> holders l - {i}" using i by (auto simp: holder_iff)
  have W: "set ns = {j. sl_calls l j = Waiting} - {n}"
    using ok Cons ns by (auto simp: limiter_ok_def)
  have fin: "finite (holders l)" using ok by (simp add: limiter_ok_def)
  then have card: "int (card (insert n (holders l - {i}))) = sl_active l"
    using nh card_drop_holder [OF ok i] by simp
  let ?l = "hand_over (set_call i c l)"
  have H: "holders ?l = insert n (holders l - {i})"
    using Cons c by (auto simp: hand_over_def holders_set_call)
  moreover have "{j. sl_calls ?l j = Waiting} = {j. sl_calls l j = Waiting} - {n}"
    using Cons c i by (auto simp: hand_over_def holder_iff)
  moreover have "sl_active ?l = sl_active l" "sl_maximum ?l = sl_maximum l" "sl_waiting ?l = ns"
    using Cons by (simp_all add: hand_over_def)
  ultimately show ?thesis
    using card ok Cons ns(2) W fin by (simp add: limiter_ok_def)
qed

lemma limiter_ok_acquire: "limiter_ok l \<Longrightarrow> limiter_ok (acquire i b l)"
  by (auto simp: acquire_def limiter_ok_def holders_set_call holder_iff)

lemma holders_not_waiting: "sl_calls l i = Waiting \<Longrightarrow> holders l - {i} = holders l"
  by (auto simp: holder_iff)

lemma limiter_ok_abort: "limiter_ok l \<Longrightarrow> limiter_ok (abort_waiting i l)"
  by (cases "sl_calls l i = Waiting")
    (auto simp: abort_waiting_def limiter_ok_def holders_set_call holders_not_waiting)

lemma limiter_ok_resume: "limiter_ok l \<Longrightarrow> limiter_ok (resume i b l)"
  using limiter_ok_hand_over [of l i Rejected]
  by (auto simp: resume_def holder_iff)
    (auto simp: limiter_ok_def holders_set_call holder_iff insert_absorb)

lemma limiter_ok_release: "limiter_ok l \<Longrightarrow> limiter_ok (release i l)"
  using limiter_ok_hand_over [of l i Released] by (auto simp: release_def holder_iff)

lemma limiter_step_ok: "limiter_step l l' \<Longrightarrow> limiter_ok l \<Longrightarrow> limiter_ok l'"
  by (induction rule: limiter_step.induct)
    (simp_all add: limiter_ok_acquire limiter_ok_abort limiter_ok_resume limiter_ok_release)

lemma hand_over_maximum [simp]: "sl_maximum (hand_over l) = sl_maximum l"
  by (simp add: hand_over_def split: list.split)

lemma limiter_step_maximum: "limiter_step l l' \<Longrightarrow> sl_maximum l' = sl_maximum l"
  by (induction rule: limiter_step.induct)
    (simp_all add: acquire_def abort_waiting_def resume_def release_def)

lemma limiter_run:
  assumes "limiter_step\<^sup>*\<^sup>* (new_limiter m) l" and "0 \<le> m"
  shows "limiter_ok l \<and> sl_maximum l = m"
  using assms(1)
  by (induction rule: rtranclp_induct)
    (use assms(2) limiter_ok_new in \<open>auto simp: new_limiter_def limiter_step_ok limiter_step_maximum\<close>)

section \<open>Persisting a byte stream\<close>

record persist =
  ps_checks :: nat
  ps_writes :: nat
  ps_file :: string
  ps_seen :: string
  ps_length :: int
  ps_synced :: bool

type_synonym 'a persisting = "persist \<Rightarrow> persist \<times> (failure + 'a)"

definition st_bind :: "'a persisting \<Rightarrow> ('a \<Rightarrow> 'b persisting) \<Rightarrow> 'b persisting" where
  "st_bind m f s = (case m s of (s', Inl e) \<Rightarrow> (s', Inl e) | (s', Inr a) \<Rightarrow> f a s')"

definition st_unless :: "bool \<Rightarrow> error_code \<Rightarrow> unit persisting" where
  "st_unless b code s = (s, if b then Inr () else Inl (Fail code))"

fun st_each :: "('a \<Rightarrow> unit persisting) \<Rightarrow> 'a list \<Rightarrow> unit persisting" where
  "st_each f [] s = (s, Inr ())"
| "st_each f (x # xs) s = st_bind (f x) (\<lambda>_. st_each f xs) s"

definition check_abort :: "(nat \<Rightarrow> bool) \<Rightarrow> unit persisting" where
  "check_abort stop s = (s\<lparr>ps_checks := ps_checks s + 1\<rparr>, if stop (ps_checks s) then Inl Crash else Inr ())"

function write_chunk :: "(nat \<Rightarrow> nat \<Rightarrow> nat) \<Rightarrow> string \<Rightarrow> unit persisting" where
  "write_chunk io chunk s =
     (if chunk = [] then (s, Inr ())
      else let k = io (ps_writes s) (length chunk); s' = s\<lparr>ps_writes := ps_writes s + 1, ps_file := ps_file s @ take k chunk\<rparr> in
        if k = 0 then (s', Inl (Fail STORAGE_UNAVAILABLE)) else write_chunk io (drop k chunk) s')"
  by pat_completeness auto
termination by (relation "measure (\<lambda>(_, chunk, _). length chunk)") auto

declare write_chunk.simps [simp del]

definition persist_piece :: "(nat \<Rightarrow> nat \<Rightarrow> nat) \<Rightarrow> (nat \<Rightarrow> bool) \<Rightarrow> string \<Rightarrow> unit persisting" where
  "persist_piece io stop c = st_bind (check_abort stop) (\<lambda>_ s. write_chunk io c (s\<lparr>ps_seen := ps_seen s @ c\<rparr>))"

definition persist_incoming :: "(nat \<Rightarrow> nat \<Rightarrow> nat) \<Rightarrow> (nat \<Rightarrow> bool) \<Rightarrow> limits \<Rightarrow> int option \<Rightarrow> string \<Rightarrow> unit persisting" where
  "persist_incoming io stop l expected c =
     st_bind (check_abort stop) (\<lambda>_ s0.
     let n = ps_length s0 + int (length c); s = s0\<lparr>ps_length := n\<rparr> in
     st_bind (st_unless (safe_integer n \<and> n \<le> lm_maxFileBytes l \<and> n \<le> lm_maxTotalBytes l) QUOTA_EXCEEDED) (\<lambda>_.
     st_bind (st_unless (case expected of None \<Rightarrow> True | Some e \<Rightarrow> n \<le> e) RECEIPT_MISMATCH) (\<lambda>_.
     st_each (persist_piece io stop) (pieces (nat (lm_maxChunkBytes l)) c))) s)"

definition new_persist :: "string \<Rightarrow> persist" where
  "new_persist f = \<lparr>ps_checks = 0, ps_writes = 0, ps_file = f, ps_seen = [], ps_length = 0, ps_synced = False\<rparr>"

definition finish_persist :: "platform \<Rightarrow> string \<Rightarrow> int option \<Rightarrow> (int \<times> string) persisting" where
  "finish_persist P sha expected s =
     st_bind (st_unless ((case expected of None \<Rightarrow> True | Some e \<Rightarrow> e = ps_length s) \<and> sha = pf_sha256 P (ps_seen s)) RECEIPT_MISMATCH)
       (\<lambda>_ s. (s\<lparr>ps_synced := True\<rparr>, Inr (ps_length s, pf_sha256 P (ps_seen s)))) s"

definition persist_byte_stream :: "platform \<Rightarrow> (nat \<Rightarrow> nat \<Rightarrow> nat) \<Rightarrow> (nat \<Rightarrow> bool) \<Rightarrow> limits_override \<Rightarrow> string \<Rightarrow> int option \<Rightarrow> string list \<Rightarrow> (int \<times> string) persisting" where
  "persist_byte_stream P io stop ov sha expected source s = (case workspace_limits ov of
     Inl e \<Rightarrow> (s, Inl e)
   | Inr l \<Rightarrow>
     st_bind (st_unless (sha256_text sha) INVALID_MANIFEST) (\<lambda>_.
     st_bind (st_unless (case expected of None \<Rightarrow> True | Some e \<Rightarrow> safe_integer e \<and> 0 \<le> e) INVALID_MANIFEST) (\<lambda>_.
     st_bind (st_unless (case expected of None \<Rightarrow> True | Some e \<Rightarrow> e \<le> lm_maxFileBytes l) QUOTA_EXCEEDED) (\<lambda>_.
     st_bind (check_abort stop) (\<lambda>_.
     st_bind (st_each (persist_incoming io stop l expected) source) (\<lambda>_.
     st_bind (check_abort stop) (\<lambda>_. finish_persist P sha expected)))))) s)"

subsection \<open>What reaches the file\<close>

text \<open>
  \<open>wrote s xs m\<close>: whatever happens, \<open>m\<close> appends a prefix of \<open>xs\<close> to the file it finds in \<open>s\<close>, and
  all of it when it succeeds.
\<close>

definition wrote :: "persist \<Rightarrow> string \<Rightarrow> persist \<times> (failure + unit) \<Rightarrow> bool" where
  "wrote s xs o' \<longleftrightarrow> (\<exists>w. prefix w xs \<and> ps_file (fst o') = ps_file s @ w \<and> ps_length (fst o') = ps_length s \<and>
     (snd o' = Inr () \<longrightarrow> w = xs))"

lemma wrote_prefixD: "wrote s xs o' \<Longrightarrow> \<exists>w. prefix w xs \<and> ps_file (fst o') = ps_file s @ w"
  by (auto simp: wrote_def)

lemma write_chunk_wrote:
  "wrote s c (write_chunk io c s) \<and> ps_seen (fst (write_chunk io c s)) = ps_seen s"
proof (induction io c s rule: write_chunk.induct)
  case (1 io c s)
  show ?case
  proof (cases "c = []")
    case True
    then show ?thesis by (simp add: write_chunk.simps wrote_def)
  next
    case False
    define k where "k = io (ps_writes s) (length c)"
    define s1 where "s1 = s\<lparr>ps_writes := ps_writes s + 1, ps_file := ps_file s @ take k c\<rparr>"
    have step: "write_chunk io c s = (if k = 0 then (s1, Inl (Fail STORAGE_UNAVAILABLE)) else write_chunk io (drop k c) s1)"
      using False by (subst write_chunk.simps) (simp add: k_def s1_def Let_def)
    show ?thesis
    proof (cases "k = 0")
      case True
      then show ?thesis using step by (simp add: wrote_def s1_def)
    next
      case k: False
      have IH: "wrote s1 (drop k c) (write_chunk io (drop k c) s1) \<and> ps_seen (fst (write_chunk io (drop k c) s1)) = ps_seen s1"
        using 1 False k by (simp add: k_def s1_def)
      then obtain w where w: "prefix w (drop k c)" "ps_file (fst (write_chunk io (drop k c) s1)) = ps_file s1 @ w"
        "ps_length (fst (write_chunk io (drop k c) s1)) = ps_length s1"
        "snd (write_chunk io (drop k c) s1) = Inr () \<longrightarrow> w = drop k c"
        by (auto simp: wrote_def)
      have "prefix (take k c @ w) (take k c @ drop k c)" using w(1) by (simp only: same_prefix_prefix)
      then have "prefix (take k c @ w) c" by simp
      then show ?thesis using w IH k step
        by (auto simp: wrote_def s1_def intro!: exI [of _ "take k c @ w"])
    qed
  qed
qed

lemma st_bind_cases:
  assumes "st_bind m f s = (s', r)"
  obtains (error) e where "m s = (s', Inl e)" "r = Inl e" | (ok) a s1 where "m s = (s1, Inr a)" "f a s1 = (s', r)"
  using assms by (auto simp: st_bind_def split: prod.splits sum.splits)

lemma persist_piece_wrote:
  "wrote s c (persist_piece io stop c s) \<and>
     (snd (persist_piece io stop c s) = Inr () \<longrightarrow> ps_seen (fst (persist_piece io stop c s)) = ps_seen s @ c)"
  using write_chunk_wrote [of "s\<lparr>ps_checks := ps_checks s + 1, ps_seen := ps_seen s @ c\<rparr>" c io]
  by (auto simp: persist_piece_def st_bind_def check_abort_def wrote_def)

lemma st_each_wrote:
  "wrote s (concat cs) (st_each (persist_piece io stop) cs s) \<and>
     (snd (st_each (persist_piece io stop) cs s) = Inr () \<longrightarrow>
        ps_seen (fst (st_each (persist_piece io stop) cs s)) = ps_seen s @ concat cs)"
proof (induction cs arbitrary: s)
  case Nil
  then show ?case by (simp add: wrote_def)
next
  case (Cons c cs)
  obtain s1 r where p: "persist_piece io stop c s = (s1, r)" by fastforce
  show ?case
  proof (cases r)
    case (Inl e)
    then show ?thesis using persist_piece_wrote [of s c io stop] p
      by (auto simp: wrote_def st_bind_def intro: prefix_order.trans)
  next
    case (Inr u)
    then have u: "r = Inr ()" by simp
    have 1: "ps_file s1 = ps_file s @ c" "ps_length s1 = ps_length s" "ps_seen s1 = ps_seen s @ c"
      using persist_piece_wrote [of s c io stop] p u by (auto simp: wrote_def)
    obtain s2 q where e: "st_each (persist_piece io stop) cs s1 = (s2, q)" by fastforce
    obtain w where "prefix w (concat cs)" "ps_file s2 = ps_file s1 @ w" "ps_length s2 = ps_length s1"
      "q = Inr () \<longrightarrow> w = concat cs" "q = Inr () \<longrightarrow> ps_seen s2 = ps_seen s1 @ concat cs"
      using Cons.IH [of s1] e by (auto simp: wrote_def)
    then show ?thesis using 1 p u e by (auto simp: wrote_def st_bind_def intro!: exI [of _ "c @ w"])
  qed
qed

lemma concat_pieces: "0 < n \<Longrightarrow> concat (pieces n xs) = xs"
proof (induction n xs rule: pieces.induct)
  case (1 n xs)
  then show ?case by (subst pieces.simps) simp
qed

text \<open>The loop over the incoming chunks: the bytes taken so far and the limit on the file.\<close>

definition taken :: "string \<Rightarrow> string \<Rightarrow> persist \<Rightarrow> bool" where
  "taken f d s \<longleftrightarrow> ps_file s = f @ d \<and> ps_seen s = d \<and> ps_length s = int (length d)"

definition file_bound :: "string \<Rightarrow> string \<Rightarrow> limits \<Rightarrow> persist \<Rightarrow> bool" where
  "file_bound f xs l s \<longleftrightarrow> (\<exists>w. prefix w xs \<and> ps_file s = f @ w \<and> int (length w) \<le> lm_maxFileBytes l)"

lemma persist_incoming_step:
  assumes "taken f d s" and "int (length d) \<le> lm_maxFileBytes l" and "0 < lm_maxChunkBytes l"
    and "persist_incoming io stop l ex c s = (s', r)"
  shows "file_bound f (d @ c) l s'"
    and "r = Inr () \<Longrightarrow> taken f (d @ c) s' \<and> int (length (d @ c)) \<le> lm_maxFileBytes l \<and>
           (\<forall>e. ex = Some e \<longrightarrow> int (length (d @ c)) \<le> e)"
proof -
  let ?n = "ps_length s + int (length c)"
  let ?s = "s\<lparr>ps_checks := ps_checks s + 1, ps_length := ?n\<rparr>"
  let ?m = "st_each (persist_piece io stop) (pieces (nat (lm_maxChunkBytes l)) c) ?s"
  have w: "wrote ?s c ?m" "snd ?m = Inr () \<longrightarrow> ps_seen (fst ?m) = d @ c"
    using st_each_wrote [of ?s "pieces (nat (lm_maxChunkBytes l)) c" io stop] assms(1,3)
    by (auto simp: concat_pieces taken_def)
  have d: "ps_file s = f @ d" "ps_seen s = d" "ps_length s = int (length d)" using assms(1) by (auto simp: taken_def)
  have keep: "file_bound f (d @ c) l s'" if "ps_file s' = f @ d" for s'
    using that assms(2) unfolding file_bound_def by (intro exI [of _ d]) simp
  show "file_bound f (d @ c) l s'"
  proof (cases "?m = (s', r) \<and> ?n \<le> lm_maxFileBytes l")
    case True
    then obtain v where v: "prefix v c" "ps_file s' = f @ d @ v" using w(1) d by (auto simp: wrote_def)
    have "int (length (d @ v)) \<le> lm_maxFileBytes l"
      using True v(1) d(3) prefix_length_le [OF v(1)] by simp
    then show ?thesis using v unfolding file_bound_def by (intro exI [of _ "d @ v"]) simp
  next
    case False
    then have "ps_file s' = f @ d"
      using assms(4) d by (auto simp: persist_incoming_def st_bind_def check_abort_def st_unless_def Let_def split: if_splits option.splits)
    then show ?thesis by (rule keep)
  qed
  assume r: "r = Inr ()"
  then have m: "?m = (s', Inr ())" and b: "?n \<le> lm_maxFileBytes l" "\<forall>e. ex = Some e \<longrightarrow> ?n \<le> e"
    using assms(4) by (auto simp: persist_incoming_def st_bind_def check_abort_def st_unless_def Let_def split: if_splits option.splits)
  then show "taken f (d @ c) s' \<and> int (length (d @ c)) \<le> lm_maxFileBytes l \<and> (\<forall>e. ex = Some e \<longrightarrow> int (length (d @ c)) \<le> e)"
    using w d by (auto simp: wrote_def taken_def)
qed

lemma file_bound_more: "file_bound f xs l s \<Longrightarrow> file_bound f (xs @ ys) l s"
  by (auto simp: file_bound_def intro: prefix_order.trans)

lemma file_bound_taken: "taken f d s \<Longrightarrow> int (length d) \<le> lm_maxFileBytes l \<Longrightarrow> file_bound f (d @ ys) l s"
  unfolding file_bound_def taken_def by (intro exI [of _ d]) simp

lemma persist_loop:
  assumes "taken f d s" and "int (length d) \<le> lm_maxFileBytes l" and "0 < lm_maxChunkBytes l"
    and "st_each (persist_incoming io stop l ex) cs s = (s', r)"
  shows "file_bound f (d @ concat cs) l s' \<and>
     (r = Inr () \<longrightarrow> taken f (d @ concat cs) s' \<and> int (length (d @ concat cs)) \<le> lm_maxFileBytes l)"
  using assms(1,2,4)
proof (induction cs arbitrary: d s)
  case Nil
  then show ?case using file_bound_taken [of f d s l "[]"] by auto
next
  case (Cons c cs)
  from Cons.prems(3) have "st_bind (persist_incoming io stop l ex c) (\<lambda>_. st_each (persist_incoming io stop l ex) cs) s = (s', r)"
    by simp
  then show ?case
  proof (cases rule: st_bind_cases)
    case (error e)
    then show ?thesis
      using file_bound_more [OF persist_incoming_step(1) [OF Cons.prems(1,2) assms(3) error(1)], of "concat cs"] by simp
  next
    case (ok u s1)
    then have "persist_incoming io stop l ex c s = (s1, Inr ())" by simp
    note 1 = persist_incoming_step(2) [OF Cons.prems(1,2) assms(3) this refl]
    show ?thesis using Cons.IH [of "d @ c" s1] 1 ok(2) by simp
  qed
qed

lemma workspace_limits_positive:
  "workspace_limits ov = Inr l \<Longrightarrow> 0 < lm_maxFileBytes l \<and> 0 < lm_maxChunkBytes l \<and> 0 < lm_maxConcurrentStreams l"
  by (cases l) (auto simp: workspace_limits_def Let_def split: if_splits)

lemma persist_phases:
  assumes "persist_byte_stream P io stop ov sha ex source (new_persist f) = (s', r)"
  obtains (limits) e where "workspace_limits ov = Inl e" "s' = new_persist f" "r = Inl e"
  | (early) l e where "workspace_limits ov = Inr l" "ps_file s' = f" "r = Inl e"
  | (loop) l q s1 where "workspace_limits ov = Inr l" "sha256_text sha" "st_each (persist_incoming io stop l ex) source
        (new_persist f\<lparr>ps_checks := 1\<rparr>) = (s1, q)" "ps_file s' = ps_file s1"
      "\<And>n h. r = Inr (n, h) \<Longrightarrow> q = Inr () \<and> n = ps_length s1 \<and> h = pf_sha256 P (ps_seen s1) \<and> h = sha \<and>
         (\<forall>e. ex = Some e \<longrightarrow> n = e) \<and> ps_synced s'"
proof (cases "workspace_limits ov")
  case (Inl e)
  then show ?thesis using assms limits by (simp add: persist_byte_stream_def)
next
  case (Inr l)
  obtain s1 q where q: "st_each (persist_incoming io stop l ex) source (new_persist f\<lparr>ps_checks := 1\<rparr>) = (s1, q)"
    by fastforce
  have st: "new_persist f\<lparr>ps_checks := Suc (ps_checks (new_persist f))\<rparr> = new_persist f\<lparr>ps_checks := 1\<rparr>"
    by (simp add: new_persist_def)
  show ?thesis
  proof (cases "(\<exists>e. r = Inl e) \<and> ps_file s' = f")
    case True
    then show ?thesis using early [OF Inr] by blast
  next
    case False
    have "sha256_text sha" "ps_file s' = ps_file s1"
      "\<And>n h. r = Inr (n, h) \<Longrightarrow> q = Inr () \<and> n = ps_length s1 \<and> h = pf_sha256 P (ps_seen s1) \<and> h = sha \<and>
         (\<forall>e. ex = Some e \<longrightarrow> n = e) \<and> ps_synced s'"
      using assms Inr q False
      by (auto simp: persist_byte_stream_def st_bind_def st_unless_def check_abort_def finish_persist_def st new_persist_def
          split: if_splits sum.splits option.splits)
    then show ?thesis using loop [OF Inr _ q] by blast
  qed
qed

lemma taken_new: "taken f [] (new_persist f\<lparr>ps_checks := n\<rparr>)"
  by (simp add: taken_def new_persist_def)

end
