(* ===== verification/Cv_Locks.thy ===== *)
theory Cv_Locks
  imports Cv_Errors
begin

text \<open>
  \<open>src/services/lock.service.ts\<close>: the workspace locks of the compatibility services. The table
  \<open>locks\<close> is the list of its rows in insertion order, \<open>audit_events\<close> the list of the events logged.
  The clock and the \<open>ulid\<close> generator are arguments: \<open>now\<close> is \<open>new Date().toISOString()\<close>, \<open>until\<close> the
  time \<open>ttlMs\<close> later, \<open>i\<close> the fresh id. Every operation runs to its end or throws; a throw keeps what
  was written before it, so the state is returned either way. The primary key and the foreign keys
  of the table are the checks of \<open>insert_lock\<close>.
\<close>

datatype lock_type = ExclusiveLock | SharedLock

record lock =
  lk_id :: id
  lk_workspaceId :: id
  lk_lockType :: lock_type
  lk_ownerRunId :: id
  lk_acquiredAt :: timestamp
  lk_expiresAt :: timestamp
  lk_lastHeartbeatAt :: timestamp

datatype lock_event = LockAcquired id id id lock_type | LockReleased id id id

datatype lock_error = AlreadyLocked id | ExclusiveHeld id | LockNotFound | LockConstraint

record lock_state =
  lks_workspaces :: "id list"
  lks_runs :: "id list"
  lks_locks :: "lock list"
  lks_audit :: "lock_event list"

definition expire_stale :: "timestamp \<Rightarrow> lock_state \<Rightarrow> lock_state" where
  "expire_stale now s = s\<lparr>lks_locks := filter (\<lambda>k. \<not> lk_expiresAt k < now) (lks_locks s)\<rparr>"

definition workspace_locks :: "id \<Rightarrow> lock_state \<Rightarrow> lock list" where
  "workspace_locks w s = filter (\<lambda>k. lk_workspaceId k = w) (lks_locks s)"

definition exclusive :: "lock \<Rightarrow> bool" where
  "exclusive k \<longleftrightarrow> lk_lockType k = ExclusiveLock"

definition lock_refused :: "lock_type \<Rightarrow> lock list \<Rightarrow> lock_error option" where
  "lock_refused ty existing = (case existing of
     [] \<Rightarrow> None
   | k # _ \<Rightarrow> (case ty of
       ExclusiveLock \<Rightarrow> Some (AlreadyLocked (lk_ownerRunId k))
     | SharedLock \<Rightarrow> map_option (\<lambda>x. ExclusiveHeld (lk_ownerRunId x)) (find exclusive existing)))"

definition insert_lock :: "lock \<Rightarrow> lock_state \<Rightarrow> lock_error + lock_state" where
  "insert_lock k s = (if lk_id k \<in> lk_id ` set (lks_locks s) \<or> lk_workspaceId k \<notin> set (lks_workspaces s) \<or>
       lk_ownerRunId k \<notin> set (lks_runs s) then Inl LockConstraint
     else Inr (s\<lparr>lks_locks := lks_locks s @ [k]\<rparr>))"

definition log_lock :: "lock_event \<Rightarrow> lock_state \<Rightarrow> lock_state" where
  "log_lock e s = s\<lparr>lks_audit := lks_audit s @ [e]\<rparr>"

definition acquire_lock :: "id \<Rightarrow> id \<Rightarrow> lock_type \<Rightarrow> id \<Rightarrow> timestamp \<Rightarrow> timestamp \<Rightarrow> lock_state \<Rightarrow> lock_state \<times> (lock_error + lock)" where
  "acquire_lock w r ty i now until s = (let s1 = expire_stale now s in
     case lock_refused ty (workspace_locks w s1) of
       Some e \<Rightarrow> (s1, Inl e)
     | None \<Rightarrow> (let k = \<lparr>lk_id = i, lk_workspaceId = w, lk_lockType = ty, lk_ownerRunId = r, lk_acquiredAt = now,
           lk_expiresAt = until, lk_lastHeartbeatAt = now\<rparr> in
         case insert_lock k s1 of
           Inl e \<Rightarrow> (s1, Inl e)
         | Inr s2 \<Rightarrow> (log_lock (LockAcquired w r i ty) s2, Inr k)))"

definition find_lock :: "id \<Rightarrow> lock_state \<Rightarrow> lock option" where
  "find_lock i s = find (\<lambda>k. lk_id k = i) (lks_locks s)"

definition release_lock :: "id \<Rightarrow> lock_state \<Rightarrow> lock_state" where
  "release_lock i s = (case find_lock i s of
     None \<Rightarrow> s
   | Some k \<Rightarrow> log_lock (LockReleased (lk_workspaceId k) (lk_ownerRunId k) i)
       (s\<lparr>lks_locks := filter (\<lambda>x. lk_id x \<noteq> i) (lks_locks s)\<rparr>))"

definition release_locks_for_run :: "id \<Rightarrow> lock_state \<Rightarrow> lock_state" where
  "release_locks_for_run r s = fold (\<lambda>k. release_lock (lk_id k)) (filter (\<lambda>k. lk_ownerRunId k = r) (lks_locks s)) s"

definition heartbeat_lock :: "id \<Rightarrow> timestamp \<Rightarrow> timestamp \<Rightarrow> lock_state \<Rightarrow> lock_state \<times> (lock_error + lock)" where
  "heartbeat_lock i now until s = (case find_lock i s of
     None \<Rightarrow> (s, Inl LockNotFound)
   | Some k \<Rightarrow> (let beat = (\<lambda>x. x\<lparr>lk_lastHeartbeatAt := now, lk_expiresAt := until\<rparr>) in
       (s\<lparr>lks_locks := map (\<lambda>x. if lk_id x = i then beat x else x) (lks_locks s)\<rparr>, Inr (beat k))))"

definition get_workspace_lock :: "id \<Rightarrow> timestamp \<Rightarrow> lock_state \<Rightarrow> lock_state \<times> lock option" where
  "get_workspace_lock w now s = (let s1 = expire_stale now s in
     (s1, case workspace_locks w s1 of [] \<Rightarrow> None | k # _ \<Rightarrow> Some k))"

definition run_holds_lock :: "id \<Rightarrow> id \<Rightarrow> timestamp \<Rightarrow> lock_state \<Rightarrow> lock_state \<times> bool" where
  "run_holds_lock w r now s = (let s1 = expire_stale now s in
     (s1, list_ex (\<lambda>k. lk_ownerRunId k = r) (workspace_locks w s1)))"

inductive lock_step :: "lock_state \<Rightarrow> lock_state \<Rightarrow> bool" where
  lk_acquire: "lock_step s (fst (acquire_lock w r ty i now until s))"
| lk_release: "lock_step s (release_lock i s)"
| lk_release_run: "lock_step s (release_locks_for_run r s)"
| lk_heartbeat: "lock_step s (fst (heartbeat_lock i now until s))"
| lk_get: "lock_step s (fst (get_workspace_lock w now s))"
| lk_holds: "lock_step s (fst (run_holds_lock w r now s))"

text \<open>
  Mutual exclusion: a workspace whose locks include an exclusive one has no other, whether or not
  it has expired; ids are unique.
\<close>

definition locks_ok :: "lock list \<Rightarrow> bool" where
  "locks_ok ks \<longleftrightarrow> distinct (map lk_id ks) \<and>
     (\<forall>k \<in> set ks. \<forall>x \<in> set ks. lk_workspaceId k = lk_workspaceId x \<longrightarrow> exclusive k \<longrightarrow> x = k)"

lemma locks_ok_filter: "locks_ok ks \<Longrightarrow> locks_ok (filter p ks)"
  by (auto simp: locks_ok_def distinct_map_filter)

lemma lock_refused_None:
  "lock_refused ty ks = None \<longleftrightarrow> ks = [] \<or> ty = SharedLock \<and> list_all (\<lambda>k. \<not> exclusive k) ks"
  by (cases ks; cases ty) (auto simp: lock_refused_def find_None_iff list_all_iff)

lemma locks_ok_append:
  assumes "locks_ok ks" and "lk_id k \<notin> lk_id ` set ks"
    and "\<And>x. x \<in> set ks \<Longrightarrow> lk_workspaceId x = lk_workspaceId k \<Longrightarrow> \<not> exclusive x \<and> \<not> exclusive k"
  shows "locks_ok (ks @ [k])"
  using assms unfolding locks_ok_def by (auto dest: sym)

lemma locks_ok_acquire:
  assumes "locks_ok (lks_locks s)"
  shows "locks_ok (lks_locks (fst (acquire_lock w r ty i now until s)))"
proof -
  let ?ks = "filter (\<lambda>k. \<not> lk_expiresAt k < now) (lks_locks s)"
  have ks: "locks_ok ?ks" using assms by (rule locks_ok_filter)
  have "locks_ok (?ks @ [k])"
    if "lock_refused ty (filter (\<lambda>x. lk_workspaceId x = lk_workspaceId k) ?ks) = None" "lk_lockType k = ty"
      "lk_id k \<notin> lk_id ` set ?ks" for k
    using that(1,2) by (intro locks_ok_append [OF ks that(3)])
      (auto simp: lock_refused_None exclusive_def list_all_iff filter_empty_conv)
  then show ?thesis using ks
    by (auto simp: acquire_lock_def Let_def expire_stale_def workspace_locks_def insert_lock_def log_lock_def
        split: option.split sum.split)
qed

lemma release_lock_locks: "lks_locks (release_lock i s) = filter (\<lambda>x. lk_id x \<noteq> i) (lks_locks s)"
proof (cases "find_lock i s")
  case None
  then have "\<forall>x \<in> set (lks_locks s). lk_id x \<noteq> i" by (auto simp: find_lock_def find_None_iff)
  then show ?thesis using None by (simp add: release_lock_def)
qed (simp add: release_lock_def log_lock_def)

lemma fold_release_locks:
  "lks_locks (fold (\<lambda>k. release_lock (lk_id k)) ks s) = filter (\<lambda>x. lk_id x \<notin> lk_id ` set ks) (lks_locks s)"
  by (induction ks arbitrary: s) (auto simp: release_lock_locks intro: filter_cong)

lemma release_run_locks:
  assumes "locks_ok (lks_locks s)"
  shows "lks_locks (release_locks_for_run r s) = filter (\<lambda>x. lk_ownerRunId x \<noteq> r) (lks_locks s)"
  using assms
  by (auto simp: release_locks_for_run_def fold_release_locks locks_ok_def distinct_map inj_on_def intro!: filter_cong)

lemma locks_ok_map:
  assumes "locks_ok ks" and "\<And>k. lk_id (f k) = lk_id k \<and> lk_workspaceId (f k) = lk_workspaceId k \<and> lk_lockType (f k) = lk_lockType k"
  shows "locks_ok (map f ks)"
proof -
  have f: "lk_id (f k) = lk_id k" "lk_workspaceId (f k) = lk_workspaceId k" "exclusive (f k) = exclusive k" for k
    using assms(2) by (simp_all add: exclusive_def)
  have "map lk_id (map f ks) = map lk_id ks" by (simp add: f)
  moreover have "f x = f k" if "k \<in> set ks" "x \<in> set ks" "lk_workspaceId k = lk_workspaceId x" "exclusive k" for k x
    using that assms(1) unfolding locks_ok_def by blast
  ultimately show ?thesis using assms(1) unfolding locks_ok_def by (simp only: f ball_simps set_map) blast
qed

lemma locks_ok_heartbeat: "locks_ok (lks_locks s) \<Longrightarrow> locks_ok (lks_locks (fst (heartbeat_lock i now until s)))"
  by (auto simp: heartbeat_lock_def Let_def intro!: locks_ok_map split: option.split)

lemma locks_ok_step: "lock_step s t \<Longrightarrow> locks_ok (lks_locks s) \<Longrightarrow> locks_ok (lks_locks t)"
  by (induction rule: lock_step.induct)
    (simp_all add: locks_ok_acquire release_lock_locks release_run_locks locks_ok_heartbeat locks_ok_filter
      get_workspace_lock_def run_holds_lock_def Let_def expire_stale_def)

lemma locks_ok_run: "lock_step\<^sup>*\<^sup>* s t \<Longrightarrow> locks_ok (lks_locks s) \<Longrightarrow> locks_ok (lks_locks t)"
  by (induction rule: rtranclp_induct) (simp_all add: locks_ok_step)

end
