(* ===== verification/Cv_Files.thy ===== *)
theory Cv_Files
  imports Cv_Canonical Cv_Streams Cv_Locks
begin

text \<open>
  What the stream limiter, \<open>persistByteStream\<close>, \<open>verifyFileStream\<close> and the workspace locks guarantee:
  the permits of the limiter are conserved and handed over in order, a byte stream reaches the file
  exactly or as a bounded prefix, a verified stream yields exactly the bytes the manifest names, and
  an exclusive lock excludes every other lock of its workspace.
\<close>

section \<open>The limiter\<close>

text \<open>Permits are conserved: after any sequence of acquisitions, aborts, resumptions and releases of a limiter
  with maximum m, the permits in use are exactly the calls that hold one and never more than m, the queue holds
  exactly the waiting calls, each once, and a call waits only while every permit is in use.\<close>

theorem limiter_permits_conserved:
  assumes "limiter_step\<^sup>*\<^sup>* (new_limiter m) l" and "0 \<le> m"
  shows "finite (holders l) \<and> int (card (holders l)) = sl_active l \<and> sl_active l \<le> m \<and> distinct (sl_waiting l) \<and>
    set (sl_waiting l) = {i. sl_calls l i = Waiting} \<and> (sl_waiting l \<noteq> [] \<longrightarrow> int (card (holders l)) = m)"
  using limiter_run [OF assms] by (simp add: limiter_ok_def)

text \<open>A run with one permit: the first call holds it, the second waits.\<close>

definition busy_limiter :: limiter where
  "busy_limiter = acquire 1 False (acquire 0 False (new_limiter 1))"

lemma busy_limiter_run: "limiter_step\<^sup>*\<^sup>* (new_limiter 1) busy_limiter"
  unfolding busy_limiter_def
  by (meson limiter_step.step_acquire rtranclp.rtrancl_refl rtranclp.rtrancl_into_rtrancl)

lemma busy_limiter_eval:
  "sl_waiting busy_limiter = [1]" "sl_active busy_limiter = 1" "sl_calls busy_limiter 0 = Granted" "sl_calls busy_limiter 1 = Waiting"
  by (simp_all add: busy_limiter_def acquire_def new_limiter_def)

theorem limiter_permits_conserved_witness: "int (card (holders busy_limiter)) = 1 \<and> sl_waiting busy_limiter = [1]"
  using limiter_permits_conserved [OF busy_limiter_run] by (simp add: busy_limiter_eval)

lemma hand_over_first:
  "sl_waiting l = n # ns \<Longrightarrow> sl_calls (hand_over l) n = Ready \<and> sl_waiting (hand_over l) = ns \<and> sl_active (hand_over l) = sl_active l"
  by (simp add: hand_over_def)

text \<open>C35: the queue is served in order and no permit is lost: when a call that holds a permit releases it, the first
  waiting call is granted when it resumes, or, if it was aborted in between, the permit goes to the next one; and when
  no call holds a permit, none waits and a new call is granted one at once.\<close>

theorem limiter_hands_over:
  assumes "limiter_step\<^sup>*\<^sup>* (new_limiter m) l" and "0 < m"
  shows "(\<forall>i n ns. sl_calls l i = Granted \<longrightarrow> sl_waiting l = n # ns \<longrightarrow> sl_waiting (release i l) = ns \<and>
      sl_calls (resume n False (release i l)) n = Granted \<and> sl_active (resume n False (release i l)) = sl_active l \<and>
      (\<forall>k ks. ns = k # ks \<longrightarrow> sl_calls (resume k False (resume n True (release i l))) k = Granted)) \<and>
    (holders l = {} \<longrightarrow> sl_waiting l = [] \<and> (\<forall>j. sl_calls l j = Idle \<longrightarrow> sl_calls (acquire j False l) j = Granted))"
proof -
  have ok: "limiter_ok l" "sl_maximum l = m" using limiter_run assms by auto
  then have "n \<noteq> i" if "n \<in> set (sl_waiting l)" "sl_calls l i = Granted" for n i using that by (auto simp: limiter_ok_def)
  then show ?thesis using ok assms(2)
    by (auto simp: release_def hand_over_def resume_def limiter_ok_def acquire_def)
qed

theorem limiter_hands_over_witness: "sl_calls (resume 1 False (release 0 busy_limiter)) 1 = Granted"
  using limiter_hands_over [OF busy_limiter_run zero_less_one] by (simp add: busy_limiter_eval)

section \<open>Persisting a stream\<close>

text \<open>A handle that makes progress: every write of a non-empty buffer accepts a byte at least.\<close>

definition live_handle :: "(nat \<Rightarrow> nat \<Rightarrow> nat) \<Rightarrow> bool" where
  "live_handle io \<longleftrightarrow> (\<forall>n k. 0 < k \<longrightarrow> 0 < io n k)"

lemma write_chunk_live:
  assumes "live_handle io"
  shows "\<exists>s'. write_chunk io c s = (s', Inr ())"
proof (induction "length c" arbitrary: c s rule: less_induct)
  case less
  show ?case
  proof (cases "c = []")
    case True
    then show ?thesis by (simp add: write_chunk.simps)
  next
    case False
    then have k: "io (ps_writes s) (length c) \<noteq> 0" using assms by (simp add: live_handle_def)
    then have "length (drop (io (ps_writes s) (length c)) c) < length c" using False by simp
    from less [OF this] show ?thesis using False k by (subst write_chunk.simps) (simp add: Let_def)
  qed
qed

lemma pieces_live:
  assumes "live_handle io"
  shows "\<exists>s'. st_each (persist_piece io (\<lambda>_. False)) cs s = (s', Inr ())"
proof (induction cs arbitrary: s)
  case (Cons c cs)
  obtain s1 where "persist_piece io (\<lambda>_. False) c s = (s1, Inr ())"
    using write_chunk_live [OF assms, of c "s\<lparr>ps_checks := ps_checks s + 1, ps_seen := ps_seen s @ c\<rparr>"]
    by (auto simp: persist_piece_def st_bind_def check_abort_def)
  then show ?case using Cons.IH [of s1] by (simp add: st_bind_def)
qed simp

lemma incoming_live:
  assumes io: "live_handle io" and "taken f d s" and "0 < lm_maxChunkBytes l"
    and "int (length d) \<le> lm_maxFileBytes l"
    and n: "safe_integer (int (length (d @ concat cs)))" "int (length (d @ concat cs)) \<le> lm_maxFileBytes l"
      "int (length (d @ concat cs)) \<le> lm_maxTotalBytes l" "\<forall>e. ex = Some e \<longrightarrow> int (length (d @ concat cs)) \<le> e"
  shows "\<exists>s'. st_each (persist_incoming io (\<lambda>_. False) l ex) cs s = (s', Inr ())"
  using assms(2,4) n
proof (induction cs arbitrary: d s)
  case (Cons c cs)
  let ?s = "s\<lparr>ps_checks := ps_checks s + 1, ps_length := ps_length s + int (length c)\<rparr>"
  obtain s1 where "st_each (persist_piece io (\<lambda>_. False)) (pieces (nat (lm_maxChunkBytes l)) c) ?s = (s1, Inr ())"
    using pieces_live [OF io] by blast
  moreover have "ps_length s = int (length d)" using Cons.prems(1) by (simp add: taken_def)
  ultimately have p: "persist_incoming io (\<lambda>_. False) l ex c s = (s1, Inr ())"
    using Cons.prems(3-6)
    by (auto simp: persist_incoming_def st_bind_def check_abort_def st_unless_def Let_def safe_integer_def split: option.split)
  note st = persist_incoming_step(2) [OF Cons.prems(1,2) assms(3) p refl]
  have "\<exists>s'. st_each (persist_incoming io (\<lambda>_. False) l ex) cs s1 = (s', Inr ())"
    using st Cons.prems(3-6) by (intro Cons.IH [of "d @ c"]) auto
  then show ?case using p by (simp add: st_bind_def)
qed simp

text \<open>C37: what reaches the file: whatever the handle does and whenever the stream is aborted, the bytes appended are a
  prefix of the source no longer than the file limit; and when the call returns, they are the whole source, synced,
  with the length and the digest the caller expected.\<close>

theorem persist_stream_sound:
  assumes "persist_byte_stream P io stop ov sha ex source (new_persist f) = (s', r)"
  shows "(\<exists>w. prefix w (concat source) \<and> ps_file s' = f @ w \<and> (\<forall>l. workspace_limits ov = Inr l \<longrightarrow> int (length w) \<le> lm_maxFileBytes l)) \<and>
    (\<forall>n h. r = Inr (n, h) \<longrightarrow> ps_file s' = f @ concat source \<and> ps_synced s' \<and> n = int (length (concat source)) \<and>
       h = pf_sha256 P (concat source) \<and> h = sha \<and> (\<forall>e. ex = Some e \<longrightarrow> n = e))"
  using assms
proof (cases rule: persist_phases)
  case (limits e)
  then show ?thesis by (auto simp: new_persist_def intro: exI [of _ "[]"])
next
  case (early l e)
  then show ?thesis using workspace_limits_positive [of ov l] by (auto intro!: exI [of _ "[]"])
next
  case (loop l q s1)
  have l: "0 < lm_maxFileBytes l" "0 < lm_maxChunkBytes l" using workspace_limits_positive [OF loop(1)] by simp_all
  then have "file_bound f ([] @ concat source) l s1 \<and>
      (q = Inr () \<longrightarrow> taken f ([] @ concat source) s1 \<and> int (length ([] @ concat source)) \<le> lm_maxFileBytes l)"
    by (intro persist_loop [OF taken_new _ l(2) loop(3)]) simp
  then show ?thesis using loop(1,4,5) by (auto simp: file_bound_def taken_def)
qed

text \<open>C38: nothing valid is refused: with a handle that makes progress and no abort, a source within the file and total
  limits whose length is the expected one is persisted, and the call returns its length and digest.\<close>

theorem persist_stream_returns:
  assumes "live_handle io" and l: "workspace_limits ov = Inr l" and "sha256_text (pf_sha256 P (concat source))"
    and "int (length (concat source)) \<le> lm_maxFileBytes l" and "int (length (concat source)) \<le> lm_maxTotalBytes l"
    and "ex = None \<or> ex = Some (int (length (concat source)))"
  shows "\<exists>s'. persist_byte_stream P io (\<lambda>_. False) ov (pf_sha256 P (concat source)) ex source (new_persist f) =
    (s', Inr (int (length (concat source)), pf_sha256 P (concat source)))"
proof -
  have pos: "0 < lm_maxFileBytes l" "0 < lm_maxChunkBytes l" and "safe_integer (lm_maxFileBytes l)"
    using workspace_limits_valid [OF l] by (cases l; simp add: valid_limits_def)+
  then have safe: "safe_integer (int (length (concat source)))" using assms(4) by (simp add: safe_integer_def)
  let ?s = "new_persist f\<lparr>ps_checks := 1\<rparr>"
  have "\<exists>s1. st_each (persist_incoming io (\<lambda>_. False) l ex) source ?s = (s1, Inr ())"
    using assms(4-6) pos safe by (intro incoming_live [OF assms(1) taken_new]) auto
  then obtain s1 where s1: "st_each (persist_incoming io (\<lambda>_. False) l ex) source ?s = (s1, Inr ())" by blast
  have "taken f ([] @ concat source) s1"
    using persist_loop [OF taken_new _ pos(2) s1] pos by simp
  then show ?thesis using s1 l assms(3-6) safe
    by (auto simp: persist_byte_stream_def st_bind_def st_unless_def check_abort_def finish_persist_def new_persist_def taken_def)
qed

theorem persist_stream_returns_witness:
  "\<exists>s'. persist_byte_stream sample_platform (\<lambda>_ k. k) (\<lambda>_. False) no_override (pf_sha256 sample_platform ''abc'') (Some 3)
     [''ab'', ''c''] (new_persist []) = (s', Inr (3, pf_sha256 sample_platform ''abc''))"
  using persist_stream_returns [of "\<lambda>_ k. k" no_override default_limits sample_platform "[''ab'', ''c'']" "Some 3" "[]"]
  by (simp add: live_handle_def workspace_limits_def no_override_def default_limits_def pick_def safe_integer_def Let_def
      sha256_text_def sample_platform_def is_hex_def list_all_iff)

theorem persist_stream_sound_witness:
  "\<exists>s' r. persist_byte_stream sample_platform (\<lambda>_ _. 1) (\<lambda>n. n = 2) no_override (replicate 64 (CHR ''0'')) None [''ab'', ''c'']
     (new_persist ''x'') = (s', r) \<and> (\<exists>w. prefix w ''abc'' \<and> ps_file s' = ''x'' @ w)"
proof -
  obtain s' r where "persist_byte_stream sample_platform (\<lambda>_ _. 1) (\<lambda>n. n = 2) no_override (replicate 64 (CHR ''0'')) None
      [''ab'', ''c''] (new_persist ''x'') = (s', r)" by fastforce
  with persist_stream_sound [OF this] show ?thesis by auto
qed

section \<open>Verifying a stream\<close>

lemma pieces_sizes: "0 < k \<Longrightarrow> p \<in> set (pieces k xs) \<Longrightarrow> p \<noteq> [] \<and> length p \<le> k"
proof (induction k xs rule: pieces.induct)
  case (1 k xs)
  then show ?case by (cases "xs = []") (auto simp: pieces.simps [of k xs] pieces.simps [of k "[]"])
qed

lemma stream_loop_sound:
  assumes "0 < k" and "stream_loop P k n h cs seen out = (res, r)" and "int (length seen) \<le> n"
  shows "(r = Inr () \<longleftrightarrow> int (length (seen @ concat cs)) = n \<and> pf_sha256 P (seen @ concat cs) = h) \<and>
    (\<exists>w ps. prefix w (concat cs) \<and> res = out @ ps \<and> concat ps = w \<and> int (length (seen @ w)) \<le> n \<and>
       (\<forall>p \<in> set ps. p \<noteq> [] \<and> length p \<le> k) \<and> (r = Inr () \<longrightarrow> w = concat cs))"
  using assms(2,3)
proof (induction cs arbitrary: seen out)
  case Nil
  then show ?case by (auto split: if_splits)
next
  case (Cons c cs)
  show ?case
  proof (cases "int (length (seen @ c)) > n")
    case True
    then show ?thesis using Cons.prems by auto
  next
    case False
    with Cons.prems have st: "stream_loop P k n h cs (seen @ c) (out @ pieces k c) = (res, r)" "int (length (seen @ c)) \<le> n" by auto
    from Cons.IH [OF this] obtain w ps where
      "r = Inr () \<longleftrightarrow> int (length (seen @ c @ concat cs)) = n \<and> pf_sha256 P (seen @ c @ concat cs) = h"
      "prefix w (concat cs)" "res = out @ pieces k c @ ps" "concat ps = w" "int (length (seen @ c @ w)) \<le> n"
      "\<forall>p \<in> set ps. p \<noteq> [] \<and> length p \<le> k" "r = Inr () \<longrightarrow> w = concat cs" by auto
    then show ?thesis using concat_pieces [OF assms(1), of c] pieces_sizes [OF assms(1)]
      by (intro conjI exI [of _ "c @ w"] exI [of _ "pieces k c @ ps"]) auto
  qed
qed

lemma decode_file_size: "decode P l (entry_json (FileEntry p n h)) = Some z \<Longrightarrow> 0 \<le> n"
  by (auto simp: decode_eq check_kind_def check_file_def exact_keys_def invalid_manifest_def quota_exceeded_def
      split: if_splits option.splits json.splits)

text \<open>C39: for a file entry the manifest rules accept, verifyFileStream ends without an error exactly when the source
  has the declared length and digest; it then yielded exactly the source. Whatever happens, the pieces are a prefix of the
  source no longer than declared, and none is empty or above the chunk limit.\<close>

theorem verify_stream_exact:
  assumes "workspace_limits ov = Inr l" and "canonicalize_manifest P (full_override l) (manifest_json (Manifest [FileEntry p n h])) = Inr m"
    and "verify_file_stream P ov (FileEntry p n h) source = (ps, r)"
  shows "(r = Inr () \<longleftrightarrow> int (length (concat source)) = n \<and> pf_sha256 P (concat source) = h) \<and>
    (r = Inr () \<longrightarrow> concat ps = concat source) \<and> prefix (concat ps) (concat source) \<and> int (length (concat ps)) \<le> n \<and>
    (\<forall>c \<in> set ps. c \<noteq> [] \<and> int (length c) \<le> lm_maxChunkBytes l)"
proof -
  have l: "0 < lm_maxChunkBytes l" using workspace_limits_positive [OF assms(1)] by simp
  from assms(2) obtain l' es where "map (decode P l') (map entry_json [FileEntry p n h]) = map Some es"
    unfolding manifest_json_raw canonicalize_raw by blast
  then have n: "0 \<le> n" by (cases es) (auto simp del: entry_json.simps dest: decode_file_size)
  have loop: "stream_loop P (nat (lm_maxChunkBytes l)) n h source [] [] = (ps, r)"
    using assms by (simp add: verify_file_stream_def)
  from stream_loop_sound [OF _ loop] l n show ?thesis by (fastforce simp: nat_le_iff)
qed

theorem verify_stream_exact_witness:
  "\<exists>ps. verify_file_stream sample_platform no_override (FileEntry ''a'' 3 (replicate 64 (CHR ''0''))) [''ab'', ''c''] = (ps, Inr ()) \<and>
     concat ps = ''abc''"
proof -
  obtain ps r where v: "verify_file_stream sample_platform no_override (FileEntry ''a'' 3 (replicate 64 (CHR ''0''))) [''ab'', ''c''] = (ps, r)"
    by fastforce
  have l: "workspace_limits no_override = Inr default_limits"
    by (simp add: workspace_limits_def no_override_def default_limits_def pick_def safe_integer_def Let_def)
  have "canonicalize_manifest sample_platform (full_override default_limits)
      (manifest_json (Manifest [FileEntry ''a'' 3 (replicate 64 (CHR ''0''))])) = Inr (Manifest [FileEntry ''a'' 3 (replicate 64 (CHR ''0''))])"
    by code_simp
  from verify_stream_exact [OF l this v] v show ?thesis by (auto simp: sample_platform_def)
qed

section \<open>Workspace locks\<close>


definition live_locks :: "timestamp \<Rightarrow> lock_state \<Rightarrow> lock list" where
  "live_locks now s = filter (\<lambda>x. now \<le> lk_expiresAt x) (lks_locks s)"

lemma expire_stale_locks: "lks_locks (expire_stale now s) = live_locks now s"
  by (simp add: expire_stale_def live_locks_def not_less)

lemma expire_stale_frame [simp]: "lks_workspaces (expire_stale now s) = lks_workspaces s" "lks_runs (expire_stale now s) = lks_runs s"
  by (simp_all add: expire_stale_def)

lemma lock_refused_None_iff:
  "lock_refused ty ks = None \<longleftrightarrow> (\<forall>x \<in> set ks. ty = SharedLock \<and> lk_lockType x = SharedLock)"
  by (cases ks) (use lock_type.exhaust in \<open>auto simp: lock_refused_None exclusive_def list_all_iff\<close>)

lemma find_in_set: "find p xs = Some x \<Longrightarrow> x \<in> set xs"
  by (auto simp: find_Some_iff)

lemma lock_refused_owner:
  "lock_refused ty ks = Some e \<Longrightarrow> \<exists>x \<in> set ks. e = AlreadyLocked (lk_ownerRunId x) \<or> e = ExclusiveHeld (lk_ownerRunId x)"
  by (cases ks; cases ty) (auto simp: lock_refused_def simp del: find.simps dest!: find_in_set)

text \<open>An exclusive lock is granted exactly when no live lock is on the workspace, a shared one when no live exclusive
  lock is, for a fresh id, a known workspace and a known run; a refusal names a holder of a live lock of the workspace, and
  the table keeps exactly the live locks and the one granted.\<close>

theorem acquire_lock_exact:
  "case acquire_lock w r ty i now until s of (s', result) \<Rightarrow>
    ((\<exists>k. result = Inr k) \<longleftrightarrow>
       (\<forall>x \<in> set (live_locks now s). lk_id x \<noteq> i \<and> (lk_workspaceId x = w \<longrightarrow> ty = SharedLock \<and> lk_lockType x = SharedLock)) \<and>
       w \<in> set (lks_workspaces s) \<and> r \<in> set (lks_runs s)) \<and>
    (\<forall>e. result = Inl e \<longrightarrow> e \<noteq> LockConstraint \<longrightarrow>
       (\<exists>x \<in> set (live_locks now s). lk_workspaceId x = w \<and> (e = AlreadyLocked (lk_ownerRunId x) \<or> e = ExclusiveHeld (lk_ownerRunId x)))) \<and>
    lks_locks s' = live_locks now s @ (case result of Inl _ \<Rightarrow> [] | Inr k \<Rightarrow> [k])"
proof (cases "lock_refused ty (workspace_locks w (expire_stale now s))")
  case None
  note free = None [unfolded lock_refused_None_iff workspace_locks_def expire_stale_locks]
  from None have "acquire_lock w r ty i now until s =
      (let s1 = expire_stale now s; k = \<lparr>lk_id = i, lk_workspaceId = w, lk_lockType = ty, lk_ownerRunId = r, lk_acquiredAt = now,
         lk_expiresAt = until, lk_lastHeartbeatAt = now\<rparr> in
       case insert_lock k s1 of Inl e \<Rightarrow> (s1, Inl e) | Inr s2 \<Rightarrow> (log_lock (LockAcquired w r i ty) s2, Inr k))"
    by (simp add: acquire_lock_def Let_def)
  then show ?thesis using free
    by (auto simp: Let_def insert_lock_def log_lock_def expire_stale_locks)
next
  case (Some e)
  then have "\<not> (\<forall>x \<in> set (workspace_locks w (expire_stale now s)). ty = SharedLock \<and> lk_lockType x = SharedLock)"
    by (simp add: lock_refused_None_iff [symmetric])
  moreover have "\<exists>x \<in> set (workspace_locks w (expire_stale now s)). e = AlreadyLocked (lk_ownerRunId x) \<or> e = ExclusiveHeld (lk_ownerRunId x)"
    using lock_refused_owner [OF Some] .
  ultimately show ?thesis using Some
    by (auto simp: acquire_lock_def Let_def workspace_locks_def expire_stale_locks)
qed

definition lock_table :: lock_state where
  "lock_table = fst (acquire_lock ''w1'' ''r1'' ExclusiveLock ''l1'' ''1'' ''5'' (lock_state.make [''w1''] [''r1'', ''r2''] [] []))"


theorem acquire_lock_exact_witness: "\<nexists>k. snd (acquire_lock ''w1'' ''r2'' SharedLock ''l2'' ''2'' ''6'' lock_table) = Inr k"
proof -
  have "live_locks ''2'' lock_table = [\<lparr>lk_id = ''l1'', lk_workspaceId = ''w1'', lk_lockType = ExclusiveLock, lk_ownerRunId = ''r1'',
      lk_acquiredAt = ''1'', lk_expiresAt = ''5'', lk_lastHeartbeatAt = ''1''\<rparr>]"
    by (simp add: live_locks_def lock_table_def lock_state.defs acquire_lock_def Let_def expire_stale_def workspace_locks_def
        lock_refused_def insert_lock_def log_lock_def)
  then show ?thesis
    using acquire_lock_exact [where w = "''w1''" and r = "''r2''" and ty = SharedLock and i = "''l2''" and now = "''2''" and until = "''6''"
      and s = lock_table] by (auto split: prod.splits)
qed

end
