(* ===== verification/Cv_Worker.thy ===== *)
theory Cv_Worker
  imports Cv_History
begin

text \<open>
  The worker of \<open>src/application/runs/process.ts\<close> on the runtime of \<open>runtime.ts\<close>: \<open>processOperation\<close>
  prepares the revision of a claimed operation in the revision store, publishes it, and reconciles
  with the catalog when anything fails on the way.

  Every \<open>await\<close> is a point where other actors run. A \<open>world\<close> is the shared catalog and the number of
  calls made so far; before the \<open>n\<close>-th call the others change the catalog by \<open>en_others E n\<close>. A call of
  the control store is one atomic operation of the catalog whose answer may not come: \<open>NotSent\<close>, the call
  never ran, or \<open>AnswerLost\<close>, it ran and its answer was lost. The code behind the other ports (revision
  store, submission store), the clock, the id generator and \<open>Date\<close> arithmetic (\<open>en_until t d\<close> is the time
  \<open>d\<close> milliseconds after \<open>t\<close>) are fields of the environment. The renewals that the interval timer starts
  while the store works run here before it: the store does not touch the catalog, and \<open>en_others\<close> lets
  anything happen in between.
\<close>

section \<open>The worker and its environment\<close>

datatype reply = Delivered | NotSent | AnswerLost

record environment =
  en_others :: "nat \<Rightarrow> catalog \<Rightarrow> catalog"
  en_reply :: "nat \<Rightarrow> reply"
  en_clock :: "nat \<Rightarrow> timestamp option"
  en_until :: "timestamp \<Rightarrow> int \<Rightarrow> timestamp"
  en_newId :: "nat \<Rightarrow> string \<Rightarrow> id"
  en_ownerId :: string
  en_leaseTtlMs :: int
  en_processingTtlMs :: int
  en_ticks :: nat
  en_store :: "nat \<Rightarrow> storage_binding \<Rightarrow> failure + unit"
  en_prepare :: "nat \<Rightarrow> candidate_identity \<Rightarrow> manifest \<Rightarrow> failure + prepared_revision"
  en_submission :: "nat \<Rightarrow> run_scope \<Rightarrow> id \<Rightarrow> failure + submission option"
  en_message :: "error_code \<Rightarrow> string"
  en_binding :: "nat \<Rightarrow> workspace_scope \<Rightarrow> id \<Rightarrow> timestamp \<Rightarrow> failure + storage_binding"

record world =
  wd_catalog :: catalog
  wd_calls :: nat

type_synonym 'a work = "world \<Rightarrow> world \<times> (failure + 'a)"

definition w_return :: "'a \<Rightarrow> 'a work" where "w_return a w = (w, Inr a)"
definition w_throw :: "failure \<Rightarrow> 'a work" where "w_throw e w = (w, Inl e)"

definition w_bind :: "'a work \<Rightarrow> ('a \<Rightarrow> 'b work) \<Rightarrow> 'b work" where
  "w_bind m f w = (case m w of (v, Inl e) \<Rightarrow> (v, Inl e) | (v, Inr a) \<Rightarrow> f a v)"

definition w_catch :: "'a work \<Rightarrow> (failure \<Rightarrow> 'a work) \<Rightarrow> 'a work" where
  "w_catch m h w = (case m w of (v, Inl e) \<Rightarrow> h e v | (v, Inr a) \<Rightarrow> (v, Inr a))"

definition w_check :: "bool \<Rightarrow> error_code \<Rightarrow> unit work" where
  "w_check b c = (if b then w_return () else w_throw (Fail c))"

definition w_found :: "'a option \<Rightarrow> failure \<Rightarrow> 'a work" where
  "w_found x e = (case x of None \<Rightarrow> w_throw e | Some a \<Rightarrow> w_return a)"

text \<open>One call: the others act first; it reads or writes the catalog at once, or runs outside it.\<close>

definition turn :: "environment \<Rightarrow> world \<Rightarrow> world" where
  "turn E w = \<lparr>wd_catalog = en_others E (wd_calls w) (wd_catalog w), wd_calls = Suc (wd_calls w)\<rparr>"

definition control :: "environment \<Rightarrow> (catalog \<Rightarrow> failure + ('a \<times> catalog)) \<Rightarrow> 'a work" where
  "control E f w = (let v = turn E w in case en_reply E (wd_calls w) of
     NotSent \<Rightarrow> (v, Inl Crash)
   | AnswerLost \<Rightarrow> (case f (wd_catalog v) of Inl e \<Rightarrow> (v, Inl Crash) | Inr (a, s) \<Rightarrow> (v\<lparr>wd_catalog := s\<rparr>, Inl Crash))
   | Delivered \<Rightarrow> (case f (wd_catalog v) of Inl e \<Rightarrow> (v, Inl e) | Inr (a, s) \<Rightarrow> (v\<lparr>wd_catalog := s\<rparr>, Inr a)))"

definition ask :: "environment \<Rightarrow> (catalog \<Rightarrow> failure + 'a) \<Rightarrow> 'a work" where
  "ask E q = control E (\<lambda>s. sbind (q s) (\<lambda>a. Inr (a, s)))"

definition outside :: "environment \<Rightarrow> (nat \<Rightarrow> failure + 'a) \<Rightarrow> 'a work" where
  "outside E f w = (turn E w, f (wd_calls w))"

definition hook :: "environment \<Rightarrow> unit work" where
  "hook E = ask E (\<lambda>_. Inr ())"

text \<open>The members of \<open>LifecycleRuntime\<close>. The clock is read without waiting.\<close>

definition runtime_now :: "environment \<Rightarrow> timestamp work" where
  "runtime_now E w = (w\<lparr>wd_calls := Suc (wd_calls w)\<rparr>, case en_clock E (wd_calls w) of None \<Rightarrow> Inl (Fail INVALID_REQUEST) | Some t \<Rightarrow> Inr t)"

definition new_id :: "environment \<Rightarrow> string \<Rightarrow> id work" where
  "new_id E k w = (w\<lparr>wd_calls := Suc (wd_calls w)\<rparr>, Inr (en_newId E (wd_calls w) k))"

definition authorize :: "environment \<Rightarrow> principal \<Rightarrow> action \<Rightarrow> scope \<Rightarrow> authorization work" where
  "authorize E p act sc = ask E (\<lambda>s. case evaluate_policy s p act sc of Allowed d \<Rightarrow> Inr d | Denied c \<Rightarrow> Inl (Fail c))"

definition lifecycle_event :: "id \<Rightarrow> workspace_scope \<Rightarrow> id option \<Rightarrow> principal \<Rightarrow> string \<Rightarrow> timestamp \<Rightarrow> publication_events" where
  "lifecycle_event oid sc rid p ty t = (let e = (\<lambda>i. AuditEvent i sc rid oid (pr_actorId p) ty (JObj []) t) in
     PublicationEvents (e (''audit-'' @ oid)) \<lparr>ox_event = e (''outbox-'' @ oid), ox_deliveryState = DeliveryPending, ox_version = 1,
       ox_attempts = 0, ox_nextAttemptAt = t, ox_claim = None\<rparr>)"

definition events_of :: "operation \<Rightarrow> string \<Rightarrow> timestamp \<Rightarrow> publication_events" where
  "events_of o' = lifecycle_event (op_id o') (op_scope o') (op_runId o') (op_principal o')"

definition later :: "timestamp \<Rightarrow> timestamp \<Rightarrow> timestamp" where
  "later a b = (if a < b then b else a)"

definition extended :: "environment \<Rightarrow> int \<Rightarrow> timestamp \<Rightarrow> timestamp \<Rightarrow> timestamp" where
  "extended E ttl t expires = later (en_until E t ttl) (en_until E expires 1)"

section \<open>Claims and renewals\<close>

definition unknown :: "'a work" where
  "unknown = w_throw (Fail PUBLICATION_OUTCOME_UNKNOWN)"

definition is_settled :: "operation \<Rightarrow> bool" where
  "is_settled o' \<longleftrightarrow> op_state o' = OpSucceeded \<or> op_state o' = OpFailed"

definition held_by :: "environment \<Rightarrow> int \<Rightarrow> operation \<Rightarrow> processing_claim option" where
  "held_by E fence o' = (case op_claim o' of None \<Rightarrow> None | Some c \<Rightarrow> if pc_fence c = fence \<and> pc_ownerId c = en_ownerId E then Some c else None)"

definition assert_claim :: "environment \<Rightarrow> int \<Rightarrow> operation \<Rightarrow> unit work" where
  "assert_claim E fence o' =
     w_bind (w_check (op_kind o' = KWorkspaceCreate \<or> op_kind o' = KFinalize) INVALID_TRANSITION) (\<lambda>_.
     w_bind (w_check (op_state o' = OpProcessing) STALE_FENCE) (\<lambda>_.
     w_bind (w_found (held_by E fence o') (Fail STALE_FENCE)) (\<lambda>c.
     w_bind (runtime_now E) (\<lambda>t. w_check (t < pc_expiresAt c) STALE_FENCE))))"

definition renew_once :: "environment \<Rightarrow> int \<Rightarrow> operation \<Rightarrow> operation work" where
  "renew_once E fence o' =
     w_bind (runtime_now E) (\<lambda>t.
     w_bind (w_found (op_claim o') Crash) (\<lambda>c.
     control E (renew_processing_claim (RenewClaim (ProcessingCAS (op_scope o') (op_id o') (op_version o') fence t)
       (extended E (en_processingTtlMs E) t (pc_expiresAt c))))))"

definition renew_claim :: "environment \<Rightarrow> workspace_scope \<Rightarrow> id \<Rightarrow> int \<Rightarrow> operation work" where
  "renew_claim E sc oid fence =
     w_bind (ask E (\<lambda>s. Inr (get_operation s sc oid))) (\<lambda>x.
     w_bind (w_found x (Fail OPERATION_NOT_FOUND)) (\<lambda>o'.
     w_bind (assert_claim E fence o') (\<lambda>_. renew_once E fence o')))"

text \<open>The ticks of the interval timer: after the first failure none renews again.\<close>

primrec renew_ticks :: "environment \<Rightarrow> nat \<Rightarrow> int \<Rightarrow> operation \<Rightarrow> (operation \<times> failure option) work" where
  "renew_ticks E 0 fence o' = w_return (o', None)"
| "renew_ticks E (Suc k) fence o' =
     w_catch (w_bind (renew_once E fence o') (\<lambda>q. renew_ticks E k fence q)) (\<lambda>e. w_return (o', Some e))"

section \<open>Processing\<close>

text \<open>\<open>prepareWithRenewal\<close>: a failed renewal is thrown only after the store succeeded.\<close>

definition prepare_candidate :: "environment \<Rightarrow> operation \<Rightarrow> candidate_identity \<Rightarrow> manifest \<Rightarrow> prepared_revision work" where
  "prepare_candidate E o' ident mf =
     w_bind (hook E) (\<lambda>_.
     w_bind (outside E (\<lambda>n. en_prepare E n ident mf)) (\<lambda>c.
     w_bind (w_check (op_candidate o' = None \<or> op_candidate o' = Some c) RECEIPT_MISMATCH) (\<lambda>_.
     w_bind (hook E) (\<lambda>_. w_return c))))"

definition prepare_with_renewal :: "environment \<Rightarrow> operation \<Rightarrow> prepared_revision work \<Rightarrow> (operation \<times> prepared_revision) work" where
  "prepare_with_renewal E o' job =
     w_bind (w_found (op_claim o') Crash) (\<lambda>k.
     w_bind (renew_ticks E (en_ticks E) (pc_fence k) o') (\<lambda>(q, failed).
     w_bind job (\<lambda>c.
     case failed of None \<Rightarrow> w_return (q, c) | Some e \<Rightarrow> w_throw e)))"

definition terminal_failures :: "error_code list" where
  "terminal_failures = [FORBIDDEN, CREDENTIAL_REVOKED, REVISION_CONFLICT, STORAGE_BINDING_CHANGED, WORKSPACE_INACTIVE,
     WORKSPACE_NOT_FOUND, INVALID_MANIFEST, QUOTA_EXCEEDED, RECEIPT_MISMATCH, INVALID_REQUEST]"

definition creation_cleanup :: "operation \<Rightarrow> timestamp \<Rightarrow> cleanup" where
  "creation_cleanup o' t = new_cleanup (''cleanup-'' @ op_id o') (op_scope o') None t"

definition record_failure :: "environment \<Rightarrow> operation \<Rightarrow> int \<Rightarrow> error_code \<Rightarrow> timestamp \<Rightarrow> operation work" where
  "record_failure E o' fence code t =
     (let cas = ProcessingCAS (op_scope o') (op_id o') (op_version o') fence t in
      if op_kind o' = KFinalize then
        w_bind (runtime_now E) (\<lambda>u. control E (fail_finalization (FailInput cas code (en_message E code)
          (events_of o' (if code = REVISION_CONFLICT then ''run.conflicted'' else ''run.failed'') u))))
      else
        w_bind (runtime_now E) (\<lambda>u. control E (fail_workspace_creation (FailCreation cas code (en_message E code)
          (events_of o' ''workspace.creation-failed'' u) (creation_cleanup o' t)))))"

definition reread :: "environment \<Rightarrow> workspace_scope \<Rightarrow> id \<Rightarrow> int \<Rightarrow> operation work" where
  "reread E sc oid fence =
     w_catch
       (w_bind (ask E (\<lambda>s. Inr (get_operation s sc oid))) (\<lambda>x. case x of
          None \<Rightarrow> w_throw (Fail STALE_FENCE)
        | Some o' \<Rightarrow> if is_settled o' then w_return o'
            else w_bind (w_check (map_option pc_fence (op_claim o') = Some fence) STALE_FENCE) (\<lambda>_. unknown)))
       (\<lambda>e. if e = Fail STALE_FENCE then w_throw e else unknown)"

definition reconcile :: "environment \<Rightarrow> workspace_scope \<Rightarrow> id \<Rightarrow> int \<Rightarrow> failure \<Rightarrow> operation work" where
  "reconcile E sc oid fence error =
     w_bind (w_catch (ask E (\<lambda>s. Inr (get_operation s sc oid))) (\<lambda>_. unknown)) (\<lambda>x.
     w_bind (w_found x (Fail PUBLICATION_OUTCOME_UNKNOWN)) (\<lambda>o'.
     if is_settled o' then w_return o'
     else
       w_bind (w_found (held_by E fence o') (Fail STALE_FENCE)) (\<lambda>c.
       w_bind (runtime_now E) (\<lambda>t.
       w_bind (w_check (t < pc_expiresAt c) STALE_FENCE) (\<lambda>_.
       case error of
         Crash \<Rightarrow> unknown
       | Fail code \<Rightarrow>
           if code \<notin> set terminal_failures then
             (if code = STALE_FENCE \<or> code = VERSION_CONFLICT then w_throw error else unknown)
           else w_bind (runtime_now E) (\<lambda>u.
             if op_kind o' = KFinalize \<or> op_kind o' = KWorkspaceCreate
             then w_catch (record_failure E o' fence code u) (\<lambda>_. reread E sc oid fence) else unknown))))))"

text \<open>What the operation publishes: the empty initial manifest, or the sealed submission it selected.\<close>

definition source_of :: "platform \<Rightarrow> environment \<Rightarrow> operation \<Rightarrow> candidate_identity \<Rightarrow> manifest work" where
  "source_of P E o' ident = (case op_intent o' of
     CreateIntent i \<Rightarrow> w_return (wi_initialManifest i)
   | _ \<Rightarrow>
     w_bind (w_found (intent_source (op_intent o')) (Fail INVALID_TRANSITION)) (\<lambda>src.
     w_bind (w_found (op_runId o') Crash) (\<lambda>rid.
     let sc = RunScope (bsc_customerId (cd_scope ident)) (bsc_workspaceId (cd_scope ident)) (bsc_storageBindingId (cd_scope ident))
       (bsc_bindingGeneration (cd_scope ident)) rid in
     w_bind (outside E (\<lambda>n. en_submission E n sc (ss_submissionId src))) (\<lambda>x.
     w_bind (w_found x (Fail RECEIPT_MISMATCH)) (\<lambda>m.
     w_bind (w_check (sm_state m = Sealed \<and> sm_version m = ss_submissionVersion src \<and> sm_manifestDigest m = Some (ss_manifestDigest src)) RECEIPT_MISMATCH) (\<lambda>_.
     w_bind (w_found (sm_manifest m) (Fail RECEIPT_MISMATCH)) (\<lambda>mf.
     w_bind (\<lambda>w. (w, manifest_digest P no_override (manifest_json mf))) (\<lambda>d.
     w_bind (w_check (d = ss_manifestDigest src) RECEIPT_MISMATCH) (\<lambda>_. w_return mf)))))))))"

definition binding_for :: "environment \<Rightarrow> operation \<Rightarrow> candidate_identity \<Rightarrow> storage_binding option work" where
  "binding_for E o' ident = (case op_intent o' of
     CreateIntent i \<Rightarrow> w_return (Some (wi_binding i))
   | _ \<Rightarrow> ask E (\<lambda>s. Inr (get_binding s (op_scope o') (bsc_storageBindingId (cd_scope ident)))))"

definition prepare_operation :: "platform \<Rightarrow> environment \<Rightarrow> int \<Rightarrow> operation \<Rightarrow> operation work" where
  "prepare_operation P E fence o' =
     w_bind (w_found (intent_candidateIdentity (op_intent o')) (Fail INVALID_TRANSITION)) (\<lambda>ident.
     w_bind (binding_for E o' ident) (\<lambda>x.
     w_bind (w_found x (Fail STORAGE_BINDING_CHANGED)) (\<lambda>b.
     w_bind (w_check (sb_generation b = bsc_bindingGeneration (cd_scope ident) \<and> sb_scope b = op_scope o') STORAGE_BINDING_CHANGED) (\<lambda>_.
     w_bind (outside E (\<lambda>n. en_store E n b)) (\<lambda>_.
     w_bind (source_of P E o' ident) (\<lambda>mf.
     w_bind (prepare_with_renewal E o' (prepare_candidate E o' ident mf)) (\<lambda>(q, c).
     w_bind (runtime_now E) (\<lambda>t.
     w_bind (control E (record_prepared_revision (RecordPrepared (ProcessingCAS (op_scope q) (op_id q) (op_version q) fence t) c))) (\<lambda>p.
     w_bind (hook E) (\<lambda>_. w_return p))))))))))"

definition accept_creation :: "environment \<Rightarrow> int \<Rightarrow> operation \<Rightarrow> operation work" where
  "accept_creation E fence o' =
     w_bind (authorize E (op_principal o') WorkspaceCreate (InCustomer (wsc_customerId (op_scope o')))) (\<lambda>a.
     w_bind (runtime_now E) (\<lambda>t.
     w_bind (w_found (op_candidate o') Crash) (\<lambda>c.
     w_bind (control E (accept_workspace_creation (AcceptCreation (ProcessingCAS (op_scope o') (op_id o') (op_version o') fence t)
       a c (events_of o' ''workspace.created'' t)))) (\<lambda>r.
     w_bind (hook E) (\<lambda>_. w_return (cx_operation r))))))"

definition accept_finalization :: "environment \<Rightarrow> int \<Rightarrow> operation \<Rightarrow> operation work" where
  "accept_finalization E fence o' =
     w_bind (w_found (op_runId o') (Fail RUN_NOT_FOUND)) (\<lambda>rid.
     w_bind (ask E (\<lambda>s. Inr (get_run s (op_scope o') rid))) (\<lambda>x.
     w_bind (w_found x (Fail RUN_NOT_FOUND)) (\<lambda>r.
     w_bind (authorize E (op_principal o') RunFinalize (of_ws (op_scope o'))) (\<lambda>a.
     w_bind (runtime_now E) (\<lambda>t.
     let fz = FinalizerPreconditions (run_scope_of r) (op_id o') (rn_version r) (op_version o') (bsc_bindingGeneration (rn_scope r)) fence a
           (events_of o' ''run.finalized'' t) t in
     w_bind (if intent_mode (op_intent o') = Some ReadOnly then control E (complete_read_only fz)
             else
               w_bind (w_found (intent_source (op_intent o')) Crash) (\<lambda>src.
               w_bind (w_found (op_candidate o') Crash) (\<lambda>c.
               control E (accept_revision (AcceptRevision fz (rn_baseRevisionId r) (rn_workspaceVersionAtOpen r) (ss_submissionId src) c))))) (\<lambda>p.
     w_bind (hook E) (\<lambda>_. w_return (pb_operation p))))))))"

definition publish_operation :: "platform \<Rightarrow> environment \<Rightarrow> int \<Rightarrow> operation \<Rightarrow> operation work" where
  "publish_operation P E fence o' =
     (let creating = op_kind o' = KWorkspaceCreate in
      w_bind (authorize E (op_principal o') (if creating then WorkspaceCreate else RunFinalize)
        (if creating then InCustomer (wsc_customerId (op_scope o')) else of_ws (op_scope o'))) (\<lambda>_.
      w_bind (if creating \<or> intent_mode (op_intent o') = Some ReadWrite then prepare_operation P E fence o' else w_return o') (\<lambda>q.
      w_bind (hook E) (\<lambda>_.
      if op_kind q = KWorkspaceCreate then accept_creation E fence q
      else if op_kind q = KFinalize then accept_finalization E fence q
      else w_throw (Fail INVALID_TRANSITION)))))"

definition process_operation :: "platform \<Rightarrow> environment \<Rightarrow> workspace_scope \<Rightarrow> id \<Rightarrow> int \<Rightarrow> operation work" where
  "process_operation P E sc oid fence =
     w_bind (w_catch (ask E (\<lambda>s. Inr (get_operation s sc oid))) (\<lambda>_. unknown)) (\<lambda>x.
     w_bind (w_found x (Fail OPERATION_NOT_FOUND)) (\<lambda>o'.
     if is_settled o' then w_return o'
     else w_bind (assert_claim E fence o') (\<lambda>_. w_catch (publish_operation P E fence o') (reconcile E sc oid fence))))"

end
