(* ===== verification/Cv_Commands.thy ===== *)
theory Cv_Commands
  imports Cv_Worker
begin

text \<open>
  The commands of \<open>WorkspaceLifecycle\<close> (\<open>src/application/runs/index.ts\<close>, \<open>commands.ts\<close>, \<open>runtime.ts\<close>,
  \<open>src/application/workspaces/create.ts\<close> and \<open>open.ts\<close>): each authorizes its principal, names the command
  by its key and the digest of its request, and calls one operation of the catalog; \<open>finalize\<close> and
  \<open>createWorkspace\<close> go on to process what they claimed, unless the command was already known.
  \<open>structuredClone\<close> copies a value that nothing else changes.
\<close>

section \<open>The runtime\<close>

definition new_runtime :: "string \<Rightarrow> int option \<Rightarrow> int option \<Rightarrow> int option \<Rightarrow> failure + (int \<times> int \<times> int)" where
  "new_runtime owner leaseTtl processingTtl interval =
     sbind (fail_unless (owner \<noteq> []) INVALID_REQUEST) (\<lambda>_.
     let l = (case leaseTtl of None \<Rightarrow> 300000 | Some x \<Rightarrow> x);
         p = (case processingTtl of None \<Rightarrow> 300000 | Some x \<Rightarrow> x);
         r = (case interval of None \<Rightarrow> min 30000 (p div 3) | Some x \<Rightarrow> x) in
     sbind (fail_unless (safe_integer l \<and> 0 < l \<and> safe_integer p \<and> 0 < p \<and> safe_integer r \<and> 0 \<le> r \<and> r < p) INVALID_REQUEST) (\<lambda>_.
     Inr (l, p, r)))"

text \<open>\<open>canonicalRequestDigest\<close> of the request a command makes.\<close>

definition resource_json :: "id option \<Rightarrow> id option \<Rightarrow> json" where
  "resource_json w r = JObj ((case w of Some x \<Rightarrow> if x = [] then [] else [(''workspaceId'', JStr x)] | None \<Rightarrow> []) @
     (case r of Some x \<Rightarrow> if x = [] then [] else [(''runId'', JStr x)] | None \<Rightarrow> []))"

definition request_json :: "scope \<Rightarrow> principal \<Rightarrow> operation_kind \<Rightarrow> id option \<Rightarrow> json \<Rightarrow> json" where
  "request_json sc p k rid body = JObj [(''schemaVersion'', JInt 1), (''customerId'', JStr (scope_customer sc)), (''actorId'', JStr (pr_actorId p)),
     (''credentialId'', JStr (ci_id (pr_credential p))), (''kind'', JStr (operation_kind_text k)),
     (''resource'', resource_json (scope_workspace sc) rid), (''payload'', body)]"

definition canonical_request_digest :: "platform \<Rightarrow> json \<Rightarrow> failure + string" where
  "canonical_request_digest P q = sbind (canonical_json q) (\<lambda>t. Inr (pf_sha256 P t))"

datatype 'b authenticated = Authenticated (ac_principal: principal) (ac_key: string) (ac_request: 'b)

definition command_for :: "platform \<Rightarrow> environment \<Rightarrow> operation_kind \<Rightarrow> principal \<Rightarrow> string \<Rightarrow> json \<Rightarrow> scope \<Rightarrow> id option \<Rightarrow> command_identity work" where
  "command_for P E k p key body sc rid =
     w_bind (w_check (key \<noteq> [] \<and> js_length key \<le> 256) INVALID_REQUEST) (\<lambda>_.
     w_bind (new_id E ''operation'') (\<lambda>oid.
     w_bind (runtime_now E) (\<lambda>t.
     w_bind (\<lambda>w. (w, canonical_request_digest P (request_json sc p k rid body))) (\<lambda>d.
     w_return (CommandIdentity (IdempotencyScope (scope_customer sc) (pr_actorId p) k (scope_workspace sc) rid) key d oid t)))))"

section \<open>Runs\<close>

datatype open_request = OpenRequest (oq_mode: run_mode) (oq_agentLabel: string) (oq_task: string) (oq_reason: string)
datatype abort_request = AbortRequest (aq_expectedRunVersion: int) (aq_reason: string)
datatype heartbeat_request = HeartbeatRequest (hq_expectedLeaseVersion: int)

definition open_json :: "open_request \<Rightarrow> json" where
  "open_json q = JObj [(''mode'', JStr (case oq_mode q of ReadOnly \<Rightarrow> ''read-only'' | ReadWrite \<Rightarrow> ''read-write'')),
     (''agentLabel'', JStr (oq_agentLabel q)), (''task'', JStr (oq_task q)), (''reason'', JStr (oq_reason q))]"

definition finalize_json :: "finalize_body \<Rightarrow> json" where
  "finalize_json b = JObj ((''expectedRunVersion'', JInt (fb_expectedRunVersion b)) #
     (case fb_submissionId b of None \<Rightarrow> [] | Some m \<Rightarrow> [(''submissionId'', JStr m)]))"

definition abort_json :: "abort_request \<Rightarrow> json" where
  "abort_json q = JObj [(''expectedRunVersion'', JInt (aq_expectedRunVersion q)), (''reason'', JStr (aq_reason q))]"

definition heartbeat_json :: "heartbeat_request \<Rightarrow> json" where
  "heartbeat_json q = JObj [(''expectedLeaseVersion'', JInt (hq_expectedLeaseVersion q))]"

definition text_ok :: "nat \<Rightarrow> string \<Rightarrow> bool" where
  "text_ok n t \<longleftrightarrow> \<not> blank t \<and> js_length t \<le> n"

definition version_ok :: "int \<Rightarrow> bool" where
  "version_ok v \<longleftrightarrow> safe_integer v \<and> 1 \<le> v"

definition open_command :: "platform \<Rightarrow> environment \<Rightarrow> workspace_scope \<Rightarrow> open_request authenticated \<Rightarrow> command_result work" where
  "open_command P E sc i = (let q = ac_request i; p = ac_principal i in
     w_bind (w_check (list_all (text_ok 4096) [oq_agentLabel q, oq_task q, oq_reason q]) INVALID_REQUEST) (\<lambda>_.
     w_bind (authorize E p (if oq_mode q = ReadOnly then RunOpenRead else RunOpenWrite) (of_ws sc)) (\<lambda>a.
     w_bind (command_for P E KRunOpen p (ac_key i) (open_json q) (of_ws sc) None) (\<lambda>c.
     w_bind (new_id E ''run'') (\<lambda>rid.
     w_bind (new_id E ''cleanup'') (\<lambda>cid.
     control E (open_run (OpenRun sc p a c rid cid (oq_mode q) (oq_agentLabel q) (oq_task q) (oq_reason q)
       (en_until E (cm_requestedAt c) (en_leaseTtlMs E)) (cm_requestedAt c)))))))))"

definition abort_command :: "platform \<Rightarrow> environment \<Rightarrow> run_scope \<Rightarrow> abort_request authenticated \<Rightarrow> command_result work" where
  "abort_command P E sc i = (let q = ac_request i; p = ac_principal i; ws = rs_workspace sc in
     w_bind (w_check (version_ok (aq_expectedRunVersion q) \<and> text_ok 4096 (aq_reason q)) INVALID_REQUEST) (\<lambda>_.
     w_bind (authorize E p RunAbort (of_ws ws)) (\<lambda>a.
     w_bind (command_for P E KAbort p (ac_key i) (abort_json q) (of_ws ws) (Some (rsc_runId sc))) (\<lambda>c.
     control E (abort_run (AbortInput sc p a c (aq_expectedRunVersion q) (aq_reason q)
       (lifecycle_event (cm_operationId c) ws (Some (rsc_runId sc)) p ''run.aborted'' (cm_requestedAt c)) (cm_requestedAt c)))))))"

definition heartbeat_command :: "platform \<Rightarrow> environment \<Rightarrow> run_scope \<Rightarrow> heartbeat_request authenticated \<Rightarrow> command_result work" where
  "heartbeat_command P E sc i = (let q = ac_request i; p = ac_principal i; ws = rs_workspace sc in
     w_bind (w_check (version_ok (hq_expectedLeaseVersion q)) INVALID_REQUEST) (\<lambda>_.
     w_bind (authorize E p RunHeartbeat (of_ws ws)) (\<lambda>_.
     w_bind (command_for P E KRunHeartbeat p (ac_key i) (heartbeat_json q) (of_ws ws) (Some (rsc_runId sc))) (\<lambda>c.
     w_bind (ask E (\<lambda>s. Inr (get_run s ws (rsc_runId sc)))) (\<lambda>x.
     w_bind (w_found x (Fail RUN_NOT_FOUND)) (\<lambda>r.
     w_bind (runtime_now E) (\<lambda>t.
     control E (renew_run_lease (RenewLease sc p c (hq_expectedLeaseVersion q) t (extended E (en_leaseTtlMs E) t (rl_expiresAt (rn_lease r))))))))))))"

text \<open>A maintenance action: its operation id is the run's and the lease version's.\<close>

definition expire_command :: "environment \<Rightarrow> expired_active_run \<Rightarrow> (run \<times> cleanup) work" where
  "expire_command E x = (let ws = rs_workspace (xr_scope x) in
     w_bind (ask E (\<lambda>s. Inr (get_run s ws (rsc_runId (xr_scope x))))) (\<lambda>y.
     w_bind (w_found y (Fail RUN_NOT_FOUND)) (\<lambda>r.
     w_bind (runtime_now E) (\<lambda>t.
     w_bind (runtime_now E) (\<lambda>u.
     control E (expire_active_run (ExpireRun x t
       (lifecycle_event (''expiry-'' @ rn_id r @ ''-'' @ int_text (xr_expectedLeaseVersion x)) ws (Some (rn_id r)) (rn_principal r) ''run.expired'' u))))))))"

section \<open>Finalization\<close>

definition finalize_path :: "id \<Rightarrow> string" where
  "finalize_path rid = ''/v1/runs/'' @ rid @ ''/finalize''"

text \<open>A known command keeps the source and the candidate of its first claim; the request is the new one.\<close>

definition known_finalize_intent :: "id \<Rightarrow> finalize_body \<Rightarrow> operation \<Rightarrow> finalization_intent work" where
  "known_finalize_intent rid b o' =
     w_bind (w_check (op_kind o' = KFinalize) IDEMPOTENCY_KEY_REUSED) (\<lambda>_. case op_intent o' of
       FinalizeIntent f \<Rightarrow> w_return (FinalizationIntent (fi_schemaVersion f) (fi_kind f) (fi_mode f) (JsonRequest ''POST'' (finalize_path rid) b)
         (fi_source f) (fi_candidateIdentity f))
     | _ \<Rightarrow> w_throw Crash)"

definition new_finalize_intent :: "environment \<Rightarrow> run_scope \<Rightarrow> finalize_body \<Rightarrow> command_identity \<Rightarrow> finalization_intent work" where
  "new_finalize_intent E sc b c =
     w_bind (ask E (\<lambda>s. Inr (get_run s (rs_workspace sc) (rsc_runId sc)))) (\<lambda>x.
     w_bind (w_found x (Fail RUN_NOT_FOUND)) (\<lambda>r.
     if rn_mode r = ReadOnly then
       w_bind (w_check (fb_submissionId b = None) INVALID_REQUEST) (\<lambda>_.
       w_return (FinalizationIntent 1 KFinalize ReadOnly (JsonRequest ''POST'' (finalize_path (rn_id r)) (FinalizeBody (fb_expectedRunVersion b) None)) None None))
     else
       w_bind (w_found (fb_submissionId b) (Fail INVALID_REQUEST)) (\<lambda>sid.
       w_bind (w_check (sid \<noteq> []) INVALID_REQUEST) (\<lambda>_.
       w_bind (outside E (\<lambda>n. en_submission E n sc sid)) (\<lambda>y.
       w_bind (w_found y (Fail SUBMISSION_NOT_FOUND)) (\<lambda>m.
       w_bind (w_check (sm_state m = Sealed) RECEIPT_MISMATCH) (\<lambda>_.
       w_bind (w_found (sm_manifestDigest m) (Fail RECEIPT_MISMATCH)) (\<lambda>d.
       w_bind (w_check (d \<noteq> []) RECEIPT_MISMATCH) (\<lambda>_.
       w_bind (new_id E ''candidate'') (\<lambda>cid.
       w_bind (new_id E ''revision'') (\<lambda>vid.
       w_return (FinalizationIntent 1 KFinalize ReadWrite (JsonRequest ''POST'' (finalize_path (rn_id r)) (FinalizeBody (fb_expectedRunVersion b) (Some (sm_id m))))
         (Some (SealedSelection (sm_id m) (sm_version m) d))
         (Some (CandidateIdentity cid vid (cm_operationId c) (rn_scope r) (Some (rn_baseRevisionId r)) (cm_requestedAt c)))))))))))))))"

definition claim_finalization_command :: "platform \<Rightarrow> environment \<Rightarrow> run_scope \<Rightarrow> finalize_body authenticated \<Rightarrow> command_result work" where
  "claim_finalization_command P E sc i = (let b = ac_request i; p = ac_principal i; ws = rs_workspace sc in
     w_bind (w_check (version_ok (fb_expectedRunVersion b)) INVALID_REQUEST) (\<lambda>_.
     w_bind (authorize E p RunFinalize (of_ws ws)) (\<lambda>a.
     w_bind (command_for P E KFinalize p (ac_key i) (finalize_json b) (of_ws ws) (Some (rsc_runId sc))) (\<lambda>c.
     w_bind (ask E (\<lambda>s. Inr (find_operation s (cm_scope c) (cm_key c)))) (\<lambda>known.
     w_bind (case known of Some o' \<Rightarrow> known_finalize_intent (rsc_runId sc) b o' | None \<Rightarrow> new_finalize_intent E sc b c) (\<lambda>it.
     w_bind (runtime_now E) (\<lambda>t.
     control E (claim_finalization P (ClaimFinalization sc p a c (fb_expectedRunVersion b) it
       (ProcessingClaim (en_ownerId E) 1 (en_until E t (en_processingTtlMs E))) t)))))))))"

text \<open>\<open>convenienceOperation\<close>: only the claimant that is not a replay starts the work.\<close>

definition convenience_operation :: "platform \<Rightarrow> environment \<Rightarrow> operation \<Rightarrow> bool \<Rightarrow> operation work" where
  "convenience_operation P E o' replayed =
     (let observe = (if is_settled o' then w_return o'
        else w_bind (w_catch (ask E (\<lambda>s. Inr (get_operation s (op_scope o') (op_id o')))) (\<lambda>_. unknown)) (\<lambda>x. case x of
            None \<Rightarrow> unknown
          | Some q \<Rightarrow> if op_kind q = op_kind o' then w_return q else unknown));
      start = (\<lambda>c. process_operation P E (op_scope o') (op_id o') (pc_fence c)) in
      case op_claim o' of
        None \<Rightarrow> observe
      | Some c \<Rightarrow>
          if \<not> replayed \<and> op_state o' = OpProcessing \<and> pc_ownerId c = en_ownerId E
          then w_bind (runtime_now E) (\<lambda>t. if t < pc_expiresAt c then start c else observe)
          else observe)"

definition finalize_command :: "platform \<Rightarrow> environment \<Rightarrow> run_scope \<Rightarrow> finalize_body authenticated \<Rightarrow> operation work" where
  "finalize_command P E sc i =
     w_bind (claim_finalization_command P E sc i) (\<lambda>r.
     w_bind (convenience_operation P E (cx_operation r) (cx_replayed r)) (\<lambda>q.
     if op_kind q = KFinalize then w_return q else unknown))"

section \<open>Creating a workspace\<close>

definition create_json :: "create_body \<Rightarrow> json" where
  "create_json b = JObj [(''customerId'', JStr (cb_customerId b)), (''name'', JStr (cb_name b))]"

definition create_request :: "create_body \<Rightarrow> create_body json_request" where
  "create_request b = JsonRequest ''POST'' ''/v1/workspaces'' b"

definition known_creation_intent :: "create_body \<Rightarrow> operation \<Rightarrow> creation_intent work" where
  "known_creation_intent b o' =
     w_bind (w_check (op_kind o' = KWorkspaceCreate) IDEMPOTENCY_KEY_REUSED) (\<lambda>_. case op_intent o' of
       CreateIntent f \<Rightarrow> w_return (CreationIntent (wi_schemaVersion f) (wi_kind f) (create_request b) (wi_workspace f) (wi_binding f)
         (wi_candidateIdentity f) (wi_initialManifest f) (wi_initialManifestDigest f))
     | _ \<Rightarrow> w_throw Crash)"

definition draft_workspace :: "workspace_scope \<Rightarrow> string \<Rightarrow> id \<Rightarrow> storage_binding \<Rightarrow> timestamp \<Rightarrow> workspace" where
  "draft_workspace sc nm vid b t = \<lparr>ws_id = wsc_workspaceId sc, ws_customerId = wsc_customerId sc, ws_name = nm, ws_currentRevisionId = vid,
     ws_version = 1, ws_status = WsActive, ws_storageBindingId = sb_id b, ws_bindingGeneration = sb_generation b, ws_createdAt = t, ws_updatedAt = t\<rparr>"

definition new_creation_intent :: "platform \<Rightarrow> environment \<Rightarrow> create_body \<Rightarrow> command_identity \<Rightarrow> creation_intent work" where
  "new_creation_intent P E b c =
     w_bind (new_id E ''workspace'') (\<lambda>wid.
     let sc = WorkspaceScope (cb_customerId b) wid; t = cm_requestedAt c in
     w_bind (new_id E ''binding'') (\<lambda>bid.
     w_bind (outside E (\<lambda>n. en_binding E n sc bid t)) (\<lambda>sb.
     w_bind (new_id E ''revision'') (\<lambda>vid.
     w_bind (new_id E ''candidate'') (\<lambda>cid.
     w_bind (\<lambda>w. (w, manifest_digest P no_override (manifest_json (Manifest [])))) (\<lambda>d.
     w_return (CreationIntent 1 KWorkspaceCreate (create_request b) (draft_workspace sc (cb_name b) vid sb t) sb
       (CandidateIdentity cid vid (cm_operationId c) (BindingScope (wsc_customerId sc) (wsc_workspaceId sc) (sb_id sb) (sb_generation sb)) None t)
       (Manifest []) d)))))))"

definition claim_creation_command :: "platform \<Rightarrow> environment \<Rightarrow> create_body authenticated \<Rightarrow> (operation \<times> bool) work" where
  "claim_creation_command P E i = (let b = ac_request i; p = ac_principal i; customer = InCustomer (cb_customerId b) in
     w_bind (w_check (cb_customerId b \<noteq> [] \<and> text_ok 255 (cb_name b)) INVALID_REQUEST) (\<lambda>_.
     w_bind (authorize E p WorkspaceCreate customer) (\<lambda>a.
     w_bind (command_for P E KWorkspaceCreate p (ac_key i) (create_json b) customer None) (\<lambda>c.
     w_bind (ask E (\<lambda>s. Inr (find_operation s (cm_scope c) (cm_key c)))) (\<lambda>known.
     w_bind (case known of Some o' \<Rightarrow> known_creation_intent b o' | None \<Rightarrow> new_creation_intent P E b c) (\<lambda>it.
     w_bind (runtime_now E) (\<lambda>t.
     control E (claim_workspace_creation P (ClaimCreation p a c it (ProcessingClaim (en_ownerId E) 1 (en_until E t (en_processingTtlMs E))) t)))))))))"

datatype creation_result = CreationPending operation bool | CreationAccepted workspace operation bool

definition create_workspace_command :: "platform \<Rightarrow> environment \<Rightarrow> create_body authenticated \<Rightarrow> creation_result work" where
  "create_workspace_command P E i =
     w_bind (claim_creation_command P E i) (\<lambda>(o', replayed).
     w_bind (convenience_operation P E o' replayed) (\<lambda>q.
     if op_kind q \<noteq> KWorkspaceCreate then unknown
     else if op_state q = OpPending \<or> op_state q = OpProcessing then w_return (CreationPending q replayed)
     else if op_state q \<noteq> OpSucceeded then (case op_error q of None \<Rightarrow> unknown | Some e \<Rightarrow> w_throw (Fail (oe_code e)))
     else case op_intent q of CreateIntent f \<Rightarrow> w_return (CreationAccepted (wi_workspace f) q replayed) | _ \<Rightarrow> w_throw Crash))"

end
