(* ===== verification/Cv_Diff.thy ===== *)
theory Cv_Diff
  imports Cv_Manifest
begin

text \<open>
  The line comparison of \<open>diff\<close> in \<open>src/application/revisions/read.ts\<close>: a text is cut into lines that
  keep their terminators, the common first and last lines are dropped, and what remains is rendered as one
  hunk. The main result: the hunk as rendered turns the old text into the new one.
\<close>

section \<open>Lines\<close>

definition newline :: char where "newline = CHR 0x0A"

text \<open>The matches of \<open>/[^\n]*\n|[^\n]+$/g\<close>.\<close>

fun lines_of :: "string \<Rightarrow> string list" where
  "lines_of [] = []"
| "lines_of (c # cs) = (if c = newline then [c] # lines_of cs
     else case lines_of cs of [] \<Rightarrow> [[c]] | l # ls \<Rightarrow> (c # l) # ls)"

text \<open>The two loops of the comparison, by index as the code has them.\<close>

function same_prefix :: "string list \<Rightarrow> string list \<Rightarrow> nat \<Rightarrow> nat" where
  "same_prefix old new i =
     (if i < length old \<and> i < length new \<and> old ! i = new ! i then same_prefix old new (i + 1) else i)"
  by pat_completeness auto
termination by (relation "measure (\<lambda>(old, new, i). length old - i)") auto

function same_suffix :: "string list \<Rightarrow> string list \<Rightarrow> nat \<Rightarrow> nat \<Rightarrow> nat" where
  "same_suffix old new p i =
     (if i < length old - p \<and> i < length new - p \<and> old ! (length old - i - 1) = new ! (length new - i - 1)
      then same_suffix old new p (i + 1) else i)"
  by pat_completeness auto
termination by (relation "measure (\<lambda>(old, new, p, i). length old - i)") auto

declare same_prefix.simps [simp del] same_suffix.simps [simp del]

record line_change =
  lc_prefix :: nat
  lc_removed :: "string list"
  lc_added :: "string list"

definition line_diff :: "string \<Rightarrow> string \<Rightarrow> line_change" where
  "line_diff old new = (let ol = lines_of old; nl = lines_of new; p = same_prefix ol nl 0; q = same_suffix ol nl p 0 in
     \<lparr>lc_prefix = p, lc_removed = drop p (take (length ol - q) ol), lc_added = drop p (take (length nl - q) nl)\<rparr>)"

section \<open>Hunks\<close>

definition no_newline :: string where
  "no_newline = backslash # '' No newline at end of file''"

definition render_line :: "char \<Rightarrow> string \<Rightarrow> string list" where
  "render_line sign l = (if l \<noteq> [] \<and> last l = newline then [sign # butlast l] else [sign # l, no_newline])"

record hunk =
  hk_header :: string
  hk_content :: string

definition hunk_header :: "line_change \<Rightarrow> string" where
  "hunk_header d = (let at = int_text (int (lc_prefix d) + 1) in ''@@ -'' @ at @ '','' @ int_text (int (length (lc_removed d))) @
     '' +'' @ at @ '','' @ int_text (int (length (lc_added d))) @ '' @@'')"

definition hunks_of :: "line_change \<Rightarrow> hunk list" where
  "hunks_of d = (if lc_added d = [] \<and> lc_removed d = [] then []
     else [\<lparr>hk_header = hunk_header d, hk_content = join_with [newline]
       (concat (map (render_line (CHR ''-'')) (lc_removed d)) @ concat (map (render_line (CHR ''+'')) (lc_added d)))\<rparr>])"

section \<open>Lines make up their text\<close>

lemma concat_lines [simp]: "concat (lines_of s) = s"
  by (induction s) (auto split: list.splits)

text \<open>A line is not empty and holds no newline before its end; only the last may lack one.\<close>

definition line_ok :: "string \<Rightarrow> bool" where
  "line_ok l \<longleftrightarrow> l \<noteq> [] \<and> newline \<notin> set (butlast l)"

lemma lines_ok: "l \<in> set (lines_of s) \<Longrightarrow> line_ok l"
proof (induction s arbitrary: l)
  case (Cons c cs)
  consider "c = newline" | "c \<noteq> newline" "lines_of cs = []" | k ks where "c \<noteq> newline" "lines_of cs = k # ks"
    by (cases "lines_of cs") auto
  then show ?case
  proof cases
    case 1
    with Cons have "l = [c] \<or> l \<in> set (lines_of cs)" by simp
    with Cons.IH show ?thesis by (auto simp: line_ok_def)
  next
    case 2
    with Cons.prems show ?thesis by (simp add: line_ok_def)
  next
    case 3
    with Cons.IH have "line_ok k" by simp
    with Cons 3 show ?thesis by (auto simp: line_ok_def)
  qed
qed simp

section \<open>The two loops\<close>

lemma same_prefix_sound:
  assumes "take i old = take i new" and "i \<le> length old" and "i \<le> length new"
  shows "take (same_prefix old new i) old = take (same_prefix old new i) new \<and>
    same_prefix old new i \<le> length old \<and> same_prefix old new i \<le> length new"
  using assms
proof (induction old new i rule: same_prefix.induct)
  case (1 old new i)
  then show ?case by (subst (1 2 3 4) same_prefix.simps) (auto simp: take_Suc_conv_app_nth)
qed

lemma same_prefix_self: "i \<le> length xs \<Longrightarrow> same_prefix xs xs i = length xs"
proof (induction "length xs - i" arbitrary: i)
  case (Suc n)
  then show ?case by (simp add: same_prefix.simps [of xs xs i])
qed (simp add: same_prefix.simps)

lemma same_suffix_sound:
  assumes "drop (length old - i) old = drop (length new - i) new" and "i \<le> length old - p" and "i \<le> length new - p"
  shows "drop (length old - same_suffix old new p i) old = drop (length new - same_suffix old new p i) new \<and>
    same_suffix old new p i \<le> length old - p \<and> same_suffix old new p i \<le> length new - p"
  using assms
proof (induction old new p i rule: same_suffix.induct)
  case (1 old new p i)
  show ?case
  proof (cases "i < length old - p \<and> i < length new - p \<and> old ! (length old - i - 1) = new ! (length new - i - 1)")
    case True
    have d: "drop (length xs - (i + 1)) xs = xs ! (length xs - i - 1) # drop (length xs - i) xs" if "i < length xs" for xs :: "string list"
      using that Cons_nth_drop_Suc [of "length xs - (i + 1)" xs] by (simp add: Suc_diff_Suc)
    have "drop (length old - (i + 1)) old = drop (length new - (i + 1)) new"
      using True 1(2) d [of old] d [of new] by (simp add: less_diff_conv)
    with 1(1) True have "drop (length old - same_suffix old new p (i + 1)) old = drop (length new - same_suffix old new p (i + 1)) new \<and>
        same_suffix old new p (i + 1) \<le> length old - p \<and> same_suffix old new p (i + 1) \<le> length new - p" by simp
    with True show ?thesis by (simp add: same_suffix.simps [of old new p i])
  qed (use 1 in \<open>auto simp: same_suffix.simps [of old new p i]\<close>)
qed

lemma middle:
  assumes "p \<le> length xs - q" and "q \<le> length xs"
  shows "xs = take p xs @ drop p (take (length xs - q) xs) @ drop (length xs - q) xs"
proof -
  have "take (length xs - q) xs = take p xs @ drop p (take (length xs - q) xs)"
    using append_take_drop_id [of p "take (length xs - q) xs"] assms by (simp add: min_def)
  then show ?thesis by (metis append_assoc append_take_drop_id)
qed

text \<open>What is kept, removed and added make up the two texts.\<close>

lemma line_diff_sound:
  assumes "d = line_diff old new"
  shows "\<exists>pre post. lines_of old = pre @ lc_removed d @ post \<and> lines_of new = pre @ lc_added d @ post \<and> length pre = lc_prefix d"
proof -
  let ?o = "lines_of old" and ?n = "lines_of new"
  define p where "p = same_prefix ?o ?n 0"
  define q where "q = same_suffix ?o ?n p 0"
  have p: "take p ?o = take p ?n" "p \<le> length ?o" "p \<le> length ?n"
    using same_prefix_sound [of 0 ?o ?n] by (simp_all add: p_def)
  have q: "drop (length ?o - q) ?o = drop (length ?n - q) ?n" "q \<le> length ?o - p" "q \<le> length ?n - p"
    using same_suffix_sound [of ?o 0 ?n p] by (simp_all add: q_def)
  have "?o = take p ?o @ drop p (take (length ?o - q) ?o) @ drop (length ?o - q) ?o"
    "?n = take p ?n @ drop p (take (length ?n - q) ?n) @ drop (length ?n - q) ?n"
    using middle [of p ?o q] middle [of p ?n q] p q by simp_all
  with p q assms show ?thesis
    by (intro exI [of _ "take p ?o"] exI [of _ "drop (length ?o - q) ?o"]) (simp add: line_diff_def p_def q_def Let_def)
qed

section \<open>Reading a hunk back\<close>

text \<open>The rendered lines with their signs: a line is followed by the marker exactly when it had no newline.\<close>

fun unrender :: "string list \<Rightarrow> (char \<times> string) list" where
  "unrender [] = []"
| "unrender [l] = [(hd l, tl l @ [newline])]"
| "unrender (l # m # ls) = (if m = no_newline then (hd l, tl l) # unrender ls else (hd l, tl l @ [newline]) # unrender (m # ls))"

definition hunk_lines :: "hunk \<Rightarrow> (char \<times> string) list" where
  "hunk_lines h = unrender (split_on newline (hk_content h))"

definition signed_lines :: "char \<Rightarrow> (char \<times> string) list \<Rightarrow> string list" where
  "signed_lines sign ls = map snd (filter (\<lambda>l. fst l = sign) ls)"

text \<open>Apply a hunk to a text at the line its header names.\<close>

definition patch :: "nat \<Rightarrow> hunk list \<Rightarrow> string \<Rightarrow> string" where
  "patch p hs old = (case hs of [] \<Rightarrow> old | h # _ \<Rightarrow> (let ls = lines_of old; n = length (signed_lines (CHR ''-'') (hunk_lines h)) in
     concat (take p ls) @ concat (signed_lines (CHR ''+'') (hunk_lines h)) @ concat (drop (p + n) ls)))"

definition rendered :: "(char \<times> string) list \<Rightarrow> string list" where
  "rendered ls = concat (map (\<lambda>(sign, l). render_line sign l) ls)"

lemma render_parts:
  assumes "sign \<noteq> newline" and "line_ok l"
  shows "\<forall>r \<in> set (render_line sign l). newline \<notin> set r"
proof -
  have "newline \<notin> set no_newline" by code_simp
  moreover have "set l = insert (last l) (set (butlast l))"
    using assms(2) by (metis append_butlast_last_id line_ok_def list.simps(15) rotate1.simps(2) set_rotate1)
  ultimately show ?thesis using assms by (auto simp: render_line_def line_ok_def)
qed

lemma split_on_line: "newline \<notin> set r \<Longrightarrow> split_on newline (r @ newline # s) = r # split_on newline s"
  by (induction r) auto

lemma split_on_last: "newline \<notin> set r \<Longrightarrow> split_on newline r = [r]"
  by (induction r) auto

lemma split_join: "rs \<noteq> [] \<Longrightarrow> \<forall>r \<in> set rs. newline \<notin> set r \<Longrightarrow> split_on newline (join_with [newline] rs) = rs"
  by (induction "[newline]" rs rule: join_with.induct) (simp_all add: split_on_line split_on_last)

lemma unrender_line:
  assumes "line_ok l" and "sign \<noteq> backslash" and "case rs of [] \<Rightarrow> True | r # _ \<Rightarrow> r \<noteq> no_newline"
  shows "unrender (render_line sign l @ rs) = (sign, l) # unrender rs"
proof (cases "last l = newline")
  case True
  with assms(1) have "butlast l @ [newline] = l" by (metis append_butlast_last_id line_ok_def)
  with assms True show ?thesis by (cases rs) (auto simp: render_line_def line_ok_def)
next
  case False
  with assms show ?thesis by (auto simp: render_line_def)
qed

lemma render_first: "sign \<noteq> backslash \<Longrightarrow> \<exists>r rs. render_line sign l = r # rs \<and> r \<noteq> no_newline"
  by (auto simp: render_line_def no_newline_def)

lemma rendered_Nil: "rendered ls = [] \<longleftrightarrow> ls = []"
  by (cases ls) (auto simp: rendered_def render_line_def split: if_splits)

lemma unrender_rendered: "\<forall>(sign, l) \<in> set ls. line_ok l \<and> sign \<noteq> backslash \<Longrightarrow> unrender (rendered ls) = ls"
proof (induction ls)
  case (Cons a ls)
  obtain sign l where a: "a = (sign, l)" by fastforce
  have "case rendered ls of [] \<Rightarrow> True | r # _ \<Rightarrow> r \<noteq> no_newline"
  proof (cases ls)
    case (Cons b bs)
    obtain sg k where b: "b = (sg, k)" by fastforce
    with Cons.prems Cons obtain r rs where "render_line sg k = r # rs \<and> r \<noteq> no_newline" using render_first [of sg k] by auto
    with Cons b show ?thesis by (simp add: rendered_def)
  qed (simp add: rendered_def)
  with unrender_line [of l sign "rendered ls"] Cons a show ?case by (simp add: rendered_def)
qed (simp add: rendered_def)

definition change_lines :: "line_change \<Rightarrow> (char \<times> string) list" where
  "change_lines d = map (Pair (CHR ''-'')) (lc_removed d) @ map (Pair (CHR ''+'')) (lc_added d)"

lemma change_rendered:
  "rendered (change_lines d) = concat (map (render_line (CHR ''-'')) (lc_removed d)) @ concat (map (render_line (CHR ''+'')) (lc_added d))"
  by (simp add: rendered_def change_lines_def comp_def)

lemma sign_facts: "CHR ''-'' \<noteq> newline" "CHR ''+'' \<noteq> newline" "CHR ''-'' \<noteq> backslash" "CHR ''+'' \<noteq> backslash"
  by code_simp+

lemma change_ok:
  assumes "d = line_diff old new"
  shows "\<forall>l \<in> set (lc_removed d) \<union> set (lc_added d). line_ok l"
proof -
  obtain pre post where "lines_of old = pre @ lc_removed d @ post" "lines_of new = pre @ lc_added d @ post"
    using line_diff_sound [OF assms] by blast
  then have "set (lc_removed d) \<subseteq> set (lines_of old)" "set (lc_added d) \<subseteq> set (lines_of new)" by auto
  with lines_ok show ?thesis by blast
qed

lemma hunk_reads_back:
  assumes "d = line_diff old new" and "hunks_of d = [h]"
  shows "hunk_lines h = change_lines d"
proof -
  have ok: "\<forall>(sign, l) \<in> set (change_lines d). line_ok l \<and> sign \<noteq> backslash \<and> sign \<noteq> newline"
    using change_ok [OF assms(1)] sign_facts by (auto simp: change_lines_def)
  have "rendered (change_lines d) \<noteq> []"
    using assms(2) by (auto simp: rendered_Nil hunks_of_def change_lines_def split: if_splits)
  moreover have "\<forall>r \<in> set (rendered (change_lines d)). newline \<notin> set r"
    using ok render_parts by (fastforce simp: rendered_def)
  moreover have "hk_content h = join_with [newline] (rendered (change_lines d))"
    using assms(2) by (auto simp: hunks_of_def change_rendered split: if_splits)
  ultimately show ?thesis using ok by (simp add: hunk_lines_def split_join unrender_rendered case_prod_beta)
qed

lemma change_signed: "signed_lines (CHR ''-'') (change_lines d) = lc_removed d" "signed_lines (CHR ''+'') (change_lines d) = lc_added d"
  by (simp_all add: signed_lines_def change_lines_def filter_map comp_def)

lemma hunks_patch: "patch (lc_prefix (line_diff old new)) (hunks_of (line_diff old new)) old = new \<and>
   (hunks_of (line_diff old new) = [] \<longleftrightarrow> old = new)"
proof -
  define d where "d = line_diff old new"
  obtain pre post where l: "lines_of old = pre @ lc_removed d @ post" "lines_of new = pre @ lc_added d @ post" "length pre = lc_prefix d"
    using line_diff_sound [OF d_def] by blast
  have t: "old = concat pre @ concat (lc_removed d) @ concat post" "new = concat pre @ concat (lc_added d) @ concat post"
    using l(1,2) concat_lines by (metis concat_append)+
  show ?thesis unfolding d_def [symmetric]
  proof (cases "hunks_of d")
    case Nil
    with t show "patch (lc_prefix d) (hunks_of d) old = new \<and> (hunks_of d = [] \<longleftrightarrow> old = new)"
      by (auto simp: hunks_of_def patch_def split: if_splits)
  next
    case (Cons h hs)
    then have h: "hunks_of d = [h]" by (auto simp: hunks_of_def split: if_splits)
    from hunk_reads_back [OF d_def h] l t have "patch (lc_prefix d) (hunks_of d) old = new"
      by (simp add: patch_def h change_signed)
    moreover have "old \<noteq> new"
    proof
      assume "old = new"
      then have "lc_removed d = []" "lc_added d = []" by (simp_all add: d_def line_diff_def Let_def same_prefix_self)
      with h show False by (simp add: hunks_of_def)
    qed
    ultimately show "patch (lc_prefix d) (hunks_of d) old = new \<and> (hunks_of d = [] \<longleftrightarrow> old = new)" using h by simp
  qed
qed


end
