(* ===== verification/Cv_Readable.thy ===== *)
theory Cv_Readable
  imports Cv_Json "HOL-Library.Sublist"
begin

text \<open>
  Canonical texts are uniquely readable: the text of each construct is prefix free once what follows it
  starts with a delimiter. Two values with the same canonical text are equal up to the order of object
  keys, so \<open>canonicalJson\<close> may be compared and digested in place of the value.
\<close>

section \<open>Values up to the order of keys\<close>

fun sorted_json :: "json \<Rightarrow> json"
  and sorted_list :: "json list \<Rightarrow> json list"
  and sorted_pairs :: "(string \<times> json) list \<Rightarrow> (string \<times> json) list" where
  "sorted_json (JArr xs) = JArr (sorted_list xs)"
| "sorted_json (JObj ps) = JObj (sort_pairs (sorted_pairs ps))"
| "sorted_json v = v"
| "sorted_list [] = []"
| "sorted_list (x # xs) = sorted_json x # sorted_list xs"
| "sorted_pairs [] = []"
| "sorted_pairs ((k, v) # ps) = (k, sorted_json v) # sorted_pairs ps"

lemma sorted_list_map: "sorted_list xs = map sorted_json xs"
  by (induction xs) auto

lemma sorted_pairs_map: "sorted_pairs ps = map (\<lambda>(k, v). (k, sorted_json v)) ps"
  by (induction ps) auto

text \<open>A number outside the safe integers is printed with the characters of a number, never as a safe integer.\<close>

definition number_chars :: string where
  "number_chars = ''0123456789+-.e''"

definition number_text :: "string \<Rightarrow> bool" where
  "number_text t \<longleftrightarrow> t \<noteq> [] \<and> set t \<subseteq> set number_chars \<and> (\<forall>n. safe_integer n \<longrightarrow> t \<noteq> int_text n)"

fun plain :: "json \<Rightarrow> bool"
  and plain_list :: "json list \<Rightarrow> bool"
  and plain_pairs :: "(string \<times> json) list \<Rightarrow> bool" where
  "plain (JInt n) = safe_integer n"
| "plain (JNum t) = number_text t"
| "plain (JArr xs) = plain_list xs"
| "plain (JObj ps) = plain_pairs ps"
| "plain v = True"
| "plain_list [] = True"
| "plain_list (x # xs) = (plain x \<and> plain_list xs)"
| "plain_pairs [] = True"
| "plain_pairs ((k, v) # ps) = (plain v \<and> plain_pairs ps)"

lemma plain_list_all: "plain_list xs \<longleftrightarrow> (\<forall>x \<in> set xs. plain x)"
  by (induction xs) auto

lemma plain_pairs_all: "plain_pairs ps \<longleftrightarrow> (\<forall>p \<in> set ps. plain (snd p))"
  by (induction ps) auto

section \<open>Numbers\<close>

definition digits_value :: "string \<Rightarrow> nat" where
  "digits_value t = foldl (\<lambda>n c. 10 * n + (of_char c - 48)) 0 t"

lemma digits_value_of [simp]: "digits_value (digits_of n) = n"
proof (induction n rule: digits_of.induct)
  case (1 n)
  then show ?case by (subst digits_of.simps) (auto simp: digits_value_def)
qed

definition decimals :: "char set" where
  "decimals = set ''0123456789''"

lemma digits_chars: "set (digits_of n) \<subseteq> decimals \<and> digits_of n \<noteq> []"
proof (induction n rule: digits_of.induct)
  case (1 n)
  have "\<forall>m \<in> set [0..<10]. (char_of (48 + m) :: char) \<in> decimals" by code_simp
  then have "(char_of (48 + m) :: char) \<in> decimals" if "m < 10" for m :: nat using that by simp
  from this [of n] this [of "n mod 10"] 1 show ?case by (subst (1 2) digits_of.simps) (simp add: less_imp_le)
qed

lemma digits_inj [simp]: "digits_of m = digits_of n \<longleftrightarrow> m = n"
  by (metis digits_value_of)

lemma decimals_number: "decimals \<subseteq> set number_chars" and sign_number: "CHR ''-'' \<in> set number_chars" and
  sign_no_decimal: "CHR ''-'' \<notin> decimals"
  by code_simp+

lemma int_text_chars: "set (int_text n) \<subseteq> set number_chars \<and> int_text n \<noteq> []"
proof (cases "n < 0")
  case True
  with digits_chars [of "nat (- n)"] decimals_number sign_number show ?thesis unfolding int_text_def by auto
next
  case False
  with digits_chars [of "nat n"] decimals_number show ?thesis unfolding int_text_def by auto
qed

lemma digits_no_sign: "digits_of n \<noteq> CHR ''-'' # t"
proof
  assume "digits_of n = CHR ''-'' # t"
  with digits_chars [of n] sign_no_decimal show False by simp
qed

lemma int_text_inj [simp]: "int_text m = int_text n \<longleftrightarrow> m = n"
  using digits_no_sign digits_no_sign [symmetric] by (auto simp: int_text_def)

section \<open>Strings\<close>

definition special_chars :: string where
  "special_chars = map char_of ([0..<32] @ [34, 92 :: nat])"

lemma escape_ordinary: "c \<notin> set special_chars \<Longrightarrow> escape_char c = [c]"
proof -
  assume c: "c \<notin> set special_chars"
  have "\<not> (of_char c :: nat) < 32"
  proof
    assume "(of_char c :: nat) < 32"
    then have "char_of (of_char c :: nat) \<in> set special_chars" unfolding special_chars_def set_map by (intro imageI) simp
    with c show False by simp
  qed
  moreover have "c \<noteq> quote_char" "c \<noteq> backslash" using c unfolding special_chars_def quote_char_def backslash_def by auto
  ultimately show ?thesis by (simp add: escape_char_def Let_def)
qed

lemma escape_special: "\<forall>c \<in> set special_chars. \<exists>t. escape_char c = backslash # t"
proof -
  have "\<forall>c \<in> set special_chars. hd (escape_char c) = backslash \<and> escape_char c \<noteq> []" by code_simp
  then show ?thesis by (metis list.collapse)
qed

lemma special_delimiters: "quote_char \<in> set special_chars" "backslash \<in> set special_chars" "quote_char \<noteq> backslash"
  by code_simp+

lemma special_distinct: "distinct (map escape_char special_chars)"
  by code_simp

lemma special_length: "\<forall>c \<in> set special_chars. length (escape_char c) = (if escape_char c ! 1 = CHR ''u'' then 6 else 2)"
  by code_simp

lemma special_prefix:
  assumes "c \<in> set special_chars" and "d \<in> set special_chars" and "prefix (escape_char c) (escape_char d)"
  shows "c = d"
proof -
  obtain r where r: "escape_char d = escape_char c @ r" using assms(3) prefixE by blast
  then have "escape_char d ! 1 = escape_char c ! 1" using special_length assms(1) by (auto simp: nth_append split: if_splits)
  then have "length (escape_char d) = length (escape_char c)" using special_length assms(1,2) by metis
  with r have "escape_char c = escape_char d" by simp
  with special_distinct assms(1,2) show ?thesis by (simp add: distinct_map inj_on_def)
qed

lemma escape_not_quote: "escape_char c \<noteq> [] \<and> hd (escape_char c) \<noteq> quote_char"
  using escape_ordinary [of c] escape_special special_delimiters by (cases "c \<in> set special_chars") auto

lemma escape_unique:
  assumes "escape_char c @ x = escape_char d @ y"
  shows "c = d \<and> x = y"
proof -
  have "c = d"
  proof (cases "c \<in> set special_chars")
    case True
    then obtain t where "escape_char c = backslash # t" using escape_special by blast
    with assms escape_ordinary [of d] special_delimiters have "d \<in> set special_chars" by (cases "d \<in> set special_chars") auto
    moreover have "prefix (escape_char c) (escape_char d) \<or> prefix (escape_char d) (escape_char c)"
      using assms by (metis prefixI prefix_same_cases)
    ultimately show ?thesis using True special_prefix by blast
  next
    case False
    with assms escape_ordinary [of c] escape_ordinary [of d] escape_special special_delimiters show ?thesis
      by (cases "d \<in> set special_chars") auto
  qed
  with assms show ?thesis by simp
qed

lemma escape_string_unique:
  "escape_string s @ quote_char # x = escape_string t @ quote_char # y \<Longrightarrow> s = t \<and> x = y"
proof (induction s arbitrary: t)
  case Nil
  show ?case
  proof (cases t)
    case (Cons d ds)
    with Nil escape_not_quote [of d] show ?thesis by (cases "escape_char d") (auto simp: escape_string_def)
  qed (use Nil in \<open>simp add: escape_string_def\<close>)
next
  case (Cons c cs)
  show ?case
  proof (cases t)
    case Nil
    with Cons.prems escape_not_quote [of c] show ?thesis by (cases "escape_char c") (auto simp: escape_string_def)
  next
    case t: (Cons d ds)
    have "escape_char c @ (escape_string cs @ quote_char # x) = escape_char d @ (escape_string ds @ quote_char # y)"
      using Cons.prems t by (simp add: escape_string_def)
    from escape_unique [OF this] Cons.IH t show ?thesis by blast
  qed
qed

lemma json_string_unique: "json_string s @ x = json_string t @ y \<Longrightarrow> s = t \<and> x = y"
  unfolding json_string_def append_Cons append_assoc append_Nil list.inject by (rule escape_string_unique) (rule conjunct2)

section \<open>Values\<close>

text \<open>What may follow a value: nothing, a comma or a closing bracket.\<close>

definition delimited :: "string \<Rightarrow> bool" where
  "delimited x \<longleftrightarrow> (case x of [] \<Rightarrow> True | c # _ \<Rightarrow> c = CHR '','' \<or> c = CHR '']'' \<or> c = CHR ''}'')"

definition readable :: "json \<Rightarrow> bool" where
  "readable a \<longleftrightarrow> (\<forall>b t u x y. canonical_json a = Inr t \<and> canonical_json b = Inr u \<and> plain a \<and> plain b \<and>
     delimited x \<and> delimited y \<and> t @ x = u @ y \<longrightarrow> sorted_json a = sorted_json b \<and> x = y)"

lemma readableD:
  assumes "readable a" and "canonical_json a = Inr t" and "canonical_json b = Inr u" and "plain a" and "plain b"
    and "delimited x" and "delimited y" and "t @ x = u @ y"
  shows "sorted_json a = sorted_json b \<and> x = y"
  using assms unfolding readable_def by blast

lemma delimiter_facts: "CHR '','' \<notin> set number_chars" "CHR '']'' \<notin> set number_chars" "CHR ''}'' \<notin> set number_chars"
  by code_simp+

lemma number_end: "delimited x \<Longrightarrow> takeWhile (\<lambda>c. c \<in> set number_chars) x = []"
  using delimiter_facts by (auto simp: delimited_def split: list.splits)

lemma number_unique:
  assumes "set t \<subseteq> set number_chars" and "set u \<subseteq> set number_chars" and "delimited x" and "delimited y" and "t @ x = u @ y"
  shows "t = u \<and> x = y"
proof -
  have "takeWhile (\<lambda>c. c \<in> set number_chars) (t @ x) = t" "takeWhile (\<lambda>c. c \<in> set number_chars) (u @ y) = u"
    using assms(1-4) number_end by (auto simp: takeWhile_append2 subset_iff)
  with assms(5) show ?thesis by (metis same_append_eq)
qed

text \<open>The first character of a text tells the kind of its value.\<close>

definition starts :: "string \<Rightarrow> char \<Rightarrow> bool" where
  "starts t c \<longleftrightarrow> (\<exists>r. t = c # r)"

lemma starts_unique: "t @ x = u @ y \<Longrightarrow> starts t c \<Longrightarrow> starts u d \<Longrightarrow> c = d"
  by (auto simp: starts_def)

fun first_char :: "json \<Rightarrow> char set" where
  "first_char JNull = {CHR ''n''}"
| "first_char (JBool b) = {if b then CHR ''t'' else CHR ''f''}"
| "first_char (JInt n) = set number_chars"
| "first_char (JNum t) = set number_chars"
| "first_char (JStr s) = {quote_char}"
| "first_char (JArr xs) = {CHR ''[''}"
| "first_char (JObj ps) = {CHR ''{''}"
| "first_char JOther = {}"

lemma canonical_starts:
  assumes "canonical_json a = Inr t" and "plain a"
  shows "\<exists>c \<in> first_char a. starts t c"
proof -
  have num: "\<exists>c \<in> set number_chars. starts w c" if "w \<noteq> [] \<and> set w \<subseteq> set number_chars" for w
    using that by (cases w) (auto simp: starts_def)
  show ?thesis
  proof (cases a)
    case (JInt n)
    with assms num [OF conjI] int_text_chars [of n] show ?thesis by auto
  next
    case (JNum w)
    with assms num [OF conjI, of w] show ?thesis by (auto simp: number_text_def)
  qed (use assms in \<open>auto simp: starts_def json_string_def sbind_eq_Inr invalid_request_def\<close>)
qed

lemma kind_chars:
  "quote_char \<notin> set number_chars" "CHR ''n'' \<notin> set number_chars" "CHR ''t'' \<notin> set number_chars" "CHR ''f'' \<notin> set number_chars"
  "CHR ''['' \<notin> set number_chars" "CHR ''{'' \<notin> set number_chars" "quote_char \<noteq> CHR ''n''" "quote_char \<noteq> CHR ''t''" "quote_char \<noteq> CHR ''f''"
  "quote_char \<noteq> CHR ''[''" "quote_char \<noteq> CHR ''{''" "quote_char \<noteq> CHR '']''" "quote_char \<noteq> CHR ''}''"
  by code_simp+

section \<open>Arrays and objects\<close>

definition more :: "string list \<Rightarrow> string" where
  "more ts = concat (map ((#) CHR '','') ts)"

lemma more_Cons: "more (t # ts) = CHR '','' # t @ more ts"
  by (simp add: more_def)

lemma join_more: "join_with '','' (t # ts) = t @ more ts"
  by (induction ts arbitrary: t) (auto simp: more_def)

lemma delimited_more: "delimited (more ts @ CHR '']'' # x)" "delimited (more ts @ CHR ''}'' # x)"
  by (cases ts; simp add: more_def delimited_def)+

lemma more_arr_Nil: "more [] @ CHR '']'' # x = more us @ CHR '']'' # y \<longleftrightarrow> us = [] \<and> x = y"
  by (cases us) (auto simp: more_def)

lemma list_unique:
  assumes "\<forall>v \<in> set xs. readable v" and "canonical_list xs = Inr ts" and "canonical_list ys = Inr us"
    and "plain_list xs" and "plain_list ys" and "more ts @ CHR '']'' # x = more us @ CHR '']'' # y"
  shows "sorted_list xs = sorted_list ys \<and> x = y"
  using assms
proof (induction xs arbitrary: ys ts us)
  case Nil
  then show ?case by (cases ys) (auto simp: more_def sbind_eq_Inr)
next
  case (Cons v vs)
  obtain t ts' where t: "canonical_json v = Inr t" "canonical_list vs = Inr ts'" "ts = t # ts'"
    using Cons.prems(2) by (auto simp: sbind_eq_Inr)
  show ?case
  proof (cases ys)
    case Nil
    with Cons.prems t show ?thesis by (simp add: more_def)
  next
    case ys: (Cons w ws)
    obtain u us' where u: "canonical_json w = Inr u" "canonical_list ws = Inr us'" "us = u # us'"
      using Cons.prems(3) ys by (auto simp: sbind_eq_Inr)
    have "t @ (more ts' @ CHR '']'' # x) = u @ (more us' @ CHR '']'' # y)" using Cons.prems(6) t u by (simp add: more_def)
    from readableD [OF _ t(1) u(1) _ _ delimited_more(1) delimited_more(1) this] Cons.prems(1,4,5) ys
    have "sorted_json v = sorted_json w \<and> more ts' @ CHR '']'' # x = more us' @ CHR '']'' # y" by simp
    with Cons.IH [OF _ t(2) u(2)] Cons.prems ys show ?thesis by simp
  qed
qed

text \<open>The text of the members after the first, each after its comma.\<close>

definition member_text :: "string \<times> string \<Rightarrow> string" where
  "member_text m = json_string (fst m) @ CHR '':'' # snd m"

lemma member_text_pair: "member_text (k, t) = json_string k @ CHR '':'' # t"
  by (simp add: member_text_def)

lemma pairs_unique:
  assumes "\<forall>p \<in> set ps. readable (snd p)" and "canonical_pairs ps = Inr ts" and "canonical_pairs qs = Inr us"
    and "plain_pairs ps" and "plain_pairs qs"
    and "more (map member_text ts) @ CHR ''}'' # x = more (map member_text us) @ CHR ''}'' # y"
  shows "sorted_pairs ps = sorted_pairs qs \<and> x = y"
  using assms
proof (induction ps arbitrary: qs ts us)
  case Nil
  then show ?case by (cases qs) (auto simp: more_def sbind_eq_Inr)
next
  case (Cons p ps')
  obtain k v where p: "p = (k, v)" by fastforce
  obtain t ts' where t: "canonical_json v = Inr t" "canonical_pairs ps' = Inr ts'" "ts = (k, t) # ts'"
    using Cons.prems(2) p by (auto simp: sbind_eq_Inr)
  show ?case
  proof (cases qs)
    case Nil
    with Cons.prems t show ?thesis by (simp add: more_def)
  next
    case qs: (Cons q qs')
    obtain l w where q: "q = (l, w)" by fastforce
    obtain u us' where u: "canonical_json w = Inr u" "canonical_pairs qs' = Inr us'" "us = (l, u) # us'"
      using Cons.prems(3) qs q by (auto simp: sbind_eq_Inr)
    let ?x = "more (map member_text ts') @ CHR ''}'' # x" and ?y = "more (map member_text us') @ CHR ''}'' # y"
    have "json_string k @ CHR '':'' # t @ ?x = json_string l @ CHR '':'' # u @ ?y"
      using Cons.prems(6) t u by (simp add: more_Cons member_text_pair)
    from json_string_unique [OF this] have k: "k = l" and "t @ ?x = u @ ?y" by auto
    from readableD [OF _ t(1) u(1) _ _ delimited_more(2) delimited_more(2) this(2)] Cons.prems(1,4,5) qs p q
    have "sorted_json v = sorted_json w \<and> ?x = ?y" by simp
    with Cons.IH [OF _ t(2) u(2)] Cons.prems qs p q k show ?thesis by simp
  qed
qed

text \<open>Sorting by key only looks at the keys.\<close>

lemma insert_pair_map: "insert_pair (fst p, f p) (map (\<lambda>q. (fst q, f q)) qs) = map (\<lambda>q. (fst q, f q)) (insert_pair p qs)"
  by (induction qs) auto

lemma sort_pairs_map: "sort_pairs (map (\<lambda>q. (fst q, f q)) ps) = map (\<lambda>q. (fst q, f q)) (sort_pairs ps)"
  by (induction ps) (auto simp: sort_pairs_def insert_pair_map)

lemma set_insert_pair [simp]: "set (insert_pair p qs) = insert p (set qs)"
  by (induction qs) auto

lemma set_sort_pairs [simp]: "set (sort_pairs ps) = set ps"
  by (induction ps) (auto simp: sort_pairs_def)

definition text_of :: "json \<Rightarrow> string" where
  "text_of v = (case canonical_json v of Inr t \<Rightarrow> t | Inl _ \<Rightarrow> [])"

lemma canonical_pairs_iff:
  "canonical_pairs ps = Inr ts \<longleftrightarrow> (\<forall>p \<in> set ps. \<exists>t. canonical_json (snd p) = Inr t) \<and> ts = map (\<lambda>p. (fst p, text_of (snd p))) ps"
proof (induction ps arbitrary: ts)
  case (Cons p ps)
  then show ?case by (cases p) (auto simp: sbind_eq_Inr text_of_def)
qed auto

lemma canonical_pairs_sorted: "canonical_pairs ps = Inr ts \<Longrightarrow> canonical_pairs (sort_pairs ps) = Inr (sort_pairs ts)"
  by (simp add: canonical_pairs_iff sort_pairs_map)

lemma sorted_pairs_sort: "sorted_pairs (sort_pairs ps) = sort_pairs (sorted_pairs ps)"
proof -
  have "sorted_pairs qs = map (\<lambda>q. (fst q, sorted_json (snd q))) qs" for qs by (induction qs) auto
  then show ?thesis by (simp add: sort_pairs_map)
qed

lemma plain_pairs_sort [simp]: "plain_pairs (sort_pairs ps) = plain_pairs ps"
  by (simp add: plain_pairs_all)

lemma same_first:
  assumes "canonical_json a = Inr t" and "canonical_json b = Inr u" and "plain a" and "plain b" and "t @ x = u @ y"
  shows "\<exists>c. c \<in> first_char a \<and> c \<in> first_char b"
  using canonical_starts [OF assms(1,3)] canonical_starts [OF assms(2,4)] starts_unique [OF assms(5)] by blast

lemma kind_of_first:
  "CHR ''['' \<in> first_char b \<Longrightarrow> \<exists>ys. b = JArr ys"
  "CHR ''{'' \<in> first_char b \<Longrightarrow> \<exists>qs. b = JObj qs"
  "quote_char \<in> first_char b \<Longrightarrow> \<exists>s. b = JStr s"
  "CHR ''n'' \<in> first_char b \<Longrightarrow> b = JNull"
  "CHR ''t'' \<in> first_char b \<Longrightarrow> b = JBool True"
  "CHR ''f'' \<in> first_char b \<Longrightarrow> b = JBool False"
  by (cases b; simp add: kind_chars kind_chars(7-11) [symmetric] split: if_splits)+

lemma no_bracket_first: "CHR '']'' \<notin> first_char b"
  by (cases b) (use delimiter_facts kind_chars(12) in auto)

lemma join_eq_more:
  assumes "ts = [] \<longleftrightarrow> us = []"
  shows "join_with '','' ts @ x = join_with '','' us @ y \<longleftrightarrow> more ts @ x = more us @ y"
  using assms by (cases ts; cases us) (simp_all add: join_more more_Cons)

lemma array_nonempty:
  assumes "canonical_list xs = Inr ts" and "plain_list xs" and "join_with '','' ts @ CHR '']'' # x = CHR '']'' # y"
  shows "ts = []"
proof (cases xs)
  case (Cons v vs)
  then obtain t ts' where t: "canonical_json v = Inr t" "ts = t # ts'" using assms(1) by (auto simp: sbind_eq_Inr)
  obtain c where c: "c \<in> first_char v" "starts t c" using canonical_starts [OF t(1)] assms(2) Cons by auto
  with assms(3) t have "c = CHR '']''" by (auto simp: join_more starts_def)
  with c no_bracket_first show ?thesis by simp
qed (use assms in simp)

lemma array_readable:
  assumes "\<forall>v \<in> set xs. readable v"
  shows "readable (JArr xs)"
  unfolding readable_def
proof (intro allI impI, elim conjE)
  fix b t u x y
  assume a: "canonical_json (JArr xs) = Inr t" "canonical_json b = Inr u" "plain (JArr xs)" "plain b"
    "delimited x" "delimited y" "t @ x = u @ y"
  obtain ts where ts: "canonical_list xs = Inr ts" "t = ''['' @ join_with '','' ts @ '']''" using a(1) by (auto simp: sbind_eq_Inr)
  obtain ys where ys: "b = JArr ys" using same_first [OF a(1,2,3,4,7)] kind_of_first(1) by auto
  obtain us where us: "canonical_list ys = Inr us" "u = ''['' @ join_with '','' us @ '']''" using a(2) ys by (auto simp: sbind_eq_Inr)
  have p: "plain_list xs" "plain_list ys" using a(3,4) ys by auto
  have j: "join_with '','' ts @ CHR '']'' # x = join_with '','' us @ CHR '']'' # y" using a(7) ts us by simp
  have "ts = [] \<longleftrightarrow> us = []"
    using array_nonempty [OF ts(1) p(1), of x y] array_nonempty [OF us(1) p(2), of y x] j by auto
  then have "more ts @ CHR '']'' # x = more us @ CHR '']'' # y" using j by (simp only: join_eq_more)
  from list_unique [OF assms ts(1) us(1) p this] ys show "sorted_json (JArr xs) = sorted_json b \<and> x = y" by simp
qed

lemma object_readable:
  assumes "\<forall>p \<in> set ps. readable (snd p)"
  shows "readable (JObj ps)"
  unfolding readable_def
proof (intro allI impI, elim conjE)
  fix b t u x y
  assume a: "canonical_json (JObj ps) = Inr t" "canonical_json b = Inr u" "plain (JObj ps)" "plain b"
    "delimited x" "delimited y" "t @ x = u @ y"
  have m: "(\<lambda>(k, t). json_string k @ CHR '':'' # t) = member_text" by (auto simp: member_text_def)
  obtain ts where ts: "canonical_pairs ps = Inr ts" "t = ''{'' @ join_with '','' (map member_text (sort_pairs ts)) @ ''}''"
    using a(1) by (auto simp: sbind_eq_Inr m)
  obtain qs where qs: "b = JObj qs" using same_first [OF a(1,2,3,4,7)] kind_of_first(2) by auto
  obtain us where us: "canonical_pairs qs = Inr us" "u = ''{'' @ join_with '','' (map member_text (sort_pairs us)) @ ''}''"
    using a(2) qs by (auto simp: sbind_eq_Inr m)
  have p: "plain_pairs (sort_pairs ps)" "plain_pairs (sort_pairs qs)" using a(3,4) qs by auto
  have j: "join_with '','' (map member_text (sort_pairs ts)) @ CHR ''}'' # x = join_with '','' (map member_text (sort_pairs us)) @ CHR ''}'' # y"
    using a(7) ts us by simp
  have ne: "join_with '','' (map member_text ms) @ CHR ''}'' # v \<noteq> CHR ''}'' # w" if "ms \<noteq> []" for ms v w
    using that by (cases ms) (auto simp: join_more member_text_def json_string_def kind_chars)
  have "map member_text (sort_pairs ts) = [] \<longleftrightarrow> map member_text (sort_pairs us) = []"
    using ne j by (metis append_Nil join_with.simps(1) list.map(1))
  then have "more (map member_text (sort_pairs ts)) @ CHR ''}'' # x = more (map member_text (sort_pairs us)) @ CHR ''}'' # y"
    using j by (simp only: join_eq_more)
  from pairs_unique [OF _ canonical_pairs_sorted [OF ts(1)] canonical_pairs_sorted [OF us(1)] p this] assms qs
  show "sorted_json (JObj ps) = sorted_json b \<and> x = y" by (simp add: sorted_pairs_sort)
qed

lemma number_readable:
  assumes "a = JInt n \<or> a = JNum w"
  shows "readable a"
  unfolding readable_def
proof (intro allI impI, elim conjE)
  fix b t u x y
  assume a: "canonical_json a = Inr t" "canonical_json b = Inr u" "plain a" "plain b" "delimited x" "delimited y" "t @ x = u @ y"
  obtain c where c: "c \<in> set number_chars" "c \<in> first_char b" using same_first [OF a(1,2,3,4,7)] assms by auto
  then have b: "(\<exists>m. b = JInt m) \<or> (\<exists>v. b = JNum v)" using kind_chars by (cases b) (auto split: if_splits)
  have "set t \<subseteq> set number_chars" "set u \<subseteq> set number_chars"
    using a(1,2,3,4) b assms by (auto simp: number_text_def dest: int_text_chars [THEN conjunct1, THEN subsetD])
  from number_unique [OF this a(5,6,7)] a(1-4) b assms show "sorted_json a = sorted_json b \<and> x = y"
    by (auto simp: number_text_def)
qed

lemma word_readable: "readable JNull" "readable (JBool c)" "readable (JStr s)" "readable JOther"
proof -
  show "readable JNull" unfolding readable_def
  proof (intro allI impI, elim conjE)
    fix b t u x y
    assume a: "canonical_json JNull = Inr t" "canonical_json b = Inr u" "plain JNull" "plain b" "delimited x" "delimited y" "t @ x = u @ y"
    have "b = JNull" using same_first [OF a(1,2,3,4,7)] kind_of_first(4) by auto
    with a show "sorted_json JNull = sorted_json b \<and> x = y" by simp
  qed
  show "readable (JBool c)" unfolding readable_def
  proof (intro allI impI, elim conjE)
    fix b t u x y
    assume a: "canonical_json (JBool c) = Inr t" "canonical_json b = Inr u" "plain (JBool c)" "plain b" "delimited x" "delimited y" "t @ x = u @ y"
    have "b = JBool c" using same_first [OF a(1,2,3,4,7)] kind_of_first(5,6) by (cases c) auto
    with a show "sorted_json (JBool c) = sorted_json b \<and> x = y" by auto
  qed
  show "readable (JStr s)" unfolding readable_def
  proof (intro allI impI, elim conjE)
    fix b t u x y
    assume a: "canonical_json (JStr s) = Inr t" "canonical_json b = Inr u" "plain (JStr s)" "plain b" "delimited x" "delimited y" "t @ x = u @ y"
    obtain v where v: "b = JStr v" using same_first [OF a(1,2,3,4,7)] kind_of_first(3) by auto
    have "t = json_string s" "u = json_string v" using a(1,2) v by simp_all
    with a(7) have "json_string s @ x = json_string v @ y" by (simp only:)
    from json_string_unique [OF this] v show "sorted_json (JStr s) = sorted_json b \<and> x = y" by auto
  qed
qed (simp add: readable_def invalid_request_def)

lemma all_readable: "readable a"
proof (induction a)
  case (JInt n)
  show ?case by (rule number_readable) (rule disjI1, rule refl)
next
  case (JNum w)
  show ?case by (rule number_readable) (rule disjI2, rule refl)
next
  case (JObj ps)
  then have "\<forall>p \<in> set ps. readable (snd p)" by (auto simp: snds.simps)
  then show ?case by (rule object_readable)
qed (simp_all add: word_readable array_readable)

section \<open>Equal texts are equal values\<close>

lemma sort_pairs_sorted: "sort_pairs (sort_pairs ps) = sort_pairs (ps :: (string \<times> 'a) list)"
proof -
  have i: "insert_pair p rs = insort_key fst p rs" for p and rs :: "(string \<times> 'a) list" by (induction rs) auto
  have "insert_pair = (insort_key fst :: string \<times> 'a \<Rightarrow> _)" by (intro ext) (rule i)
  then have k: "sort_pairs qs = sort_key fst qs" for qs :: "(string \<times> 'a) list"
    by (simp add: sort_pairs_def sort_key_def)
  show ?thesis by (simp add: k sort_key_id_if_sorted)
qed

lemma canonical_error:
  "canonical_json a = Inl e \<Longrightarrow> e = Fail INVALID_REQUEST"
  "canonical_list xs = Inl e \<Longrightarrow> e = Fail INVALID_REQUEST"
  "canonical_pairs ps = Inl e \<Longrightarrow> e = Fail INVALID_REQUEST"
  by (induction a and xs and ps rule: canonical_json_canonical_list_canonical_pairs.induct)
    (auto simp: sbind_eq_Inl invalid_request_def)

lemma canonical_pairs_error: "canonical_pairs ps = Inl e \<longleftrightarrow> e = Fail INVALID_REQUEST \<and> \<not> (\<forall>p \<in> set ps. \<exists>t. canonical_json (snd p) = Inr t)"
  using canonical_pairs_iff [of ps] canonical_error(3) [of ps] by (cases "canonical_pairs ps") auto

lemma canonical_sorted: "canonical_json (sorted_json a) = canonical_json a"
proof (induction a)
  case (JArr xs)
  then have "canonical_list (sorted_list xs) = canonical_list xs" by (induction xs) auto
  then show ?case by simp
next
  case (JObj ps)
  then have "\<forall>p \<in> set ps. canonical_json (sorted_json (snd p)) = canonical_json (snd p)" by (auto simp: snds.simps)
  then have e: "canonical_pairs (sorted_pairs ps) = canonical_pairs ps" by (induction ps) auto
  show ?case
  proof (cases "canonical_pairs ps")
    case (Inl f)
    with e have "canonical_pairs (sort_pairs (sorted_pairs ps)) = Inl f" by (simp add: canonical_pairs_error)
    with Inl show ?thesis by simp
  next
    case (Inr ts)
    with e canonical_pairs_sorted have "canonical_pairs (sort_pairs (sorted_pairs ps)) = Inr (sort_pairs ts)" by metis
    with Inr show ?thesis by (simp add: sort_pairs_sorted)
  qed
qed simp_all

text \<open>C11: Two values have the same canonical JSON exactly when they are equal up to the order of object
  keys, at every depth; comparing canonical texts is comparing values.\<close>

theorem canonical_text_is_value:
  assumes "canonical_json a = Inr t" and "canonical_json b = Inr u" and "plain a" and "plain b"
  shows "t = u \<longleftrightarrow> sorted_json a = sorted_json b"
proof
  assume "t = u"
  then have "t @ [] = u @ []" by simp
  with readableD [OF all_readable assms(1,2,3,4) _ _ this] show "sorted_json a = sorted_json b" by (simp add: delimited_def)
next
  assume "sorted_json a = sorted_json b"
  with assms(1,2) canonical_sorted show "t = u" by (metis sum.inject(2))
qed

definition sample_object :: json where
  "sample_object = JObj [(''b'', JArr [JInt 1, JObj []]), (''a'', JStr [quote_char])]"

theorem canonical_text_is_value_witness:
  "canonical_json sample_object \<noteq> canonical_json (JObj [(''a'', JStr [quote_char]), (''b'', JArr [JInt 1, JNull])])"
proof
  let ?b = "JObj [(''a'', JStr [quote_char]), (''b'', JArr [JInt 1, JNull])]"
  assume e: "canonical_json sample_object = canonical_json ?b"
  obtain t where t: "canonical_json sample_object = Inr t" by (simp add: sample_object_def)
  moreover have "plain sample_object" "plain ?b" by (simp_all add: sample_object_def safe_integer_def)
  ultimately have "sorted_json sample_object = sorted_json ?b" using canonical_text_is_value [of sample_object t ?b t] e by simp
  then show False by (simp add: sample_object_def sort_pairs_def List_Lexorder.list_le_def)
qed

end
