(* ===== verification/Cv_Reading.thy ===== *)
theory Cv_Reading
  imports Cv_Commands Cv_Diff Cv_Readable
begin

text \<open>
  Reading accepted revisions: \<open>src/application/revisions/read.ts\<close>. Every read authorizes its principal
  before and after it, and again for each piece of a file; what the revision store returns is trusted only
  when its digest is the one the catalog keeps. The store is outside the model: \<open>rd_store\<close> opens it,
  \<open>rd_manifest\<close> and \<open>rd_open\<close> are what it answers, \<open>rd_aborted\<close> whether the abort signal is raised. An
  opened file is the list of chunks it yields.
\<close>

record reader =
  rd_limits :: limits_override
  rd_store :: "nat \<Rightarrow> storage_binding \<Rightarrow> failure + unit"
  rd_manifest :: "nat \<Rightarrow> storage_binding \<Rightarrow> revision \<Rightarrow> failure + json"
  rd_open :: "nat \<Rightarrow> storage_binding \<Rightarrow> revision \<Rightarrow> string \<Rightarrow> failure + string list"
  rd_aborted :: "nat \<Rightarrow> bool"

definition w_lift :: "failure + 'a \<Rightarrow> 'a work" where
  "w_lift r = (\<lambda>w. (w, r))"

text \<open>An optional id counts as absent when it is empty.\<close>

definition given_id :: "id option \<Rightarrow> id option" where
  "given_id x = (case x of Some i \<Rightarrow> if i = [] then None else Some i | None \<Rightarrow> None)"

section \<open>Accepted revisions\<close>

record accepted =
  ac_workspace :: workspace
  ac_revision :: revision
  ac_binding :: storage_binding
  ac_manifest :: manifest

definition find_accepted :: "environment \<Rightarrow> workspace_scope \<Rightarrow> id option \<Rightarrow> workspace \<Rightarrow> revision option work" where
  "find_accepted E sc i ws =
     w_bind (ask E (\<lambda>s. Inr (get_revision s sc (case i of None \<Rightarrow> ws_currentRevisionId ws | Some j \<Rightarrow> j)))) (\<lambda>x.
     case (x, given_id i) of
       (None, Some j) \<Rightarrow>
         w_bind (ask E (\<lambda>s. get_legacy_revision_alias s sc j)) (\<lambda>y. case y of
           None \<Rightarrow> w_return None
         | Some l \<Rightarrow> ask E (\<lambda>s. Inr (get_revision s sc (al_revisionId l))))
     | _ \<Rightarrow> w_return x)"

definition accepted_revision :: "platform \<Rightarrow> environment \<Rightarrow> reader \<Rightarrow> principal \<Rightarrow> workspace_scope \<Rightarrow> id option \<Rightarrow> accepted work" where
  "accepted_revision P E R p sc i =
     w_bind (authorize E p WorkspaceRead (of_ws sc)) (\<lambda>_.
     w_bind (ask E (\<lambda>s. Inr (get_workspace s sc))) (\<lambda>x.
     w_bind (w_found x (Fail WORKSPACE_NOT_FOUND)) (\<lambda>ws.
     w_bind (find_accepted E sc i ws) (\<lambda>y.
     w_bind (w_found y (Fail REVISION_NOT_FOUND)) (\<lambda>v.
     w_bind (ask E (\<lambda>s. Inr (get_binding s sc (bsc_storageBindingId (rv_scope v))))) (\<lambda>z.
     w_bind (w_found z (Fail STORAGE_BINDING_CHANGED)) (\<lambda>b.
     w_bind (w_check (sb_generation b = bsc_bindingGeneration (rv_scope v)) STORAGE_BINDING_CHANGED) (\<lambda>_.
     w_bind (outside E (\<lambda>n. rd_store R n b)) (\<lambda>_.
     w_bind (outside E (\<lambda>n. rd_manifest R n b v)) (\<lambda>raw.
     w_bind (w_lift (canonicalize_manifest P (rd_limits R) raw)) (\<lambda>m.
     w_bind (w_lift (manifest_digest P no_override (manifest_json m))) (\<lambda>d.
     w_bind (w_check (d = rv_manifestDigest v) RECEIPT_MISMATCH) (\<lambda>_.
     w_bind (authorize E p WorkspaceRead (of_ws sc)) (\<lambda>_.
     w_return \<lparr>ac_workspace = ws, ac_revision = v, ac_binding = b, ac_manifest = m\<rparr>))))))))))))))"

section \<open>Files\<close>

text \<open>The pieces reach the consumer one by one; the abort signal and the permission are checked before each.\<close>

primrec hand_out :: "environment \<Rightarrow> reader \<Rightarrow> principal \<Rightarrow> workspace_scope \<Rightarrow> string list \<Rightarrow> string \<Rightarrow> string work" where
  "hand_out E R p sc [] out = w_return out"
| "hand_out E R p sc (c # cs) out =
     w_bind (outside E (\<lambda>n. if rd_aborted R n then Inl Crash else Inr ())) (\<lambda>_.
     w_bind (authorize E p WorkspaceRead (of_ws sc)) (\<lambda>_. hand_out E R p sc cs (out @ c)))"

text \<open>The bytes of a file once its stream was consumed to the end without an error.\<close>

definition revision_file :: "platform \<Rightarrow> environment \<Rightarrow> reader \<Rightarrow> principal \<Rightarrow> workspace_scope \<Rightarrow> id \<Rightarrow> string \<Rightarrow> (manifest_entry \<times> string) work" where
  "revision_file P E R p sc i raw =
     w_bind (w_lift (validate_portable_path P (rd_limits R) (JStr raw))) (\<lambda>path.
     w_bind (accepted_revision P E R p sc (Some i)) (\<lambda>a.
     w_bind (w_found (find (\<lambda>e. me_path e = path) (mf_entries (ac_manifest a))) (Fail REVISION_NOT_FOUND)) (\<lambda>e.
     case e of DirectoryEntry _ \<Rightarrow> w_throw (Fail REVISION_NOT_FOUND)
     | FileEntry _ _ _ \<Rightarrow>
         w_bind (outside E (\<lambda>n. rd_open R n (ac_binding a) (ac_revision a) path)) (\<lambda>chunks.
         case verify_file_stream P (rd_limits R) e chunks of (ps, r) \<Rightarrow>
           w_bind (hand_out E R p sc ps []) (\<lambda>out. w_bind (w_lift r) (\<lambda>_. w_return (e, out)))))))"

section \<open>History\<close>

record history_entry =
  he_id :: id
  he_parentRevisionId :: "id option"
  he_manifestDigest :: string
  he_createdAt :: timestamp
  he_manifest :: string

definition history_entry_of :: "workspace_scope \<Rightarrow> revision \<Rightarrow> history_entry" where
  "history_entry_of sc v = \<lparr>he_id = rv_id v, he_parentRevisionId = rv_parentRevisionId v, he_manifestDigest = rv_manifestDigest v,
     he_createdAt = rv_createdAt v,
     he_manifest = ''/v1/workspaces/'' @ encode_uri_component (wsc_workspaceId sc) @ ''/revisions/'' @ encode_uri_component (rv_id v) @ ''/manifest''\<rparr>"

text \<open>At most \<open>k\<close> revisions more, and where the walk stopped.\<close>

primrec history_loop :: "environment \<Rightarrow> workspace_scope \<Rightarrow> nat \<Rightarrow> id list \<Rightarrow> id option \<Rightarrow> (history_entry list \<times> id option) work" where
  "history_loop E sc 0 visited i = w_return ([], given_id i)"
| "history_loop E sc (Suc k) visited i = (case given_id i of
     None \<Rightarrow> w_return ([], None)
   | Some j \<Rightarrow>
       w_bind (w_check (j \<notin> set visited) STORAGE_UNAVAILABLE) (\<lambda>_.
       w_bind (ask E (\<lambda>s. Inr (get_revision s sc j))) (\<lambda>x.
       w_bind (w_found x (Fail REVISION_NOT_FOUND)) (\<lambda>v.
       w_bind (history_loop E sc k (j # visited) (rv_parentRevisionId v)) (\<lambda>(es, at).
       w_return (history_entry_of sc v # es, at))))))"

definition history_start :: "environment \<Rightarrow> workspace_scope \<Rightarrow> id option \<Rightarrow> workspace \<Rightarrow> id option work" where
  "history_start E sc cursor ws = (case given_id cursor of
     None \<Rightarrow> w_return (Some (ws_currentRevisionId ws))
   | Some c \<Rightarrow>
       w_bind (ask E (\<lambda>s. Inr (get_revision s sc c))) (\<lambda>x.
       w_bind (w_found x (Fail REVISION_NOT_FOUND)) (\<lambda>v. w_return (rv_parentRevisionId v))))"

definition revision_history :: "environment \<Rightarrow> principal \<Rightarrow> workspace_scope \<Rightarrow> id option \<Rightarrow> nat \<Rightarrow> (history_entry list \<times> id option) work" where
  "revision_history E p sc cursor limit =
     w_bind (authorize E p WorkspaceRead (of_ws sc)) (\<lambda>_.
     w_bind (ask E (\<lambda>s. Inr (get_workspace s sc))) (\<lambda>x.
     w_bind (w_found x (Fail WORKSPACE_NOT_FOUND)) (\<lambda>ws.
     w_bind (history_start E sc cursor ws) (\<lambda>i.
     w_bind (history_loop E sc limit [] i) (\<lambda>(es, at).
     w_bind (authorize E p WorkspaceRead (of_ws sc)) (\<lambda>_.
     case at of None \<Rightarrow> w_return (es, None)
     | Some _ \<Rightarrow> (if es = [] then w_throw Crash else w_return (es, Some (he_id (last es))))))))))"

section \<open>Differences\<close>

text \<open>\<open>Array.prototype.sort\<close> orders strings by UTF-16 units: surrogate pairs, which start a sequence of four
  bytes in UTF-8, come before the units from E000 on, which start with the bytes 238 and 239.\<close>

definition utf16_rank :: "char \<Rightarrow> nat" where
  "utf16_rank c = (let n = (of_char c :: nat) in if n \<ge> 240 then n - 2 else if n = 238 \<or> n = 239 then n + 16 else n)"

definition utf16_le :: "string \<Rightarrow> string \<Rightarrow> bool" where
  "utf16_le a b \<longleftrightarrow> map utf16_rank a \<le> map utf16_rank b"

fun utf16_insert :: "string \<Rightarrow> string list \<Rightarrow> string list" where
  "utf16_insert p [] = [p]"
| "utf16_insert p (q # qs) = (if utf16_le p q then p # q # qs else q # utf16_insert p qs)"

definition utf16_sort :: "string list \<Rightarrow> string list" where
  "utf16_sort ps = foldr utf16_insert ps []"

text \<open>A JavaScript string decoded from bytes gives the same bytes back exactly when they are valid UTF-8.\<close>

definition continuation :: "char \<Rightarrow> bool" where
  "continuation c = (let n = (of_char c :: nat) in 128 \<le> n \<and> n < 192)"

fun utf8_valid :: "string \<Rightarrow> bool" where
  "utf8_valid [] = True"
| "utf8_valid (c # cs) = (let n = (of_char c :: nat) in
     if n < 128 then utf8_valid cs
     else if 194 \<le> n \<and> n < 224 then (case cs of a # rest \<Rightarrow> continuation a \<and> utf8_valid rest | _ \<Rightarrow> False)
     else if 224 \<le> n \<and> n < 240 then (case cs of a # b # rest \<Rightarrow> continuation a \<and> continuation b \<and>
       (n = 224 \<longrightarrow> (of_char a :: nat) \<ge> 160) \<and> (n = 237 \<longrightarrow> (of_char a :: nat) < 160) \<and> utf8_valid rest | _ \<Rightarrow> False)
     else if 240 \<le> n \<and> n < 245 then (case cs of a # b # d # rest \<Rightarrow> continuation a \<and> continuation b \<and> continuation d \<and>
       (n = 240 \<longrightarrow> (of_char a :: nat) \<ge> 144) \<and> (n = 244 \<longrightarrow> (of_char a :: nat) < 144) \<and> utf8_valid rest | _ \<Rightarrow> False)
     else False)"

definition text_value :: "string \<Rightarrow> string option" where
  "text_value b = (if char_of (0 :: nat) \<notin> set b \<and> utf8_valid b then Some b else None)"

definition file_text :: "platform \<Rightarrow> environment \<Rightarrow> reader \<Rightarrow> principal \<Rightarrow> workspace_scope \<Rightarrow> id \<Rightarrow> string \<Rightarrow> int \<Rightarrow> string option work" where
  "file_text P E R p sc i path n =
     (if n > 1024 * 1024 then w_return None
      else w_bind (revision_file P E R p sc i path) (\<lambda>(e, bytes). w_return (text_value bytes)))"

datatype change_status = Added | Deleted | Modified

record file_change =
  fc_path :: string
  fc_status :: change_status
  fc_additions :: nat
  fc_deletions :: nat
  fc_hunks :: "hunk list"
  fc_binary :: bool

record revision_diff =
  df_from :: id
  df_to :: id
  df_files :: "file_change list"
  df_filesChanged :: nat
  df_additions :: nat
  df_deletions :: nat

text \<open>A later entry of a path replaces an earlier one, as in \<open>new Map\<close>.\<close>

definition entry_at :: "manifest \<Rightarrow> string \<Rightarrow> manifest_entry option" where
  "entry_at m p = map_of (rev (map (\<lambda>e. (me_path e, e)) (mf_entries m))) p"

definition diff_paths :: "manifest \<Rightarrow> manifest \<Rightarrow> string list" where
  "diff_paths a b = utf16_sort (remdups (map me_path (mf_entries a) @ map me_path (mf_entries b)))"

definition optional_entry_json :: "manifest_entry option \<Rightarrow> json" where
  "optional_entry_json x = (case x of None \<Rightarrow> JNull | Some e \<Rightarrow> entry_json e)"

definition side_text :: "platform \<Rightarrow> environment \<Rightarrow> reader \<Rightarrow> principal \<Rightarrow> workspace_scope \<Rightarrow> id \<Rightarrow> manifest_entry option \<Rightarrow> string option work" where
  "side_text P E R p sc i x = (case x of
     None \<Rightarrow> w_return (Some [])
   | Some (FileEntry path n _) \<Rightarrow> file_text P E R p sc i path n
   | Some (DirectoryEntry _) \<Rightarrow> w_return None)"

definition change_of :: "string \<Rightarrow> manifest_entry option \<Rightarrow> manifest_entry option \<Rightarrow> string option \<Rightarrow> string option \<Rightarrow> file_change" where
  "change_of path left right old new =
     (let status = (if left = None then Added else if right = None then Deleted else Modified) in
      case (old, new) of
        (Some x, Some y) \<Rightarrow> (let d = line_diff x y in
          \<lparr>fc_path = path, fc_status = status, fc_additions = length (lc_added d), fc_deletions = length (lc_removed d),
           fc_hunks = hunks_of d, fc_binary = False\<rparr>)
      | _ \<Rightarrow> \<lparr>fc_path = path, fc_status = status, fc_additions = 0, fc_deletions = 0, fc_hunks = [], fc_binary = True\<rparr>)"

primrec diff_files :: "platform \<Rightarrow> environment \<Rightarrow> reader \<Rightarrow> principal \<Rightarrow> workspace_scope \<Rightarrow> accepted \<Rightarrow> accepted \<Rightarrow> string list \<Rightarrow> file_change list work" where
  "diff_files P E R p sc a b [] = w_return []"
| "diff_files P E R p sc a b (path # paths) = (let left = entry_at (ac_manifest a) path; right = entry_at (ac_manifest b) path in
     w_bind (w_lift (canonical_json (optional_entry_json left))) (\<lambda>l.
     w_bind (w_lift (canonical_json (optional_entry_json right))) (\<lambda>r.
     if l = r then diff_files P E R p sc a b paths
     else
       w_bind (side_text P E R p sc (rv_id (ac_revision a)) left) (\<lambda>old.
       w_bind (side_text P E R p sc (rv_id (ac_revision b)) right) (\<lambda>new.
       w_bind (diff_files P E R p sc a b paths) (\<lambda>fs. w_return (change_of path left right old new # fs)))))))"

definition diff :: "platform \<Rightarrow> environment \<Rightarrow> reader \<Rightarrow> principal \<Rightarrow> workspace_scope \<Rightarrow> id \<Rightarrow> id \<Rightarrow> revision_diff work" where
  "diff P E R p sc from to =
     w_bind (accepted_revision P E R p sc (Some from)) (\<lambda>a.
     w_bind (accepted_revision P E R p sc (Some to)) (\<lambda>b.
     w_bind (diff_files P E R p sc a b (diff_paths (ac_manifest a) (ac_manifest b))) (\<lambda>fs.
     w_return \<lparr>df_from = rv_id (ac_revision a), df_to = rv_id (ac_revision b), df_files = fs, df_filesChanged = length fs,
       df_additions = sum_list (map fc_additions fs), df_deletions = sum_list (map fc_deletions fs)\<rparr>)))"

end
