(* ===== verification/Cv_Restoring.thy ===== *)
theory Cv_Restoring
  imports Cv_Reading
begin

text \<open>
  \<open>RestoreService\<close> (\<open>src/application/revisions/restore.ts\<close>): a restore claims an accepted revision, or a
  ready bundle, as the source of a new revision of its destination, and a worker prepares and publishes it,
  on the runtime and in the environment of the lifecycle worker. \<open>rs_bundle\<close> is the manifest a bundle's
  source offers, \<open>rs_inspect\<close> what the revision store already has under a candidate.
\<close>

record restorer =
  rs_reader :: reader
  rs_bundle :: "nat \<Rightarrow> bundle_record \<Rightarrow> failure + manifest"
  rs_inspect :: "nat \<Rightarrow> candidate_identity \<Rightarrow> failure + prepared_revision option"

section \<open>Claiming\<close>

definition restore_json :: "restore_body \<Rightarrow> json" where
  "restore_json b = JObj [(''revisionId'', JStr (rb_revisionId b)), (''expectedRevisionId'', JStr (rb_expectedRevisionId b)),
     (''expectedWorkspaceVersion'', JInt (rb_expectedWorkspaceVersion b)), (''reason'', JStr (rb_reason b))]"

text \<open>The source a known restore was claimed with.\<close>

definition known_restore :: "operation option \<Rightarrow> restore_intent option" where
  "known_restore x = (case x of None \<Rightarrow> None | Some o' \<Rightarrow>
     if op_kind o' = KRestore then (case op_intent o' of RestoreOpIntent it \<Rightarrow> Some it | _ \<Rightarrow> None) else None)"

definition accepted_source :: "environment \<Rightarrow> principal \<Rightarrow> workspace_scope \<Rightarrow> id \<Rightarrow> restore_source work" where
  "accepted_source E p sc rid =
     w_bind (authorize E p WorkspaceRead (of_ws sc)) (\<lambda>_.
     w_bind (ask E (\<lambda>s. Inr (get_revision s sc rid))) (\<lambda>x.
     w_bind (case x of Some v \<Rightarrow> w_return x
       | None \<Rightarrow> w_bind (ask E (\<lambda>s. get_legacy_revision_alias s sc rid)) (\<lambda>y. case y of
           None \<Rightarrow> w_return None
         | Some l \<Rightarrow> ask E (\<lambda>s. Inr (get_revision s sc (al_revisionId l))))) (\<lambda>z.
     w_bind (w_found z (Fail REVISION_NOT_FOUND)) (\<lambda>v.
     w_bind (ask E (\<lambda>s. Inr (get_binding s sc (bsc_storageBindingId (rv_scope v))))) (\<lambda>u.
     w_bind (w_found u (Fail STORAGE_BINDING_CHANGED)) (\<lambda>b.
     w_return (FromRevision (RevisionSource v b p))))))))"

definition restore_request :: "workspace_scope \<Rightarrow> restore_body \<Rightarrow> restore_body json_request" where
  "restore_request sc b = JsonRequest ''POST'' (''/v1/workspaces/'' @ encode_uri_component (wsc_workspaceId sc) @ ''/restore'') b"

definition source_digest :: "restore_source \<Rightarrow> string" where
  "source_digest src = (case src of
     FromRevision k \<Rightarrow> rv_manifestDigest (so_revision k)
   | FromBundle b \<Rightarrow> (case bu_manifestDigest b of Some d \<Rightarrow> d | None \<Rightarrow> []))"

definition restore_intent_for :: "environment \<Rightarrow> workspace_scope \<Rightarrow> restore_body \<Rightarrow> command_identity \<Rightarrow> operation option \<Rightarrow> restore_source \<Rightarrow>
    action \<Rightarrow> workspace \<Rightarrow> timestamp \<Rightarrow> restore_intent work" where
  "restore_intent_for E sc b c known src act ws t = (case known_restore known of
     Some it \<Rightarrow> w_return (RestoreIntent (ri_schemaVersion it) (ri_kind it) (restore_request sc b) (ri_source it) (ri_sourceManifestDigest it)
       (ri_candidateIdentity it) act)
   | None \<Rightarrow>
       w_bind (new_id E ''candidate'') (\<lambda>cid.
       w_bind (new_id E ''revision'') (\<lambda>vid.
       w_return (RestoreIntent 1 KRestore (restore_request sc b) src (source_digest src)
         (CandidateIdentity cid vid (cm_operationId c)
           (BindingScope (wsc_customerId sc) (wsc_workspaceId sc) (ws_storageBindingId ws) (ws_bindingGeneration ws))
           (Some (rb_expectedRevisionId b)) t) act))))"

definition claim_source :: "platform \<Rightarrow> environment \<Rightarrow> workspace_scope \<Rightarrow> restore_body authenticated \<Rightarrow> restore_source \<Rightarrow> action \<Rightarrow> (operation \<times> bool) work" where
  "claim_source P E sc i src act = (let p = ac_principal i; b = ac_request i in
     w_bind (authorize E p act (destination_scope act sc)) (\<lambda>a.
     w_bind (command_for P E KRestore p (ac_key i) (restore_json b) (of_ws sc) None) (\<lambda>c.
     w_bind (ask E (\<lambda>s. Inr (find_operation s (cm_scope c) (cm_key c)))) (\<lambda>known.
     w_bind (ask E (\<lambda>s. Inr (get_workspace s sc))) (\<lambda>x.
     w_bind (w_found x (Fail WORKSPACE_NOT_FOUND)) (\<lambda>ws.
     w_bind (runtime_now E) (\<lambda>t.
     w_bind (restore_intent_for E sc b c known src act ws t) (\<lambda>it.
     control E (claim_restore (ClaimRestore sc p a c it (ProcessingClaim (en_ownerId E) 1 (en_until E t (en_processingTtlMs E))) t))))))))))"

definition claim_restore_command :: "platform \<Rightarrow> environment \<Rightarrow> workspace_scope \<Rightarrow> restore_body authenticated \<Rightarrow> (operation \<times> bool) work" where
  "claim_restore_command P E sc i = (let p = ac_principal i; b = ac_request i in
     w_bind (authorize E p WorkspaceRestore (of_ws sc)) (\<lambda>_.
     w_bind (command_for P E KRestore p (ac_key i) (restore_json b) (of_ws sc) None) (\<lambda>c.
     w_bind (ask E (\<lambda>s. Inr (find_operation s (cm_scope c) (cm_key c)))) (\<lambda>known.
     w_bind (case known_restore known of Some it \<Rightarrow> w_return (ri_source it) | None \<Rightarrow> accepted_source E p sc (rb_revisionId b)) (\<lambda>src.
     claim_source P E sc i src WorkspaceRestore)))))"

section \<open>Processing\<close>

definition restore_claim_ok :: "environment \<Rightarrow> int \<Rightarrow> operation \<Rightarrow> unit work" where
  "restore_claim_ok E fence o' =
     w_bind (w_check (op_state o' = OpProcessing) STALE_FENCE) (\<lambda>_.
     w_bind (w_found (held_by E fence o') (Fail STALE_FENCE)) (\<lambda>c.
     w_bind (runtime_now E) (\<lambda>t. w_check (t < pc_expiresAt c) STALE_FENCE)))"

text \<open>The manifest to copy: of a bundle, or of an accepted revision that is still what was claimed.\<close>

definition restored_manifest :: "platform \<Rightarrow> environment \<Rightarrow> restorer \<Rightarrow> restore_intent \<Rightarrow> manifest work" where
  "restored_manifest P E S it = (case ri_source it of
     FromBundle b \<Rightarrow> outside E (\<lambda>n. rs_bundle S n b)
   | FromRevision k \<Rightarrow> (let v = so_revision k; R = rs_reader S in
       w_bind (authorize E (so_principal k) WorkspaceRead (of_bs (rv_scope v))) (\<lambda>_.
       w_bind (ask E (\<lambda>s. Inr (get_revision s (bs_workspace (rv_scope v)) (rv_id v)))) (\<lambda>x.
       w_bind (w_check (x = Some v) STORAGE_BINDING_CHANGED) (\<lambda>_.
       w_bind (outside E (\<lambda>n. rd_store R n (so_binding k))) (\<lambda>_.
       w_bind (outside E (\<lambda>n. rd_manifest R n (so_binding k) v)) (\<lambda>raw.
       w_bind (w_lift (canonicalize_manifest P (rd_limits R) raw)) (\<lambda>m.
       w_bind (w_lift (manifest_digest P no_override (manifest_json m))) (\<lambda>d.
       w_bind (w_check (d = ri_sourceManifestDigest it) RECEIPT_MISMATCH) (\<lambda>_. w_return m))))))))))"

definition prepare_restore :: "platform \<Rightarrow> environment \<Rightarrow> restorer \<Rightarrow> operation \<Rightarrow> restore_intent \<Rightarrow> prepared_revision work" where
  "prepare_restore P E S o' it = (let ident = ri_candidateIdentity it in
     w_bind (hook E) (\<lambda>_.
     w_bind (restored_manifest P E S it) (\<lambda>m.
     w_bind (w_lift (manifest_digest P no_override (manifest_json m))) (\<lambda>d.
     w_bind (w_check (d = ri_sourceManifestDigest it) RECEIPT_MISMATCH) (\<lambda>_.
     w_bind (ask E (\<lambda>s. Inr (get_binding s (op_scope o') (bsc_storageBindingId (cd_scope ident))))) (\<lambda>x.
     w_bind (w_found x (Fail STORAGE_BINDING_CHANGED)) (\<lambda>b.
     w_bind (w_check (sb_generation b = bsc_bindingGeneration (cd_scope ident)) STORAGE_BINDING_CHANGED) (\<lambda>_.
     w_bind (outside E (\<lambda>n. en_store E n b)) (\<lambda>_.
     w_bind (outside E (\<lambda>n. rs_inspect S n ident)) (\<lambda>known.
     w_bind (case known of Some c \<Rightarrow> w_return c | None \<Rightarrow> outside E (\<lambda>n. en_prepare E n ident m)) (\<lambda>c.
     w_bind (hook E) (\<lambda>_. w_return c))))))))))))"

definition publish_restoration :: "platform \<Rightarrow> environment \<Rightarrow> restorer \<Rightarrow> int \<Rightarrow> operation \<Rightarrow> operation work" where
  "publish_restoration P E S fence o' =
     w_bind (w_lift (restore_intent_of o')) (\<lambda>it. let act = ri_destinationAction it; dest = destination_scope act (op_scope o') in
     w_bind (authorize E (op_principal o') act dest) (\<lambda>_.
     w_bind (renew_ticks E (en_ticks E) fence o') (\<lambda>(q, failed).
     w_bind (prepare_restore P E S q it) (\<lambda>c.
     w_bind (case failed of None \<Rightarrow> w_return () | Some e \<Rightarrow> w_throw e) (\<lambda>_.
     w_bind (runtime_now E) (\<lambda>t.
     w_bind (control E (record_prepared_revision (RecordPrepared (ProcessingCAS (op_scope q) (op_id q) (op_version q) fence t) c))) (\<lambda>r.
     w_bind (hook E) (\<lambda>_.
     w_bind (hook E) (\<lambda>_.
     w_bind (authorize E (op_principal r) act (destination_scope act (op_scope r))) (\<lambda>a.
     w_bind (runtime_now E) (\<lambda>u.
     w_bind (control E (accept_restore (AcceptRestore (ProcessingCAS (op_scope r) (op_id r) (op_version r) fence u) a c
       (events_of r ''workspace.restored'' u)))) (\<lambda>x.
     w_bind (hook E) (\<lambda>_. w_return x)))))))))))))"

definition restore_failures :: "error_code list" where
  "restore_failures = [FORBIDDEN, CREDENTIAL_REVOKED, REVISION_CONFLICT, STORAGE_BINDING_CHANGED, WORKSPACE_INACTIVE, WORKSPACE_NOT_FOUND,
     REVISION_NOT_FOUND, INVALID_MANIFEST, QUOTA_EXCEEDED, RECEIPT_MISMATCH, INVALID_REQUEST]"

definition record_restore_failure :: "environment \<Rightarrow> operation \<Rightarrow> int \<Rightarrow> error_code \<Rightarrow> operation work" where
  "record_restore_failure E o' fence code =
     w_bind (runtime_now E) (\<lambda>t.
     w_bind (runtime_now E) (\<lambda>u.
     control E (fail_restore (FailInput (ProcessingCAS (op_scope o') (op_id o') (op_version o') fence t) code (en_message E code)
       (events_of o' ''workspace.restore-failed'' u)))))"

definition reread_restore :: "environment \<Rightarrow> workspace_scope \<Rightarrow> id \<Rightarrow> operation work" where
  "reread_restore E sc oid =
     w_bind (w_catch (ask E (\<lambda>s. Inr (get_operation s sc oid))) (\<lambda>_. w_return None)) (\<lambda>x. case x of
       Some o' \<Rightarrow> if op_kind o' = KRestore \<and> is_settled o' then w_return o' else unknown
     | None \<Rightarrow> unknown)"

definition reconcile_restore :: "environment \<Rightarrow> workspace_scope \<Rightarrow> id \<Rightarrow> int \<Rightarrow> failure \<Rightarrow> operation work" where
  "reconcile_restore E sc oid fence error =
     w_bind (w_catch (ask E (\<lambda>s. Inr (get_operation s sc oid))) (\<lambda>_. unknown)) (\<lambda>x.
     w_bind (w_found x (Fail PUBLICATION_OUTCOME_UNKNOWN)) (\<lambda>o'.
     if op_kind o' \<noteq> KRestore then unknown
     else if is_settled o' then w_return o'
     else
       w_bind (restore_claim_ok E fence o') (\<lambda>_. case error of
         Crash \<Rightarrow> unknown
       | Fail code \<Rightarrow>
           if code \<notin> set restore_failures then
             (if code = STALE_FENCE \<or> code = VERSION_CONFLICT then w_throw error else unknown)
           else w_catch (record_restore_failure E o' fence code) (\<lambda>_. reread_restore E sc oid))))"

definition process_restore :: "platform \<Rightarrow> environment \<Rightarrow> restorer \<Rightarrow> workspace_scope \<Rightarrow> id \<Rightarrow> int \<Rightarrow> operation work" where
  "process_restore P E S sc oid fence =
     w_bind (ask E (\<lambda>s. Inr (get_operation s sc oid))) (\<lambda>x.
     w_bind (w_found x (Fail OPERATION_NOT_FOUND)) (\<lambda>o'.
     w_bind (w_check (op_kind o' = KRestore) OPERATION_NOT_FOUND) (\<lambda>_.
     if is_settled o' then w_return o'
     else w_bind (restore_claim_ok E fence o') (\<lambda>_.
       w_catch (publish_restoration P E S fence o') (reconcile_restore E sc oid fence)))))"

end
