(* ===== verification/Cv_Maintenance.thy ===== *)
theory Cv_Maintenance
  imports Cv_Restoring
begin

text \<open>
  \<open>WorkspaceMaintenance\<close> (\<open>src/application/maintenance/index.ts\<close>): one tick recovers operations whose claim
  has lapsed, expires runs, delivers outbox events and collects what cleanup records, abandoned candidates
  and abandoned submissions left behind, each within the batch size. A failed item is noted in the report and
  the tick goes on. The transport, the stores and the registered processors are fields of \<open>maintainer\<close>;
  \<open>mt_message\<close> is the text of an error. The scheduler that runs the ticks is a machine of its own.
\<close>

section \<open>Configuration and report\<close>

record maintainer =
  mt_clock :: "(nat \<Rightarrow> timestamp option) option"
  mt_batchSize :: nat
  mt_claimTtlMs :: int
  mt_retryDelayMs :: int
  mt_deliver :: "(nat \<Rightarrow> outbox_event \<Rightarrow> subscription \<Rightarrow> failure + unit) option"
  mt_revisionStore :: "(nat \<Rightarrow> storage_binding \<Rightarrow> failure + unit) option"
  mt_submissionStore :: "(nat \<Rightarrow> storage_binding \<Rightarrow> failure + unit) option"
  mt_deleteCollectible :: "nat \<Rightarrow> collection_permit \<Rightarrow> timestamp \<Rightarrow> failure + unit"
  mt_collect :: "nat \<Rightarrow> submission_permit \<Rightarrow> timestamp \<Rightarrow> failure + unit"
  mt_recoveryProcessors :: "(operation_kind \<times> (operation \<Rightarrow> operation work)) list"
  mt_message :: "failure \<Rightarrow> string"

definition default_to :: "'a \<Rightarrow> 'a option \<Rightarrow> 'a" where
  "default_to d x = (case x of None \<Rightarrow> d | Some a \<Rightarrow> a)"

text \<open>The constructor: batch size, claim time, interval and retry delay.\<close>

definition new_maintenance :: "int option \<Rightarrow> int option \<Rightarrow> int option \<Rightarrow> int option \<Rightarrow> failure + (nat \<times> int \<times> int \<times> int)" where
  "new_maintenance batch claimTtl interval retry =
     (let b = default_to 50 batch; c = default_to 300000 claimTtl; i = default_to 1000 interval; r = default_to 1000 retry in
      if \<not> safe_integer b \<or> b < 1 \<or> 1000 < b \<or> \<not> safe_integer c \<or> c < 1 \<or> \<not> safe_integer i \<or> i < 1 \<or> \<not> safe_integer r \<or> r < 0
      then Inl (Fail INVALID_REQUEST) else Inr (nat b, c, i, r))"

datatype noted_error = NotedError (ne_work: string) (ne_id: id) (ne_code: error_code) (ne_message: string)

record report =
  rp_recovered :: nat
  rp_expired :: nat
  rp_delivered :: nat
  rp_cleaned :: nat
  rp_collected :: nat
  rp_errors :: "noted_error list"

definition new_report :: report where
  "new_report = \<lparr>rp_recovered = 0, rp_expired = 0, rp_delivered = 0, rp_cleaned = 0, rp_collected = 0, rp_errors = []\<rparr>"

text \<open>Losing a race is no error of the maintenance.\<close>

definition error_code_of :: "failure \<Rightarrow> error_code" where
  "error_code_of e = (case e of Fail c \<Rightarrow> c | Crash \<Rightarrow> STORAGE_UNAVAILABLE)"

definition note_error :: "maintainer \<Rightarrow> string \<Rightarrow> id \<Rightarrow> failure \<Rightarrow> report \<Rightarrow> report" where
  "note_error M job i e r =
     (if e = Fail STALE_FENCE \<or> e = Fail VERSION_CONFLICT then r
      else r\<lparr>rp_errors := rp_errors r @ [NotedError job i (error_code_of e) (mt_message M e)]\<rparr>)"

definition maintenance_now :: "environment \<Rightarrow> maintainer \<Rightarrow> timestamp work" where
  "maintenance_now E M = (case mt_clock M of
     None \<Rightarrow> runtime_now E
   | Some f \<Rightarrow> (\<lambda>w. (w\<lparr>wd_calls := Suc (wd_calls w)\<rparr>, case f (wd_calls w) of None \<Rightarrow> Inl (Fail INVALID_REQUEST) | Some t \<Rightarrow> Inr t)))"

definition maintenance_until :: "environment \<Rightarrow> maintainer \<Rightarrow> timestamp \<Rightarrow> timestamp" where
  "maintenance_until E M t = en_until E t (mt_claimTtlMs M)"

text \<open>A try block: what follows it, or what the catch does.\<close>

definition attempt :: "'a work \<Rightarrow> ('a \<Rightarrow> 'b work) \<Rightarrow> (failure \<Rightarrow> 'b work) \<Rightarrow> 'b work" where
  "attempt m f h = (\<lambda>w. case m w of (v, Inl e) \<Rightarrow> h e v | (v, Inr a) \<Rightarrow> f a v)"

primrec for_each :: "('s \<Rightarrow> 'a \<Rightarrow> 's work) \<Rightarrow> 'a list \<Rightarrow> 's \<Rightarrow> 's work" where
  "for_each f [] s = w_return s"
| "for_each f (x # xs) s = w_bind (f s x) (for_each f xs)"

section \<open>Recovery and expiry\<close>

definition recovered_kinds :: "maintainer \<Rightarrow> operation_kind list" where
  "recovered_kinds M = remdups ([KWorkspaceCreate, KFinalize] @ map fst (mt_recoveryProcessors M))"

definition lifecycle_processor :: "platform \<Rightarrow> environment \<Rightarrow> operation \<Rightarrow> operation work" where
  "lifecycle_processor P E o' =
     w_bind (w_found (op_claim o') Crash) (\<lambda>c. process_operation P E (op_scope o') (op_id o') (pc_fence c))"

definition processor_for :: "platform \<Rightarrow> environment \<Rightarrow> maintainer \<Rightarrow> operation_kind \<Rightarrow> (operation \<Rightarrow> operation work) option" where
  "processor_for P E M k = (case map_of (mt_recoveryProcessors M) k of
     Some f \<Rightarrow> Some f
   | None \<Rightarrow> if k = KWorkspaceCreate \<or> k = KFinalize then Some (lifecycle_processor P E) else None)"

definition recover_operation :: "platform \<Rightarrow> environment \<Rightarrow> maintainer \<Rightarrow> report \<Rightarrow> operation \<Rightarrow> report work" where
  "recover_operation P E M r o' = (case processor_for P E M (op_kind o') of
     None \<Rightarrow> w_return r
   | Some f \<Rightarrow> attempt
       (w_bind (maintenance_now E M) (\<lambda>t.
        w_bind (control E (claim_recovery (ClaimRecovery (op_scope o') (op_id o') (op_version o') (en_ownerId E) t
          (maintenance_until E M t) (Some (op_kind o'))))) f))
       (\<lambda>_. w_return (r\<lparr>rp_recovered := rp_recovered r + 1\<rparr>))
       (\<lambda>e. w_return (note_error M ''recover'' (op_id o') e r)))"

definition expire_run_target :: "environment \<Rightarrow> maintainer \<Rightarrow> report \<Rightarrow> expired_active_run \<Rightarrow> report work" where
  "expire_run_target E M r x = attempt (expire_command E x)
     (\<lambda>_. w_return (r\<lparr>rp_expired := rp_expired r + 1\<rparr>))
     (\<lambda>e. w_return (note_error M ''expire'' (rsc_runId (xr_scope x)) e r))"

text \<open>The processor the server registers for restores.\<close>

definition restore_processor :: "platform \<Rightarrow> environment \<Rightarrow> restorer \<Rightarrow> operation \<Rightarrow> operation work" where
  "restore_processor P E S o' =
     w_bind (w_found (op_claim o') Crash) (\<lambda>c. process_restore P E S (op_scope o') (op_id o') (pc_fence c))"

section \<open>Deliveries\<close>

definition deliver_to :: "environment \<Rightarrow> maintainer \<Rightarrow> outbox_event \<Rightarrow> subscription \<Rightarrow> unit work" where
  "deliver_to E M e su = (case mt_deliver M of
     None \<Rightarrow> w_throw (Fail STORAGE_UNAVAILABLE)
   | Some f \<Rightarrow> outside E (\<lambda>n. f n e su))"

text \<open>The delay doubles with each attempt, eight times at most, and never exceeds five minutes.\<close>

definition retry_delay :: "maintainer \<Rightarrow> int \<Rightarrow> int" where
  "retry_delay M attempts = min (mt_retryDelayMs M * 2 ^ nat (min attempts 8)) 300000"

definition record_attempt :: "environment \<Rightarrow> maintainer \<Rightarrow> outbox_event \<Rightarrow> subscription \<Rightarrow> int \<Rightarrow> failure option \<Rightarrow> outbox_event work" where
  "record_attempt E M e su attempts err =
     w_bind (maintenance_now E M) (\<lambda>t.
     w_bind (w_found (ox_claim e) Crash) (\<lambda>k.
     control E (record_delivery (RecordDelivery (ev_scope (ox_event e)) (ev_id (ox_event e)) (ox_version e) (pc_fence k) (su_id su)
       (err = None) (if err = None then t else en_until E t (retry_delay M attempts)) t))))"

definition note_delivery :: "maintainer \<Rightarrow> id \<Rightarrow> failure option \<Rightarrow> report \<Rightarrow> report" where
  "note_delivery M i err r = (case err of
     None \<Rightarrow> r\<lparr>rp_delivered := rp_delivered r + 1\<rparr>
   | Some e \<Rightarrow> note_error M ''deliver'' i e r)"

text \<open>The recipients of one event: the event as last recorded, the deliveries of the tick, and why the loop failed.\<close>

fun deliver_all :: "environment \<Rightarrow> maintainer \<Rightarrow> (subscription \<times> int) list \<Rightarrow> outbox_event \<Rightarrow> nat \<Rightarrow> report \<Rightarrow>
    (outbox_event \<times> nat \<times> report \<times> failure option) work" where
  "deliver_all E M [] e n r = w_return (e, n, r, None)"
| "deliver_all E M ((su, attempts) # rest) e n r =
     (if mt_batchSize M \<le> n then w_return (e, n, r, None)
      else
        w_bind (attempt (deliver_to E M e su) (\<lambda>_. w_return None) (\<lambda>x. w_return (Some x))) (\<lambda>err.
        attempt (record_attempt E M e su attempts err)
          (\<lambda>e1. let r1 = note_delivery M (ev_id (ox_event e1)) err r in
            if ox_deliveryState e1 \<noteq> DeliveryRunning then w_return (e1, Suc n, r1, None) else deliver_all E M rest e1 (Suc n) r1)
          (\<lambda>x. w_return (e, Suc n, r, Some x))))"

definition claim_event :: "platform \<Rightarrow> environment \<Rightarrow> maintainer \<Rightarrow> nat \<Rightarrow> outbox_event \<Rightarrow> (outbox_event \<times> (subscription \<times> int) list) work" where
  "claim_event P E M n e =
     w_bind (maintenance_now E M) (\<lambda>t.
     w_bind (control E (claim_outbox P (ClaimOutbox (ev_scope (ox_event e)) (ev_id (ox_event e)) (ox_version e) (en_ownerId E) t
       (maintenance_until E M t)))) (\<lambda>c.
     if ox_deliveryState c = DeliveryComplete then w_return (c, [])
     else w_bind (ask E (\<lambda>s. list_due_outbox_recipients s (ev_scope (ox_event c)) (ev_id (ox_event c)) t (int (mt_batchSize M - n)))) (\<lambda>rs.
       w_return (c, rs))))"

definition release_event :: "environment \<Rightarrow> maintainer \<Rightarrow> outbox_event \<Rightarrow> unit work" where
  "release_event E M e = (if ox_deliveryState e = DeliveryRunning then
     w_bind (maintenance_now E M) (\<lambda>t.
     w_bind (w_found (ox_claim e) Crash) (\<lambda>k.
     w_bind (control E (release_outbox_claim (ReleaseOutbox (ev_scope (ox_event e)) (ev_id (ox_event e)) (ox_version e) (pc_fence k) t t))) (\<lambda>_.
     w_return ())))
   else w_return ())"

definition deliver_event :: "platform \<Rightarrow> environment \<Rightarrow> maintainer \<Rightarrow> nat \<times> report \<Rightarrow> outbox_event \<Rightarrow> (nat \<times> report) work" where
  "deliver_event P E M st pending = (case st of (n, r) \<Rightarrow>
     if mt_batchSize M \<le> n then w_return (n, r)
     else let note = (\<lambda>k q e. w_return (k, note_error M ''deliver'' (ev_id (ox_event pending)) e q)) in
       attempt (claim_event P E M n pending)
         (\<lambda>(e, rs). if ox_deliveryState e = DeliveryComplete then w_return (n, r)
           else w_bind (deliver_all E M rs e n r) (\<lambda>(e1, n1, r1, err). case err of
               Some x \<Rightarrow> note n1 r1 x
             | None \<Rightarrow> attempt (release_event E M e1) (\<lambda>_. w_return (n1, r1)) (note n1 r1)))
         (note n r))"

section \<open>Collection\<close>

definition original_binding :: "storage_binding option \<Rightarrow> binding_scope \<Rightarrow> storage_binding work" where
  "original_binding x sc =
     w_bind (w_found x (Fail STORAGE_UNAVAILABLE)) (\<lambda>b.
     w_bind (w_check (sb_id b = bsc_storageBindingId sc \<and> sb_generation b = bsc_bindingGeneration sc) STORAGE_UNAVAILABLE) (\<lambda>_. w_return b))"

text \<open>A permit that still holds is used again; otherwise a new one is claimed.\<close>

definition permit_for_candidate :: "environment \<Rightarrow> maintainer \<Rightarrow> candidate_target \<Rightarrow> collection_permit work" where
  "permit_for_candidate E M tg = (let sc = cd_scope (tg_identity tg); i = cd_candidateId (tg_identity tg) in
     w_bind (maintenance_now E M) (\<lambda>t.
     w_bind (case tg_collection tg of None \<Rightarrow> w_return False | Some pm \<Rightarrow> ask E (\<lambda>s. Inr (verify_collection_permit s pm t))) (\<lambda>held.
     case tg_collection tg of
       Some pm \<Rightarrow> if held then w_return pm
         else control E (claim_candidate_collection (ClaimCandidate sc i (maintenance_until E M t) t))
     | None \<Rightarrow> control E (claim_candidate_collection (ClaimCandidate sc i (maintenance_until E M t) t)))))"

definition delete_candidate :: "environment \<Rightarrow> maintainer \<Rightarrow> storage_binding \<Rightarrow> collection_permit \<Rightarrow> unit work" where
  "delete_candidate E M b pm =
     w_bind (outside E (\<lambda>n. (case mt_revisionStore M of Some f \<Rightarrow> f n b | None \<Rightarrow> en_store E n b))) (\<lambda>_.
     w_bind (maintenance_now E M) (\<lambda>t.
     w_bind (outside E (\<lambda>n. mt_deleteCollectible M n pm t)) (\<lambda>_.
     w_bind (maintenance_now E M) (\<lambda>u.
     control E (\<lambda>s. sbind (complete_candidate_collection pm u s) (\<lambda>s1. Inr ((), s1)))))))"

definition permit_for_submission :: "environment \<Rightarrow> maintainer \<Rightarrow> submission_target \<Rightarrow> submission_permit work" where
  "permit_for_submission E M tg = (let m = st_submission tg in
     w_bind (maintenance_now E M) (\<lambda>t.
     w_bind (case st_collection tg of None \<Rightarrow> w_return False | Some pm \<Rightarrow> ask E (\<lambda>s. Inr (submission_permit_valid s pm t))) (\<lambda>held.
     case st_collection tg of
       Some pm \<Rightarrow> if held then w_return pm
         else control E (claim_submission_collection (ClaimSubmission (sm_scope m) (sm_id m) (maintenance_until E M t) t))
     | None \<Rightarrow> control E (claim_submission_collection (ClaimSubmission (sm_scope m) (sm_id m) (maintenance_until E M t) t)))))"

text \<open>The default submission store is at hand; a configured one is opened for the binding.\<close>

definition delete_submission :: "environment \<Rightarrow> maintainer \<Rightarrow> storage_binding \<Rightarrow> submission_permit \<Rightarrow> unit work" where
  "delete_submission E M b pm =
     w_bind (case mt_submissionStore M of Some f \<Rightarrow> outside E (\<lambda>n. f n b) | None \<Rightarrow> w_return ()) (\<lambda>_.
     w_bind (maintenance_now E M) (\<lambda>t.
     outside E (\<lambda>n. mt_collect M n pm t)))"

record collecting =
  cg_budget :: nat
  cg_inspected :: nat
  cg_attempted :: "string list"
  cg_jobs :: "string list"
  cg_report :: report

definition candidate_key :: "candidate_target \<Rightarrow> failure + string" where
  "candidate_key tg = canonical_json (JArr [JStr ''candidate'', binding_scope_json (cd_scope (tg_identity tg)), JStr (cd_candidateId (tg_identity tg))])"

definition submission_key :: "submission_target \<Rightarrow> failure + string" where
  "submission_key tg = canonical_json (JArr [JStr ''submission'', run_scope_json (sm_scope (st_submission tg)), JStr (sm_id (st_submission tg))])"

definition inspect_target :: "string \<Rightarrow> collecting \<Rightarrow> collecting" where
  "inspect_target k g = g\<lparr>cg_inspected := Suc (cg_inspected g), cg_attempted := k # cg_attempted g\<rparr>"

definition spend :: "collecting \<Rightarrow> collecting" where
  "spend g = g\<lparr>cg_budget := cg_budget g - 1\<rparr>"

definition count_collected :: "collecting \<Rightarrow> collecting" where
  "count_collected g = g\<lparr>cg_report := (cg_report g)\<lparr>rp_collected := rp_collected (cg_report g) + 1\<rparr>\<rparr>"

text \<open>A target costs one inspection, and one unit of the budget once its permit is there. The result says why
  the collection failed.\<close>

definition collect_target :: "maintainer \<Rightarrow> failure + string \<Rightarrow> 'p work \<Rightarrow> ('p \<Rightarrow> unit work) \<Rightarrow> collecting \<Rightarrow> (collecting \<times> failure option) work" where
  "collect_target M key claim delete g = (case key of
     Inl e \<Rightarrow> w_return (g, Some e)
   | Inr k \<Rightarrow>
       if cg_budget g = 0 \<or> mt_batchSize M \<le> cg_inspected g \<or> k \<in> set (cg_attempted g) then w_return (g, None)
       else let g1 = inspect_target k g in
         attempt claim
           (\<lambda>pm. attempt (delete pm) (\<lambda>_. w_return (count_collected (spend g1), None)) (\<lambda>e. w_return (spend g1, Some e)))
           (\<lambda>e. w_return (g1, Some e)))"

definition collect_candidate :: "environment \<Rightarrow> maintainer \<Rightarrow> candidate_target \<Rightarrow> collecting \<Rightarrow> (collecting \<times> failure option) work" where
  "collect_candidate E M tg = collect_target M (candidate_key tg)
     (w_bind (original_binding (tg_binding tg) (cd_scope (tg_identity tg))) (\<lambda>b.
      w_bind (permit_for_candidate E M tg) (\<lambda>pm. w_return (b, pm))))
     (\<lambda>(b, pm). delete_candidate E M b pm)"

definition collect_submission :: "environment \<Rightarrow> maintainer \<Rightarrow> submission_target \<Rightarrow> collecting \<Rightarrow> (collecting \<times> failure option) work" where
  "collect_submission E M tg = collect_target M (submission_key tg)
     (w_bind (original_binding (st_binding tg) (rs_binding (sm_scope (st_submission tg)))) (\<lambda>b.
      w_bind (permit_for_submission E M tg) (\<lambda>pm. w_return (b, pm))))
     (\<lambda>(b, pm). delete_submission E M b pm)"

definition note_failure :: "maintainer \<Rightarrow> string \<Rightarrow> id \<Rightarrow> collecting \<times> failure option \<Rightarrow> collecting" where
  "note_failure M job i x = (case snd x of
     None \<Rightarrow> fst x
   | Some e \<Rightarrow> (fst x)\<lparr>cg_report := note_error M job i e (cg_report (fst x))\<rparr>)"

text \<open>Within a cleanup the first failure is kept.\<close>

definition first_failure :: "failure option \<Rightarrow> failure option \<Rightarrow> failure option" where
  "first_failure a b = (case a of None \<Rightarrow> b | Some e \<Rightarrow> Some e)"

definition cleanup_candidate :: "environment \<Rightarrow> maintainer \<Rightarrow> collecting \<times> failure option \<Rightarrow> candidate_target \<Rightarrow> (collecting \<times> failure option) work" where
  "cleanup_candidate E M st tg =
     w_bind (collect_candidate E M tg (fst st)) (\<lambda>x.
     w_return (note_failure M ''collect-candidate'' (cd_candidateId (tg_identity tg)) x, first_failure (snd st) (snd x)))"

definition cleanup_submission :: "environment \<Rightarrow> maintainer \<Rightarrow> collecting \<times> failure option \<Rightarrow> submission_target \<Rightarrow> (collecting \<times> failure option) work" where
  "cleanup_submission E M st tg =
     w_bind (collect_submission E M tg (fst st)) (\<lambda>x.
     w_return (note_failure M ''collect-submission'' (sm_id (st_submission tg)) x, first_failure (snd st) (snd x)))"

section \<open>Cleanup records\<close>

definition target_cursor :: "cleanup \<Rightarrow> string" where
  "target_cursor c = (case cl_targetCursor c of Some (Some x) \<Rightarrow> x | _ \<Rightarrow> [])"

definition no_targets :: "cleanup_targets \<Rightarrow> bool" where
  "no_targets x \<longleftrightarrow> ctt_candidates x = [] \<and> ctt_submissions x = []"

definition claim_job :: "environment \<Rightarrow> maintainer \<Rightarrow> nat \<Rightarrow> cleanup \<Rightarrow> (cleanup \<times> cleanup_targets) work" where
  "claim_job E M limit pending =
     w_bind (maintenance_now E M) (\<lambda>t.
     w_bind (control E (claim_cleanup (ClaimCleanup (cl_scope pending) (cl_id pending) (cl_version pending) (en_ownerId E) t
       (maintenance_until E M t)))) (\<lambda>c.
     w_bind (ask E (\<lambda>s. get_cleanup_targets s (cl_scope c) (cl_id c) (int limit) (target_cursor c))) (\<lambda>x.
     w_bind (case x of
         Some tg \<Rightarrow> if no_targets tg \<and> target_cursor c \<noteq> []
           then ask E (\<lambda>s. get_cleanup_targets s (cl_scope c) (cl_id c) (int limit) []) else w_return x
       | None \<Rightarrow> w_return x) (\<lambda>y.
     w_bind (w_found y (Fail STORAGE_UNAVAILABLE)) (\<lambda>tg. w_return (c, tg))))))"

text \<open>The record fails, is released for what remains, or is complete; the result says whether it is.\<close>

definition finish_job :: "environment \<Rightarrow> maintainer \<Rightarrow> cleanup \<Rightarrow> string option \<Rightarrow> failure option \<Rightarrow> bool work" where
  "finish_job E M c next failed =
     w_bind (maintenance_now E M) (\<lambda>t.
     w_bind (w_found (cl_claim c) Crash) (\<lambda>k.
     let settle = (\<lambda>err at. control E (complete_cleanup (CompleteCleanup (cl_scope c) (cl_id c) (cl_version c) (pc_fence k) err at (Some next) t))) in
     case failed of
       Some e \<Rightarrow> w_bind (settle (Some (mt_message M e)) (en_until E t (mt_retryDelayMs M))) (\<lambda>_. w_return False)
     | None \<Rightarrow>
         w_bind (ask E (\<lambda>s. get_cleanup_targets s (cl_scope c) (cl_id c) 1 [])) (\<lambda>x.
         if (case x of None \<Rightarrow> True | Some tg \<Rightarrow> \<not> no_targets tg)
         then w_bind (control E (release_cleanup_claim (ReleaseCleanup (cl_scope c) (cl_id c) (cl_version c) (pc_fence k) t (Some next) t))) (\<lambda>_. w_return False)
         else w_bind (settle None t) (\<lambda>_. w_return True))))"

definition run_job :: "environment \<Rightarrow> maintainer \<Rightarrow> cleanup \<Rightarrow> collecting \<Rightarrow> collecting work" where
  "run_job E M pending g =
     (let note = (\<lambda>h e. w_return (h\<lparr>cg_report := note_error M ''cleanup'' (cl_id pending) e (cg_report h)\<rparr>)) in
      attempt (claim_job E M (min (cg_budget g) (mt_batchSize M - cg_inspected g)) pending)
        (\<lambda>(c, tg).
           w_bind (for_each (cleanup_candidate E M) (ctt_candidates tg) (g, None)) (\<lambda>st.
           w_bind (for_each (cleanup_submission E M) (ctt_submissions tg) st) (\<lambda>(h, failed).
           attempt (finish_job E M c (ctt_nextCursor tg) failed)
             (\<lambda>cleaned. w_return (if cleaned then h\<lparr>cg_report := (cg_report h)\<lparr>rp_cleaned := rp_cleaned (cg_report h) + 1\<rparr>\<rparr> else h))
             (note h))))
        (note g))"

definition job_key :: "cleanup \<Rightarrow> failure + string" where
  "job_key c = canonical_json (JArr [workspace_scope_json (cl_scope c), JStr (cl_id c)])"

text \<open>One row of the scan. The key of a cleanup is computed outside every try block.\<close>

definition collect_work :: "environment \<Rightarrow> maintainer \<Rightarrow> collection_work \<Rightarrow> collecting \<Rightarrow> collecting work" where
  "collect_work E M x g = (case x of
     CandidateWork tg \<Rightarrow> w_bind (collect_candidate E M tg g) (\<lambda>y.
       w_return (note_failure M ''collect-candidate'' (cd_candidateId (tg_identity tg)) y))
   | SubmissionWork tg \<Rightarrow> w_bind (collect_submission E M tg g) (\<lambda>y.
       w_return (note_failure M ''collect-submission'' (sm_id (st_submission tg)) y))
   | CleanupWork c \<Rightarrow> w_bind (w_lift (job_key c)) (\<lambda>k.
       if k \<in> set (cg_jobs g) then w_return g else run_job E M c (g\<lparr>cg_jobs := k # cg_jobs g\<rparr>)))"

primrec scan :: "environment \<Rightarrow> maintainer \<Rightarrow> nat \<Rightarrow> collecting \<Rightarrow> collecting work" where
  "scan E M 0 g = w_return g"
| "scan E M (Suc k) g =
     (if cg_budget g = 0 \<or> mt_batchSize M \<le> cg_inspected g then w_return g
      else
        w_bind (maintenance_now E M) (\<lambda>t.
        w_bind (control E (next_collection_work t)) (\<lambda>x.
        w_bind (case x of None \<Rightarrow> w_return g | Some y \<Rightarrow> collect_work E M y g) (scan E M k))))"

section \<open>A tick\<close>

definition tick :: "platform \<Rightarrow> environment \<Rightarrow> maintainer \<Rightarrow> report work" where
  "tick P E M = (let b = int (mt_batchSize M) in
     w_bind (maintenance_now E M) (\<lambda>t.
     w_bind (ask E (\<lambda>s. list_recoverable_operations s t b (Some (recovered_kinds M)))) (\<lambda>ops.
     w_bind (for_each (recover_operation P E M) ops new_report) (\<lambda>r.
     w_bind (maintenance_now E M) (\<lambda>u.
     w_bind (ask E (\<lambda>s. list_expired_active_runs s u b None)) (\<lambda>(runs, _).
     w_bind (for_each (expire_run_target E M) runs r) (\<lambda>r1.
     w_bind (maintenance_now E M) (\<lambda>v.
     w_bind (ask E (\<lambda>s. list_pending_outbox s v b)) (\<lambda>pending.
     w_bind (for_each (deliver_event P E M) pending (0, r1)) (\<lambda>(_, r2).
     w_bind (scan E M (3 * mt_batchSize M)
       \<lparr>cg_budget = mt_batchSize M, cg_inspected = 0, cg_attempted = [], cg_jobs = [], cg_report = r2\<rparr>) (\<lambda>g.
     w_return (cg_report g))))))))))))"

end
