(* ===== verification/Cv_Transfer.thy ===== *)
theory Cv_Transfer
  imports Cv_Maintenance
begin

text \<open>
  \<open>StorageMigrationService\<close> (\<open>src/application/migrations/storage.ts\<close>): an operator moves the whole accepted
  history of a workspace to another storage profile. The service inspects every retained file, claims the
  migration, backs the history up, copies and verifies each revision in the target store, verifies all copies
  and the backup again, and asks the catalog for the atomic switch. Reading the backup back is
  \<open>verifyMigrationBackup\<close> of \<open>archive.ts\<close>; writing it is file work outside the model, as is the database
  backup of \<open>captureMigrationCatalog\<close>, which \<open>tf_capture\<close> gives.

  The renewals of the interval timer run here after the work they accompany: the catalog calls of that work
  come first in it, and a failed renewal takes precedence over what the work did.
\<close>

section \<open>Configuration\<close>

datatype storage_profile = StorageProfile (sf_configurationRef: string) (sf_backend: backend) (sf_storeId: string)

text \<open>\<open>path.resolve\<close> of an absolute path.\<close>

fun resolve_step :: "string list \<Rightarrow> string \<Rightarrow> string list" where
  "resolve_step out c = (if c = [] \<or> c = ''.'' then out else if c = ''..'' then drop 1 out else c # out)"

definition resolve_path :: "string \<Rightarrow> string" where
  "resolve_path p = CHR ''/'' # join_with ''/'' (rev (foldl resolve_step [] (split_on CHR ''/'' p)))"

text \<open>A receipt of a backup as it is read from its file.\<close>

record backup_receipt =
  br_schemaVersion :: int
  br_workspace :: workspace
  br_revisions :: "revision list"
  br_manifests :: "(id \<times> json) list"
  br_catalogSha256 :: string
  br_secretsLength :: int
  br_secretsSha256 :: string

record transferrer =
  tf_reader :: reader
  tf_profiles :: "storage_profile list"
  tf_pages :: nat
  tf_inspect :: "nat \<Rightarrow> candidate_identity \<Rightarrow> failure + prepared_revision option"
  tf_manifest :: "nat \<Rightarrow> prepared_revision \<Rightarrow> failure + json"
  tf_open :: "nat \<Rightarrow> prepared_revision \<Rightarrow> string \<Rightarrow> failure + string list"
  tf_capture :: "nat \<Rightarrow> migration \<Rightarrow> failure + (catalog \<times> string)"
  tf_archive :: "nat \<Rightarrow> string \<Rightarrow> revision \<Rightarrow> manifest \<Rightarrow> failure + unit"
  tf_secrets :: "nat \<Rightarrow> string \<Rightarrow> failure + (int \<times> string)"
  tf_save :: "nat \<Rightarrow> string \<Rightarrow> backup_receipt \<Rightarrow> failure + unit"
  tf_receipt :: "nat \<Rightarrow> string \<Rightarrow> failure + backup_receipt"
  tf_snapshot :: "nat \<Rightarrow> string \<Rightarrow> failure + string"
  tf_backupFile :: "nat \<Rightarrow> string \<Rightarrow> manifest_entry \<Rightarrow> failure + string list"

section \<open>JSON of what a receipt covers\<close>

primrec backend_text :: "backend \<Rightarrow> string" where
  "backend_text GitBackend = ''git''"
| "backend_text S3Backend = ''s3''"

primrec workspace_status_text :: "workspace_status \<Rightarrow> string" where
  "workspace_status_text WsActive = ''active''"
| "workspace_status_text WsSuspended = ''suspended''"
| "workspace_status_text WsDeleted = ''deleted''"

definition workspace_json :: "workspace \<Rightarrow> json" where
  "workspace_json w = JObj [(''id'', JStr (ws_id w)), (''customerId'', JStr (ws_customerId w)), (''name'', JStr (ws_name w)),
     (''currentRevisionId'', JStr (ws_currentRevisionId w)), (''version'', JInt (ws_version w)), (''status'', JStr (workspace_status_text (ws_status w))),
     (''storageBindingId'', JStr (ws_storageBindingId w)), (''bindingGeneration'', JInt (ws_bindingGeneration w)),
     (''createdAt'', JStr (ws_createdAt w)), (''updatedAt'', JStr (ws_updatedAt w))]"

definition revision_json :: "revision \<Rightarrow> json" where
  "revision_json v = JObj [(''id'', JStr (rv_id v)), (''scope'', binding_scope_json (rv_scope v)), (''parentRevisionId'', json_option (rv_parentRevisionId v)),
     (''manifestDigest'', JStr (rv_manifestDigest v)), (''privateReference'', locator_json (rv_privateReference v)),
     (''originatingOperationId'', JStr (rv_originatingOperationId v)), (''createdAt'', JStr (rv_createdAt v))]"

definition receipt_json :: "backup_receipt \<Rightarrow> json" where
  "receipt_json r = JObj [(''schemaVersion'', JInt (br_schemaVersion r)), (''workspace'', workspace_json (br_workspace r)),
     (''revisions'', JArr (map revision_json (br_revisions r))),
     (''manifests'', JArr (map (\<lambda>(i, m). JObj [(''revisionId'', JStr i), (''manifest'', m)]) (br_manifests r))),
     (''catalogSha256'', JStr (br_catalogSha256 r)),
     (''secrets'', JObj [(''byteLength'', JInt (br_secretsLength r)), (''sha256'', JStr (br_secretsSha256 r))])]"

section \<open>The retained history\<close>

text \<open>The pages of the history, at most \<open>tf_pages\<close> of a thousand revisions.\<close>

primrec retained_pages :: "environment \<Rightarrow> nat \<Rightarrow> workspace_scope \<Rightarrow> string option \<Rightarrow> revision list work" where
  "retained_pages E 0 sc cursor = w_throw Crash"
| "retained_pages E (Suc k) sc cursor =
     w_bind (ask E (\<lambda>s. list_revisions s sc cursor 1000)) (\<lambda>(vs, next).
     case given_id next of
       None \<Rightarrow> w_return vs
     | Some c \<Rightarrow> w_bind (retained_pages E k sc (Some c)) (\<lambda>us. w_return (vs @ us)))"

definition retained_revisions :: "environment \<Rightarrow> transferrer \<Rightarrow> workspace_scope \<Rightarrow> revision list work" where
  "retained_revisions E F sc = retained_pages E (tf_pages F) sc None"

definition retained_source :: "platform \<Rightarrow> environment \<Rightarrow> transferrer \<Rightarrow> principal \<Rightarrow> revision \<Rightarrow> (storage_binding \<times> manifest) work" where
  "retained_source P E F p v = (let R = tf_reader F; sc = bs_workspace (rv_scope v) in
     w_bind (authorize E p WorkspaceRead (of_bs (rv_scope v))) (\<lambda>_.
     w_bind (ask E (\<lambda>s. Inr (get_binding s sc (bsc_storageBindingId (rv_scope v))))) (\<lambda>x.
     w_bind (w_found x (Fail STORAGE_BINDING_CHANGED)) (\<lambda>b.
     w_bind (w_check (sb_generation b = bsc_bindingGeneration (rv_scope v)) STORAGE_BINDING_CHANGED) (\<lambda>_.
     w_bind (outside E (\<lambda>n. rd_store R n b)) (\<lambda>_.
     w_bind (outside E (\<lambda>n. rd_manifest R n b v)) (\<lambda>raw.
     w_bind (w_lift (canonicalize_manifest P (rd_limits R) raw)) (\<lambda>m.
     w_bind (w_lift (manifest_digest P no_override (manifest_json m))) (\<lambda>d.
     w_bind (w_check (d = rv_manifestDigest v) RECEIPT_MISMATCH) (\<lambda>_. w_return (b, m)))))))))))"

text \<open>Reading a retained file to its end: the permission is asked for the file and for each of its pieces.\<close>

definition retained_file :: "platform \<Rightarrow> environment \<Rightarrow> transferrer \<Rightarrow> principal \<Rightarrow> revision \<Rightarrow> storage_binding \<times> manifest \<Rightarrow> string \<Rightarrow> string work" where
  "retained_file P E F p v src path = (let R = tf_reader F; sc = bs_workspace (rv_scope v) in
     w_bind (authorize E p WorkspaceRead (of_bs (rv_scope v))) (\<lambda>_.
     w_bind (w_found (find (\<lambda>e. me_path e = path \<and> is_file e) (mf_entries (snd src))) (Fail REVISION_NOT_FOUND)) (\<lambda>e.
     w_bind (outside E (\<lambda>n. rd_open R n (fst src) v path)) (\<lambda>chunks.
     case verify_file_stream P (rd_limits R) e chunks of (ps, r) \<Rightarrow>
       w_bind (hand_out E R p sc ps []) (\<lambda>out. w_bind (w_lift r) (\<lambda>_. w_return out))))))"

definition files_of :: "manifest \<Rightarrow> manifest_entry list" where
  "files_of m = filter is_file (mf_entries m)"

definition inspect_revision :: "platform \<Rightarrow> environment \<Rightarrow> transferrer \<Rightarrow> principal \<Rightarrow> unit \<Rightarrow> revision \<Rightarrow> unit work" where
  "inspect_revision P E F p u v =
     w_bind (retained_source P E F p v) (\<lambda>src.
     for_each (\<lambda>_ e. w_bind (retained_file P E F p v src (me_path e)) (\<lambda>_. w_return ())) (files_of (snd src)) ())"

definition inspect_history :: "platform \<Rightarrow> environment \<Rightarrow> transferrer \<Rightarrow> principal \<Rightarrow> workspace_scope \<Rightarrow> (workspace \<times> revision list \<times> string) work" where
  "inspect_history P E F p sc =
     w_bind (authorize E p WorkspaceMigrate (of_ws sc)) (\<lambda>_.
     w_bind (ask E (\<lambda>s. Inr (get_workspace s sc))) (\<lambda>x.
     w_bind (w_found x (Fail WORKSPACE_NOT_FOUND)) (\<lambda>w.
     w_bind (retained_revisions E F sc) (\<lambda>vs.
     w_bind (for_each (inspect_revision P E F p) vs ()) (\<lambda>_.
     w_bind (w_lift (retained_revision_set_digest P vs)) (\<lambda>d. w_return (w, vs, d)))))))"

section \<open>Verification of the target and of the backup\<close>

text \<open>The pieces of a verified stream, with the abort signal checked before each.\<close>

definition consume :: "platform \<Rightarrow> environment \<Rightarrow> reader \<Rightarrow> manifest_entry \<Rightarrow> string list \<Rightarrow> unit work" where
  "consume P E R e chunks = (case verify_file_stream P (rd_limits R) e chunks of (ps, r) \<Rightarrow>
     w_bind (for_each (\<lambda>_ _. outside E (\<lambda>n. if rd_aborted R n then Inl Crash else Inr ())) ps ()) (\<lambda>_. w_lift r))"

definition verify_target :: "platform \<Rightarrow> environment \<Rightarrow> transferrer \<Rightarrow> prepared_revision \<Rightarrow> manifest \<Rightarrow> unit work" where
  "verify_target P E F c src = (let R = tf_reader F in
     w_bind (outside E (\<lambda>n. tf_manifest F n c)) (\<lambda>raw.
     w_bind (w_lift (canonicalize_manifest P (rd_limits R) raw)) (\<lambda>m.
     w_bind (w_lift (canonical_json (manifest_json m))) (\<lambda>a.
     w_bind (w_lift (canonical_json (manifest_json src))) (\<lambda>b.
     w_bind (w_check (a = b) RECEIPT_MISMATCH) (\<lambda>_.
     w_bind (w_lift (manifest_digest P no_override (manifest_json m))) (\<lambda>d.
     w_bind (w_check (d = pp_manifestDigest c) RECEIPT_MISMATCH) (\<lambda>_.
     for_each (\<lambda>_ e. w_bind (outside E (\<lambda>n. tf_open F n c (me_path e))) (consume P E R e)) (files_of m) ()))))))))"

definition revision_directory :: "platform \<Rightarrow> string \<Rightarrow> revision \<Rightarrow> failure + string" where
  "revision_directory P dir v = sbind (digest_of P (JStr (rv_id v))) (\<lambda>d. Inr (resolve_path (dir @ ''/revisions/'' @ d)))"

definition verify_backup_revision :: "platform \<Rightarrow> environment \<Rightarrow> transferrer \<Rightarrow> string \<Rightarrow> backup_receipt \<Rightarrow> revision \<Rightarrow> unit work" where
  "verify_backup_revision P E F dir r v = (let R = tf_reader F in
     w_bind (w_check (length (filter (\<lambda>x. fst x = rv_id v) (br_manifests r)) = 1) RECEIPT_MISMATCH) (\<lambda>_.
     w_bind (w_lift (canonicalize_manifest P (rd_limits R) (snd (hd (filter (\<lambda>x. fst x = rv_id v) (br_manifests r)))))) (\<lambda>m.
     w_bind (w_lift (manifest_digest P no_override (manifest_json m))) (\<lambda>d.
     w_bind (w_check (d = rv_manifestDigest v) RECEIPT_MISMATCH) (\<lambda>_.
     w_bind (w_lift (revision_directory P dir v)) (\<lambda>root.
     w_bind (outside E (\<lambda>n. tf_snapshot F n root)) (\<lambda>saved.
     w_bind (w_lift (canonical_json (JObj [(''revision'', revision_json v), (''manifest'', manifest_json m)]))) (\<lambda>now.
     w_bind (w_check (saved = now) RECEIPT_MISMATCH) (\<lambda>_.
     for_each (\<lambda>_ e. w_bind (outside E (\<lambda>n. tf_backupFile F n (resolve_path (root @ ''/files'')) e)) (consume P E R e)) (files_of m) ())))))))))"

definition secrets_entry :: "backup_receipt \<Rightarrow> manifest_entry" where
  "secrets_entry r = FileEntry ''legacy-secrets.json'' (br_secretsLength r) (br_secretsSha256 r)"

definition receipt_covers :: "platform \<Rightarrow> migration_backup \<Rightarrow> backup_receipt \<Rightarrow> workspace \<Rightarrow> revision list \<Rightarrow> string \<Rightarrow> failure + bool" where
  "receipt_covers P b r w vs sha =
     sbind (digest_of P (receipt_json r)) (\<lambda>d.
     sbind (canonical_json (workspace_json (br_workspace r))) (\<lambda>a.
     sbind (canonical_json (workspace_json w)) (\<lambda>a'.
     sbind (canonical_json (JArr (map revision_json (br_revisions r)))) (\<lambda>c.
     sbind (canonical_json (JArr (map revision_json vs))) (\<lambda>c'.
     Inr (Some d = mb_receiptDigest b \<and> br_schemaVersion r = 1 \<and> br_catalogSha256 r = sha \<and> a = a' \<and> c = c' \<and>
       length (br_manifests r) = length vs))))))"

definition verify_migration_backup :: "platform \<Rightarrow> environment \<Rightarrow> transferrer \<Rightarrow> migration \<Rightarrow> workspace \<Rightarrow> revision list \<Rightarrow> string \<Rightarrow> unit work" where
  "verify_migration_backup P E F m w vs sha =
     w_bind (w_found (mg_backup m) (Fail RECEIPT_MISMATCH)) (\<lambda>b.
     w_bind (w_check (mb_state b = BackupReady) RECEIPT_MISMATCH) (\<lambda>_.
     w_bind (outside E (\<lambda>n. tf_receipt F n (mb_directory b))) (\<lambda>r.
     w_bind (w_lift (receipt_covers P b r w vs sha)) (\<lambda>ok.
     w_bind (w_check ok RECEIPT_MISMATCH) (\<lambda>_.
     w_bind (for_each (\<lambda>_ v. verify_backup_revision P E F (mb_directory b) r v) vs ()) (\<lambda>_.
     w_bind (outside E (\<lambda>n. tf_backupFile F n (mb_directory b) (secrets_entry r))) (consume P E (tf_reader F) (secrets_entry r))))))))"

section \<open>Work under a claim\<close>

definition migration_cas_of :: "environment \<Rightarrow> migration \<Rightarrow> migration_cas work" where
  "migration_cas_of E m = w_bind (runtime_now E) (\<lambda>t.
     w_return (MigrationCAS (mg_scope m) (mg_id m) (mg_version m) (pc_fence (mg_claim m)) t))"

definition renew_migration :: "environment \<Rightarrow> migration \<Rightarrow> migration work" where
  "renew_migration E m =
     w_bind (runtime_now E) (\<lambda>t.
     control E (renew_storage_migration_claim (RenewMigration (MigrationCAS (mg_scope m) (mg_id m) (mg_version m) (pc_fence (mg_claim m)) t)
       (extended E (en_processingTtlMs E) t (pc_expiresAt (mg_claim m))))))"

primrec renew_migration_ticks :: "environment \<Rightarrow> nat \<Rightarrow> migration \<Rightarrow> (migration \<times> failure option) work" where
  "renew_migration_ticks E 0 m = w_return (m, None)"
| "renew_migration_ticks E (Suc k) m = attempt (renew_migration E m) (renew_migration_ticks E k) (\<lambda>e. w_return (m, Some e))"

definition migration_io :: "environment \<Rightarrow> migration \<Rightarrow> 'a work \<Rightarrow> (migration \<times> 'a) work" where
  "migration_io E m job = attempt job
     (\<lambda>a. w_bind (renew_migration_ticks E (en_ticks E) m) (\<lambda>(q, failed). case failed of None \<Rightarrow> w_return (q, a) | Some e \<Rightarrow> w_throw e))
     (\<lambda>x. w_bind (renew_migration_ticks E (en_ticks E) m) (\<lambda>(q, failed). w_throw (case failed of None \<Rightarrow> x | Some e \<Rightarrow> e)))"

text \<open>\<open>captureMigrationCatalog\<close>: the catalog's part, the database backup outside the model (the catalog it holds
  and its digest), and the comparison of the two.\<close>

definition capture_catalog :: "platform \<Rightarrow> environment \<Rightarrow> transferrer \<Rightarrow> migration \<Rightarrow> string work" where
  "capture_catalog P E F m =
     w_bind (migration_cas_of E m) (\<lambda>cas.
     w_bind (control E (begin_capture cas)) (\<lambda>q.
     w_bind (outside E (\<lambda>n. tf_capture F n q)) (\<lambda>(backup, sha).
     w_bind (w_lift (backup_matches P (mg_scope m) q backup)) (\<lambda>_. w_return sha))))"

definition check_backup :: "platform \<Rightarrow> environment \<Rightarrow> transferrer \<Rightarrow> workspace \<Rightarrow> revision list \<Rightarrow> migration \<Rightarrow> migration work" where
  "check_backup P E F w vs m =
     w_bind (migration_io E m (w_bind (capture_catalog P E F m) (verify_migration_backup P E F m w vs))) (\<lambda>(q, _). w_return q)"

section \<open>Claiming\<close>

datatype transfer_input = TransferInput (ti_scope: workspace_scope) (ti_principal: principal) (ti_key: string) (ti_request: migration_request)

definition transfer_json :: "migration_request \<Rightarrow> json" where
  "transfer_json r = JObj [(''targetConfigurationRef'', JStr (mq_targetConfigurationRef r)), (''backupRoot'', JStr (mq_backupRoot r)),
     (''reason'', JStr (mq_reason r))]"

definition resolved_request :: "migration_request \<Rightarrow> migration_request" where
  "resolved_request r = MigrationRequest (mq_targetConfigurationRef r) (resolve_path (mq_backupRoot r)) (mq_reason r)"

definition migration_id_of :: "platform \<Rightarrow> command_identity \<Rightarrow> failure + id" where
  "migration_id_of P c = sbind (digest_of P (JArr [idempotency_scope_json (cm_scope c), JStr (cm_key c)])) (\<lambda>d. Inr (''migration-'' @ d))"

definition new_target :: "environment \<Rightarrow> transferrer \<Rightarrow> workspace_scope \<Rightarrow> migration_request \<Rightarrow> workspace \<Rightarrow> storage_binding work" where
  "new_target E F sc r w =
     w_bind (w_found (find (\<lambda>f. sf_configurationRef f = mq_targetConfigurationRef r) (tf_profiles F)) (Fail INVALID_REQUEST)) (\<lambda>f.
     w_bind (ask E (\<lambda>s. Inr (get_binding s sc (ws_storageBindingId w)))) (\<lambda>x.
     w_bind (w_found x (Fail INVALID_REQUEST)) (\<lambda>b.
     w_bind (w_check (sb_configurationRef b \<noteq> sf_configurationRef f) INVALID_REQUEST) (\<lambda>_.
     w_bind (new_id E ''binding'') (\<lambda>i.
     w_bind (runtime_now E) (\<lambda>t.
     w_return \<lparr>sb_id = i, sb_scope = sc, sb_backend = sf_backend f, sb_generation = ws_bindingGeneration w + 1,
       sb_location = PrivateLocator (sf_storeId f) (wsc_workspaceId sc), sb_configurationRef = sf_configurationRef f,
       sb_status = BindingActive, sb_createdAt = t\<rparr>))))))"

text \<open>What a transfer moves: the workspace, its history with the digest to claim, and the target. A known
  migration keeps its digest and target.\<close>

definition selected_history :: "platform \<Rightarrow> environment \<Rightarrow> transferrer \<Rightarrow> principal \<Rightarrow> workspace_scope \<Rightarrow> migration_request \<Rightarrow> workspace \<Rightarrow> migration option \<Rightarrow>
    (workspace \<times> revision list \<times> string \<times> storage_binding) work" where
  "selected_history P E F p sc r w0 known = (case known of
     Some m \<Rightarrow>
       w_bind (retained_revisions E F sc) (\<lambda>vs. w_return (w0, vs, mg_retainedRevisionSetDigest m, mg_targetBinding m))
   | None \<Rightarrow>
       w_bind (inspect_history P E F p sc) (\<lambda>(w, vs, _).
       w_bind (new_target E F sc r w) (\<lambda>b.
       w_bind (w_lift (retained_revision_set_digest P vs)) (\<lambda>d. w_return (w, vs, d, b)))))"

definition claim_transfer :: "platform \<Rightarrow> environment \<Rightarrow> transferrer \<Rightarrow> transfer_input \<Rightarrow> migration_request \<Rightarrow> (workspace \<times> revision list \<times> migration) work" where
  "claim_transfer P E F i r = (let sc = ti_scope i; p = ti_principal i in
     w_bind (authorize E p WorkspaceMigrate (of_ws sc)) (\<lambda>a.
     w_bind (command_for P E KStorageMigrate p (ti_key i) (transfer_json r) (of_ws sc) None) (\<lambda>c.
     w_bind (w_lift (migration_id_of P c)) (\<lambda>mid.
     w_bind (ask E (\<lambda>s. Inr (get_storage_migration s sc mid))) (\<lambda>known.
     w_bind (ask E (\<lambda>s. Inr (get_workspace s sc))) (\<lambda>x.
     w_bind (w_found x (Fail WORKSPACE_NOT_FOUND)) (\<lambda>w0.
     w_bind (selected_history P E F p sc r w0 known) (\<lambda>(w, vs, d, b).
     w_bind (runtime_now E) (\<lambda>t.
     w_bind (control E (claim_storage_migration P (ClaimMigration sc p a c mid b (ws_version w) (ws_currentRevisionId w) (ws_bindingGeneration w) d
       (ProcessingClaim (en_ownerId E) 1 (en_until E t (en_processingTtlMs E))) (Some r) t))) (\<lambda>m.
     w_return (w, vs, m)))))))))))"

text \<open>A claim that is another controller's, or has lapsed, is taken over once it has lapsed.\<close>

definition take_over :: "environment \<Rightarrow> migration \<Rightarrow> migration work" where
  "take_over E m =
     w_bind (if pc_ownerId (mg_claim m) \<noteq> en_ownerId E then w_return True
             else w_bind (runtime_now E) (\<lambda>t. w_return (pc_expiresAt (mg_claim m) \<le> t))) (\<lambda>stale.
     if \<not> stale then w_return m
     else
       w_bind (runtime_now E) (\<lambda>t.
       w_bind (w_check (pc_expiresAt (mg_claim m) \<le> t) PUBLICATION_OUTCOME_UNKNOWN) (\<lambda>_.
       w_bind (runtime_now E) (\<lambda>u.
       w_bind (runtime_now E) (\<lambda>v.
       control E (claim_storage_migration_recovery (MigrationRecovery (mg_scope m) (mg_id m) (mg_version m) (en_ownerId E) u
         (en_until E v (en_processingTtlMs E)))))))))"

section \<open>Backup and copies\<close>

definition archive_one :: "platform \<Rightarrow> environment \<Rightarrow> transferrer \<Rightarrow> principal \<Rightarrow> string \<Rightarrow> migration \<times> (id \<times> json) list \<Rightarrow> revision \<Rightarrow>
    (migration \<times> (id \<times> json) list) work" where
  "archive_one P E F p dir st v =
     w_bind (migration_io E (fst st) (w_bind (retained_source P E F p v) (\<lambda>src.
       w_bind (outside E (\<lambda>n. tf_archive F n dir v (snd src))) (\<lambda>_. w_return (rv_id v, manifest_json (snd src)))))) (\<lambda>(q, entry).
     w_return (q, snd st @ [entry]))"

definition back_up :: "platform \<Rightarrow> environment \<Rightarrow> transferrer \<Rightarrow> principal \<Rightarrow> string \<Rightarrow> workspace \<Rightarrow> revision list \<Rightarrow> migration \<Rightarrow> migration work" where
  "back_up P E F p dir w vs m =
     w_bind (migration_io E m (capture_catalog P E F m)) (\<lambda>(q, sha).
     w_bind (for_each (archive_one P E F p dir) vs (q, [])) (\<lambda>(u, ms).
     w_bind (migration_io E u (outside E (\<lambda>n. tf_secrets F n dir))) (\<lambda>(x, len, sec).
     let r = \<lparr>br_schemaVersion = 1, br_workspace = w, br_revisions = vs, br_manifests = ms, br_catalogSha256 = sha, br_secretsLength = len,
       br_secretsSha256 = sec\<rparr> in
     w_bind (outside E (\<lambda>n. tf_save F n dir r)) (\<lambda>_.
     w_bind (migration_cas_of E x) (\<lambda>cas.
     w_bind (w_lift (digest_of P (receipt_json r))) (\<lambda>d.
     control E (complete_migration_backup (BackupDone cas d))))))))"

definition copy_identity :: "environment \<Rightarrow> migration \<Rightarrow> revision \<Rightarrow> candidate_identity work" where
  "copy_identity E m v = (case find (\<lambda>c. mc_revisionId c = rv_id v) (mg_candidates m) of
     Some c \<Rightarrow> w_return (mc_identity c)
   | None \<Rightarrow>
       w_bind (new_id E ''candidate'') (\<lambda>i.
       w_bind (runtime_now E) (\<lambda>t.
       w_return (CandidateIdentity i (rv_id v) (cm_operationId (mg_command m)) (target_scope_of (mg_scope m) m) (rv_parentRevisionId v) t))))"

definition prepare_copy :: "platform \<Rightarrow> environment \<Rightarrow> transferrer \<Rightarrow> candidate_identity \<Rightarrow> manifest \<Rightarrow> prepared_revision work" where
  "prepare_copy P E F ident src =
     w_bind (outside E (\<lambda>n. tf_inspect F n ident)) (\<lambda>known.
     w_bind (case known of Some c \<Rightarrow> w_return c | None \<Rightarrow> outside E (\<lambda>n. en_prepare E n ident src)) (\<lambda>c.
     w_bind (verify_target P E F c src) (\<lambda>_. w_return c)))"

definition copy_revision :: "platform \<Rightarrow> environment \<Rightarrow> transferrer \<Rightarrow> principal \<Rightarrow> migration \<Rightarrow> revision \<Rightarrow> migration work" where
  "copy_revision P E F p m v = (if list_ex (\<lambda>c. vc_revisionId c = rv_id v) (mg_copies m) then w_return m
   else
     w_bind (copy_identity E m v) (\<lambda>ident.
     w_bind (migration_cas_of E m) (\<lambda>cas.
     w_bind (authorize E p WorkspaceMigrate (of_ws (mg_scope m))) (\<lambda>a.
     w_bind (control E (claim_migration_candidate P (MigrationCandidateInput cas p a (rv_id v) ident))) (\<lambda>q.
     w_bind (hook E) (\<lambda>_.
     w_bind (retained_source P E F p v) (\<lambda>src.
     w_bind (migration_io E q (prepare_copy P E F ident (snd src))) (\<lambda>(u, c).
     w_bind (hook E) (\<lambda>_.
     w_bind (migration_cas_of E u) (\<lambda>cas1.
     w_bind (runtime_now E) (\<lambda>t.
     w_bind (control E (record_verified_revision_copy (RecordCopy cas1 (VerifiedCopy (rv_id v) (rv_manifestDigest v) c t)))) (\<lambda>y.
     w_bind (hook E) (\<lambda>_. w_return y)))))))))))))"

definition check_copy :: "platform \<Rightarrow> environment \<Rightarrow> transferrer \<Rightarrow> principal \<Rightarrow> revision list \<Rightarrow> migration \<Rightarrow> verified_copy \<Rightarrow> migration work" where
  "check_copy P E F p vs m c =
     w_bind (migration_io E m (
       w_bind (w_found (find (\<lambda>v. rv_id v = vc_revisionId c) vs) Crash) (\<lambda>v.
       w_bind (retained_source P E F p v) (\<lambda>src. verify_target P E F (vc_target c) (snd src))))) (\<lambda>(q, _). w_return q)"

section \<open>The transfer\<close>

datatype transfer_summary = TransferSummary (sy_migrationId: id) (sy_state: migration_state) (sy_backend: backend) (sy_currentRevisionId: id)
  (sy_revisions: nat) (sy_bindingId: id) (sy_generation: int) (sy_backupDirectory: "string option")

definition summary :: "migration \<Rightarrow> transfer_summary" where
  "summary m = TransferSummary (mg_id m) (mg_state m) (sb_backend (mg_targetBinding m)) (mg_expectedHeadRevisionId m) (length (mg_copies m))
     (sb_id (mg_targetBinding m)) (sb_generation (mg_targetBinding m)) (map_option mb_directory (mg_backup m))"

definition switch_over :: "platform \<Rightarrow> environment \<Rightarrow> principal \<Rightarrow> workspace \<Rightarrow> migration \<Rightarrow> command_result work" where
  "switch_over P E p w m =
     w_bind (migration_cas_of E m) (\<lambda>cas.
     w_bind (authorize E p WorkspaceMigrate (of_ws (mg_scope m))) (\<lambda>a.
     w_bind (w_lift (verified_copy_set_digest P (mg_copies m))) (\<lambda>d.
     w_bind (runtime_now E) (\<lambda>t.
     control E (switch_storage_binding P (SwitchInput cas p a (ws_version w) (mg_expectedHeadRevisionId m) (mg_sourceBindingGeneration m)
       (mg_retainedRevisionSetDigest m) d (lifecycle_event (cm_operationId (mg_command m)) (mg_scope m) None p ''workspace.storage-migrated'' t)))))))"

definition read_migration :: "environment \<Rightarrow> workspace_scope \<Rightarrow> id \<Rightarrow> migration option work" where
  "read_migration E sc mid = ask E (\<lambda>s. Inr (get_storage_migration s sc mid))"

definition transfer_claimed :: "platform \<Rightarrow> environment \<Rightarrow> transferrer \<Rightarrow> transfer_input \<Rightarrow> migration_request \<Rightarrow> workspace \<Rightarrow> revision list \<Rightarrow> migration \<Rightarrow> transfer_summary work" where
  "transfer_claimed P E F i r w vs m = (let sc = ti_scope i; p = ti_principal i in
     w_bind (hook E) (\<lambda>_.
     w_bind (w_lift (retained_revision_set_digest P vs)) (\<lambda>d.
     w_bind (w_check (d = mg_retainedRevisionSetDigest m \<and> ws_currentRevisionId w = mg_expectedHeadRevisionId m \<and>
       ws_storageBindingId w = mg_sourceBindingId m) REVISION_CONFLICT) (\<lambda>_.
     w_bind (w_lift (digest_of P (workspace_scope_json sc))) (\<lambda>sd.
     let dir = resolve_path (mq_backupRoot r @ ''/'' @ sd @ ''/'' @ mg_id m) in
     w_bind (migration_cas_of E m) (\<lambda>cas.
     w_bind (control E (claim_migration_backup (BackupInput cas dir))) (\<lambda>m1.
     w_bind (if backup_ready m1 then w_return m1 else back_up P E F p dir w vs m1) (\<lambda>m2.
     w_bind (check_backup P E F w vs m2) (\<lambda>m3.
     w_bind (hook E) (\<lambda>_.
     w_bind (outside E (\<lambda>n. rd_store (tf_reader F) n (mg_targetBinding m3))) (\<lambda>_.
     w_bind (for_each (copy_revision P E F p) vs m3) (\<lambda>m4.
     w_bind (for_each (check_copy P E F p vs) (mg_copies m4) m4) (\<lambda>m5.
     w_bind (hook E) (\<lambda>_.
     w_bind (check_backup P E F w vs m5) (\<lambda>m6.
     w_bind (switch_over P E p w m6) (\<lambda>x.
     w_bind (read_migration E sc (mg_id m6)) (\<lambda>y.
     w_bind (w_found y Crash) (\<lambda>z.
     w_bind (w_check (op_state (cx_operation x) = OpSucceeded \<and> mg_state z = MigComplete) PUBLICATION_OUTCOME_UNKNOWN) (\<lambda>_.
     w_bind (hook E) (\<lambda>_. w_return (summary z)))))))))))))))))))))"

definition transfer_failures :: "error_code list" where
  "transfer_failures = [FORBIDDEN, CREDENTIAL_REVOKED, REVISION_CONFLICT, STORAGE_BINDING_CHANGED, WORKSPACE_INACTIVE, WORKSPACE_NOT_FOUND,
     REVISION_NOT_FOUND, INVALID_MANIFEST, QUOTA_EXCEEDED, RECEIPT_MISMATCH, INVALID_REQUEST]"

definition lost_track :: "environment \<Rightarrow> workspace_scope \<Rightarrow> id \<Rightarrow> migration option work" where
  "lost_track E sc mid = w_catch (read_migration E sc mid) (\<lambda>_. w_return None)"

text \<open>The catch: a migration that is complete is reported; a failure that is final is recorded before it is thrown.\<close>

definition recover_transfer :: "environment \<Rightarrow> workspace_scope \<Rightarrow> id \<Rightarrow> failure \<Rightarrow> transfer_summary work" where
  "recover_transfer E sc mid error =
     w_bind (lost_track E sc mid) (\<lambda>x.
     let give_up = (case error of Fail _ \<Rightarrow> w_throw error | Crash \<Rightarrow> unknown) in
     case x of
       None \<Rightarrow> give_up
     | Some m \<Rightarrow>
         if mg_state m = MigComplete then w_return (summary m)
         else (case error of
             Crash \<Rightarrow> give_up
           | Fail code \<Rightarrow>
               if code \<in> set transfer_failures \<and> pc_ownerId (mg_claim m) = en_ownerId E then
                 w_bind (migration_cas_of E m) (\<lambda>cas.
                 w_bind (control E (fail_storage_migration (FailMigration cas (en_message E code)))) (\<lambda>_. w_throw error))
               else give_up))"

text \<open>The finally: a claim that is still held is released, when no writer is at work.\<close>

definition release_transfer :: "environment \<Rightarrow> workspace_scope \<Rightarrow> id \<Rightarrow> unit work" where
  "release_transfer E sc mid =
     w_bind (lost_track E sc mid) (\<lambda>x. case x of
       None \<Rightarrow> w_return ()
     | Some m \<Rightarrow>
         if mg_state m = MigComplete \<or> mg_state m = MigFailed \<or> pc_ownerId (mg_claim m) \<noteq> en_ownerId E then w_return ()
         else
           w_bind (runtime_now E) (\<lambda>t.
           if pc_expiresAt (mg_claim m) \<le> t then w_return ()
           else
             w_bind (migration_cas_of E m) (\<lambda>cas.
             w_catch (w_bind (control E (release_storage_migration_claim (ReleaseMigration cas (en_ownerId E)))) (\<lambda>_. w_return ())) (\<lambda>_. w_return ()))))"

definition transfer :: "platform \<Rightarrow> environment \<Rightarrow> transferrer \<Rightarrow> transfer_input \<Rightarrow> transfer_summary work" where
  "transfer P E F i = (let q = ti_request i; sc = ti_scope i in
     w_bind (w_check (\<not> blank (mq_reason q) \<and> js_length (mq_reason q) \<le> 4096 \<and> is_absolute (mq_backupRoot q)) INVALID_REQUEST) (\<lambda>_.
     let r = resolved_request q in
     w_bind (claim_transfer P E F i r) (\<lambda>(w, vs, m).
     if mg_state m = MigComplete then w_return (summary m)
     else
       w_bind (w_check (mg_state m \<noteq> MigFailed) INVALID_TRANSITION) (\<lambda>_.
       w_bind (take_over E m) (\<lambda>m1.
       attempt (w_catch (transfer_claimed P E F i r w vs m1) (recover_transfer E sc (mg_id m1)))
         (\<lambda>a. w_bind (release_transfer E sc (mg_id m1)) (\<lambda>_. w_return a))
         (\<lambda>e. w_bind (release_transfer E sc (mg_id m1)) (\<lambda>_. w_throw e)))))))"

end
