(* ===== verification/Cv_Processing.thy ===== *)
theory Cv_Processing
  imports Cv_Worker Cv_Publication
begin

text \<open>
  What a worker guarantees, whatever the other actors of the catalog do between its calls, whichever of
  its answers are lost, and whatever the revision store and the submission store return: the logic
  \<open>ensures\<close> for the worker's programs, one rule for each combinator, and the facts about the catalog
  operations the worker calls.
\<close>

section \<open>What the catalog operations return\<close>

text \<open>The operation \<open>o'\<close> is in the catalog under the id \<open>oid\<close>, settled.\<close>

definition filed :: "workspace_scope \<Rightarrow> id \<Rightarrow> operation \<Rightarrow> catalog \<Rightarrow> bool" where
  "filed sc oid o' s \<longleftrightarrow> tbl_load (c_operation s) oid (Some (of_ws sc)) = Some o' \<and> is_settled o'"

text \<open>Only migrations reopen a settled operation.\<close>

definition published :: "workspace_scope \<Rightarrow> id \<Rightarrow> operation \<Rightarrow> catalog \<Rightarrow> bool" where
  "published sc oid q s \<longleftrightarrow> filed sc oid q s \<and> op_kind q \<noteq> KStorageMigrate"

text \<open>The operation \<open>oid\<close> is there, made by the command it names.\<close>

definition commanded :: "workspace_scope \<Rightarrow> id \<Rightarrow> catalog \<Rightarrow> bool" where
  "commanded sc oid s \<longleftrightarrow> (\<exists>o'. tbl_load (c_operation s) oid (Some (of_ws sc)) = Some o' \<and> executed (op_command o') oid s)"

definition mine :: "workspace_scope \<Rightarrow> id \<Rightarrow> operation \<Rightarrow> bool" where
  "mine sc oid o' \<longleftrightarrow> op_id o' = oid \<and> op_scope o' = sc"

lemma complete_settled [simp]: "is_settled (complete_operation o' x t)" "is_settled (fail_operation o' c m t)"
  "is_settled ((fail_operation o' c m t)\<lparr>op_result := y\<rparr>)"
  by (simp_all add: is_settled_def complete_operation_def fail_operation_def)

lemma renewed_mine:
  "renew_processing_claim i s = Inr (q, t) \<Longrightarrow> consistent s \<Longrightarrow> mine (cs_scope (nc_cas i)) (cs_operationId (nc_cas i)) q"
  by (auto simp: renew_processing_claim_def txn_simps Let_def mine_def dest!: owned)

lemma prepared_mine:
  "record_prepared_revision i s = Inr (q, t) \<Longrightarrow> consistent s \<Longrightarrow> mine (cs_scope (pi_cas i)) (cs_operationId (pi_cas i)) q"
  by (auto simp: record_prepared_revision_def txn_simps Let_def mine_def split: if_splits dest!: owned)

lemma completed_filed:
  assumes "complete_finalization o' r v b e now s = Inr (p, t)" and "op_id o' = oid" and "op_scope o' = sc" and "op_kind o' = KFinalize"
  shows "published sc oid (pb_operation p) t"
  using complete_finalization_eq [OF assms(1)] assms(2-4) by (auto simp: published_def filed_def matches_of_ws complete_operation_def is_settled_def)

lemma replayed_filed:
  assumes "publication_replay i c s = Inr (Some p)"
  shows "published (rs_workspace (fz_scope i)) (fz_operationId i) (pb_operation p) s"
  using assms
  by (auto simp: publication_replay_def txn_simps Let_def published_def filed_def is_settled_def of_rs_ws split: option.splits if_splits prod.splits)

lemma accepted_filed:
  assumes "accept_revision i s = Inr (p, t)" and "consistent s"
  shows "published (rs_workspace (fz_scope (av_finalizer i))) (fz_operationId (av_finalizer i)) (pb_operation p) t"
proof (cases "first_publication (av_finalizer i) s")
  case True
  from accept_first [OF assms(1) True] obtain o' r w where f: "finalizer_of (av_finalizer i) s = Inr (o', r, w)"
    and "\<exists>v b e now u. complete_finalization o' r v b e now u = Inr (p, t)" by (metis (full_types))
  with finalizer_own [OF f assms(2)] show ?thesis by (auto intro: completed_filed)
next
  case False
  from repeated_publication [OF this, of "Some (av_candidate i)"] assms(1) repeated_accept [OF assms(1) False]
  have "publication_replay (av_finalizer i) (Some (av_candidate i)) s = Inr (Some p) \<and> t = s"
    by (auto simp: accept_revision_def Let_def sbind_eq_Inr split: option.splits dest!: postD)
  then show ?thesis using replayed_filed by blast
qed

lemma read_only_filed:
  assumes "complete_read_only i s = Inr (p, t)" and "consistent s"
  shows "published (rs_workspace (fz_scope i)) (fz_operationId i) (pb_operation p) t"
proof -
  from assms(1) obtain prior where prior: "publication_replay i None s = Inr prior"
    by (auto simp: complete_read_only_def sbind_eq_Inr)
  show ?thesis
  proof (cases prior)
    case None
    with assms(1) prior obtain o' r w v b e now u where f: "finalizer_of i s = Inr (o', r, w)"
      and c: "complete_finalization o' r v b e now u = Inr (p, t)"
      by (auto simp: complete_read_only_def sbind_eq_Inr)
    from finalizer_own [OF f assms(2)] c show ?thesis by (auto intro: completed_filed)
  next
    case (Some q)
    with assms(1) prior replayed_filed show ?thesis by (auto simp: complete_read_only_def)
  qed
qed

lemma outcome_filed:
  assumes "save_outcome q v s = Inr u" and "operation_events e q u = Inr t" and "is_settled q" and "mine sc oid q"
  shows "filed sc oid q t"
  using assms by (auto simp: save_outcome_eq operation_events_def write_events_eq filed_def mine_def matches_of_ws)

lemma failed_filed:
  assumes "fail_finalization i s = Inr (q, t)" and "consistent s"
  shows "filed (cs_scope (ff_cas i)) (cs_operationId (ff_cas i)) q t"
proof -
  from assms(1) obtain o' v u w where o': "processing s (ff_cas i) = Inr o'" and o1: "save_outcome q v u = Inr w" "operation_events (ff_events i) q w = Inr t"
    and q: "\<exists>x. q = (fail_operation o' (ff_code i) (ff_message i) (cs_now (ff_cas i)))\<lparr>op_result := x\<rparr>"
    by (simp add: fail_finalization_def Let_def sbind_eq_Inr split_beta) blast
  from q processing_own [OF o' assms(2)] have "is_settled q" "mine (cs_scope (ff_cas i)) (cs_operationId (ff_cas i)) q"
    by (auto simp: mine_def)
  with o1 show ?thesis by (rule outcome_filed)
qed

lemma failed_creation_filed:
  assumes "fail_workspace_creation i s = Inr (q, t)" and "consistent s"
  shows "filed (cs_scope (fc_cas i)) (cs_operationId (fc_cas i)) q t"
  using assms
  by (auto simp: fail_workspace_creation_def operation_events_def txn_simps Let_def filed_def matches_of_ws dest!: owned)

lemma created_filed:
  assumes "accept_workspace_creation i s = Inr (x, t)" and "consistent s" and "commanded (cs_scope (xc_cas i)) (cs_operationId (xc_cas i)) s"
  shows "published (cs_scope (xc_cas i)) (cs_operationId (xc_cas i)) (cx_operation x) t"
proof -
  from assms(3) obtain e where e: "tbl_load (c_operation s) (cs_operationId (xc_cas i)) (Some (of_ws (cs_scope (xc_cas i)))) = Some e"
    and x: "executed (op_command e) (cs_operationId (xc_cas i)) s" by (auto simp: commanded_def)
  show ?thesis
  proof (cases "op_state e = OpSucceeded")
    case True
    with assms(1) e have "replay s (op_command e) (op_principal e) = Inr (Some x)" "t = s" "op_kind e = KWorkspaceCreate"
      by (auto simp: accept_workspace_creation_def Let_def txn_simps)
    with x e True show ?thesis
      by (auto simp: replay_Some executed_def published_def filed_def is_settled_def dest: tbl_load_unscoped)
  next
    case False
    with assms(1,2) e show ?thesis
      by (auto simp: accept_workspace_creation_def publish_creation_def operation_events_def Let_def txn_simps published_def filed_def matches_of_ws complete_operation_def is_settled_def dest!: owned)
  qed
qed

section \<open>A logic for the worker's programs\<close>

text \<open>The other actors run operations of the store; the clock works.\<close>

definition fair :: "platform \<Rightarrow> environment \<Rightarrow> bool" where
  "fair P E \<longleftrightarrow> (\<forall>n s. run_of P s (en_others E n s)) \<and> (\<forall>n. en_clock E n \<noteq> None)"

definition stable :: "platform \<Rightarrow> (catalog \<Rightarrow> bool) \<Rightarrow> bool" where
  "stable P A \<longleftrightarrow> (\<forall>s t. sound s \<and> run_of P s t \<and> A s \<longrightarrow> A t)"

text \<open>From a sound catalog that satisfies \<open>A\<close> and holds the commanded operation \<open>oid\<close>, the program makes only
  steps of the store; a result satisfies \<open>Q\<close> with the catalog it ends in, an error satisfies \<open>R\<close>.\<close>

definition ensures :: "platform \<Rightarrow> workspace_scope \<Rightarrow> id \<Rightarrow> (catalog \<Rightarrow> bool) \<Rightarrow> 'a work \<Rightarrow> ('a \<Rightarrow> catalog \<Rightarrow> bool) \<Rightarrow> (failure \<Rightarrow> bool) \<Rightarrow> bool" where
  "ensures P sc oid A m Q R \<longleftrightarrow> (\<forall>w v r. m w = (v, r) \<and> sound (wd_catalog w) \<and> commanded sc oid (wd_catalog w) \<and> A (wd_catalog w) \<longrightarrow>
     run_of P (wd_catalog w) (wd_catalog v) \<and> (case r of Inl e \<Rightarrow> R e | Inr a \<Rightarrow> Q a (wd_catalog v)))"

abbreviation any :: "catalog \<Rightarrow> bool" where "any \<equiv> \<lambda>_. True"
abbreviation whatever :: "failure \<Rightarrow> bool" where "whatever \<equiv> \<lambda>_. True"

lemma run_sound: "run_of P s t \<Longrightarrow> sound s \<Longrightarrow> sound t"
  using run_evolution by blast

lemma operation_evolves:
  "run_of P s t \<Longrightarrow> sound s \<Longrightarrow> tbl_load (c_operation s) i q = Some o' \<Longrightarrow> \<exists>e. tbl_load (c_operation t) i q = Some e \<and> op_next\<^sup>*\<^sup>* o' e"
  using evolution_load(2) [OF run_evolves] .

lemma commanded_kept:
  assumes "run_of P s t" and "sound s" and "commanded sc oid s"
  shows "commanded sc oid t"
proof -
  from assms(3) obtain o' where o': "tbl_load (c_operation s) oid (Some (of_ws sc)) = Some o'" "executed (op_command o') oid s"
    by (auto simp: commanded_def)
  from operation_evolves [OF assms(1,2) o'(1)] obtain e where e: "tbl_load (c_operation t) oid (Some (of_ws sc)) = Some e" "op_next\<^sup>*\<^sup>* o' e"
    by blast
  from op_next_identity [OF e(2)] have "op_command e = op_command o'" by (simp add: same_operation_def)
  with e(1) executed_kept [OF assms(1,2) o'(2)] show ?thesis by (simp add: commanded_def)
qed

lemma stable_any [simp]: "stable P any" by (simp add: stable_def)

lemma stable_filed:
  assumes "op_kind o' \<noteq> KStorageMigrate"
  shows "stable P (filed sc oid o')"
  unfolding stable_def
proof (intro allI impI, elim conjE)
  fix s t
  assume st: "sound s" "run_of P s t" and f: "filed sc oid o' s"
  from f have "tbl_load (c_operation s) oid (Some (of_ws sc)) = Some o'" by (simp add: filed_def)
  from operation_evolves [OF st(2,1) this] obtain e where e: "tbl_load (c_operation t) oid (Some (of_ws sc)) = Some e" "op_next\<^sup>*\<^sup>* o' e"
    by blast
  have "settled o'" using f assms by (simp add: settled_def filed_def is_settled_def)
  with settled_final [OF e(2)] e(1) f show "filed sc oid o' t" by (simp add: filed_def)
qed

lemma ens_run: "ensures P sc oid A m Q R \<Longrightarrow> m w = (v, r) \<Longrightarrow> sound (wd_catalog w) \<Longrightarrow> commanded sc oid (wd_catalog w) \<Longrightarrow> A (wd_catalog w) \<Longrightarrow>
    run_of P (wd_catalog w) (wd_catalog v) \<and> sound (wd_catalog v) \<and> commanded sc oid (wd_catalog v) \<and> (case r of Inl e \<Rightarrow> R e | Inr a \<Rightarrow> Q a (wd_catalog v))"
  unfolding ensures_def by (meson commanded_kept run_sound)

lemma ens_return: "(\<And>s. A s \<Longrightarrow> Q a s) \<Longrightarrow> ensures P sc oid A (w_return a) Q R"
  by (simp add: ensures_def w_return_def)

lemma ens_throw: "R e \<Longrightarrow> ensures P sc oid A (w_throw e) Q R"
  by (simp add: ensures_def w_throw_def)

lemma ens_check: "(\<And>s. b \<Longrightarrow> A s \<Longrightarrow> Q () s) \<Longrightarrow> (\<not> b \<Longrightarrow> R (Fail c)) \<Longrightarrow> ensures P sc oid A (w_check b c) Q R"
  by (simp add: w_check_def ens_return ens_throw)

lemma ens_found: "(\<And>a s. x = Some a \<Longrightarrow> A s \<Longrightarrow> Q a s) \<Longrightarrow> (x = None \<Longrightarrow> R e) \<Longrightarrow> ensures P sc oid A (w_found x e) Q R"
  by (cases x) (simp_all add: w_found_def ens_return ens_throw)

lemma ens_bind:
  assumes "ensures P sc oid A m B R" and "\<And>a. ensures P sc oid (B a) (f a) Q R"
  shows "ensures P sc oid A (w_bind m f) Q R"
  unfolding ensures_def
proof (intro allI impI, elim conjE)
  fix w v r
  assume w: "w_bind m f w = (v, r)" "sound (wd_catalog w)" "commanded sc oid (wd_catalog w)" "A (wd_catalog w)"
  obtain u x where u: "m w = (u, x)" by fastforce
  note m = ens_run [OF assms(1) u w(2-4)]
  show "run_of P (wd_catalog w) (wd_catalog v) \<and> (case r of Inl e \<Rightarrow> R e | Inr a \<Rightarrow> Q a (wd_catalog v))"
  proof (cases x)
    case (Inl e)
    with m u w(1) show ?thesis by (auto simp: w_bind_def)
  next
    case (Inr a)
    with m u w(1) ens_run [OF assms(2), of a u v r] show ?thesis
      by (auto simp: w_bind_def intro: rtranclp_trans)
  qed
qed

lemma ens_catch:
  assumes "ensures P sc oid A m Q S" and "\<And>e. S e \<Longrightarrow> ensures P sc oid any (h e) Q R"
  shows "ensures P sc oid A (w_catch m h) Q R"
  unfolding ensures_def
proof (intro allI impI, elim conjE)
  fix w v r
  assume w: "w_catch m h w = (v, r)" "sound (wd_catalog w)" "commanded sc oid (wd_catalog w)" "A (wd_catalog w)"
  obtain u x where u: "m w = (u, x)" by fastforce
  note m = ens_run [OF assms(1) u w(2-4)]
  show "run_of P (wd_catalog w) (wd_catalog v) \<and> (case r of Inl e \<Rightarrow> R e | Inr a \<Rightarrow> Q a (wd_catalog v))"
  proof (cases x)
    case (Inl e)
    with m u w(1) ens_run [OF assms(2), of e u v r] show ?thesis
      by (auto simp: w_catch_def intro: rtranclp_trans)
  next
    case (Inr a)
    with m u w(1) show ?thesis by (auto simp: w_catch_def)
  qed
qed

lemma ens_if: "(b \<Longrightarrow> ensures P sc oid A m Q R) \<Longrightarrow> (\<not> b \<Longrightarrow> ensures P sc oid A n Q R) \<Longrightarrow> ensures P sc oid A (if b then m else n) Q R"
  by simp

lemma ens_assume: "(\<And>s. A s \<Longrightarrow> b) \<Longrightarrow> (b \<Longrightarrow> ensures P sc oid A m Q R) \<Longrightarrow> ensures P sc oid A m Q R"
  unfolding ensures_def by blast

lemma ens_weaken: "ensures P sc oid B m Q R \<Longrightarrow> (\<And>s. A s \<Longrightarrow> B s) \<Longrightarrow> ensures P sc oid A m Q R"
  unfolding ensures_def by blast

lemma ens_control:
  assumes "fair P E" and "stable P A" and "R Crash"
    and "\<And>s a t. sound s \<Longrightarrow> commanded sc oid s \<Longrightarrow> A s \<Longrightarrow> f s = Inr (a, t) \<Longrightarrow> run_of P s t \<and> Q a t"
    and "\<And>s e. sound s \<Longrightarrow> commanded sc oid s \<Longrightarrow> A s \<Longrightarrow> f s = Inl e \<Longrightarrow> R e"
  shows "ensures P sc oid A (control E f) Q R"
  unfolding ensures_def
proof (intro allI impI, elim conjE)
  fix w v r
  assume w: "control E f w = (v, r)" "sound (wd_catalog w)" "commanded sc oid (wd_catalog w)" "A (wd_catalog w)"
  let ?s = "en_others E (wd_calls w) (wd_catalog w)"
  have run: "run_of P (wd_catalog w) ?s" using assms(1) by (simp add: fair_def)
  then have s: "sound ?s" "commanded sc oid ?s" "A ?s"
    using w(2-4) assms(2) run_sound commanded_kept unfolding stable_def by blast+
  show "run_of P (wd_catalog w) (wd_catalog v) \<and> (case r of Inl e \<Rightarrow> R e | Inr a \<Rightarrow> Q a (wd_catalog v))"
  proof (cases "f ?s")
    case (Inl e)
    with w(1) run assms(3,5) s show ?thesis
      by (auto simp: control_def turn_def Let_def split: reply.splits)
  next
    case (Inr x)
    then obtain a t where x: "f ?s = Inr (a, t)" by (cases x) auto
    from assms(4) [OF s x] have "run_of P (wd_catalog w) t" "Q a t" using run by auto
    with w(1) run x assms(3) show ?thesis
      by (auto simp: control_def turn_def Let_def split: reply.splits)
  qed
qed

lemma ens_ask:
  assumes "fair P E" and "stable P A" and "R Crash" and "\<And>s a. sound s \<Longrightarrow> commanded sc oid s \<Longrightarrow> A s \<Longrightarrow> q s = Inr a \<Longrightarrow> Q a s"
    and "\<And>s e. q s = Inl e \<Longrightarrow> R e"
  shows "ensures P sc oid A (ask E q) Q R"
  unfolding ask_def
  by (rule ens_control, rule assms(1), rule assms(2), rule assms(3)) (use assms(4,5) in \<open>auto simp: sbind_eq_Inr sbind_eq_Inl\<close>)

lemma ens_now:
  assumes "fair P E" and "\<And>a s. A s \<Longrightarrow> Q a s"
  shows "ensures P sc oid A (runtime_now E) Q R"
  unfolding ensures_def
proof (intro allI impI, elim conjE)
  fix w v r
  assume w: "runtime_now E w = (v, r)" "A (wd_catalog w)"
  from assms(1) have "en_clock E (wd_calls w) \<noteq> None" unfolding fair_def by blast
  with w assms(2) show "run_of P (wd_catalog w) (wd_catalog v) \<and> (case r of Inl e \<Rightarrow> R e | Inr a \<Rightarrow> Q a (wd_catalog v))"
    by (auto simp: runtime_now_def)
qed

lemma stable_others: "fair P E \<Longrightarrow> stable P A \<Longrightarrow> sound s \<Longrightarrow> A s \<Longrightarrow> run_of P s (en_others E n s) \<and> A (en_others E n s)"
  unfolding fair_def stable_def by blast

lemma ens_outside:
  assumes "fair P E" and "stable P A" and "\<And>a s. A s \<Longrightarrow> Q a s" and "\<And>e. R e"
  shows "ensures P sc oid A (outside E f) Q R"
  using stable_others [OF assms(1,2)] assms(3,4) by (auto simp: ensures_def outside_def turn_def split: sum.splits)


section \<open>The worker's programs\<close>

lemma step_run: "step P c s t \<Longrightarrow> run_of P s t"
  by (meson any_step_def r_into_rtranclp)

text \<open>A call of a catalog operation, and a wait for one that only reads.\<close>

lemma ens_step:
  assumes "fair P E" and "\<And>s a t. f s = Inr (a, t) \<Longrightarrow> \<exists>c. step P c s t"
    and "\<And>s a t. consistent s \<Longrightarrow> commanded sc oid s \<Longrightarrow> f s = Inr (a, t) \<Longrightarrow> Q a t"
  shows "ensures P sc oid any (control E f) Q whatever"
proof (rule ens_control [OF assms(1)])
  fix s a t
  assume "sound s" "commanded sc oid s" "f s = Inr (a, t)"
  with assms(2,3) step_run show "run_of P s t \<and> Q a t" unfolding sound_def by blast
qed simp_all

lemma ens_then:
  assumes "ensures P sc oid any m (\<lambda>a _. q a) R" and "\<And>a. q a \<Longrightarrow> ensures P sc oid any (f a) Q R"
  shows "ensures P sc oid any (w_bind m f) Q R"
  by (rule ens_bind [OF assms(1)]) (rule ens_assume, assumption, rule ens_weaken [OF assms(2)], simp_all)

lemma bind_now: "fair P E \<Longrightarrow> (\<And>t. ensures P sc oid any (f t) Q R) \<Longrightarrow> ensures P sc oid any (w_bind (runtime_now E) f) Q R"
  by (rule ens_then [where q = "\<lambda>_. True"], rule ens_now) simp_all

lemma bind_found:
  "(x = None \<Longrightarrow> R e) \<Longrightarrow> (\<And>a. x = Some a \<Longrightarrow> ensures P sc oid any (f a) Q R) \<Longrightarrow> ensures P sc oid any (w_bind (w_found x e) f) Q R"
  by (rule ens_then [where q = "\<lambda>a. x = Some a"], rule ens_found) simp_all

lemma bind_check:
  "(\<not> b \<Longrightarrow> R (Fail c)) \<Longrightarrow> (b \<Longrightarrow> ensures P sc oid any (f ()) Q R) \<Longrightarrow> ensures P sc oid any (w_bind (w_check b c) f) Q R"
  by (rule ens_then [where q = "\<lambda>_. b"], rule ens_check) simp_all

lemma bind_ask:
  "fair P E \<Longrightarrow> (\<And>a. ensures P sc oid any (f a) Q whatever) \<Longrightarrow> ensures P sc oid any (w_bind (ask E q) f) Q whatever"
  by (rule ens_then [where q = "\<lambda>_. True"], rule ens_ask) simp_all

lemma bind_outside:
  "fair P E \<Longrightarrow> (\<And>a. ensures P sc oid any (f a) Q whatever) \<Longrightarrow> ensures P sc oid any (w_bind (outside E g) f) Q whatever"
  by (rule ens_then [where q = "\<lambda>_. True"], rule ens_outside) simp_all

lemma bind_authorize:
  "fair P E \<Longrightarrow> (\<And>a. ensures P sc oid any (f a) Q whatever) \<Longrightarrow> ensures P sc oid any (w_bind (authorize E p act x) f) Q whatever"
  unfolding authorize_def by (rule bind_ask)

lemma ens_hook: "fair P E \<Longrightarrow> stable P A \<Longrightarrow> ensures P sc oid A (hook E) (\<lambda>_. A) whatever"
  unfolding hook_def by (rule ens_ask) simp_all

lemma bind_hook:
  "fair P E \<Longrightarrow> ensures P sc oid any (f ()) Q whatever \<Longrightarrow> ensures P sc oid any (w_bind (hook E) f) Q whatever"
  by (rule ens_then [where q = "\<lambda>_. True"], rule ens_hook) simp_all

lemmas binds = bind_now bind_found bind_check bind_ask bind_outside bind_authorize bind_hook

lemma ens_renew_once:
  assumes "fair P E" and "mine sc oid o'"
  shows "ensures P sc oid any (renew_once E fence o') (\<lambda>q _. mine sc oid q) whatever"
  unfolding renew_once_def
proof (intro binds assms(1) TrueI ens_step)
  fix c t s q u
  assume "renew_processing_claim (RenewClaim (ProcessingCAS (op_scope o') (op_id o') (op_version o') fence t)
       (extended E (en_processingTtlMs E) t (pc_expiresAt c))) s = Inr (q, u)"
  then show "\<exists>c. step P c s u" and "consistent s \<Longrightarrow> mine sc oid q"
    using st_renew_processing_claim renewed_mine assms(2) by (blast, fastforce simp: mine_def)
qed

lemma ens_renew_ticks:
  assumes "fair P E" and "mine sc oid o'"
  shows "ensures P sc oid any (renew_ticks E k fence o') (\<lambda>x _. mine sc oid (fst x)) whatever"
  using assms(2)
proof (induction k arbitrary: o')
  case 0
  then show ?case by (auto intro: ens_return)
next
  case (Suc k)
  show ?case unfolding renew_ticks.simps
    by (rule ens_catch [where S = whatever], rule ens_then [OF ens_renew_once [OF assms(1) Suc.prems]], erule Suc.IH)
      (use Suc.prems in \<open>auto intro: ens_return\<close>)
qed

lemma ens_prepare_candidate:
  "fair P E \<Longrightarrow> ensures P sc oid any (prepare_candidate E o' ident mf) (\<lambda>_ _. True) whatever"
  unfolding prepare_candidate_def by (intro binds TrueI ens_return)

lemma ens_prepare_with_renewal:
  assumes "fair P E" and "mine sc oid o'" and "ensures P sc oid any job (\<lambda>_ _. True) whatever"
  shows "ensures P sc oid any (prepare_with_renewal E o' job) (\<lambda>x _. mine sc oid (fst x)) whatever"
  unfolding prepare_with_renewal_def split_beta
proof (intro binds TrueI, rule ens_then [OF ens_renew_ticks [OF assms(1,2)]], rule ens_then [where q = "\<lambda>_. True", OF assms(3)])
  fix x :: "operation \<times> failure option" and c :: prepared_revision
  assume "mine sc oid (fst x)"
  then show "ensures P sc oid any (case snd x of None \<Rightarrow> w_return (fst x, c) | Some e \<Rightarrow> w_throw e) (\<lambda>x _. mine sc oid (fst x)) whatever"
    by (auto intro: ens_return ens_throw split: option.split)
qed

lemma ens_pure: "ensures P sc oid any (\<lambda>w. (w, r)) (\<lambda>_ _. True) whatever"
  by (auto simp: ensures_def split: sum.split)

lemma ens_source: "fair P E \<Longrightarrow> ensures P sc oid any (source_of K E o' ident) (\<lambda>_ _. True) whatever"
  unfolding source_of_def
  by (auto split: intent.split intro!: ens_return binds ens_then [where q = "\<lambda>_. True", OF ens_pure])

lemma ens_binding: "fair P E \<Longrightarrow> ensures P sc oid any (binding_for E o' ident) (\<lambda>_ _. True) whatever"
  unfolding binding_for_def by (auto split: intent.split intro!: ens_return ens_ask)

lemma ens_prepare_operation:
  assumes "fair P E" and "mine sc oid o'"
  shows "ensures P sc oid any (prepare_operation K E fence o') (\<lambda>q _. mine sc oid q) whatever"
  unfolding prepare_operation_def split_beta
proof (intro binds assms(1) TrueI, rule ens_then [where q = "\<lambda>_. True", OF ens_binding [OF assms(1)]],
    intro binds assms(1) TrueI, rule ens_then [where q = "\<lambda>_. True", OF ens_source [OF assms(1)]],
    rule ens_then [OF ens_prepare_with_renewal [OF assms ens_prepare_candidate [OF assms(1)]]],
    intro binds assms(1), rule ens_then [where q = "mine sc oid"], rule ens_step [OF assms(1)])
  fix x :: "operation \<times> prepared_revision" and t s p u
  assume x: "mine sc oid (fst x)"
    and r: "record_prepared_revision (RecordPrepared (ProcessingCAS (op_scope (fst x)) (op_id (fst x)) (op_version (fst x)) fence t) (snd x)) s = Inr (p, u)"
  show "\<exists>c. step P c s u" using st_record_prepared_revision [OF r] by blast
  show "mine sc oid p" if "consistent s" using prepared_mine [OF r that] x by (simp add: mine_def)
next
  fix p assume "mine sc oid p"
  then show "ensures P sc oid any (w_bind (hook E) (\<lambda>_. w_return p)) (\<lambda>q _. mine sc oid q) whatever"
    by (intro binds assms(1) ens_return)
qed

text \<open>After the publication only a hook runs; a settled operation stays as it is.\<close>

lemma ens_filed_hook:
  assumes "fair P E" and "op_kind o' \<noteq> KStorageMigrate"
  shows "ensures P sc oid (filed sc oid o') (w_bind (hook E) (\<lambda>_. w_return o')) (\<lambda>q s. filed sc oid q s \<and> op_kind q \<noteq> KStorageMigrate) whatever"
  using assms by (intro ens_bind [OF ens_hook [OF assms(1) stable_filed]] ens_return) simp_all

lemma ens_published:
  assumes "fair P E" and "\<And>s a t. f s = Inr (a, t) \<Longrightarrow> \<exists>c. step P c s t"
    and "\<And>s a t. consistent s \<Longrightarrow> commanded sc oid s \<Longrightarrow> f s = Inr (a, t) \<Longrightarrow> published sc oid (g a) t"
  shows "ensures P sc oid any (w_bind (control E f) (\<lambda>a. w_bind (hook E) (\<lambda>_. w_return (g a)))) (published sc oid) whatever"
proof (rule ens_bind [OF ens_step [where Q = "\<lambda>a. published sc oid (g a)", OF assms]])
  fix a
  show "ensures P sc oid (published sc oid (g a)) (w_bind (hook E) (\<lambda>_. w_return (g a))) (published sc oid) whatever"
  proof (rule ens_assume)
    show "published sc oid (g a) s \<Longrightarrow> op_kind (g a) \<noteq> KStorageMigrate" for s by (simp add: published_def)
    assume "op_kind (g a) \<noteq> KStorageMigrate"
    from ens_filed_hook [OF assms(1) this, of sc oid]
    show "ensures P sc oid (published sc oid (g a)) (w_bind (hook E) (\<lambda>_. w_return (g a))) (published sc oid) whatever"
      unfolding published_def by (rule ens_weaken) simp
  qed
qed

lemma ens_accept_creation:
  assumes "fair P E" and "mine sc oid o'"
  shows "ensures P sc oid any (accept_creation E fence o') (published sc oid) whatever"
  unfolding accept_creation_def
proof (intro binds assms(1) TrueI ens_published)
  fix a t c s x u
  assume r: "accept_workspace_creation (AcceptCreation (ProcessingCAS (op_scope o') (op_id o') (op_version o') fence t) a c
      (events_of o' ''workspace.created'' t)) s = Inr (x, u)"
  show "\<exists>c. step P c s u" using st_accept_workspace_creation [OF r] by blast
  show "published sc oid (cx_operation x) u" if "consistent s" "commanded sc oid s"
    using created_filed [OF r that(1)] that(2) assms(2) by (simp add: mine_def)
qed

lemma ens_accept_finalization:
  assumes "fair P E" and "mine sc oid o'"
  shows "ensures P sc oid any (accept_finalization E fence o') (published sc oid) whatever"
  unfolding accept_finalization_def
proof (rule bind_found, simp, rule ens_then [where q = "\<lambda>x. \<forall>r. x = Some r \<longrightarrow> rs_workspace (run_scope_of r) = sc"],
    rule ens_ask [OF assms(1)])
  fix rid s x
  assume "sound s" "Inr (get_run s (op_scope o') rid) = Inr x"
  then show "\<forall>r. x = Some r \<longrightarrow> rs_workspace (run_scope_of r) = sc"
    using own_row(4) [of s rid "op_scope o'"] assms(2)
    by (auto simp: get_run_def sound_def mine_def rs_workspace_def run_scope_of_def bs_workspace_def)
next
  fix rid x
  assume x: "\<forall>r. x = Some r \<longrightarrow> rs_workspace (run_scope_of r) = sc"
  let ?fz = "\<lambda>a r t. FinalizerPreconditions (run_scope_of r) (op_id o') (rn_version r) (op_version o') (bsc_bindingGeneration (rn_scope r)) fence a
      (events_of o' ''run.finalized'' t) t"
  have read: "ensures P sc oid any (w_bind (control E (complete_read_only (?fz a r t))) (\<lambda>p. w_bind (hook E) (\<lambda>_. w_return (pb_operation p)))) (published sc oid) whatever"
    if r: "x = Some r" for r a t
  proof (rule ens_published [OF assms(1)])
    fix s p u
    assume q: "complete_read_only (?fz a r t) s = Inr (p, u)"
    show "\<exists>c. step P c s u" using st_complete_read_only [OF q] by blast
    show "published sc oid (pb_operation p) u" if "consistent s"
      using read_only_filed [OF q that] x r assms(2) by (simp add: mine_def)
  qed
  have accept: "ensures P sc oid any (w_bind (control E (accept_revision (AcceptRevision (?fz a r t) b n src c))) (\<lambda>p. w_bind (hook E) (\<lambda>_. w_return (pb_operation p)))) (published sc oid) whatever"
    if r: "x = Some r" for r a t b n src c
  proof (rule ens_published [OF assms(1)])
    fix s p u
    assume q: "accept_revision (AcceptRevision (?fz a r t) b n src c) s = Inr (p, u)"
    show "\<exists>c. step P c s u" using st_accept_revision [OF q] by blast
    show "published sc oid (pb_operation p) u" if "consistent s"
      using accepted_filed [OF q that] x r assms(2) by (simp add: mine_def)
  qed
  have assoc: "w_bind (w_bind (w_found y e) f) g = w_bind (w_found y e) (\<lambda>z. w_bind (f z) g)" for y e f g
    by (cases y) (auto simp: w_bind_def w_found_def w_return_def w_throw_def fun_eq_iff)
  show "ensures P sc oid any (w_bind (w_found x (Fail RUN_NOT_FOUND)) (\<lambda>r. w_bind (authorize E (op_principal o') RunFinalize (of_ws (op_scope o'))) (\<lambda>a.
      w_bind (runtime_now E) (\<lambda>t. let fz = ?fz a r t in
        w_bind (if intent_mode (op_intent o') = Some ReadOnly then control E (complete_read_only fz)
          else w_bind (w_found (intent_source (op_intent o')) Crash) (\<lambda>src. w_bind (w_found (op_candidate o') Crash) (\<lambda>c.
            control E (accept_revision (AcceptRevision fz (rn_baseRevisionId r) (rn_workspaceVersionAtOpen r) (ss_submissionId src) c)))))
        (\<lambda>p. w_bind (hook E) (\<lambda>_. w_return (pb_operation p))))))) (published sc oid) whatever"
    using read accept by (intro binds assms(1) TrueI) (auto simp: Let_def assoc intro!: bind_found)
qed simp_all

lemma ens_publish:
  assumes "fair P E" and "mine sc oid o'"
  shows "ensures P sc oid any (publish_operation K E fence o') (published sc oid) whatever"
  unfolding publish_operation_def Let_def
proof (intro binds assms(1), rule ens_then [where q = "mine sc oid"])
  show "ensures P sc oid any (if op_kind o' = KWorkspaceCreate \<or> intent_mode (op_intent o') = Some ReadWrite
      then prepare_operation K E fence o' else w_return o') (\<lambda>q _. mine sc oid q) whatever"
    using assms(2) by (auto intro: ens_prepare_operation [OF assms] ens_return)
next
  fix q assume q: "mine sc oid q"
  show "ensures P sc oid any (w_bind (hook E) (\<lambda>_. if op_kind q = KWorkspaceCreate then accept_creation E fence q
      else if op_kind q = KFinalize then accept_finalization E fence q else w_throw (Fail INVALID_TRANSITION))) (published sc oid) whatever"
    using ens_accept_creation [OF assms(1) q] ens_accept_finalization [OF assms(1) q]
    by (auto intro!: binds assms(1) ens_throw)
qed

section \<open>Reconciliation\<close>

text \<open>The errors a worker reports: none of them says that the operation failed.\<close>

definition inconclusive :: "failure \<Rightarrow> bool" where
  "inconclusive e \<longleftrightarrow> e \<in> Fail ` {PUBLICATION_OUTCOME_UNKNOWN, STALE_FENCE, VERSION_CONFLICT, INVALID_TRANSITION}"

lemma ens_unknown: "ensures P sc oid A unknown Q inconclusive"
  unfolding unknown_def by (rule ens_throw) (simp add: inconclusive_def)

lemma ens_get:
  assumes "fair P E"
  shows "ensures P sc oid any (ask E (\<lambda>s. Inr (get_operation s sc oid))) (\<lambda>x s. \<exists>o'. x = Some o' \<and> mine sc oid o' \<and>
    (is_settled o' \<longrightarrow> filed sc oid o' s)) whatever"
proof (rule ens_ask [OF assms])
  fix s x
  assume "sound s" "commanded sc oid s" "Inr (get_operation s sc oid) = Inr x"
  then show "\<exists>o'. x = Some o' \<and> mine sc oid o' \<and> (is_settled o' \<longrightarrow> filed sc oid o' s)"
    using own_row(5) [of s oid sc] by (auto simp: get_operation_def commanded_def filed_def mine_def sound_def)
qed simp_all

lemma found_bind [simp]: "w_bind (w_found (Some a) e) f = f a"
  by (simp add: w_bind_def w_found_def w_return_def fun_eq_iff)

lemma ens_read:
  assumes "fair P E" and "\<And>o'. mine sc oid o' \<Longrightarrow> \<not> is_settled o' \<Longrightarrow> ensures P sc oid any (f o') (filed sc oid) R" and "\<And>e. R' e \<Longrightarrow> R e"
    and "\<And>x. ensures P sc oid any (h x) (\<lambda>_ _. False) R'"
  shows "ensures P sc oid any (w_bind (w_catch (ask E (\<lambda>s. Inr (get_operation s sc oid))) h) (\<lambda>x. w_bind (w_found x e)
    (\<lambda>o'. if is_settled o' then w_return o' else f o'))) (filed sc oid) R"
proof (rule ens_bind, rule ens_catch [OF ens_get [OF assms(1)]])
  fix y
  show "ensures P sc oid any (h y) (\<lambda>x s. \<exists>o'. x = Some o' \<and> mine sc oid o' \<and> (is_settled o' \<longrightarrow> filed sc oid o' s)) R"
    using assms(3,4) unfolding ensures_def by (fastforce split: sum.splits)
next
  fix x
  let ?A = "\<lambda>s. \<exists>o'. x = Some o' \<and> mine sc oid o' \<and> (is_settled o' \<longrightarrow> filed sc oid o' s)"
  show "ensures P sc oid ?A (w_bind (w_found x e) (\<lambda>o'. if is_settled o' then w_return o' else f o')) (filed sc oid) R"
  proof (rule ens_assume)
    show "?A s \<Longrightarrow> \<exists>o'. x = Some o' \<and> mine sc oid o'" for s by blast
    assume "\<exists>o'. x = Some o' \<and> mine sc oid o'"
    then obtain o' where x: "x = Some o'" "mine sc oid o'" by blast
    show ?thesis
    proof (cases "is_settled o'")
      case True
      then show ?thesis by (auto simp: x(1) intro: ens_return)
    next
      case False
      with assms(2) [OF x(2) False] show ?thesis by (auto simp: x(1) intro: ens_weaken)
    qed
  qed
qed

lemma ens_record_failure:
  assumes "fair P E" and "mine sc oid o'"
  shows "ensures P sc oid any (record_failure E o' fence code t) (filed sc oid) whatever"
  unfolding record_failure_def Let_def
proof (intro ens_if binds assms(1) ens_step)
  fix u s q v ev
  assume r: "fail_finalization (FailInput (ProcessingCAS (op_scope o') (op_id o') (op_version o') fence t) code (en_message E code) ev) s = Inr (q, v)"
  show "\<exists>c. step P c s v" using st_fail_finalization [OF r] by blast
  show "filed sc oid q v" if "consistent s" using failed_filed [OF r that] assms(2) by (simp add: mine_def)
next
  fix u s q v ev cl
  assume r: "fail_workspace_creation (FailCreation (ProcessingCAS (op_scope o') (op_id o') (op_version o') fence t) code (en_message E code) ev cl) s = Inr (q, v)"
  show "\<exists>c. step P c s v" using st_fail_workspace_creation [OF r] by blast
  show "filed sc oid q v" if "consistent s" using failed_creation_filed [OF r that] assms(2) by (simp add: mine_def)
qed

lemma ens_reread:
  assumes "fair P E"
  shows "ensures P sc oid any (reread E sc oid fence) (filed sc oid) inconclusive"
  unfolding reread_def
proof (rule ens_catch [where S = whatever])
  show "ensures P sc oid any (w_bind (ask E (\<lambda>s. Inr (get_operation s sc oid))) (\<lambda>x. case x of None \<Rightarrow> w_throw (Fail STALE_FENCE)
      | Some o' \<Rightarrow> if is_settled o' then w_return o'
        else w_bind (w_check (map_option pc_fence (op_claim o') = Some fence) STALE_FENCE) (\<lambda>_. unknown))) (filed sc oid) whatever"
  proof (rule ens_bind [OF ens_get [OF assms]])
    fix x
    have tail: "ensures P sc oid any (w_bind (w_check b c) (\<lambda>_. unknown)) (filed sc oid) whatever" for b c
      by (intro binds TrueI) (simp add: unknown_def ens_throw)
    show "ensures P sc oid (\<lambda>s. \<exists>o'. x = Some o' \<and> mine sc oid o' \<and> (is_settled o' \<longrightarrow> filed sc oid o' s)) (case x of None \<Rightarrow> w_throw (Fail STALE_FENCE)
      | Some o' \<Rightarrow> if is_settled o' then w_return o'
        else w_bind (w_check (map_option pc_fence (op_claim o') = Some fence) STALE_FENCE) (\<lambda>_. unknown)) (filed sc oid) whatever"
      using ens_weaken [OF tail] by (auto intro: ens_throw ens_return split: option.split)
  qed
next
  fix e
  show "ensures P sc oid any (if e = Fail STALE_FENCE then w_throw e else unknown) (filed sc oid) inconclusive"
    by (auto intro: ens_unknown ens_throw simp: inconclusive_def)
qed

lemma ens_reconcile:
  assumes "fair P E"
  shows "ensures P sc oid any (reconcile E sc oid fence error) (filed sc oid) inconclusive"
  unfolding reconcile_def
proof (rule ens_read [OF assms, where R' = inconclusive])
  fix o' assume o': "mine sc oid o'"
  have stale: "inconclusive (Fail STALE_FENCE)" "inconclusive (Fail VERSION_CONFLICT)" by (simp_all add: inconclusive_def)
  have recorded: "ensures P sc oid any (w_catch (record_failure E o' fence code u) (\<lambda>_. reread E sc oid fence)) (filed sc oid) inconclusive" for code u
    by (rule ens_catch [OF ens_record_failure [OF assms o'] ens_reread [OF assms]])
  show "ensures P sc oid any (w_bind (w_found (held_by E fence o') (Fail STALE_FENCE)) (\<lambda>c. w_bind (runtime_now E) (\<lambda>t.
      w_bind (w_check (t < pc_expiresAt c) STALE_FENCE) (\<lambda>_. case error of Crash \<Rightarrow> unknown
       | Fail code \<Rightarrow> if code \<notin> set terminal_failures then (if code = STALE_FENCE \<or> code = VERSION_CONFLICT then w_throw error else unknown)
           else w_bind (runtime_now E) (\<lambda>u. if op_kind o' = KFinalize \<or> op_kind o' = KWorkspaceCreate
             then w_catch (record_failure E o' fence code u) (\<lambda>_. reread E sc oid fence) else unknown))))) (filed sc oid) inconclusive"
    using recorded stale by (intro binds assms) (auto intro!: ens_unknown ens_throw bind_now assms split: failure.split)
qed (simp_all add: ens_unknown)

lemma ens_process:
  assumes "fair P E"
  shows "ensures P sc oid any (process_operation K E sc oid fence) (filed sc oid) inconclusive"
  unfolding process_operation_def
proof (rule ens_read [OF assms, where R' = inconclusive])
  fix o' assume o': "mine sc oid o'" and open_o: "\<not> is_settled o'"
  have errors: "inconclusive (Fail STALE_FENCE)" "inconclusive (Fail INVALID_TRANSITION)" by (simp_all add: inconclusive_def)
  have claim: "ensures P sc oid any (assert_claim E fence o') (\<lambda>_ _. True) inconclusive"
    unfolding assert_claim_def by (intro binds assms errors ens_check TrueI)
  have work: "ensures P sc oid any (publish_operation K E fence o') (filed sc oid) whatever"
    using ens_publish [OF assms o'] unfolding ensures_def published_def by (fastforce split: sum.splits)
  show "ensures P sc oid any (w_bind (assert_claim E fence o') (\<lambda>_. w_catch (publish_operation K E fence o') (reconcile E sc oid fence))) (filed sc oid) inconclusive"
    by (rule ens_then [where q = "\<lambda>_. True", OF claim]) (rule ens_catch [OF work ens_reconcile [OF assms]])
qed (simp_all add: ens_unknown)

section \<open>The guarantee\<close>

text \<open>C4: the answer of a worker is the durable truth. Whatever other customers, workers and administrators do between
  the worker's calls, whichever answers are lost, and whatever the stores return: the worker only makes steps of the store;
  when it returns an operation, that operation has succeeded or failed and is what the catalog holds under its id at that
  moment; and when it throws, the error is inconclusive (outcome unknown, stale claim, version conflict, or no processor for
  it): it never reports a failure that is not recorded.\<close>

theorem worker_reports_durable:
  assumes "\<forall>n s. run_of P s (en_others E n s)" and "\<forall>n. en_clock E n \<noteq> None"
    and "sound (wd_catalog w)" and "commanded sc oid (wd_catalog w)" and "process_operation K E sc oid fence w = (v, r)"
  shows "run_of P (wd_catalog w) (wd_catalog v) \<and>
    (case r of
       Inr o' \<Rightarrow> tbl_load (c_operation (wd_catalog v)) oid (Some (of_ws sc)) = Some o' \<and> (op_state o' = OpSucceeded \<or> op_state o' = OpFailed)
     | Inl e \<Rightarrow> e \<in> Fail ` {PUBLICATION_OUTCOME_UNKNOWN, STALE_FENCE, VERSION_CONFLICT, INVALID_TRANSITION})"
proof -
  have "fair P E" using assms(1,2) by (simp add: fair_def)
  from ens_run [OF ens_process [OF this] assms(5,3,4)] show ?thesis
    by (auto simp: filed_def is_settled_def inconclusive_def split: sum.splits)
qed

definition sample_environment :: "(nat \<Rightarrow> reply) \<Rightarrow> environment" where
  "sample_environment f = \<lparr>en_others = (\<lambda>_ s. s), en_reply = f, en_clock = (\<lambda>_. Some ''2026-01-05''), en_until = (\<lambda>t _. t),
     en_newId = (\<lambda>_ k. k), en_ownerId = ''worker'', en_leaseTtlMs = 1, en_processingTtlMs = 1, en_ticks = 0,
     en_store = (\<lambda>_ _. Inr ()), en_prepare = (\<lambda>_ _ _. Inl Crash), en_submission = (\<lambda>_ _ _. Inr None), en_message = (\<lambda>_. []), en_binding = (\<lambda>_ _ _ _. Inl Crash)\<rparr>"

text \<open>The publication of a read-only run whose answer is lost: the worker finds it by reading again.\<close>

definition lost_answer :: "world \<times> (failure + operation)" where
  "lost_answer = process_operation x_platform (sample_environment (\<lambda>n. if n = 7 then AnswerLost else Delivered)) x_ws ''op-2'' 1
     \<lparr>wd_catalog = x_reading, wd_calls = 0\<rparr>"

lemmas work_eval = process_operation_def publish_operation_def accept_finalization_def assert_claim_def reconcile_def authorize_def hook_def ask_def
  control_def turn_def runtime_now_def w_bind_def w_catch_def w_check_def w_found_def w_return_def w_throw_def held_by_def is_settled_def
  sample_environment_def events_of_def lifecycle_event_def run_scope_of_def evaluate_policy_def get_operation_def get_run_def

lemma lost_answer_found: "\<exists>q. snd lost_answer = Inr q \<and> op_state q = OpSucceeded"
  by (simp add: lost_answer_def work_eval x_reading_def complete_read_only_def x_eval)

theorem worker_reports_durable_witness:
  "\<exists>q. snd lost_answer = Inr q \<and> tbl_load (c_operation (wd_catalog (fst lost_answer))) ''op-2'' (Some (of_ws x_ws)) = Some q"
proof -
  let ?E = "sample_environment (\<lambda>n. if n = 7 then AnswerLost else Delivered)" and ?w = "\<lparr>wd_catalog = x_reading, wd_calls = 0\<rparr>"
  obtain v q where o': "process_operation x_platform ?E x_ws ''op-2'' 1 ?w = (v, Inr q)"
    using lost_answer_found unfolding lost_answer_def by (metis prod.collapse)
  have "\<forall>n s. run_of x_platform s (en_others ?E n s)" "\<forall>n. en_clock ?E n \<noteq> None" by (simp_all add: sample_environment_def)
  moreover have "sound (wd_catalog ?w)" using sound_x_reading by simp
  moreover have "commanded x_ws ''op-2'' (wd_catalog ?w)"
    by (simp add: commanded_def executed_def x_reading_def x_eval)
  ultimately show ?thesis
    using worker_reports_durable [OF _ _ _ _ o'] o' by (simp add: lost_answer_def)
qed

end
