(* ===== verification/Cv_Retries.thy ===== *)
theory Cv_Retries
  imports Cv_Commands Cv_Processing
begin

text \<open>
  Retries of the commands of \<open>WorkspaceLifecycle\<close>. A client that lost an answer sends its request again:
  the ids and times are drawn anew, but the key and the scope are the ones of the first attempt. If the
  first attempt reached the catalog, the retry only reads.
\<close>

section \<open>Programs that leave the catalog alone\<close>

definition quiet :: "environment \<Rightarrow> bool" where
  "quiet E \<longleftrightarrow> (\<forall>n s. en_others E n s = s)"

text \<open>On the catalog \<open>s\<close> the program changes nothing and a result satisfies \<open>Q\<close>.\<close>

definition keeps :: "catalog \<Rightarrow> 'a work \<Rightarrow> ('a \<Rightarrow> bool) \<Rightarrow> bool" where
  "keeps s m Q \<longleftrightarrow> (\<forall>w v r. m w = (v, r) \<and> wd_catalog w = s \<longrightarrow> wd_catalog v = s \<and> (\<forall>a. r = Inr a \<longrightarrow> Q a))"

lemma keeps_return: "Q a \<Longrightarrow> keeps s (w_return a) Q"
  by (simp add: keeps_def w_return_def)

lemma keeps_throw: "keeps s (w_throw e) Q"
  by (simp add: keeps_def w_throw_def)

lemma keeps_pure: "(\<And>a. r = Inr a \<Longrightarrow> Q a) \<Longrightarrow> keeps s (\<lambda>w. (w, r)) Q"
  by (simp add: keeps_def)

lemma keeps_bind:
  assumes "keeps s m A" and "\<And>a. A a \<Longrightarrow> keeps s (f a) Q"
  shows "keeps s (w_bind m f) Q"
  unfolding keeps_def
proof (intro allI impI, elim conjE)
  fix w v r
  assume w: "w_bind m f w = (v, r)" "wd_catalog w = s"
  obtain u x where u: "m w = (u, x)" by fastforce
  with assms(1) w(2) have m: "wd_catalog u = s" "\<And>a. x = Inr a \<Longrightarrow> A a" unfolding keeps_def by blast+
  show "wd_catalog v = s \<and> (\<forall>a. r = Inr a \<longrightarrow> Q a)"
  proof (cases x)
    case (Inl e)
    with u w(1) m(1) show ?thesis by (auto simp: w_bind_def)
  next
    case (Inr a)
    with u w(1) have "f a u = (v, r)" by (simp add: w_bind_def)
    with assms(2) [OF m(2) [OF Inr]] m(1) show ?thesis unfolding keeps_def by blast
  qed
qed

lemma keeps_catch:
  assumes "keeps s m Q" and "\<And>e. keeps s (h e) Q"
  shows "keeps s (w_catch m h) Q"
  unfolding keeps_def
proof (intro allI impI, elim conjE)
  fix w v r
  assume w: "w_catch m h w = (v, r)" "wd_catalog w = s"
  obtain u x where u: "m w = (u, x)" by fastforce
  with assms(1) w(2) have m: "wd_catalog u = s" "\<And>a. x = Inr a \<Longrightarrow> Q a" unfolding keeps_def by blast+
  show "wd_catalog v = s \<and> (\<forall>a. r = Inr a \<longrightarrow> Q a)"
  proof (cases x)
    case (Inl e)
    with u w(1) have "h e u = (v, r)" by (simp add: w_catch_def)
    with assms(2) [of e] m(1) show ?thesis unfolding keeps_def by blast
  next
    case (Inr a)
    with u w(1) m show ?thesis by (auto simp: w_catch_def)
  qed
qed

lemma keeps_control:
  assumes "quiet E" and "\<And>a t. f s = Inr (a, t) \<Longrightarrow> t = s \<and> Q a"
  shows "keeps s (control E f) Q"
  using assms unfolding keeps_def quiet_def control_def turn_def Let_def
  by (auto split: reply.splits sum.splits)

lemma keeps_ask: "quiet E \<Longrightarrow> (\<And>a. q s = Inr a \<Longrightarrow> Q a) \<Longrightarrow> keeps s (ask E q) Q"
  unfolding ask_def by (rule keeps_control) (auto simp: sbind_eq_Inr)

lemma keeps_outside: "quiet E \<Longrightarrow> keeps s (outside E f) (\<lambda>_. True)"
  by (auto simp: keeps_def outside_def turn_def quiet_def)

lemma keeps_check: "keeps s (w_check b c) (\<lambda>_. True)"
  by (simp add: w_check_def keeps_return keeps_throw)

lemma keeps_found: "keeps s (w_found x e) (\<lambda>a. x = Some a)"
  by (cases x) (simp_all add: w_found_def keeps_return keeps_throw)

lemma keeps_now: "keeps s (runtime_now E) (\<lambda>_. True)"
  by (auto simp: keeps_def runtime_now_def)

lemma keeps_id: "keeps s (new_id E k) (\<lambda>_. True)"
  by (auto simp: keeps_def new_id_def)

lemma keeps_authorize: "quiet E \<Longrightarrow> keeps s (authorize E p act sc) (\<lambda>_. True)"
  unfolding authorize_def by (rule keeps_ask) simp_all

lemma keeps_unknown: "keeps s unknown Q"
  unfolding unknown_def by (rule keeps_throw)

lemma keeps_read:
  "keeps s m (\<lambda>_. True) \<Longrightarrow> (\<And>a. keeps s (f a) Q) \<Longrightarrow> keeps s (w_bind m f) Q"
  by (rule keeps_bind)

lemmas reads = keeps_read [OF keeps_check] keeps_read [OF keeps_now] keeps_read [OF keeps_id] keeps_read [OF keeps_authorize]
  keeps_read [OF keeps_outside] keeps_read [OF keeps_pure] keeps_bind [OF keeps_found]

section \<open>Known commands\<close>

definition scope_for :: "operation_kind \<Rightarrow> principal \<Rightarrow> scope \<Rightarrow> id option \<Rightarrow> idempotency_scope" where
  "scope_for k p sc rid = IdempotencyScope (scope_customer sc) (pr_actorId p) k (scope_workspace sc) rid"

text \<open>The key was used in the scope, by the operation \<open>oid\<close>.\<close>

definition known_key :: "idempotency_scope \<Rightarrow> string \<Rightarrow> id \<Rightarrow> catalog \<Rightarrow> bool" where
  "known_key sc key oid s \<longleftrightarrow> (\<exists>row. find_command s sc key = Some row \<and> cmr_operation row = oid)"

lemma keeps_command: "keeps s (command_for P E k p key body sc rid) (\<lambda>c. cm_scope c = scope_for k p sc rid \<and> cm_key c = key)"
  unfolding command_for_def scope_for_def by (intro reads keeps_return TrueI) simp

context idempotent
begin

lemma known_repeats:
  assumes "sound s" and "known_key (cm_scope (identity i)) (cm_key (identity i)) oid s" and "command i s = Inr (r, t)"
  shows "t = s \<and> operation_of r = oid"
proof -
  from assms(2) obtain row where row: "find_command s (cm_scope (identity i)) (cm_key (identity i)) = Some row" "cmr_operation row = oid"
    by (auto simp: known_key_def)
  let ?c = "CommandIdentity (cm_scope (identity i)) (cm_key (identity i)) (cmr_digest row) oid []"
  from row have "executed ?c oid s" by (simp add: executed_def)
  from repeated [OF assms(1) this _ _ assms(3)] show ?thesis by simp
qed

end

section \<open>Each command\<close>

lemma open_keeps:
  assumes "quiet E" and "sound s" and "known_key (scope_for KRunOpen (ac_principal i) (of_ws sc) None) (ac_key i) oid s"
  shows "keeps s (open_command P E sc i) (\<lambda>r. op_id (cx_operation r) = oid)"
  unfolding open_command_def Let_def
proof (intro reads keeps_bind [OF keeps_command] assms(1), elim conjE)
  fix a c rid cid
  assume "cm_scope c = scope_for KRunOpen (ac_principal i) (of_ws sc) None" "cm_key c = ac_key i"
  then show "keeps s (control E (open_run (OpenRun sc (ac_principal i) a c rid cid (oq_mode (ac_request i)) (oq_agentLabel (ac_request i))
      (oq_task (ac_request i)) (oq_reason (ac_request i)) (en_until E (cm_requestedAt c) (en_leaseTtlMs E)) (cm_requestedAt c))))
      (\<lambda>r. op_id (cx_operation r) = oid)"
    using assms(3) by (intro keeps_control [OF assms(1)]) (drule open_run.known_repeats [OF assms(2), rotated], simp_all)
qed

lemma abort_keeps:
  assumes "quiet E" and "sound s" and "known_key (scope_for KAbort (ac_principal i) (of_ws (rs_workspace sc)) (Some (rsc_runId sc))) (ac_key i) oid s"
  shows "keeps s (abort_command P E sc i) (\<lambda>r. op_id (cx_operation r) = oid)"
  unfolding abort_command_def Let_def
proof (intro reads keeps_bind [OF keeps_command] assms(1), elim conjE)
  fix a c
  assume "cm_scope c = scope_for KAbort (ac_principal i) (of_ws (rs_workspace sc)) (Some (rsc_runId sc))" "cm_key c = ac_key i"
  then show "keeps s (control E (abort_run (AbortInput sc (ac_principal i) a c (aq_expectedRunVersion (ac_request i)) (aq_reason (ac_request i))
      (lifecycle_event (cm_operationId c) (rs_workspace sc) (Some (rsc_runId sc)) (ac_principal i) ''run.aborted'' (cm_requestedAt c)) (cm_requestedAt c))))
      (\<lambda>r. op_id (cx_operation r) = oid)"
    using assms(3) by (intro keeps_control [OF assms(1)]) (drule abort_run.known_repeats [OF assms(2), rotated], simp_all)
qed

lemma heartbeat_keeps:
  assumes "quiet E" and "sound s"
    and "known_key (scope_for KRunHeartbeat (ac_principal i) (of_ws (rs_workspace sc)) (Some (rsc_runId sc))) (ac_key i) oid s"
  shows "keeps s (heartbeat_command P E sc i) (\<lambda>r. op_id (cx_operation r) = oid)"
  unfolding heartbeat_command_def Let_def
proof (intro reads keeps_bind [OF keeps_command] assms(1), elim conjE, intro keeps_read [OF keeps_ask] reads assms(1) TrueI)
  fix c r t
  assume "cm_scope c = scope_for KRunHeartbeat (ac_principal i) (of_ws (rs_workspace sc)) (Some (rsc_runId sc))" "cm_key c = ac_key i"
  then show "keeps s (control E (renew_run_lease (RenewLease sc (ac_principal i) c (hq_expectedLeaseVersion (ac_request i)) t
      (extended E (en_leaseTtlMs E) t (rl_expiresAt (rn_lease r)))))) (\<lambda>r. op_id (cx_operation r) = oid)"
    using assms(3) by (intro keeps_control [OF assms(1)]) (drule renew_run_lease.known_repeats [OF assms(2), rotated], simp_all)
qed

lemma known_operation: "known_key sc key oid s \<Longrightarrow> find_operation s sc key = tbl_load (c_operation s) oid None"
  by (auto simp: known_key_def find_operation_def)

lemma keeps_known_finalize: "keeps s (known_finalize_intent rid b o') (\<lambda>_. True)"
  unfolding known_finalize_intent_def by (intro reads) (auto intro: keeps_return keeps_throw split: intent.split)

lemma keeps_new_finalize: "quiet E \<Longrightarrow> keeps s (new_finalize_intent E sc b c) (\<lambda>_. True)"
  unfolding new_finalize_intent_def
  by (intro keeps_read [OF keeps_ask] reads TrueI) (auto intro!: keeps_return reads)

lemma keeps_known_creation: "keeps s (known_creation_intent b o') (\<lambda>_. True)"
  unfolding known_creation_intent_def by (intro reads) (auto intro: keeps_return keeps_throw split: intent.split)

lemma keeps_new_creation: "quiet E \<Longrightarrow> keeps s (new_creation_intent P E b c) (\<lambda>_. True)"
  unfolding new_creation_intent_def Let_def by (intro reads keeps_return TrueI)

lemma replay_known:
  assumes "find_command s (cm_scope c) (cm_key c) \<noteq> None" and "replay s c p = Inr x"
  shows "\<exists>q. x = Some q \<and> cx_replayed q"
proof (cases x)
  case None
  with assms show ?thesis by (simp add: replay_None)
next
  case (Some q)
  with assms(2) show ?thesis by (auto simp: replay_Some)
qed

lemma claim_finalization_keeps:
  assumes "quiet E" and "sound s"
    and "known_key (scope_for KFinalize (ac_principal i) (of_ws (rs_workspace sc)) (Some (rsc_runId sc))) (ac_key i) oid s"
  shows "keeps s (claim_finalization_command P E sc i) (\<lambda>r. op_id (cx_operation r) = oid \<and> cx_replayed r)"
  unfolding claim_finalization_command_def Let_def
proof (intro reads keeps_bind [OF keeps_command] assms(1), elim conjE, intro keeps_read [OF keeps_ask] assms(1) TrueI)
  fix a c known
  assume c: "cm_scope c = scope_for KFinalize (ac_principal i) (of_ws (rs_workspace sc)) (Some (rsc_runId sc))" "cm_key c = ac_key i"
  let ?in = "\<lambda>it t. ClaimFinalization sc (ac_principal i) a c (fb_expectedRunVersion (ac_request i)) it
      (ProcessingClaim (en_ownerId E) 1 (en_until E t (en_processingTtlMs E))) t"
  have replayed: "cx_replayed r" if r: "claim_finalization P (?in it t) s = Inr (r, u)" for r u it t
  proof -
    from r obtain x where x: "replay s c (ac_principal i) = Inr x" by (auto simp: claim_finalization_def Let_def sbind_eq_Inr)
    from assms(3) c replay_known [OF _ x] obtain q where "x = Some q" "cx_replayed q" by (auto simp: known_key_def)
    with r x show ?thesis by (auto simp: claim_finalization_def Let_def sbind_eq_Inr)
  qed
  have last: "keeps s (control E (claim_finalization P (?in it t))) (\<lambda>r. op_id (cx_operation r) = oid \<and> cx_replayed r)" for it t
  proof (rule keeps_control [OF assms(1)])
    fix r u assume r: "claim_finalization P (?in it t) s = Inr (r, u)"
    with claim_finalization.known_repeats [OF assms(2) _ r] assms(3) c replayed [OF r]
    show "u = s \<and> op_id (cx_operation r) = oid \<and> cx_replayed r" by simp
  qed
  show "keeps s (w_bind (case known of None \<Rightarrow> new_finalize_intent E sc (ac_request i) c | Some o' \<Rightarrow> known_finalize_intent (rsc_runId sc) (ac_request i) o')
      (\<lambda>it. w_bind (runtime_now E) (\<lambda>t. control E (claim_finalization P (?in it t))))) (\<lambda>r. op_id (cx_operation r) = oid \<and> cx_replayed r)"
  proof (rule keeps_read)
    show "keeps s (case known of None \<Rightarrow> new_finalize_intent E sc (ac_request i) c | Some o' \<Rightarrow> known_finalize_intent (rsc_runId sc) (ac_request i) o') (\<lambda>_. True)"
      using keeps_new_finalize [OF assms(1)] keeps_known_finalize by (auto split: option.split)
    show "keeps s (w_bind (runtime_now E) (\<lambda>t. control E (claim_finalization P (?in it t)))) (\<lambda>r. op_id (cx_operation r) = oid \<and> cx_replayed r)" for it
      by (intro reads last)
  qed
qed

lemma claim_creation_keeps:
  assumes "quiet E" and "sound s"
    and "known_key (scope_for KWorkspaceCreate (ac_principal i) (InCustomer (cb_customerId (ac_request i))) None) (ac_key i) oid s"
  shows "keeps s (claim_creation_command P E i) (\<lambda>r. op_id (fst r) = oid \<and> snd r)"
  unfolding claim_creation_command_def Let_def
proof (intro reads keeps_bind [OF keeps_command] assms(1), elim conjE, intro keeps_read [OF keeps_ask] assms(1) TrueI)
  fix a c known
  assume c: "cm_scope c = scope_for KWorkspaceCreate (ac_principal i) (InCustomer (cb_customerId (ac_request i))) None" "cm_key c = ac_key i"
  let ?in = "\<lambda>it t. ClaimCreation (ac_principal i) a c it (ProcessingClaim (en_ownerId E) 1 (en_until E t (en_processingTtlMs E))) t"
  have replayed: "snd r" if r: "claim_workspace_creation P (?in it t) s = Inr (r, u)" for r u it t
  proof -
    from r obtain x where x: "replay s c (ac_principal i) = Inr x" by (auto simp: claim_workspace_creation_def Let_def sbind_eq_Inr)
    from assms(3) c replay_known [OF _ x] obtain q where "x = Some q" by (auto simp: known_key_def)
    with r x show ?thesis by (auto simp: claim_workspace_creation_def Let_def sbind_eq_Inr)
  qed
  have last: "keeps s (control E (claim_workspace_creation P (?in it t))) (\<lambda>r. op_id (fst r) = oid \<and> snd r)" for it t
  proof (rule keeps_control [OF assms(1)])
    fix r u assume r: "claim_workspace_creation P (?in it t) s = Inr (r, u)"
    with claim_workspace_creation.known_repeats [OF assms(2) _ r] assms(3) c replayed [OF r]
    show "u = s \<and> op_id (fst r) = oid \<and> snd r" by simp
  qed
  show "keeps s (w_bind (case known of None \<Rightarrow> new_creation_intent P E (ac_request i) c | Some o' \<Rightarrow> known_creation_intent (ac_request i) o')
      (\<lambda>it. w_bind (runtime_now E) (\<lambda>t. control E (claim_workspace_creation P (?in it t))))) (\<lambda>r. op_id (fst r) = oid \<and> snd r)"
  proof (rule keeps_read)
    show "keeps s (case known of None \<Rightarrow> new_creation_intent P E (ac_request i) c | Some o' \<Rightarrow> known_creation_intent (ac_request i) o') (\<lambda>_. True)"
      using keeps_new_creation [OF assms(1)] keeps_known_creation by (auto split: option.split)
    show "keeps s (w_bind (runtime_now E) (\<lambda>t. control E (claim_workspace_creation P (?in it t)))) (\<lambda>r. op_id (fst r) = oid \<and> snd r)" for it
      by (intro reads last)
  qed
qed

text \<open>A replay observes the operation; it never starts the work.\<close>

lemma convenience_keeps:
  assumes "quiet E" and "sound s" and "op_id o' = oid"
  shows "keeps s (convenience_operation P E o' True) (\<lambda>q. op_id q = oid)"
proof -
  have "keeps s (w_bind (w_catch (ask E (\<lambda>s. Inr (get_operation s (op_scope o') (op_id o')))) (\<lambda>_. unknown)) (\<lambda>x. case x of
      None \<Rightarrow> unknown | Some q \<Rightarrow> if op_kind q = op_kind o' then w_return q else unknown)) (\<lambda>q. op_id q = oid)"
  proof (rule keeps_bind [where A = "\<lambda>x. \<forall>q. x = Some q \<longrightarrow> op_id q = oid"], intro keeps_catch keeps_ask assms(1) keeps_unknown)
    fix x assume "Inr (get_operation s (op_scope o') (op_id o')) = Inr x"
    then show "\<forall>q. x = Some q \<longrightarrow> op_id q = oid"
      using own_row(5) [of s "op_id o'" "op_scope o'"] assms(2,3) by (auto simp: get_operation_def sound_def)
  next
    fix x assume "\<forall>q. x = Some q \<longrightarrow> op_id q = oid"
    then show "keeps s (case x of None \<Rightarrow> unknown | Some q \<Rightarrow> if op_kind q = op_kind o' then w_return q else unknown) (\<lambda>q. op_id q = oid)"
      by (auto intro: keeps_return keeps_unknown split: option.split)
  qed
  then show ?thesis using assms(3)
    by (auto simp: convenience_operation_def Let_def intro: keeps_return split: option.split)
qed

lemma finalize_keeps:
  assumes "quiet E" and "sound s"
    and "known_key (scope_for KFinalize (ac_principal i) (of_ws (rs_workspace sc)) (Some (rsc_runId sc))) (ac_key i) oid s"
  shows "keeps s (finalize_command P E sc i) (\<lambda>q. op_id q = oid)"
  unfolding finalize_command_def
proof (rule keeps_bind [OF claim_finalization_keeps [OF assms]], elim conjE)
  fix r assume r: "op_id (cx_operation r) = oid" "cx_replayed r"
  show "keeps s (w_bind (convenience_operation P E (cx_operation r) (cx_replayed r)) (\<lambda>q. if op_kind q = KFinalize then w_return q else unknown)) (\<lambda>q. op_id q = oid)"
    unfolding r(2) [THEN eqTrueI]
    by (rule keeps_bind [OF convenience_keeps [OF assms(1,2) r(1)]]) (auto intro: keeps_return keeps_unknown)
qed

lemma create_keeps:
  assumes "quiet E" and "sound s"
    and "known_key (scope_for KWorkspaceCreate (ac_principal i) (InCustomer (cb_customerId (ac_request i))) None) (ac_key i) oid s"
  shows "keeps s (create_workspace_command P E i) (\<lambda>_. True)"
  unfolding create_workspace_command_def split_beta
proof (rule keeps_bind [OF claim_creation_keeps [OF assms]], elim conjE)
  fix r :: "operation \<times> bool" assume r: "op_id (fst r) = oid" "snd r"
  show "keeps s (w_bind (convenience_operation P E (fst r) (snd r)) (\<lambda>q. if op_kind q \<noteq> KWorkspaceCreate then unknown
     else if op_state q = OpPending \<or> op_state q = OpProcessing then w_return (CreationPending q (snd r))
     else if op_state q \<noteq> OpSucceeded then (case op_error q of None \<Rightarrow> unknown | Some e \<Rightarrow> w_throw (Fail (oe_code e)))
     else case op_intent q of CreateIntent f \<Rightarrow> w_return (CreationAccepted (wi_workspace f) q (snd r)) | _ \<Rightarrow> w_throw Crash)) (\<lambda>_. True)"
    unfolding r(2) [THEN eqTrueI]
    by (rule keeps_bind [OF convenience_keeps [OF assms(1,2) r(1)]])
      (auto intro: keeps_return keeps_unknown keeps_throw split: option.split intent.split)
qed



end
