(* ===== verification/Cv_Digests.thy ===== *)
theory Cv_Digests
  imports Cv_Commands Cv_Readable
begin

text \<open>
  What the digest of a request binds: as canonical texts are uniquely readable, two requests of the
  commands of \<open>WorkspaceLifecycle\<close> have the same digest only when they agree on the customer, the actor,
  the credential, the kind, the resource and the payload (up to the order of its keys).
\<close>

lemma insert_pair_fields:
  assumes "fst p \<notin> fst ` set qs"
  shows "map_of (insert_pair p qs) = map_of (p # qs)"
  using assms by (induction qs) (auto simp: fun_upd_twist)

lemma sort_pairs_fields: "distinct (map fst ps) \<Longrightarrow> map_of (sort_pairs ps) = map_of ps"
proof (induction ps)
  case (Cons p ps)
  then have "fst p \<notin> fst ` set (sort_pairs ps)" by simp
  from insert_pair_fields [OF this] Cons show ?case by (simp add: sort_pairs_def)
qed (simp add: sort_pairs_def)

lemma sorted_pairs_fields: "map_of (sorted_pairs ps) k = map_option sorted_json (map_of ps k)"
  by (induction ps) auto

lemma sorted_pairs_keys [simp]: "map fst (sorted_pairs ps) = map fst ps"
  by (induction ps) auto

lemma same_object_fields:
  assumes "sorted_json (JObj ps) = sorted_json (JObj qs)" and "distinct (map fst ps)" and "distinct (map fst qs)"
  shows "map_option sorted_json (map_of ps k) = map_option sorted_json (map_of qs k)"
proof -
  have "sort_pairs (sorted_pairs ps) = sort_pairs (sorted_pairs qs)" using assms(1) by simp
  then have "map_of (sorted_pairs ps) = map_of (sorted_pairs qs)" using assms(2,3) by (metis sort_pairs_fields sorted_pairs_keys)
  then show ?thesis by (metis sorted_pairs_fields)
qed

lemma operation_kind_text_inj: "operation_kind_text k = operation_kind_text l \<Longrightarrow> k = l"
  by (cases k; cases l; simp)

lemma resource_fields:
  assumes "w \<noteq> Some []" and "r \<noteq> Some []"
  shows "\<exists>ps. resource_json w r = JObj ps \<and> distinct (map fst ps) \<and>
    map_of ps ''workspaceId'' = map_option JStr w \<and> map_of ps ''runId'' = map_option JStr r"
  using assms by (cases w; cases r) (simp_all add: resource_json_def)

lemma resource_json_inj:
  assumes "sorted_json (resource_json w r) = sorted_json (resource_json w' r')"
    and "w \<noteq> Some []" and "r \<noteq> Some []" and "w' \<noteq> Some []" and "r' \<noteq> Some []"
  shows "w = w' \<and> r = r'"
proof -
  obtain ps where p: "resource_json w r = JObj ps" "distinct (map fst ps)"
    "map_of ps ''workspaceId'' = map_option JStr w" "map_of ps ''runId'' = map_option JStr r"
    using resource_fields [OF assms(2,3)] by blast
  obtain qs where q: "resource_json w' r' = JObj qs" "distinct (map fst qs)"
    "map_of qs ''workspaceId'' = map_option JStr w'" "map_of qs ''runId'' = map_option JStr r'"
    using resource_fields [OF assms(4,5)] by blast
  note f = same_object_fields [OF assms(1) [unfolded p(1) q(1)] p(2) q(2)]
  have s: "v = v'" if "map_option sorted_json (map_option JStr v) = map_option sorted_json (map_option JStr v')" for v v'
    using that by (cases v; cases v') simp_all
  from s s f [of "''workspaceId''"] f [of "''runId''"] show ?thesis unfolding p q by blast
qed

lemma request_plain: "plain body \<Longrightarrow> plain (request_json sc p k rid body)"
  by (auto simp: request_json_def resource_json_def safe_integer_def split: option.splits)

text \<open>C12: The digest of a request binds what was asked and who asked: unless SHA-256 collides on their
  texts, two requests with one digest have the same customer, actor, credential, kind of command, workspace
  and run, and payloads that are equal up to the order of their keys.\<close>

theorem request_digest_binds:
  assumes "canonical_request_digest P (request_json sc p k rid body) = Inr d"
    and "canonical_request_digest P (request_json sc' p' k' rid' body') = Inr d"
    and "\<forall>t u. canonical_json (request_json sc p k rid body) = Inr t \<and> canonical_json (request_json sc' p' k' rid' body') = Inr u \<and>
      pf_sha256 P t = pf_sha256 P u \<longrightarrow> t = u"
    and "plain body" and "plain body'" and "scope_workspace sc \<noteq> Some []" and "scope_workspace sc' \<noteq> Some []"
    and "rid \<noteq> Some []" and "rid' \<noteq> Some []"
  shows "scope_customer sc = scope_customer sc' \<and> pr_actorId p = pr_actorId p' \<and> ci_id (pr_credential p) = ci_id (pr_credential p') \<and>
    k = k' \<and> scope_workspace sc = scope_workspace sc' \<and> rid = rid' \<and> sorted_json body = sorted_json body'"
proof -
  let ?a = "request_json sc p k rid body" and ?b = "request_json sc' p' k' rid' body'"
  obtain t u where t: "canonical_json ?a = Inr t" "canonical_json ?b = Inr u" "pf_sha256 P t = d" "pf_sha256 P u = d"
    using assms(1,2) by (auto simp: canonical_request_digest_def sbind_eq_Inr)
  with assms(3) have "t = u" by metis
  with t request_plain [OF assms(4)] request_plain [OF assms(5)] all_readable have e: "sorted_json ?a = sorted_json ?b"
    using readableD [OF all_readable t(1,2), of "[]" "[]"] by (simp add: delimited_def)
  note f = same_object_fields [OF e [unfolded request_json_def]]
  have "sorted_json (resource_json (scope_workspace sc) rid) = sorted_json (resource_json (scope_workspace sc') rid')"
    using f [of "''resource''"] by simp
  from resource_json_inj [OF this assms(6,8,7,9)] f [of "''customerId''"] f [of "''actorId''"] f [of "''credentialId''"]
    f [of "''kind''"] f [of "''payload''"] operation_kind_text_inj show ?thesis by simp
qed

definition plain_text_platform :: platform where
  "plain_text_platform = Platform (\<lambda>t. t) (\<lambda>t. t) (\<lambda>t. t) (\<lambda>_. True)"

theorem request_digest_binds_witness:
  "canonical_request_digest plain_text_platform (request_json (of_ws x_ws) x_principal KAbort (Some ''r1'') (JObj [])) \<noteq>
     canonical_request_digest plain_text_platform (request_json (of_ws x_ws) x_principal KFinalize (Some ''r1'') (JObj []))"
proof
  let ?q = "\<lambda>k. request_json (of_ws x_ws) x_principal k (Some ''r1'') (JObj [])"
  assume e: "canonical_request_digest plain_text_platform (?q KAbort) = canonical_request_digest plain_text_platform (?q KFinalize)"
  obtain d where "canonical_request_digest plain_text_platform (?q KAbort) = Inr d"
    by (simp add: canonical_request_digest_def request_json_def resource_json_def x_eval)
  with e request_digest_binds [of plain_text_platform "of_ws x_ws" x_principal KAbort "Some ''r1''" "JObj []" d
      "of_ws x_ws" x_principal KFinalize "Some ''r1''" "JObj []"] show False
    by (simp add: plain_text_platform_def x_eval)
qed

end
