(* ===== verification/Cv_Accepted.thy ===== *)
theory Cv_Accepted
  imports Cv_Reading Cv_Retries Cv_Files Cv_Digests
begin

text \<open>
  What a reader of accepted revisions gets. The environment is arbitrary where nothing else is said: other
  actors change the catalog between any two calls, and answers may be lost.
\<close>

section \<open>Results of programs\<close>

named_theorems returns "when a program returns a value"

lemma bind_returns [returns]: "w_bind m f w = (v, Inr a) \<longleftrightarrow> (\<exists>u x. m w = (u, Inr x) \<and> f x u = (v, Inr a))"
  by (auto simp: w_bind_def split: prod.splits sum.splits)

lemma return_returns [returns]: "w_return x w = (v, Inr a) \<longleftrightarrow> v = w \<and> a = x"
  by (auto simp: w_return_def)

lemma throw_returns [returns]: "w_throw e w \<noteq> (v, Inr a)"
  by (simp add: w_throw_def)

lemma check_returns [returns]: "w_check b c w = (v, Inr u) \<longleftrightarrow> b \<and> v = w"
  by (auto simp: w_check_def w_return_def w_throw_def)

lemma found_returns [returns]: "w_found x e w = (v, Inr a) \<longleftrightarrow> x = Some a \<and> v = w"
  by (auto simp: w_found_def w_return_def w_throw_def split: option.splits)

lemma lift_returns [returns]: "w_lift r w = (v, Inr a) \<longleftrightarrow> r = Inr a \<and> v = w"
  by (auto simp: w_lift_def)

lemma outside_returns: "outside E f w = (v, Inr a) \<Longrightarrow> \<exists>n. f n = Inr a"
  by (auto simp: outside_def)

text \<open>A permission that was just given holds in the catalog as it is then.\<close>

definition permits :: "world \<Rightarrow> principal \<Rightarrow> action \<Rightarrow> scope \<Rightarrow> bool" where
  "permits w p act sc \<longleftrightarrow> (\<exists>d. evaluate_policy (wd_catalog w) p act sc = Allowed d)"

lemma authorize_returns: "authorize E p act sc w = (v, Inr a) \<Longrightarrow> permits v p act sc"
  by (auto simp: authorize_def ask_def control_def turn_def permits_def sbind_def Let_def split: reply.splits sum.splits decision.splits)

section \<open>Accepted revisions and their files\<close>

text \<open>The manifest is canonical and its digest is the one the catalog keeps for the revision.\<close>

definition trusted :: "platform \<Rightarrow> reader \<Rightarrow> accepted \<Rightarrow> bool" where
  "trusted P R a \<longleftrightarrow> manifest_digest P no_override (manifest_json (ac_manifest a)) = Inr (rv_manifestDigest (ac_revision a)) \<and>
     (\<exists>raw. canonicalize_manifest P (rd_limits R) raw = Inr (ac_manifest a)) \<and>
     sb_generation (ac_binding a) = bsc_bindingGeneration (rv_scope (ac_revision a))"

lemma accepted_trusted:
  "accepted_revision P E R p sc i w = (v, Inr a) \<Longrightarrow> trusted P R a \<and> permits v p WorkspaceRead (of_ws sc)"
  unfolding accepted_revision_def trusted_def by (auto simp: returns dest: authorize_returns)

lemma hand_out_returns: "hand_out E R p sc ps out w = (v, Inr x) \<Longrightarrow> x = out @ concat ps"
proof (induction ps arbitrary: out w)
  case (Cons c cs)
  then obtain u where "hand_out E R p sc cs (out @ c) u = (v, Inr x)" by (auto simp: returns)
  from Cons.IH [OF this] show ?case by simp
qed (simp add: returns)

lemma verified_exact:
  assumes "verify_file_stream P ov (FileEntry p n h) chunks = (ps, Inr ())"
  shows "int (length (concat ps)) = n \<and> pf_sha256 P (concat ps) = h"
proof -
  obtain l m where l: "workspace_limits ov = Inr l" "canonicalize_manifest P (full_override l) (manifest_json (Manifest [FileEntry p n h])) = Inr m"
    using assms by (auto simp: verify_file_stream_def split: sum.splits)
  have k: "0 < nat (lm_maxChunkBytes l)" using workspace_limits_positive [OF l(1)] by simp
  from l(2) obtain l' es where "map (decode P l') (map entry_json [FileEntry p n h]) = map Some es"
    unfolding manifest_json_raw canonicalize_raw by blast
  then have n: "0 \<le> n" by (cases es) (auto simp del: entry_json.simps dest: decode_file_size)
  have loop: "stream_loop P (nat (lm_maxChunkBytes l)) n h chunks [] [] = (ps, Inr ())"
    using assms l by (simp add: verify_file_stream_def)
  from stream_loop_sound [OF k loop] n show ?thesis by auto
qed

lemma file_read:
  assumes "revision_file P E R p sc i raw w = (v, Inr (e, bytes))"
  shows "\<exists>a path n h. e = FileEntry path n h \<and> trusted P R a \<and> e \<in> set (mf_entries (ac_manifest a)) \<and>
    validate_portable_path P (rd_limits R) (JStr raw) = Inr path \<and> int (length bytes) = n \<and> pf_sha256 P bytes = h"
proof -
  obtain path a g u u' where a: "validate_portable_path P (rd_limits R) (JStr raw) = Inr path"
      "accepted_revision P E R p sc (Some i) u = (u', Inr a)"
    and f: "find (\<lambda>e. me_path e = path) (mf_entries (ac_manifest a)) = Some g"
    and r: "(case g of DirectoryEntry _ \<Rightarrow> w_throw (Fail REVISION_NOT_FOUND)
     | FileEntry _ _ _ \<Rightarrow>
         w_bind (outside E (\<lambda>n. rd_open R n (ac_binding a) (ac_revision a) path)) (\<lambda>chunks.
         case verify_file_stream P (rd_limits R) g chunks of (ps, r) \<Rightarrow>
           w_bind (hand_out E R p sc ps []) (\<lambda>out. w_bind (w_lift r) (\<lambda>_. w_return (g, out))))) u' = (v, Inr (e, bytes))"
    using assms unfolding revision_file_def bind_returns lift_returns found_returns by blast
  obtain q n h where g: "g = FileEntry q n h" using r by (cases g) (auto simp: returns)
  obtain chunks x y where c: "(case verify_file_stream P (rd_limits R) g chunks of (ps, r) \<Rightarrow>
      w_bind (hand_out E R p sc ps []) (\<lambda>out. w_bind (w_lift r) (\<lambda>_. w_return (g, out)))) x = (y, Inr (e, bytes))"
    using r unfolding g manifest_entry.case bind_returns by blast
  obtain ps z where z: "verify_file_stream P (rd_limits R) g chunks = (ps, z)" by fastforce
  with c have r: "z = Inr ()" "e = g" "bytes = concat ps" by (auto simp: returns dest: hand_out_returns)
  from f r(2) have e: "e \<in> set (mf_entries (ac_manifest a))" "me_path e = path" by (auto simp: find_Some_iff)
  with g r have "e = FileEntry path n h" by simp
  moreover from this z r have "verify_file_stream P (rd_limits R) (FileEntry path n h) chunks = (ps, Inr ())" by simp
  from verified_exact [OF this] r(3) have "int (length bytes) = n" "pf_sha256 P bytes = h" by auto
  ultimately show ?thesis using accepted_trusted [OF a(2)] a(1) e(1) by blast
qed


section \<open>History\<close>

text \<open>The entry shows an accepted revision as it is in the catalog.\<close>

definition shows_revision :: "workspace_scope \<Rightarrow> catalog \<Rightarrow> history_entry \<Rightarrow> bool" where
  "shows_revision sc s e \<longleftrightarrow> (\<exists>r. get_revision s sc (he_id e) = Some r \<and> e = history_entry_of sc r)"

text \<open>The entries walk from the revision \<open>i\<close> along the parents to \<open>at\<close>.\<close>

primrec walks :: "id option \<Rightarrow> history_entry list \<Rightarrow> id option \<Rightarrow> bool" where
  "walks i [] at \<longleftrightarrow> at = given_id i"
| "walks i (e # es) at \<longleftrightarrow> given_id i = Some (he_id e) \<and> walks (he_parentRevisionId e) es at"

lemma given_idem [simp]: "given_id (given_id i) = given_id i"
  by (auto simp: given_id_def split: option.splits)

lemma walks_given: "walks (given_id i) es at \<longleftrightarrow> walks i es at"
  by (cases es) auto

lemma walks_append: "walks i es j \<Longrightarrow> walks j fs at \<Longrightarrow> walks i (es @ fs) at"
  by (induction es arbitrary: i) (auto simp: walks_given)

lemma walks_end: "walks i es at \<Longrightarrow> es \<noteq> [] \<Longrightarrow> at = given_id (he_parentRevisionId (last es))"
  by (induction es arbitrary: i) (auto split: if_splits)

lemma revision_as_shown:
  assumes "run_of P s t" and "sound s" and "get_revision s sc j = Some r"
  shows "\<exists>q. get_revision t sc j = Some q \<and> history_entry_of sc q = history_entry_of sc r \<and> rv_id q = j"
proof -
  obtain q where q: "get_revision t sc j = Some q" "rv_next\<^sup>*\<^sup>* r q"
    using evolution_load(3) [OF run_evolves [OF assms(1,2)] assms(3) [unfolded get_revision_def]] by (auto simp: get_revision_def)
  from q(2) have "history_entry_of sc q = history_entry_of sc r"
    by (induction rule: rtranclp_induct) (auto simp: rv_next_def history_entry_of_def)
  moreover have "consistent t" using run_sound [OF assms(1,2)] by (simp add: sound_def)
  ultimately show ?thesis using q(1) by (auto simp: get_revision_def dest: owned)
qed

lemma shown_kept: "run_of P s t \<Longrightarrow> sound s \<Longrightarrow> shows_revision sc s e \<Longrightarrow> shows_revision sc t e"
  unfolding shows_revision_def using revision_as_shown by metis

definition visited_by :: "platform \<Rightarrow> environment \<Rightarrow> bool" where
  "visited_by P E \<longleftrightarrow> (\<forall>n s. run_of P s (en_others E n s))"

lemma ask_runs:
  assumes "visited_by P E" and "ask E q w = (v, Inr a)"
  shows "run_of P (wd_catalog w) (wd_catalog v) \<and> q (wd_catalog v) = Inr a"
  using assms by (auto simp: visited_by_def ask_def control_def turn_def Let_def sbind_def split: reply.splits sum.splits)

lemma shown_here:
  assumes "sound s" and "get_revision s sc j = Some r"
  shows "shows_revision sc s (history_entry_of sc r) \<and> he_id (history_entry_of sc r) = j"
proof -
  from revision_as_shown [OF rtranclp.rtrancl_refl assms] have "rv_id r = j" using assms(2) by auto
  with assms(2) show ?thesis by (auto simp: shows_revision_def history_entry_of_def)
qed

lemma loop_walks:
  assumes "visited_by P E"
  shows "sound (wd_catalog w) \<Longrightarrow> history_loop E sc k seen i w = (v, Inr (es, at)) \<Longrightarrow>
    run_of P (wd_catalog w) (wd_catalog v) \<and> walks i es at \<and> (\<forall>e \<in> set es. shows_revision sc (wd_catalog v) e) \<and>
    length es \<le> k \<and> (at \<noteq> None \<longrightarrow> length es = k)"
proof (induction k arbitrary: seen i w es)
  case 0
  then show ?case by (auto simp: returns)
next
  case (Suc k)
  show ?case
  proof (cases "given_id i")
    case None
    with Suc.prems show ?thesis by (auto simp: returns)
  next
    case (Some j)
    with Suc.prems(2) obtain u r fs where u: "ask E (\<lambda>s. Inr (get_revision s sc j)) w = (u, Inr (Some r))"
      and l: "history_loop E sc k (j # seen) (rv_parentRevisionId r) u = (v, Inr (fs, at))" and es: "es = history_entry_of sc r # fs"
      by (auto simp: returns)
    from ask_runs [OF assms u] have r: "run_of P (wd_catalog w) (wd_catalog u)" "get_revision (wd_catalog u) sc j = Some r" by auto
    have s: "sound (wd_catalog u)" using run_sound [OF r(1) Suc.prems(1)] .
    from Suc.IH [OF s l] have IH: "run_of P (wd_catalog u) (wd_catalog v)" "walks (rv_parentRevisionId r) fs at"
      "\<forall>e \<in> set fs. shows_revision sc (wd_catalog v) e" "length fs \<le> k" "at \<noteq> None \<longrightarrow> length fs = k" by auto
    from shown_here [OF s r(2)] shown_kept [OF IH(1) s] have "shows_revision sc (wd_catalog v) (history_entry_of sc r)"
      "he_id (history_entry_of sc r) = j" by auto
    moreover have "run_of P (wd_catalog w) (wd_catalog v)" using r(1) IH(1) by (rule rtranclp_trans)
    ultimately show ?thesis using IH Some es by (auto simp: history_entry_of_def)
  qed
qed

text \<open>One page: it starts at the head, or after its cursor.\<close>

lemma history_page:
  assumes "visited_by P E" and "sound (wd_catalog w)" and "revision_history E p sc cursor k w = (v, Inr (es, next))"
  shows "\<exists>i at. run_of P (wd_catalog w) (wd_catalog v) \<and> walks i es at \<and> (\<forall>e \<in> set es. shows_revision sc (wd_catalog v) e) \<and>
    length es \<le> k \<and> (next = None \<longleftrightarrow> at = None) \<and> (next \<noteq> None \<longrightarrow> length es = k \<and> es \<noteq> [] \<and> next = Some (he_id (last es))) \<and>
    permits v p WorkspaceRead (of_ws sc) \<and>
    (\<forall>c. given_id cursor = Some c \<longrightarrow> (\<exists>s r. run_of P (wd_catalog w) s \<and> get_revision s sc c = Some r \<and> i = rv_parentRevisionId r))"
proof -
  obtain a1 w1 x w2 ws w3 i w4 at w5 a2 where
    c: "authorize E p WorkspaceRead (of_ws sc) w = (w1, Inr a1)" "ask E (\<lambda>s. Inr (get_workspace s sc)) w1 = (w2, Inr x)"
      "history_start E sc cursor ws w2 = (w3, Inr i)" "history_loop E sc k [] i w3 = (w4, Inr (es, at))"
      "authorize E p WorkspaceRead (of_ws sc) w4 = (v, Inr a2)"
    and n: "next = None \<longleftrightarrow> at = None" "next \<noteq> None \<longrightarrow> es \<noteq> [] \<and> next = Some (he_id (last es))"
    using assms(3) unfolding revision_history_def by (auto simp: returns split: option.splits if_splits)
  note a = assms(1)
  have r1: "run_of P (wd_catalog w) (wd_catalog w1)" using ask_runs [OF a c(1) [unfolded authorize_def]] by simp
  have r2: "run_of P (wd_catalog w) (wd_catalog w2)" using ask_runs [OF a c(2)] r1 by (meson rtranclp_trans)
  have r3: "run_of P (wd_catalog w) (wd_catalog w3) \<and>
      (\<forall>c. given_id cursor = Some c \<longrightarrow> (\<exists>r. get_revision (wd_catalog w3) sc c = Some r \<and> i = rv_parentRevisionId r))"
  proof (cases "given_id cursor")
    case None
    with c(3) r2 show ?thesis by (auto simp: history_start_def returns)
  next
    case (Some d)
    with c(3) obtain r where "ask E (\<lambda>s. Inr (get_revision s sc d)) w2 = (w3, Inr (Some r))" "i = rv_parentRevisionId r"
      by (auto simp: history_start_def returns)
    with ask_runs [OF a this(1)] r2 Some show ?thesis by (auto intro: rtranclp_trans)
  qed
  have s3: "sound (wd_catalog w3)" using run_sound r3 assms(2) by blast
  from loop_walks [OF a s3 c(4)] have l: "run_of P (wd_catalog w3) (wd_catalog w4)" "walks i es at"
    "\<forall>e \<in> set es. shows_revision sc (wd_catalog w4) e" "length es \<le> k" "at \<noteq> None \<longrightarrow> length es = k" by auto
  have r5: "run_of P (wd_catalog w4) (wd_catalog v)" using ask_runs [OF a c(5) [unfolded authorize_def]] by simp
  have "sound (wd_catalog w4)" using run_sound l(1) s3 by blast
  then have "\<forall>e \<in> set es. shows_revision sc (wd_catalog v) e" using shown_kept [OF r5] l(3) by blast
  moreover have "run_of P (wd_catalog w) (wd_catalog v)" using r3 l(1) r5 by (meson rtranclp_trans)
  ultimately show ?thesis using l n r3 authorize_returns [OF c(5)]
    by (intro exI [of _ i] exI [of _ at]) blast
qed

text \<open>C19: Paging through the history of a workspace gives one walk along its accepted revisions, whatever is
  published between the two requests: the second page goes on at the parent of the last revision of the
  first, every entry shows an accepted revision, a page with a cursor is full, and no cursor means the walk
  reached the first revision.\<close>

theorem history_pages_join:
  assumes "\<forall>n s. run_of P s (en_others E n s)" and "sound (wd_catalog w)"
    and "revision_history E p sc cursor m w = (u, Inr (es, Some c))" and "run_of P (wd_catalog u) (wd_catalog u')" and "c \<noteq> []"
    and "revision_history E p sc (Some c) n u' = (v, Inr (fs, next))"
  shows "\<exists>i at. walks i (es @ fs) at \<and> (\<forall>e \<in> set (es @ fs). shows_revision sc (wd_catalog v) e) \<and> length es = m \<and> length fs \<le> n \<and>
    (next = None \<longleftrightarrow> at = None)"
proof -
  have a: "visited_by P E" using assms(1) by (simp add: visited_by_def)
  from history_page [OF a assms(2,3)] obtain i at where p: "run_of P (wd_catalog w) (wd_catalog u)" "walks i es at"
    "\<forall>e \<in> set es. shows_revision sc (wd_catalog u) e" "length es = m" "es \<noteq> []" "c = he_id (last es)" by auto
  have s: "sound (wd_catalog u)" "sound (wd_catalog u')" using run_sound p(1) assms(2,4) by blast+
  have g: "given_id (Some c) = Some c" using assms(5) by (simp add: given_id_def)
  from history_page [OF a s(2) assms(6)] obtain j at' where q: "run_of P (wd_catalog u') (wd_catalog v)" "walks j fs at'"
    "\<forall>e \<in> set fs. shows_revision sc (wd_catalog v) e" "length fs \<le> n" "next = None \<longleftrightarrow> at' = None"
    and "\<forall>d. given_id (Some c) = Some d \<longrightarrow> (\<exists>t r. run_of P (wd_catalog u') t \<and> get_revision t sc d = Some r \<and> j = rv_parentRevisionId r)"
    by blast
  from this(6) g obtain t r where t: "run_of P (wd_catalog u') t" "get_revision t sc c = Some r" "j = rv_parentRevisionId r" by blast
  have ut: "run_of P (wd_catalog u) t" using assms(4) t(1) by (rule rtranclp_trans)
  from p(3,5) have "shows_revision sc (wd_catalog u) (last es)" by simp
  from shown_kept [OF ut s(1) this] p(6) t(2) have "last es = history_entry_of sc r" by (auto simp: shows_revision_def)
  with t(3) have "j = he_parentRevisionId (last es)" by (simp add: history_entry_of_def)
  with walks_end [OF p(2,5)] q(2) have "walks at fs at'" by (simp add: walks_given)
  with p(2) have "walks i (es @ fs) at'" by (rule walks_append)
  moreover have "run_of P (wd_catalog u) (wd_catalog v)" using assms(4) q(1) by (rule rtranclp_trans)
  then have "\<forall>e \<in> set es. shows_revision sc (wd_catalog v) e" using shown_kept [OF _ s(1)] p(3) by blast
  ultimately show ?thesis using p(4) q by (intro exI [of _ i] exI [of _ at']) auto
qed

definition two_revisions :: catalog where
  "two_revisions = x_open\<lparr>c_workspace := [(''w1'', mk_row (of_ws x_ws) None (x_new_workspace\<lparr>ws_currentRevisionId := ''v2''\<rparr>))],
     c_revision := [(''v1'', mk_row (of_ws x_ws) None x_revision),
       (''v2'', mk_row (of_ws x_ws) None (x_revision\<lparr>rv_id := ''v2'', rv_parentRevisionId := Some ''v1''\<rparr>))]\<rparr>"

lemma sound_two_revisions: "sound two_revisions"
  by (simp add: two_revisions_def sound_def consistent_def catalog_wf_def migrations_owned_def access_ok_def rows_ok_list record_ok_defs authority_ok_def
    tbl_wf_def row_scope_def live_def x_eval)

definition at_call :: "nat \<Rightarrow> world" where
  "at_call n = \<lparr>wd_catalog = two_revisions, wd_calls = n\<rparr>"

lemmas page_eval = revision_history_def history_start_def given_id_def authorize_def ask_def control_def turn_def w_bind_def w_check_def w_found_def
  w_return_def w_throw_def sample_environment_def evaluate_policy_def get_workspace_def get_revision_def two_revisions_def history_entry_of_def
  at_call_def

abbreviation calm :: environment where "calm \<equiv> sample_environment (\<lambda>_. Delivered)"

lemma first_page: "\<exists>es. revision_history calm x_principal x_ws None 1 (at_call 0) = (at_call 4, Inr (es, Some ''v2'')) \<and> map he_id es = [''v2'']"
  by (simp add: page_eval x_eval)

lemma second_page: "\<exists>es. revision_history calm x_principal x_ws (Some ''v2'') 5 (at_call 4) = (at_call 9, Inr (es, None)) \<and> map he_id es = [''v1'']"
  by (simp add: page_eval x_eval eval_nat_numeral)

theorem history_pages_join_witness:
  "\<exists>es. map he_id es = [''v2'', ''v1''] \<and> (\<forall>e \<in> set es. shows_revision x_ws (wd_catalog (at_call 9)) e)"
proof -
  from first_page obtain es where p: "revision_history calm x_principal x_ws None 1 (at_call 0) = (at_call 4, Inr (es, Some ''v2''))" "map he_id es = [''v2'']"
    by (elim exE conjE) (rule that)
  from second_page obtain fs where q: "revision_history calm x_principal x_ws (Some ''v2'') 5 (at_call 4) = (at_call 9, Inr (fs, None))" "map he_id fs = [''v1'']"
    by (elim exE conjE) (rule that)
  have o: "\<forall>n s. run_of x_platform s (en_others calm n s)" by (simp add: sample_environment_def)
  have "sound (wd_catalog (at_call 0))" using sound_two_revisions by (simp add: at_call_def)
  from history_pages_join [OF o this p(1) rtranclp.rtrancl_refl _ q(1)] have "\<forall>e \<in> set (es @ fs). shows_revision x_ws (wd_catalog (at_call 9)) e"
    by blast
  with p(2) q(2) show ?thesis by (intro exI [of _ "es @ fs"]) simp
qed

section \<open>Permission to read\<close>

lemma hand_out_permitted: "hand_out E R p sc (c # cs) out w = (v, Inr x) \<Longrightarrow> permits v p WorkspaceRead (of_ws sc)"
proof (induction cs arbitrary: c out w)
  case Nil
  then show ?case by (auto simp: returns dest: authorize_returns)
next
  case (Cons d ds)
  from Cons.prems obtain u where "hand_out E R p sc (d # ds) (out @ c) u = (v, Inr x)"
    unfolding hand_out.simps(2) [of E R p sc c "d # ds"] bind_returns by blast
  with Cons.IH show ?case by blast
qed



section \<open>Differences\<close>

lemma utf16_insert_set [simp]: "set (utf16_insert p qs) = insert p (set qs)"
  by (induction qs) auto

lemma utf16_sort_set [simp]: "set (utf16_sort ps) = set ps"
  by (induction ps) (auto simp: utf16_sort_def)

lemma utf16_insert_distinct: "distinct (utf16_insert p qs) \<longleftrightarrow> p \<notin> set qs \<and> distinct qs"
  by (induction qs) auto

lemma utf16_sort_distinct: "distinct (utf16_sort ps) \<longleftrightarrow> distinct ps"
proof (induction ps)
  case (Cons p ps)
  have "utf16_sort (p # ps) = utf16_insert p (utf16_sort ps)" by (simp add: utf16_sort_def)
  with Cons show ?case by (simp add: utf16_insert_distinct)
qed (simp add: utf16_sort_def)

lemma entry_at_None: "entry_at m q = None \<longleftrightarrow> q \<notin> me_path ` set (mf_entries m)"
  by (auto simp: entry_at_def map_of_eq_None_iff image_iff)

lemma entry_at_set: "entry_at m q = Some e \<Longrightarrow> e \<in> set (mf_entries m)"
  by (auto simp: entry_at_def dest!: map_of_SomeD)

text \<open>The entries of a canonical manifest hold safe integers, so their canonical texts tell them apart.\<close>

lemma decoded_plain: "decode P l raw = Some e \<Longrightarrow> plain (entry_json e)"
  by (cases e) (auto simp: decode_eq check_kind_def check_file_def invalid_manifest_def quota_exceeded_def
      split: if_splits option.splits json.splits)

lemma canonical_plain:
  assumes "canonicalize_manifest P ov j = Inr m" and "e \<in> set (mf_entries m)"
  shows "plain (entry_json e)"
proof -
  from canonicalize_entries [OF assms(1)] obtain l es raws where "map (decode P l) raws = map Some es" "m = Manifest (sort_key me_path es)"
    by blast
  with assms(2) decoded_sizes [of P l raws es e] show ?thesis by (auto dest: decoded_plain)
qed

lemma entry_json_inj: "sorted_json (entry_json e) = sorted_json (entry_json g) \<Longrightarrow> e = g"
proof -
  assume s: "sorted_json (entry_json e) = sorted_json (entry_json g)"
  have f: "map_option sorted_json (map_of (case entry_json e of JObj ps \<Rightarrow> ps) k) = map_option sorted_json (map_of (case entry_json g of JObj ps \<Rightarrow> ps) k)" for k
    using s same_object_fields [of "case entry_json e of JObj ps \<Rightarrow> ps" "case entry_json g of JObj ps \<Rightarrow> ps" k]
    by (cases e; cases g) simp_all
  from f [of "''path''"] f [of "''kind''"] f [of "''byteLength''"] f [of "''sha256''"] show ?thesis
    by (cases e; cases g) simp_all
qed

lemma optional_entry_text:
  assumes "canonical_json (optional_entry_json x) = Inr t" and "canonical_json (optional_entry_json y) = Inr t"
    and "\<forall>e. x = Some e \<or> y = Some e \<longrightarrow> plain (entry_json e)"
  shows "x = y"
proof -
  have "plain (optional_entry_json x)" "plain (optional_entry_json y)" using assms(3) by (auto simp: optional_entry_json_def split: option.splits)
  with readableD [OF all_readable assms(1,2), of "[]" "[]"] have "sorted_json (optional_entry_json x) = sorted_json (optional_entry_json y)"
    by (simp add: delimited_def)
  moreover have "sorted_json (entry_json e) \<noteq> JNull" "JNull \<noteq> sorted_json (entry_json e)" for e by (cases e; simp)+
  ultimately show ?thesis using entry_json_inj by (auto simp: optional_entry_json_def split: option.splits)
qed

text \<open>The text of one side of a change: nothing where the path is absent, else the bytes of the file.\<close>

definition text_of_side :: "platform \<Rightarrow> reader \<Rightarrow> manifest_entry option \<Rightarrow> string \<Rightarrow> bool" where
  "text_of_side P R x text \<longleftrightarrow> (case x of
     None \<Rightarrow> text = []
   | Some e \<Rightarrow> \<exists>a path n h. trusted P R a \<and> FileEntry path n h \<in> set (mf_entries (ac_manifest a)) \<and> path = me_path e \<and>
       int (length text) = n \<and> pf_sha256 P text = h)"

text \<open>A listed change carries its status; unless it is binary, its hunks turn one text into the other.\<close>

definition change_exact :: "platform \<Rightarrow> reader \<Rightarrow> manifest \<Rightarrow> manifest \<Rightarrow> file_change \<Rightarrow> bool" where
  "change_exact P R a b f \<longleftrightarrow> (let left = entry_at a (fc_path f); right = entry_at b (fc_path f) in
     (fc_status f = Added \<longleftrightarrow> left = None) \<and> (fc_status f = Deleted \<longleftrightarrow> left \<noteq> None \<and> right = None) \<and>
     (\<not> fc_binary f \<longrightarrow> (\<exists>x y q. text_of_side P R left x \<and> text_of_side P R right y \<and> patch q (fc_hunks f) x = y)))"

lemma side_text_of:
  assumes "side_text P E R p sc i x w = (v, Inr (Some t))"
  shows "text_of_side P R x t"
proof (cases x)
  case None
  with assms show ?thesis by (simp add: side_text_def returns text_of_side_def)
next
  case (Some g)
  show ?thesis
  proof (cases g)
    case (FileEntry path n h)
    with Some assms obtain e u where f: "revision_file P E R p sc i path u = (v, Inr (e, t))"
      by (auto simp: side_text_def file_text_def returns text_value_def split: if_splits)
    from file_read [OF this] obtain a q m k where "trusted P R a" "FileEntry q m k \<in> set (mf_entries (ac_manifest a))"
      "validate_portable_path P (rd_limits R) (JStr path) = Inr q" "int (length t) = m" "pf_sha256 P t = k" by auto
    moreover from this(3) validate_JStr have "q = path" by fastforce
    ultimately show ?thesis using Some FileEntry by (auto simp: text_of_side_def)
  qed (use assms Some in \<open>simp add: side_text_def returns\<close>)
qed

lemma change_of_exact:
  assumes "entry_at a path \<noteq> entry_at b path"
    and "\<And>t. old = Some t \<Longrightarrow> text_of_side P R (entry_at a path) t" and "\<And>t. new = Some t \<Longrightarrow> text_of_side P R (entry_at b path) t"
  shows "change_exact P R a b (change_of path (entry_at a path) (entry_at b path) old new) \<and>
    fc_path (change_of path (entry_at a path) (entry_at b path) old new) = path"
proof (cases "old = None \<or> new = None")
  case True
  with assms(1) show ?thesis by (cases old; cases new) (auto simp: change_exact_def change_of_def Let_def)
next
  case False
  then obtain x y where "old = Some x" "new = Some y" by auto
  with assms(2,3) have t: "text_of_side P R (entry_at a path) x" "text_of_side P R (entry_at b path) y" by auto
  then have "\<exists>x y' q. text_of_side P R (entry_at a path) x \<and> text_of_side P R (entry_at b path) y' \<and> patch q (hunks_of (line_diff x' y)) x = y'"
    if "x' = x" for x' using hunks_patch [of x y] that by blast
  with assms(1) \<open>old = Some x\<close> \<open>new = Some y\<close> show ?thesis by (simp add: change_exact_def change_of_def Let_def)
qed

lemma diff_files_exact:
  assumes "\<forall>q e. entry_at (ac_manifest a) q = Some e \<or> entry_at (ac_manifest b) q = Some e \<longrightarrow> plain (entry_json e)"
  shows "diff_files P E R p sc a b qs w = (v, Inr fs) \<Longrightarrow>
    map fc_path fs = filter (\<lambda>q. entry_at (ac_manifest a) q \<noteq> entry_at (ac_manifest b) q) qs \<and>
    (\<forall>f \<in> set fs. change_exact P R (ac_manifest a) (ac_manifest b) f)"
proof (induction qs arbitrary: w fs)
  case Nil
  then show ?case by (auto simp: returns)
next
  case (Cons q qs)
  let ?x = "entry_at (ac_manifest a) q" and ?y = "entry_at (ac_manifest b) q"
  obtain l r where l: "canonical_json (optional_entry_json ?x) = Inr l" and r: "canonical_json (optional_entry_json ?y) = Inr r"
    and c: "(if l = r then diff_files P E R p sc a b qs else
       w_bind (side_text P E R p sc (rv_id (ac_revision a)) ?x) (\<lambda>old.
       w_bind (side_text P E R p sc (rv_id (ac_revision b)) ?y) (\<lambda>new.
       w_bind (diff_files P E R p sc a b qs) (\<lambda>fs. w_return (change_of q ?x ?y old new # fs))))) w = (v, Inr fs)"
    using Cons.prems unfolding diff_files.simps Let_def bind_returns lift_returns by blast
  show ?case
  proof (cases "l = r")
    case True
    with optional_entry_text [OF l] r assms have "?x = ?y" by blast
    with Cons.IH c True show ?thesis by simp
  next
    case False
    with l r have ne: "?x \<noteq> ?y" by auto
    from c False obtain old new u u' v' v'' gs where s: "side_text P E R p sc (rv_id (ac_revision a)) ?x u = (u', Inr old)"
      "side_text P E R p sc (rv_id (ac_revision b)) ?y v' = (v'', Inr new)"
      and d: "diff_files P E R p sc a b qs v'' = (v, Inr gs)" and fs: "fs = change_of q ?x ?y old new # gs"
      by (auto simp: returns)
    have "\<And>t. old = Some t \<Longrightarrow> text_of_side P R ?x t" "\<And>t. new = Some t \<Longrightarrow> text_of_side P R ?y t"
      using s side_text_of by blast+
    from change_of_exact [where old = old and new = new, OF ne this] Cons.IH [OF d] fs ne show ?thesis by simp
  qed
qed


definition x_file :: manifest_entry where
  "x_file = FileEntry ''a'' 2 (replicate 64 (CHR ''0''))"

definition x_reader :: reader where
  "x_reader = \<lparr>rd_limits = no_override, rd_store = (\<lambda>_ _. Inr ()),
     rd_manifest = (\<lambda>_ _ v. Inr (manifest_json (Manifest (if rv_id v = ''v2'' then [x_file] else [])))),
     rd_open = (\<lambda>_ _ _ _. Inr [''x'', [newline]]), rd_aborted = (\<lambda>_. False)\<rparr>"

definition x_second :: revision where
  "x_second = x_revision\<lparr>rv_id := ''v2'', rv_parentRevisionId := Some ''v1'', rv_manifestDigest := replicate 64 (CHR ''1'')\<rparr>"

definition two_manifests :: catalog where
  "two_manifests = two_revisions\<lparr>c_revision := [(''v1'', mk_row (of_ws x_ws) None x_revision), (''v2'', mk_row (of_ws x_ws) None x_second)]\<rparr>"

definition reading :: "nat \<Rightarrow> world" where
  "reading n = \<lparr>wd_catalog = two_manifests, wd_calls = n\<rparr>"

lemma answer1: "canonicalize_manifest x_platform no_override (manifest_json (Manifest [])) = Inr (Manifest [])"
  by code_simp

lemma answer2: "canonicalize_manifest x_platform no_override (manifest_json (Manifest [x_file])) = Inr (Manifest [x_file])"
  by code_simp

lemma answer3: "manifest_digest x_platform no_override (manifest_json (Manifest [])) = Inr (x_digest (Manifest []))"
  by code_simp

lemma answer4: "manifest_digest x_platform no_override (manifest_json (Manifest [x_file])) = Inr (replicate 64 (CHR ''1''))"
  by code_simp

lemma answer5: "validate_portable_path x_platform no_override (JStr ''a'') = Inr ''a''"
  by code_simp

lemma one_piece: "xs \<noteq> [] \<Longrightarrow> length xs \<le> n \<Longrightarrow> pieces n xs = [xs]"
  by (cases xs; subst pieces.simps) (auto simp: pieces.simps [of n "[]"])

lemma answer6: "verify_file_stream x_platform no_override x_file [''x'', [newline]] = ([''x'', [newline]], Inr ())"
proof -
  have "workspace_limits no_override = Inr default_limits"
    by (simp add: workspace_limits_def no_override_def default_limits_def pick_def safe_integer_def Let_def)
  moreover have "canonicalize_manifest x_platform (full_override default_limits) (manifest_json (Manifest [x_file])) = Inr (Manifest [x_file])"
    by code_simp
  moreover have "1 \<le> nat (lm_maxChunkBytes default_limits)" by (simp add: default_limits_def)
  ultimately show ?thesis
    by (simp add: verify_file_stream_def x_file_def one_piece x_platform_def)
qed

lemmas store_answers = answer1 answer2 answer3 answer4 answer5 answer6

definition accepted_of :: "revision \<Rightarrow> manifest \<Rightarrow> accepted" where
  "accepted_of v m = \<lparr>ac_workspace = x_new_workspace\<lparr>ws_currentRevisionId := ''v2''\<rparr>, ac_revision = v, ac_binding = x_binding, ac_manifest = m\<rparr>"

lemmas accept_eval = get_binding_def accepted_revision_def find_accepted_def page_eval x_reader_def outside_def w_lift_def two_manifests_def x_second_def reading_def accepted_of_def

lemma reads_first: "accepted_revision x_platform calm x_reader x_principal x_ws (Some ''v1'') (reading n) = (reading (n + 7), Inr (accepted_of x_revision (Manifest [])))"
  by (simp add: accept_eval store_answers x_eval)

lemma reads_second: "accepted_revision x_platform calm x_reader x_principal x_ws (Some ''v2'') (reading n) = (reading (n + 7), Inr (accepted_of x_second (Manifest [x_file])))"
  by (simp add: accept_eval store_answers x_eval)

lemma calm_read: "\<exists>d. authorize calm x_principal WorkspaceRead (of_ws x_ws) (reading n) = (reading (Suc n), Inr d)"
  by (simp add: accept_eval x_eval)

lemma reader_fields: "rd_limits x_reader = no_override" "rd_open x_reader n b v q = Inr [''x'', [newline]]" "rd_aborted x_reader n = False"
  by (simp_all add: x_reader_def)

lemma calm_outside: "outside calm f (reading n) = (reading (Suc n), f n)"
  by (simp add: outside_def turn_def sample_environment_def reading_def)

lemma bind_steps: "m w = (u, Inr a) \<Longrightarrow> w_bind m f w = f a u"
  by (simp add: w_bind_def)

lemma hand_two: "hand_out calm x_reader x_principal x_ws [a, b] out (reading n) = (reading (n + 4), Inr (out @ a @ b))"
proof -
  have h: "hand_out calm x_reader x_principal x_ws (c # cs) out (reading n) = hand_out calm x_reader x_principal x_ws cs (out @ c) (reading (n + 2))"
    for c cs out n
  proof -
    obtain d where "authorize calm x_principal WorkspaceRead (of_ws x_ws) (reading (Suc n)) = (reading (Suc (Suc n)), Inr d)"
      using calm_read by blast
    then show ?thesis by (simp add: w_bind_def calm_outside reader_fields)
  qed
  show ?thesis by (simp only: h) (simp add: w_return_def eval_nat_numeral)
qed

lemma sample_file: "revision_file x_platform calm x_reader x_principal x_ws ''v2'' ''a'' (reading n) = (reading (n + 12), Inr (x_file, ''x'' @ [newline]))"
proof -
  have e: "find (\<lambda>e. me_path e = ''a'') [x_file] = Some x_file" by (simp add: x_file_def)
  show ?thesis unfolding revision_file_def
    by (simp add: w_bind_def w_lift_def reader_fields answer5 answer6 reads_second accepted_of_def e w_found_def w_return_def x_file_def [symmetric]
        calm_outside hand_two del: hand_out.simps split: manifest_entry.split) (simp add: x_file_def add.commute)
qed


definition sample_diff :: "world \<times> (failure + revision_diff)" where
  "sample_diff = diff x_platform calm x_reader x_principal x_ws ''v1'' ''v2'' (reading 0)"

lemma sample_diff_made: "\<exists>d. sample_diff = (reading 26, Inr d) \<and> map fc_path (df_files d) = [''a''] \<and> df_additions d = 1"
proof -
  have p: "diff_paths (Manifest []) (Manifest [x_file]) = [''a'']" by (simp add: diff_paths_def utf16_sort_def x_file_def)
  have t: "side_text x_platform calm x_reader x_principal x_ws ''v2'' (Some x_file) (reading n) = (reading (n + 12), Inr (Some (''x'' @ [newline])))" for n
  proof -
    have "text_value (''x'' @ [newline]) = Some (''x'' @ [newline])" by code_simp
    with sample_file show ?thesis by (simp add: side_text_def file_text_def x_file_def w_bind_def w_return_def)
  qed
  have c: "canonical_json (optional_entry_json None) = Inr ''null''" "\<exists>r. canonical_json (optional_entry_json (Some x_file)) = Inr (CHR ''{'' # r)"
    by (simp_all add: optional_entry_json_def x_file_def)
  have l: "length (lc_added (line_diff [] (''x'' @ [newline]))) = 1" by code_simp
  have e: "entry_at (Manifest []) ''a'' = None" "entry_at (Manifest [x_file]) ''a'' = Some x_file" by (simp_all add: entry_at_def x_file_def)
  have i: "rv_id x_second = ''v2''" by (simp add: x_second_def)
  from c(2) obtain r where r: "canonical_json (optional_entry_json (Some x_file)) = Inr (CHR ''{'' # r)" ..
  show ?thesis unfolding sample_diff_def diff_def
    by (simp add: w_bind_def reads_first reads_second accepted_of_def p Let_def e w_lift_def c(1) r side_text_def [of _ _ _ _ _ _ None] w_return_def i t)
      (simp add: change_of_def Let_def l [simplified])
qed


end
