(* ===== verification/Cv_Restored.thy ===== *)
theory Cv_Restored
  imports Cv_Restoring Cv_Accepted
begin

text \<open>
  What a restore worker guarantees, in the logic of the lifecycle worker: whatever the other actors do,
  whichever answers are lost and whatever the stores return, a result is the settled operation as the
  catalog keeps it, and every error leaves open how the restore ends.
\<close>

lemma restored_filed:
  assumes "accept_restore i s = Inr (q, t)" and "consistent s"
  shows "published (cs_scope (xt_cas i)) (cs_operationId (xt_cas i)) q t"
proof (cases "filter (\<lambda>e. op_kind e = KRestore \<and> op_state e = OpSucceeded)
    (case tbl_load (c_operation s) (cs_operationId (xt_cas i)) (Some (of_ws (cs_scope (xt_cas i)))) of None \<Rightarrow> [] | Some e \<Rightarrow> [e])")
  case (Cons e es)
  with assms(1) have "accepted_restore i e s = Inr (q, t)" by (simp add: accept_restore_def Let_def)
  then have "q = e" "t = s" by (auto simp: accepted_restore_def txn_simps Let_def)
  moreover have "tbl_load (c_operation s) (cs_operationId (xt_cas i)) (Some (of_ws (cs_scope (xt_cas i)))) = Some e"
    "op_kind e = KRestore" "op_state e = OpSucceeded" using Cons by (auto split: option.splits if_splits)
  ultimately show ?thesis by (simp add: published_def filed_def is_settled_def)
next
  case Nil
  with assms(1) obtain o' where o': "processing s (xt_cas i) = Inr o'" and k: "op_kind o' = KRestore" and p: "publish_restore i o' s = Inr (q, t)"
    by (auto simp: accept_restore_def Let_def sbind_eq_Inr fail_unless_eq_Inr)
  from p obtain v b u where f: "finish_restore i o' v b u = Inr (q, t)"
    by (auto simp: publish_restore_def Let_def sbind_eq_Inr split: if_splits)
  have m: "mine (cs_scope (xt_cas i)) (cs_operationId (xt_cas i)) (restored_operation v b (cs_now (xt_cas i)) o')"
    using processing_own [OF o' assms(2)] by (simp add: mine_def restored_operation_def complete_operation_def)
  from f obtain w where w: "save_outcome (restored_operation v b (cs_now (xt_cas i)) o') (VResult (ResRestore (rv_id v) b)) u = Inr w"
    "operation_events (xt_events i) (restored_operation v b (cs_now (xt_cas i)) o') w = Inr t" "q = restored_operation v b (cs_now (xt_cas i)) o'"
    by (auto simp: finish_restore_def Let_def sbind_eq_Inr)
  from outcome_filed [OF w(1,2) _ m] w(3) k show ?thesis
    by (simp add: published_def restored_operation_def) (simp add: complete_operation_def)
qed

lemma failed_restore_filed:
  assumes "fail_restore i s = Inr (q, t)" and "consistent s"
  shows "filed (cs_scope (ff_cas i)) (cs_operationId (ff_cas i)) q t"
  using assms
  by (auto simp: fail_restore_def operation_events_def txn_simps Let_def filed_def matches_of_ws dest!: owned)

lemma ens_lift: "ensures P sc oid any (w_lift r) (\<lambda>_ _. True) whatever"
  unfolding w_lift_def by (rule ens_pure)

lemma bind_lift: "(\<And>a. ensures P sc oid any (f a) Q whatever) \<Longrightarrow> ensures P sc oid any (w_bind (w_lift r) f) Q whatever"
  by (rule ens_then [where q = "\<lambda>_. True", OF ens_lift]) simp_all

lemma bind_any: "ensures P sc oid any m (\<lambda>_ _. True) whatever \<Longrightarrow> (\<And>a. ensures P sc oid any (f a) Q whatever) \<Longrightarrow>
    ensures P sc oid any (w_bind m f) Q whatever"
  by (rule ens_then [where q = "\<lambda>_. True"]) simp_all

lemma ens_out: "fair P E \<Longrightarrow> ensures P sc oid any (outside E f) (\<lambda>_ _. True) whatever"
  by (rule ens_outside) simp_all

lemma ens_restored_manifest: "fair P E \<Longrightarrow> ensures P sc oid any (restored_manifest K E S it) (\<lambda>_ _. True) whatever"
  unfolding restored_manifest_def Let_def
  by (auto split: restore_source.split intro!: binds bind_lift ens_return ens_out)

lemma ens_prepare_restore: "fair P E \<Longrightarrow> ensures P sc oid any (prepare_restore K E S o' it) (\<lambda>_ _. True) whatever"
  unfolding prepare_restore_def Let_def
  by (intro binds bind_lift bind_any [OF ens_restored_manifest] bind_any ens_return TrueI)
    (auto split: option.split intro!: ens_return ens_out)

lemma ens_publish_restoration:
  assumes "fair P E" and "mine sc oid o'"
  shows "ensures P sc oid any (publish_restoration K E S fence o') (filed sc oid) whatever"
proof -
  have accept: "ensures P sc oid any (w_bind (control E (accept_restore (AcceptRestore (ProcessingCAS (op_scope r) (op_id r) (op_version r) fence u) a c ev)))
      (\<lambda>x. w_bind (hook E) (\<lambda>_. w_return x))) (published sc oid) whatever" if r: "mine sc oid r" for r u a c ev
  proof (rule ens_published [OF assms(1)])
    fix s x t
    assume q: "accept_restore (AcceptRestore (ProcessingCAS (op_scope r) (op_id r) (op_version r) fence u) a c ev) s = Inr (x, t)"
    show "\<exists>c. step P c s t" using st_accept_restore [OF q] by blast
    show "published sc oid x t" if "consistent s" using restored_filed [OF q that] r by (simp add: mine_def)
  qed
  have publish: "ensures P sc oid any (publish_restoration K E S fence o') (published sc oid) whatever"
    unfolding publish_restoration_def Let_def split_beta
  proof (intro bind_lift binds assms(1), rule ens_then [OF ens_renew_ticks [OF assms]],
      rule bind_any [OF ens_prepare_restore [OF assms(1)]], rule bind_any, goal_cases)
    case (1 it a x c)
    show ?case by (auto split: option.split intro: ens_return ens_throw)
  next
    case (2 it a x c d)
    show ?case
    proof (intro binds assms(1), rule ens_then [where q = "mine sc oid"], rule ens_step [OF assms(1)], goal_cases)
      case (1 t s r u)
      then show ?case using st_record_prepared_revision by blast
    next
      case (2 t s r u)
      then show ?case using prepared_mine 2 \<open>mine sc oid (fst x)\<close> by (fastforce simp: mine_def)
    next
      case (3 t r)
      then show ?case by (intro binds assms(1) accept)
    qed
  qed
  then show ?thesis unfolding ensures_def published_def by (fastforce split: sum.splits)
qed

text \<open>What a restore worker may report: none of it says that the restore failed.\<close>

definition undecided :: "failure \<Rightarrow> bool" where
  "undecided e \<longleftrightarrow> e = Crash \<or> e \<in> Fail ` {OPERATION_NOT_FOUND, PUBLICATION_OUTCOME_UNKNOWN, STALE_FENCE, VERSION_CONFLICT}"

lemma undecided_facts: "undecided Crash" "undecided (Fail OPERATION_NOT_FOUND)" "undecided (Fail PUBLICATION_OUTCOME_UNKNOWN)"
  "undecided (Fail STALE_FENCE)" "undecided (Fail VERSION_CONFLICT)"
  by (simp_all add: undecided_def)

lemma ens_open: "ensures P sc oid A unknown Q undecided"
  unfolding unknown_def by (rule ens_throw) (rule undecided_facts)

lemma ens_claim_ok: "fair P E \<Longrightarrow> ensures P sc oid any (restore_claim_ok E fence o') (\<lambda>_ _. True) undecided"
  unfolding restore_claim_ok_def by (intro binds undecided_facts ens_check TrueI)

lemma ens_record_restore_failure:
  assumes "fair P E" and "mine sc oid o'"
  shows "ensures P sc oid any (record_restore_failure E o' fence code) (filed sc oid) whatever"
  unfolding record_restore_failure_def
proof (intro binds assms(1) ens_step)
  fix t u s q v
  assume r: "fail_restore (FailInput (ProcessingCAS (op_scope o') (op_id o') (op_version o') fence t) code (en_message E code)
      (events_of o' ''workspace.restore-failed'' u)) s = Inr (q, v)"
  show "\<exists>c. step P c s v" using st_fail_restore [OF r] by blast
  show "filed sc oid q v" if "consistent s" using failed_restore_filed [OF r that] assms(2) by (simp add: mine_def)
qed

text \<open>A wait that reads the operation: it is there, under its id, and is filed if it is settled.\<close>

definition found_there :: "workspace_scope \<Rightarrow> id \<Rightarrow> operation option \<Rightarrow> catalog \<Rightarrow> bool" where
  "found_there sc oid x s \<longleftrightarrow> (\<exists>o'. x = Some o' \<and> mine sc oid o' \<and> (is_settled o' \<longrightarrow> filed sc oid o' s))"

lemma ens_get_there:
  assumes "fair P E" and "R Crash"
  shows "ensures P sc oid any (ask E (\<lambda>s. Inr (get_operation s sc oid))) (found_there sc oid) R"
proof (rule ens_ask, rule assms(1), rule stable_any, rule assms(2))
  fix s x
  assume "sound s" "commanded sc oid s" "Inr (get_operation s sc oid) = Inr x"
  then show "found_there sc oid x s"
    using own_row(5) [of s oid sc] by (auto simp: get_operation_def commanded_def filed_def mine_def sound_def found_there_def)
qed simp_all

lemma stop_binds [simp]: "w_bind (w_throw e) f = w_throw e" "w_bind (w_return a) f = f a" "w_found None e = w_throw e"
  by (auto simp: w_bind_def w_throw_def w_return_def w_found_def fun_eq_iff)

lemma ens_settled:
  assumes "\<And>o'. x = Some o' \<Longrightarrow> mine sc oid o' \<Longrightarrow> is_settled o' \<Longrightarrow> m = w_return o'"
    and "\<And>o'. x = Some o' \<Longrightarrow> mine sc oid o' \<Longrightarrow> \<not> is_settled o' \<Longrightarrow> ensures P sc oid any m (filed sc oid) R"
  shows "ensures P sc oid (found_there sc oid x) m (filed sc oid) R"
proof (rule ens_assume)
  show "found_there sc oid x s \<Longrightarrow> \<exists>o'. x = Some o' \<and> mine sc oid o'" for s by (auto simp: found_there_def)
  assume "\<exists>o'. x = Some o' \<and> mine sc oid o'"
  then obtain o' where x: "x = Some o'" "mine sc oid o'" by blast
  show ?thesis
  proof (cases "is_settled o'")
    case True
    with assms(1) [OF x] x show ?thesis by (auto simp: found_there_def intro: ens_return)
  next
    case False
    with assms(2) [OF x] show ?thesis by (auto intro: ens_weaken)
  qed
qed

lemma ens_reread_restore:
  assumes "fair P E"
  shows "ensures P sc oid any (reread_restore E sc oid) (filed sc oid) undecided"
  unfolding reread_restore_def
proof (rule ens_bind [where B = "\<lambda>x s. x = None \<or> found_there sc oid x s"])
  show "ensures P sc oid any (w_catch (ask E (\<lambda>s. Inr (get_operation s sc oid))) (\<lambda>_. w_return None)) (\<lambda>x s. x = None \<or> found_there sc oid x s) undecided"
    by (rule ens_catch [where S = whatever]) (use ens_get_there [OF assms, of whatever sc oid] in \<open>auto simp: ensures_def w_return_def split: sum.splits\<close>)
  fix x
  show "ensures P sc oid (\<lambda>s. x = None \<or> found_there sc oid x s) (case x of
       Some o' \<Rightarrow> if op_kind o' = KRestore \<and> is_settled o' then w_return o' else unknown | None \<Rightarrow> unknown) (filed sc oid) undecided"
    by (cases x) (auto simp: found_there_def intro: ens_open ens_return)
qed

lemma ens_reconcile_restore:
  assumes "fair P E"
  shows "ensures P sc oid any (reconcile_restore E sc oid fence error) (filed sc oid) undecided"
  unfolding reconcile_restore_def
proof (rule ens_bind [where B = "found_there sc oid"])
  show "ensures P sc oid any (w_catch (ask E (\<lambda>s. Inr (get_operation s sc oid))) (\<lambda>_. unknown)) (found_there sc oid) undecided"
    by (rule ens_catch [OF ens_get_there [OF assms, of whatever] ens_open]) simp
  fix x
  show "ensures P sc oid (found_there sc oid x) (w_bind (w_found x (Fail PUBLICATION_OUTCOME_UNKNOWN)) (\<lambda>o'.
     if op_kind o' \<noteq> KRestore then unknown else if is_settled o' then w_return o'
     else w_bind (restore_claim_ok E fence o') (\<lambda>_. case error of Crash \<Rightarrow> unknown
       | Fail code \<Rightarrow> if code \<notin> set restore_failures then (if code = STALE_FENCE \<or> code = VERSION_CONFLICT then w_throw error else unknown)
           else w_catch (record_restore_failure E o' fence code) (\<lambda>_. reread_restore E sc oid)))) (filed sc oid) undecided"
  proof (cases "\<exists>o'. x = Some o' \<and> op_kind o' = KRestore")
    case False
    then show ?thesis by (cases x) (auto intro: ens_open ens_throw undecided_facts)
  next
    case True
    then obtain o' where x: "x = Some o'" "op_kind o' = KRestore" by blast
    have "ensures P sc oid any (case error of Crash \<Rightarrow> unknown
       | Fail code \<Rightarrow> if code \<notin> set restore_failures then (if code = STALE_FENCE \<or> code = VERSION_CONFLICT then w_throw error else unknown)
           else w_catch (record_restore_failure E o' fence code) (\<lambda>_. reread_restore E sc oid)) (filed sc oid) undecided" if "mine sc oid o'"
      using ens_catch [OF ens_record_restore_failure [OF assms that] ens_reread_restore [OF assms]]
      by (auto split: failure.split intro: ens_open ens_throw undecided_facts)
    with x show ?thesis
      by (intro ens_settled) (auto intro!: ens_then [where q = "\<lambda>_. True", OF ens_claim_ok [OF assms]])
  qed
qed

lemma ens_process_restore:
  assumes "fair P E"
  shows "ensures P sc oid any (process_restore K E S sc oid fence) (filed sc oid) undecided"
  unfolding process_restore_def
proof (rule ens_bind [where B = "found_there sc oid"])
  show "ensures P sc oid any (ask E (\<lambda>s. Inr (get_operation s sc oid))) (found_there sc oid) undecided"
    by (rule ens_get_there, rule assms, rule undecided_facts)
  fix x
  show "ensures P sc oid (found_there sc oid x) (w_bind (w_found x (Fail OPERATION_NOT_FOUND)) (\<lambda>o'.
     w_bind (w_check (op_kind o' = KRestore) OPERATION_NOT_FOUND) (\<lambda>_. if is_settled o' then w_return o'
     else w_bind (restore_claim_ok E fence o') (\<lambda>_. w_catch (publish_restoration K E S fence o') (reconcile_restore E sc oid fence))))) (filed sc oid) undecided"
  proof (cases "\<exists>o'. x = Some o' \<and> op_kind o' = KRestore")
    case False
    then show ?thesis
      by (cases x) (auto simp: w_check_def intro: ens_throw undecided_facts)
  next
    case True
    then obtain o' where x: "x = Some o'" "op_kind o' = KRestore" by blast
    have "ensures P sc oid any (w_catch (publish_restoration K E S fence o') (reconcile_restore E sc oid fence)) (filed sc oid) undecided" if "mine sc oid o'"
      by (rule ens_catch [OF ens_publish_restoration [OF assms that] ens_reconcile_restore [OF assms]])
    with x show ?thesis
      by (intro ens_settled) (auto simp: w_check_def intro!: ens_then [where q = "\<lambda>_. True", OF ens_claim_ok [OF assms]])
  qed
qed

text \<open>C5: The answer of a restore worker is the durable truth: it only makes steps of the store, a result is the
  settled operation exactly as the catalog keeps it, and an error leaves open how the restore ends, whatever
  others do in between, whichever answers are lost and whatever the stores return.\<close>

theorem restore_reports_durable:
  assumes "\<forall>n s. run_of P s (en_others E n s)" and "\<forall>n. en_clock E n \<noteq> None"
    and "sound (wd_catalog w)" and "commanded sc oid (wd_catalog w)" and "process_restore K E S sc oid fence w = (v, r)"
  shows "run_of P (wd_catalog w) (wd_catalog v) \<and>
    (case r of
       Inr o' \<Rightarrow> tbl_load (c_operation (wd_catalog v)) oid (Some (of_ws sc)) = Some o' \<and> (op_state o' = OpSucceeded \<or> op_state o' = OpFailed)
     | Inl e \<Rightarrow> e = Crash \<or> e \<in> Fail ` {OPERATION_NOT_FOUND, PUBLICATION_OUTCOME_UNKNOWN, STALE_FENCE, VERSION_CONFLICT})"
proof -
  have "fair P E" using assms(1,2) by (simp add: fair_def)
  from ens_run [OF ens_process_restore [OF this] assms(5,3,4)] show ?thesis
    by (auto simp: filed_def is_settled_def undecided_def split: sum.splits)
qed

text \<open>A restore whose principal may not restore: the failure is recorded, its answer is lost, and the worker
  finds it by reading again.\<close>

definition x_restore :: operation where
  "x_restore = (new_operation (x_command KRestore (Some ''w1'') None ''9'') x_principal x_ws None None)
     \<lparr>op_intent := RestoreOpIntent (RestoreIntent 1 KRestore (restore_request x_ws (RestoreBody ''v1'' ''v1'' 1 ''undo''))
        (FromRevision (RevisionSource x_revision x_binding x_principal)) (x_digest (Manifest []))
        (CandidateIdentity ''d9'' ''v9'' ''op-9'' (binding_of x_new_workspace) (Some ''v1'') ''2026-01-04'') WorkspaceRestore),
      op_claim := Some x_claim\<rparr>"

definition x_restoring :: catalog where
  "x_restoring = x_open\<lparr>c_operation := [(''op-9'', mk_row (of_ws x_ws) None x_restore)],
     c_commands := [((cm_scope (op_command x_restore), ''key-9''), CommandRow ''digest-9'' ''op-9'' VNull)]\<rparr>"

lemma sound_x_restoring: "sound x_restoring"
  by (simp add: x_restoring_def x_restore_def sound_def consistent_def catalog_wf_def migrations_owned_def access_ok_def rows_ok_list record_ok_defs
    authority_ok_def tbl_wf_def row_scope_def live_def intent_ok_def restore_request_def x_eval)

definition x_restorer :: restorer where
  "x_restorer = \<lparr>rs_reader = x_reader, rs_bundle = (\<lambda>_ _. Inl Crash), rs_inspect = (\<lambda>_ _. Inr None)\<rparr>"

definition lost_restore :: "world \<times> (failure + operation)" where
  "lost_restore = process_restore x_platform (sample_environment (\<lambda>n. if n = 7 then AnswerLost else Delivered)) x_restorer x_ws ''op-9'' 1
     \<lparr>wd_catalog = x_restoring, wd_calls = 0\<rparr>"

lemma lost_restore_found: "\<exists>q. snd lost_restore = Inr q \<and> op_state q = OpFailed"
  by (simp add: lost_restore_def process_restore_def publish_restoration_def restore_claim_ok_def reconcile_restore_def record_restore_failure_def
      reread_restore_def restore_failures_def restore_intent_of_def w_lift_def work_eval x_restoring_def x_restore_def fail_restore_def destination_scope_def x_eval)

theorem restore_reports_durable_witness:
  "\<exists>q. snd lost_restore = Inr q \<and> tbl_load (c_operation (wd_catalog (fst lost_restore))) ''op-9'' (Some (of_ws x_ws)) = Some q"
proof -
  let ?E = "sample_environment (\<lambda>n. if n = 7 then AnswerLost else Delivered)" and ?w = "\<lparr>wd_catalog = x_restoring, wd_calls = 0\<rparr>"
  obtain v q where o': "process_restore x_platform ?E x_restorer x_ws ''op-9'' 1 ?w = (v, Inr q)"
    using lost_restore_found unfolding lost_restore_def by (metis prod.collapse)
  have "\<forall>n s. run_of x_platform s (en_others ?E n s)" "\<forall>n. en_clock ?E n \<noteq> None" by (simp_all add: sample_environment_def)
  moreover have "sound (wd_catalog ?w)" using sound_x_restoring by simp
  moreover have "commanded x_ws ''op-9'' (wd_catalog ?w)"
    by (simp add: commanded_def executed_def x_restoring_def x_restore_def x_eval)
  ultimately show ?thesis
    using restore_reports_durable [OF _ _ _ _ o'] o' by (simp add: lost_restore_def)
qed

end
