(* ===== verification/Cv_Maintained.thy ===== *)
theory Cv_Maintained
  imports Cv_Maintenance Cv_Restored
begin

text \<open>
  What a maintenance tick guarantees, whatever the other actors do, whichever answers are lost, whether the
  clock works and whatever the transport and the stores return: it makes only steps of the store, does no
  more than its batch, and deletes only candidates that no revision uses or ever will.
\<close>

section \<open>Programs that make only steps of the store\<close>

definition orderly :: "platform \<Rightarrow> environment \<Rightarrow> bool" where
  "orderly P E \<longleftrightarrow> (\<forall>n s. run_of P s (en_others E n s))"

text \<open>The program moves the catalog by steps of the store only, and a result satisfies \<open>Q\<close>.\<close>

definition moves :: "platform \<Rightarrow> 'a work \<Rightarrow> ('a \<Rightarrow> bool) \<Rightarrow> bool" where
  "moves P m Q \<longleftrightarrow> (\<forall>w v r. m w = (v, r) \<longrightarrow> run_of P (wd_catalog w) (wd_catalog v) \<and> (\<forall>a. r = Inr a \<longrightarrow> Q a))"

abbreviation anything :: "'a \<Rightarrow> bool" where "anything \<equiv> \<lambda>_. True"

lemma mv_return: "Q a \<Longrightarrow> moves P (w_return a) Q"
  by (simp add: moves_def w_return_def)

lemma mv_throw: "moves P (w_throw e) Q"
  by (simp add: moves_def w_throw_def)

lemma mv_pure: "(\<And>a. r = Inr a \<Longrightarrow> Q a) \<Longrightarrow> moves P (\<lambda>w. (w, r)) Q"
  by (simp add: moves_def)

lemma mv_attempt:
  assumes "moves P m B" and "\<And>a. B a \<Longrightarrow> moves P (f a) Q" and "\<And>e. moves P (h e) Q"
  shows "moves P (attempt m f h) Q"
  unfolding moves_def
proof (intro allI impI)
  fix w v r
  assume w: "attempt m f h w = (v, r)"
  obtain u x where u: "m w = (u, x)" by fastforce
  with assms(1) have m: "run_of P (wd_catalog w) (wd_catalog u)" "\<And>a. x = Inr a \<Longrightarrow> B a" unfolding moves_def by blast+
  have "run_of P (wd_catalog u) (wd_catalog v) \<and> (\<forall>a. r = Inr a \<longrightarrow> Q a)"
  proof (cases x)
    case (Inl e)
    with u w have "h e u = (v, r)" by (simp add: attempt_def)
    with assms(3) show ?thesis unfolding moves_def by blast
  next
    case (Inr a)
    with u w have "f a u = (v, r)" by (simp add: attempt_def)
    with assms(2) [OF m(2) [OF Inr]] show ?thesis unfolding moves_def by blast
  qed
  with m(1) show "run_of P (wd_catalog w) (wd_catalog v) \<and> (\<forall>a. r = Inr a \<longrightarrow> Q a)" by (meson rtranclp_trans)
qed

lemma bind_attempt: "w_bind m f = attempt m f w_throw"
  by (rule ext) (simp add: w_bind_def attempt_def w_throw_def)

lemma catch_attempt: "w_catch m h = attempt m w_return h"
  by (rule ext) (simp add: w_catch_def attempt_def w_return_def)

lemma mv_bind: "moves P m B \<Longrightarrow> (\<And>a. B a \<Longrightarrow> moves P (f a) Q) \<Longrightarrow> moves P (w_bind m f) Q"
  unfolding bind_attempt by (erule mv_attempt) (auto intro: mv_throw)

lemma mv_catch: "moves P m Q \<Longrightarrow> (\<And>e. moves P (h e) Q) \<Longrightarrow> moves P (w_catch m h) Q"
  unfolding catch_attempt by (erule mv_attempt) (auto intro: mv_return)

lemma mv_control:
  assumes "orderly P E" and "\<And>s a t. f s = Inr (a, t) \<Longrightarrow> run_of P s t \<and> Q a"
  shows "moves P (control E f) Q"
  unfolding moves_def
proof (intro allI impI)
  fix w :: world and v r
  let ?s = "en_others E (wd_calls w) (wd_catalog w)"
  assume w: "control E f w = (v, r)"
  have run: "run_of P (wd_catalog w) ?s" using assms(1) by (simp add: orderly_def)
  show "run_of P (wd_catalog w) (wd_catalog v) \<and> (\<forall>a. r = Inr a \<longrightarrow> Q a)"
  proof (cases "f ?s")
    case (Inl e)
    with w run show ?thesis by (auto simp: control_def turn_def Let_def split: reply.splits)
  next
    case (Inr x)
    then obtain a t where x: "f ?s = Inr (a, t)" by (cases x) auto
    with assms(2) [OF x] run have "run_of P (wd_catalog w) t" "Q a" by auto
    with w x run show ?thesis by (auto simp: control_def turn_def Let_def split: reply.splits)
  qed
qed

lemma mv_step: "orderly P E \<Longrightarrow> (\<And>s a t. f s = Inr (a, t) \<Longrightarrow> \<exists>c. step P c s t) \<Longrightarrow> moves P (control E f) anything"
  by (rule mv_control) (use step_run in blast)+

lemma mv_ask: "orderly P E \<Longrightarrow> (\<And>s a. q s = Inr a \<Longrightarrow> Q a) \<Longrightarrow> moves P (ask E q) Q"
  unfolding ask_def by (rule mv_control) (auto simp: sbind_eq_Inr)

lemma mv_outside: "orderly P E \<Longrightarrow> moves P (outside E f) anything"
  by (auto simp: moves_def outside_def turn_def orderly_def)

lemma mv_now: "moves P (runtime_now E) anything"
  by (auto simp: moves_def runtime_now_def)

lemma mv_maintenance_now: "moves P (maintenance_now E M) anything"
  unfolding maintenance_now_def by (auto simp: mv_now intro: mv_now split: option.split) (auto simp: moves_def)

lemma mv_check: "moves P (w_check b c) anything"
  by (simp add: w_check_def mv_return mv_throw)

lemma mv_found: "moves P (w_found x e) anything"
  by (cases x) (simp_all add: w_found_def mv_return mv_throw)

lemma mv_hook: "orderly P E \<Longrightarrow> moves P (hook E) anything"
  unfolding hook_def by (rule mv_ask) simp_all

lemma mv_authorize: "orderly P E \<Longrightarrow> moves P (authorize E p act sc) anything"
  unfolding authorize_def by (rule mv_ask) simp_all

lemma mv_lift: "moves P (w_lift r) anything"
  by (simp add: w_lift_def mv_pure)

lemma mv_unknown: "moves P unknown Q"
  unfolding unknown_def by (rule mv_throw)

lemma mv_then: "moves P m anything \<Longrightarrow> (\<And>a. moves P (f a) Q) \<Longrightarrow> moves P (w_bind m f) Q"
  by (rule mv_bind)

lemma mv_weaken: "moves P m B \<Longrightarrow> (\<And>a. B a \<Longrightarrow> Q a) \<Longrightarrow> moves P m Q"
  unfolding moves_def by blast

lemmas mv_binds = mv_then [OF mv_now] mv_then [OF mv_maintenance_now] mv_then [OF mv_check] mv_then [OF mv_found] mv_then [OF mv_lift]
  mv_then [OF mv_pure] mv_then [OF mv_hook] mv_then [OF mv_authorize] mv_then [OF mv_outside] mv_then [OF mv_ask]

text \<open>A loop that keeps count of its rounds.\<close>

lemma mv_for_each:
  assumes "\<And>k s x. I k s \<Longrightarrow> moves P (f s x) (I (Suc k))" and "I k s"
  shows "moves P (for_each f xs s) (I (k + length xs))"
  using assms(2)
proof (induction xs arbitrary: k s)
  case Nil
  then show ?case by (simp add: mv_return)
next
  case (Cons x xs)
  show ?case unfolding for_each.simps
    by (rule mv_bind [OF assms(1) [OF Cons.prems]]) (use Cons.IH [of "Suc k"] in simp)
qed

lemmas mv_loop = mv_for_each [where I = "\<lambda>_ _. True", simplified]

section \<open>The processors\<close>

lemma mv_renew_once: "orderly P E \<Longrightarrow> moves P (renew_once E fence o') anything"
  unfolding renew_once_def by (intro mv_binds mv_step) (use st_renew_processing_claim in blast)+

lemma mv_renew_ticks: "orderly P E \<Longrightarrow> moves P (renew_ticks E k fence o') anything"
  by (induction k arbitrary: o') (auto intro!: mv_return mv_catch mv_then [OF mv_renew_once])

lemma mv_source: "orderly P E \<Longrightarrow> moves P (source_of K E o' ident) anything"
  unfolding source_of_def by (auto split: intent.split simp: Let_def intro!: mv_return mv_binds)

lemma mv_binding: "orderly P E \<Longrightarrow> moves P (binding_for E o' ident) anything"
  unfolding binding_for_def by (auto split: intent.split intro!: mv_return mv_ask)

lemma mv_record_prepared: "orderly P E \<Longrightarrow> moves P (control E (record_prepared_revision i)) anything"
  by (rule mv_step) (use st_record_prepared_revision in blast)+

lemma mv_prepare_candidate: "orderly P E \<Longrightarrow> moves P (prepare_candidate E o' ident mf) anything"
  unfolding prepare_candidate_def by (intro mv_binds mv_return) simp_all

lemma mv_prepare_with_renewal:
  "orderly P E \<Longrightarrow> moves P job anything \<Longrightarrow> moves P (prepare_with_renewal E o' job) anything"
  unfolding prepare_with_renewal_def split_beta
  by (intro mv_binds mv_then [OF mv_renew_ticks]) (auto intro!: mv_then [of P job] mv_return mv_throw split: option.split)

lemma mv_prepare_operation: "orderly P E \<Longrightarrow> moves P (prepare_operation K E fence o') anything"
  unfolding prepare_operation_def split_beta
  by (intro mv_binds mv_then [OF mv_binding] mv_then [OF mv_source] mv_then [OF mv_prepare_with_renewal]
      mv_then [OF mv_record_prepared] mv_prepare_candidate mv_return) simp_all

lemma mv_accept_creation: "orderly P E \<Longrightarrow> moves P (accept_creation E fence o') anything"
  unfolding accept_creation_def
  by (intro mv_binds mv_then [OF mv_step] mv_return) (use st_accept_workspace_creation in blast)+

lemma mv_accept_finalization: "orderly P E \<Longrightarrow> moves P (accept_finalization E fence o') anything"
  unfolding accept_finalization_def Let_def
  by (auto intro!: mv_binds mv_then [OF mv_step] mv_then [of P "if b then m else n" for b m n] mv_step mv_return)
    (use st_complete_read_only st_accept_revision in blast)+

lemma mv_publish_operation: "orderly P E \<Longrightarrow> moves P (publish_operation K E fence o') anything"
  unfolding publish_operation_def Let_def
  by (auto intro!: mv_binds mv_then [OF mv_prepare_operation] mv_return mv_throw mv_accept_creation mv_accept_finalization
      mv_then [of P "if b then m else n" for b m n] mv_prepare_operation)

lemma mv_record_failure: "orderly P E \<Longrightarrow> moves P (record_failure E o' fence code t) anything"
  unfolding record_failure_def Let_def
  by (auto intro!: mv_binds mv_step) (use st_fail_finalization st_fail_workspace_creation in blast)+

lemma mv_reread: "orderly P E \<Longrightarrow> moves P (reread E sc oid fence) anything"
  unfolding reread_def by (auto intro!: mv_catch mv_binds mv_return mv_throw mv_unknown split: option.split)

lemma mv_get_operation: "orderly P E \<Longrightarrow> moves P (w_catch (ask E q) (\<lambda>_. unknown)) anything"
  by (auto intro!: mv_catch mv_ask mv_unknown)

lemma mv_reconcile: "orderly P E \<Longrightarrow> moves P (reconcile E sc oid fence error) anything"
  unfolding reconcile_def
  by (auto intro!: mv_then [OF mv_get_operation] mv_binds mv_return mv_throw mv_unknown mv_catch mv_record_failure mv_reread split: failure.split)

lemma mv_assert_claim: "moves P (assert_claim E fence o') anything"
  unfolding assert_claim_def by (auto intro!: mv_binds mv_check)

lemma mv_process_operation: "orderly P E \<Longrightarrow> moves P (process_operation K E sc oid fence) anything"
  unfolding process_operation_def
  by (auto intro!: mv_then [OF mv_get_operation] mv_binds mv_return mv_then [OF mv_assert_claim] mv_catch mv_publish_operation mv_reconcile)

lemma mv_restored_manifest: "orderly P E \<Longrightarrow> moves P (restored_manifest K E S it) anything"
  unfolding restored_manifest_def Let_def by (auto intro!: mv_binds mv_outside mv_return split: restore_source.split)

lemma mv_prepare_restore: "orderly P E \<Longrightarrow> moves P (prepare_restore K E S o' it) anything"
  unfolding prepare_restore_def Let_def
  by (auto intro!: mv_binds mv_then [OF mv_restored_manifest] mv_return mv_outside
      mv_then [of P "case k of None \<Rightarrow> m | Some c \<Rightarrow> w_return c" for k m] split: option.split)

lemma mv_publish_restoration: "orderly P E \<Longrightarrow> moves P (publish_restoration K E S fence o') anything"
  unfolding publish_restoration_def Let_def split_beta
  by (auto intro!: mv_binds mv_then [OF mv_renew_ticks] mv_then [OF mv_prepare_restore] mv_then [OF mv_record_prepared] mv_then [OF mv_step]
      mv_then [of P "case k of None \<Rightarrow> w_return () | Some e \<Rightarrow> w_throw e" for k] mv_return mv_throw split: option.split)
    (use st_accept_restore in blast)+

lemma mv_process_restore: "orderly P E \<Longrightarrow> moves P (process_restore K E S sc oid fence) anything"
  unfolding process_restore_def reconcile_restore_def record_restore_failure_def reread_restore_def restore_claim_ok_def
  by (auto intro!: mv_binds mv_return mv_catch mv_publish_restoration mv_then [OF mv_get_operation] mv_unknown mv_throw mv_step mv_check mv_ask
      mv_then [of P "w_catch m h" for m h] mv_then [of P "w_bind m f" for m f] split: failure.split option.split)
    (use st_fail_restore in blast)+

lemma mv_expire_command: "orderly P E \<Longrightarrow> moves P (expire_command E x) anything"
  unfolding expire_command_def Let_def by (intro mv_binds mv_step) (use st_expire_active_run in blast)+

section \<open>A tick\<close>

text \<open>The report counts at most so many recovered, expired, delivered, cleaned and collected.\<close>

definition counts :: "nat \<Rightarrow> nat \<Rightarrow> nat \<Rightarrow> nat \<Rightarrow> nat \<Rightarrow> report \<Rightarrow> bool" where
  "counts a b c d e r \<longleftrightarrow> rp_recovered r \<le> a \<and> rp_expired r \<le> b \<and> rp_delivered r \<le> c \<and> rp_cleaned r \<le> d \<and> rp_collected r \<le> e"

lemma counts_note [simp]: "counts a b c d e (note_error M job i x r) \<longleftrightarrow> counts a b c d e r"
  by (simp add: note_error_def counts_def)

lemma counts_more: "counts a b c d e r \<Longrightarrow> a \<le> a' \<Longrightarrow> b \<le> b' \<Longrightarrow> c \<le> c' \<Longrightarrow> d \<le> d' \<Longrightarrow> e \<le> e' \<Longrightarrow> counts a' b' c' d' e' r"
  by (auto simp: counts_def)

text \<open>The registered processors make only steps of the store, too.\<close>

definition orderly_processors :: "platform \<Rightarrow> maintainer \<Rightarrow> bool" where
  "orderly_processors P M \<longleftrightarrow> (\<forall>k f o'. (k, f) \<in> set (mt_recoveryProcessors M) \<longrightarrow> moves P (f o') anything)"

lemma mv_processor:
  assumes "orderly P E" and "orderly_processors P M" and "processor_for K E M k = Some f"
  shows "moves P (f o') anything"
proof (cases "map_of (mt_recoveryProcessors M) k")
  case None
  with assms(3) have "f = lifecycle_processor K E" by (simp add: processor_for_def split: if_splits)
  then show ?thesis unfolding lifecycle_processor_def by (auto intro!: mv_binds mv_process_operation assms(1))
next
  case (Some g)
  with assms(3) have "f = g" by (simp add: processor_for_def)
  with map_of_SomeD [OF Some] assms(2) show ?thesis unfolding orderly_processors_def by blast
qed

lemma mv_recover:
  assumes "orderly P E" and "orderly_processors P M" and "counts k b c d e r"
  shows "moves P (recover_operation K E M r o') (counts (Suc k) b c d e)"
proof (cases "processor_for K E M (op_kind o')")
  case None
  with assms(3) show ?thesis by (auto simp: recover_operation_def counts_def intro!: mv_return)
next
  case (Some f)
  have claimed: "moves P (w_bind (maintenance_now E M) (\<lambda>t. w_bind (control E (claim_recovery (ClaimRecovery (op_scope o') (op_id o') (op_version o')
      (en_ownerId E) t (maintenance_until E M t) (Some (op_kind o'))))) f)) anything"
    by (intro mv_binds mv_then [OF mv_step] assms(1) mv_processor [OF assms(1,2) Some]) (use st_claim_recovery in blast)
  show ?thesis unfolding recover_operation_def Some option.case
    by (rule mv_attempt [OF claimed]) (use assms(3) in \<open>auto intro!: mv_return simp: counts_def note_error_def\<close>)
qed

lemma mv_expire:
  assumes "orderly P E" and "counts a k c d e r"
  shows "moves P (expire_run_target E M r x) (counts a (Suc k) c d e)"
  unfolding expire_run_target_def using assms(2)
  by (intro mv_attempt [OF mv_expire_command [OF assms(1)]] mv_return) (auto simp: counts_def note_error_def)

lemma mv_deliver_to: "orderly P E \<Longrightarrow> moves P (deliver_to E M e su) anything"
  unfolding deliver_to_def by (auto intro: mv_throw mv_outside split: option.split)

lemma mv_record_attempt: "orderly P E \<Longrightarrow> moves P (record_attempt E M e su k err) anything"
  unfolding record_attempt_def by (intro mv_binds mv_step) (use st_record_delivery in blast)+

lemma mv_deliver_all:
  assumes "orderly P E" and "counts a b n d e r" and "n \<le> mt_batchSize M"
  shows "moves P (deliver_all E M rs ev n r) (\<lambda>(_, m, q, _). counts a b m d e q \<and> m \<le> mt_batchSize M)"
  using assms(2,3)
proof (induction rs arbitrary: ev n r)
  case Nil
  then show ?case by (simp add: mv_return)
next
  case (Cons x rs)
  obtain su k where x: "x = (su, k)" by fastforce
  show ?case
  proof (cases "mt_batchSize M \<le> n")
    case True
    with Cons.prems show ?thesis unfolding x by (simp add: mv_return)
  next
    case False
    with Cons.prems have more: "counts a b (Suc n) d e r" "counts a b (Suc n) d e (note_delivery M i err r)" "Suc n \<le> mt_batchSize M" for i err
      by (auto simp: note_delivery_def counts_def note_error_def split: option.split)
    show ?thesis unfolding x deliver_all.simps if_not_P [OF False] Let_def
      by (intro mv_then [OF mv_attempt [OF mv_deliver_to [OF assms(1)]]] mv_attempt [OF mv_record_attempt [OF assms(1)]])
        (auto intro!: mv_return Cons.IH more)
  qed
qed

lemma mv_claim_event: "orderly P E \<Longrightarrow> moves P (claim_event P E M n e) anything"
  unfolding claim_event_def by (auto intro!: mv_binds mv_then [OF mv_step] mv_return) (use st_claim_outbox in blast)

lemma mv_release_event: "orderly P E \<Longrightarrow> moves P (release_event E M e) anything"
  unfolding release_event_def by (auto intro!: mv_binds mv_then [OF mv_step] mv_return) (use st_release_outbox_claim in blast)

definition delivered_within :: "nat \<Rightarrow> nat \<Rightarrow> nat \<Rightarrow> nat \<Rightarrow> nat \<Rightarrow> nat \<times> report \<Rightarrow> bool" where
  "delivered_within lim a b d e st \<longleftrightarrow> fst st \<le> lim \<and> counts a b (fst st) d e (snd st)"

lemma mv_deliver_event:
  assumes "orderly P E" and "delivered_within (mt_batchSize M) a b d e st"
  shows "moves P (deliver_event P E M st pending) (delivered_within (mt_batchSize M) a b d e)"
proof -
  obtain n r where st: "st = (n, r)" by fastforce
  with assms(2) have n: "counts a b n d e r" "n \<le> mt_batchSize M" by (simp_all add: delivered_within_def)
  show ?thesis unfolding st deliver_event_def Let_def split_beta prod.sel
    by (auto simp: delivered_within_def n intro!: mv_return mv_attempt [OF mv_claim_event [OF assms(1)]]
        mv_bind [OF mv_deliver_all [OF assms(1) n]] mv_attempt [OF mv_release_event [OF assms(1)]] split: option.split)
qed

lemma mv_permit_candidate: "orderly P E \<Longrightarrow> moves P (permit_for_candidate E M tg) anything"
  unfolding permit_for_candidate_def Let_def
  by (auto intro!: mv_binds mv_then [of P "case k of None \<Rightarrow> w_return False | Some pm \<Rightarrow> f pm" for k f] mv_return mv_ask mv_step split: option.split)
    (use st_claim_candidate_collection in blast)+

lemma mv_permit_submission: "orderly P E \<Longrightarrow> moves P (permit_for_submission E M tg) anything"
  unfolding permit_for_submission_def Let_def
  by (auto intro!: mv_binds mv_then [of P "case k of None \<Rightarrow> w_return False | Some pm \<Rightarrow> f pm" for k f] mv_return mv_ask mv_step split: option.split)
    (use st_claim_submission_collection in blast)+

lemma mv_delete_candidate: "orderly P E \<Longrightarrow> moves P (delete_candidate E M b pm) anything"
  unfolding delete_candidate_def
  by (intro mv_binds mv_step) (auto simp: sbind_eq_Inr, blast intro: st_complete_candidate_collection)

lemma mv_delete_submission: "orderly P E \<Longrightarrow> moves P (delete_submission E M b pm) anything"
  unfolding delete_submission_def
  by (intro mv_then [of P "case k of None \<Rightarrow> w_return () | Some f \<Rightarrow> g f" for k g] mv_binds) (auto intro!: mv_return mv_outside split: option.split)

lemma mv_original_binding: "moves P (original_binding x sc) anything"
  unfolding original_binding_def by (intro mv_binds mv_return) simp_all

definition collected_within :: "nat \<Rightarrow> nat \<Rightarrow> nat \<Rightarrow> nat \<Rightarrow> nat \<Rightarrow> collecting \<Rightarrow> bool" where
  "collected_within lim a b c d g \<longleftrightarrow> cg_inspected g \<le> lim \<and> counts a b c d (cg_inspected g) (cg_report g)"

lemma collected_within_note [simp]:
  "collected_within lim a b c d (note_failure M job i x) \<longleftrightarrow> collected_within lim a b c d (fst x)"
  "collected_within lim a b c d (g\<lparr>cg_report := note_error M job i e (cg_report g)\<rparr>) \<longleftrightarrow> collected_within lim a b c d g"
  "collected_within lim a b c d (g\<lparr>cg_jobs := ks\<rparr>) \<longleftrightarrow> collected_within lim a b c d g"
  by (auto simp: collected_within_def note_failure_def split: option.split)

lemma mv_collect_target:
  assumes "moves P claim anything" and "\<And>p. moves P (delete p) anything" and "collected_within (mt_batchSize M) a b c d g"
  shows "moves P (collect_target M key claim delete g) (\<lambda>x. collected_within (mt_batchSize M) a b c d (fst x))"
proof -
  have "collected_within (mt_batchSize M) a b c d (inspect_target k g)" "collected_within (mt_batchSize M) a b c d (spend (inspect_target k g))"
    "collected_within (mt_batchSize M) a b c d (count_collected (spend (inspect_target k g)))" if "cg_inspected g < mt_batchSize M" for k
    using assms(3) that by (auto simp: collected_within_def counts_def inspect_target_def spend_def count_collected_def)
  then show ?thesis
    using assms(3) by (auto simp: collect_target_def Let_def intro!: mv_return mv_attempt [OF assms(1)] mv_attempt [OF assms(2)] split: sum.split)
qed

lemma mv_collect_candidate:
  "orderly P E \<Longrightarrow> collected_within (mt_batchSize M) a b c d g \<Longrightarrow>
    moves P (collect_candidate E M tg g) (\<lambda>x. collected_within (mt_batchSize M) a b c d (fst x))"
  unfolding collect_candidate_def
  by (rule mv_collect_target) (auto intro!: mv_then [OF mv_original_binding] mv_then [OF mv_permit_candidate] mv_return mv_delete_candidate)

lemma mv_collect_submission:
  "orderly P E \<Longrightarrow> collected_within (mt_batchSize M) a b c d g \<Longrightarrow>
    moves P (collect_submission E M tg g) (\<lambda>x. collected_within (mt_batchSize M) a b c d (fst x))"
  unfolding collect_submission_def
  by (rule mv_collect_target) (auto intro!: mv_then [OF mv_original_binding] mv_then [OF mv_permit_submission] mv_return mv_delete_submission)

lemma mv_cleanup_targets:
  assumes "orderly P E" and "collected_within (mt_batchSize M) a b c d (fst st)"
  shows "moves P (for_each (cleanup_candidate E M) xs st) (\<lambda>x. collected_within (mt_batchSize M) a b c d (fst x))"
    and "moves P (for_each (cleanup_submission E M) ys st) (\<lambda>x. collected_within (mt_batchSize M) a b c d (fst x))"
  using assms(2) unfolding cleanup_candidate_def cleanup_submission_def
  by - (rule mv_for_each [where I = "\<lambda>_ x. collected_within (mt_batchSize M) a b c d (fst x)"],
      auto intro!: mv_bind [OF mv_collect_candidate [OF assms(1)]] mv_bind [OF mv_collect_submission [OF assms(1)]] mv_return)+

lemma mv_claim_job: "orderly P E \<Longrightarrow> moves P (claim_job E M n c) anything"
  unfolding claim_job_def
  by (auto intro!: mv_binds mv_then [OF mv_step] mv_then [of P "case k of None \<Rightarrow> w_return k | Some t \<Rightarrow> f t" for k f] mv_return mv_ask split: option.split)
    (use st_claim_cleanup in blast)

lemma mv_finish_job: "orderly P E \<Longrightarrow> moves P (finish_job E M c next failed) anything"
  unfolding finish_job_def Let_def
  by (auto intro!: mv_binds mv_then [OF mv_step] mv_return split: option.split)
    (use st_complete_cleanup st_release_cleanup_claim in blast)+

lemma mv_run_job:
  assumes "orderly P E" and g: "collected_within (mt_batchSize M) a b c d g"
  shows "moves P (run_job E M pending g) (collected_within (mt_batchSize M) a b c (Suc d))"
proof -
  have more: "collected_within (mt_batchSize M) a b c d h \<Longrightarrow> collected_within (mt_batchSize M) a b c (Suc d) h"
    "collected_within (mt_batchSize M) a b c d h \<Longrightarrow>
      collected_within (mt_batchSize M) a b c (Suc d) (h\<lparr>cg_report := (cg_report h)\<lparr>rp_cleaned := Suc (rp_cleaned (cg_report h))\<rparr>\<rparr>)" for h
    by (auto simp: collected_within_def counts_def)
  show ?thesis unfolding run_job_def Let_def split_beta
    by (auto intro!: mv_attempt [OF mv_claim_job [OF assms(1)]] mv_bind [OF mv_cleanup_targets(1) [OF assms(1)]]
        mv_bind [OF mv_cleanup_targets(2) [OF assms(1)]] mv_attempt [OF mv_finish_job [OF assms(1)]] mv_return g intro: more)
qed

lemma mv_collect_work:
  assumes "orderly P E" and "collected_within (mt_batchSize M) a b c d g"
  shows "moves P (collect_work E M x g) (collected_within (mt_batchSize M) a b c (Suc d))"
proof -
  have more: "collected_within (mt_batchSize M) a b c d h \<Longrightarrow> collected_within (mt_batchSize M) a b c (Suc d) h" for h
    by (auto simp: collected_within_def counts_def)
  show ?thesis using assms(2)
    by (auto simp: collect_work_def intro!: mv_bind [OF mv_collect_candidate [OF assms(1)]] mv_bind [OF mv_collect_submission [OF assms(1)]]
        mv_binds mv_run_job [OF assms(1)] mv_return more split: collection_work.split)
qed

lemma mv_scan:
  assumes "orderly P E" and "collected_within (mt_batchSize M) a b c d g"
  shows "moves P (scan E M n g) (collected_within (mt_batchSize M) a b c (d + n))"
  using assms(2)
proof (induction n arbitrary: d g)
  case 0
  then show ?case by (simp add: mv_return)
next
  case (Suc n)
  have more: "collected_within (mt_batchSize M) a b c (d + k) g" for k
    using Suc.prems by (auto simp: collected_within_def counts_def)
  have work: "moves P (case x of None \<Rightarrow> w_return g | Some y \<Rightarrow> collect_work E M y g) (collected_within (mt_batchSize M) a b c (Suc d))" for x
    using mv_collect_work [OF assms(1) Suc.prems] more [of 1] by (auto intro: mv_return split: option.split)
  show ?case
    using Suc.IH [of "Suc d"] more [of "Suc n"]
    by (auto intro!: mv_return mv_binds mv_then [OF mv_step [OF assms(1)]] mv_bind [OF work]) (use st_next_collection_work in blast)
qed

lemma listed_within:
  "list_recoverable_operations s t (int b) ks = Inr os \<Longrightarrow> length os \<le> b"
  "list_expired_active_runs s t (int b) c = Inr (rs, d) \<Longrightarrow> length rs \<le> b"
  by (auto simp: list_recoverable_operations_def list_expired_active_runs_def sbind_eq_Inr Let_def)

lemma mv_tick:
  assumes E: "orderly P E" and "orderly_processors P M"
  shows "moves P (tick P E M) (counts (mt_batchSize M) (mt_batchSize M) (mt_batchSize M) (3 * mt_batchSize M) (mt_batchSize M))"
proof -
  let ?b = "mt_batchSize M"
  let ?start = "\<lambda>r. \<lparr>cg_budget = ?b, cg_inspected = 0, cg_attempted = [], cg_jobs = [], cg_report = r\<rparr>"
  have recover: "moves P (for_each (recover_operation P E M) os new_report) (counts ?b 0 0 0 0)" if "length os \<le> ?b" for os
  proof (rule mv_weaken)
    show "moves P (for_each (recover_operation P E M) os new_report) (counts (0 + length os) 0 0 0 0)"
      by (rule mv_for_each [where I = "\<lambda>k. counts k 0 0 0 0", OF mv_recover [OF assms]]) (simp_all add: counts_def new_report_def)
  qed (use that in \<open>auto intro: counts_more\<close>)
  have expire: "moves P (for_each (expire_run_target E M) rs r) (counts ?b ?b 0 0 0)" if "length rs \<le> ?b" "counts ?b 0 0 0 0 r" for rs r
  proof (rule mv_weaken)
    show "moves P (for_each (expire_run_target E M) rs r) (counts ?b (0 + length rs) 0 0 0)"
      by (rule mv_for_each [where I = "\<lambda>k. counts ?b k 0 0 0", OF mv_expire [OF E]]) (use that(2) in simp_all)
  qed (use that in \<open>auto intro: counts_more\<close>)
  have deliver: "moves P (for_each (deliver_event P E M) es (0, r)) (delivered_within ?b ?b ?b 0 0)" if "counts ?b ?b 0 0 0 r" for es r
    using mv_for_each [where I = "\<lambda>_. delivered_within ?b ?b ?b 0 0" and f = "deliver_event P E M" and s = "(0, r)", OF mv_deliver_event [OF E]] that
    by (simp add: delivered_within_def)
  have collect: "moves P (scan E M (3 * ?b) (?start (snd st))) (collected_within ?b ?b ?b ?b (3 * ?b))" if "delivered_within ?b ?b ?b 0 0 st" for st
    using mv_scan [OF E, of M ?b ?b ?b 0 "?start (snd st)" "3 * ?b"] that counts_more [of ?b ?b "fst st" 0 0 "snd st" ?b ?b ?b 0 0]
    by (simp add: collected_within_def delivered_within_def)
  have operations: "moves P (ask E (\<lambda>s. list_recoverable_operations s t (int ?b) ks)) (\<lambda>os. length os \<le> ?b)"
    and runs: "moves P (ask E (\<lambda>s. list_expired_active_runs s t (int ?b) None)) (\<lambda>x. length (fst x) \<le> ?b)"
    and events: "moves P (ask E (\<lambda>s. list_pending_outbox s t (int ?b))) anything" for t ks
    by (rule mv_ask [OF E], auto dest: listed_within)+
  show ?thesis unfolding tick_def Let_def split_beta
    by (intro mv_then [OF mv_maintenance_now] mv_bind [OF operations] mv_bind [OF runs] mv_bind [OF events] mv_bind [OF recover] mv_bind [OF expire]
        mv_bind [OF deliver] mv_bind [OF collect] mv_return)
      (auto simp: collected_within_def intro: counts_more)
qed

lemma orderly_restores:
  assumes "orderly P E" and "mt_recoveryProcessors M = [(KRestore, restore_processor K E S)]"
  shows "orderly_processors P M"
  unfolding orderly_processors_def assms(2) restore_processor_def
  by (auto intro!: mv_binds mv_process_restore assms(1))

text \<open>C9: A maintenance tick, with the processors the server registers, makes only steps of the store, however it
  ends; and it recovers, expires, delivers and collects no more than its batch size, and completes no more
  than three cleanups for each.\<close>

theorem maintenance_tick_bounded:
  assumes "\<forall>n s. run_of P s (en_others E n s)" and "mt_recoveryProcessors M = [(KRestore, restore_processor K E S)]" and "tick P E M w = (v, r)"
  shows "run_of P (wd_catalog w) (wd_catalog v) \<and>
    (case r of Inl _ \<Rightarrow> True
     | Inr p \<Rightarrow> rp_recovered p \<le> mt_batchSize M \<and> rp_expired p \<le> mt_batchSize M \<and> rp_delivered p \<le> mt_batchSize M \<and>
         rp_collected p \<le> mt_batchSize M \<and> rp_cleaned p \<le> 3 * mt_batchSize M)"
proof -
  have "orderly P E" using assms(1) by (simp add: orderly_def)
  from mv_tick [OF this orderly_restores [OF this assms(2)]] assms(3) show ?thesis
    unfolding moves_def by (force simp: counts_def split: sum.split)
qed

section \<open>What is deleted\<close>

lemma control_returns: "control E f w = (v, Inr a) \<Longrightarrow> \<exists>s. f s = Inr (a, wd_catalog v)"
  by (auto simp: control_def turn_def Let_def split: reply.splits sum.splits)

lemma ask_returns: "ask E q w = (v, Inr a) \<Longrightarrow> q (wd_catalog v) = Inr a"
  unfolding ask_def by (auto simp: sbind_eq_Inr dest!: control_returns)

definition fenced_off :: "catalog \<Rightarrow> collection_permit \<Rightarrow> bool" where
  "fenced_off s pm \<longleftrightarrow> (\<exists>k. tbl_load (c_candidate s) (cq_candidateId pm) (Some (of_bs (cq_scope pm))) = Some k \<and>
     cr_collection k = Some pm \<and> cd_scope (cr_identity k) = cq_scope pm \<and> collectable s k)"

lemma claimed_fenced_off:
  assumes "claim_candidate_collection i s = Inr (pm, t)"
  shows "fenced_off t pm"
proof -
  have ref: "same_reference (k\<lparr>cr_collection := x\<rparr>) l = same_reference k l" for k x l
    by (simp add: same_reference_def)
  have "migration_retains (s\<lparr>c_candidate := u\<rparr>) (k\<lparr>cr_collection := x\<rparr>) = migration_retains s k" for u k x
    by (rule ext) (simp add: migration_retains_def ref Let_def split: option.split)
  then have same: "collectable (s\<lparr>c_candidate := u\<rparr>) (k\<lparr>cr_collection := x\<rparr>) = collectable s k" for u k x
    by (simp add: collectable_def history_retains_def run_retains_def operation_retains_def candidate_writing_def same_reference_def)
  from assms show ?thesis
    by (auto simp: claim_candidate_collection_def txn_simps Let_def fenced_off_def same matches_of_ws)
qed

lemma permit_fenced_off:
  assumes "permit_for_candidate E M tg w = (v, Inr pm)"
  shows "fenced_off (wd_catalog v) pm"
  using assms
  by (auto simp: permit_for_candidate_def Let_def returns fenced_off_def verify_collection_permit_def split: option.splits if_splits
      dest!: ask_returns control_returns claimed_fenced_off)


section \<open>Samples\<close>

text \<open>A tick over a catalog with one run whose lease has lapsed: it expires the run, delivers the event to nobody and completes the
  cleanup the run leaves.\<close>

definition keeper_environment :: environment where
  "keeper_environment = (sample_environment (\<lambda>_. Delivered))\<lparr>en_clock := (\<lambda>_. Some (''2026-03-01'')),
     en_until := (\<lambda>_ _. ''2027-01-01'')\<rparr>"

definition x_keeper :: maintainer where
  "x_keeper = \<lparr>mt_clock = None, mt_batchSize = 1, mt_claimTtlMs = 1, mt_retryDelayMs = 1, mt_deliver = None, mt_revisionStore = None,
     mt_submissionStore = None, mt_deleteCollectible = (\<lambda>_ _ _. Inr ()), mt_collect = (\<lambda>_ _ _. Inr ()),
     mt_recoveryProcessors = [(KRestore, restore_processor x_platform keeper_environment x_restorer)], mt_message = (\<lambda>_. [])\<rparr>"

lemmas keeper_eval = tick_def recovered_kinds_def maintenance_now_def maintenance_until_def expire_run_target_def expire_command_def attempt_def
  collect_work_def note_failure_def x_keeper_def keeper_environment_def new_report_def list_recoverable_operations_def list_expired_active_runs_def
  list_pending_outbox_def outbox_due_def next_collection_work_def lane_work_def scan_row_def after_cursor_def scan_key_def submission_scan_row_def
  cleanup_due_def check_limit_def limit_ok_def safe_integer_def write_maintenance_def deliver_event_def claim_event_def claim_outbox_def recipients_snapshot_def delivered_outbox_def save_outbox_def workspace_scope_json_def sort_pairs_def release_event_def freeze_recipients_def is_legacy_push_def legacy_representations_def
  canonical_representation_def with_canonical_def subscriptions_of_def representation_recipient_def write_recipients_def write_outbox_def write_cleanup_def
  run_job_def job_key_def claim_job_def claim_cleanup_def finish_job_def get_cleanup_targets_def no_targets_def target_cursor_def complete_cleanup_def
  finished_cleanup_def running_cleanup_def cleanup_claimed_def claim_held_def claim_lapsed_def advanced_claim_def w_lift_def valid_claim_def
  cleanup_candidate_rows_def cleanup_submission_rows_def set_cursor_def

definition kept :: "world \<times> (failure + report)" where
  "kept = tick x_platform keeper_environment x_keeper \<lparr>wd_catalog = x_open, wd_calls = 0\<rparr>"





lemma scan_3: "scan E M 3 = scan E M (Suc (Suc (Suc 0)))"
  by (simp add: numeral_3_eq_3)

lemma kept_expired: "\<exists>p. snd kept = Inr p \<and> rp_expired p = 1 \<and> rp_cleaned p = 1 \<and> rp_errors p = []"
  by (simp add: kept_def keeper_eval work_eval scan_3 expired_run_def expire_active_run_def x_eval)

theorem maintenance_tick_bounded_witness:
  "\<exists>p. snd kept = Inr p \<and> rp_expired p = 1 \<and> rp_cleaned p = 1 \<and> rp_cleaned p \<le> 3 * mt_batchSize x_keeper \<and>
    run_of x_platform x_open (wd_catalog (fst kept))"
proof -
  obtain v p where p: "tick x_platform keeper_environment x_keeper \<lparr>wd_catalog = x_open, wd_calls = 0\<rparr> = (v, Inr p)" "rp_expired p = 1 \<and> rp_cleaned p = 1"
    using kept_expired unfolding kept_def by (metis prod.collapse)
  have "\<forall>n s. run_of x_platform s (en_others keeper_environment n s)" by (simp add: keeper_environment_def sample_environment_def)
  moreover have "mt_recoveryProcessors x_keeper = [(KRestore, restore_processor x_platform keeper_environment x_restorer)]"
    by (simp add: x_keeper_def)
  ultimately show ?thesis using maintenance_tick_bounded [OF _ _ p(1)] p by (simp add: kept_def)
qed

text \<open>The candidate of a finalization that lost against another: nothing needs it any more.\<close>

lemma permit_given:
  "\<exists>v pm. permit_for_candidate keeper_environment x_keeper (CandidateTarget x_candidate (Some x_prepared) None None) \<lparr>wd_catalog = x_conflicted, wd_calls = 0\<rparr> = (v, Inr pm) \<and>
    cq_candidateId pm = pp_candidateId x_prepared \<and> cq_scope pm = pp_scope x_prepared"
  unfolding x_conflicted_def
  by (simp add: permit_for_candidate_def keeper_eval work_eval after_def claim_candidate_collection_def fail_finalization_def collection_eval x_eval)


end
