(* ===== verification/Cv_Transferred.thy ===== *)
theory Cv_Transferred
  imports Cv_Transfer Cv_Maintained
begin

text \<open>
  What a storage migration guarantees, whatever the other actors do, whichever answers are lost and whatever
  the stores and the backup hold: it makes only steps of the store, and what it reports is a migration that
  the catalog keeps as complete.
\<close>

section \<open>Only steps of the store\<close>

lemma mv_each: "(\<And>s x. moves P (f s x) anything) \<Longrightarrow> moves P (for_each f xs s) anything"
  by (induction xs arbitrary: s) (auto intro!: mv_return mv_then)

lemma mv_retained_pages: "orderly P E \<Longrightarrow> moves P (retained_pages E k sc cursor) anything"
  by (induction k arbitrary: cursor) (auto intro!: mv_throw mv_return mv_then [OF mv_ask] mv_then [of P "retained_pages E k sc c" for k c] split: option.split)

lemma mv_retained: "orderly P E \<Longrightarrow> moves P (retained_revisions E F sc) anything"
  unfolding retained_revisions_def by (rule mv_retained_pages)

lemma mv_retained_source: "orderly P E \<Longrightarrow> moves P (retained_source K E F p v) anything"
  unfolding retained_source_def Let_def by (intro mv_binds mv_return) simp_all

lemma mv_hand_out: "orderly P E \<Longrightarrow> moves P (hand_out E R p sc ps out) anything"
  by (induction ps arbitrary: out) (auto intro!: mv_return mv_binds)

lemma mv_retained_file: "orderly P E \<Longrightarrow> moves P (retained_file K E F p v src path) anything"
  unfolding retained_file_def Let_def split_beta by (intro mv_binds mv_then [OF mv_hand_out] mv_return) simp_all

lemma mv_inspect: "orderly P E \<Longrightarrow> moves P (inspect_history K E F p sc) anything"
  unfolding inspect_history_def inspect_revision_def
  by (intro mv_binds mv_then [OF mv_retained] mv_then [OF mv_each] mv_then [OF mv_retained_source] mv_each mv_then [OF mv_retained_file] mv_return) simp_all

lemma mv_consume: "orderly P E \<Longrightarrow> moves P (consume K E R e chunks) anything"
  unfolding consume_def split_beta by (intro mv_then [OF mv_each] mv_outside mv_lift)

lemma mv_verify_target: "orderly P E \<Longrightarrow> moves P (verify_target K E F c src) anything"
  unfolding verify_target_def Let_def by (intro mv_binds mv_each mv_consume) simp_all

lemma mv_verify_backup: "orderly P E \<Longrightarrow> moves P (verify_migration_backup K E F m w vs sha) anything"
  unfolding verify_migration_backup_def verify_backup_revision_def Let_def by (intro mv_binds mv_then [OF mv_each] mv_each mv_consume) simp_all

lemma mv_cas: "moves P (migration_cas_of E m) anything"
  unfolding migration_cas_of_def by (intro mv_binds mv_return) simp

lemma mv_renew_migration: "orderly P E \<Longrightarrow> moves P (renew_migration E m) anything"
  unfolding renew_migration_def by (intro mv_binds mv_step) (use st_renew_storage_migration_claim in blast)+

lemma mv_migration_ticks: "orderly P E \<Longrightarrow> moves P (renew_migration_ticks E k m) anything"
  by (induction k arbitrary: m) (auto intro!: mv_return mv_attempt [OF mv_renew_migration])

lemma mv_io: "orderly P E \<Longrightarrow> moves P job anything \<Longrightarrow> moves P (migration_io E m job) anything"
  unfolding migration_io_def split_beta
  by (auto intro!: mv_attempt mv_then [OF mv_migration_ticks] mv_return mv_throw split: option.split)

lemma mv_capture: "orderly P E \<Longrightarrow> moves P (capture_catalog K E F m) anything"
  unfolding capture_catalog_def split_beta
  by (intro mv_then [OF mv_cas] mv_then [OF mv_step] mv_binds mv_return) (use st_begin_capture in blast)+

lemma mv_check_backup: "orderly P E \<Longrightarrow> moves P (check_backup K E F w vs m) anything"
  unfolding check_backup_def split_beta
  by (intro mv_then [OF mv_io] mv_then [OF mv_capture] mv_verify_backup mv_return) simp_all

lemma mv_new_id: "moves P (new_id E k) anything"
  by (auto simp: moves_def new_id_def)

lemma mv_command: "moves P (command_for K E k p key body sc rid) anything"
  unfolding command_for_def by (intro mv_binds mv_then [OF mv_new_id] mv_return) simp_all

lemma mv_new_target: "orderly P E \<Longrightarrow> moves P (new_target E F sc r w) anything"
  unfolding new_target_def by (intro mv_binds mv_then [OF mv_new_id] mv_return) simp_all

lemma mv_selected: "orderly P E \<Longrightarrow> moves P (selected_history K E F p sc r w known) anything"
  unfolding selected_history_def split_beta
  by (auto intro!: mv_then [OF mv_retained] mv_then [OF mv_inspect] mv_then [OF mv_new_target] mv_binds mv_return split: option.split)

lemma mv_take_over: "orderly P E \<Longrightarrow> moves P (take_over E m) anything"
  unfolding take_over_def
  by (auto intro!: mv_then [of P "w_bind m f" for m f] mv_return mv_binds mv_then [OF mv_return] mv_step)
    (use st_claim_storage_migration_recovery in blast)+

lemma mv_back_up: "orderly P E \<Longrightarrow> moves P (back_up K E F p dir w vs m) anything"
  unfolding back_up_def archive_one_def Let_def split_beta
  by (intro mv_then [OF mv_io] mv_then [OF mv_each] mv_capture mv_then [OF mv_retained_source] mv_binds mv_then [OF mv_cas] mv_step mv_return mv_outside)
    (use st_complete_migration_backup in blast)+

lemma mv_copy_identity: "moves P (copy_identity E m v) anything"
  unfolding copy_identity_def by (auto intro!: mv_return mv_then [OF mv_new_id] mv_binds split: option.split)

lemma mv_prepare_copy: "orderly P E \<Longrightarrow> moves P (prepare_copy K E F ident src) anything"
  unfolding prepare_copy_def
  by (auto intro!: mv_binds mv_then [of P "case k of None \<Rightarrow> m | Some c \<Rightarrow> w_return c" for k m] mv_then [OF mv_verify_target] mv_return mv_outside split: option.split)

lemma mv_copy_revision: "orderly P E \<Longrightarrow> moves P (copy_revision P E F p m v) anything"
  unfolding copy_revision_def split_beta
  by (auto intro!: mv_return mv_then [OF mv_copy_identity] mv_then [OF mv_cas] mv_binds mv_then [OF mv_step] mv_then [OF mv_retained_source]
      mv_then [OF mv_io] mv_prepare_copy)
    (use st_claim_migration_candidate st_record_verified_revision_copy in blast)+

lemma mv_check_copy: "orderly P E \<Longrightarrow> moves P (check_copy K E F p vs m c) anything"
  unfolding check_copy_def split_beta
  by (intro mv_then [OF mv_io] mv_binds mv_then [OF mv_retained_source] mv_verify_target mv_return) simp_all

lemma mv_switch_over: "orderly P E \<Longrightarrow> moves P (switch_over P E p w m) anything"
  unfolding switch_over_def by (intro mv_then [OF mv_cas] mv_binds mv_step) (use st_switch_storage_binding in blast)+

lemma mv_read_migration: "orderly P E \<Longrightarrow> moves P (read_migration E sc mid) anything"
  unfolding read_migration_def by (rule mv_ask) simp_all

lemma mv_lost_track: "orderly P E \<Longrightarrow> moves P (lost_track E sc mid) anything"
  unfolding lost_track_def by (intro mv_catch mv_read_migration mv_return) simp_all

lemma mv_release_transfer: "orderly P E \<Longrightarrow> moves P (release_transfer E sc mid) anything"
  unfolding release_transfer_def
  by (auto intro!: mv_then [OF mv_lost_track] mv_return mv_binds mv_then [OF mv_cas] mv_catch mv_then [OF mv_step] split: option.split)
    (use st_release_storage_migration_claim in blast)

section \<open>What a transfer reports\<close>

text \<open>Run from a sound catalog in which \<open>A\<close> holds, the program makes only steps of the store, and a result satisfies
  \<open>Q\<close> with the catalog it ends in.\<close>

definition carries :: "platform \<Rightarrow> (catalog \<Rightarrow> bool) \<Rightarrow> 'a work \<Rightarrow> ('a \<Rightarrow> catalog \<Rightarrow> bool) \<Rightarrow> bool" where
  "carries P A m Q \<longleftrightarrow> (\<forall>w v r. m w = (v, r) \<and> sound (wd_catalog w) \<and> A (wd_catalog w) \<longrightarrow>
     run_of P (wd_catalog w) (wd_catalog v) \<and> (\<forall>a. r = Inr a \<longrightarrow> Q a (wd_catalog v)))"

lemma ca_return: "(\<And>s. A s \<Longrightarrow> Q a s) \<Longrightarrow> carries P A (w_return a) Q"
  by (simp add: carries_def w_return_def)

lemma ca_moves: "moves P m B \<Longrightarrow> stable P A \<Longrightarrow> carries P A m (\<lambda>a s. B a \<and> A s)"
  unfolding carries_def moves_def stable_def by blast

lemma ca_weaken: "carries P B m R \<Longrightarrow> (\<And>s. A s \<Longrightarrow> B s) \<Longrightarrow> (\<And>a s. R a s \<Longrightarrow> Q a s) \<Longrightarrow> carries P A m Q"
  unfolding carries_def by blast

lemma ca_attempt:
  assumes "carries P A m B" and "\<And>a. carries P (B a) (f a) Q" and "\<And>e. carries P any (h e) Q"
  shows "carries P A (attempt m f h) Q"
  unfolding carries_def
proof (intro allI impI, elim conjE)
  fix w v r
  assume w: "attempt m f h w = (v, r)" "sound (wd_catalog w)" "A (wd_catalog w)"
  obtain u x where u: "m w = (u, x)" by fastforce
  with assms(1) w(2,3) have m: "run_of P (wd_catalog w) (wd_catalog u)" "\<And>a. x = Inr a \<Longrightarrow> B a (wd_catalog u)" unfolding carries_def by blast+
  then have s: "sound (wd_catalog u)" using w(2) run_sound by blast
  have "run_of P (wd_catalog u) (wd_catalog v) \<and> (\<forall>a. r = Inr a \<longrightarrow> Q a (wd_catalog v))"
  proof (cases x)
    case (Inl e)
    with u w have "h e u = (v, r)" by (simp add: attempt_def)
    with assms(3) s show ?thesis unfolding carries_def by blast
  next
    case (Inr a)
    with u w have "f a u = (v, r)" by (simp add: attempt_def)
    with assms(2) s m(2) [OF Inr] show ?thesis unfolding carries_def by blast
  qed
  with m(1) show "run_of P (wd_catalog w) (wd_catalog v) \<and> (\<forall>a. r = Inr a \<longrightarrow> Q a (wd_catalog v))" by (meson rtranclp_trans)
qed

lemma ca_throw: "carries P A (w_throw e) Q"
  by (simp add: carries_def w_throw_def)

lemma ca_bind: "carries P A m B \<Longrightarrow> (\<And>a. carries P (B a) (f a) Q) \<Longrightarrow> carries P A (w_bind m f) Q"
  unfolding bind_attempt by (erule ca_attempt) (auto intro: ca_throw)

lemma ca_catch: "carries P A m Q \<Longrightarrow> (\<And>e. carries P any (h e) Q) \<Longrightarrow> carries P A (w_catch m h) Q"
  unfolding catch_attempt by (erule ca_attempt) (auto intro: ca_return)

lemma ca_then: "moves P m anything \<Longrightarrow> (\<And>a. carries P any (f a) Q) \<Longrightarrow> carries P any (w_bind m f) Q"
  by (rule ca_bind, rule ca_weaken [OF ca_moves]) simp_all

lemma ca_control:
  assumes "orderly P E" and "\<And>s a t. sound s \<Longrightarrow> f s = Inr (a, t) \<Longrightarrow> run_of P s t \<and> Q a t"
  shows "carries P any (control E f) Q"
  unfolding carries_def
proof (intro allI impI, elim conjE)
  fix w :: world and v r
  let ?s = "en_others E (wd_calls w) (wd_catalog w)"
  assume w: "control E f w = (v, r)" "sound (wd_catalog w)"
  have run: "run_of P (wd_catalog w) ?s" using assms(1) by (simp add: orderly_def)
  then have s: "sound ?s" using w(2) run_sound by blast
  show "run_of P (wd_catalog w) (wd_catalog v) \<and> (\<forall>a. r = Inr a \<longrightarrow> Q a (wd_catalog v))"
  proof (cases "f ?s")
    case (Inl e)
    with w run show ?thesis by (auto simp: control_def turn_def Let_def split: reply.splits)
  next
    case (Inr x)
    then obtain a t where x: "f ?s = Inr (a, t)" by (cases x) auto
    from assms(2) [OF s x] run have "run_of P (wd_catalog w) t" "Q a t" by auto
    with w x run show ?thesis by (auto simp: control_def turn_def Let_def split: reply.splits)
  qed
qed

lemma ca_ask: "orderly P E \<Longrightarrow> (\<And>s a. sound s \<Longrightarrow> q s = Inr a \<Longrightarrow> Q a s) \<Longrightarrow> carries P any (ask E q) Q"
  unfolding ask_def by (rule ca_control) (auto simp: sbind_eq_Inr)

text \<open>The summary is that of a migration the catalog keeps as complete.\<close>

definition reported :: "workspace_scope \<Rightarrow> transfer_summary \<Rightarrow> catalog \<Rightarrow> bool" where
  "reported sc y s \<longleftrightarrow> (\<exists>m. tbl_load (c_migration s) (sy_migrationId y) (Some (of_ws sc)) = Some m \<and> mg_state m = MigComplete \<and> y = summary m)"

lemma complete_migration_final: "mg_next\<^sup>*\<^sup>* m n \<Longrightarrow> mg_state m = MigComplete \<Longrightarrow> n = m"
  by (induction rule: rtranclp_induct) (auto simp: mg_next_def open_migration_def)

lemma stable_reported: "stable P (reported sc y)"
  unfolding stable_def reported_def
  using evolution_load(9) [OF run_evolves] complete_migration_final by blast

lemma read_reported:
  assumes "get_storage_migration s sc mid = Some m" and "sound s" and "mg_state m = MigComplete"
  shows "reported sc (summary m) s"
proof -
  from assms(1) have m: "tbl_load (c_migration s) mid (Some (of_ws sc)) = Some m" by (simp add: get_storage_migration_def)
  moreover have "mg_id m = mid" using m assms(2) by (auto simp: sound_def dest: owned)
  ultimately show ?thesis using assms(3) by (auto simp: reported_def summary_def)
qed

lemma claimed_reported:
  assumes "claim_storage_migration P i s = Inr (m, t)" and "sound s" and "mg_state m = MigComplete"
  shows "reported (km_scope i) (summary m) t"
proof -
  have c: "consistent s" using assms(2) by (simp add: sound_def)
  have "\<exists>r. replayed_migration s (km_scope i) r = Some m \<and> t = s"
    using assms(1,3) by (auto simp: claim_storage_migration_def Let_def txn_simps new_migration_def split: option.splits)
  then obtain r where r: "replayed_migration s (km_scope i) r = Some m" "t = s" by blast
  then obtain j where "tbl_load (c_migration s) j (Some (of_ws (km_scope i))) = Some m"
    using in_tbl_all [of "c_migration s" m "Some (of_ws (km_scope i))"] c
    by (auto simp: replayed_migration_def find_Some_iff consistent_def catalog_wf_def split: option.splits operation_result.splits)
  moreover from this have "mg_id m = j" using c by (auto dest: owned)
  ultimately show ?thesis using assms(3) r(2) by (auto simp: reported_def summary_def)
qed

text \<open>What a program found out about a migration is kept while others work.\<close>

definition done_or_open :: "workspace_scope \<Rightarrow> migration \<Rightarrow> catalog \<Rightarrow> bool" where
  "done_or_open sc m s \<longleftrightarrow> (mg_state m = MigComplete \<longrightarrow> reported sc (summary m) s)"

lemma stable_done: "stable P (done_or_open sc m)"
  using stable_reported by (auto simp: done_or_open_def stable_def)

lemma ca_claim:
  assumes "orderly P E"
  shows "carries P any (claim_transfer P E F i r) (\<lambda>x. done_or_open (ti_scope i) (snd (snd x)))"
  unfolding claim_transfer_def Let_def split_beta
  by (intro ca_then [OF mv_authorize] ca_then [OF mv_command] ca_then [OF mv_lift] ca_then [OF mv_ask] ca_then [OF mv_found] ca_then [OF mv_selected]
      ca_then [OF mv_now] ca_bind [OF ca_control [where Q = "\<lambda>m. done_or_open (ti_scope i) m"]] ca_return assms TrueI conjI)
    (auto simp: done_or_open_def intro: step_run [OF st_claim_storage_migration] dest: claimed_reported)

lemma ca_read: "orderly P E \<Longrightarrow> carries P any (read_migration E sc mid) (\<lambda>x s. \<forall>m. x = Some m \<longrightarrow> done_or_open sc m s)"
  unfolding read_migration_def by (rule ca_ask) (auto simp: done_or_open_def dest: read_reported)

lemma ca_report:
  assumes "orderly P E" and "mg_state m = MigComplete"
  shows "carries P (done_or_open sc m) (w_bind (hook E) (\<lambda>_. w_return (summary m))) (reported sc)"
  by (rule ca_bind [OF ca_moves [OF mv_hook [OF assms(1)] stable_done]]) (auto intro!: ca_return simp: done_or_open_def assms(2))

lemma passed: "w_bind (w_found (Some a) e) f = f a" "w_bind (w_check True c) g = g ()"
  by (rule ext, simp add: w_bind_def w_found_def w_check_def w_return_def)+

lemma ca_transfer_claimed:
  assumes E: "orderly P E"
  shows "carries P any (transfer_claimed P E F i r w vs m) (reported (ti_scope i))"
proof -
  have prepared: "moves P (if backup_ready q then w_return q else back_up P E F p dir w vs q) anything" for q p dir
    using mv_back_up [OF E] by (auto intro: mv_return)
  have tail: "carries P any (w_bind (read_migration E (ti_scope i) mid) (\<lambda>y. w_bind (w_found y Crash) (\<lambda>z.
      w_bind (w_check (b \<and> mg_state z = MigComplete) PUBLICATION_OUTCOME_UNKNOWN) (\<lambda>_. w_bind (hook E) (\<lambda>_. w_return (summary z))))))
      (reported (ti_scope i))" for mid b
  proof (rule ca_bind [OF ca_read [OF E]])
    fix y
    show "carries P (\<lambda>s. \<forall>m. y = Some m \<longrightarrow> done_or_open (ti_scope i) m s) (w_bind (w_found y Crash) (\<lambda>z.
      w_bind (w_check (b \<and> mg_state z = MigComplete) PUBLICATION_OUTCOME_UNKNOWN) (\<lambda>_. w_bind (hook E) (\<lambda>_. w_return (summary z)))))
      (reported (ti_scope i))"
    proof (cases "\<exists>z. y = Some z \<and> b \<and> mg_state z = MigComplete")
      case True
      then obtain z where z: "y = Some z" "b" "mg_state z = MigComplete" by blast
      with ca_report [OF E z(3)] show ?thesis by (simp add: passed)
    next
      case False
      then show ?thesis
        by (cases y) (auto simp: carries_def w_bind_def w_found_def w_check_def w_return_def w_throw_def)
    qed
  qed
  show ?thesis unfolding transfer_claimed_def Let_def
    by (intro ca_then [OF mv_hook] ca_then [OF mv_lift] ca_then [OF mv_check] ca_then [OF mv_cas] ca_then [OF mv_step] ca_then [OF prepared]
        ca_then [OF mv_check_backup] ca_then [OF mv_outside] ca_then [OF mv_each] ca_then [OF mv_switch_over] mv_copy_revision mv_check_copy tail E)
      (use st_claim_migration_backup in blast)
qed

lemma ca_recover:
  assumes E: "orderly P E"
  shows "carries P any (recover_transfer E sc mid e) (reported sc)"
proof -
  have lost: "carries P any (lost_track E sc mid) (\<lambda>x s. \<forall>m. x = Some m \<longrightarrow> done_or_open sc m s)"
    unfolding lost_track_def by (rule ca_catch [OF ca_read [OF E]]) (simp add: ca_return)
  have out: "carries P any (w_throw f) (reported sc)" "carries P any unknown (reported sc)" for f
    by (simp_all add: unknown_def ca_throw)
  have final: "carries P any (w_bind (migration_cas_of E m) (\<lambda>cas. w_bind (control E (fail_storage_migration (FailMigration cas t))) (\<lambda>_. w_throw f)))
      (reported sc)" for m t f
    by (intro ca_then [OF mv_cas] ca_then [OF mv_step] out E) (use st_fail_storage_migration in blast)
  have given: "carries P any (case e of Fail _ \<Rightarrow> w_throw e | Crash \<Rightarrow> unknown) (reported sc)"
    using out by (cases e) simp_all
  show ?thesis unfolding recover_transfer_def Let_def
  proof (rule ca_bind [OF lost])
    fix x :: "migration option"
    let ?A = "\<lambda>s. \<forall>m. x = Some m \<longrightarrow> done_or_open sc m s"
    have "carries P any (case e of Crash \<Rightarrow> case e of Fail _ \<Rightarrow> w_throw e | Crash \<Rightarrow> unknown
        | Fail code \<Rightarrow> if code \<in> set transfer_failures \<and> pc_ownerId (mg_claim m) = en_ownerId E then
            w_bind (migration_cas_of E m) (\<lambda>cas. w_bind (control E (fail_storage_migration (FailMigration cas (en_message E code)))) (\<lambda>_. w_throw e))
          else case e of Fail _ \<Rightarrow> w_throw e | Crash \<Rightarrow> unknown) (reported sc)" for m
      using given final by (cases e) simp_all
    from ca_weaken [OF this] ca_weaken [OF given]
    show "carries P ?A (case x of None \<Rightarrow> case e of Fail _ \<Rightarrow> w_throw e | Crash \<Rightarrow> unknown
      | Some m \<Rightarrow> if mg_state m = MigComplete then w_return (summary m)
         else case e of Crash \<Rightarrow> case e of Fail _ \<Rightarrow> w_throw e | Crash \<Rightarrow> unknown
         | Fail code \<Rightarrow> if code \<in> set transfer_failures \<and> pc_ownerId (mg_claim m) = en_ownerId E then
             w_bind (migration_cas_of E m) (\<lambda>cas. w_bind (control E (fail_storage_migration (FailMigration cas (en_message E code)))) (\<lambda>_. w_throw e))
           else case e of Fail _ \<Rightarrow> w_throw e | Crash \<Rightarrow> unknown) (reported sc)"
      by (cases x) (simp_all add: ca_return done_or_open_def)
  qed
qed


section \<open>A sample\<close>

text \<open>An operator repeats a migration that is complete: the same key, the same request.\<close>

definition x_operator :: principal where
  "x_operator = Principal (Service ''c1'') ''svc'' (CredentialIdentity ''k1'' ServiceCredential 1) 1 ''2026-01-01''"

definition flat_platform :: platform where
  "flat_platform = Platform (\<lambda>_. ''digest'') (\<lambda>t. t) (\<lambda>t. t) (\<lambda>_. True)"

definition x_target :: storage_binding where
  "x_target = x_binding\<lparr>sb_id := ''b2'', sb_generation := 2, sb_configurationRef := ''other''\<rparr>"

definition x_move :: command_identity where
  "x_move = CommandIdentity (IdempotencyScope ''c1'' ''svc'' KStorageMigrate (Some ''w1'') None) ''key-m'' ''digest'' ''op-m'' ''2026-01-02''"

definition x_migration :: migration where
  "x_migration = \<lparr>mg_id = ''m1'', mg_scope = x_ws, mg_command = x_move, mg_sourceBindingId = ''b1'', mg_sourceBindingGeneration = 1,
     mg_targetBinding = x_target, mg_expectedHeadRevisionId = ''v1'', mg_retainedRevisionSetDigest = ''digest'', mg_state = MigComplete, mg_version = 5,
     mg_claim = ProcessingClaim ''worker'' 1 ''2026-01-03'', mg_copies = [], mg_candidates = [], mg_backup = None, mg_request = None, mg_lastError = None,
     mg_createdAt = ''2026-01-02'', mg_updatedAt = ''2026-01-03'', mg_switchedAt = Some ''2026-01-03''\<rparr>"

definition x_moving :: operation where
  "x_moving = (new_operation x_move x_operator x_ws None (Some (ResStorageMigrate ''m1'' ''b2'' 2)))"

definition x_moved :: catalog where
  "x_moved = empty_catalog\<lparr>c_workspace := [(''w1'', mk_row (of_ws x_ws) None (x_new_workspace\<lparr>ws_storageBindingId := ''b2'', ws_bindingGeneration := 2\<rparr>))],
     c_binding := [(''b2'', mk_row (of_ws x_ws) None x_target)],
     c_operation := [(''op-m'', mk_row (of_ws x_ws) None x_moving)],
     c_migration := [(''m1'', mk_row (of_ws x_ws) None x_migration)],
     c_commands := [((cm_scope x_move, ''key-m''), CommandRow ''digest'' ''op-m'' (VMigration x_migration))],
     c_authority := [(''k1'', mk_row (InCustomer ''c1'') None (x_authority\<lparr>at_grants := map (\<lambda>a. PermissionGrant a ''c1'' None) [WorkspaceMigrate, WorkspaceRead]\<rparr>))],
     c_credential_source := [(''k1'', mk_row (InCustomer ''c1'') None ServiceCredential)]\<rparr>"

lemmas moved_eval = x_moved_def x_moving_def x_migration_def x_move_def x_target_def x_operator_def

lemma sound_x_moved: "sound x_moved"
  by (simp add: moved_eval sound_def consistent_def catalog_wf_def migrations_owned_def migrates_def access_ok_def rows_ok_list record_ok_defs
    authority_ok_def tbl_wf_def row_scope_def live_def intent_ok_def x_eval)

definition x_transferrer :: transferrer where
  "x_transferrer = \<lparr>tf_reader = x_reader, tf_profiles = [StorageProfile ''other'' GitBackend ''git''], tf_pages = 1, tf_inspect = (\<lambda>_ _. Inr None),
     tf_manifest = (\<lambda>_ _. Inl Crash), tf_open = (\<lambda>_ _ _. Inl Crash), tf_capture = (\<lambda>_ _. Inl Crash), tf_archive = (\<lambda>_ _ _ _. Inr ()),
     tf_secrets = (\<lambda>_ _. Inl Crash), tf_save = (\<lambda>_ _ _. Inr ()), tf_receipt = (\<lambda>_ _. Inl Crash), tf_snapshot = (\<lambda>_ _. Inl Crash),
     tf_backupFile = (\<lambda>_ _ _. Inl Crash)\<rparr>"

definition moved_again :: "world \<times> (failure + transfer_summary)" where
  "moved_again = transfer flat_platform (keeper_environment\<lparr>en_newId := (\<lambda>_ _. ''op-m'')\<rparr>)
     (x_transferrer\<lparr>tf_profiles := [StorageProfile ''third'' GitBackend ''git'']\<rparr>)
     (TransferInput x_ws x_operator ''key-m'' (MigrationRequest ''third'' ''/backup'' ''again'')) \<lparr>wd_catalog = x_moved, wd_calls = 0\<rparr>"

lemma moved_again_reported: "\<exists>y. snd moved_again = Inr y \<and> sy_bindingId y = ''b2''"
  by (simp add: moved_again_def transfer_def claim_transfer_def selected_history_def inspect_history_def retained_revisions_def x_transferrer_def
    work_eval keeper_environment_def w_lift_def command_for_def new_id_def canonical_request_digest_def request_json_def resource_json_def transfer_json_def
    resolved_request_def migration_id_of_def digest_of_def idempotency_scope_json_def flat_platform_def sort_pairs_def blank_def js_length_def
    is_absolute_def json_option_def code_units_def new_target_def list_revisions_def tbl_page_def retained_revision_set_digest_def claim_storage_migration_def replayed_migration_def
    get_storage_migration_def summary_def given_id_def check_limit_def limit_ok_def safe_integer_def get_workspace_def get_binding_def moved_eval x_eval)


end
