(* ===== verification/Cv_Scheduler.thy ===== *)
theory Cv_Scheduler
  imports Cv_Prelude
begin

text \<open>
  The scheduler of \<open>WorkspaceMaintenance\<close> (\<open>src/application/maintenance/index.ts\<close>: \<open>runOnce\<close>, \<open>start\<close>,
  \<open>stop\<close>) as a machine whose steps are the pieces of code the event loop runs without interruption. A fired
  timer joins the tick in flight, or begins one; when that tick has settled, its \<open>finally\<close> arms the next
  timer. \<open>sd_timer\<close> is the field \<open>timer\<close>, \<open>sd_armed\<close> the timers that will still fire, \<open>sd_joined\<close> counts the
  fired timers that wait for the tick in flight, \<open>sd_settled\<close> those whose tick is over and whose \<open>finally\<close>
  has yet to run, and \<open>sd_ticks\<close> the ticks in flight.
\<close>

record scheduler =
  sd_stopped :: bool
  sd_running :: bool
  sd_timer :: "nat option"
  sd_armed :: "nat list"
  sd_next :: nat
  sd_joined :: nat
  sd_settled :: nat
  sd_ticks :: nat

definition new_scheduler :: scheduler where
  "new_scheduler = \<lparr>sd_stopped = True, sd_running = False, sd_timer = None, sd_armed = [], sd_next = 0, sd_joined = 0, sd_settled = 0, sd_ticks = 0\<rparr>"

definition schedule :: "scheduler \<Rightarrow> scheduler" where
  "schedule s = s\<lparr>sd_timer := Some (sd_next s), sd_armed := sd_next s # sd_armed s, sd_next := Suc (sd_next s)\<rparr>"

definition start :: "scheduler \<Rightarrow> scheduler" where
  "start s = (if \<not> sd_stopped s then s else schedule (s\<lparr>sd_stopped := False\<rparr>))"

definition run_once :: "scheduler \<Rightarrow> scheduler" where
  "run_once s = (if sd_running s then s else s\<lparr>sd_running := True, sd_ticks := Suc (sd_ticks s)\<rparr>)"

definition fire :: "nat \<Rightarrow> scheduler \<Rightarrow> scheduler" where
  "fire n s = (let t = run_once (s\<lparr>sd_armed := removeAll n (sd_armed s), sd_timer := None\<rparr>) in t\<lparr>sd_joined := Suc (sd_joined t)\<rparr>)"

definition settle :: "scheduler \<Rightarrow> scheduler" where
  "settle s = s\<lparr>sd_running := False, sd_ticks := sd_ticks s - 1, sd_settled := sd_settled s + sd_joined s, sd_joined := 0\<rparr>"

definition continue_chain :: "scheduler \<Rightarrow> scheduler" where
  "continue_chain s = (let t = s\<lparr>sd_settled := sd_settled s - 1\<rparr> in if sd_stopped t then t else schedule t)"

definition stop :: "scheduler \<Rightarrow> scheduler" where
  "stop s = s\<lparr>sd_stopped := True, sd_timer := None,
     sd_armed := (case sd_timer s of None \<Rightarrow> sd_armed s | Some n \<Rightarrow> removeAll n (sd_armed s))\<rparr>"

text \<open>A client that starts the scheduler again only after the stopped one has drained is patient.\<close>

definition quiesced :: "scheduler \<Rightarrow> bool" where
  "quiesced s \<longleftrightarrow> sd_joined s = 0 \<and> sd_settled s = 0"

inductive sd_step :: "bool \<Rightarrow> scheduler \<Rightarrow> scheduler \<Rightarrow> bool" for patient where
  sd_start: "patient \<longrightarrow> \<not> sd_stopped s \<or> quiesced s \<Longrightarrow> sd_step patient s (start s)"
| sd_run_once: "sd_step patient s (run_once s)"
| sd_fire: "n \<in> set (sd_armed s) \<Longrightarrow> sd_step patient s (fire n s)"
| sd_settle: "sd_running s \<Longrightarrow> sd_step patient s (settle s)"
| sd_continue: "0 < sd_settled s \<Longrightarrow> sd_step patient s (continue_chain s)"
| sd_stop: "sd_step patient s (stop s)"

abbreviation schedules :: "bool \<Rightarrow> scheduler \<Rightarrow> bool" where
  "schedules patient \<equiv> (sd_step patient)\<^sup>*\<^sup>* new_scheduler"

lemmas scheduling = schedule_def start_def run_once_def fire_def settle_def continue_chain_def stop_def quiesced_def Let_def

definition single_flight :: "scheduler \<Rightarrow> bool" where
  "single_flight s \<longleftrightarrow> sd_ticks s = of_bool (sd_running s) \<and> (\<not> sd_running s \<longrightarrow> sd_joined s = 0)"

lemma single_flight_step: "sd_step p s t \<Longrightarrow> single_flight s \<Longrightarrow> single_flight t"
  by (induction rule: sd_step.induct) (auto simp: single_flight_def scheduling)

text \<open>One chain of timers: a timer is armed, or its tick is in flight, or it is about to arm the next.\<close>

definition one_chain :: "scheduler \<Rightarrow> bool" where
  "one_chain s \<longleftrightarrow> single_flight s \<and> (\<forall>n \<in> set (sd_armed s). n < sd_next s) \<and> length (sd_armed s) + sd_joined s + sd_settled s \<le> 1 \<and>
     (sd_stopped s \<longrightarrow> sd_armed s = []) \<and> (sd_armed s \<noteq> [] \<longrightarrow> sd_timer s = Some (hd (sd_armed s)))"

lemma one_chain_step: "sd_step True s t \<Longrightarrow> one_chain s \<Longrightarrow> one_chain t"
proof (induction rule: sd_step.induct)
  case (sd_stop s)
  then show ?case by (cases "sd_armed s") (auto simp: one_chain_def scheduling single_flight_def split: option.splits)
next
  case (sd_fire n s)
  then show ?case by (cases "sd_armed s") (auto simp: one_chain_def scheduling single_flight_def)
next
  case (sd_continue s)
  then show ?case by (cases "sd_armed s") (auto simp: one_chain_def scheduling single_flight_def)
qed (auto simp: one_chain_def scheduling single_flight_def)

text \<open>C36: Ticks never overlap, whatever the order of starts, stops and timers. If the scheduler is started again only
  once it has drained, at most one timer is ever armed, and after a stop none is: no further tick begins.\<close>

theorem ticks_never_overlap:
  assumes "schedules p s"
  shows "sd_ticks s \<le> 1 \<and> (p \<longrightarrow> length (sd_armed s) \<le> 1 \<and> (sd_stopped s \<longrightarrow> sd_armed s = []))"
proof -
  from assms have "single_flight s \<and> (p \<longrightarrow> one_chain s)"
  proof (induction rule: rtranclp_induct)
    case base
    then show ?case by (simp add: single_flight_def one_chain_def new_scheduler_def)
  next
    case (step s t)
    then show ?case using single_flight_step one_chain_step by (cases p) auto
  qed
  then show ?thesis by (auto simp: one_chain_def single_flight_def)
qed

theorem ticks_never_overlap_witness: "sd_ticks (fire 0 (start new_scheduler)) \<le> 1"
proof -
  have "sd_step True new_scheduler (start new_scheduler)" by (intro sd_start) (simp add: quiesced_def new_scheduler_def)
  moreover have "sd_step True (start new_scheduler) (fire 0 (start new_scheduler))"
    by (intro sd_fire) (simp add: new_scheduler_def scheduling)
  ultimately have "schedules True (fire 0 (start new_scheduler))" by (meson converse_rtranclp_into_rtranclp rtranclp.rtrancl_refl)
  then show ?thesis using ticks_never_overlap by blast
qed

text \<open>A stop that is not waited for, followed by a start, leaves two chains of timers. The next stop clears one
  timer; the other still fires, and a tick begins after the scheduler was stopped and had drained.\<close>

definition impatient :: scheduler where
  "impatient = stop (continue_chain (continue_chain (settle (fire 1 (start (stop (fire 0 (start new_scheduler))))))))"

lemma tick_after_stop: "schedules False impatient \<and> sd_stopped impatient \<and> quiesced impatient \<and> sd_ticks impatient = 0 \<and>
    (\<exists>n. sd_step False impatient (fire n impatient) \<and> sd_ticks (fire n impatient) = 1)"
proof (intro conjI exI)
  have "schedules False (start new_scheduler)" by (rule r_into_rtranclp) (simp add: sd_start)
  from rtranclp.rtrancl_into_rtrancl [OF this sd_fire [of 0]] have "schedules False (fire 0 (start new_scheduler))"
    by (simp add: new_scheduler_def scheduling)
  from rtranclp.rtrancl_into_rtrancl [OF rtranclp.rtrancl_into_rtrancl [OF this sd_stop] sd_start]
  have "schedules False (start (stop (fire 0 (start new_scheduler))))" by simp
  from rtranclp.rtrancl_into_rtrancl [OF this sd_fire [of 1]]
  have "schedules False (fire 1 (start (stop (fire 0 (start new_scheduler)))))" by (simp add: new_scheduler_def scheduling)
  from rtranclp.rtrancl_into_rtrancl [OF this sd_settle]
  have "schedules False (settle (fire 1 (start (stop (fire 0 (start new_scheduler))))))" by (simp add: new_scheduler_def scheduling)
  from rtranclp.rtrancl_into_rtrancl [OF rtranclp.rtrancl_into_rtrancl [OF this sd_continue] sd_continue]
  have "schedules False (continue_chain (continue_chain (settle (fire 1 (start (stop (fire 0 (start new_scheduler))))))))"
    by (simp add: new_scheduler_def scheduling)
  from rtranclp.rtrancl_into_rtrancl [OF this sd_stop] show "schedules False impatient" by (simp add: impatient_def)
  show "sd_step False impatient (fire 2 impatient)" by (rule sd_fire) (simp add: impatient_def new_scheduler_def scheduling)
qed (simp_all add: impatient_def new_scheduler_def scheduling)

end
