(* ===== verification/Spec2Isabelle.thy ===== *)
theory Spec2Isabelle
  imports Cv_Idempotence Cv_Fences Cv_Permits Cv_Leases Cv_Sealing Cv_Files Cv_Transferred Cv_Scheduler
begin

text \<open>
  A verification development of the ContextVault catalog.
\<close>

text \<open>A successful write to a catalog table never changes what another customer reads.\<close>

theorem write_tenant_isolation:
  assumes "tbl_wf t" and "tbl_write t i sc d ins rid = Inr t'" and "scope_customer q \<noteq> scope_customer sc"
  shows "tbl_load t' j (Some q) = tbl_load t j (Some q)"
  by (rule tbl.other_customers_unchanged [OF assms])

theorem write_tenant_isolation_witness:
  "tbl_load (put_row ''i'' (mk_row (InCustomer ''a'') None (1 :: nat)) []) ''i'' (Some (InCustomer ''b'')) = None"
  using write_tenant_isolation [of "[]" "''i''" "InCustomer ''a''" 1 False None
      "put_row ''i'' (mk_row (InCustomer ''a'') None (1 :: nat)) []" "InCustomer ''b''" "''i''"]
  by (simp add: writable_def tbl_load_def tbl_wf_def)

text \<open>C3: The catalog is well-formed in every state it reaches: from the empty catalog, or any well-formed
  one, every sequence of operations keeps each record under its own id and in the scope it belongs to, and
  every table, claim and grant in order.\<close>

theorem catalog_stays_sound:
  assumes "s = empty_catalog \<or> sound s" and "run_of P s t"
  shows "sound t \<and>
    (\<forall>i sc r. tbl_load (c_run t) i (Some (of_ws sc)) = Some r \<longrightarrow> rn_id r = i \<and> bs_workspace (rn_scope r) = sc) \<and>
    (\<forall>i sc o'. tbl_load (c_operation t) i (Some (of_ws sc)) = Some o' \<longrightarrow> op_id o' = i \<and> op_scope o' = sc) \<and>
    (\<forall>i sc v. tbl_load (c_revision t) i (Some (of_ws sc)) = Some v \<longrightarrow> rv_id v = i \<and> bs_workspace (rv_scope v) = sc)"
proof -
  have "sound t" using assms sound_empty run_sound by blast
  moreover from this have "consistent t" by (simp add: sound_def)
  ultimately show ?thesis by (auto dest: owned)
qed

theorem catalog_stays_sound_witness: "sound x_aborted \<and> (\<exists>r. tbl_load (c_run x_aborted) ''r1'' (Some (of_ws x_ws)) = Some r \<and> rn_id r = ''r1'')"
  using catalog_stays_sound [OF disjI2 [OF sound_x_open] x_abort_run] x_aborted_run by blast

end
